(* ===== verification/Prelude.thy ===== *)
theory Prelude
  imports Main "HOL-Library.Multiset"
begin

text \<open>
  Shared vocabulary of the development: JavaScript's insertion-ordered \<open>Set\<close> and \<open>Map\<close> (with the
  laws their users rely on stated as locales and proved of the list models), decimal printing of
  numbers in template literals, event-driven machines with their invariant rule, and the tree of
  elements that a React render function returns, together with the user actions such a tree
  accepts.
\<close>

named_theorems view_simps \<open>computing the user actions that a rendered tree accepts\<close>
named_theorems machine_defs \<open>definitions of event handlers\<close>

section \<open>Generic lemmas\<close>

lemma find_Some_iff_set: "find P xs = Some x \<Longrightarrow> x \<in> set xs \<and> P x"
  by (induction xs) (auto split: if_splits)

lemma find_None_set: "find P xs = None \<longleftrightarrow> (\<forall>x \<in> set xs. \<not> P x)"
  by (induction xs) auto

lemma find_in_set [intro]: "find P xs = Some x \<Longrightarrow> x \<in> set xs"
  by (simp add: find_Some_iff_set)

lemma find_holds: "find P xs = Some x \<Longrightarrow> P x"
  by (simp add: find_Some_iff_set)

lemma find_filter_unique:
  "distinct (map f xs) \<Longrightarrow> x \<in> set xs \<Longrightarrow> find (\<lambda>y. f y = f x) xs = Some x"
  by (induction xs) (auto dest: image_eqI)

lemma filter_partition_mset:
  "mset (filter P xs) + mset (filter (\<lambda>x. \<not> P x) xs) = mset xs"
  by (induction xs) auto

section \<open>JavaScript sets\<close>

text \<open>
  A JavaScript \<open>Set\<close> iterates in insertion order; \<open>add\<close> of a present element changes nothing,
  \<open>delete\<close> removes it and \<open>size\<close> counts the elements. The model is the list of elements in
  iteration order.
\<close>

type_synonym 'a js_set = "'a list"

definition set_has :: "'a js_set \<Rightarrow> 'a \<Rightarrow> bool" where
  "set_has s x \<longleftrightarrow> x \<in> set s"

definition set_add :: "'a \<Rightarrow> 'a js_set \<Rightarrow> 'a js_set" where
  "set_add x s = (if set_has s x then s else s @ [x])"

definition set_delete :: "'a \<Rightarrow> 'a js_set \<Rightarrow> 'a js_set" where
  "set_delete x s = filter (\<lambda>y. y \<noteq> x) s"

definition set_size :: "'a js_set \<Rightarrow> int" where
  "set_size s = int (length s)"

definition set_toggle :: "'a \<Rightarrow> 'a js_set \<Rightarrow> 'a js_set" where
  "set_toggle x s = (if set_has s x then set_delete x s else set_add x s)"

text \<open>What the components rely on, for any representation of such a set.\<close>

locale ordered_set =
  fixes wf :: "'s \<Rightarrow> bool"
    and elems :: "'s \<Rightarrow> 'a list"
    and has :: "'s \<Rightarrow> 'a \<Rightarrow> bool"
    and add :: "'a \<Rightarrow> 's \<Rightarrow> 's"
    and del :: "'a \<Rightarrow> 's \<Rightarrow> 's"
    and size_of :: "'s \<Rightarrow> int"
  assumes wf_distinct: "wf s \<Longrightarrow> distinct (elems s)"
    and has_elems: "has s x \<longleftrightarrow> x \<in> set (elems s)"
    and size_elems: "size_of s = int (length (elems s))"
    and wf_add: "wf s \<Longrightarrow> wf (add x s)"
    and wf_del: "wf s \<Longrightarrow> wf (del x s)"
    and elems_add: "elems (add x s) = (if has s x then elems s else elems s @ [x])"
    and elems_del: "elems (del x s) = filter (\<lambda>y. y \<noteq> x) (elems s)"
begin

lemma set_add_elems: "set (elems (add x s)) = insert x (set (elems s))"
  by (auto simp: elems_add has_elems)

lemma set_del_elems: "set (elems (del x s)) = set (elems s) - {x}"
  by (auto simp: elems_del)

lemma size_card: "wf s \<Longrightarrow> size_of s = int (card (set (elems s)))"
  by (simp add: size_elems distinct_card wf_distinct)

lemma size_add: "\<not> has s x \<Longrightarrow> size_of (add x s) = size_of s + 1"
  by (simp add: size_elems elems_add)

lemma size_del_le: "size_of (del x s) \<le> size_of s"
  by (simp add: size_elems elems_del)

lemma size_del_has:
  assumes "wf s" "has s x"
  shows "size_of (del x s) = size_of s - 1"
proof -
  have "card (set (elems s) - {x}) = card (set (elems s)) - 1"
    using assms(2) by (simp add: has_elems)
  moreover have "0 < card (set (elems s))"
    using assms(2) by (auto simp: has_elems card_gt_0_iff)
  ultimately show ?thesis
    using assms(1) by (simp add: size_card wf_del set_del_elems)
qed

lemma has_del_add: "wf s \<Longrightarrow> \<not> has s x \<Longrightarrow> elems (del x (add x s)) = elems s"
  by (auto simp: elems_add elems_del has_elems intro!: filter_True)

end

interpretation js: ordered_set distinct "\<lambda>s. s" set_has set_add set_delete set_size
  by unfold_locales (auto simp: set_has_def set_add_def set_delete_def set_size_def)

lemma distinct_set_toggle: "distinct s \<Longrightarrow> distinct (set_toggle x s)"
  by (simp add: set_toggle_def js.wf_add js.wf_del)

lemma set_toggle_has: "set_has (set_toggle x s) y \<longleftrightarrow> (if y = x then \<not> set_has s x else set_has s y)"
  by (auto simp: set_toggle_def set_has_def js.set_add_elems js.set_del_elems)

section \<open>JavaScript maps and objects\<close>

text \<open>
  A \<open>Map\<close> (and an object used as a dictionary with keys that are not integers) iterates in the
  order in which its keys were first inserted; setting a present key keeps its place.
\<close>

type_synonym ('k, 'v) js_map = "('k \<times> 'v) list"

definition map_get :: "('k, 'v) js_map \<Rightarrow> 'k \<Rightarrow> 'v option" where
  "map_get m k = map_of m k"

definition map_has :: "('k, 'v) js_map \<Rightarrow> 'k \<Rightarrow> bool" where
  "map_has m k \<longleftrightarrow> k \<in> fst ` set m"

fun map_set :: "'k \<Rightarrow> 'v \<Rightarrow> ('k, 'v) js_map \<Rightarrow> ('k, 'v) js_map" where
  "map_set k v [] = [(k, v)]"
| "map_set k v ((k', v') # m) = (if k' = k then (k, v) # m else (k', v') # map_set k v m)"

definition map_delete :: "'k \<Rightarrow> ('k, 'v) js_map \<Rightarrow> ('k, 'v) js_map" where
  "map_delete k m = filter (\<lambda>p. fst p \<noteq> k) m"

definition map_size :: "('k, 'v) js_map \<Rightarrow> int" where
  "map_size m = int (length m)"

abbreviation map_wf :: "('k, 'v) js_map \<Rightarrow> bool" where
  "map_wf m \<equiv> distinct (map fst m)"

lemma map_of_map_set: "map_of (map_set k v m) = (map_of m)(k \<mapsto> v)"
  by (induction m) auto

lemma keys_map_set:
  "map fst (map_set k v m) = (if k \<in> set (map fst m) then map fst m else map fst m @ [k])"
  by (induction m rule: map_set.induct) auto

lemma map_wf_map_set: "map_wf m \<Longrightarrow> map_wf (map_set k v m)"
by (subst keys_map_set) auto

lemma map_of_map_delete: "map_of (map_delete k m) = (map_of m)(k := None)"
  by (induction m) (auto simp: map_delete_def)

lemma map_wf_map_delete: "map_wf m \<Longrightarrow> map_wf (map_delete k m)"
  by (induction m) (auto simp: map_delete_def)

lemma map_get_dom: "dom (map_get m) = fst ` set m"
  by (simp add: map_get_def [abs_def] dom_map_of_conv_image_fst)

text \<open>The contract of a dictionary: what its users rely on, over the abstract finite map.\<close>

locale dictionary =
  fixes wf :: "'m \<Rightarrow> bool"
    and lookup :: "'m \<Rightarrow> 'k \<Rightarrow> 'v option"
    and keys :: "'m \<Rightarrow> 'k list"
    and put :: "'k \<Rightarrow> 'v \<Rightarrow> 'm \<Rightarrow> 'm"
    and remove :: "'k \<Rightarrow> 'm \<Rightarrow> 'm"
  assumes wf_keys: "wf m \<Longrightarrow> distinct (keys m)"
    and keys_dom: "wf m \<Longrightarrow> set (keys m) = dom (lookup m)"
    and wf_put: "wf m \<Longrightarrow> wf (put k v m)"
    and wf_remove: "wf m \<Longrightarrow> wf (remove k m)"
    and lookup_put: "wf m \<Longrightarrow> lookup (put k v m) = (lookup m)(k \<mapsto> v)"
    and lookup_remove: "wf m \<Longrightarrow> lookup (remove k m) = (lookup m)(k := None)"
begin

lemma keys_put: "wf m \<Longrightarrow> set (keys (put k v m)) = insert k (set (keys m))"
  by (auto simp: keys_dom wf_put lookup_put)

lemma keys_remove: "wf m \<Longrightarrow> set (keys (remove k m)) = set (keys m) - {k}"
  by (auto simp: keys_dom wf_remove lookup_remove split: if_splits)

lemma lookup_put_other: "wf m \<Longrightarrow> k' \<noteq> k \<Longrightarrow> lookup (put k v m) k' = lookup m k'"
  by (simp add: lookup_put)

lemma lookup_remove_other: "wf m \<Longrightarrow> k' \<noteq> k \<Longrightarrow> lookup (remove k m) k' = lookup m k'"
  by (simp add: lookup_remove)

end

interpretation jsm: dictionary map_wf map_get "map fst" map_set map_delete
  by unfold_locales
    (simp_all add: map_get_dom map_get_def map_of_map_set map_of_map_delete map_wf_map_set
      map_wf_map_delete fun_eq_iff)

section \<open>Grouping\<close>

text \<open>
  The idiom \<open>xs.reduce((acc, x) => { if (!acc[k]) acc[k] = []; acc[k].push(x); return acc; }, {})\<close>: one
  step, and the whole reduction.
\<close>

definition group_push :: "('a \<Rightarrow> 'k) \<Rightarrow> ('k, 'a list) js_map \<Rightarrow> 'a \<Rightarrow> ('k, 'a list) js_map" where
  "group_push key acc x = map_set (key x) ((case map_get acc (key x) of None \<Rightarrow> [] | Some xs \<Rightarrow> xs) @ [x]) acc"

definition group_by :: "('a \<Rightarrow> 'k) \<Rightarrow> 'a list \<Rightarrow> ('k, 'a list) js_map" where
  "group_by key xs = foldl (group_push key) [] xs"

lemma group_by_snoc: "group_by key (xs @ [x]) = group_push key (group_by key xs) x"
  by (simp add: group_by_def)

lemma group_by_wf: "map_wf (group_by key xs)"
  by (induction xs rule: rev_induct)
    (simp_all add: group_by_snoc group_push_def map_wf_map_set, simp add: group_by_def)

lemma group_by_get:
  "map_get (group_by key xs) k = (let here = filter (\<lambda>x. key x = k) xs in if here = [] then None else Some here)"
proof (induction xs rule: rev_induct)
  case Nil
  then show ?case by (simp add: group_by_def map_get_def)
next
  case (snoc x xs)
  show ?case
    using snoc.IH
    by (auto simp: group_by_snoc group_push_def Let_def jsm.lookup_put [OF group_by_wf] split: if_splits)
qed

lemma group_by_keys: "fst ` set (group_by key xs) = key ` set xs"
proof -
  have "fst ` set (group_by key xs) = dom (map_get (group_by key xs))"
    by (simp add: map_get_dom)
  also have "\<dots> = key ` set xs"
    by (auto simp: dom_def group_by_get Let_def filter_empty_conv split: if_splits)
  finally show ?thesis .
qed

lemma group_by_entry:
  "(k, ys) \<in> set (group_by key xs) \<Longrightarrow> ys = filter (\<lambda>x. key x = k) xs \<and> ys \<noteq> []"
  using group_by_get [of key xs k] map_of_eq_Some_iff [OF group_by_wf, of key xs k ys]
  by (auto simp: map_get_def Let_def split: if_splits)

text \<open>Groups that are the fibres of a function together hold each element as often as the list does.\<close>

lemma mset_groups:
  assumes "map_wf gs"
    and "\<And>k. map_option h (map_get gs k) = (let ys = filter (\<lambda>x. key x = k) xs in if ys = [] then None else Some ys)"
  shows "mset (concat (map (\<lambda>g. h (snd g)) gs)) = mset xs"
  using assms
proof (induction gs arbitrary: xs)
  case Nil
  have "filter (\<lambda>x. key x = key (hd xs)) xs = []"
    using Nil.prems(2) [of "key (hd xs)"] by (simp add: map_get_def Let_def split: if_splits)
  then show ?case by (cases xs) auto
next
  case (Cons g gs)
  obtain k v where g: "g = (k, v)" by (cases g)
  have v: "filter (\<lambda>x. key x = k) xs = h v"
    using Cons.prems(2) [of k] g by (simp add: map_get_def Let_def split: if_splits)
  have "mset (concat (map (\<lambda>g. h (snd g)) gs)) = mset (filter (\<lambda>x. key x \<noteq> k) xs)"
  proof (rule Cons.IH)
    show "map_wf gs" using Cons.prems(1) by simp
    fix k'
    have out: "k \<notin> fst ` set gs" using Cons.prems(1) g by simp
    show "map_option h (map_get gs k') =
        (let ys = filter (\<lambda>x. key x = k') (filter (\<lambda>x. key x \<noteq> k) xs) in if ys = [] then None else Some ys)"
    proof (cases "k' = k")
      case True
      then show ?thesis using out by (simp add: map_get_def Let_def map_of_eq_None_iff filter_empty_conv)
    next
      case False
      then have "filter (\<lambda>x. key x = k') (filter (\<lambda>x. key x \<noteq> k) xs) = filter (\<lambda>x. key x = k') xs"
        by (auto intro: filter_cong)
      moreover have "map_get (g # gs) k' = map_get gs k'" using False g by (simp add: map_get_def)
      ultimately show ?thesis using Cons.prems(2) [of k'] by simp
    qed
  qed
  moreover have "mset (h v) + mset (filter (\<lambda>x. key x \<noteq> k) xs) = mset xs"
    using filter_partition_mset [of "\<lambda>x. key x = k" xs] unfolding v .
  ultimately show ?case using g by simp
qed

lemma mset_group_by: "mset (concat (map snd (group_by key xs))) = mset xs"
  using mset_groups [where h = "\<lambda>ys. ys" and key = key and xs = xs, OF group_by_wf [of key xs]] by (simp add: group_by_get option.map_ident)

section \<open>Numbers in template literals\<close>

definition digit :: "nat \<Rightarrow> char" where
  "digit d = ''0123456789'' ! d"

fun nat_str :: "nat \<Rightarrow> string" where
  "nat_str n = (if n < 10 then [digit n] else nat_str (n div 10) @ [digit (n mod 10)])"

declare nat_str.simps [simp del]

definition int_str :: "int \<Rightarrow> string" where
  "int_str i = (if i < 0 then ''-'' @ nat_str (nat (- i)) else nat_str (nat i))"

text \<open>\<open>s.padStart(n, c)\<close> for a one-character pad.\<close>

definition pad_start :: "nat \<Rightarrow> char \<Rightarrow> string \<Rightarrow> string" where
  "pad_start n c s = replicate (n - length s) c @ s"

definition is_digit :: "char \<Rightarrow> bool" where
  "is_digit c \<longleftrightarrow> c \<in> set ''0123456789''"

definition digit_val :: "char \<Rightarrow> nat" where
  "digit_val c = of_char c - 48"

definition str_nat :: "string \<Rightarrow> nat" where
  "str_nat s = foldl (\<lambda>n c. 10 * n + digit_val c) 0 s"

text \<open>\<open>a % b\<close> takes the sign of \<open>a\<close>; \<open>Math.floor(a / b)\<close> is \<open>a div b\<close> for integers.\<close>

definition js_rem :: "int \<Rightarrow> int \<Rightarrow> int" where
  "js_rem a b = sgn a * (\<bar>a\<bar> mod \<bar>b\<bar>)"

lemma js_rem_nonneg [simp]: "0 \<le> a \<Longrightarrow> 0 < b \<Longrightarrow> js_rem a b = a mod b"
  by (cases "a = 0") (simp_all add: js_rem_def sgn_if)

lemma digit_cases: "d < 10 \<Longrightarrow> P 0 \<Longrightarrow> P 1 \<Longrightarrow> P 2 \<Longrightarrow> P 3 \<Longrightarrow> P 4 \<Longrightarrow> P 5 \<Longrightarrow> P 6 \<Longrightarrow> P 7 \<Longrightarrow> P 8 \<Longrightarrow> P 9 \<Longrightarrow> P (d::nat)"
  by (cases "d = 0 \<or> d = 1 \<or> d = 2 \<or> d = 3 \<or> d = 4 \<or> d = 5 \<or> d = 6 \<or> d = 7 \<or> d = 8 \<or> d = 9") auto

lemma digit_val_digit: "d < 10 \<Longrightarrow> digit_val (digit d) = d"
  by (erule digit_cases) (simp_all add: digit_def digit_val_def)

lemma digit_not_colon: "d < 10 \<Longrightarrow> digit d \<noteq> CHR '':''"
  by (erule digit_cases) (simp_all add: digit_def)

lemma str_nat_nat_str: "str_nat (nat_str n) = n"
proof (induction n rule: nat_str.induct)
  case (1 n)
  show ?case
  proof (cases "n < 10")
    case True
    then show ?thesis by (simp add: nat_str.simps [of n] str_nat_def digit_val_digit)
  next
    case False
    with 1 have "foldl (\<lambda>n c. 10 * n + digit_val c) 0 (nat_str (n div 10)) = n div 10"
      by (simp add: str_nat_def)
    with False show ?thesis
      by (simp add: nat_str.simps [of n] str_nat_def digit_val_digit)
  qed
qed

lemma nat_str_no_colon: "CHR '':'' \<notin> set (nat_str n)"
proof (induction n rule: nat_str.induct)
  case (1 n)
  then show ?case
    using digit_not_colon [of n] digit_not_colon [of "n mod 10"]
    by (cases "n < 10") (auto simp: nat_str.simps [of n])
qed

lemma length_nat_str_2: "n < 100 \<Longrightarrow> length (nat_str n) = (if n < 10 then 1 else 2)"
  by (auto simp: nat_str.simps [of n] nat_str.simps [of "n div 10"])

lemma nat_str_inject [simp]: "nat_str m = nat_str n \<longleftrightarrow> m = n"
  by (metis str_nat_nat_str)

text \<open>\<open>s.trim()\<close>, for the white space of one-byte characters.\<close>

definition is_space :: "char \<Rightarrow> bool" where
  "is_space c \<longleftrightarrow> of_char c \<in> {32, 9, 10, 11, 12, 13, 160 :: nat}"

definition trim :: "string \<Rightarrow> string" where
  "trim s = rev (dropWhile is_space (rev (dropWhile is_space s)))"

lemma dropWhile_full: "length (dropWhile P xs) = length xs \<Longrightarrow> dropWhile P xs = xs"
  by (metis append_Nil length_0_conv length_append add_cancel_left_left takeWhile_dropWhile_id)

lemma trim_full: "length (trim s) = length s \<Longrightarrow> trim s = s"
proof -
  let ?d = "dropWhile is_space s"
  assume a: "length (trim s) = length s"
  have "length (dropWhile is_space (rev ?d)) \<le> length ?d" "length ?d \<le> length s"
    by (simp_all add: length_dropWhile_le order_trans [OF length_dropWhile_le])
  then have l: "length ?d = length s" "length (dropWhile is_space (rev ?d)) = length (rev ?d)"
    using a by (simp_all add: trim_def)
  show ?thesis
    unfolding trim_def dropWhile_full [OF l(2)] using dropWhile_full [OF l(1)] by simp
qed

section \<open>Event-driven machines\<close>

text \<open>
  A component is a state and a total step function on events; a run is the fold of the step over
  the events in the order in which they are delivered. An invariant is established at the start
  and kept by every step.
\<close>

definition run :: "('s \<Rightarrow> 'e \<Rightarrow> 's) \<Rightarrow> 's \<Rightarrow> 'e list \<Rightarrow> 's" where
  "run step s es = foldl step s es"

lemma run_Nil [simp]: "run step s [] = s"
  by (simp add: run_def)

lemma run_Cons [simp]: "run step s (e # es) = run step (step s e) es"
  by (simp add: run_def)

lemma run_append: "run step s (es @ fs) = run step (run step s es) fs"
  by (simp add: run_def)

locale event_machine =
  fixes inv :: "'s \<Rightarrow> bool"
    and step :: "'s \<Rightarrow> 'e \<Rightarrow> 's"
  assumes inv_step: "inv s \<Longrightarrow> inv (step s e)"
begin

lemma inv_run: "inv s \<Longrightarrow> inv (run step s es)"
  by (induction es arbitrary: s) (auto intro: inv_step)

end

text \<open>A machine with a quantity that no step changes while a guard on the event holds.\<close>

locale framed_machine = event_machine +
  fixes allowed :: "'e \<Rightarrow> bool"
    and view_of :: "'s \<Rightarrow> 'v"
  assumes frame_step: "inv s \<Longrightarrow> allowed e \<Longrightarrow> view_of (step s e) = view_of s"
begin

lemma frame_run: "inv s \<Longrightarrow> list_all allowed es \<Longrightarrow> view_of (run step s es) = view_of s"
  by (induction es arbitrary: s) (simp_all add: frame_step inv_step)

end

section \<open>Interactive components\<close>

text \<open>
  A rendered component under its user: at each interaction the parent supplies the current
  properties \<open>p\<close>, the user triggers an action, and answers the confirmation dialog if the handler
  opens one. Only actions that the current view offers reach their handler. A handler gives the new
  state and the commands it issues to its parent and the browser, in order.
\<close>

definition interact ::
  "('p \<Rightarrow> 's \<Rightarrow> 'a \<Rightarrow> bool) \<Rightarrow> ('p \<Rightarrow> 's \<Rightarrow> 'a \<times> bool \<Rightarrow> 's \<times> 'c list) \<Rightarrow> 's \<Rightarrow> 'p \<times> 'a \<times> bool \<Rightarrow> 's \<times> 'c list" where
  "interact offered step s e =
     (if offered (fst e) s (fst (snd e)) then step (fst e) s (snd e) else (s, []))"

fun session ::
  "('p \<Rightarrow> 's \<Rightarrow> 'a \<Rightarrow> bool) \<Rightarrow> ('p \<Rightarrow> 's \<Rightarrow> 'a \<times> bool \<Rightarrow> 's \<times> 'c list) \<Rightarrow> 's \<Rightarrow> ('p \<times> 'a \<times> bool) list \<Rightarrow>
     's \<times> 'c list" where
  "session offered step s [] = (s, [])"
| "session offered step s (e # es) =
     (let (s', cs) = interact offered step s e; (s'', ds) = session offered step s' es
      in (s'', cs @ ds))"

lemma session_append:
  "session offered step s (es @ fs) =
     (let (s', cs) = session offered step s es; (s'', ds) = session offered step s' fs in (s'', cs @ ds))"
  by (induction es arbitrary: s) (simp_all add: Let_def split: prod.splits)

text \<open>
  What a component promises while its parent keeps the properties within \<open>ok\<close>: an invariant of its
  state and a promise about every command it issues.
\<close>

locale interactive =
  fixes offered :: "'p \<Rightarrow> 's \<Rightarrow> 'a \<Rightarrow> bool"
    and step :: "'p \<Rightarrow> 's \<Rightarrow> 'a \<times> bool \<Rightarrow> 's \<times> 'c list"
    and ok :: "'p \<Rightarrow> bool"
    and inv :: "'s \<Rightarrow> bool"
    and good :: "'c \<Rightarrow> bool"
  assumes inv_step: "ok p \<Longrightarrow> inv s \<Longrightarrow> offered p s (fst e) \<Longrightarrow> inv (fst (step p s e))"
    and good_step: "ok p \<Longrightarrow> inv s \<Longrightarrow> offered p s (fst e) \<Longrightarrow> list_all good (snd (step p s e))"
begin

lemma session_promise:
  "inv s \<Longrightarrow> list_all (ok \<circ> fst) es \<Longrightarrow>
    inv (fst (session offered step s es)) \<and> list_all good (snd (session offered step s es))"
proof (induction es arbitrary: s)
  case (Cons e es)
  obtain s' cs where i: "interact offered step s e = (s', cs)" by (cases "interact offered step s e")
  have "inv s' \<and> list_all good cs"
    using i Cons.prems inv_step [of "fst e" s "snd e"] good_step [of "fst e" s "snd e"]
    by (auto simp: interact_def split: if_splits)
  then show ?case
    using Cons.IH [of s'] Cons.prems i by (auto split: prod.splits)
qed simp

lemmas session_inv = session_promise [THEN conjunct1]
  and session_good = session_promise [THEN conjunct2]

end

section \<open>Rendered trees\<close>

text \<open>
  The tree of elements returned by a render function. The handlers of an element are the actions
  they perform. Styles are listed where they depend on the state; constant styling is not part of
  the model. \<open>aria\<close> and \<open>title\<close> texts and all literals of the interface, Korean in the source, are
  given in English.
\<close>

datatype 'a attr =
    OnClick 'a
  | OnChange 'a
  | Disabled bool
  | Checked bool
  | Style string string
  | Attr string string

datatype 'a node =
    Txt string
  | Num int
  | El string "'a attr list" "'a node list"

fun handler_of :: "'a attr \<Rightarrow> 'a list" where
  "handler_of (OnClick a) = [a]"
| "handler_of (OnChange a) = [a]"
| "handler_of _ = []"

fun is_disabled :: "'a attr \<Rightarrow> bool" where
  "is_disabled (Disabled b) = b"
| "is_disabled _ = False"

text \<open>The actions that a user can trigger: the handlers of the elements that are not disabled.\<close>

fun offers :: "'a node \<Rightarrow> 'a list" where
  "offers (Txt s) = []"
| "offers (Num i) = []"
| "offers (El t ats kids) =
     (if list_ex is_disabled ats then [] else concat (map handler_of ats)) @
     concat (map offers kids)"

definition offers_all :: "'a node list \<Rightarrow> 'a list" where
  "offers_all ns = concat (map offers ns)"

text \<open>The texts that a tree shows, in document order.\<close>

fun texts :: "'a node \<Rightarrow> string list" where
  "texts (Txt s) = [s]"
| "texts (Num i) = [int_str i]"
| "texts (El t ats kids) = concat (map texts kids)"

definition texts_all :: "'a node list \<Rightarrow> string list" where
  "texts_all ns = concat (map texts ns)"

text \<open>\<open>{cond && <X/>}\<close> in JSX.\<close>

definition shown :: "bool \<Rightarrow> 'a node list \<Rightarrow> 'a node list" where
  "shown c ns = (if c then ns else [])"

lemma offers_all_Nil [view_simps]: "offers_all [] = []"
  by (simp add: offers_all_def)

lemma offers_all_Cons [view_simps]: "offers_all (n # ns) = offers n @ offers_all ns"
  by (simp add: offers_all_def)

lemma offers_all_append [view_simps]: "offers_all (ms @ ns) = offers_all ms @ offers_all ns"
  by (simp add: offers_all_def)

lemma offers_all_shown [view_simps]: "offers_all (shown c ns) = (if c then offers_all ns else [])"
  by (simp add: shown_def offers_all_def)

lemma offers_El [view_simps]:
  "offers (El t ats kids) =
     (if list_ex is_disabled ats then [] else concat (map handler_of ats)) @ offers_all kids"
  by (simp add: offers_all_def)

lemma offers_Txt [view_simps]: "offers (Txt s) = []"
  by simp

lemma offers_Num [view_simps]: "offers (Num i) = []"
  by simp

lemma offers_all_map [view_simps]: "offers_all (map f xs) = concat (map (\<lambda>x. offers (f x)) xs)"
  by (simp add: offers_all_def comp_def)

lemma offers_all_concat [view_simps]: "offers_all (concat nss) = concat (map offers_all nss)"
  by (induction nss) (simp_all add: offers_all_def)

lemma offers_all_if [view_simps]:
  "offers_all (if c then ms else ns) = (if c then offers_all ms else offers_all ns)"
  by simp

declare offers.simps [simp del]

lemma texts_all_Nil [view_simps]: "texts_all [] = []"
  by (simp add: texts_all_def)

lemma texts_all_Cons [view_simps]: "texts_all (n # ns) = texts n @ texts_all ns"
  by (simp add: texts_all_def)

lemma texts_all_append [view_simps]: "texts_all (ms @ ns) = texts_all ms @ texts_all ns"
  by (simp add: texts_all_def)

lemma texts_all_shown [view_simps]: "texts_all (shown c ns) = (if c then texts_all ns else [])"
  by (simp add: shown_def texts_all_def)

lemma texts_El [view_simps]: "texts (El t ats kids) = texts_all kids"
  by (simp add: texts_all_def)

lemma texts_Txt [view_simps]: "texts (Txt s) = [s]"
  by simp

lemma texts_Num [view_simps]: "texts (Num i) = [int_str i]"
  by simp

lemma texts_all_map [view_simps]: "texts_all (map f xs) = concat (map (\<lambda>x. texts (f x)) xs)"
  by (simp add: texts_all_def comp_def)

declare texts.simps [simp del]

text \<open>A child component's tree inside its parent: the child's actions become actions of the parent.\<close>

lemma handler_of_map: "handler_of (map_attr f a) = map f (handler_of a)"
  by (cases a) auto

lemma is_disabled_map: "is_disabled (map_attr f a) = is_disabled a"
  by (cases a) auto

lemma offers_map_node: "offers (map_node f n) = map f (offers n)"
proof (induction n)
  case (El t ats kids)
  have "concat (map offers (map (map_node f) kids)) = map f (concat (map offers kids))"
    using El by (induction kids) auto
  moreover have "concat (map handler_of (map (map_attr f) ats)) = map f (concat (map handler_of ats))"
    by (induction ats) (auto simp: handler_of_map)
  moreover have "list_ex is_disabled (map (map_attr f) ats) = list_ex is_disabled ats"
    by (induction ats) (auto simp: is_disabled_map)
  ultimately show ?case by (simp add: offers.simps)
qed (simp_all add: offers.simps)

lemma offers_all_map_node [view_simps]:
  "offers_all (map (map_node f) ns) = map f (offers_all ns)"
  by (induction ns) (auto simp: offers_all_def offers_map_node)

end
