(* ===== verification/Game_Types.thy ===== *)
theory Game_Types
  imports Prelude
begin

text \<open>
  The data of the game, after \<open>frontend/src/types/game.types.ts\<close> and
  \<open>frontend/src/types/roleConfig.ts\<close>. Identifiers, names and timestamps are strings, numbers are
  integers, an optional or nullable field is an option, a string-literal union is a datatype whose
  constructors are its literals. Field names that several interfaces share carry a prefix.
\<close>

section \<open>JSON\<close>

datatype Json =
    JNull
  | JBool bool
  | JNum int
  | JStr string
  | JArr "Json list"
  | JObj "(string \<times> Json) list"

section \<open>Players, roles and rooms\<close>

datatype TeamColor = RED | BLUE | GREY

text \<open>The teams in the order in which the pages list them.\<close>

fun team_order :: "TeamColor \<Rightarrow> int" where
  "team_order RED = 0"
| "team_order BLUE = 1"
| "team_order GREY = 2"

instantiation TeamColor :: linorder
begin

definition less_eq_TeamColor :: "TeamColor \<Rightarrow> TeamColor \<Rightarrow> bool" where
  "less_eq_TeamColor a b \<longleftrightarrow> team_order a \<le> team_order b"

definition less_TeamColor :: "TeamColor \<Rightarrow> TeamColor \<Rightarrow> bool" where
  "less_TeamColor a b \<longleftrightarrow> team_order a < team_order b"

instance
proof (intro_classes, goal_cases)
  case (4 a b)
  then show ?case by (cases a; cases b) (simp_all add: less_eq_TeamColor_def)
qed (auto simp: less_eq_TeamColor_def less_TeamColor_def)

end

datatype RoomColor = RED_ROOM | BLUE_ROOM

datatype RoomStatus = WAITING | IN_PROGRESS | REVEALING | COMPLETED

record Role =
  role_id :: string
  role_name :: string
  role_nameKo :: "string option"
  role_description :: string
  role_descriptionKo :: "string option"
  role_team :: TeamColor
  role_icon :: "string option"
  isSpy :: bool
  role_isLeader :: bool

record Player =
  player_id :: string
  nickname :: string
  isAnonymous :: bool
  player_roomCode :: string
  isOwner :: bool
  player_role :: "Role option"
  player_team :: "TeamColor option"
  player_currentRoom :: "RoomColor option"
  connectedAt :: string

datatype RoundStatus = SETUP | ACTIVE | SELECTING | EXCHANGING | COMPLETE

record RoundState =
  rs_gameSessionId :: string
  rs_roundNumber :: int
  rs_duration :: int
  rs_timeRemaining :: int
  rs_status :: RoundStatus
  redLeaderId :: string
  blueLeaderId :: string
  hostageCount :: int
  redHostages :: "string list"
  blueHostages :: "string list"
  redLeaderReady :: bool
  blueLeaderReady :: bool
  rs_startedAt :: string
  rs_endedAt :: "string option"

record GameSession =
  session_id :: string
  session_roomCode :: string
  redTeam :: "Player list"
  blueTeam :: "Player list"
  session_redRoomPlayers :: "Player list"
  session_blueRoomPlayers :: "Player list"
  roundState :: "RoundState option"
  session_startedAt :: string

record Room =
  code :: string
  status :: RoomStatus
  players :: "Player list"
  maxPlayers :: int
  roleConfigId :: "string option"
  selectedRoles :: "(string, int) js_map option"
  gameSession :: "GameSession option"
  room_createdAt :: string
  room_updatedAt :: string

record LeaderInfo =
  leader_id :: string
  leader_nickname :: string

record ExchangeRecord =
  ex_playerId :: string
  ex_nickname :: string
  fromRoom :: RoomColor
  toRoom :: RoomColor
  ex_timestamp :: string

section \<open>Votes\<close>

datatype VoteType = REMOVAL | ELECTION

datatype VoteResult = PASSED | FAILED | TIMEOUT

datatype VoteSessionStatus = VoteActive | VoteCompleted | VoteTimeout

datatype LeadershipChangeReason = VOLUNTARY_TRANSFER | DISCONNECTION | VOTE_REMOVAL

record VoteSession =
  voteID :: string
  vote_gameSessionId :: string
  vote_roomColor :: RoomColor
  voteType :: "VoteType option"
  targetLeaderId :: string
  targetLeaderName :: string
  initiatorId :: string
  initiatorName :: string
  candidates :: "string list option"
  vote_startedAt :: string
  expiresAt :: string
  timeoutSeconds :: int
  totalVoters :: int
  votedCount :: int
  vote_status :: VoteSessionStatus

record VoteResultPayload =
  vr_voteID :: "string option"
  vr_result :: VoteResult
  yesVotes :: int
  noVotes :: int
  vr_totalVoters :: "int option"
  newLeaderId :: "string option"
  newLeaderName :: "string option"

section \<open>WebSocket messages\<close>

record RoleAssignedPayload =
  ra_role :: Role
  ra_team :: TeamColor
  ra_currentRoom :: RoomColor

record RoundStartedPayload =
  rst_roundNumber :: int
  rst_duration :: int
  rst_timeRemaining :: int
  rst_redLeader :: "LeaderInfo option"
  rst_blueLeader :: "LeaderInfo option"
  rst_hostageCount :: int

record RoundEndedPayload =
  re_roundNumber :: int
  finalRound :: bool
  nextPhase :: string

record LeadershipChangedPayload =
  lc_roomColor :: RoomColor
  oldLeader :: "LeaderInfo option"
  newLeader :: "LeaderInfo option"
  reason :: LeadershipChangeReason
  lc_timestamp :: string

record VoteSessionStartedPayload =
  vss_voteId :: string
  vss_roomColor :: RoomColor
  vss_targetLeader :: "LeaderInfo option"
  vss_initiator :: "LeaderInfo option"
  vss_candidates :: "string list option"
  vss_totalVoters :: int
  vss_timeoutSeconds :: int
  vss_startedAt :: string

record VoteProgressPayload =
  vp_voteID :: "string option"
  vp_votedCount :: int
  vp_totalVoters :: int
  vp_timeRemaining :: int

record ExchangeCompletePayload =
  ec_roundNumber :: int
  exchanges :: "ExchangeRecord list"
  nextRound :: "int option"

text \<open>
  One constructor per member of \<open>WSMessageType\<close>, with the fields of its payload. A payload field
  that a handler checks before use (\<open>if (!player)\<close>) or only stores is an option, whatever its declared
  type: the messages of the server need not have it. Any other object that a frame contains, such as
  the server's \<open>CONNECTED\<close> and \<open>ROOM_CLOSED\<close>, becomes the last message too.
\<close>

datatype WSMessage =
    PLAYER_JOINED "Player option"
  | PLAYER_LEFT string
  | PLAYER_DISCONNECTED string
  | NICKNAME_CHANGED string string
  | OWNER_CHANGED "Player option"
  | GAME_STARTED GameSession
  | ROLE_ASSIGNED RoleAssignedPayload
  | GAME_RESET Room
  | ROUND_STARTED RoundStartedPayload
  | TIMER_TICK int int
  | ROUND_ENDING int int
  | ROUND_ENDED RoundEndedPayload
  | LEADER_READY RoomColor string bool
  | GAME_REVEALING string
  | LEADER_ASSIGNED RoomColor LeaderInfo
  | LEADER_TRANSFERRED RoomColor string
  | LEADERSHIP_CHANGED "LeadershipChangedPayload option"
  | VOTE_REMOVE_LEADER_STARTED RoomColor string
  | VOTE_SESSION_STARTED VoteSessionStartedPayload
  | VOTE_CAST string string
  | VOTE_PROGRESS VoteProgressPayload
  | VOTE_COMPLETED VoteResultPayload
  | HOSTAGES_SELECTED RoomColor "string list"
  | LEADER_ANNOUNCED_HOSTAGES RoomColor "LeaderInfo list" bool
  | EXCHANGE_READY "string list" "string list" int
  | EXCHANGE_COMPLETE ExchangeCompletePayload
  | UNLISTED Json

section \<open>The room list\<close>

record RoomListEntry =
  rl_code :: string
  rl_status :: RoomStatus
  rl_currentPlayers :: int
  rl_maxPlayers :: int
  rl_isPublic :: bool
  rl_createdAt :: string
  rl_updatedAt :: string
  hostNickname :: "string option"

section \<open>Role configurations\<close>

record RoleConfigMeta =
  config_id :: string
  config_name :: string
  config_nameKo :: string
  config_description :: string
  config_descriptionKo :: string
  config_version :: "string option"

datatype RoleType = Leader | Spy | Support | Standard

text \<open>\<open>count: number | Record<string, number>\<close>\<close>

datatype RoleCount = FixedCount int | CountTable "(string, int) js_map"

record RoleDefinition =
  rd_id :: string
  rd_name :: string
  rd_nameKo :: string
  rd_team :: TeamColor
  rd_type :: RoleType
  rd_description :: "string option"
  rd_descriptionKo :: "string option"
  rd_count :: RoleCount
  rd_minPlayers :: int
  rd_priority :: int
  rd_color :: "string option"
  rd_icon :: "string option"

record RoleConfig = RoleConfigMeta +
  config_roles :: "RoleDefinition list"

section \<open>Helpers shared by the components\<close>

text \<open>\<open>players.find((p) => p?.id === id)\<close> and \<open>players.filter((p) => p?.currentRoom === c)\<close>.\<close>

definition find_player :: "string \<Rightarrow> Player list \<Rightarrow> Player option" where
  "find_player i ps = find (\<lambda>p. player_id p = i) ps"

definition players_in :: "RoomColor \<Rightarrow> Player list \<Rightarrow> Player list" where
  "players_in c ps = filter (\<lambda>p. player_currentRoom p = Some c) ps"

abbreviation player_ids :: "Player list \<Rightarrow> string list" where
  "player_ids ps \<equiv> map player_id ps"

text \<open>\<open>a || b\<close> on an optional string: an absent or empty first operand gives the second.\<close>

definition or_else :: "string option \<Rightarrow> string \<Rightarrow> string" where
  "or_else a b = (case a of None \<Rightarrow> b | Some s \<Rightarrow> if s = '''' then b else s)"

lemma find_player_id: "find_player i ps = Some p \<Longrightarrow> player_id p = i \<and> p \<in> set ps"
  by (auto simp: find_player_def dest: find_Some_iff_set)

lemma find_player_None: "find_player i ps = None \<longleftrightarrow> i \<notin> set (player_ids ps)"
  by (auto simp: find_player_def find_None_set)

lemma find_player_unique:
  "distinct (player_ids ps) \<Longrightarrow> p \<in> set ps \<Longrightarrow> find_player (player_id p) ps = Some p"
  by (simp add: find_player_def find_filter_unique)

lemma players_in_set: "p \<in> set (players_in c ps) \<longleftrightarrow> p \<in> set ps \<and> player_currentRoom p = Some c"
  by (auto simp: players_in_def)

lemma players_in_ids_subset: "set (player_ids (players_in c ps)) \<subseteq> set (player_ids ps)"
  by (auto simp: players_in_def)

lemma distinct_players_in: "distinct (player_ids ps) \<Longrightarrow> distinct (player_ids (players_in c ps))"
  by (induction ps) (auto simp: players_in_def)

lemma players_in_disjoint:
  assumes "distinct (player_ids ps)"
  shows "set (player_ids (players_in RED_ROOM ps)) \<inter> set (player_ids (players_in BLUE_ROOM ps)) = {}"
proof -
  have "inj_on player_id (set ps)"
    using assms by (simp add: distinct_map)
  then show ?thesis
    by (auto simp: players_in_def dest!: inj_onD)
qed

end
