(* ===== verification/Round_History.thy ===== *)
theory Round_History
  imports Game_Types
begin

text \<open>
  \<open>components/game/RoundHistory.tsx\<close>: the log of exchanges and leadership changes, grouped by round
  and, within a round, by direction. The two kinds of event of the source are the constructors of
  the event's data. Formatting a timestamp in the browser's locale and time zone is a parameter.
\<close>

section \<open>Events and state\<close>

datatype History_Data = Exchange ExchangeRecord | LeadershipChange LeadershipChangedPayload

record History_Event =
  he_roundNumber :: int
  he_timestamp :: string
  he_data :: History_Data

record History_View =
  isExpanded :: bool
  expandedRounds :: "int js_set"

definition init_history :: History_View where
  "init_history = \<lparr>isExpanded = False, expandedRounds = [1, 2, 3]\<rparr>"

datatype history_action = ToggleHistory | ToggleRound int

definition history_step :: "History_View \<Rightarrow> history_action \<Rightarrow> History_View" where
  "history_step s a =
     (case a of
        ToggleHistory \<Rightarrow> s\<lparr>isExpanded := \<not> isExpanded s\<rparr>
      | ToggleRound r \<Rightarrow> s\<lparr>expandedRounds := set_toggle r (expandedRounds s)\<rparr>)"

section \<open>Grouping\<close>

text \<open>
  \<open>events.reduce(...)\<close>: one step appends the event to the list kept for its round. The source keeps
  the lists in an object; the order of its keys does not matter, since they are sorted.
\<close>

definition push_event :: "(int, History_Event list) js_map \<Rightarrow> History_Event \<Rightarrow> (int, History_Event list) js_map" where
  "push_event = group_push he_roundNumber"

definition eventsByRound :: "History_Event list \<Rightarrow> (int, History_Event list) js_map" where
  "eventsByRound es = foldl push_event [] es"

definition rounds :: "History_Event list \<Rightarrow> int list" where
  "rounds es = sort_key (\<lambda>r. - r) (map fst (eventsByRound es))"

definition room_key :: "RoomColor \<Rightarrow> string" where
  "room_key c = (case c of RED_ROOM \<Rightarrow> ''RED_ROOM'' | BLUE_ROOM \<Rightarrow> ''BLUE_ROOM'')"

definition exchange_key :: "ExchangeRecord \<Rightarrow> string" where
  "exchange_key e = room_key (fromRoom e) @ ''->'' @ room_key (toRoom e)"

type_synonym exchange_groups = "(string, ExchangeRecord list \<times> string) js_map"

text \<open>The body of \<open>roundEvents.forEach\<close>, on the groups and the leadership events so far.\<close>

definition place_event :: "exchange_groups \<times> History_Event list \<Rightarrow> History_Event \<Rightarrow> exchange_groups \<times> History_Event list" where
  "place_event acc event =
     (let (groups, leadership) = acc in
      case he_data event of
        Exchange exchange \<Rightarrow>
          (let key = exchange_key exchange;
               group = (case map_get groups key of None \<Rightarrow> ([], he_timestamp event) | Some g \<Rightarrow> g)
           in (map_set key (fst group @ [exchange], snd group) groups, leadership))
      | LeadershipChange _ \<Rightarrow> (groups, leadership @ [event]))"

datatype display_event =
    ExchangeGroup string "ExchangeRecord list" string
  | Leadership string History_Event

definition allDisplayEvents :: "History_Event list \<Rightarrow> display_event list" where
  "allDisplayEvents roundEvents =
     (let (groups, leadership) = foldl place_event ([], []) roundEvents in
      map (\<lambda>(key, es, t). ExchangeGroup key es t) groups @
      map (\<lambda>e. Leadership (he_timestamp e) e) leadership)"

section \<open>The rendered log\<close>

definition history_formatTime :: "(string \<Rightarrow> string option) \<Rightarrow> string \<Rightarrow> string" where
  "history_formatTime locale_time timestamp =
     (if timestamp = '''' then ''''
      else case locale_time timestamp of None \<Rightarrow> '''' | Some t \<Rightarrow> t)"

definition formatLeadershipReason :: "LeadershipChangeReason \<Rightarrow> string" where
  "formatLeadershipReason r =
     (case r of VOLUNTARY_TRANSFER \<Rightarrow> ''voluntary transfer'' | DISCONNECTION \<Rightarrow> ''disconnection''
      | VOTE_REMOVAL \<Rightarrow> ''replaced by vote'')"

definition room_span :: "RoomColor \<Rightarrow> 'a node" where
  "room_span c = El ''span'' [Style ''color'' (if c = RED_ROOM then ''#dc2626'' else ''#2563eb'')]
     [Txt (if c = RED_ROOM then ''red room'' else ''blue room'')]"

fun join_with :: "string \<Rightarrow> string list \<Rightarrow> string" where
  "join_with sep [] = ''''"
| "join_with sep [s] = s"
| "join_with sep (s # ss) = s @ sep @ join_with sep ss"

definition render_display_event :: "(string \<Rightarrow> string option) \<Rightarrow> bool \<Rightarrow> display_event \<Rightarrow> history_action node" where
  "render_display_event locale_time is_last d =
     El ''div''
      [Style ''marginBottom'' (if is_last then ''0'' else ''0.5rem''),
       Style ''borderLeft'' (''4px solid '' @ (case d of ExchangeGroup _ _ _ \<Rightarrow> ''#3b82f6'' | Leadership _ _ \<Rightarrow> ''#8b5cf6''))]
      (case d of
         ExchangeGroup key es t \<Rightarrow>
           [El ''div'' []
             [El ''div'' [] [Txt (history_formatTime locale_time t)],
              El ''div'' []
               [El ''strong'' [] [Txt (join_with '', '' (map ex_nickname es))], Txt '' '',
                room_span (fromRoom (hd es)), Txt '' to '', room_span (toRoom (hd es))]]]
       | Leadership t e \<Rightarrow>
           (case he_data e of
              Exchange _ \<Rightarrow> []
            | LeadershipChange p \<Rightarrow>
                [El ''div'' []
                  [El ''div'' [] [Txt (history_formatTime locale_time (he_timestamp e)), Txt '' leadership change''],
                   El ''div'' []
                    ([room_span (lc_roomColor p), Txt '': ''] @
                     (case oldLeader p of None \<Rightarrow> [] | Some l \<Rightarrow> [El ''strong'' [] [Txt (leader_nickname l)], Txt '' to '']) @
                     [El ''strong'' [] [Txt (or_else (map_option leader_nickname (newLeader p)) ''unknown'')],
                      El ''div'' [] [Txt ''Reason: '', Txt (formatLeadershipReason (reason p))]])]]))"

definition render_round :: "(string \<Rightarrow> string option) \<Rightarrow> History_Event list \<Rightarrow> History_View \<Rightarrow> int \<Rightarrow> history_action node" where
  "render_round locale_time es s round =
     (let roundEvents = (case map_get (eventsByRound es) round of None \<Rightarrow> [] | Some l \<Rightarrow> l);
          isRoundExpanded = set_has (expandedRounds s) round;
          shownEvents = allDisplayEvents roundEvents in
      El ''div'' []
       ([El ''button'' [OnClick (ToggleRound round),
           Style ''borderBottom'' (if isRoundExpanded then ''1px solid var(--border-color, #e5e7eb)'' else ''none'')]
          [El ''span'' [] [Txt ''Round '', Num round, Txt '': '', Num (int (length roundEvents))],
           El ''span'' [Style ''transform'' (if isRoundExpanded then ''rotate(180deg)'' else ''rotate(0deg)'')] [Txt ''v'']]] @
        shown isRoundExpanded
         [El ''div'' []
           (map (\<lambda>(idx, d). render_display_event locale_time (\<not> idx < length shownEvents - 1) d)
             (zip [0..<length shownEvents] shownEvents))]))"

definition RoundHistory :: "(string \<Rightarrow> string option) \<Rightarrow> History_Event list \<Rightarrow> History_View \<Rightarrow> history_action node list" where
  "RoundHistory locale_time es s =
     (if length es = 0 then []
      else
       [El ''div'' []
         ([El ''button'' [OnClick ToggleHistory,
             Style ''borderBottom'' (if isExpanded s then ''2px solid var(--border-color, #e5e7eb)'' else ''none'')]
            [El ''div'' [] [El ''span'' [] [Txt ''Round history''],
              El ''span'' [] [Num (int (length es)), Txt '' events'']],
             El ''span'' [Style ''transform'' (if isExpanded s then ''rotate(180deg)'' else ''rotate(0deg)'')] [Txt ''v'']]] @
          shown (isExpanded s)
           [El ''div'' []
             (if length (rounds es) = 0 then [El ''p'' [] [Txt ''No events have been recorded yet'']]
              else map (render_round locale_time es s) (rounds es))])])"

section \<open>Grouping by round\<close>

lemma eventsByRound_group: "eventsByRound es = group_by he_roundNumber es"
  by (simp add: eventsByRound_def push_event_def group_by_def)

lemmas eventsByRound_wf = group_by_wf [where key = "he_roundNumber :: History_Event \<Rightarrow> int", folded eventsByRound_group]
  and eventsByRound_get = group_by_get [where key = "he_roundNumber :: History_Event \<Rightarrow> int", folded eventsByRound_group]
  and eventsByRound_keys = group_by_keys [where key = "he_roundNumber :: History_Event \<Rightarrow> int", folded eventsByRound_group]

text \<open>The log lists each round that has an event exactly once, the most recent first, and keeps for
  it precisely the events of that round in the order in which they happened.\<close>

theorem rounds_partition_the_log:
  "sorted_wrt (\<lambda>a b. a > b) (rounds es) \<and> set (rounds es) = he_roundNumber ` set es \<and>
   map (map_get (eventsByRound es)) (rounds es) =
     map (\<lambda>r. Some (filter (\<lambda>e. he_roundNumber e = r) es)) (rounds es)"
proof -
  have k: "set (rounds es) = he_roundNumber ` set es"
    by (simp add: rounds_def eventsByRound_keys)
  have "sorted (map (\<lambda>r. - r) (rounds es))" "distinct (rounds es)"
    using eventsByRound_wf [of es] by (simp_all add: rounds_def)
  then have "sorted_wrt (\<lambda>a b. a > b) (rounds es)"
    by (auto simp: sorted_wrt_map sorted_wrt_iff_nth_less distinct_conv_nth order.strict_iff_order)
  moreover have "map_get (eventsByRound es) r = Some (filter (\<lambda>e. he_roundNumber e = r) es)"
    if "r \<in> set (rounds es)" for r
    using that by (auto simp: k eventsByRound_get Let_def filter_empty_conv)
  ultimately show ?thesis using k by simp
qed

section \<open>Grouping by direction\<close>

definition exchanges_of :: "History_Event list \<Rightarrow> ExchangeRecord list" where
  "exchanges_of es = concat (map (\<lambda>e. case he_data e of Exchange x \<Rightarrow> [x] | _ \<Rightarrow> []) es)"

definition changes_of :: "History_Event list \<Rightarrow> History_Event list" where
  "changes_of es = filter (\<lambda>e. case he_data e of LeadershipChange _ \<Rightarrow> True | _ \<Rightarrow> False) es"

lemma exchange_key_eq: "exchange_key a = exchange_key b \<longleftrightarrow> fromRoom a = fromRoom b \<and> toRoom a = toRoom b"
  by (cases "fromRoom a"; cases "toRoom a"; cases "fromRoom b"; cases "toRoom b")
    (simp_all add: exchange_key_def room_key_def)

lemma place_events:
  "let (groups, leadership) = foldl place_event ([], []) es in
     map_wf groups \<and> leadership = changes_of es \<and>
     (\<forall>k. map_option fst (map_get groups k) =
        (let xs = filter (\<lambda>x. exchange_key x = k) (exchanges_of es) in if xs = [] then None else Some xs))"
proof (induction es rule: rev_induct)
  case Nil
  then show ?case by (simp add: exchanges_of_def changes_of_def map_get_def)
next
  case (snoc e es)
  obtain gs ls where g: "foldl place_event ([], []) es = (gs, ls)" by fastforce
  have wf: "map_wf gs" and ls: "ls = changes_of es"
    and get: "\<And>k. map_option fst (map_get gs k) =
        (let xs = filter (\<lambda>x. exchange_key x = k) (exchanges_of es) in if xs = [] then None else Some xs)"
    using snoc.IH g by simp_all
  show ?case
  proof (cases "he_data e")
    case (Exchange x)
    let ?v = "case map_get gs (exchange_key x) of None \<Rightarrow> ([], he_timestamp e) | Some v \<Rightarrow> v"
    have v: "fst ?v = filter (\<lambda>y. exchange_key y = exchange_key x) (exchanges_of es)"
      using get [of "exchange_key x"] by (auto simp: Let_def split: option.splits if_splits)
    have p: "foldl place_event ([], []) (es @ [e]) = (map_set (exchange_key x) (fst ?v @ [x], snd ?v) gs, ls)"
      using g Exchange by (simp add: place_event_def Let_def)
    have x: "exchanges_of (es @ [e]) = exchanges_of es @ [x]" "changes_of (es @ [e]) = changes_of es"
      using Exchange by (simp_all add: exchanges_of_def changes_of_def)
    have "map_option fst (map_get (map_set (exchange_key x) (fst ?v @ [x], snd ?v) gs) k) =
        (let xs = filter (\<lambda>x. exchange_key x = k) (exchanges_of (es @ [e])) in if xs = [] then None else Some xs)" for k
    proof (cases "k = exchange_key x")
      case True
      then show ?thesis using v unfolding x by (simp add: jsm.lookup_put [OF wf] Let_def)
    next
      case False
      then show ?thesis using get [of k] unfolding x by (simp add: jsm.lookup_put [OF wf] Let_def)
    qed
    then show ?thesis
      unfolding p using wf ls x by (simp add: map_wf_map_set)
  next
    case (LeadershipChange p)
    then have "foldl place_event ([], []) (es @ [e]) = (gs, ls @ [e])"
      "exchanges_of (es @ [e]) = exchanges_of es" "changes_of (es @ [e]) = changes_of es @ [e]"
      using g by (simp_all add: place_event_def changes_of_def exchanges_of_def)
    then show ?thesis using wf ls get by simp
  qed
qed

fun group_of :: "display_event \<Rightarrow> ExchangeRecord list" where
  "group_of (ExchangeGroup _ es _) = es"
| "group_of (Leadership _ _) = []"

fun change_of :: "display_event \<Rightarrow> History_Event list" where
  "change_of (ExchangeGroup _ _ _) = []"
| "change_of (Leadership _ e) = [e]"

lemma group_direction:
  assumes "ExchangeGroup k xs t \<in> set (allDisplayEvents es)"
  shows "xs \<noteq> [] \<and> xs = filter (\<lambda>x. exchange_key x = k) (exchanges_of es)"
proof -
  obtain gs ls where g: "foldl place_event ([], []) es = (gs, ls)" by fastforce
  with assms have "(k, xs, t) \<in> set gs" by (auto simp: allDisplayEvents_def)
  then have "map_get gs k = Some (xs, t)" using place_events [of es] g by (auto simp: map_get_def)
  then show ?thesis
    using place_events [of es] g by (auto simp: Let_def split: if_splits dest!: spec [of _ k])
qed

text \<open>What is displayed of a round is complete and free of repetitions: the exchange groups together
  contain each exchange exactly as often as it happened, every group is the non-empty list of all
  exchanges in one direction in order, and the leadership changes follow in order.\<close>

theorem display_is_complete:
  "mset (concat (map group_of (allDisplayEvents es))) = mset (exchanges_of es) \<and>
   concat (map change_of (allDisplayEvents es)) = changes_of es \<and>
   list_all (\<lambda>d. case d of
      ExchangeGroup k xs _ \<Rightarrow> xs \<noteq> [] \<and>
        xs = filter (\<lambda>x. fromRoom x = fromRoom (hd xs) \<and> toRoom x = toRoom (hd xs)) (exchanges_of es)
    | Leadership _ _ \<Rightarrow> True) (allDisplayEvents es)"
proof -
  obtain gs ls where g: "foldl place_event ([], []) es = (gs, ls)" by fastforce
  have facts: "map_wf gs" "ls = changes_of es"
    "\<And>k. map_option fst (map_get gs k) =
       (let xs = filter (\<lambda>x. exchange_key x = k) (exchanges_of es) in if xs = [] then None else Some xs)"
    using place_events [of es] g by simp_all
  have d: "allDisplayEvents es = map (\<lambda>(key, es, t). ExchangeGroup key es t) gs @ map (\<lambda>e. Leadership (he_timestamp e) e) ls"
    using g by (simp add: allDisplayEvents_def)
  have g1: "concat (map group_of (allDisplayEvents es)) = concat (map (\<lambda>g. fst (snd g)) gs)"
    unfolding d by (simp add: comp_def case_prod_unfold)
  have g2: "concat (map change_of (allDisplayEvents es)) = ls"
    unfolding d by (simp add: comp_def case_prod_unfold)
  have n1: "xs = filter (\<lambda>x. fromRoom x = fromRoom (hd xs) \<and> toRoom x = toRoom (hd xs)) (exchanges_of es)"
    if "ExchangeGroup k xs t \<in> set (allDisplayEvents es)" for k xs t
  proof -
    note xs = group_direction [OF that]
    then have "hd xs \<in> set (filter (\<lambda>x. exchange_key x = k) (exchanges_of es))"
      using hd_in_set by metis
    then have "exchange_key (hd xs) = k" by simp
    then show ?thesis using xs by (simp add: exchange_key_eq [symmetric])
  qed
  have n2: "xs \<noteq> []" if "ExchangeGroup k xs t \<in> set (allDisplayEvents es)" for k xs t
    using group_direction [OF that] by (rule conjunct1)
  have "list_all (\<lambda>d. case d of
      ExchangeGroup k xs _ \<Rightarrow> xs \<noteq> [] \<and>
        xs = filter (\<lambda>x. fromRoom x = fromRoom (hd xs) \<and> toRoom x = toRoom (hd xs)) (exchanges_of es)
    | Leadership _ _ \<Rightarrow> True) (allDisplayEvents es)"
    unfolding list_all_iff
  proof (intro ballI, goal_cases)
    case (1 d)
    show ?case
    proof (cases d)
      case (ExchangeGroup k xs t)
      with 1 have m: "ExchangeGroup k xs t \<in> set (allDisplayEvents es)" by simp
      show ?thesis unfolding ExchangeGroup display_event.case using n1 [OF m] n2 [OF m] by blast
    qed simp
  qed
  then show ?thesis using mset_groups [OF facts(1,3)] facts(2) g1 g2 by simp
qed

end
