(* ===== verification/Hostage_Selection.thy ===== *)
theory Hostage_Selection
  imports Game_Types
begin

text \<open>
  The choice of hostages, common to \<open>RoundTimerPanel.tsx\<close> and \<open>LeaderPanel.tsx\<close>: the updater that
  adds or removes a player within the limit of the round, and the contract between a panel and the
  page that sends its announcement to the server.
\<close>

section \<open>The panels' commands\<close>

text \<open>What a leader's panel asks of the page and of the browser.\<close>

datatype panel_command =
    SelectHostages "string list"
  | LeaderReady
  | TransferLeadership string
  | OpenTransfer
  | PanelAlert string

section \<open>The selection\<close>

text \<open>
  The updater passed to \<open>setSelectedHostages\<close>, with the error text that the handler cleared before
  it. A full selection is returned unchanged and the error says so.
\<close>

definition limited_toggle :: "int \<Rightarrow> string \<Rightarrow> string js_set \<times> string \<Rightarrow> string js_set \<times> string" where
  "limited_toggle limit playerId st =
     (let (prev, err) = st in
      if set_has prev playerId then (set_delete playerId prev, err)
      else if set_size prev \<ge> limit then (prev, ''At most '' @ int_str limit @ '' can be selected'')
      else (set_add playerId prev, err))"

lemma distinct_limited_toggle: "distinct sel \<Longrightarrow> distinct (fst (limited_toggle n x (sel, err)))"
  by (auto simp: limited_toggle_def js.wf_add js.wf_del)

lemma size_limited_toggle:
  "set_size sel \<le> max 0 n \<Longrightarrow> set_size (fst (limited_toggle n x (sel, err))) \<le> max 0 n"
  using js.size_del_le [of x sel] js.size_add [of sel x] by (auto simp: limited_toggle_def)

lemma set_limited_toggle: "set (fst (limited_toggle n x (sel, err))) \<subseteq> insert x (set sel)"
  by (auto simp: limited_toggle_def js.set_add_elems js.set_del_elems)

lemma limited_toggle_error:
  "snd (limited_toggle n x (sel, err)) = err \<or> fst (limited_toggle n x (sel, err)) = sel"
  by (simp add: limited_toggle_def)

text \<open>Toggling the same player twice restores the selection when the player was not selected.\<close>

lemma limited_toggle_twice:
  assumes "distinct sel" "\<not> set_has sel x" "set_size sel < n"
  shows "fst (limited_toggle n x (limited_toggle n x (sel, err))) = sel"
  using assms js.has_del_add [of sel x]
  by (simp add: limited_toggle_def js.has_elems js.set_add_elems)

section \<open>The contract of a panel\<close>

text \<open>
  A panel changes its selection only by toggling an eligible player within the limit, and announces
  only its whole selection, when it has exactly the required size.
\<close>

locale hostage_panel =
  fixes offered :: "'p \<Rightarrow> 's \<Rightarrow> 'a \<Rightarrow> bool"
    and step :: "'p \<Rightarrow> 's \<Rightarrow> 'a \<times> bool \<Rightarrow> 's \<times> panel_command list"
    and selection :: "'s \<Rightarrow> string js_set"
    and limit :: "'p \<Rightarrow> int"
    and eligible :: "'p \<Rightarrow> string \<Rightarrow> bool"
  assumes selection_step: "offered p s (fst e) \<Longrightarrow>
      selection (fst (step p s e)) = selection s \<or>
      (\<exists>x err. eligible p x \<and>
        selection (fst (step p s e)) = fst (limited_toggle (limit p) x (selection s, err)))"
    and announce_step: "offered p s (fst e) \<Longrightarrow> SelectHostages ids \<in> set (snd (step p s e)) \<Longrightarrow>
      ids = selection s \<and> set_size (selection s) = limit p"
begin

text \<open>Whatever the properties do, no player is selected twice.\<close>

lemma distinct_step: "distinct (selection s) \<Longrightarrow> offered p s (fst e) \<Longrightarrow> distinct (selection (fst (step p s e)))"
  using selection_step [of p s e] by (auto simp: distinct_limited_toggle)

text \<open>While the limit and the eligible players stay the same, the selection respects both.\<close>

definition within :: "int \<Rightarrow> (string \<Rightarrow> bool) \<Rightarrow> 's \<Rightarrow> bool" where
  "within n el s \<longleftrightarrow> distinct (selection s) \<and> set_size (selection s) \<le> max 0 n \<and> list_all el (selection s)"

definition exact :: "int \<Rightarrow> (string \<Rightarrow> bool) \<Rightarrow> panel_command \<Rightarrow> bool" where
  "exact n el c \<longleftrightarrow>
     (case c of SelectHostages ids \<Rightarrow> distinct ids \<and> int (length ids) = n \<and> list_all el ids | _ \<Rightarrow> True)"

lemma within_step:
  assumes "limit p = n" "eligible p = el" "within n el s" "offered p s (fst e)"
  shows "within n el (fst (step p s e))"
  using selection_step [OF assms(4)]
proof (elim disjE exE conjE)
  fix x err
  assume x: "eligible p x" "selection (fst (step p s e)) = fst (limited_toggle (limit p) x (selection s, err))"
  then have "list_all el (selection (fst (step p s e)))"
    using set_limited_toggle [of n x "selection s" err] assms by (auto simp: within_def list_all_iff)
  then show ?thesis
    using assms x by (simp add: within_def distinct_limited_toggle size_limited_toggle)
qed (use assms(3) in \<open>simp add: within_def\<close>)

lemma exact_step:
  assumes "limit p = n" "within n el s" "offered p s (fst e)"
  shows "list_all (exact n el) (snd (step p s e))"
proof (unfold list_all_iff, intro ballI)
  fix c assume c: "c \<in> set (snd (step p s e))"
  show "exact n el c"
  proof (cases c)
    case (SelectHostages ids)
    with announce_step [OF assms(3)] c have "ids = selection s" "set_size ids = n"
      using assms(1) by auto
    then show ?thesis using assms(2) SelectHostages by (simp add: exact_def within_def set_size_def)
  qed (simp_all add: exact_def)
qed

lemma announced_exactly:
  assumes "list_all (\<lambda>e. limit (fst e) = n \<and> eligible (fst e) = el) es" "selection s = []"
  shows "within n el (fst (session offered step s es)) \<and>
    list_all (exact n el) (snd (session offered step s es))"
proof -
  have i: "interactive offered step (\<lambda>p. limit p = n \<and> eligible p = el) (within n el) (exact n el)"
    by unfold_locales (auto intro: within_step exact_step)
  have "within n el s" using assms(2) by (simp add: within_def set_size_def)
  then show ?thesis
    using interactive.session_promise [OF i] assms(1) by (simp add: comp_def)
qed

end

end
