(* ===== verification/Transfer_Modal.thy ===== *)
theory Transfer_Modal
  imports Game_Types
begin

text \<open>
  \<open>components/game/LeaderTransferModal.tsx\<close>: the dialog in which a leader picks a successor and
  confirms the choice. The effect that empties the dialog when it closes runs after every render
  with \<open>isOpen\<close> false; the listener for the escape key exists while the dialog is open.
\<close>

section \<open>State, properties and handlers\<close>

record Modal_Props =
  lm_isOpen :: bool
  currentLeader :: Player
  lm_roomPlayers :: "Player list"
  canTransfer :: bool
  blockReason :: "string option"

record Modal =
  selectedPlayerId :: string
  showConfirm :: bool

definition init_modal :: Modal where
  "init_modal = \<lparr>selectedPlayerId = '''', showConfirm = False\<rparr>"

datatype modal_action = Rerendered | EscapeKey | BackdropClick | CancelClick | ChoosePlayer string | NextClick | BackClick | ConfirmClick

datatype modal_command = OnTransfer string | OnCancel | ModalAlert string

text \<open>The effect on \<open>isOpen\<close>.\<close>

definition reset_when_closed :: "Modal_Props \<Rightarrow> Modal \<Rightarrow> Modal" where
  "reset_when_closed p s = (if \<not> lm_isOpen p then s\<lparr>selectedPlayerId := '''', showConfirm := False\<rparr> else s)"

definition eligiblePlayers :: "Modal_Props \<Rightarrow> Player list" where
  "eligiblePlayers p = filter (\<lambda>q. player_id q \<noteq> player_id (currentLeader p)) (lm_roomPlayers p)"

definition handleEsc :: "Modal_Props \<Rightarrow> modal_command list" where
  "handleEsc p = (if lm_isOpen p then [OnCancel] else [])"

definition handleNext :: "Modal \<Rightarrow> Modal \<times> modal_command list" where
  "handleNext s =
     (if selectedPlayerId s = '''' then (s, [ModalAlert ''Please select a new leader''])
      else (s\<lparr>showConfirm := True\<rparr>, []))"

definition handleConfirm :: "Modal \<Rightarrow> modal_command list" where
  "handleConfirm s = (if selectedPlayerId s \<noteq> '''' then [OnTransfer (selectedPlayerId s)] else [])"

definition modal_handle :: "Modal_Props \<Rightarrow> Modal \<Rightarrow> modal_action \<Rightarrow> Modal \<times> modal_command list" where
  "modal_handle p s a =
     (case a of
        Rerendered \<Rightarrow> (s, [])
      | EscapeKey \<Rightarrow> (s, handleEsc p)
      | BackdropClick \<Rightarrow> (s, [OnCancel])
      | CancelClick \<Rightarrow> (s, [OnCancel])
      | ChoosePlayer i \<Rightarrow> (s\<lparr>selectedPlayerId := i\<rparr>, [])
      | NextClick \<Rightarrow> handleNext s
      | BackClick \<Rightarrow> (s\<lparr>showConfirm := False\<rparr>, [])
      | ConfirmClick \<Rightarrow> (s, handleConfirm s))"

text \<open>An interaction happens on the state that the effect left after the last render.\<close>

definition modal_step :: "Modal_Props \<Rightarrow> Modal \<Rightarrow> modal_action \<times> bool \<Rightarrow> Modal \<times> modal_command list" where
  "modal_step p s e = modal_handle p (reset_when_closed p s) (fst e)"

section \<open>The rendered dialog\<close>

definition render_candidate :: "Modal \<Rightarrow> Player \<Rightarrow> modal_action node" where
  "render_candidate s q =
     (let chosen = (selectedPlayerId s = player_id q) in
      El ''label'' [Style ''backgroundColor'' (if chosen then ''#eff6ff'' else ''transparent'')]
       [El ''input'' [Attr ''type'' ''radio'', Attr ''name'' ''newLeader'', Attr ''value'' (player_id q),
          Checked chosen, OnChange (ChoosePlayer (player_id q))] [],
        El ''div'' []
         [El ''div'' [Style ''fontWeight'' (if chosen then ''600'' else ''400'')] [Txt (nickname q)],
          El ''div'' [] [Txt (if isOwner q then ''Host'' else ''Player'')]]])"

definition render_block_reason :: "Modal_Props \<Rightarrow> 'a node list" where
  "render_block_reason p =
     (case blockReason p of
        None \<Rightarrow> []
      | Some r \<Rightarrow> shown (\<not> canTransfer p \<and> r \<noteq> '''') [El ''div'' [] [El ''p'' [] [Txt r]]])"

definition render_candidates :: "Modal_Props \<Rightarrow> Modal \<Rightarrow> modal_action node" where
  "render_candidates p s =
     El ''div'' []
      (if length (eligiblePlayers p) = 0
       then [El ''div'' [] [El ''p'' [] [Txt ''There are no other players in the room'']]]
       else map (render_candidate s) (eligiblePlayers p))"

definition render_selection_buttons :: "Modal_Props \<Rightarrow> Modal \<Rightarrow> modal_action node" where
  "render_selection_buttons p s =
     (let ready = (selectedPlayerId s \<noteq> '''' \<and> canTransfer p) in
      El ''div'' []
       [El ''button'' [OnClick CancelClick] [Txt ''Cancel''],
        El ''button''
         [OnClick NextClick, Disabled (selectedPlayerId s = '''' \<or> \<not> canTransfer p),
          Style ''backgroundColor'' (if ready then ''#2563eb'' else ''#9ca3af''),
          Style ''cursor'' (if ready then ''pointer'' else ''not-allowed''),
          Style ''opacity'' (if ready then ''1'' else ''0.6'')]
         [Txt ''Next'']])"

definition render_selection_step :: "Modal_Props \<Rightarrow> Modal \<Rightarrow> modal_action node list" where
  "render_selection_step p s =
     [El ''h2'' [Attr ''id'' ''transfer-modal-title''] [Txt ''Transfer leadership'']] @
     render_block_reason p @
     [El ''p'' [] [Txt ''Select the new leader among the players in the same room:''],
      render_candidates p s,
      El ''div'' [] [El ''p'' [] [Txt ''This cannot be undone'']],
      render_selection_buttons p s]"

definition render_confirmation_step :: "Modal_Props \<Rightarrow> Modal \<Rightarrow> modal_action node list" where
  "render_confirmation_step p s =
     (let name = (case find_player (selectedPlayerId s) (eligiblePlayers p) of None \<Rightarrow> '''' | Some q \<Rightarrow> nickname q) in
      [El ''h2'' [] [Txt ''Confirm the transfer of leadership''],
       El ''div'' []
        [El ''p'' [] [Txt ''Transfer the leadership to '', El ''strong'' [] [Txt name], Txt ''?''],
         El ''div'' []
          [El ''div'' [] [Txt ''Current leader: '', Txt (nickname (currentLeader p))],
           El ''div'' [] [Txt ''down''],
           El ''div'' [] [Txt ''New leader: '', Txt name]]],
       El ''div'' [] [El ''p'' [] [Txt ''This cannot be undone'']],
       El ''div'' []
        [El ''button'' [OnClick BackClick] [Txt ''Back''],
         El ''button'' [OnClick ConfirmClick] [Txt ''Confirm'']]])"

definition LeaderTransferModal :: "Modal_Props \<Rightarrow> Modal \<Rightarrow> modal_action node list" where
  "LeaderTransferModal p s =
     (if \<not> lm_isOpen p then []
      else
       [El ''div'' [OnClick BackdropClick, Attr ''role'' ''dialog'', Attr ''aria-modal'' ''true'',
          Attr ''aria-labelledby'' ''transfer-modal-title'']
         [El ''div'' []
           (if \<not> showConfirm s then render_selection_step p s else render_confirmation_step p s)]])"

text \<open>A render is always possible; the key reaches the dialog while its listener is installed.\<close>

definition modal_offers :: "Modal_Props \<Rightarrow> Modal \<Rightarrow> modal_action \<Rightarrow> bool" where
  "modal_offers p s a \<longleftrightarrow>
     a = Rerendered \<or> (a = EscapeKey \<and> lm_isOpen p) \<or>
     a \<in> set (offers_all (LeaderTransferModal p (reset_when_closed p s)))"

section \<open>Properties\<close>

lemma modal_offers_iff:
  "modal_offers p s a \<longleftrightarrow>
     (case a of
        Rerendered \<Rightarrow> True
      | EscapeKey \<Rightarrow> lm_isOpen p
      | BackdropClick \<Rightarrow> lm_isOpen p
      | CancelClick \<Rightarrow> lm_isOpen p \<and> \<not> showConfirm s
      | ChoosePlayer i \<Rightarrow> lm_isOpen p \<and> \<not> showConfirm s \<and> i \<in> set (player_ids (eligiblePlayers p))
      | NextClick \<Rightarrow> lm_isOpen p \<and> \<not> showConfirm s \<and> selectedPlayerId s \<noteq> '''' \<and> canTransfer p
      | BackClick \<Rightarrow> lm_isOpen p \<and> showConfirm s
      | ConfirmClick \<Rightarrow> lm_isOpen p \<and> showConfirm s)"
proof -
  have c: "offers (render_candidate s q) = [ChoosePlayer (player_id q)]" for q
    by (simp add: render_candidate_def Let_def view_simps)
  have sel: "set (offers_all (render_selection_step p s)) =
      {CancelClick} \<union> (if selectedPlayerId s \<noteq> '''' \<and> canTransfer p then {NextClick} else {}) \<union>
      ChoosePlayer ` set (player_ids (eligiblePlayers p))"
    by (auto simp: render_selection_step_def render_block_reason_def render_candidates_def
        render_selection_buttons_def Let_def view_simps c split: option.splits)
  have conf: "set (offers_all (render_confirmation_step p s)) = {BackClick, ConfirmClick}"
    by (auto simp: render_confirmation_step_def Let_def view_simps)
  show ?thesis
    by (cases a)
      (auto simp: modal_offers_def LeaderTransferModal_def reset_when_closed_def view_simps sel conf split: if_splits)
qed

lemmas modal_handlers = modal_step_def modal_handle_def handleEsc_def handleNext_def handleConfirm_def
  reset_when_closed_def

text \<open>
  The contract of the dialog with the page, while the leader and the players of the room stay the
  same: what is selected, or handed over, is an eligible player.
\<close>

definition chosen_from :: "Player list \<Rightarrow> Modal \<Rightarrow> bool" where
  "chosen_from ps s \<longleftrightarrow> (selectedPlayerId s = '''' \<longrightarrow> \<not> showConfirm s) \<and>
     (selectedPlayerId s \<noteq> '''' \<longrightarrow> selectedPlayerId s \<in> set (player_ids ps))"

lemma chosen_step:
  assumes "eligiblePlayers p = ps" "chosen_from ps s" "modal_offers p s a" "'''' \<notin> set (player_ids ps)"
  shows "chosen_from ps (fst (modal_step p s (a, ok))) \<and>
    list_all (\<lambda>c. case c of OnTransfer i \<Rightarrow> i \<in> set (player_ids ps) | ModalAlert _ \<Rightarrow> False | OnCancel \<Rightarrow> True)
      (snd (modal_step p s (a, ok)))"
  using assms by (cases a) (auto simp: modal_handlers modal_offers_iff chosen_from_def)

text \<open>While the same players can be chosen, the dialog hands leadership only to one of them, and
  its warning about a missing choice can never appear, however the dialog is opened, closed and
  used.\<close>

theorem modal_transfers_to_eligible:
  assumes "list_all (\<lambda>e. eligiblePlayers (fst e) = ps) es" "'''' \<notin> set (player_ids ps)"
  shows "list_all (\<lambda>c. case c of OnTransfer i \<Rightarrow> find_player i ps \<noteq> None | ModalAlert _ \<Rightarrow> False | OnCancel \<Rightarrow> True)
    (snd (session modal_offers modal_step init_modal es))"
proof -
  have i: "interactive modal_offers modal_step (\<lambda>p. eligiblePlayers p = ps) (chosen_from ps)
      (\<lambda>c. case c of OnTransfer i \<Rightarrow> i \<in> set (player_ids ps) | ModalAlert _ \<Rightarrow> False | OnCancel \<Rightarrow> True)"
  proof (unfold_locales, goal_cases)
    case (1 p s e)
    then show ?case using chosen_step [of p ps s "fst e" "snd e"] assms(2) by simp
  next
    case (2 p s e)
    then show ?case
      using chosen_step [of p ps s "fst e" "snd e"] assms(2) unfolding prod.collapse by blast
  qed
  have "chosen_from ps init_modal" by (simp add: chosen_from_def init_modal_def)
  from interactive.session_good [OF i this, of es] assms(1) show ?thesis
    by (auto simp: comp_def list_all_iff find_player_None split: modal_command.splits)
qed

definition wm_player :: "string \<Rightarrow> Player" where
  "wm_player i = \<lparr>player_id = i, nickname = i, isAnonymous = False, player_roomCode = ''R'', isOwner = False,
     player_role = None, player_team = None, player_currentRoom = Some RED_ROOM, connectedAt = ''''\<rparr>"

definition wm_props :: Modal_Props where
  "wm_props = \<lparr>lm_isOpen = True, currentLeader = wm_player ''a'', lm_roomPlayers = [wm_player ''a'', wm_player ''b''],
     canTransfer = True, blockReason = None\<rparr>"

theorem modal_transfers_to_eligible_witness:
  "list_all (\<lambda>c. case c of OnTransfer i \<Rightarrow> find_player i [wm_player ''b''] \<noteq> None | ModalAlert _ \<Rightarrow> False | OnCancel \<Rightarrow> True)
    (snd (session modal_offers modal_step init_modal
      [(wm_props, ChoosePlayer ''b'', True), (wm_props, NextClick, True), (wm_props, ConfirmClick, True)]))"
  by (rule modal_transfers_to_eligible) (simp_all add: wm_props_def wm_player_def eligiblePlayers_def)

text \<open>
  The two steps of the dialog: leadership is handed over only after a next step that was taken while
  transfers were allowed.
\<close>

fun next_taken :: "(Modal_Props \<times> modal_action \<times> bool) list \<Rightarrow> bool" where
  "next_taken [] = False"
| "next_taken ((p, a, _) # es) = ((a = NextClick \<and> canTransfer p \<and> lm_isOpen p) \<or> next_taken es)"

lemma unconfirmed_step:
  assumes "\<not> showConfirm s" "modal_offers p s a" "\<not> (a = NextClick \<and> canTransfer p \<and> lm_isOpen p)"
  shows "\<not> showConfirm (fst (modal_step p s (a, ok))) \<and> (\<forall>i. OnTransfer i \<notin> set (snd (modal_step p s (a, ok))))"
  using assms by (cases a) (auto simp: modal_handlers modal_offers_iff)

lemma unconfirmed_session:
  "\<not> showConfirm s \<Longrightarrow> \<not> next_taken es \<Longrightarrow> OnTransfer i \<notin> set (snd (session modal_offers modal_step s es))"
proof (induction es arbitrary: s)
  case (Cons e es)
  obtain p a ok where e: "e = (p, a, ok)" by (cases e)
  obtain s' cs where i: "interact modal_offers modal_step s e = (s', cs)"
    by (cases "interact modal_offers modal_step s e")
  have "\<not> showConfirm s' \<and> OnTransfer i \<notin> set cs"
    using unconfirmed_step [OF Cons.prems(1), of p a ok] Cons.prems i
    by (auto simp: e interact_def split: if_splits)
  then show ?case using Cons.IH [of s'] Cons.prems(2) i by (auto simp: e split: prod.splits)
qed simp

lemma closed_render:
  "\<not> lm_isOpen p \<Longrightarrow> interact modal_offers modal_step s (p, Rerendered, b) = (init_modal, [])"
  by (simp add: interact_def modal_offers_def modal_handlers init_modal_def)

text \<open>Once the dialog has been closed, whatever had been selected in it is forgotten: no leadership
  is handed over until the leader has again chosen a player and taken the next step while transfers
  are allowed.\<close>

theorem closing_forgets_the_choice:
  assumes "\<not> lm_isOpen p" "\<not> next_taken fs"
  shows "let (s, _) = session modal_offers modal_step init_modal es;
             (_, cs) = session modal_offers modal_step s ((p, Rerendered, b) # fs)
    in list_all (\<lambda>c. case c of OnTransfer _ \<Rightarrow> False | _ \<Rightarrow> True) cs"
  using unconfirmed_session [of init_modal fs] assms
  by (auto simp: Let_def closed_render list_all_iff init_modal_def split: prod.splits modal_command.splits)

theorem closing_forgets_the_choice_witness:
  "let (s, _) = session modal_offers modal_step init_modal [(wm_props, ChoosePlayer ''b'', True), (wm_props, NextClick, True)];
       (_, cs) = session modal_offers modal_step s
         ((wm_props\<lparr>lm_isOpen := False\<rparr>, Rerendered, True) # [(wm_props, ConfirmClick, True)])
   in list_all (\<lambda>c. case c of OnTransfer _ \<Rightarrow> False | _ \<Rightarrow> True) cs"
  by (rule closing_forgets_the_choice) simp_all

end
