(* ===== verification/Api.thy ===== *)
theory Api
  imports Game_Types
begin

text \<open>
  \<open>services/api.ts\<close>: the requests that the client sends to the server and what it makes of the
  answers. A request is a value; the browser's \<open>fetch\<close> is the outcome given to the function that
  interprets it, so that network failures, error statuses and bodies that are not JSON are all
  cases. A field that is undefined is absent from a JSON object.
\<close>

section \<open>JSON and HTTP\<close>

text \<open>The property of a value, as far as it is a string.\<close>

definition json_field :: "string \<Rightarrow> Json \<Rightarrow> string option" where
  "json_field k j = (case j of
      JObj fs \<Rightarrow> (case map_of fs k of Some (JStr s) \<Rightarrow> Some s | _ \<Rightarrow> None)
    | _ \<Rightarrow> None)"

definition opt_field :: "string \<Rightarrow> Json option \<Rightarrow> (string \<times> Json) list" where
  "opt_field k v = (case v of None \<Rightarrow> [] | Some j \<Rightarrow> [(k, j)])"

record Http_Request =
  req_method :: string
  req_url :: string
  req_headers :: "(string \<times> string) list"
  req_body :: "Json option"

text \<open>\<open>fetch\<close> fails, or answers with a status and a body, which may not be JSON.\<close>

datatype Http_Outcome =
    NetworkFailure string
  | Response nat string "Json option"

definition response_ok :: "nat \<Rightarrow> bool" where
  "response_ok st \<longleftrightarrow> 200 \<le> st \<and> st \<le> 299"

section \<open>The base address\<close>

text \<open>\<open>API_BASE_URL\<close>, from the build's variable and the origin of the page, if there is a window.\<close>

definition API_BASE_URL :: "string option \<Rightarrow> string option \<Rightarrow> string" where
  "API_BASE_URL env origin =
     or_else env
      (case origin of
         Some o' \<Rightarrow> if o' \<noteq> ''http://localhost:5173'' then o' else ''http://localhost:8080''
       | None \<Rightarrow> ''http://localhost:8080'')"

section \<open>Errors\<close>

definition ERROR_MESSAGES :: "(string, string) js_map" where
  "ERROR_MESSAGES =
    [(''ROOM_NOT_FOUND'', ''The room was not found. Please check the room code.''),
     (''ROOM_FULL'', ''The room is full. Please join another room.''),
     (''GAME_ALREADY_STARTED'', ''The game has already started.''),
     (''INVALID_REQUEST'', ''Invalid request.''),
     (''INVALID_ROLE_CONFIG'', ''The selected role configuration was not found.''),
     (''PLAYER_NOT_FOUND'', ''The player was not found.''),
     (''INVALID_NICKNAME'', ''A nickname has 2 to 20 characters.''),
     (''INSUFFICIENT_PLAYERS'', ''At least 6 players are needed to start the game.''),
     (''GAME_NOT_STARTED'', ''The game has not started.''),
     (''FETCH_CONFIGS_FAILED'', ''The role configurations cannot be loaded.''),
     (''UNKNOWN_ERROR'', ''An unknown error has occurred.''),
     (''NETWORK_ERROR'', ''Please check the network connection.'')]"

record APIError =
  err_code :: "string option"
  err_message :: "string option"
  userMessage :: string

datatype js_error = ApiFailure APIError | OtherFailure string

text \<open>The constructor of \<open>APIError\<close>; an undefined code has no entry.\<close>

definition new_APIError :: "string option \<Rightarrow> string option \<Rightarrow> APIError" where
  "new_APIError c msg =
     \<lparr>err_code = c, err_message = msg,
      userMessage = or_else (case c of None \<Rightarrow> None | Some k \<Rightarrow> map_get ERROR_MESSAGES k)
        (or_else msg (the (map_get ERROR_MESSAGES ''UNKNOWN_ERROR'')))\<rparr>"

text \<open>
  The answer to a request, common to \<open>fetchJSON\<close> and the functions that call \<open>fetch\<close> themselves: the
  body on success; on an error status an \<open>APIError\<close> made of the body, or of the status when the body
  is not JSON. Reading a property of a \<open>null\<close> body fails.
\<close>

definition status_error :: "nat \<Rightarrow> string \<Rightarrow> Json" where
  "status_error st statusText =
     JObj [(''code'', JStr ''UNKNOWN_ERROR''), (''message'', JStr (''HTTP '' @ nat_str st @ '': '' @ statusText))]"

definition json_result :: "Http_Outcome \<Rightarrow> js_error + Json" where
  "json_result outcome =
     (case outcome of
        NetworkFailure msg \<Rightarrow> Inl (OtherFailure msg)
      | Response st statusText body \<Rightarrow>
          if \<not> response_ok st then
            (let error = (case body of None \<Rightarrow> status_error st statusText | Some j \<Rightarrow> j) in
             if error = JNull then Inl (OtherFailure ''Cannot read properties of null'')
             else Inl (ApiFailure (new_APIError (json_field ''code'' error) (json_field ''message'' error))))
          else (case body of None \<Rightarrow> Inl (OtherFailure ''Unexpected token'') | Some j \<Rightarrow> Inr j))"

text \<open>\<open>err instanceof APIError ? err.userMessage : fallback\<close>, as the pages report errors.\<close>

definition report_error :: "string \<Rightarrow> js_error \<Rightarrow> string" where
  "report_error fallback e = (case e of ApiFailure a \<Rightarrow> userMessage a | OtherFailure _ \<Rightarrow> fallback)"

section \<open>Requests\<close>

definition fetchJSON :: "string \<Rightarrow> string \<Rightarrow> string \<Rightarrow> Json option \<Rightarrow> Http_Request" where
  "fetchJSON base url method body =
     \<lparr>req_method = method, req_url = base @ url,
      req_headers = [(''Content-Type'', ''application/json'')], req_body = body\<rparr>"

definition api_get :: "string \<Rightarrow> string \<Rightarrow> Http_Request" where
  "api_get base url = fetchJSON base url ''GET'' None"

definition api_post :: "string \<Rightarrow> string \<Rightarrow> Json option \<Rightarrow> Http_Request" where
  "api_post base url body = fetchJSON base url ''POST'' body"

definition api_patch :: "string \<Rightarrow> string \<Rightarrow> Json option \<Rightarrow> Http_Request" where
  "api_patch base url body = fetchJSON base url ''PATCH'' body"

definition api_delete :: "string \<Rightarrow> string \<Rightarrow> Http_Request" where
  "api_delete base url = fetchJSON base url ''DELETE'' None"

text \<open>A request that names its player in a header.\<close>

definition player_post :: "string \<Rightarrow> string \<Rightarrow> string \<Rightarrow> Json option \<Rightarrow> Http_Request" where
  "player_post base url player body =
     \<lparr>req_method = ''POST'', req_url = base @ url,
      req_headers = [(''Content-Type'', ''application/json''), (''X-Player-ID'', player)], req_body = body\<rparr>"

definition createRoom :: "string \<Rightarrow> int \<Rightarrow> bool option \<Rightarrow> string option \<Rightarrow> (string, int) js_map option \<Rightarrow> Http_Request" where
  "createRoom base max_players is_public role_config selected =
     api_post base ''/api/v1/rooms''
      (Some (JObj ([(''maxPlayers'', JNum max_players),
        (''isPublic'', JBool (case is_public of None \<Rightarrow> True | Some b \<Rightarrow> b)),
        (''roleConfigId'', JStr (case role_config of None \<Rightarrow> ''standard'' | Some c \<Rightarrow> c))] @
        opt_field ''selectedRoles'' (map_option (\<lambda>m. JObj (map (\<lambda>(k, n). (k, JNum n)) m)) selected))))"

definition getRoom :: "string \<Rightarrow> string \<Rightarrow> Http_Request" where
  "getRoom base room = api_get base (''/api/v1/rooms/'' @ room)"

definition joinRoom :: "string \<Rightarrow> string \<Rightarrow> Http_Request" where
  "joinRoom base room = api_post base (''/api/v1/rooms/'' @ room @ ''/players'') None"

definition updateNickname :: "string \<Rightarrow> string \<Rightarrow> string \<Rightarrow> string \<Rightarrow> Http_Request" where
  "updateNickname base room player name =
     api_patch base (''/api/v1/rooms/'' @ room @ ''/players/'' @ player @ ''/nickname'')
       (Some (JObj [(''nickname'', JStr name)]))"

definition leaveRoom :: "string \<Rightarrow> string \<Rightarrow> string \<Rightarrow> Http_Request" where
  "leaveRoom base room player = api_delete base (''/api/v1/rooms/'' @ room @ ''/players/'' @ player)"

definition startGame :: "string \<Rightarrow> string \<Rightarrow> Http_Request" where
  "startGame base room = api_post base (''/api/v1/rooms/'' @ room @ ''/game/start'') None"

definition resetGame :: "string \<Rightarrow> string \<Rightarrow> Http_Request" where
  "resetGame base room = api_post base (''/api/v1/rooms/'' @ room @ ''/game/reset'') None"

definition updateRoomVisibility :: "string \<Rightarrow> string \<Rightarrow> bool \<Rightarrow> Http_Request" where
  "updateRoomVisibility base room is_public =
     api_patch base (''/api/v1/rooms/'' @ room @ ''/visibility'') (Some (JObj [(''isPublic'', JBool is_public)]))"

definition getRoleConfigs :: "string \<Rightarrow> Http_Request" where
  "getRoleConfigs base = api_get base ''/api/v1/role-configs''"

definition getRoleConfig :: "string \<Rightarrow> string \<Rightarrow> Http_Request" where
  "getRoleConfig base config = api_get base (''/api/v1/role-configs/'' @ config)"

definition transferLeadership :: "string \<Rightarrow> string \<Rightarrow> string \<Rightarrow> string \<Rightarrow> Http_Request" where
  "transferLeadership base room player new_leader =
     player_post base (''/api/v1/rooms/'' @ room @ ''/leaders/transfer'') player
       (Some (JObj [(''newLeaderId'', JStr new_leader)]))"

definition getCurrentRound :: "string \<Rightarrow> string \<Rightarrow> Http_Request" where
  "getCurrentRound base room = api_get base (''/api/v1/rooms/'' @ room @ ''/rounds/current'')"

definition startVote :: "string \<Rightarrow> string \<Rightarrow> string \<Rightarrow> string \<Rightarrow> string \<Rightarrow> Http_Request" where
  "startVote base room player room_color target =
     player_post base (''/api/v1/rooms/'' @ room @ ''/votes/start'') player
       (Some (JObj [(''roomColor'', JStr room_color), (''targetLeaderId'', JStr target)]))"

definition castVote :: "string \<Rightarrow> string \<Rightarrow> string \<Rightarrow> string \<Rightarrow> string \<Rightarrow> Http_Request" where
  "castVote base room vote_id player vote =
     player_post base (''/api/v1/rooms/'' @ room @ ''/votes/'' @ vote_id @ ''/cast'') player
       (Some (JObj [(''vote'', JStr vote)]))"

definition getCurrentVote :: "string \<Rightarrow> string \<Rightarrow> string \<Rightarrow> Http_Request" where
  "getCurrentVote base room room_color =
     api_get base (''/api/v1/rooms/'' @ room @ ''/votes/current?roomColor='' @ room_color)"

section \<open>The room list\<close>

definition room_status_str :: "RoomStatus \<Rightarrow> string" where
  "room_status_str st = (case st of WAITING \<Rightarrow> ''WAITING'' | IN_PROGRESS \<Rightarrow> ''IN_PROGRESS''
     | REVEALING \<Rightarrow> ''REVEALING'' | COMPLETED \<Rightarrow> ''COMPLETED'')"

fun query_string :: "(string \<times> string) list \<Rightarrow> string" where
  "query_string [] = ''''"
| "query_string [(k, v)] = k @ ''='' @ v"
| "query_string ((k, v) # ps) = k @ ''='' @ v @ ''&'' @ query_string ps"

definition listRooms :: "string \<Rightarrow> RoomStatus option \<Rightarrow> int option \<Rightarrow> int option \<Rightarrow> Http_Request" where
  "listRooms base st limit offset =
     (let params = (case st of None \<Rightarrow> [] | Some s \<Rightarrow> [(''status'', room_status_str s)]) @
          [(''limit'', int_str (case limit of None \<Rightarrow> 50 | Some n \<Rightarrow> n)),
           (''offset'', int_str (case offset of None \<Rightarrow> 0 | Some n \<Rightarrow> n))];
          q = query_string params
      in api_get base (''/api/v1/rooms'' @ (if q = '''' then '''' else ''?'' @ q)))"

text \<open>The rooms of the answer, as the server sends them, and as the pages use them.\<close>

record Backend_Room =
  br_code :: string
  br_status :: RoomStatus
  br_players :: "Player list"
  br_maxPlayers :: int
  br_isPublic :: bool
  br_createdAt :: string
  br_updatedAt :: string

definition room_list_item :: "Backend_Room \<Rightarrow> RoomListEntry" where
  "room_list_item r =
     \<lparr>rl_code = br_code r, rl_status = br_status r, rl_currentPlayers = int (length (br_players r)),
      rl_maxPlayers = br_maxPlayers r, rl_isPublic = br_isPublic r, rl_createdAt = br_createdAt r,
      rl_updatedAt = br_updatedAt r, hostNickname = map_option nickname (find isOwner (br_players r))\<rparr>"

definition room_list_items :: "Backend_Room list \<Rightarrow> RoomListEntry list" where
  "room_list_items rs = map room_list_item rs"

section \<open>Properties\<close>

lemma or_else_nonempty: "b \<noteq> '''' \<Longrightarrow> or_else a b \<noteq> ''''"
  by (simp add: or_else_def split: option.split)

lemma ERROR_MESSAGES_nonempty: "map_get ERROR_MESSAGES k = Some s \<Longrightarrow> s \<noteq> ''''"
  by (auto simp: ERROR_MESSAGES_def map_get_def split: if_splits)

lemma unknown_error: "map_get ERROR_MESSAGES ''UNKNOWN_ERROR'' = Some ''An unknown error has occurred.''"
  by (simp add: ERROR_MESSAGES_def map_get_def)

text \<open>Every answer of the server is either a success, exactly when its status is in the two
  hundreds and its body is JSON, or an error that can be shown: whatever the body of the error is,
  and with any fallback that is not empty, the text reported to the player is not empty.\<close>

theorem every_error_can_be_shown:
  "case json_result outcome of
     Inr j \<Rightarrow> \<exists>st t. outcome = Response st t (Some j) \<and> 200 \<le> st \<and> st \<le> 299
   | Inl e \<Rightarrow> report_error (c # fallback) e \<noteq> '''' \<and>
       (case outcome of Response st _ (Some _) \<Rightarrow> st < 200 \<or> 299 < st | _ \<Rightarrow> True)"
proof -
  have "userMessage (new_APIError k msg) \<noteq> ''''" for k msg
    by (simp add: new_APIError_def or_else_nonempty unknown_error)
  then show ?thesis
    by (auto simp: json_result_def report_error_def response_ok_def Let_def split: Http_Outcome.splits option.splits)
qed

text \<open>A known error code is always reported in the client's own words, and an error that has
  neither a code nor a message, such as the objects with a single field \<open>error\<close> that the server's
  round and vote handlers send, is reported as unknown, whatever text it carries.\<close>

theorem error_text_by_code:
  "report_error fallback
     (case json_result (Response 400 t (Some (JObj fs))) of Inl e \<Rightarrow> e | Inr _ \<Rightarrow> OtherFailure '''') =
   (let known = (case json_field ''code'' (JObj fs) of None \<Rightarrow> None | Some k \<Rightarrow> map_get ERROR_MESSAGES k) in
    case known of
      Some text \<Rightarrow> text
    | None \<Rightarrow> or_else (json_field ''message'' (JObj fs)) ''An unknown error has occurred.'')"
  by (auto simp: json_result_def response_ok_def report_error_def new_APIError_def unknown_error or_else_def
      Let_def dest: ERROR_MESSAGES_nonempty split: option.split)

text \<open>The room list names, for each room of the answer in order, the number of its players and the
  nickname of its owner: a room with exactly one owner is shown with that owner as host, and a room
  without an owner has no host.\<close>

theorem room_list_shows_the_owner:
  "list_all2 (\<lambda>r item. rl_code item = br_code r \<and> rl_currentPlayers item = int (length (br_players r)) \<and>
      (case filter isOwner (br_players r) of
         [] \<Rightarrow> hostNickname item = None
       | p # _ \<Rightarrow> hostNickname item = Some (nickname p)))
   rs (room_list_items rs)"
proof -
  have f: "find isOwner ps = (case filter isOwner ps of [] \<Rightarrow> None | p # _ \<Rightarrow> Some p)" for ps
    by (induction ps) auto
  then show ?thesis
    by (auto simp: room_list_items_def room_list_item_def list_all2_conv_all_nth f split: list.split)
qed

end
