(* ===== verification/Room_State.thy ===== *)
theory Room_State
  imports Round_History Hostage_Selection Transfer_Modal Api
begin

text \<open>
  The state of \<open>pages/RoomPage.tsx\<close>, the page of a room from its lobby to the end of the game: every
  \<open>useState\<close> and \<open>useRef\<close> of the component, the view in the address bar, what the page keeps in
  \<open>localStorage\<close> for its room, and the asynchronous calls under way with the values that their
  continuations have captured.
\<close>

section \<open>Answers of the server\<close>

record Round_Info =
  ri_roundNumber :: int
  ri_timeRemaining :: int
  ri_duration :: int
  ri_redLeader :: string
  ri_blueLeader :: string

record Active_Vote =
  av_voteId :: string
  av_voteType :: "VoteType option"
  av_roomColor :: RoomColor
  av_targetLeaderId :: string
  av_targetLeaderName :: string
  av_initiatorId :: string
  av_initiatorName :: string
  av_candidates :: "string list option"
  av_totalVoters :: int
  av_votedCount :: int
  av_timeoutSeconds :: int
  av_startedAt :: string

datatype answer =
    Failed js_error
  | GotRoom Room
  | GotPlayer Player
  | GotRound Round_Info
  | GotVote "Active_Vote option"
  | Done

section \<open>Calls under way\<close>

text \<open>
  One constructor per \<open>await\<close> or \<open>setTimeout\<close> of the page, in the order of the source; the arguments
  are what the code after it uses.
\<close>

datatype task =
    T_Poll string
  | T_InitRoom string
  | T_InitJoin
  | T_InitRefresh Player
  | T_InitRound Room Player
  | T_InitVote RoomColor
  | T_RolesView
  | T_RolesRoom
  | T_VoteDone
  | T_Nickname string string
  | T_Leave string
  | T_Start
  | T_Reset
  | T_Hostages string string "string list"
  | T_Ready string string
  | T_Transfer string string
  | T_StartVote string RoomColor string
  | T_CastVote string string string
  | T_ExchangeRoom "string option"

section \<open>The page\<close>

datatype RevealMode = ColorMode | FullMode

text \<open>The entries \<open>playerId_*\<close>, \<open>isOwner_*\<close>, \<open>role_*\<close>, \<open>team_*\<close>, \<open>currentRoom_*\<close> and \<open>history_*\<close>.\<close>

record Storage =
  ls_playerId :: "string option"
  ls_isOwner :: "bool option"
  ls_role :: "Role option"
  ls_team :: "TeamColor option"
  ls_currentRoom :: "RoomColor option"
  ls_history :: "History_Event list option"

record Room_Page =
  rp_roomCode :: string
  rp_view :: string
  room :: "Room option"
  currentPlayer :: "Player option"
  loading :: bool
  error :: string
  isStarting :: bool
  isResetting :: bool
  isSidebarOpen :: bool
  my_role :: "Role option"
  my_team :: "TeamColor option"
  currentRoom :: "RoomColor option"
  redRoomPlayers :: "Player list"
  blueRoomPlayers :: "Player list"
  revealMode :: RevealMode
  currentRound :: int
  timeRemaining :: int
  totalRoundTime :: int
  redLeader :: "LeaderInfo option"
  blueLeader :: "LeaderInfo option"
  showTransferModal :: bool
  canTransferLeadership :: bool
  activeVoteSession :: "VoteSession option"
  voteResult :: "VoteResultPayload option"
  hasVoted :: bool
  showExchangeAnimation :: bool
  exchangeRecords :: "ExchangeRecord list"
  historyEvents :: "History_Event list"
  isJoiningRef :: bool
  roleAssignedProcessedRef :: bool
  hasJoinedRef :: bool
  shownExchangeRoundsRef :: "int js_set"
  lastProcessedMessageRef :: "WSMessage option"
  storage :: Storage
  tasks :: "task list"

text \<open>The first render, at the address of a room and an optional view, with what is stored for it.\<close>

definition mount_room_page :: "string \<Rightarrow> string option \<Rightarrow> Storage \<Rightarrow> Room_Page" where
  "mount_room_page room_code view_param st =
     \<lparr>rp_roomCode = room_code, rp_view = or_else view_param ''lobby'', room = None, currentPlayer = None,
      loading = True, error = '''', isStarting = False, isResetting = False, isSidebarOpen = False,
      my_role = None, my_team = None, currentRoom = None, redRoomPlayers = [], blueRoomPlayers = [],
      revealMode = ColorMode, currentRound = 0, timeRemaining = 0, totalRoundTime = 180,
      redLeader = None, blueLeader = None, showTransferModal = False, canTransferLeadership = True,
      activeVoteSession = None, voteResult = None, hasVoted = False, showExchangeAnimation = False,
      exchangeRecords = [], historyEvents = [], isJoiningRef = False, roleAssignedProcessedRef = False,
      hasJoinedRef = False, shownExchangeRoundsRef = [], lastProcessedMessageRef = None, storage = st,
      tasks = []\<rparr>"

text \<open>What the page does besides changing its state.\<close>

datatype page_command = Navigate string | PageAlert string

definition add_task :: "task \<Rightarrow> Room_Page \<Rightarrow> Room_Page" where
  "add_task t s = s\<lparr>tasks := tasks s @ [t]\<rparr>"

text \<open>\<open>setSearchParams({ view: v })\<close>\<close>

definition set_view :: "string \<Rightarrow> Room_Page \<Rightarrow> Room_Page" where
  "set_view v s = s\<lparr>rp_view := v\<rparr>"

text \<open>The lists of the players of the two rooms, as every refresh computes them.\<close>

definition set_room_players :: "Room \<Rightarrow> Room_Page \<Rightarrow> Room_Page" where
  "set_room_players r s =
     s\<lparr>redRoomPlayers := players_in RED_ROOM (players r), blueRoomPlayers := players_in BLUE_ROOM (players r)\<rparr>"

text \<open>The requests behind the calls; the timers and the polls of the page send what they say.\<close>

definition color_str :: "RoomColor \<Rightarrow> string" where
  "color_str c = (case c of RED_ROOM \<Rightarrow> ''RED_ROOM'' | BLUE_ROOM \<Rightarrow> ''BLUE_ROOM'')"

definition hostages_request :: "string \<Rightarrow> string \<Rightarrow> string \<Rightarrow> string list \<Rightarrow> Http_Request" where
  "hostages_request base room_code player ids =
     player_post base (''/api/v1/rooms/'' @ room_code @ ''/hostages/select'') player
       (Some (JObj [(''hostageIds'', JArr (map JStr ids))]))"

definition ready_request :: "string \<Rightarrow> string \<Rightarrow> string \<Rightarrow> Http_Request" where
  "ready_request base room_code player =
     player_post base (''/api/v1/rooms/'' @ room_code @ ''/rounds/ready'') player None"

definition task_request :: "string \<Rightarrow> string \<Rightarrow> task \<Rightarrow> Http_Request option" where
  "task_request base rc t =
     (case t of
        T_Poll _ \<Rightarrow> Some (getRoom base rc)
      | T_InitRoom _ \<Rightarrow> Some (getRoom base rc)
      | T_InitJoin \<Rightarrow> Some (joinRoom base rc)
      | T_InitRefresh _ \<Rightarrow> Some (getRoom base rc)
      | T_InitRound _ _ \<Rightarrow> Some (getCurrentRound base rc)
      | T_InitVote c \<Rightarrow> Some (getCurrentVote base rc (color_str c))
      | T_RolesView \<Rightarrow> None
      | T_RolesRoom \<Rightarrow> Some (getRoom base rc)
      | T_VoteDone \<Rightarrow> None
      | T_Nickname i n \<Rightarrow> Some (updateNickname base rc i n)
      | T_Leave i \<Rightarrow> Some (leaveRoom base rc i)
      | T_Start \<Rightarrow> Some (startGame base rc)
      | T_Reset \<Rightarrow> Some (resetGame base rc)
      | T_Hostages c i ids \<Rightarrow> Some (hostages_request base c i ids)
      | T_Ready c i \<Rightarrow> Some (ready_request base c i)
      | T_Transfer i n \<Rightarrow> Some (transferLeadership base rc i n)
      | T_StartVote i c l \<Rightarrow> Some (startVote base rc i (color_str c) l)
      | T_CastVote v i w \<Rightarrow> Some (castVote base rc v i w)
      | T_ExchangeRoom _ \<Rightarrow> Some (getRoom base rc))"

section \<open>Joining the room\<close>

text \<open>The end of \<open>initializeRoom\<close> when a call fails: \<open>catch\<close> and \<open>finally\<close>.\<close>

definition init_failed :: "js_error \<Rightarrow> Room_Page \<Rightarrow> Room_Page" where
  "init_failed e s = s\<lparr>error := report_error ''Failed to enter the room'' e, loading := False, isJoiningRef := False\<rparr>"

text \<open>\<open>initializeRoom\<close> up to its first \<open>await\<close>; the continuation knows the view of the first render.\<close>

definition initializeRoom :: "Room_Page \<Rightarrow> Room_Page" where
  "initializeRoom s =
     (if rp_roomCode s = '''' then s\<lparr>error := ''There is no room code'', loading := False\<rparr>
      else if isJoiningRef s \<or> hasJoinedRef s then s
      else add_task (T_InitRoom (rp_view s)) (s\<lparr>isJoiningRef := True\<rparr>))"

definition init_joined :: "Player \<Rightarrow> Room_Page \<Rightarrow> Room_Page" where
  "init_joined p s = add_task (T_InitRefresh p) (s\<lparr>hasJoinedRef := True, currentPlayer := Some p\<rparr>)"

definition init_room :: "string \<Rightarrow> Room \<Rightarrow> Room_Page \<Rightarrow> Room_Page" where
  "init_room view0 r s =
     (let s = (if status r = IN_PROGRESS \<and> view0 = ''lobby'' then set_view ''game'' s else s) in
      case ls_playerId (storage s) of
        None \<Rightarrow> add_task T_InitJoin s
      | Some stored \<Rightarrow>
          if stored = '''' then add_task T_InitJoin s
          else (case find_player stored (players r) of
              Some existing \<Rightarrow> init_joined existing s
            | None \<Rightarrow> add_task T_InitJoin s))"

definition init_join :: "Player \<Rightarrow> Room_Page \<Rightarrow> Room_Page" where
  "init_join p s =
     init_joined p (s\<lparr>storage := (storage s)\<lparr>ls_playerId := Some (player_id p), ls_isOwner := Some (isOwner p)\<rparr>\<rparr>)"

definition init_done :: "Room_Page \<Rightarrow> Room_Page" where
  "init_done s = s\<lparr>loading := False, isJoiningRef := False\<rparr>"

text \<open>After the round and the vote: the view, unless a vote is open, and the stored history.\<close>

definition init_restore :: "bool \<Rightarrow> Room_Page \<Rightarrow> Room_Page" where
  "init_restore hasActiveVote s =
     (let s = (if \<not> hasActiveVote then set_view ''game'' s else s);
          s = (case ls_history (storage s) of None \<Rightarrow> s | Some h \<Rightarrow> s\<lparr>historyEvents := h\<rparr>)
      in init_done s)"

definition init_refresh :: "Player \<Rightarrow> Room \<Rightarrow> Room_Page \<Rightarrow> Room_Page" where
  "init_refresh p u s =
     (let s = s\<lparr>room := Some u\<rparr> in
      if status u = IN_PROGRESS then
        (case find_player (player_id p) (players u) of
           None \<Rightarrow> init_done s
         | Some d \<Rightarrow>
             (case player_role d of
                None \<Rightarrow> init_done s
              | Some r \<Rightarrow>
                  add_task (T_InitRound u d)
                    (set_room_players u
                      (s\<lparr>my_role := Some r, my_team := player_team d, currentRoom := player_currentRoom d\<rparr>))))
      else init_done s)"

definition find_leader :: "string \<Rightarrow> Room \<Rightarrow> LeaderInfo option" where
  "find_leader i u =
     (if i = '''' then None
      else map_option (\<lambda>q. \<lparr>leader_id = player_id q, leader_nickname = nickname q\<rparr>) (find_player i (players u)))"

definition init_round :: "Room \<Rightarrow> Player \<Rightarrow> Round_Info \<Rightarrow> Room_Page \<Rightarrow> Room_Page" where
  "init_round u d ri s =
     (let s = s\<lparr>currentRound := ri_roundNumber ri, timeRemaining := ri_timeRemaining ri,
                totalRoundTime := ri_duration ri\<rparr>;
          s = (case find_leader (ri_redLeader ri) u of None \<Rightarrow> s | Some l \<Rightarrow> s\<lparr>redLeader := Some l\<rparr>);
          s = (case find_leader (ri_blueLeader ri) u of None \<Rightarrow> s | Some l \<Rightarrow> s\<lparr>blueLeader := Some l\<rparr>)
      in case player_currentRoom d of
           None \<Rightarrow> init_restore False s
         | Some c \<Rightarrow> add_task (T_InitVote c) s)"

definition restored_vote :: "Active_Vote \<Rightarrow> VoteSession" where
  "restored_vote v =
     \<lparr>voteID = av_voteId v, vote_gameSessionId = '''', vote_roomColor = av_roomColor v, voteType = av_voteType v,
      targetLeaderId = av_targetLeaderId v, targetLeaderName = av_targetLeaderName v,
      initiatorId = av_initiatorId v, initiatorName = av_initiatorName v, candidates = av_candidates v,
      vote_startedAt = av_startedAt v, expiresAt = '''', timeoutSeconds = av_timeoutSeconds v,
      totalVoters = av_totalVoters v, votedCount = av_votedCount v, vote_status = VoteActive\<rparr>"

text \<open>A vote that opens: its session is shown, nothing is cast, and leadership is frozen.\<close>

definition open_vote :: "VoteSession \<Rightarrow> Room_Page \<Rightarrow> Room_Page" where
  "open_vote v s =
     set_view ''vote''
       (s\<lparr>activeVoteSession := Some v, hasVoted := False, voteResult := None, canTransferLeadership := False\<rparr>)"

definition init_vote :: "Active_Vote option \<Rightarrow> Room_Page \<Rightarrow> Room_Page" where
  "init_vote v s =
     (case v of
        None \<Rightarrow> init_restore False s
      | Some av \<Rightarrow> init_restore True (open_vote (restored_vote av) s))"

section \<open>Refreshing\<close>

text \<open>\<open>fetchRoom\<close> after its \<open>await\<close>, for the player that its closure knows.\<close>

definition refreshed :: "string \<Rightarrow> Room \<Rightarrow> Room_Page \<Rightarrow> Room_Page" where
  "refreshed player r s =
     (let s = s\<lparr>room := Some r\<rparr> in
      if status r = IN_PROGRESS \<or> status r = REVEALING then
        (case find_player player (players r) of
           None \<Rightarrow> s
         | Some d \<Rightarrow>
             set_room_players r
               (s\<lparr>my_role := player_role d, my_team := player_team d, currentRoom := player_currentRoom d\<rparr>))
      else s)"

definition fetchRoom :: "Room_Page \<Rightarrow> Room_Page" where
  "fetchRoom s =
     (case currentPlayer s of
        None \<Rightarrow> s
      | Some p \<Rightarrow> if rp_roomCode s = '''' then s else add_task (T_Poll (player_id p)) s)"

text \<open>
  The effect that stores the history whenever it changes, and the redirections that a render
  performs before it can show anything.
\<close>

definition save_history :: "Room_Page \<Rightarrow> Room_Page \<Rightarrow> Room_Page" where
  "save_history old s =
     (if rp_roomCode s \<noteq> '''' \<and> historyEvents s \<noteq> historyEvents old \<and> 0 < length (historyEvents s)
      then s\<lparr>storage := (storage s)\<lparr>ls_history := Some (historyEvents s)\<rparr>\<rparr> else s)"

definition render_redirect :: "Room_Page \<Rightarrow> Room_Page" where
  "render_redirect s =
     (if loading s \<or> error s \<noteq> '''' then s
      else case (room s, currentPlayer s) of
        (Some r, Some _) \<Rightarrow>
          if status r = REVEALING then s
          else if rp_view s = ''reveal'' \<and> (my_role s = None \<or> my_team s = None)
            then set_view (if status r = IN_PROGRESS then ''game'' else ''lobby'') s
          else if rp_view s = ''vote'' \<and> (activeVoteSession s = None \<or> currentRoom s = None)
            then set_view ''game'' s
          else s
      | _ \<Rightarrow> s)"

end
