(* ===== verification/Json_Reading.thy ===== *)
theory Json_Reading
  imports Room_State "HOL-Library.Monad_Syntax"
begin

text \<open>
  What the client takes from the JSON values that it receives: the objects of
  \<open>types/game.types.ts\<close> and of the answers in \<open>services/api.ts\<close>, read property by property, and the
  messages of the socket, by their type. The source only declares these types; a value that lacks
  what the code uses of it is outside the model (\<open>None\<close>).
\<close>

section \<open>Properties of a value\<close>

definition js_prop :: "string \<Rightarrow> Json \<Rightarrow> Json option" where
  "js_prop k j = (case j of JObj fs \<Rightarrow> map_of fs k | _ \<Rightarrow> None)"

definition read_str :: "Json \<Rightarrow> string option" where
  "read_str j = (case j of JStr s \<Rightarrow> Some s | _ \<Rightarrow> None)"

definition read_int :: "Json \<Rightarrow> int option" where
  "read_int j = (case j of JNum n \<Rightarrow> Some n | _ \<Rightarrow> None)"

definition read_bool :: "Json \<Rightarrow> bool option" where
  "read_bool j = (case j of JBool b \<Rightarrow> Some b | _ \<Rightarrow> None)"

definition read_list :: "(Json \<Rightarrow> 'a option) \<Rightarrow> Json \<Rightarrow> 'a list option" where
  "read_list f j = (case j of JArr js \<Rightarrow> those (map f js) | _ \<Rightarrow> None)"

text \<open>
  A property that is needed, and one that may be absent, \<open>null\<close> or, for texts, empty; an absent flag
  acts as false, an absent text as the empty one, and a \<open>null\<close> list as the empty one.
\<close>

definition field :: "string \<Rightarrow> (Json \<Rightarrow> 'a option) \<Rightarrow> Json \<Rightarrow> 'a option" where
  "field k f j = Option.bind (js_prop k j) f"

definition if_given :: "(Json \<Rightarrow> 'a option) \<Rightarrow> Json option \<Rightarrow> 'a option option" where
  "if_given f v =
     (case v of
        None \<Rightarrow> Some None
      | Some j \<Rightarrow> if j = JNull \<or> j = JStr '''' then Some None else map_option Some (f j))"

definition maybe :: "string \<Rightarrow> (Json \<Rightarrow> 'a option) \<Rightarrow> Json \<Rightarrow> 'a option option" where
  "maybe k f j = if_given f (js_prop k j)"

definition flag :: "string \<Rightarrow> Json \<Rightarrow> bool option" where
  "flag k j = (case js_prop k j of None \<Rightarrow> Some False | Some v \<Rightarrow> read_bool v)"

definition text_at :: "string \<Rightarrow> Json \<Rightarrow> string option" where
  "text_at k j = (case js_prop k j of None \<Rightarrow> Some '''' | Some v \<Rightarrow> read_str v)"

definition if_list :: "(Json \<Rightarrow> 'a option) \<Rightarrow> Json option \<Rightarrow> 'a list option" where
  "if_list f v = (case v of None \<Rightarrow> Some [] | Some j \<Rightarrow> if j = JNull then Some [] else read_list f j)"

definition items :: "string \<Rightarrow> (Json \<Rightarrow> 'a option) \<Rightarrow> Json \<Rightarrow> 'a list option" where
  "items k f j = if_list f (js_prop k j)"

text \<open>A text that is one of the literals of a union.\<close>

definition read_lit :: "(string \<times> 'a) list \<Rightarrow> Json \<Rightarrow> 'a option" where
  "read_lit lits j = Option.bind (read_str j) (map_of lits)"

section \<open>The data of the game\<close>

definition team_lits :: "(string \<times> TeamColor) list" where
  "team_lits = [(''RED'', RED), (''BLUE'', BLUE), (''GREY'', GREY)]"

definition room_lits :: "(string \<times> RoomColor) list" where
  "room_lits = [(''RED_ROOM'', RED_ROOM), (''BLUE_ROOM'', BLUE_ROOM)]"

definition status_lits :: "(string \<times> RoomStatus) list" where
  "status_lits = [(''WAITING'', WAITING), (''IN_PROGRESS'', IN_PROGRESS), (''REVEALING'', REVEALING), (''COMPLETED'', COMPLETED)]"

definition round_lits :: "(string \<times> RoundStatus) list" where
  "round_lits = [(''SETUP'', SETUP), (''ACTIVE'', ACTIVE), (''SELECTING'', SELECTING), (''EXCHANGING'', EXCHANGING),
     (''COMPLETE'', COMPLETE)]"

definition vote_type_lits :: "(string \<times> VoteType) list" where
  "vote_type_lits = [(''REMOVAL'', REMOVAL), (''ELECTION'', ELECTION)]"

definition result_lits :: "(string \<times> VoteResult) list" where
  "result_lits = [(''PASSED'', PASSED), (''FAILED'', FAILED), (''TIMEOUT'', TIMEOUT)]"

definition reason_lits :: "(string \<times> LeadershipChangeReason) list" where
  "reason_lits = [(''VOLUNTARY_TRANSFER'', VOLUNTARY_TRANSFER), (''DISCONNECTION'', DISCONNECTION),
     (''VOTE_REMOVAL'', VOTE_REMOVAL)]"

definition read_role :: "Json \<Rightarrow> Role option" where
  "read_role j = do {
     i \<leftarrow> field ''id'' read_str j;
     n \<leftarrow> text_at ''name'' j;
     nk \<leftarrow> maybe ''nameKo'' read_str j;
     d \<leftarrow> text_at ''description'' j;
     dk \<leftarrow> maybe ''descriptionKo'' read_str j;
     t \<leftarrow> field ''team'' (read_lit team_lits) j;
     ic \<leftarrow> maybe ''icon'' read_str j;
     spy \<leftarrow> flag ''isSpy'' j;
     leads \<leftarrow> flag ''isLeader'' j;
     Some \<lparr>role_id = i, role_name = n, role_nameKo = nk, role_description = d, role_descriptionKo = dk,
       role_team = t, role_icon = ic, isSpy = spy, role_isLeader = leads\<rparr> }"

definition read_player :: "Json \<Rightarrow> Player option" where
  "read_player j = do {
     i \<leftarrow> field ''id'' read_str j;
     n \<leftarrow> text_at ''nickname'' j;
     an \<leftarrow> flag ''isAnonymous'' j;
     rc \<leftarrow> text_at ''roomCode'' j;
     ow \<leftarrow> flag ''isOwner'' j;
     ro \<leftarrow> maybe ''role'' read_role j;
     te \<leftarrow> maybe ''team'' (read_lit team_lits) j;
     cr \<leftarrow> maybe ''currentRoom'' (read_lit room_lits) j;
     ct \<leftarrow> text_at ''connectedAt'' j;
     Some \<lparr>player_id = i, nickname = n, isAnonymous = an, player_roomCode = rc, isOwner = ow, player_role = ro,
       player_team = te, player_currentRoom = cr, connectedAt = ct\<rparr> }"

definition read_round_state :: "Json \<Rightarrow> RoundState option" where
  "read_round_state j = do {
     g \<leftarrow> text_at ''gameSessionId'' j;
     n \<leftarrow> field ''roundNumber'' read_int j;
     d \<leftarrow> field ''duration'' read_int j;
     t \<leftarrow> field ''timeRemaining'' read_int j;
     st \<leftarrow> field ''status'' (read_lit round_lits) j;
     rl \<leftarrow> text_at ''redLeaderId'' j;
     bl \<leftarrow> text_at ''blueLeaderId'' j;
     h \<leftarrow> field ''hostageCount'' read_int j;
     rh \<leftarrow> items ''redHostages'' read_str j;
     bh \<leftarrow> items ''blueHostages'' read_str j;
     rr \<leftarrow> flag ''redLeaderReady'' j;
     br \<leftarrow> flag ''blueLeaderReady'' j;
     s \<leftarrow> text_at ''startedAt'' j;
     e \<leftarrow> maybe ''endedAt'' read_str j;
     Some \<lparr>rs_gameSessionId = g, rs_roundNumber = n, rs_duration = d, rs_timeRemaining = t, rs_status = st,
       redLeaderId = rl, blueLeaderId = bl, hostageCount = h, redHostages = rh, blueHostages = bh,
       redLeaderReady = rr, blueLeaderReady = br, rs_startedAt = s, rs_endedAt = e\<rparr> }"

definition read_session :: "Json \<Rightarrow> GameSession option" where
  "read_session j = do {
     i \<leftarrow> field ''id'' read_str j;
     rc \<leftarrow> text_at ''roomCode'' j;
     rt \<leftarrow> items ''redTeam'' read_player j;
     bt \<leftarrow> items ''blueTeam'' read_player j;
     rr \<leftarrow> items ''redRoomPlayers'' read_player j;
     br \<leftarrow> items ''blueRoomPlayers'' read_player j;
     rs \<leftarrow> maybe ''roundState'' read_round_state j;
     s \<leftarrow> text_at ''startedAt'' j;
     Some \<lparr>session_id = i, session_roomCode = rc, redTeam = rt, blueTeam = bt, session_redRoomPlayers = rr,
       session_blueRoomPlayers = br, roundState = rs, session_startedAt = s\<rparr> }"

definition read_counts :: "Json \<Rightarrow> (string, int) js_map option" where
  "read_counts j = (case j of
      JObj fs \<Rightarrow> those (map (\<lambda>(k, v). map_option (Pair k) (read_int v)) fs)
    | _ \<Rightarrow> None)"

definition read_room :: "Json \<Rightarrow> Room option" where
  "read_room j = do {
     c \<leftarrow> field ''code'' read_str j;
     st \<leftarrow> field ''status'' (read_lit status_lits) j;
     ps \<leftarrow> field ''players'' (read_list read_player) j;
     mx \<leftarrow> field ''maxPlayers'' read_int j;
     cf \<leftarrow> maybe ''roleConfigId'' read_str j;
     sr \<leftarrow> maybe ''selectedRoles'' read_counts j;
     g \<leftarrow> maybe ''gameSession'' read_session j;
     ca \<leftarrow> text_at ''createdAt'' j;
     ua \<leftarrow> text_at ''updatedAt'' j;
     Some \<lparr>code = c, status = st, players = ps, maxPlayers = mx, roleConfigId = cf, selectedRoles = sr,
       gameSession = g, room_createdAt = ca, room_updatedAt = ua\<rparr> }"

definition read_leader :: "Json \<Rightarrow> LeaderInfo option" where
  "read_leader j = do {
     i \<leftarrow> field ''id'' read_str j;
     n \<leftarrow> text_at ''nickname'' j;
     Some \<lparr>leader_id = i, leader_nickname = n\<rparr> }"

definition read_exchange :: "Json \<Rightarrow> ExchangeRecord option" where
  "read_exchange j = do {
     i \<leftarrow> field ''playerId'' read_str j;
     n \<leftarrow> text_at ''nickname'' j;
     a \<leftarrow> field ''fromRoom'' (read_lit room_lits) j;
     b \<leftarrow> field ''toRoom'' (read_lit room_lits) j;
     t \<leftarrow> text_at ''timestamp'' j;
     Some \<lparr>ex_playerId = i, ex_nickname = n, fromRoom = a, toRoom = b, ex_timestamp = t\<rparr> }"

section \<open>Messages of the socket\<close>

text \<open>The payload of a message whose type has a case in the switch of the page.\<close>

definition read_role_assigned :: "Json \<Rightarrow> RoleAssignedPayload option" where
  "read_role_assigned p = do {
     r \<leftarrow> field ''role'' read_role p;
     t \<leftarrow> field ''team'' (read_lit team_lits) p;
     c \<leftarrow> field ''currentRoom'' (read_lit room_lits) p;
     Some \<lparr>ra_role = r, ra_team = t, ra_currentRoom = c\<rparr> }"

definition read_round_started :: "Json \<Rightarrow> RoundStartedPayload option" where
  "read_round_started p = do {
     n \<leftarrow> field ''roundNumber'' read_int p;
     d \<leftarrow> field ''duration'' read_int p;
     t \<leftarrow> field ''timeRemaining'' read_int p;
     r \<leftarrow> maybe ''redLeader'' read_leader p;
     b \<leftarrow> maybe ''blueLeader'' read_leader p;
     h \<leftarrow> field ''hostageCount'' read_int p;
     Some \<lparr>rst_roundNumber = n, rst_duration = d, rst_timeRemaining = t, rst_redLeader = r, rst_blueLeader = b,
       rst_hostageCount = h\<rparr> }"

definition read_round_ended :: "Json \<Rightarrow> RoundEndedPayload option" where
  "read_round_ended p = do {
     n \<leftarrow> field ''roundNumber'' read_int p;
     f \<leftarrow> flag ''finalRound'' p;
     x \<leftarrow> text_at ''nextPhase'' p;
     Some \<lparr>re_roundNumber = n, finalRound = f, nextPhase = x\<rparr> }"

definition read_leadership_changed :: "Json \<Rightarrow> LeadershipChangedPayload option" where
  "read_leadership_changed p = do {
     c \<leftarrow> field ''roomColor'' (read_lit room_lits) p;
     a \<leftarrow> maybe ''oldLeader'' read_leader p;
     b \<leftarrow> maybe ''newLeader'' read_leader p;
     w \<leftarrow> field ''reason'' (read_lit reason_lits) p;
     t \<leftarrow> text_at ''timestamp'' p;
     Some \<lparr>lc_roomColor = c, oldLeader = a, newLeader = b, reason = w, lc_timestamp = t\<rparr> }"

definition read_vote_started :: "Json \<Rightarrow> VoteSessionStartedPayload option" where
  "read_vote_started p = do {
     v \<leftarrow> field ''voteId'' read_str p;
     c \<leftarrow> field ''roomColor'' (read_lit room_lits) p;
     t \<leftarrow> maybe ''targetLeader'' read_leader p;
     i \<leftarrow> maybe ''initiator'' read_leader p;
     cs \<leftarrow> maybe ''candidates'' (read_list read_str) p;
     n \<leftarrow> field ''totalVoters'' read_int p;
     s \<leftarrow> field ''timeoutSeconds'' read_int p;
     st \<leftarrow> text_at ''startedAt'' p;
     Some \<lparr>vss_voteId = v, vss_roomColor = c, vss_targetLeader = t, vss_initiator = i, vss_candidates = cs,
       vss_totalVoters = n, vss_timeoutSeconds = s, vss_startedAt = st\<rparr> }"

definition read_vote_progress :: "Json \<Rightarrow> VoteProgressPayload option" where
  "read_vote_progress p = do {
     v \<leftarrow> maybe ''voteID'' read_str p;
     k \<leftarrow> field ''votedCount'' read_int p;
     n \<leftarrow> field ''totalVoters'' read_int p;
     t \<leftarrow> field ''timeRemaining'' read_int p;
     Some \<lparr>vp_voteID = v, vp_votedCount = k, vp_totalVoters = n, vp_timeRemaining = t\<rparr> }"

definition read_vote_result :: "Json \<Rightarrow> VoteResultPayload option" where
  "read_vote_result p = do {
     v \<leftarrow> maybe ''voteID'' read_str p;
     r \<leftarrow> field ''result'' (read_lit result_lits) p;
     y \<leftarrow> field ''yesVotes'' read_int p;
     n \<leftarrow> field ''noVotes'' read_int p;
     t \<leftarrow> maybe ''totalVoters'' read_int p;
     li \<leftarrow> maybe ''newLeaderId'' read_str p;
     ln \<leftarrow> maybe ''newLeaderName'' read_str p;
     Some \<lparr>vr_voteID = v, vr_result = r, yesVotes = y, noVotes = n, vr_totalVoters = t, newLeaderId = li,
       newLeaderName = ln\<rparr> }"

definition read_exchange_complete :: "Json \<Rightarrow> ExchangeCompletePayload option" where
  "read_exchange_complete p = do {
     n \<leftarrow> field ''roundNumber'' read_int p;
     xs \<leftarrow> field ''exchanges'' (read_list read_exchange) p;
     k \<leftarrow> maybe ''nextRound'' read_int p;
     Some \<lparr>ec_roundNumber = n, exchanges = xs, nextRound = k\<rparr> }"

text \<open>The messages of each type; the types that the page has no case for are kept as they are.\<close>

definition readers :: "(string \<times> (Json \<Rightarrow> WSMessage option)) list" where
  "readers =
    [(''PLAYER_JOINED'', \<lambda>p. map_option PLAYER_JOINED (maybe ''player'' read_player p)),
     (''PLAYER_LEFT'', \<lambda>p. map_option PLAYER_LEFT (field ''playerId'' read_str p)),
     (''PLAYER_DISCONNECTED'', \<lambda>p. map_option PLAYER_DISCONNECTED (field ''playerId'' read_str p)),
     (''NICKNAME_CHANGED'', \<lambda>p. do { i \<leftarrow> field ''playerId'' read_str p; n \<leftarrow> field ''newNickname'' read_str p;
        Some (NICKNAME_CHANGED i n) }),
     (''OWNER_CHANGED'', \<lambda>p. map_option OWNER_CHANGED (maybe ''newOwner'' read_player p)),
     (''GAME_STARTED'', \<lambda>p. map_option GAME_STARTED (field ''gameSession'' read_session p)),
     (''ROLE_ASSIGNED'', \<lambda>p. map_option ROLE_ASSIGNED (read_role_assigned p)),
     (''GAME_RESET'', \<lambda>p. map_option GAME_RESET (field ''room'' read_room p)),
     (''ROUND_STARTED'', \<lambda>p. map_option ROUND_STARTED (read_round_started p)),
     (''TIMER_TICK'', \<lambda>p. do { n \<leftarrow> field ''roundNumber'' read_int p; t \<leftarrow> field ''timeRemaining'' read_int p;
        Some (TIMER_TICK n t) }),
     (''ROUND_ENDING'', \<lambda>p. do { n \<leftarrow> field ''roundNumber'' read_int p; h \<leftarrow> field ''hostageCount'' read_int p;
        Some (ROUND_ENDING n h) }),
     (''ROUND_ENDED'', \<lambda>p. map_option ROUND_ENDED (read_round_ended p)),
     (''LEADER_READY'', \<lambda>p. do { c \<leftarrow> field ''roomColor'' (read_lit room_lits) p; i \<leftarrow> field ''leaderId'' read_str p;
        b \<leftarrow> flag ''bothReady'' p; Some (LEADER_READY c i b) }),
     (''GAME_REVEALING'', \<lambda>p. map_option GAME_REVEALING (text_at ''message'' p)),
     (''LEADERSHIP_CHANGED'', \<lambda>p. if p = JNull then Some (LEADERSHIP_CHANGED None)
        else map_option (\<lambda>x. LEADERSHIP_CHANGED (Some x)) (read_leadership_changed p)),
     (''VOTE_SESSION_STARTED'', \<lambda>p. map_option VOTE_SESSION_STARTED (read_vote_started p)),
     (''VOTE_PROGRESS'', \<lambda>p. map_option VOTE_PROGRESS (read_vote_progress p)),
     (''VOTE_COMPLETED'', \<lambda>p. map_option VOTE_COMPLETED (read_vote_result p)),
     (''LEADER_ANNOUNCED_HOSTAGES'', \<lambda>p. do { c \<leftarrow> field ''roomColor'' (read_lit room_lits) p;
        hs \<leftarrow> items ''hostages'' read_leader p; w \<leftarrow> flag ''waitingForOtherLeader'' p;
        Some (LEADER_ANNOUNCED_HOSTAGES c hs w) }),
     (''EXCHANGE_COMPLETE'', \<lambda>p. map_option EXCHANGE_COMPLETE (read_exchange_complete p))]"

definition read_message :: "Json \<Rightarrow> WSMessage option" where
  "read_message j =
     (case j of
        JObj _ \<Rightarrow>
          (case Option.bind (js_prop ''type'' j) read_str of
             None \<Rightarrow> Some (UNLISTED j)
           | Some t \<Rightarrow>
               (case map_of readers t of
                  None \<Rightarrow> Some (UNLISTED j)
                | Some r \<Rightarrow> Option.bind (js_prop ''payload'' j) r))
      | _ \<Rightarrow> None)"

section \<open>Answers to requests\<close>

definition read_round_info :: "Json \<Rightarrow> Round_Info option" where
  "read_round_info j = do {
     n \<leftarrow> field ''roundNumber'' read_int j;
     t \<leftarrow> field ''timeRemaining'' read_int j;
     d \<leftarrow> field ''duration'' read_int j;
     r \<leftarrow> text_at ''redLeader'' j;
     b \<leftarrow> text_at ''blueLeader'' j;
     Some \<lparr>ri_roundNumber = n, ri_timeRemaining = t, ri_duration = d, ri_redLeader = r, ri_blueLeader = b\<rparr> }"

definition read_active_vote :: "Json \<Rightarrow> Active_Vote option" where
  "read_active_vote j = do {
     v \<leftarrow> field ''voteId'' read_str j;
     ty \<leftarrow> maybe ''voteType'' (read_lit vote_type_lits) j;
     c \<leftarrow> field ''roomColor'' (read_lit room_lits) j;
     t \<leftarrow> text_at ''targetLeaderId'' j;
     tn \<leftarrow> text_at ''targetLeaderName'' j;
     i \<leftarrow> text_at ''initiatorId'' j;
     im \<leftarrow> text_at ''initiatorName'' j;
     cs \<leftarrow> maybe ''candidates'' (read_list read_str) j;
     n \<leftarrow> field ''totalVoters'' read_int j;
     k \<leftarrow> field ''votedCount'' read_int j;
     s \<leftarrow> field ''timeoutSeconds'' read_int j;
     st \<leftarrow> text_at ''startedAt'' j;
     Some \<lparr>av_voteId = v, av_voteType = ty, av_roomColor = c, av_targetLeaderId = t, av_targetLeaderName = tn,
       av_initiatorId = i, av_initiatorName = im, av_candidates = cs, av_totalVoters = n, av_votedCount = k,
       av_timeoutSeconds = s, av_startedAt = st\<rparr> }"

text \<open>What a call of the page makes of the outcome of its request.\<close>

definition read_answer :: "task \<Rightarrow> Json \<Rightarrow> answer option" where
  "read_answer t j =
     (case t of
        T_Poll _ \<Rightarrow> map_option GotRoom (read_room j)
      | T_InitRoom _ \<Rightarrow> map_option GotRoom (read_room j)
      | T_InitJoin \<Rightarrow> map_option GotPlayer (read_player j)
      | T_InitRefresh _ \<Rightarrow> map_option GotRoom (read_room j)
      | T_InitRound _ _ \<Rightarrow> map_option GotRound (read_round_info j)
      | T_InitVote _ \<Rightarrow> map_option GotVote (maybe ''activeVote'' read_active_vote j)
      | T_RolesRoom \<Rightarrow> map_option GotRoom (read_room j)
      | T_Nickname _ _ \<Rightarrow> map_option GotPlayer (read_player j)
      | T_ExchangeRoom _ \<Rightarrow> map_option GotRoom (read_room j)
      | _ \<Rightarrow> Some Done)"

definition answer_of :: "task \<Rightarrow> Http_Outcome \<Rightarrow> answer option" where
  "answer_of t outcome = (case json_result outcome of Inl e \<Rightarrow> Some (Failed e) | Inr j \<Rightarrow> read_answer t j)"

end
