(* ===== verification/Server_Messages.thy ===== *)
theory Server_Messages
  imports Api
begin

text \<open>
  The data of the server (\<open>backend/internal/models\<close>), the messages that it sends to the sockets
  (\<open>backend/internal/websocket/messages.go\<close>) and their JSON, as Go's encoder writes it: the fields in
  the order of the structs, \<open>omitempty\<close> fields without a value left out, \<open>nil\<close> pointers and slices as
  \<open>null\<close>, colours that are not set as empty texts. Times are strings.
\<close>

section \<open>Data\<close>

record Go_Role =
  gro_id :: string
  gro_name :: string
  gro_nameKo :: string
  gro_description :: string
  gro_descriptionKo :: string
  gro_team :: TeamColor
  gro_icon :: string
  gro_isSpy :: bool
  gro_isLeader :: bool

record Go_Player =
  gp_id :: string
  gp_nickname :: string
  gp_isAnonymous :: bool
  gp_roomCode :: string
  gp_isOwner :: bool
  gp_role :: "Go_Role option"
  gp_team :: "TeamColor option"
  gp_room :: "RoomColor option"
  gp_connectedAt :: string

text \<open>The state of a round is the record that the client reads, field by field.\<close>

record Go_Session =
  gs_id :: string
  gs_roomCode :: string
  gs_startedAt :: string
  gs_currentRound :: int
  gs_roundState :: "RoundState option"

record Go_Room =
  gr_code :: string
  gr_status :: RoomStatus
  gr_players :: "Go_Player list"
  gr_maxPlayers :: int
  gr_session :: "Go_Session option"
  gr_isPublic :: bool
  gr_roleConfigId :: string
  gr_selectedRoles :: "(string \<times> int) list"
  gr_createdAt :: string
  gr_updatedAt :: string

record Go_Vote_Started =
  gvs_voteId :: string
  gvs_room :: RoomColor
  gvs_target :: LeaderInfo
  gvs_initiator :: LeaderInfo
  gvs_candidates :: "string list"
  gvs_totalVoters :: int
  gvs_timeoutSeconds :: int
  gvs_startedAt :: string

record Go_Vote_Completed =
  gvc_voteId :: string
  gvc_result :: VoteResult
  gvc_yes :: int
  gvc_no :: int
  gvc_target :: "LeaderInfo option"
  gvc_newLeader :: "LeaderInfo option"
  gvc_reason :: string

text \<open>
  The messages that the server's code sends, by their Go types; \<open>S_PlayerSeen\<close> is the message with
  which the socket's handler reports a player that has connected.
\<close>

datatype Server_Message =
    S_Connected string
  | S_PlayerSeen string "(string \<times> string) option"
  | S_PlayerJoined Go_Player
  | S_PlayerLeft string
  | S_PlayerDisconnected string
  | S_NicknameChanged string string
  | S_RoomClosed string
  | S_GameStarted Go_Session
  | S_RoleAssigned Go_Role TeamColor RoomColor
  | S_GameReset Go_Room
  | S_RoundStarted RoundStartedPayload
  | S_TimerTick int int
  | S_RoundEnding int int
  | S_LeaderReady RoomColor string bool
  | S_GameRevealing string
  | S_LeadershipChanged LeadershipChangedPayload
  | S_VoteStarted Go_Vote_Started
  | S_VoteProgress string int int int
  | S_VoteCompleted Go_Vote_Completed
  | S_HostagesAnnounced RoomColor "Go_Player list" bool
  | S_ExchangeReady "Go_Player list" "Go_Player list" int
  | S_ExchangeComplete int "ExchangeRecord list" int

section \<open>Their JSON\<close>

text \<open>An object with its fields in order, those without a value left out.\<close>

fun present :: "(string \<times> Json option) list \<Rightarrow> (string \<times> Json) list" where
  "present [] = []"
| "present ((k, v) # fs) = (case v of None \<Rightarrow> present fs | Some j \<Rightarrow> (k, j) # present fs)"

definition go_object :: "(string \<times> Json option) list \<Rightarrow> Json" where
  "go_object fs = JObj (present fs)"

definition omit_empty :: "string \<Rightarrow> Json option" where
  "omit_empty s = (if s = '''' then None else Some (JStr s))"

definition or_null :: "('a \<Rightarrow> Json) \<Rightarrow> 'a option \<Rightarrow> Json" where
  "or_null f x = (case x of None \<Rightarrow> JNull | Some y \<Rightarrow> f y)"

definition go_slice :: "('a \<Rightarrow> Json) \<Rightarrow> 'a list \<Rightarrow> Json" where
  "go_slice f xs = (if xs = [] then JNull else JArr (map f xs))"

definition go_team :: "TeamColor \<Rightarrow> string" where
  "go_team t = (case t of RED \<Rightarrow> ''RED'' | BLUE \<Rightarrow> ''BLUE'' | GREY \<Rightarrow> ''GREY'')"

definition go_room_color :: "RoomColor \<Rightarrow> string" where
  "go_room_color c = (case c of RED_ROOM \<Rightarrow> ''RED_ROOM'' | BLUE_ROOM \<Rightarrow> ''BLUE_ROOM'')"

definition go_round_status :: "RoundStatus \<Rightarrow> string" where
  "go_round_status st = (case st of SETUP \<Rightarrow> ''SETUP'' | ACTIVE \<Rightarrow> ''ACTIVE'' | SELECTING \<Rightarrow> ''SELECTING''
     | EXCHANGING \<Rightarrow> ''EXCHANGING'' | COMPLETE \<Rightarrow> ''COMPLETE'')"

definition go_result :: "VoteResult \<Rightarrow> string" where
  "go_result r = (case r of PASSED \<Rightarrow> ''PASSED'' | FAILED \<Rightarrow> ''FAILED'' | TIMEOUT \<Rightarrow> ''TIMEOUT'')"

definition go_reason :: "LeadershipChangeReason \<Rightarrow> string" where
  "go_reason r = (case r of VOLUNTARY_TRANSFER \<Rightarrow> ''VOLUNTARY_TRANSFER'' | DISCONNECTION \<Rightarrow> ''DISCONNECTION''
     | VOTE_REMOVAL \<Rightarrow> ''VOTE_REMOVAL'')"

definition opt_text :: "('a \<Rightarrow> string) \<Rightarrow> 'a option \<Rightarrow> string" where
  "opt_text f x = (case x of None \<Rightarrow> '''' | Some y \<Rightarrow> f y)"

definition json_role :: "Go_Role \<Rightarrow> Json" where
  "json_role r = go_object
    [(''id'', Some (JStr (gro_id r))), (''name'', Some (JStr (gro_name r))), (''nameKo'', omit_empty (gro_nameKo r)),
     (''description'', Some (JStr (gro_description r))), (''descriptionKo'', omit_empty (gro_descriptionKo r)),
     (''team'', Some (JStr (go_team (gro_team r)))), (''icon'', omit_empty (gro_icon r)),
     (''isSpy'', Some (JBool (gro_isSpy r))), (''isLeader'', Some (JBool (gro_isLeader r)))]"

definition json_player :: "Go_Player \<Rightarrow> Json" where
  "json_player p = go_object
    [(''id'', Some (JStr (gp_id p))), (''nickname'', Some (JStr (gp_nickname p))),
     (''isAnonymous'', Some (JBool (gp_isAnonymous p))), (''roomCode'', Some (JStr (gp_roomCode p))),
     (''isOwner'', Some (JBool (gp_isOwner p))), (''role'', Some (or_null json_role (gp_role p))),
     (''team'', Some (JStr (opt_text go_team (gp_team p)))),
     (''currentRoom'', Some (JStr (opt_text go_room_color (gp_room p)))),
     (''connectedAt'', Some (JStr (gp_connectedAt p)))]"

definition json_round :: "RoundState \<Rightarrow> Json" where
  "json_round r = go_object
    [(''gameSessionId'', Some (JStr (rs_gameSessionId r))), (''roundNumber'', Some (JNum (rs_roundNumber r))),
     (''duration'', Some (JNum (rs_duration r))), (''timeRemaining'', Some (JNum (rs_timeRemaining r))),
     (''status'', Some (JStr (go_round_status (rs_status r)))), (''redLeaderId'', Some (JStr (redLeaderId r))),
     (''blueLeaderId'', Some (JStr (blueLeaderId r))), (''hostageCount'', Some (JNum (hostageCount r))),
     (''redHostages'', Some (JArr (map JStr (redHostages r)))),
     (''blueHostages'', Some (JArr (map JStr (blueHostages r)))),
     (''redLeaderReady'', Some (JBool (redLeaderReady r))), (''blueLeaderReady'', Some (JBool (blueLeaderReady r))),
     (''startedAt'', Some (JStr (rs_startedAt r))), (''endedAt'', map_option JStr (rs_endedAt r))]"

text \<open>The lists of players of a session are never filled.\<close>

definition json_session :: "Go_Session \<Rightarrow> Json" where
  "json_session g = go_object
    [(''id'', Some (JStr (gs_id g))), (''roomCode'', Some (JStr (gs_roomCode g))),
     (''redTeam'', Some JNull), (''blueTeam'', Some JNull), (''redRoomPlayers'', Some JNull),
     (''blueRoomPlayers'', Some JNull), (''startedAt'', Some (JStr (gs_startedAt g))),
     (''currentRound'', Some (JNum (gs_currentRound g))), (''roundState'', map_option json_round (gs_roundState g))]"

definition json_room :: "Go_Room \<Rightarrow> Json" where
  "json_room r = go_object
    [(''code'', Some (JStr (gr_code r))),
     (''status'', Some (JStr (room_status_str (gr_status r)))),
     (''players'', Some (JArr (map json_player (gr_players r)))), (''maxPlayers'', Some (JNum (gr_maxPlayers r))),
     (''gameSession'', Some (or_null json_session (gr_session r))), (''isPublic'', Some (JBool (gr_isPublic r))),
     (''roleConfigId'', omit_empty (gr_roleConfigId r)),
     (''selectedRoles'', if gr_selectedRoles r = [] then None
        else Some (JObj (map (\<lambda>(k, n). (k, JNum n)) (gr_selectedRoles r)))),
     (''createdAt'', Some (JStr (gr_createdAt r))), (''updatedAt'', Some (JStr (gr_updatedAt r)))]"

definition json_leader :: "LeaderInfo \<Rightarrow> Json" where
  "json_leader l = go_object [(''id'', Some (JStr (leader_id l))), (''nickname'', Some (JStr (leader_nickname l)))]"

definition json_exchange :: "ExchangeRecord \<Rightarrow> Json" where
  "json_exchange x = go_object
    [(''playerId'', Some (JStr (ex_playerId x))), (''nickname'', Some (JStr (ex_nickname x))),
     (''fromRoom'', Some (JStr (go_room_color (fromRoom x)))), (''toRoom'', Some (JStr (go_room_color (toRoom x)))),
     (''timestamp'', Some (JStr (ex_timestamp x)))]"

definition json_vote_started :: "Go_Vote_Started \<Rightarrow> Json" where
  "json_vote_started v = go_object
    [(''voteId'', Some (JStr (gvs_voteId v))), (''roomColor'', Some (JStr (go_room_color (gvs_room v)))),
     (''targetLeader'', Some (json_leader (gvs_target v))), (''initiator'', Some (json_leader (gvs_initiator v))),
     (''candidates'', if gvs_candidates v = [] then None else Some (JArr (map JStr (gvs_candidates v)))),
     (''totalVoters'', Some (JNum (gvs_totalVoters v))), (''timeoutSeconds'', Some (JNum (gvs_timeoutSeconds v))),
     (''startedAt'', Some (JStr (gvs_startedAt v)))]"

definition json_vote_completed :: "Go_Vote_Completed \<Rightarrow> Json" where
  "json_vote_completed v = go_object
    [(''voteId'', Some (JStr (gvc_voteId v))), (''result'', Some (JStr (go_result (gvc_result v)))),
     (''yesVotes'', Some (JNum (gvc_yes v))), (''noVotes'', Some (JNum (gvc_no v))),
     (''targetLeader'', Some (or_null json_leader (gvc_target v))),
     (''newLeader'', map_option json_leader (gvc_newLeader v)), (''reason'', omit_empty (gvc_reason v))]"

text \<open>A message: its type and its payload.\<close>

definition message_type :: "Server_Message \<Rightarrow> string" where
  "message_type m =
     (case m of
        S_Connected _ \<Rightarrow> ''CONNECTED''
      | S_PlayerSeen _ _ \<Rightarrow> ''PLAYER_JOINED''
      | S_PlayerJoined _ \<Rightarrow> ''PLAYER_JOINED''
      | S_PlayerLeft _ \<Rightarrow> ''PLAYER_LEFT''
      | S_PlayerDisconnected _ \<Rightarrow> ''PLAYER_DISCONNECTED''
      | S_NicknameChanged _ _ \<Rightarrow> ''NICKNAME_CHANGED''
      | S_RoomClosed _ \<Rightarrow> ''ROOM_CLOSED''
      | S_GameStarted _ \<Rightarrow> ''GAME_STARTED''
      | S_RoleAssigned _ _ _ \<Rightarrow> ''ROLE_ASSIGNED''
      | S_GameReset _ \<Rightarrow> ''GAME_RESET''
      | S_RoundStarted _ \<Rightarrow> ''ROUND_STARTED''
      | S_TimerTick _ _ \<Rightarrow> ''TIMER_TICK''
      | S_RoundEnding _ _ \<Rightarrow> ''ROUND_ENDING''
      | S_LeaderReady _ _ _ \<Rightarrow> ''LEADER_READY''
      | S_GameRevealing _ \<Rightarrow> ''GAME_REVEALING''
      | S_LeadershipChanged _ \<Rightarrow> ''LEADERSHIP_CHANGED''
      | S_VoteStarted _ \<Rightarrow> ''VOTE_SESSION_STARTED''
      | S_VoteProgress _ _ _ _ \<Rightarrow> ''VOTE_PROGRESS''
      | S_VoteCompleted _ \<Rightarrow> ''VOTE_COMPLETED''
      | S_HostagesAnnounced _ _ _ \<Rightarrow> ''LEADER_ANNOUNCED_HOSTAGES''
      | S_ExchangeReady _ _ _ \<Rightarrow> ''EXCHANGE_READY''
      | S_ExchangeComplete _ _ _ \<Rightarrow> ''EXCHANGE_COMPLETE'')"

definition message_payload :: "Server_Message \<Rightarrow> Json" where
  "message_payload m =
     (case m of
        S_Connected rc \<Rightarrow> go_object [(''message'', Some (JStr ''WebSocket connected successfully'')), (''roomCode'', Some (JStr rc))]
      | S_PlayerSeen rc p \<Rightarrow> go_object
          [(''player'', map_option (\<lambda>(i, n). go_object [(''id'', Some (JStr i)), (''nickname'', Some (JStr n))]) p),
           (''roomCode'', Some (JStr rc))]
      | S_PlayerJoined p \<Rightarrow> go_object [(''player'', Some (json_player p))]
      | S_PlayerLeft i \<Rightarrow> go_object [(''playerId'', Some (JStr i))]
      | S_PlayerDisconnected i \<Rightarrow> go_object [(''playerId'', Some (JStr i))]
      | S_NicknameChanged i n \<Rightarrow> go_object [(''playerId'', Some (JStr i)), (''newNickname'', Some (JStr n))]
      | S_RoomClosed w \<Rightarrow> go_object [(''reason'', Some (JStr w))]
      | S_GameStarted g \<Rightarrow> go_object [(''gameSession'', Some (json_session g))]
      | S_RoleAssigned r t c \<Rightarrow> go_object
          [(''currentRoom'', Some (JStr (go_room_color c))), (''role'', Some (json_role r)), (''team'', Some (JStr (go_team t)))]
      | S_GameReset r \<Rightarrow> go_object [(''room'', Some (json_room r))]
      | S_RoundStarted p \<Rightarrow> go_object
          [(''roundNumber'', Some (JNum (rst_roundNumber p))), (''duration'', Some (JNum (rst_duration p))),
           (''timeRemaining'', Some (JNum (rst_timeRemaining p))),
           (''redLeader'', Some (or_null json_leader (rst_redLeader p))),
           (''blueLeader'', Some (or_null json_leader (rst_blueLeader p))),
           (''hostageCount'', Some (JNum (rst_hostageCount p)))]
      | S_TimerTick n t \<Rightarrow> go_object [(''roundNumber'', Some (JNum n)), (''timeRemaining'', Some (JNum t))]
      | S_RoundEnding n h \<Rightarrow> go_object [(''roundNumber'', Some (JNum n)), (''hostageCount'', Some (JNum h))]
      | S_LeaderReady c i b \<Rightarrow> go_object
          [(''roomColor'', Some (JStr (go_room_color c))), (''leaderId'', Some (JStr i)), (''bothReady'', Some (JBool b))]
      | S_GameRevealing w \<Rightarrow> go_object [(''message'', Some (JStr w))]
      | S_LeadershipChanged p \<Rightarrow> go_object
          [(''roomColor'', Some (JStr (go_room_color (lc_roomColor p)))),
           (''oldLeader'', Some (or_null json_leader (oldLeader p))),
           (''newLeader'', Some (or_null json_leader (newLeader p))),
           (''reason'', Some (JStr (go_reason (reason p)))), (''timestamp'', Some (JStr (lc_timestamp p)))]
      | S_VoteStarted v \<Rightarrow> json_vote_started v
      | S_VoteProgress v k n t \<Rightarrow> go_object
          [(''voteId'', Some (JStr v)), (''votedCount'', Some (JNum k)), (''totalVoters'', Some (JNum n)),
           (''timeRemaining'', Some (JNum t))]
      | S_VoteCompleted v \<Rightarrow> json_vote_completed v
      | S_HostagesAnnounced c ps w \<Rightarrow> go_object
          [(''roomColor'', Some (JStr (go_room_color c))), (''hostages'', Some (go_slice json_player ps)),
           (''waitingForOtherLeader'', Some (JBool w))]
      | S_ExchangeReady rs bs n \<Rightarrow> go_object
          [(''redHostages'', Some (go_slice json_player rs)), (''blueHostages'', Some (go_slice json_player bs)),
           (''countdown'', Some (JNum n))]
      | S_ExchangeComplete n xs k \<Rightarrow> go_object
          [(''roundNumber'', Some (JNum n)), (''exchanges'', Some (go_slice json_exchange xs)),
           (''nextRound'', if k = 0 then None else Some (JNum k))])"

definition json_message :: "Server_Message \<Rightarrow> Json" where
  "json_message m = JObj [(''type'', JStr (message_type m)), (''payload'', message_payload m)]"

section \<open>The text of a message and the frames\<close>

text \<open>
  The text that Go's encoder writes for a value. Quotes, backslashes, control characters and the
  characters that matter in HTML are escaped.
\<close>

definition hex_digit :: "nat \<Rightarrow> char" where
  "hex_digit n = ''0123456789abcdef'' ! n"

definition go_escape :: "char \<Rightarrow> string" where
  "go_escape c =
     (if c = CHR 0x22 then [CHR 0x5C, CHR 0x22]
      else if c = CHR 0x5C then [CHR 0x5C, CHR 0x5C]
      else if c = CHR 0x08 then [CHR 0x5C, CHR ''b'']
      else if c = CHR 0x09 then [CHR 0x5C, CHR ''t'']
      else if c = CHR 0x0A then [CHR 0x5C, CHR ''n'']
      else if c = CHR 0x0C then [CHR 0x5C, CHR ''f'']
      else if c = CHR 0x0D then [CHR 0x5C, CHR ''r'']
      else if of_char c < (32 :: nat) \<or> c = CHR ''<'' \<or> c = CHR ''>'' \<or> c = CHR ''&''
        then [CHR 0x5C, CHR ''u'', CHR ''0'', CHR ''0'', hex_digit (of_char c div 16), hex_digit (of_char c mod 16)]
      else [c])"

definition go_quote :: "string \<Rightarrow> string" where
  "go_quote s = [CHR 0x22] @ concat (map go_escape s) @ [CHR 0x22]"

fun commas :: "string list \<Rightarrow> string" where
  "commas [] = ''''"
| "commas [x] = x"
| "commas (x # xs) = x @ '','' @ commas xs"

fun go_text :: "Json \<Rightarrow> string" where
  "go_text JNull = ''null''"
| "go_text (JBool b) = (if b then ''true'' else ''false'')"
| "go_text (JNum n) = int_str n"
| "go_text (JStr s) = go_quote s"
| "go_text (JArr js) = ''['' @ commas (map go_text js) @ '']''"
| "go_text (JObj fs) = ''{'' @ commas (map (\<lambda>f. go_quote (fst f) @ '':'' @ go_text (snd f)) fs) @ ''}''"

definition message_text :: "Server_Message \<Rightarrow> string" where
  "message_text m = go_text (json_message m)"

text \<open>
  \<open>WritePump\<close> in \<open>websocket/client.go\<close>: a message, and in the same frame all messages that wait behind
  it, each after a line feed.
\<close>

definition write_frame :: "string \<Rightarrow> string list \<Rightarrow> string" where
  "write_frame message queued = message @ concat (map (\<lambda>q. CHR 0x0A # q) queued)"

end
