(* ===== verification/Json_Text.thy ===== *)
theory Json_Text
  imports Server_Messages "HOL-Library.Monad_Syntax"
begin

text \<open>
  \<open>JSON.parse\<close>, with which the client reads the frames of its socket (\<open>hooks/useWebSocket.ts\<close>), and
  what it makes of a text that the server's encoder has written. Numbers with a fraction or an
  exponent and characters of more than one byte are outside the model, and the texts with them are
  not read; the server sends no such numbers. The order of the fields of an object is kept.
\<close>

section \<open>Tokens\<close>

definition quote_char :: char where "quote_char = CHR 0x22"

definition backslash :: char where "backslash = CHR 0x5C"

definition json_space :: "char \<Rightarrow> bool" where
  "json_space c \<longleftrightarrow> of_char c \<in> {32, 9, 10, 13 :: nat}"

definition skip :: "string \<Rightarrow> string" where
  "skip s = dropWhile json_space s"

text \<open>The text after a prefix.\<close>

fun after :: "string \<Rightarrow> string \<Rightarrow> string option" where
  "after [] s = Some s"
| "after (p # ps) [] = None"
| "after (p # ps) (c # s) = (if c = p then after ps s else None)"

definition hex_val :: "char \<Rightarrow> nat option" where
  "hex_val c =
     (let n = of_char c :: nat in
      if 48 \<le> n \<and> n \<le> 57 then Some (n - 48)
      else if 97 \<le> n \<and> n \<le> 102 then Some (n - 87)
      else if 65 \<le> n \<and> n \<le> 70 then Some (n - 55)
      else None)"

definition unicode :: "char \<Rightarrow> char \<Rightarrow> char \<Rightarrow> char \<Rightarrow> char option" where
  "unicode w x y z = do {
     a \<leftarrow> hex_val w; b \<leftarrow> hex_val x; c \<leftarrow> hex_val y; d \<leftarrow> hex_val z;
     if a = 0 \<and> b = 0 then Some (char_of (16 * c + d)) else None }"

definition escapes :: "(char \<times> char) list" where
  "escapes = [(quote_char, quote_char), (backslash, backslash), (CHR ''/'', CHR ''/''), (CHR ''b'', CHR 0x08),
     (CHR ''f'', CHR 0x0C), (CHR ''n'', CHR 0x0A), (CHR ''r'', CHR 0x0D), (CHR ''t'', CHR 0x09)]"

definition with_char :: "char option \<Rightarrow> (string \<times> string) option \<Rightarrow> (string \<times> string) option" where
  "with_char c r = do { a \<leftarrow> c; (s, t) \<leftarrow> r; Some (a # s, t) }"

text \<open>A string after its opening quote, and the text after its closing one.\<close>

fun json_string :: "string \<Rightarrow> (string \<times> string) option" where
  "json_string [] = None"
| "json_string (c # s) =
     (if c = quote_char then Some ([], s)
      else if c = backslash then
        (case s of
           [] \<Rightarrow> None
         | e # t \<Rightarrow>
             if e = CHR ''u'' then
               (case t of
                  w # x # y # z # u \<Rightarrow> with_char (unicode w x y z) (json_string u)
                | _ \<Rightarrow> None)
             else with_char (map_of escapes e) (json_string t))
      else if of_char c < (32 :: nat) then None
      else with_char (Some c) (json_string s))"

definition json_digits :: "string \<Rightarrow> (nat \<times> string) option" where
  "json_digits s =
     (let ds = takeWhile is_digit s; t = dropWhile is_digit s in
      if ds = [] \<or> (hd ds = CHR ''0'' \<and> tl ds \<noteq> []) \<or> (t \<noteq> [] \<and> hd t \<in> set ''.eE'') then None
      else Some (str_nat ds, t))"

definition json_number :: "string \<Rightarrow> (int \<times> string) option" where
  "json_number s =
     (if take 1 s = ''-'' then map_option (\<lambda>(n, t). (- int n, t)) (json_digits (tl s))
      else map_option (\<lambda>(n, t). (int n, t)) (json_digits s))"

definition json_word :: "string \<Rightarrow> (Json \<times> string) option" where
  "json_word s =
     (case (after ''null'' s, after ''true'' s, after ''false'' s) of
        (Some t, _) \<Rightarrow> Some (JNull, t)
      | (None, Some t, _) \<Rightarrow> Some (JBool True, t)
      | (None, None, Some t) \<Rightarrow> Some (JBool False, t)
      | _ \<Rightarrow> None)"

section \<open>Values\<close>

text \<open>A later field of the same name replaces the value of an earlier one.\<close>

definition object_of :: "(string \<times> Json) list \<Rightarrow> Json" where
  "object_of fs = JObj (foldl (\<lambda>m (k, j). map_set k j m) [] fs)"

text \<open>
  A value, the items of an array and the fields of an object, each with the text that follows. The
  fuel bounds the depth of the calls; every character of the text needs at most two.
\<close>

fun json_value :: "nat \<Rightarrow> string \<Rightarrow> (Json \<times> string) option"
  and json_items :: "nat \<Rightarrow> string \<Rightarrow> (Json list \<times> string) option"
  and json_fields :: "nat \<Rightarrow> string \<Rightarrow> ((string \<times> Json) list \<times> string) option" where
  "json_value 0 s = None"
| "json_value (Suc n) s =
     (case skip s of
        [] \<Rightarrow> None
      | c # t \<Rightarrow>
          if c = CHR ''{'' then
            (if take 1 (skip t) = ''}'' then Some (JObj [], tl (skip t))
             else do { (fs, u) \<leftarrow> json_fields n t; Some (object_of fs, u) })
          else if c = CHR ''['' then
            (if take 1 (skip t) = '']'' then Some (JArr [], tl (skip t))
             else do { (js, u) \<leftarrow> json_items n t; Some (JArr js, u) })
          else if c = quote_char then do { (x, u) \<leftarrow> json_string t; Some (JStr x, u) }
          else if is_digit c \<or> c = CHR ''-'' then do { (k, u) \<leftarrow> json_number (c # t); Some (JNum k, u) }
          else json_word (c # t))"
| "json_items 0 s = None"
| "json_items (Suc n) s = do {
     (j, t) \<leftarrow> json_value n s;
     (case skip t of
        [] \<Rightarrow> None
      | c # u \<Rightarrow>
          if c = CHR '']'' then Some ([j], u)
          else if c = CHR '','' then do { (js, v) \<leftarrow> json_items n u; Some (j # js, v) }
          else None) }"
| "json_fields 0 s = None"
| "json_fields (Suc n) s = do {
     q \<leftarrow> after [quote_char] (skip s);
     (k, r) \<leftarrow> json_string q;
     p \<leftarrow> after '':'' (skip r);
     (j, t) \<leftarrow> json_value n p;
     (case skip t of
        [] \<Rightarrow> None
      | c # u \<Rightarrow>
          if c = CHR ''}'' then Some ([(k, j)], u)
          else if c = CHR '','' then do { (fs, v) \<leftarrow> json_fields n u; Some ((k, j) # fs, v) }
          else None) }"

definition json_parse :: "string \<Rightarrow> Json option" where
  "json_parse s = do { (j, t) \<leftarrow> json_value (2 * length s) s; if skip t = [] then Some j else None }"

section \<open>Reading what was written\<close>

text \<open>A value in which no object has two fields of the same name.\<close>

fun unique_keys :: "Json \<Rightarrow> bool" where
  "unique_keys (JArr js) = list_all unique_keys js"
| "unique_keys (JObj fs) = (distinct (map fst fs) \<and> list_all (\<lambda>f. unique_keys (snd f)) fs)"
| "unique_keys _ = True"

lemma after_append [simp]: "after p (p @ s) = Some s"
  by (induction p) auto

lemma map_set_new: "k \<notin> set (map fst m) \<Longrightarrow> map_set k v m = m @ [(k, v)]"
  by (induction m rule: map_set.induct) auto

lemma object_of_unique:
  assumes "distinct (map fst fs)"
  shows "object_of fs = JObj fs"
proof -
  have "foldl (\<lambda>m (k, j). map_set k j m) xs fs = xs @ fs" if "distinct (map fst (xs @ fs))" for xs
    using that
  proof (induction fs arbitrary: xs)
    case (Cons f fs)
    then show ?case using Cons.IH [of "xs @ [f]"] by (cases f) (simp add: map_set_new)
  qed simp
  from this [of "[]"] assms show ?thesis by (simp add: object_of_def)
qed

lemmas json_chars = quote_char_def backslash_def

lemma hex_val_digit: "n < 16 \<Longrightarrow> hex_val (hex_digit n) = Some n"
proof -
  assume "n < 16"
  then have "n \<in> set [0, 1, 2, 3, 4, 5, 6, 7, 8, 9, 10, 11, 12, 13, 14, 15]" by simp arith
  then show ?thesis by (auto simp: hex_digit_def hex_val_def Let_def)
qed

lemma unicode_escape: "unicode (CHR ''0'') (CHR ''0'') (hex_digit (of_char c div 16)) (hex_digit (of_char c mod 16)) = Some c"
proof -
  have n: "(of_char c :: nat) div 16 < 16" using nat_of_char_less_256 [of c] by (simp del: nat_of_char_less_256)
  have "hex_val (CHR ''0'') = Some 0" by (simp add: hex_val_def)
  then show ?thesis using hex_val_digit [OF n] hex_val_digit [of "of_char c mod 16"] by (simp add: unicode_def)
qed

lemma escapes_simps: "map_of escapes (CHR 0x22) = Some (CHR 0x22)" "map_of escapes (CHR 0x5C) = Some (CHR 0x5C)"
  "map_of escapes (CHR ''b'') = Some (CHR 0x08)" "map_of escapes (CHR ''f'') = Some (CHR 0x0C)"
  "map_of escapes (CHR ''n'') = Some (CHR 0x0A)" "map_of escapes (CHR ''r'') = Some (CHR 0x0D)"
  "map_of escapes (CHR ''t'') = Some (CHR 0x09)"
  by (simp_all add: escapes_def json_chars)

lemma json_string_escape: "json_string (go_escape c @ t) = with_char (Some c) (json_string t)"
  unfolding go_escape_def by (simp add: escapes_simps unicode_escape json_chars)

lemma json_string_quoted: "json_string (concat (map go_escape s) @ CHR 0x22 # t) = Some (s, t)"
  by (induction s) (simp_all add: json_string_escape with_char_def json_chars del: json_string.simps, simp add: json_chars)

lemma is_digit_digit: "d < 10 \<Longrightarrow> is_digit (digit d)"
  by (erule digit_cases) (simp_all add: digit_def is_digit_def)

lemma nat_str_digits: "list_all is_digit (nat_str n)" "nat_str n \<noteq> []"
proof -
  show "list_all is_digit (nat_str n)"
    by (induction n rule: nat_str.induct) (simp add: nat_str.simps is_digit_digit)
  show "nat_str n \<noteq> []" by (simp add: nat_str.simps [of n])
qed

lemma digit_zero: "d < 10 \<Longrightarrow> digit d = CHR ''0'' \<longleftrightarrow> d = 0"
  by (erule digit_cases) (simp_all add: digit_def)

lemma nat_str_zero: "hd (nat_str n) = CHR ''0'' \<Longrightarrow> n = 0"
proof (induction n rule: nat_str.induct)
  case (1 n)
  show ?case
  proof (cases "n < 10")
    case True
    then show ?thesis using 1(2) by (simp add: nat_str.simps [of n] digit_zero)
  next
    case False
    then have "hd (nat_str (n div 10)) = CHR ''0''" using 1(2) nat_str_digits(2) [of "n div 10"] by (simp add: nat_str.simps [of n])
    then show ?thesis using 1(1) [OF False] False by simp
  qed
qed

text \<open>What may follow a value.\<close>

definition ended :: "string \<Rightarrow> bool" where
  "ended u \<longleftrightarrow> u = [] \<or> hd u \<in> set '',]}''"

lemma json_digits_str: "ended u \<Longrightarrow> json_digits (nat_str n @ u) = Some (n, u)"
proof -
  assume u: "ended u"
  have "takeWhile is_digit u = []" "dropWhile is_digit u = u" "u = [] \<or> hd u \<notin> set ''.eE''"
    using u by (cases u; auto simp: ended_def is_digit_def)+
  moreover have "takeWhile is_digit (nat_str n) = nat_str n" "dropWhile is_digit (nat_str n) = []"
    using nat_str_digits(1) [of n] by (simp_all add: list_all_iff)
  ultimately have "takeWhile is_digit (nat_str n @ u) = nat_str n" "dropWhile is_digit (nat_str n @ u) = u"
    using nat_str_digits(1) [of n] by (simp_all add: list_all_iff)
  moreover have "tl (nat_str n) = []" if "hd (nat_str n) = CHR ''0''"
    using nat_str_zero [OF that] by (simp add: nat_str.simps)
  ultimately show ?thesis
    using u by (auto simp: json_digits_def Let_def nat_str_digits(2) str_nat_nat_str ended_def)
qed

lemma json_number_str:
  assumes "ended u"
  shows "json_number (int_str k @ u) = Some (k, u)"
proof (cases "k < 0")
  case True
  then show ?thesis using json_digits_str [OF assms] by (simp add: json_number_def int_str_def)
next
  case False
  obtain c s where c: "nat_str (nat k) = c # s" "is_digit c" using nat_str_digits [of "nat k"] by (cases "nat_str (nat k)") auto
  then have "c \<noteq> CHR ''-''" by (auto simp: is_digit_def)
  then show ?thesis using False c json_digits_str [OF assms, of "nat k"] by (auto simp: json_number_def int_str_def)
qed

lemma skip_cons: "skip (c # s) = (if json_space c then skip s else c # s)"
  by (simp add: skip_def)

lemma digit_no_space: "is_digit c \<Longrightarrow> \<not> json_space c \<and> c \<notin> {CHR ''{'', CHR ''['', CHR '']'', CHR 0x22}"
  by (auto simp: is_digit_def json_space_def)

lemma int_str_head: "\<exists>c s. int_str k = c # s \<and> (is_digit c \<or> c = CHR ''-'')"
  using nat_str_digits [of "nat k"] by (cases "nat_str (nat k)") (auto simp: int_str_def)

lemma number_head: "is_digit c \<or> c = CHR ''-'' \<Longrightarrow> \<not> json_space c \<and> c \<notin> {CHR ''{'', CHR ''['', CHR '']'', CHR 0x22}"
  using digit_no_space [of c] by (auto simp: json_space_def)

lemma go_text_head: "\<exists>c s. go_text j = c # s \<and> \<not> json_space c \<and> c \<noteq> CHR '']''"
proof (cases j)
  case (JNum k)
  then show ?thesis using int_str_head [of k] number_head by fastforce
qed (simp_all add: json_space_def go_quote_def)

lemma skip_text [simp]: "skip (go_text j @ u) = go_text j @ u"
  using go_text_head [of j] by (auto simp: skip_def)

lemma length_go_text: "0 < length (go_text j)"
  using go_text_head [of j] by auto

lemma commas_cons: "xs \<noteq> [] \<Longrightarrow> commas (x # xs) = x @ CHR '','' # commas xs"
  by (cases xs) simp_all

text \<open>The text of a value is read as that value, whatever follows.\<close>

definition reads :: "Json \<Rightarrow> bool" where
  "reads j \<longleftrightarrow> (\<forall>n u. ended u \<longrightarrow> 2 * length (go_text j) \<le> n \<longrightarrow> json_value n (go_text j @ u) = Some (j, u))"

lemma readsD: "reads j \<Longrightarrow> ended u \<Longrightarrow> 2 * length (go_text j) \<le> n \<Longrightarrow> json_value n (go_text j @ u) = Some (j, u)"
  by (simp add: reads_def)

lemma readsI:
  assumes "\<And>n u. ended u \<Longrightarrow> 2 * length (go_text j) \<le> Suc n \<Longrightarrow> json_value (Suc n) (go_text j @ u) = Some (j, u)"
  shows "reads j"
  unfolding reads_def
proof (intro allI impI)
  fix n u
  assume "ended u" "2 * length (go_text j) \<le> n"
  then show "json_value n (go_text j @ u) = Some (j, u)"
    using assms [of u "n - 1"] length_go_text [of j] by (cases n) auto
qed

lemma ended_simps [simp]: "ended (CHR '','' # u)" "ended (CHR '']'' # u)" "ended (CHR ''}'' # u)"
  by (simp_all add: ended_def)

lemma bracket_no_space [simp]: "\<not> json_space (CHR '','')" "\<not> json_space (CHR '']'')" "\<not> json_space (CHR ''}'')"
  "\<not> json_space (CHR ''{'')" "\<not> json_space (CHR ''['')" "\<not> json_space (CHR '':'')" "\<not> json_space (CHR 0x22)"
  by (simp_all add: json_space_def)

lemma items_read:
  assumes "list_all reads js" "js \<noteq> []" "2 * length (commas (map go_text js)) < n"
  shows "json_items n (commas (map go_text js) @ CHR '']'' # u) = Some (js, u)"
  using assms
proof (induction js arbitrary: n)
  case (Cons j js)
  obtain m where n: "n = Suc m" using Cons.prems(3) by (cases n) auto
  show ?case
  proof (cases "js = []")
    case True
    then show ?thesis using Cons.prems readsD [of j "CHR '']'' # u" m] by (simp add: n skip_cons)
  next
    case False
    let ?t = "CHR '','' # commas (map go_text js) @ CHR '']'' # u"
    have "json_value m (go_text j @ ?t) = Some (j, ?t)"
      using Cons.prems False by (intro readsD) (simp_all add: n commas_cons)
    moreover have "json_items m (commas (map go_text js) @ CHR '']'' # u) = Some (js, u)"
      using Cons.prems False by (intro Cons.IH) (simp_all add: n commas_cons)
    ultimately show ?thesis using False by (simp add: n commas_cons skip_cons)
  qed
qed simp

definition field_text :: "string \<times> Json \<Rightarrow> string" where
  "field_text f = go_quote (fst f) @ '':'' @ go_text (snd f)"

lemma field_head:
  "after [quote_char] (skip (field_text f @ u)) = Some (concat (map go_escape (fst f)) @ CHR 0x22 # CHR '':'' # go_text (snd f) @ u)"
  by (simp add: field_text_def go_quote_def skip_cons quote_char_def)

lemma fields_read:
  assumes "list_all (\<lambda>f. reads (snd f)) fs" "fs \<noteq> []" "2 * length (commas (map field_text fs)) < n"
  shows "json_fields n (commas (map field_text fs) @ CHR ''}'' # u) = Some (fs, u)"
  using assms
proof (induction fs arbitrary: n)
  case (Cons f fs)
  obtain m where n: "n = Suc m" using Cons.prems(3) by (cases n) auto
  show ?case
  proof (cases "fs = []")
    case True
    have "json_value m (go_text (snd f) @ CHR ''}'' # u) = Some (snd f, CHR ''}'' # u)"
      using Cons.prems True by (intro readsD) (simp_all add: n field_text_def)
    then show ?thesis using True by (simp add: n field_head json_string_quoted skip_cons del: append_assoc)
  next
    case False
    let ?t = "CHR '','' # commas (map field_text fs) @ CHR ''}'' # u"
    have "json_value m (go_text (snd f) @ ?t) = Some (snd f, ?t)"
      using Cons.prems False by (intro readsD) (simp_all add: n commas_cons field_text_def)
    moreover have "json_fields m (commas (map field_text fs) @ CHR ''}'' # u) = Some (fs, u)"
      using Cons.prems False by (intro Cons.IH) (simp_all add: n commas_cons)
    ultimately show ?thesis using False by (simp add: n commas_cons field_head json_string_quoted skip_cons)
  qed
qed simp

lemma value_read: "unique_keys j \<Longrightarrow> reads j"
proof (induction j rule: go_text.induct)
  case 1
  show ?case by (rule readsI) (simp add: skip_cons json_space_def json_chars is_digit_def json_word_def)
next
  case (2 b)
  show ?case by (rule readsI) (simp add: skip_cons json_space_def json_chars is_digit_def json_word_def)
next
  case (3 k)
  obtain c s where c: "int_str k = c # s" "is_digit c \<or> c = CHR ''-''" using int_str_head by blast
  then have "\<not> json_space c" "c \<noteq> CHR ''{''" "c \<noteq> CHR ''[''" "c \<noteq> quote_char"
    using digit_no_space [of c] by (auto simp: json_space_def json_chars)
  then show ?case using c json_number_str [of _ k] by (intro readsI) (auto simp: skip_cons)
next
  case (4 x)
  show ?case by (rule readsI) (simp add: go_quote_def skip_cons json_string_quoted quote_char_def del: json_string.simps)
next
  case (5 js)
  have r: "list_all reads js" using 5 by (simp add: list_all_iff)
  show ?case
  proof (rule readsI)
    fix n u
    assume "2 * length (go_text (JArr js)) \<le> Suc n"
    moreover have "take 1 (skip (commas (map go_text js) @ CHR '']'' # u)) \<noteq> '']''" if "js \<noteq> []"
      using that go_text_head [of "hd js"] by (cases js; cases "tl js") (auto simp: skip_cons)
    ultimately show "json_value (Suc n) (go_text (JArr js) @ u) = Some (JArr js, u)"
      using items_read [OF r, of n u] by (cases "js = []") (simp_all add: skip_cons)
  qed
next
  case (6 fs)
  have r: "list_all (\<lambda>f. reads (snd f)) fs" "object_of fs = JObj fs" using 6 by (auto simp: list_all_iff object_of_unique)
  have e: "map (\<lambda>f. go_quote (fst f) @ '':'' @ go_text (snd f)) fs = map field_text fs" by (simp add: field_text_def)
  show ?case
  proof (rule readsI)
    fix n u
    assume "2 * length (go_text (JObj fs)) \<le> Suc n"
    moreover have "take 1 (skip (commas (map field_text fs) @ CHR ''}'' # u)) \<noteq> ''}''" if "fs \<noteq> []"
      using that by (cases fs; cases "tl fs") (auto simp: field_text_def go_quote_def skip_cons)
    ultimately show "json_value (Suc n) (go_text (JObj fs) @ u) = Some (JObj fs, u)"
      using fields_read [OF r(1), of n u] r(2) unfolding go_text.simps(6) e by (cases "fs = []") (simp_all add: skip_cons)
  qed
qed

lemma text_read: "unique_keys j \<Longrightarrow> json_parse (go_text j) = Some j"
  using readsD [OF value_read, of j "[]" "2 * length (go_text j)"] by (simp add: json_parse_def ended_def skip_def)

section \<open>The fuel\<close>

lemma length_skip: "length (skip s) \<le> length s"
  by (simp add: skip_def length_dropWhile_le)

lemma length_after: "after p s = Some t \<Longrightarrow> length s = length p + length t"
  by (induction p s rule: after.induct) (auto split: if_splits)

lemma length_string: "json_string s = Some (x, t) \<Longrightarrow> length t < length s"
  by (induction s arbitrary: x t rule: json_string.induct)
    (fastforce simp: with_char_def split: if_splits list.splits bind_splits)+

lemma length_digits: "json_digits s = Some (k, t) \<Longrightarrow> length t < length s"
proof -
  assume "json_digits s = Some (k, t)"
  then have "takeWhile is_digit s \<noteq> []" "t = dropWhile is_digit s" by (auto simp: json_digits_def Let_def split: if_splits)
  moreover have "length s = length (takeWhile is_digit s) + length (dropWhile is_digit s)"
    by (metis length_append takeWhile_dropWhile_id)
  ultimately show ?thesis by simp
qed

lemma length_number: "json_number s = Some (k, t) \<Longrightarrow> length t < length s"
  by (cases s) (auto simp: json_number_def dest!: length_digits split: if_splits)

lemma length_word: "json_word s = Some (j, t) \<Longrightarrow> length t < length s"
  by (auto simp: json_word_def dest!: length_after split: option.splits)

text \<open>A reading that succeeds uses up text, and succeeds with any fuel of twice the length of the text.\<close>

lemma more_fuel: "2 * length t + 2 \<le> m \<Longrightarrow> \<exists>k. m = Suc k \<and> 2 * length t < k"
  by (cases m) auto

lemma fuel_enough:
  "json_value n s = Some (j, t) \<Longrightarrow> length t < length s \<and> (\<forall>m \<ge> 2 * length s. json_value m s = Some (j, t))"
  "json_items n s = Some (js, t) \<Longrightarrow> length t < length s \<and> (\<forall>m > 2 * length s. json_items m s = Some (js, t))"
  "json_fields n s = Some (fs, t) \<Longrightarrow> length t < length s \<and> (\<forall>m > 2 * length s. json_fields m s = Some (fs, t))"
proof (induction n s and n s and n s arbitrary: j t and js t and fs t rule: json_value_json_items_json_fields.induct)
  case (2 n s)
  obtain c r where c: "skip s = c # r" using 2(3) by (auto split: list.splits)
  have l: "length r < length s" using length_skip [of s] c by simp
  have k: "\<exists>k. m = Suc k \<and> 2 * length r < k" if "2 * length s \<le> m" for m using l that by (intro more_fuel) simp
  have h: "length (tl (skip r)) \<le> length r" using length_skip [of r] by simp
  have settled: ?case if "length t < length s" "\<And>k. 2 * length r < k \<Longrightarrow> json_value (Suc k) s = Some (j, t)"
    using that k by blast
  consider (obj) "c = CHR ''{''" | (arr) "c = CHR ''[''" | (other) "c \<noteq> CHR ''{''" "c \<noteq> CHR ''[''" by blast
  then show ?case
  proof cases
    case obj
    show ?thesis
    proof (cases "take 1 (skip r) = ''}''")
      case True
      then show ?thesis using 2(3) l h by (intro settled) (simp_all add: c obj)
    next
      case False
      then obtain fs where f: "json_fields n r = Some (fs, t)" "j = object_of fs"
        using 2(3) by (auto simp: c obj split: bind_splits)
      show ?thesis using 2(1) [OF c obj False f(1)] False f(2) l by (intro settled) (simp_all add: c obj)
    qed
  next
    case arr
    show ?thesis
    proof (cases "take 1 (skip r) = '']''")
      case True
      then show ?thesis using 2(3) l h by (intro settled) (simp_all add: c arr)
    next
      case False
      then obtain js where f: "json_items n r = Some (js, t)" "j = JArr js"
        using 2(3) by (auto simp: c arr split: bind_splits)
      show ?thesis using 2(2) [OF c _ arr False f(1)] False f(2) l arr by (intro settled) (simp_all add: c)
    qed
  next
    case other
    have e: "json_value (Suc k) s = json_value (Suc n) s" for k using other by (simp add: c)
    have "length t \<le> length r"
    proof (cases "c = quote_char")
      case True
      then obtain x where "json_string r = Some (x, t)" using 2(3) other by (auto simp: c split: bind_splits)
      then show ?thesis using length_string by fastforce
    next
      case False
      show ?thesis
      proof (cases "is_digit c \<or> c = CHR ''-''")
        case True
        then obtain x where "json_number (c # r) = Some (x, t)" using 2(3) other False by (auto simp: c split: bind_splits)
        then show ?thesis using length_number by fastforce
      next
        case no: False
        then have "json_word (c # r) = Some (j, t)" using 2(3) other False by (simp add: c)
        then show ?thesis using length_word by fastforce
      qed
    qed
    then have "length t < length s" using l by (rule le_less_trans)
    then show ?thesis by (rule settled) (rule trans [OF e 2(3)])
  qed
next
  case (4 n s)
  obtain j r where v: "json_value n s = Some (j, r)" using 4(3) by (auto split: bind_splits)
  note r = 4(1) [OF v]
  obtain c u where c: "skip r = c # u" using 4(3) v by (auto split: list.splits)
  have l: "length u < length r" using length_skip [of r] c by simp
  have k: "\<exists>k. m = Suc k \<and> 2 * length s \<le> k" if "2 * length s < m" for m using that by (cases m) auto
  have settled: ?case if "length t < length s" "\<And>k. 2 * length s \<le> k \<Longrightarrow> json_items (Suc k) s = Some (js, t)"
    using that k by blast
  show ?case
  proof (cases "c = CHR '']''")
    case True
    then show ?thesis using 4(3) r l v by (intro settled) (simp_all add: c)
  next
    case False
    then obtain js' where f: "c = CHR '',''" "json_items n u = Some (js', t)" "js = j # js'"
      using 4(3) v by (auto simp: c split: if_splits bind_splits)
    show ?thesis using 4(2) [OF v refl c False f(1,2)] r l f by (intro settled) (simp_all add: c)
  qed
next
  case (6 n s)
  obtain q where q: "after [quote_char] (skip s) = Some q" using 6(3) by (auto split: bind_splits)
  obtain x r where x: "json_string q = Some (x, r)" using 6(3) q by (auto split: bind_splits)
  obtain p where p: "after '':'' (skip r) = Some p" using 6(3) q x by (auto split: bind_splits)
  obtain j w where v: "json_value n p = Some (j, w)" using 6(3) q x p by (auto split: bind_splits)
  note w = 6(1) [OF q x refl p v]
  obtain c u where c: "skip w = c # u" using 6(3) q x p v by (auto split: list.splits)
  have l: "length u < length w" "length q \<le> length s" "length r < length q" "length p \<le> length r"
    using length_skip [of w] length_skip [of s] length_skip [of r] c length_after [OF q] length_after [OF p] length_string [OF x]
    by simp_all
  have k: "\<exists>k. m = Suc k \<and> 2 * length s \<le> k" if "2 * length s < m" for m using that by (cases m) auto
  have settled: ?case if "length t < length s" "\<And>k. 2 * length s \<le> k \<Longrightarrow> json_fields (Suc k) s = Some (fs, t)"
    using that k by blast
  show ?case
  proof (cases "c = CHR ''}''")
    case True
    then show ?thesis using 6(3) w l v q x p by (intro settled) (simp_all add: c)
  next
    case False
    then obtain fs' where f: "c = CHR '',''" "json_fields n u = Some (fs', t)" "fs = (x, j) # fs'"
      using 6(3) q x p v by (auto simp: c split: if_splits bind_splits)
    show ?thesis using 6(2) [OF q x refl p v refl c False f(1,2)] w l f q x p by (intro settled) (simp_all add: c)
  qed
qed simp_all

text \<open>Reading needs no more fuel than twice the length of the text: a text is read as a value exactly if
  some fuel is enough to read the value, with nothing but white space behind it.\<close>

theorem reading_ends:
  "json_parse s = Some j \<longleftrightarrow> (\<exists>n t. json_value n s = Some (j, t) \<and> skip t = [])"
proof
  assume "json_parse s = Some j"
  then show "\<exists>n t. json_value n s = Some (j, t) \<and> skip t = []"
    by (fastforce simp: json_parse_def split: bind_splits if_splits)
next
  assume "\<exists>n t. json_value n s = Some (j, t) \<and> skip t = []"
  then obtain n t where "json_value n s = Some (j, t)" "skip t = []" by blast
  then show "json_parse s = Some j" using fuel_enough(1) [of n s j t] by (simp add: json_parse_def)
qed

section \<open>Texts of the encoder\<close>

text \<open>What Go's encoder writes, \<open>JSON.parse\<close> reads: the text of every value in which no object has two
  fields of the same name is read as that value, whatever its strings contain.\<close>

theorem written_values_are_read:
  "unique_keys j \<Longrightarrow> json_parse (go_text j) = Some j"
  by (rule text_read)

theorem written_values_are_read_witness:
  "let j = JObj [(''nickname'', JStr ''<a> \"b\"''), (''items'', JArr [JNum (- 12), JNull, JBool True])]
   in json_parse (go_text j) = Some j"
  unfolding Let_def by (rule written_values_are_read) simp


end
