(* ===== verification/Web_Socket.thy ===== *)
theory Web_Socket
  imports Game_Types
begin

text \<open>
  The connection hook \<open>useWebSocket\<close> of \<open>frontend/src/hooks/useWebSocket.ts\<close>. The state holds the
  hook's React state and refs, the arguments of the current render, the dependencies with which the
  connecting effect last ran, and every socket created so far with the browser's \<open>readyState\<close> and
  the closure its handlers were created in: the handlers of a socket go on seeing the
  \<open>reconnectAttempts\<close> of the render in which \<open>connect\<close> was made, also after the socket has been
  replaced. Every event is followed by a render, in which the effect is torn down and run again
  exactly when one of its dependencies has changed.

  The JSON parser and the browser's verdict on a URL are arguments of the model.
\<close>

section \<open>Addresses\<close>

record Location =
  loc_origin :: string
  loc_protocol :: string
  loc_host :: string

definition getWsBaseUrl :: "string option \<Rightarrow> Location option \<Rightarrow> string" where
  "getWsBaseUrl VITE_WS_BASE_URL window =
     (case VITE_WS_BASE_URL of
        Some (c # cs) \<Rightarrow> c # cs
      | _ \<Rightarrow>
        (case window of
           Some l \<Rightarrow>
             if loc_origin l \<noteq> ''http://localhost:5173''
             then (if loc_protocol l = ''https:'' then ''wss:'' else ''ws:'') @ ''//'' @ loc_host l
             else ''ws://localhost:8080''
         | None \<Rightarrow> ''ws://localhost:8080''))"

definition MAX_RECONNECT_ATTEMPTS :: int where
  "MAX_RECONNECT_ATTEMPTS = 5"

definition RECONNECT_INTERVAL :: int where
  "RECONNECT_INTERVAL = 3000"

section \<open>Splitting a frame into messages\<close>

definition newline :: char where
  "newline = char_of (10 :: nat)"

fun split_lines :: "string \<Rightarrow> string list" where
  "split_lines [] = [[]]"
| "split_lines (c # cs) =
     (if c = newline then [] # split_lines cs
      else (case split_lines cs of [] \<Rightarrow> [[c]] | l # ls \<Rightarrow> (c # l) # ls))"

definition frame_lines :: "string \<Rightarrow> string list" where
  "frame_lines frame = filter (\<lambda>l. trim l \<noteq> '''') (split_lines (trim frame))"

section \<open>State\<close>

datatype readyState = CONNECTING | OPEN | CLOSING | CLOSED

record Closure =
  cl_roomCode :: string
  cl_playerId :: "string option"
  cl_attempts :: int

record Socket =
  made_in :: Closure
  socket_url :: string
  ready :: readyState

record Hook =
  hk_roomCode :: string
  hk_playerId :: "string option"
  hk_baseUrl :: string
  accepts_url :: "string \<Rightarrow> bool"
  isConnected :: bool
  lastMessage :: "WSMessage option"
  connectionError :: "string option"
  reconnectAttempts :: int
  ws :: "nat option"
  reconnectTimeout :: "Closure option"
  intentionalClose :: bool
  isConnectedRef :: bool
  installed :: Closure
  mounted :: bool
  sockets :: "Socket list"

text \<open>The variables that a closure made in the current render captures.\<close>

definition render_closure :: "Hook \<Rightarrow> Closure" where
  "render_closure h =
     \<lparr>cl_roomCode = hk_roomCode h, cl_playerId = hk_playerId h, cl_attempts = reconnectAttempts h\<rparr>"

definition set_ready :: "nat \<Rightarrow> readyState \<Rightarrow> Hook \<Rightarrow> Hook" where
  "set_ready i r h = h\<lparr>sockets := (sockets h)[i := (sockets h ! i)\<lparr>ready := r\<rparr>]\<rparr>"

text \<open>\<open>socket.close()\<close>: no effect on a socket that is closing or closed.\<close>

definition close_socket :: "nat \<Rightarrow> Hook \<Rightarrow> Hook" where
  "close_socket i h =
     (if i < length (sockets h) \<and> ready (sockets h ! i) \<in> {CONNECTING, OPEN}
      then set_ready i CLOSING h else h)"

definition close_current :: "Hook \<Rightarrow> Hook" where
  "close_current h = (case ws h of Some i \<Rightarrow> close_socket i h | None \<Rightarrow> h)"

section \<open>Connecting\<close>

definition valid_player :: "string option \<Rightarrow> bool" where
  "valid_player p \<longleftrightarrow> p \<noteq> None \<and> p \<noteq> Some ''''"

definition ws_url :: "string \<Rightarrow> Closure \<Rightarrow> string" where
  "ws_url base c =
     base @ ''/ws/'' @ cl_roomCode c @ ''?playerId='' @ the (cl_playerId c)"

definition connect :: "Closure \<Rightarrow> Hook \<Rightarrow> Hook" where
  "connect c h =
     (if cl_roomCode c = '''' \<or> length (cl_roomCode c) < 6 then h
      else if \<not> valid_player (cl_playerId c) then h
      else if MAX_RECONNECT_ATTEMPTS \<le> cl_attempts c
      then h\<lparr>connectionError := Some ''Cannot retry the connection. Please reload the page.''\<rparr>
      else if \<not> accepts_url h (ws_url (hk_baseUrl h) c)
      then h\<lparr>connectionError := Some ''The WebSocket connection failed.''\<rparr>
      else h\<lparr>ws := Some (length (sockets h)),
             sockets := sockets h @
               [\<lparr>made_in = c, socket_url = ws_url (hk_baseUrl h) c, ready = CONNECTING\<rparr>]\<rparr>)"

definition on_open :: "Hook \<Rightarrow> Hook" where
  "on_open h = h\<lparr>isConnectedRef := True, isConnected := True, connectionError := None,
                 reconnectAttempts := 0\<rparr>"

definition on_message :: "(string \<Rightarrow> WSMessage option) \<Rightarrow> string \<Rightarrow> Hook \<Rightarrow> Hook" where
  "on_message parse frame h =
     (let messages = frame_lines frame;
          h1 = (if \<not> isConnectedRef h \<and> messages \<noteq> [] then on_open h else h)
      in foldl (\<lambda>g msgData. case parse msgData of
                    Some message \<Rightarrow> g\<lparr>lastMessage := Some message\<rparr>
                  | None \<Rightarrow> g) h1 messages)"

definition retry_text :: "int \<Rightarrow> string" where
  "retry_text n = ''The connection was lost. Reconnecting... ('' @ int_str n @ ''/'' @
     int_str MAX_RECONNECT_ATTEMPTS @ '')''"

definition on_close :: "Closure \<Rightarrow> int \<Rightarrow> Hook \<Rightarrow> Hook" where
  "on_close c event_code h =
     (let h1 = h\<lparr>isConnectedRef := False, isConnected := False\<rparr>
      in if intentionalClose h1 then h1
         else if event_code = 1008 then h1\<lparr>connectionError := Some ''The room was not found.''\<rparr>
         else if event_code = 1003
         then h1\<lparr>connectionError := Some ''The connection to the server is not supported.''\<rparr>
         else let newAttempts = cl_attempts c + 1
              in h1\<lparr>reconnectAttempts := newAttempts,
                    connectionError := Some (retry_text newAttempts),
                    reconnectTimeout := Some c\<rparr>)"

definition on_error :: "Hook \<Rightarrow> Hook" where
  "on_error h = h\<lparr>connectionError := Some ''A connection error occurred.''\<rparr>"

section \<open>The effect\<close>

definition cleanup :: "Hook \<Rightarrow> Hook" where
  "cleanup h = close_current (h\<lparr>intentionalClose := True, reconnectTimeout := None\<rparr>)"

definition run_effect :: "Hook \<Rightarrow> Hook" where
  "run_effect h =
     (connect (render_closure h) (h\<lparr>intentionalClose := False\<rparr>))\<lparr>installed := render_closure h\<rparr>"

definition settle :: "Hook \<Rightarrow> Hook" where
  "settle h =
     (if mounted h \<and> installed h \<noteq> render_closure h then run_effect (cleanup h) else h)"

definition useWebSocket :: "string \<Rightarrow> (string \<Rightarrow> bool) \<Rightarrow> string \<Rightarrow> string option \<Rightarrow> Hook" where
  "useWebSocket base urls room player =
     run_effect
       \<lparr>hk_roomCode = room, hk_playerId = player, hk_baseUrl = base, accepts_url = urls,
        isConnected = False, lastMessage = None, connectionError = None, reconnectAttempts = 0,
        ws = None, reconnectTimeout = None, intentionalClose = False, isConnectedRef = False,
        installed = \<lparr>cl_roomCode = room, cl_playerId = player, cl_attempts = 0\<rparr>,
        mounted = True, sockets = []\<rparr>"

section \<open>The functions returned by the hook\<close>

text \<open>The message handed to the browser, with the socket that carries it; \<open>None\<close> if it is dropped.\<close>

definition sendMessage :: "WSMessage \<Rightarrow> Hook \<Rightarrow> (nat \<times> WSMessage) option" where
  "sendMessage message h =
     (case ws h of
        Some i \<Rightarrow> if i < length (sockets h) \<and> ready (sockets h ! i) = OPEN then Some (i, message)
                  else None
      | None \<Rightarrow> None)"

definition manualReconnect :: "Hook \<Rightarrow> Hook" where
  "manualReconnect h =
     connect (render_closure h)
       ((close_current h)\<lparr>reconnectTimeout := None, reconnectAttempts := 0,
                          connectionError := None\<rparr>)"

section \<open>Events\<close>

text \<open>
  The browser opens only a connecting socket, delivers frames only on an open one, and reports an
  error or the close of a socket only while it is not closed; other events do not happen and leave
  the state as it is.
\<close>

datatype hook_event =
    Open nat
  | Frame nat string
  | Close nat int
  | SocketError nat
  | TimerFires
  | SetPlayer "string option"
  | ManualReconnect
  | Unmount

definition socket_in :: "Hook \<Rightarrow> nat \<Rightarrow> readyState set \<Rightarrow> bool" where
  "socket_in h i R \<longleftrightarrow> i < length (sockets h) \<and> ready (sockets h ! i) \<in> R"

fun hook_handle :: "(string \<Rightarrow> WSMessage option) \<Rightarrow> Hook \<Rightarrow> hook_event \<Rightarrow> Hook" where
  "hook_handle parse h (Open i) =
     (if socket_in h i {CONNECTING} then on_open (set_ready i OPEN h) else h)"
| "hook_handle parse h (Frame i frame) =
     (if socket_in h i {OPEN} then on_message parse frame h else h)"
| "hook_handle parse h (Close i event_code) =
     (if socket_in h i {CONNECTING, OPEN, CLOSING}
      then on_close (made_in (sockets h ! i)) event_code (set_ready i CLOSED h) else h)"
| "hook_handle parse h (SocketError i) =
     (if socket_in h i {CONNECTING, OPEN, CLOSING} then on_error h else h)"
| "hook_handle parse h TimerFires =
     (case reconnectTimeout h of
        Some c \<Rightarrow> connect c (h\<lparr>reconnectTimeout := None\<rparr>)
      | None \<Rightarrow> h)"
| "hook_handle parse h (SetPlayer p) = (if mounted h then h\<lparr>hk_playerId := p\<rparr> else h)"
| "hook_handle parse h ManualReconnect = (if mounted h then manualReconnect h else h)"
| "hook_handle parse h Unmount = (if mounted h then (cleanup h)\<lparr>mounted := False\<rparr> else h)"

definition hook_step :: "(string \<Rightarrow> WSMessage option) \<Rightarrow> Hook \<Rightarrow> hook_event \<Rightarrow> Hook" where
  "hook_step parse h e = settle (hook_handle parse h e)"

abbreviation hook_run :: "(string \<Rightarrow> WSMessage option) \<Rightarrow> Hook \<Rightarrow> hook_event list \<Rightarrow> Hook" where
  "hook_run parse \<equiv> run (hook_step parse)"

section \<open>Frame lemmas\<close>

lemma mounted_set_ready [simp]: "mounted (set_ready i r h) = mounted h"
  and ws_set_ready [simp]: "ws (set_ready i r h) = ws h"
  and attempts_set_ready [simp]: "reconnectAttempts (set_ready i r h) = reconnectAttempts h"
  and timeout_set_ready [simp]: "reconnectTimeout (set_ready i r h) = reconnectTimeout h"
  and intentional_set_ready [simp]: "intentionalClose (set_ready i r h) = intentionalClose h"
  and base_set_ready [simp]: "hk_baseUrl (set_ready i r h) = hk_baseUrl h"
  and urls_set_ready [simp]: "accepts_url (set_ready i r h) = accepts_url h"
  and installed_set_ready [simp]: "installed (set_ready i r h) = installed h"
  and closure_set_ready [simp]: "render_closure (set_ready i r h) = render_closure h"
  and connected_set_ready [simp]: "isConnected (set_ready i r h) = isConnected h"
  and room_set_ready [simp]: "hk_roomCode (set_ready i r h) = hk_roomCode h"
  and player_set_ready [simp]: "hk_playerId (set_ready i r h) = hk_playerId h"
  and length_set_ready [simp]: "length (sockets (set_ready i r h)) = length (sockets h)"
  by (simp_all add: set_ready_def render_closure_def)

lemma nth_set_ready:
  "j < length (sockets h) \<Longrightarrow>
   sockets (set_ready i r h) ! j = (if j = i then (sockets h ! i)\<lparr>ready := r\<rparr> else sockets h ! j)"
  by (simp add: set_ready_def nth_list_update)

lemma map_made_in_set_ready [simp]:
  "map made_in (sockets (set_ready i r h)) = map made_in (sockets h)"
  by (rule nth_equalityI) (simp_all add: nth_set_ready)

lemma map_url_set_ready [simp]:
  "map socket_url (sockets (set_ready i r h)) = map socket_url (sockets h)"
  by (rule nth_equalityI) (simp_all add: nth_set_ready)

lemma render_closure_flags [simp]:
  "render_closure (h\<lparr>intentionalClose := b\<rparr>) = render_closure h"
  "render_closure (h\<lparr>intentionalClose := b, reconnectTimeout := t\<rparr>) = render_closure h"
  by (simp_all add: render_closure_def)

lemma close_current_cases:
  obtains (same) "close_current h = h" | (closing) i where "close_current h = set_ready i CLOSING h"
proof -
  have "close_current h = h \<or> (\<exists>i. close_current h = set_ready i CLOSING h)"
    by (auto simp: close_current_def close_socket_def split: option.splits)
  then show thesis using same closing by blast
qed

lemma close_current_frame [simp]:
  "mounted (close_current h) = mounted h" "ws (close_current h) = ws h"
  "reconnectAttempts (close_current h) = reconnectAttempts h"
  "reconnectTimeout (close_current h) = reconnectTimeout h"
  "intentionalClose (close_current h) = intentionalClose h"
  "hk_baseUrl (close_current h) = hk_baseUrl h" "accepts_url (close_current h) = accepts_url h"
  "installed (close_current h) = installed h" "render_closure (close_current h) = render_closure h"
  "length (sockets (close_current h)) = length (sockets h)"
  "map made_in (sockets (close_current h)) = map made_in (sockets h)"
  "map socket_url (sockets (close_current h)) = map socket_url (sockets h)"
  "isConnected (close_current h) = isConnected h"
  "hk_roomCode (close_current h) = hk_roomCode h" "hk_playerId (close_current h) = hk_playerId h"
  by (cases h rule: close_current_cases; simp)+

lemma cleanup_frame [simp]:
  "mounted (cleanup h) = mounted h" "ws (cleanup h) = ws h"
  "reconnectAttempts (cleanup h) = reconnectAttempts h" "reconnectTimeout (cleanup h) = None"
  "intentionalClose (cleanup h)" "hk_baseUrl (cleanup h) = hk_baseUrl h"
  "accepts_url (cleanup h) = accepts_url h" "render_closure (cleanup h) = render_closure h"
  "length (sockets (cleanup h)) = length (sockets h)"
  "map made_in (sockets (cleanup h)) = map made_in (sockets h)"
  "map socket_url (sockets (cleanup h)) = map socket_url (sockets h)"
  "isConnected (cleanup h) = isConnected h"
  "hk_roomCode (cleanup h) = hk_roomCode h" "hk_playerId (cleanup h) = hk_playerId h"
  by (simp_all add: cleanup_def render_closure_flags)

lemma connect_frame [simp]:
  "mounted (connect c h) = mounted h"
  "reconnectAttempts (connect c h) = reconnectAttempts h"
  "reconnectTimeout (connect c h) = reconnectTimeout h"
  "intentionalClose (connect c h) = intentionalClose h"
  "hk_baseUrl (connect c h) = hk_baseUrl h" "accepts_url (connect c h) = accepts_url h"
  "installed (connect c h) = installed h" "render_closure (connect c h) = render_closure h"
  "isConnected (connect c h) = isConnected h"
  by (simp_all add: connect_def render_closure_def)

lemma run_effect_frame [simp]:
  "mounted (run_effect h) = mounted h"
  "reconnectAttempts (run_effect h) = reconnectAttempts h"
  "reconnectTimeout (run_effect h) = reconnectTimeout h"
  "\<not> intentionalClose (run_effect h)"
  "hk_baseUrl (run_effect h) = hk_baseUrl h" "accepts_url (run_effect h) = accepts_url h"
  "installed (run_effect h) = render_closure h" "render_closure (run_effect h) = render_closure h"
  "isConnected (run_effect h) = isConnected h"
  "sockets (run_effect h) = sockets (connect (render_closure h) (h\<lparr>intentionalClose := False\<rparr>))"
  "ws (run_effect h) = ws (connect (render_closure h) (h\<lparr>intentionalClose := False\<rparr>))"
  by (simp_all add: run_effect_def render_closure_def connect_def)

lemma connect_creates:
  assumes "6 \<le> length (cl_roomCode c)" "valid_player (cl_playerId c)"
    "cl_attempts c < MAX_RECONNECT_ATTEMPTS" "accepts_url h (ws_url (hk_baseUrl h) c)"
  shows "connect c h =
    h\<lparr>ws := Some (length (sockets h)),
      sockets := sockets h @
        [\<lparr>made_in = c, socket_url = ws_url (hk_baseUrl h) c, ready = CONNECTING\<rparr>]\<rparr>"
  using assms by (auto simp: connect_def)

lemma connect_sockets_cases:
  obtains (none) "sockets (connect c h) = sockets h" "ws (connect c h) = ws h"
  | (new) "sockets (connect c h) = sockets h @
       [\<lparr>made_in = c, socket_url = ws_url (hk_baseUrl h) c, ready = CONNECTING\<rparr>]"
    "ws (connect c h) = Some (length (sockets h))"
    "6 \<le> length (cl_roomCode c)" "valid_player (cl_playerId c)"
    "cl_attempts c < MAX_RECONNECT_ATTEMPTS" "accepts_url h (ws_url (hk_baseUrl h) c)"
proof (cases "6 \<le> length (cl_roomCode c) \<and> valid_player (cl_playerId c) \<and>
    cl_attempts c < MAX_RECONNECT_ATTEMPTS \<and> accepts_url h (ws_url (hk_baseUrl h) c)")
  case True
  then show thesis by (intro new) (simp_all add: connect_creates)
next
  case False
  then show thesis by (intro none) (auto simp: connect_def)
qed

section \<open>Which sockets are created\<close>

definition valid_closure :: "Closure \<Rightarrow> bool" where
  "valid_closure c \<longleftrightarrow>
     6 \<le> length (cl_roomCode c) \<and> valid_player (cl_playerId c) \<and>
     0 \<le> cl_attempts c \<and> cl_attempts c < MAX_RECONNECT_ATTEMPTS"

definition good_socket :: "Hook \<Rightarrow> Socket \<Rightarrow> bool" where
  "good_socket h s \<longleftrightarrow>
     valid_closure (made_in s) \<and> socket_url s = ws_url (hk_baseUrl h) (made_in s) \<and>
     accepts_url h (socket_url s)"

definition hook_inv :: "Hook \<Rightarrow> bool" where
  "hook_inv h \<longleftrightarrow>
     0 \<le> reconnectAttempts h \<and> reconnectAttempts h \<le> MAX_RECONNECT_ATTEMPTS \<and>
     list_all (good_socket h) (sockets h) \<and>
     (case reconnectTimeout h of Some c \<Rightarrow> valid_closure c | None \<Rightarrow> True)"

lemma good_socket_cong:
  "hk_baseUrl g = hk_baseUrl h \<Longrightarrow> accepts_url g = accepts_url h \<Longrightarrow> good_socket g = good_socket h"
  by (simp add: good_socket_def fun_eq_iff)

lemma good_sockets_same:
  assumes "map made_in (sockets g) = map made_in (sockets h)"
    and "map socket_url (sockets g) = map socket_url (sockets h)"
    and "hk_baseUrl g = hk_baseUrl h" "accepts_url g = accepts_url h"
  shows "list_all (good_socket g) (sockets g) = list_all (good_socket h) (sockets h)"
proof -
  have "list_all (good_socket k) xs =
      list_all (\<lambda>(c, u). valid_closure c \<and> u = ws_url (hk_baseUrl k) c \<and> accepts_url k u)
        (zip (map made_in xs) (map socket_url xs))" for k xs
    by (induction xs) (auto simp: good_socket_def)
  then show ?thesis using assms by simp
qed

lemma hook_inv_connect:
  assumes "hook_inv h" "0 \<le> cl_attempts c"
  shows "hook_inv (connect c h)"
proof (cases c h rule: connect_sockets_cases)
  case none
  then show ?thesis
    using assms(1) good_socket_cong [of "connect c h" h] by (simp add: hook_inv_def)
next
  case new
  then show ?thesis
    using assms good_socket_cong [of "connect c h" h]
    by (simp add: hook_inv_def good_socket_def valid_closure_def)
qed

lemma hook_inv_update:
  assumes "hook_inv h"
    and "map made_in (sockets g) = map made_in (sockets h)"
      "map socket_url (sockets g) = map socket_url (sockets h)"
      "hk_baseUrl g = hk_baseUrl h" "accepts_url g = accepts_url h"
    and "0 \<le> reconnectAttempts g" "reconnectAttempts g \<le> MAX_RECONNECT_ATTEMPTS"
    and "\<And>c. reconnectTimeout g = Some c \<Longrightarrow> valid_closure c"
  shows "hook_inv g"
  using assms good_sockets_same [of g h] by (auto simp: hook_inv_def split: option.splits)

lemma hook_inv_settle: "hook_inv h \<Longrightarrow> hook_inv (settle h)"
proof -
  assume h: "hook_inv h"
  have "hook_inv (cleanup h)"
    by (rule hook_inv_update [OF h]) (use h in \<open>simp_all add: hook_inv_def\<close>)
  then have "hook_inv ((cleanup h)\<lparr>intentionalClose := False\<rparr>)"
    by (rule hook_inv_update) (use h in \<open>simp_all add: hook_inv_def\<close>)
  then have "hook_inv (connect (render_closure h) ((cleanup h)\<lparr>intentionalClose := False\<rparr>))"
    using h by (intro hook_inv_connect) (simp_all add: hook_inv_def render_closure_def)
  then have "hook_inv (run_effect (cleanup h))"
    unfolding run_effect_def by (rule hook_inv_update) (use h in \<open>simp_all add: hook_inv_def\<close>)
  with h show ?thesis by (simp add: settle_def)
qed

text \<open>What is left in \<open>lastMessage\<close> when the lines of a frame have been processed.\<close>

definition latest :: "(string \<Rightarrow> WSMessage option) \<Rightarrow> WSMessage option \<Rightarrow> string list \<Rightarrow> WSMessage option" where
  "latest parse m ls = foldl (\<lambda>m l. case parse l of Some x \<Rightarrow> Some x | None \<Rightarrow> m) m ls"

lemma fold_messages:
  "foldl (\<lambda>g msgData. case parse msgData of
       Some message \<Rightarrow> g\<lparr>lastMessage := Some message\<rparr> | None \<Rightarrow> g) h ls =
   h\<lparr>lastMessage := latest parse (lastMessage h) ls\<rparr>"
proof (induction ls arbitrary: h)
  case (Cons l ls)
  then show ?case by (cases "parse l") (simp_all add: latest_def)
qed (simp add: latest_def)

lemma on_message_eq:
  "on_message parse f h =
     (let g = if \<not> isConnectedRef h \<and> frame_lines f \<noteq> [] then on_open h else h
      in g\<lparr>lastMessage := latest parse (lastMessage h) (frame_lines f)\<rparr>)"
  by (simp add: on_message_def fold_messages Let_def on_open_def)

lemma on_message_frame [simp]:
  "mounted (on_message parse f h) = mounted h" "ws (on_message parse f h) = ws h"
  "reconnectTimeout (on_message parse f h) = reconnectTimeout h"
  "intentionalClose (on_message parse f h) = intentionalClose h"
  "hk_baseUrl (on_message parse f h) = hk_baseUrl h"
  "accepts_url (on_message parse f h) = accepts_url h"
  "sockets (on_message parse f h) = sockets h"
  "installed (on_message parse f h) = installed h"
  by (simp_all add: on_message_eq on_open_def Let_def)

lemma on_message_attempts:
  "reconnectAttempts (on_message parse f h) = reconnectAttempts h \<or>
   reconnectAttempts (on_message parse f h) = 0"
  by (simp add: on_message_eq on_open_def Let_def)

lemma hook_inv_handle:
  assumes h: "hook_inv h"
  shows "hook_inv (hook_handle parse h e)"
proof -
  have b: "0 \<le> reconnectAttempts h" "reconnectAttempts h \<le> MAX_RECONNECT_ATTEMPTS"
      "(0::int) \<le> MAX_RECONNECT_ATTEMPTS"
    and t: "reconnectTimeout h = Some c \<Longrightarrow> valid_closure c" for c
    using h by (auto simp: hook_inv_def MAX_RECONNECT_ATTEMPTS_def)
  show ?thesis
  proof (cases e)
    case (Close i event_code)
    have "valid_closure (made_in (sockets h ! i))" if "i < length (sockets h)"
      using h that by (auto simp: hook_inv_def list_all_length good_socket_def)
    then have v: "0 \<le> cl_attempts (made_in (sockets h ! i)) + 1"
        "cl_attempts (made_in (sockets h ! i)) + 1 \<le> MAX_RECONNECT_ATTEMPTS"
        "valid_closure (made_in (sockets h ! i))" if "i < length (sockets h)"
      using that by (auto simp: valid_closure_def)
    show ?thesis
    proof (cases "socket_in h i {CONNECTING, OPEN, CLOSING}")
      case True
      then have "i < length (sockets h)" by (simp add: socket_in_def)
      then show ?thesis
        using Close True b t v
        by (intro hook_inv_update [OF h]) (auto simp: on_close_def Let_def split: if_splits)
    qed (use Close h in simp)
  next
    case (Open i)
    then show ?thesis using b t h
      by (cases "socket_in h i {CONNECTING}")
        (auto simp: on_open_def intro!: hook_inv_update [OF h])
  next
    case (Frame i f)
    then show ?thesis using b t h on_message_attempts [of parse f h]
      by (cases "socket_in h i {OPEN}") (auto intro!: hook_inv_update [OF h])
  next
    case TimerFires
    show ?thesis
    proof (cases "reconnectTimeout h")
      case (Some c)
      have "hook_inv (h\<lparr>reconnectTimeout := None\<rparr>)"
        using b by (intro hook_inv_update [OF h]) simp_all
      then show ?thesis
        using TimerFires Some t by (auto intro!: hook_inv_connect simp: valid_closure_def)
    qed (use TimerFires h in simp)
  next
    case ManualReconnect
    have "hook_inv ((close_current h)\<lparr>reconnectTimeout := None, reconnectAttempts := 0,
        connectionError := None\<rparr>)"
      using b by (intro hook_inv_update [OF h]) simp_all
    then show ?thesis
      using ManualReconnect h b
      by (auto simp: manualReconnect_def render_closure_def intro!: hook_inv_connect)
  next
    case (SetPlayer p)
    then show ?thesis using b t h by (auto intro!: hook_inv_update [OF h])
  next
    case (SocketError i)
    then show ?thesis using b t h
      by (cases "socket_in h i {CONNECTING, OPEN, CLOSING}")
        (auto simp: on_error_def intro!: hook_inv_update [OF h])
  next
    case Unmount
    then show ?thesis using b t h by (auto intro!: hook_inv_update [OF h])
  qed
qed

interpretation hook: event_machine hook_inv "hook_step parse" for parse
  by unfold_locales (simp add: hook_step_def hook_inv_handle hook_inv_settle)

lemma hook_inv_init: "hook_inv (useWebSocket base urls room player)"
proof -
  define h where "h =
       \<lparr>hk_roomCode = room, hk_playerId = player, hk_baseUrl = base, accepts_url = urls,
        isConnected = False, lastMessage = None, connectionError = None, reconnectAttempts = 0,
        ws = None, reconnectTimeout = None, intentionalClose = False, isConnectedRef = False,
        installed = \<lparr>cl_roomCode = room, cl_playerId = player, cl_attempts = 0\<rparr>,
        mounted = True, sockets = []\<rparr>"
  have h: "hook_inv (h\<lparr>intentionalClose := False\<rparr>)"
    by (simp add: h_def hook_inv_def MAX_RECONNECT_ATTEMPTS_def)
  then have "hook_inv (connect (render_closure h) (h\<lparr>intentionalClose := False\<rparr>))"
    by (rule hook_inv_connect) (simp add: h_def render_closure_def)
  then have "hook_inv (run_effect h)"
    unfolding run_effect_def by (rule hook_inv_update) (use h in \<open>simp_all add: hook_inv_def split: option.splits\<close>)
  then show ?thesis by (simp add: useWebSocket_def h_def)
qed

lemma hook_run_const [simp]:
  "hk_baseUrl (hook_run parse h es) = hk_baseUrl h"
  "accepts_url (hook_run parse h es) = accepts_url h"
proof -
  have handle: "hk_baseUrl (hook_handle parse h e) = hk_baseUrl h \<and>
      accepts_url (hook_handle parse h e) = accepts_url h" for h e
    by (cases e) (auto simp: on_open_def on_close_def on_error_def manualReconnect_def Let_def
        split: option.splits)
  have step: "hk_baseUrl (hook_step parse h e) = hk_baseUrl h \<and>
      accepts_url (hook_step parse h e) = accepts_url h" for h e
    using handle by (simp add: hook_step_def settle_def)
  then have "hk_baseUrl (hook_run parse h es) = hk_baseUrl h \<and>
      accepts_url (hook_run parse h es) = accepts_url h"
    by (induction es arbitrary: h) auto
  then show "hk_baseUrl (hook_run parse h es) = hk_baseUrl h"
    "accepts_url (hook_run parse h es) = accepts_url h" by auto
qed

section \<open>Unmounting\<close>

text \<open>After unmounting, the hook's closures find the intentional-close flag set.\<close>

definition current_live :: "Hook \<Rightarrow> bool" where
  "current_live h \<longleftrightarrow> (case ws h of Some i \<Rightarrow> socket_in h i {CONNECTING, OPEN} | None \<Rightarrow> False)"

definition stopped :: "Hook \<Rightarrow> bool" where
  "stopped h \<longleftrightarrow>
     \<not> mounted h \<and> intentionalClose h \<and> reconnectTimeout h = None \<and> \<not> current_live h"

lemma current_live_set_ready:
  "\<not> current_live h \<Longrightarrow> r \<in> {CLOSING, CLOSED} \<or> ws h \<noteq> Some i \<Longrightarrow> \<not> current_live (set_ready i r h)"
  by (auto simp: current_live_def socket_in_def nth_set_ready split: option.splits if_splits)

lemma not_current_live_close_current: "\<not> current_live (close_current h)"
  by (auto simp: current_live_def close_current_def close_socket_def socket_in_def nth_set_ready
      split: option.splits if_splits)

lemma current_live_cong:
  "ws g = ws h \<Longrightarrow> sockets g = sockets h \<Longrightarrow> current_live g = current_live h"
  by (simp add: current_live_def socket_in_def split: option.splits)

lemma stopped_handle:
  assumes h: "stopped h"
  shows "stopped (hook_handle parse h e) \<and>
    map made_in (sockets (hook_handle parse h e)) = map made_in (sockets h)"
proof (cases e)
  case (Open i)
  have "ws h \<noteq> Some i" if "socket_in h i {CONNECTING}"
    using h that by (auto simp: stopped_def current_live_def socket_in_def)
  then show ?thesis
    using Open h current_live_set_ready [of h OPEN i]
    by (auto simp: stopped_def on_open_def current_live_def socket_in_def split: option.splits)
next
  case (Close i event_code)
  then show ?thesis
    using h current_live_set_ready [of h CLOSED i]
    by (auto simp: stopped_def on_close_def Let_def current_live_def socket_in_def split: option.splits)
next
  case (Frame i f)
  then show ?thesis
    using h current_live_cong [of "on_message parse f h" h] by (auto simp: stopped_def)
next
  case (SocketError i)
  then show ?thesis
    using h current_live_cong [of "on_error h" h] by (auto simp: stopped_def on_error_def)
qed (use h in \<open>auto simp: stopped_def\<close>)

interpretation stopped_hook: framed_machine stopped "hook_step parse" "\<lambda>_. True"
    "\<lambda>h. map made_in (sockets h)" for parse
  by unfold_locales (simp_all add: hook_step_def settle_def stopped_def [of h for h] stopped_handle
      [unfolded stopped_def])

lemma stopped_unmount: "mounted h \<Longrightarrow> stopped (hook_step parse h Unmount)"
  using not_current_live_close_current [of "h\<lparr>intentionalClose := True, reconnectTimeout := None\<rparr>"]
    current_live_cong [of "(cleanup h)\<lparr>mounted := False\<rparr>" "cleanup h"]
  by (simp add: hook_step_def settle_def stopped_def cleanup_def)

lemma mounted_or_stopped: "mounted h \<or> stopped h \<Longrightarrow> mounted (hook_step parse h e) \<or> stopped (hook_step parse h e)"
proof (cases "mounted h")
  case True
  show ?thesis
  proof (cases "e = Unmount")
    case False
    with True have "mounted (hook_handle parse h e)"
      by (cases e) (auto simp: on_open_def on_close_def on_error_def manualReconnect_def Let_def
          split: option.splits)
    then show ?thesis by (simp add: hook_step_def settle_def)
  qed (use True stopped_unmount in blast)
next
  case False
  then show "mounted h \<or> stopped h \<Longrightarrow> ?thesis"
    using stopped_hook.inv_step by blast
qed

lemma mounted_or_stopped_run:
  "mounted h \<or> stopped h \<Longrightarrow> mounted (hook_run parse h es) \<or> stopped (hook_run parse h es)"
  by (induction es arbitrary: h) (simp_all add: mounted_or_stopped)

lemma mounted_init [simp]: "mounted (useWebSocket base urls room player)"
  by (simp add: useWebSocket_def)

text \<open>The definitions that evaluate a run on concrete input.\<close>

lemmas hook_eval = hook_step_def settle_def useWebSocket_def run_effect_def connect_def
  render_closure_def MAX_RECONNECT_ATTEMPTS_def valid_player_def on_open_def on_close_def
  set_ready_def socket_in_def Let_def cleanup_def close_current_def close_socket_def

section \<open>Properties\<close>

text \<open>Whatever the browser and the user do, every socket the hook creates is for a room code of
  at least six characters and a known player, is addressed to that room and player at an acceptable
  URL, and is made by a closure with fewer than five attempts behind it; the attempt counter stays
  between 0 and 5.\<close>

theorem hook_sockets_valid:
  "let h = hook_run parse (useWebSocket base urls room player) es
   in list_all (\<lambda>s. 6 \<le> length (cl_roomCode (made_in s)) \<and> valid_player (cl_playerId (made_in s)) \<and>
        0 \<le> cl_attempts (made_in s) \<and> cl_attempts (made_in s) < 5 \<and>
        socket_url s = ws_url base (made_in s) \<and> urls (socket_url s)) (sockets h) \<and>
      0 \<le> reconnectAttempts h \<and> reconnectAttempts h \<le> 5"
proof -
  define h where "h = hook_run parse (useWebSocket base urls room player) es"
  have "hook_inv h"
    unfolding h_def by (rule hook.inv_run [OF hook_inv_init])
  moreover have "hk_baseUrl h = base" "accepts_url h = urls"
    by (simp_all add: h_def useWebSocket_def)
  ultimately have "list_all (\<lambda>s. 6 \<le> length (cl_roomCode (made_in s)) \<and>
        valid_player (cl_playerId (made_in s)) \<and> 0 \<le> cl_attempts (made_in s) \<and>
        cl_attempts (made_in s) < 5 \<and> socket_url s = ws_url base (made_in s) \<and>
        urls (socket_url s)) (sockets h) \<and> 0 \<le> reconnectAttempts h \<and> reconnectAttempts h \<le> 5"
    by (auto simp: hook_inv_def good_socket_def valid_closure_def MAX_RECONNECT_ATTEMPTS_def
        elim!: list.pred_mono_strong)
  then show ?thesis by (simp add: h_def Let_def)
qed

text \<open>Unmounting ends all connection activity: from then on, whatever close events, timers or
  messages still arrive, no socket is ever created, no reconnection is scheduled, and the current
  socket is closing or closed.\<close>

theorem unmounted_hook_is_silent:
  "let h = hook_run parse (useWebSocket base urls room player) es;
       h' = hook_run parse (useWebSocket base urls room player) (es @ Unmount # fs)
   in map made_in (sockets h') = map made_in (sockets h) \<and> reconnectTimeout h' = None \<and>
      \<not> current_live h'"
proof -
  define h where "h = hook_run parse (useWebSocket base urls room player) es"
  define h' where "h' = hook_run parse (useWebSocket base urls room player) (es @ Unmount # fs)"
  have run: "h' = hook_run parse (hook_step parse h Unmount) fs"
    by (simp add: h_def h'_def run_append)
  have *: "stopped (hook_step parse h Unmount) \<and>
      map made_in (sockets (hook_step parse h Unmount)) = map made_in (sockets h)"
  proof (cases "mounted h")
    case True
    then show ?thesis using stopped_unmount by (simp add: hook_step_def settle_def)
  next
    case False
    then have "stopped h"
      using mounted_or_stopped_run [of "useWebSocket base urls room player"] by (auto simp: h_def)
    then show ?thesis
      using stopped_hook.inv_step stopped_hook.frame_step by blast
  qed
  then have "map made_in (sockets h') = map made_in (sockets h)"
    using stopped_hook.frame_run [of "hook_step parse h Unmount" fs parse]
    by (simp add: run list_all_iff)
  moreover have "stopped h'"
    unfolding run using * stopped_hook.inv_run by blast
  ultimately show ?thesis by (simp add: stopped_def Let_def h_def h'_def)
qed

text \<open>What one unexpected loss does to the hook.\<close>

lemma retry_step:
  assumes "mounted h" "installed h = render_closure h" "\<not> intentionalClose h"
    and "socket_in h i {CONNECTING, OPEN, CLOSING}"
    and "event_code \<noteq> 1008" "event_code \<noteq> 1003"
    and "cl_attempts (made_in (sockets h ! i)) + 1 = n" "n \<noteq> reconnectAttempts h"
  shows "\<exists>g. hook_step parse h (Close i event_code) = run_effect (cleanup g) \<and>
    render_closure (cleanup g) = render_closure (h\<lparr>reconnectAttempts := n\<rparr>) \<and>
    reconnectAttempts g = n \<and> mounted g \<and> accepts_url g = accepts_url h \<and>
    hk_baseUrl g = hk_baseUrl h \<and> ws g = ws h \<and> hk_roomCode g = hk_roomCode h \<and>
    hk_playerId g = hk_playerId h \<and> sockets g = sockets (set_ready i CLOSED h)"
proof -
  define g where "g = on_close (made_in (sockets h ! i)) event_code (set_ready i CLOSED h)"
  have g: "hook_handle parse h (Close i event_code) = g"
    using assms(4) by (simp add: g_def)
  have closure: "render_closure (cleanup g) = render_closure (h\<lparr>reconnectAttempts := n\<rparr>)"
    "reconnectAttempts g = n" "mounted g" "installed g = render_closure h"
    "accepts_url g = accepts_url h" "hk_baseUrl g = hk_baseUrl h" "ws g = ws h"
    "hk_roomCode g = hk_roomCode h" "hk_playerId g = hk_playerId h"
    "sockets g = sockets (set_ready i CLOSED h)"
    using assms(1-3,5-7) by (simp_all add: g_def on_close_def Let_def render_closure_def)
  have "hook_step parse h (Close i event_code) = run_effect (cleanup g)"
    using closure assms(2,8) unfolding hook_step_def g settle_def
    by (auto simp: render_closure_def)
  with closure show ?thesis by blast
qed

text \<open>A connection lost for any reason other than codes 1008 and 1003 is replaced at once: in the
  same step the reconnection timer is cancelled and a new socket is created, without waiting for
  \<open>RECONNECT_INTERVAL\<close> (whenever the loss changes the attempt counter and leaves it below 5).\<close>

theorem retry_is_immediate:
  assumes "mounted h" "installed h = render_closure h" "\<not> intentionalClose h"
    and "socket_in h i {CONNECTING, OPEN, CLOSING}"
    and "event_code \<noteq> 1008" "event_code \<noteq> 1003"
    and "cl_attempts (made_in (sockets h ! i)) + 1 = n" "n \<noteq> reconnectAttempts h" "n < 5"
    and "6 \<le> length (hk_roomCode h)" "valid_player (hk_playerId h)"
    and "accepts_url h (ws_url (hk_baseUrl h) (render_closure (h\<lparr>reconnectAttempts := n\<rparr>)))"
  shows "let h' = hook_step parse h (Close i event_code) in reconnectTimeout h' = None \<and> ws h' = Some (length (sockets h)) \<and>
    length (sockets h') = length (sockets h) + 1 \<and>
    ready (last (sockets h')) = CONNECTING \<and> cl_attempts (made_in (last (sockets h'))) = n \<and>
    reconnectAttempts h' = n"
proof -
  obtain g where g: "hook_step parse h (Close i event_code) = run_effect (cleanup g)"
    "render_closure (cleanup g) = render_closure (h\<lparr>reconnectAttempts := n\<rparr>)"
    "reconnectAttempts g = n" "accepts_url g = accepts_url h" "hk_baseUrl g = hk_baseUrl h"
    "sockets g = sockets (set_ready i CLOSED h)"
    using retry_step [OF assms(1-8)] by blast
  then have "length (sockets g) = length (sockets h)" by simp
  with g assms(9-12) show ?thesis
    by (simp add: connect_creates render_closure_def MAX_RECONNECT_ATTEMPTS_def Let_def)
qed


theorem retry_is_immediate_witness:
  "let h = hook_run (\<lambda>_. None) (useWebSocket ''ws://h'' (\<lambda>_. True) ''ABC123'' (Some ''p1'')) [Open 0];
       h' = hook_step (\<lambda>_. None) h (Close 0 1006)
   in reconnectTimeout h' = None \<and> ws h' = Some (length (sockets h)) \<and>
    length (sockets h') = length (sockets h) + 1 \<and>
    ready (last (sockets h')) = CONNECTING \<and> cl_attempts (made_in (last (sockets h'))) = 1 \<and>
    reconnectAttempts h' = 1"
  unfolding Let_def
  by (rule retry_is_immediate
      [where h = "hook_run (\<lambda>_. None) (useWebSocket ''ws://h'' (\<lambda>_. True) ''ABC123'' (Some ''p1'')) [Open 0]",
        unfolded Let_def])
    (simp_all add: hook_eval)

text \<open>A connection that opens while attempts have been counted is not kept: resetting the counter
  re-creates \<open>connect\<close>, so the same step closes the socket that has just opened and starts another
  one, and the hook nevertheless reports that it is connected.\<close>

theorem reopened_connection_is_dropped:
  assumes "mounted h" "installed h = render_closure h" "ws h = Some i"
    and "socket_in h i {CONNECTING}" "0 < reconnectAttempts h"
    and "6 \<le> length (hk_roomCode h)" "valid_player (hk_playerId h)"
    and "accepts_url h (ws_url (hk_baseUrl h) (render_closure (h\<lparr>reconnectAttempts := 0\<rparr>)))"
  shows "let h' = hook_step parse h (Open i) in ready (sockets h' ! i) = CLOSING \<and> ws h' = Some (length (sockets h)) \<and>
    ready (sockets h' ! length (sockets h)) = CONNECTING \<and> isConnected h' \<and>
    reconnectAttempts h' = 0"
proof -
  define h' where "h' = hook_step parse h (Open i)"
  define g where "g = on_open (set_ready i OPEN h)"
  have i: "i < length (sockets h)" using assms(4) by (simp add: socket_in_def)
  have g: "hook_handle parse h (Open i) = g"
    using assms(4) by (simp add: g_def)
  have closure: "render_closure (cleanup g) = render_closure (h\<lparr>reconnectAttempts := 0\<rparr>)"
    "reconnectAttempts g = 0" "mounted g" "installed g = render_closure h"
    "length (sockets g) = length (sockets h)" "accepts_url g = accepts_url h"
    "hk_baseUrl g = hk_baseUrl h" "isConnected g" "ready (sockets g ! i) = OPEN" "ws g = Some i"
    using assms(1-3) i by (simp_all add: g_def on_open_def render_closure_def set_ready_def)
  have h': "h' = run_effect (cleanup g)"
    using closure assms(2,5) unfolding h'_def hook_step_def g settle_def
    by (auto simp: render_closure_def)
  have "ready (sockets (cleanup g) ! i) = CLOSING"
    using closure i by (simp add: cleanup_def close_current_def close_socket_def set_ready_def)
  then show ?thesis
    using closure assms(6-8) i
    by (simp add: h' [unfolded h'_def] connect_creates render_closure_def
        MAX_RECONNECT_ATTEMPTS_def nth_append Let_def)
qed

theorem reopened_connection_is_dropped_witness:
  "let h = hook_run (\<lambda>_. None) (useWebSocket ''ws://h'' (\<lambda>_. True) ''ABC123'' (Some ''p1''))
         [Open 0, Close 0 1006];
       h' = hook_step (\<lambda>_. None) h (Open 1)
   in ready (sockets h' ! 1) = CLOSING \<and> ws h' = Some (length (sockets h)) \<and>
    ready (sockets h' ! length (sockets h)) = CONNECTING \<and> isConnected h' \<and>
    reconnectAttempts h' = 0"
  unfolding Let_def
  by (rule reopened_connection_is_dropped
      [where h = "hook_run (\<lambda>_. None) (useWebSocket ''ws://h'' (\<lambda>_. True) ''ABC123'' (Some ''p1''))
         [Open 0, Close 0 1006]", unfolded Let_def])
    (simp_all add: hook_eval)

text \<open>A hook whose \<open>n\<close>-th connection attempt in a row is under way, all earlier ones having failed.\<close>

definition retrying :: "nat \<Rightarrow> Hook \<Rightarrow> bool" where
  "retrying n h \<longleftrightarrow>
     mounted h \<and> installed h = render_closure h \<and> \<not> intentionalClose h \<and>
     reconnectTimeout h = None \<and> reconnectAttempts h = int n \<and> ws h = Some n \<and>
     length (sockets h) = n + 1 \<and> list_all (\<lambda>s. ready s = CLOSED) (take n (sockets h)) \<and>
     ready (sockets h ! n) = CONNECTING \<and> cl_attempts (made_in (sockets h ! n)) = int n \<and>
     6 \<le> length (hk_roomCode h) \<and> valid_player (hk_playerId h) \<and> accepts_url h = (\<lambda>_. True)"

definition gave_up :: "Hook \<Rightarrow> bool" where
  "gave_up h \<longleftrightarrow>
     mounted h \<and> installed h = render_closure h \<and> reconnectTimeout h = None \<and>
     list_all (\<lambda>s. ready s = CLOSED) (sockets h) \<and>
     connectionError h = Some ''Cannot retry the connection. Please reload the page.''"

fun network_event :: "hook_event \<Rightarrow> bool" where
  "network_event (SetPlayer p) = False"
| "network_event ManualReconnect = False"
| "network_event Unmount = False"
| "network_event _ = True"

lemma retrying_init:
  assumes "6 \<le> length room" "valid_player player"
  shows "retrying 0 (useWebSocket base (\<lambda>_. True) room player)"
  using assms
  by (auto simp: retrying_def useWebSocket_def run_effect_def connect_def render_closure_def
      MAX_RECONNECT_ATTEMPTS_def)

lemma close_current_closed: "ws h = Some i \<Longrightarrow> i < length (sockets h) \<Longrightarrow> ready (sockets h ! i) = CLOSED \<Longrightarrow> close_current h = h"
  by (simp add: close_current_def close_socket_def)

lemma retrying_close_sockets:
  assumes "retrying n h" "event_code \<noteq> 1008" "event_code \<noteq> 1003"
  obtains g where "hook_step parse h (Close n event_code) = run_effect (cleanup g)"
    "render_closure (cleanup g) = render_closure (h\<lparr>reconnectAttempts := int n + 1\<rparr>)"
    "reconnectAttempts g = int n + 1" "mounted g" "accepts_url g = (\<lambda>_. True)"
    "hk_roomCode g = hk_roomCode h" "hk_playerId g = hk_playerId h"
    "sockets (cleanup g) = sockets (set_ready n CLOSED h)" "ws g = Some n"
    "list_all (\<lambda>s. ready s = CLOSED) (sockets (cleanup g))" "length (sockets (cleanup g)) = n + 1"
proof -
  obtain g where g: "hook_step parse h (Close n event_code) = run_effect (cleanup g)"
    "render_closure (cleanup g) = render_closure (h\<lparr>reconnectAttempts := int n + 1\<rparr>)"
    "reconnectAttempts g = int n + 1" "mounted g" "accepts_url g = accepts_url h"
    "hk_roomCode g = hk_roomCode h" "hk_playerId g = hk_playerId h" "ws g = ws h"
    "sockets g = sockets (set_ready n CLOSED h)"
    using retry_step [of h n event_code "int n + 1" parse] assms
    by (auto simp: retrying_def socket_in_def)
  have n: "n < length (sockets h)" "ws g = Some n"
    using assms(1) g by (simp_all add: retrying_def)
  then have closed: "sockets (cleanup g) = sockets (set_ready n CLOSED h)"
    using g close_current_closed [of "g\<lparr>intentionalClose := True, reconnectTimeout := None\<rparr>" n]
    by (simp add: cleanup_def nth_set_ready)
  have "list_all (\<lambda>s. ready s = CLOSED) (sockets (set_ready n CLOSED h))"
    using assms(1) by (auto simp: retrying_def list_all_length nth_set_ready less_Suc_eq)
  then show thesis
    using that [of g] g n closed assms(1) by (simp add: retrying_def)
qed

lemma retrying_step:
  assumes "retrying n h" "n < 4" "event_code \<noteq> 1008" "event_code \<noteq> 1003"
  shows "retrying (n + 1) (hook_step parse h (Close n event_code))"
proof -
  obtain g where g: "hook_step parse h (Close n event_code) = run_effect (cleanup g)"
    "render_closure (cleanup g) = render_closure (h\<lparr>reconnectAttempts := int n + 1\<rparr>)"
    "reconnectAttempts g = int n + 1" "mounted g" "accepts_url g = (\<lambda>_. True)"
    "hk_roomCode g = hk_roomCode h" "hk_playerId g = hk_playerId h"
    "list_all (\<lambda>s. ready s = CLOSED) (sockets (cleanup g))" "length (sockets (cleanup g)) = n + 1"
    using retrying_close_sockets [OF assms(1,3,4)] by metis
  have c: "6 \<le> length (hk_roomCode h)" "valid_player (hk_playerId h)"
    using assms(1) by (simp_all add: retrying_def)
  have e: "run_effect (cleanup g) = (cleanup g)\<lparr>intentionalClose := False, ws := Some (n + 1),
      sockets := sockets (cleanup g) @ [\<lparr>made_in = render_closure (h\<lparr>reconnectAttempts := int n + 1\<rparr>),
        socket_url = ws_url (hk_baseUrl g) (render_closure (h\<lparr>reconnectAttempts := int n + 1\<rparr>)),
        ready = CONNECTING\<rparr>],
      installed := render_closure (h\<lparr>reconnectAttempts := int n + 1\<rparr>)\<rparr>"
    using g c assms(2) by (simp add: run_effect_def connect_creates render_closure_def MAX_RECONNECT_ATTEMPTS_def)
  show ?thesis
    using g c unfolding g(1) e by (simp add: retrying_def render_closure_def nth_append)
qed

lemma retrying_last:
  assumes "retrying 4 h" "event_code \<noteq> 1008" "event_code \<noteq> 1003"
  shows "gave_up (hook_step parse h (Close 4 event_code)) \<and>
    length (sockets (hook_step parse h (Close 4 event_code))) = 5"
proof -
  obtain g where g: "hook_step parse h (Close 4 event_code) = run_effect (cleanup g)"
    "render_closure (cleanup g) = render_closure (h\<lparr>reconnectAttempts := int 4 + 1\<rparr>)"
    "reconnectAttempts g = int 4 + 1" "mounted g"
    "hk_roomCode g = hk_roomCode h" "hk_playerId g = hk_playerId h"
    "list_all (\<lambda>s. ready s = CLOSED) (sockets (cleanup g))" "length (sockets (cleanup g)) = 4 + 1"
    using retrying_close_sockets [OF assms] by metis
  have c: "6 \<le> length (hk_roomCode h)" "valid_player (hk_playerId h)"
    using assms(1) by (simp_all add: retrying_def)
  have "run_effect (cleanup g) = (cleanup g)\<lparr>intentionalClose := False,
      connectionError := Some ''Cannot retry the connection. Please reload the page.'',
      installed := render_closure (h\<lparr>reconnectAttempts := 5\<rparr>)\<rparr>"
    using g c by (auto simp: run_effect_def connect_def render_closure_def MAX_RECONNECT_ATTEMPTS_def)
  then show ?thesis
    using g by (simp add: gave_up_def render_closure_def)
qed

lemma gave_up_stays: "gave_up h \<Longrightarrow> network_event e \<Longrightarrow> hook_step parse h e = h"
  by (cases e) (auto simp: gave_up_def socket_in_def list_all_length hook_step_def settle_def)

lemma gave_up_run: "gave_up h \<Longrightarrow> list_all network_event es \<Longrightarrow> hook_run parse h es = h"
  by (induction es) (simp_all add: gave_up_stays)

text \<open>C40: Against a server that refuses every connection the hook makes five connections in all, one
  directly after the other, then reports that it cannot retry, and no browser event revives it.\<close>

theorem unreachable_server_gives_up:
  assumes "6 \<le> length room" "valid_player player"
    and "list_all (\<lambda>c. c \<noteq> 1008 \<and> c \<noteq> 1003) [c0, c1, c2, c3, c4]"
    and "list_all network_event es"
  shows "let h = hook_run parse (useWebSocket base (\<lambda>_. True) room player)
              ([Close 0 c0, Close 1 c1, Close 2 c2, Close 3 c3, Close 4 c4] @ es)
    in length (sockets h) = 5 \<and> list_all (\<lambda>s. ready s = CLOSED) (sockets h) \<and>
       reconnectTimeout h = None \<and>
       connectionError h = Some ''Cannot retry the connection. Please reload the page.''"
proof -
  let ?h0 = "useWebSocket base (\<lambda>_. True) room player"
  have "retrying 0 ?h0" by (rule retrying_init [OF assms(1,2)])
  then have "retrying 1 (hook_run parse ?h0 [Close 0 c0])"
    using retrying_step [of 0] assms(3) by simp
  then have "retrying 2 (hook_run parse ?h0 [Close 0 c0, Close 1 c1])"
    using retrying_step [of 1] assms(3) by (simp add: numeral_2_eq_2)
  then have "retrying 3 (hook_run parse ?h0 [Close 0 c0, Close 1 c1, Close 2 c2])"
    using retrying_step [of 2] assms(3) by simp
  then have "retrying 4 (hook_run parse ?h0 [Close 0 c0, Close 1 c1, Close 2 c2, Close 3 c3])"
    using retrying_step [of 3] assms(3) by simp
  then have "gave_up (hook_run parse ?h0 [Close 0 c0, Close 1 c1, Close 2 c2, Close 3 c3, Close 4 c4]) \<and>
      length (sockets (hook_run parse ?h0 [Close 0 c0, Close 1 c1, Close 2 c2, Close 3 c3, Close 4 c4])) = 5"
    using retrying_last assms(3) by simp
  then show ?thesis
    using gave_up_run [OF _ assms(4)] unfolding run_append Let_def by (simp add: gave_up_def)
qed

theorem unreachable_server_gives_up_witness:
  "let h = hook_run (\<lambda>_. None) (useWebSocket ''ws://h'' (\<lambda>_. True) ''ABC123'' (Some ''p1''))
         ([Close 0 1006, Close 1 1006, Close 2 1006, Close 3 1006, Close 4 1006] @ [Open 4, TimerFires])
   in length (sockets h) = 5 \<and> list_all (\<lambda>s. ready s = CLOSED) (sockets h) \<and>
      reconnectTimeout h = None \<and>
      connectionError h = Some ''Cannot retry the connection. Please reload the page.''"
  by (rule unreachable_server_gives_up) (simp_all add: valid_player_def)

section \<open>Frames\<close>

lemma latest_append: "latest parse m (ls @ [l]) = (case parse l of Some x \<Rightarrow> Some x | None \<Rightarrow> latest parse m ls)"
  by (simp add: latest_def split: option.split)

lemma frame_keeps_last:
  assumes "socket_in h i {OPEN}"
  shows "lastMessage (hook_step parse h (Frame i f)) = latest parse (lastMessage h) (frame_lines f)"
proof -
  have "lastMessage (settle g) = lastMessage g" for g
    by (simp add: settle_def run_effect_def connect_def cleanup_def close_current_def
        close_socket_def set_ready_def split: option.splits)
  then show ?thesis
    using assms by (simp add: hook_step_def on_message_eq on_open_def Let_def)
qed

end
