(* ===== verification/Wire.thy ===== *)
theory Wire
  imports Json_Reading Json_Text Web_Socket
begin

text \<open>
  The contract between the two programs: what the client reads in the JSON that the server writes.
  A codec is an encoder with a reader and the value that arrives; the codecs of the data are
  interpretations, and a list of values, a needed and an optional property of an object are codecs
  again. On the text of a frame, the client's lines are the server's messages.
\<close>

named_theorems arrives_simps \<open>reading what has been written\<close>

section \<open>Codecs\<close>

locale codec =
  fixes enc :: "'a \<Rightarrow> Json"
    and dec :: "Json \<Rightarrow> 'b option"
    and arrives :: "'a \<Rightarrow> 'b"
  assumes dec_enc: "dec (enc x) = Some (arrives x)"
begin

lemma list_enc: "read_list dec (JArr (map enc xs)) = Some (map arrives xs)"
proof -
  have "those (map dec (map enc xs)) = Some (map arrives xs)"
    by (induction xs) (simp_all add: dec_enc)
  then show ?thesis by (simp add: read_list_def)
qed

lemma if_list_enc: "if_list dec (Some (JArr (map enc xs))) = Some (map arrives xs)"
  by (simp add: if_list_def list_enc)

lemma if_list_slice: "if_list dec (Some (go_slice enc xs)) = Some (map arrives xs)"
  by (simp add: if_list_def go_slice_def list_enc)

lemmas codec_simps = dec_enc list_enc if_list_enc if_list_slice

end

text \<open>A codec of values that are never written as \<open>null\<close> or an empty text.\<close>

locale solid_codec = codec +
  assumes solid: "enc x \<noteq> JNull" "enc x \<noteq> JStr ''''"
begin

lemma given: "if_given dec (Some (enc x)) = Some (Some (arrives x))"
  by (simp add: if_given_def solid dec_enc)

lemma given_option: "if_given dec (map_option enc x) = Some (map_option arrives x)"
  by (cases x) (simp_all add: given, simp add: if_given_def)

lemma given_or_null: "if_given dec (Some (or_null enc x)) = Some (map_option arrives x)"
  by (cases x) (simp_all add: or_null_def given, simp add: if_given_def)

lemmas solid_simps = given given_option given_or_null

end

section \<open>Properties of an object that Go writes\<close>

lemma js_prop_obj [arrives_simps]: "js_prop k (go_object fs) = map_of (present fs) k"
  by (simp add: js_prop_def go_object_def)

lemma js_prop_JObj [arrives_simps]: "js_prop k (JObj fs) = map_of fs k"
  by (simp add: js_prop_def)

text \<open>The first of two optional values; written so that a property is found by rewriting.\<close>

definition first_of :: "'a option \<Rightarrow> 'a option \<Rightarrow> 'a option" where
  "first_of v w = (case v of None \<Rightarrow> w | Some j \<Rightarrow> Some j)"

lemma first_of_simps [arrives_simps]: "first_of (Some j) w = Some j" "first_of v None = v"
  by (simp_all add: first_of_def split: option.split)

lemma present_step [arrives_simps]:
  "map_of (present ((k', v) # fs)) k = (if k = k' then first_of v (map_of (present fs) k) else map_of (present fs) k)"
  by (simp add: first_of_def split: option.split)

lemma present_nil [arrives_simps]: "map_of (present []) k = None"
  by simp

declare present.simps [simp del]

lemma go_object_solid [simp]: "go_object fs \<noteq> JNull" "go_object fs \<noteq> JStr s"
  by (simp_all add: go_object_def)

lemma read_basic [arrives_simps]: "read_str (JStr s) = Some s" "read_int (JNum n) = Some n" "read_bool (JBool b) = Some b"
  by (simp_all add: read_str_def read_int_def read_bool_def)

lemmas reader_defs [arrives_simps] = field_def maybe_def flag_def text_at_def items_def

lemma if_given_none [arrives_simps]: "if_given f None = Some None" "if_given f (Some JNull) = Some None"
  "if_given f (Some (JStr '''')) = Some None"
  by (simp_all add: if_given_def)

lemma if_list_none [arrives_simps]: "if_list f None = Some []" "if_list f (Some JNull) = Some []"
  by (simp_all add: if_list_def)

interpretation texts: codec JStr read_str "\<lambda>s. s"
  by unfold_locales (simp add: read_str_def)

interpretation numbers: solid_codec JNum read_int "\<lambda>n. n"
  by unfold_locales (simp_all add: read_int_def)

lemma go_color_texts [simp]: "go_team t \<noteq> ''''" "go_room_color c \<noteq> ''''"
  by (simp_all add: go_team_def go_room_color_def split: TeamColor.split RoomColor.split)

interpretation teams: solid_codec "\<lambda>t. JStr (go_team t)" "read_lit team_lits" "\<lambda>t. t"
proof unfold_locales
  show "read_lit team_lits (JStr (go_team t)) = Some t" for t
    by (cases t) (simp_all add: read_lit_def read_str_def team_lits_def go_team_def)
qed simp_all

interpretation colors: solid_codec "\<lambda>c. JStr (go_room_color c)" "read_lit room_lits" "\<lambda>c. c"
proof unfold_locales
  show "read_lit room_lits (JStr (go_room_color c)) = Some c" for c
    by (cases c) (simp_all add: read_lit_def read_str_def room_lits_def go_room_color_def)
qed simp_all

interpretation statuses: codec "\<lambda>st. JStr (room_status_str st)" "read_lit status_lits" "\<lambda>st. st"
proof unfold_locales
  show "read_lit status_lits (JStr (room_status_str st)) = Some st" for st
    by (cases st) (simp_all add: read_lit_def read_str_def status_lits_def room_status_str_def)
qed

interpretation rounds: codec "\<lambda>st. JStr (go_round_status st)" "read_lit round_lits" "\<lambda>st. st"
proof unfold_locales
  show "read_lit round_lits (JStr (go_round_status st)) = Some st" for st
    by (cases st) (simp_all add: read_lit_def read_str_def round_lits_def go_round_status_def)
qed

interpretation results: codec "\<lambda>r. JStr (go_result r)" "read_lit result_lits" "\<lambda>r. r"
proof unfold_locales
  show "read_lit result_lits (JStr (go_result r)) = Some r" for r
    by (cases r) (simp_all add: read_lit_def read_str_def result_lits_def go_result_def)
qed

interpretation reasons: codec "\<lambda>r. JStr (go_reason r)" "read_lit reason_lits" "\<lambda>r. r"
proof unfold_locales
  show "read_lit reason_lits (JStr (go_reason r)) = Some r" for r
    by (cases r) (simp_all add: read_lit_def read_str_def reason_lits_def go_reason_def)
qed

text \<open>What arrives of an optional text; a colour that is not set is none.\<close>

definition page_text :: "string \<Rightarrow> string option" where
  "page_text s = (if s = '''' then None else Some s)"

lemma given_text [arrives_simps]: "if_given read_str (omit_empty s) = Some (page_text s)"
  by (simp add: if_given_def omit_empty_def page_text_def read_str_def)

lemma given_team [arrives_simps]: "if_given (read_lit team_lits) (Some (JStr (opt_text go_team t))) = Some t"
  by (cases t) (simp_all add: opt_text_def if_given_none(3) teams.given)

lemma given_color [arrives_simps]: "if_given (read_lit room_lits) (Some (JStr (opt_text go_room_color c))) = Some c"
  by (cases c) (simp_all add: opt_text_def if_given_none(3) colors.given)

lemmas basic_codecs [arrives_simps] = texts.codec_simps numbers.solid_simps teams.dec_enc colors.dec_enc
  statuses.dec_enc rounds.dec_enc results.dec_enc reasons.dec_enc

section \<open>The data\<close>

definition page_role :: "Go_Role \<Rightarrow> Role" where
  "page_role r =
     \<lparr>role_id = gro_id r, role_name = gro_name r, role_nameKo = page_text (gro_nameKo r),
      role_description = gro_description r, role_descriptionKo = page_text (gro_descriptionKo r),
      role_team = gro_team r, role_icon = page_text (gro_icon r), isSpy = gro_isSpy r, role_isLeader = gro_isLeader r\<rparr>"

definition page_player :: "Go_Player \<Rightarrow> Player" where
  "page_player p =
     \<lparr>player_id = gp_id p, nickname = gp_nickname p, isAnonymous = gp_isAnonymous p, player_roomCode = gp_roomCode p,
      isOwner = gp_isOwner p, player_role = map_option page_role (gp_role p), player_team = gp_team p,
      player_currentRoom = gp_room p, connectedAt = gp_connectedAt p\<rparr>"

text \<open>The client treats the time of an end that is empty as none.\<close>

definition page_round :: "RoundState \<Rightarrow> RoundState" where
  "page_round r = r\<lparr>rs_endedAt := Option.bind (rs_endedAt r) page_text\<rparr>"

definition page_session :: "Go_Session \<Rightarrow> GameSession" where
  "page_session g =
     \<lparr>session_id = gs_id g, session_roomCode = gs_roomCode g, redTeam = [], blueTeam = [], session_redRoomPlayers = [],
      session_blueRoomPlayers = [], roundState = map_option page_round (gs_roundState g), session_startedAt = gs_startedAt g\<rparr>"

definition page_room :: "Go_Room \<Rightarrow> Room" where
  "page_room r =
     \<lparr>code = gr_code r, status = gr_status r, players = map page_player (gr_players r), maxPlayers = gr_maxPlayers r,
      roleConfigId = page_text (gr_roleConfigId r),
      selectedRoles = (if gr_selectedRoles r = [] then None else Some (gr_selectedRoles r)),
      gameSession = map_option page_session (gr_session r), room_createdAt = gr_createdAt r,
      room_updatedAt = gr_updatedAt r\<rparr>"

interpretation roles: solid_codec json_role read_role page_role
  by unfold_locales (simp_all add: read_role_def json_role_def page_role_def arrives_simps)

lemmas role_codec [arrives_simps] = roles.solid_simps roles.dec_enc

interpretation players: solid_codec json_player read_player page_player
  by unfold_locales (simp_all add: read_player_def json_player_def page_player_def arrives_simps)

lemmas player_codec [arrives_simps] = players.codec_simps players.given

interpretation round_states: solid_codec json_round read_round_state page_round
proof unfold_locales
  have e: "if_given read_str (map_option JStr x) =
      Some (Option.bind x page_text)" for x
    by (cases x) (simp_all add: if_given_def read_str_def page_text_def)
  show "read_round_state (json_round r) = Some (page_round r)" for r
    by (simp add: read_round_state_def json_round_def page_round_def e arrives_simps)
qed (simp_all add: json_round_def)

lemmas round_codec [arrives_simps] = round_states.solid_simps

interpretation sessions: solid_codec json_session read_session page_session
  by unfold_locales (simp_all add: read_session_def json_session_def page_session_def arrives_simps)

lemmas session_codec [arrives_simps] = sessions.solid_simps sessions.dec_enc

interpretation counts: solid_codec "\<lambda>m. JObj (map (\<lambda>(k, n). (k, JNum n)) m)" read_counts "\<lambda>m. m"
proof unfold_locales
  show "read_counts (JObj (map (\<lambda>(k, n). (k, JNum n)) m)) = Some m" for m
    by (induction m) (auto simp: read_counts_def read_int_def)
qed simp_all

lemma given_counts [arrives_simps]:
  "if_given read_counts (if m = [] then None else Some (JObj (map (\<lambda>(k, n). (k, JNum n)) m))) =
     Some (if m = [] then None else Some m)"
  by (simp add: if_given_none counts.given)

interpretation game_rooms: codec json_room read_room page_room
  by unfold_locales (simp add: read_room_def json_room_def page_room_def arrives_simps)

interpretation leaders: solid_codec json_leader read_leader "\<lambda>l. l"
  by unfold_locales (simp_all add: read_leader_def json_leader_def arrives_simps)

lemmas leader_codec [arrives_simps] = leaders.solid_simps [unfolded option.map_ident]

text \<open>Of a player who is announced as a hostage the client reads what it reads of a leader.\<close>

definition hostage_info :: "Go_Player \<Rightarrow> LeaderInfo" where
  "hostage_info p = \<lparr>leader_id = gp_id p, leader_nickname = gp_nickname p\<rparr>"

interpretation hostages: codec json_player read_leader hostage_info
  by unfold_locales (simp add: read_leader_def json_player_def hostage_info_def arrives_simps)

interpretation exchange_records: codec json_exchange read_exchange "\<lambda>x. x"
  by unfold_locales (simp add: read_exchange_def json_exchange_def arrives_simps)

section \<open>The messages\<close>

text \<open>A player reported by the socket's handler has an identifier and a name only.\<close>

definition seen_player :: "string \<times> string \<Rightarrow> Player" where
  "seen_player x =
     \<lparr>player_id = fst x, nickname = snd x, isAnonymous = False, player_roomCode = '''', isOwner = False,
      player_role = None, player_team = None, player_currentRoom = None, connectedAt = ''''\<rparr>"

definition page_vote_started :: "Go_Vote_Started \<Rightarrow> VoteSessionStartedPayload" where
  "page_vote_started v =
     \<lparr>vss_voteId = gvs_voteId v, vss_roomColor = gvs_room v, vss_targetLeader = Some (gvs_target v),
      vss_initiator = Some (gvs_initiator v),
      vss_candidates = (if gvs_candidates v = [] then None else Some (gvs_candidates v)),
      vss_totalVoters = gvs_totalVoters v, vss_timeoutSeconds = gvs_timeoutSeconds v, vss_startedAt = gvs_startedAt v\<rparr>"

text \<open>
  The client asks for \<open>voteID\<close>, \<open>totalVoters\<close>, \<open>newLeaderId\<close> and \<open>newLeaderName\<close>, which the server does
  not write: it has \<open>voteId\<close> and an object \<open>newLeader\<close>.
\<close>

definition page_vote_completed :: "Go_Vote_Completed \<Rightarrow> VoteResultPayload" where
  "page_vote_completed v =
     \<lparr>vr_voteID = None, vr_result = gvc_result v, yesVotes = gvc_yes v, noVotes = gvc_no v, vr_totalVoters = None,
      newLeaderId = None, newLeaderName = None\<rparr>"

definition page_message :: "Server_Message \<Rightarrow> WSMessage" where
  "page_message m =
     (case m of
        S_Connected _ \<Rightarrow> UNLISTED (json_message m)
      | S_PlayerSeen _ p \<Rightarrow> PLAYER_JOINED (map_option seen_player p)
      | S_PlayerJoined p \<Rightarrow> PLAYER_JOINED (Some (page_player p))
      | S_PlayerLeft i \<Rightarrow> PLAYER_LEFT i
      | S_PlayerDisconnected i \<Rightarrow> PLAYER_DISCONNECTED i
      | S_NicknameChanged i n \<Rightarrow> NICKNAME_CHANGED i n
      | S_RoomClosed _ \<Rightarrow> UNLISTED (json_message m)
      | S_GameStarted g \<Rightarrow> GAME_STARTED (page_session g)
      | S_RoleAssigned r t c \<Rightarrow> ROLE_ASSIGNED \<lparr>ra_role = page_role r, ra_team = t, ra_currentRoom = c\<rparr>
      | S_GameReset r \<Rightarrow> GAME_RESET (page_room r)
      | S_RoundStarted p \<Rightarrow> ROUND_STARTED p
      | S_TimerTick n t \<Rightarrow> TIMER_TICK n t
      | S_RoundEnding n h \<Rightarrow> ROUND_ENDING n h
      | S_LeaderReady c i b \<Rightarrow> LEADER_READY c i b
      | S_GameRevealing w \<Rightarrow> GAME_REVEALING w
      | S_LeadershipChanged p \<Rightarrow> LEADERSHIP_CHANGED (Some p)
      | S_VoteStarted v \<Rightarrow> VOTE_SESSION_STARTED (page_vote_started v)
      | S_VoteProgress _ k n t \<Rightarrow>
          VOTE_PROGRESS \<lparr>vp_voteID = None, vp_votedCount = k, vp_totalVoters = n, vp_timeRemaining = t\<rparr>
      | S_VoteCompleted v \<Rightarrow> VOTE_COMPLETED (page_vote_completed v)
      | S_HostagesAnnounced c ps w \<Rightarrow> LEADER_ANNOUNCED_HOSTAGES c (map hostage_info ps) w
      | S_ExchangeReady _ _ _ \<Rightarrow> UNLISTED (json_message m)
      | S_ExchangeComplete n xs k \<Rightarrow>
          EXCHANGE_COMPLETE \<lparr>ec_roundNumber = n, exchanges = xs, nextRound = (if k = 0 then None else Some k)\<rparr>)"

lemma read_message_step:
  "read_message (json_message m) =
     (case map_of readers (message_type m) of None \<Rightarrow> Some (UNLISTED (json_message m)) | Some r \<Rightarrow> r (message_payload m))"
  by (simp add: read_message_def json_message_def arrives_simps split: option.split)

lemma given_candidates [arrives_simps]:
  "if_given (read_list read_str) (if cs = [] then None else Some (JArr (map JStr cs))) =
     Some (if cs = [] then None else Some cs)"
  by (simp add: if_given_def texts.list_enc)

lemma given_number [arrives_simps]:
  "if_given read_int (if k = 0 then None else Some (JNum k)) = Some (if k = 0 then None else Some k)"
  by (simp add: if_given_none numbers.given)

lemma given_seen [arrives_simps]:
  "if_given read_player (map_option (\<lambda>(i, n). go_object [(''id'', Some (JStr i)), (''nickname'', Some (JStr n))]) p) =
     Some (map_option seen_player p)"
  by (cases p) (auto simp: if_given_def read_player_def seen_player_def arrives_simps)

lemma message_arrives:
  "read_message (json_message m) =
     (case m of S_ExchangeComplete _ [] _ \<Rightarrow> None | _ \<Rightarrow> Some (page_message m))"
  by (cases m)
    (simp_all add: read_message_step message_type_def message_payload_def page_message_def readers_def
    read_role_assigned_def read_round_started_def read_vote_started_def page_vote_started_def json_vote_started_def
    read_vote_progress_def read_vote_result_def page_vote_completed_def json_vote_completed_def
    read_exchange_complete_def roles.dec_enc sessions.dec_enc game_rooms.dec_enc
    exchange_records.list_enc go_slice_def hostages.if_list_enc read_list_def [of _ JNull] arrives_simps read_leadership_changed_def split: list.split)

text \<open>C26: Every message that the server sends reaches the client as a message of the same type with the
  same data, except that the announcements of a connection, of a closed room and of a coming exchange
  have no case in the client, that an exchange of nobody cannot be read, and that of a vote the client
  never learns the identifier in its progress and its result, nor the leader that was elected.\<close>

theorem messages_arrive:
  "read_message (json_message m) =
     (case m of S_ExchangeComplete _ [] _ \<Rightarrow> None | _ \<Rightarrow> Some (page_message m))"
  by (rule message_arrives)

section \<open>Frames\<close>

text \<open>The text of a value contains no line feed, and that of a message begins and ends with a brace.\<close>

lemma hex_digit_visible: "n < 16 \<Longrightarrow> hex_digit n \<noteq> CHR 0x0A"
proof -
  assume "n < 16"
  then have "hex_digit n \<in> set ''0123456789abcdef''"
    unfolding hex_digit_def by (intro nth_mem) simp
  then show ?thesis by auto
qed

lemma escape_visible: "CHR 0x0A \<notin> set (go_escape c)"
proof -
  have "(of_char c :: nat) div 16 < 16" "(of_char c :: nat) mod 16 < 16"
    using nat_of_char_less_256 [of c] by (simp_all del: nat_of_char_less_256)
  then show ?thesis
    using hex_digit_visible by (auto simp: go_escape_def dest: sym)
qed

lemma quote_visible: "CHR 0x0A \<notin> set (go_quote s)"
  using escape_visible by (auto simp: go_quote_def)

lemma nat_str_visible: "CHR 0x0A \<notin> set (nat_str n)"
proof (induction n rule: nat_str.induct)
  case (1 n)
  have "digit k \<noteq> CHR 0x0A" if "k < 10" for k
  proof -
    have "digit k \<in> set ''0123456789''" unfolding digit_def using that by (intro nth_mem) simp
    then show ?thesis by auto
  qed
  with 1 show ?case by (cases "n < 10") (auto simp: nat_str.simps [of n] dest: sym)
qed

lemma commas_visible: "list_all (\<lambda>x. CHR 0x0A \<notin> set x) xs \<Longrightarrow> CHR 0x0A \<notin> set (commas xs)"
  by (induction xs rule: commas.induct) auto

lemma go_text_visible: "CHR 0x0A \<notin> set (go_text j)"
proof (induction j rule: go_text.induct)
  case (3 n)
  show ?case by (simp add: int_str_def nat_str_visible)
next
  case (4 s)
  show ?case by (simp add: quote_visible)
next
  case (5 js)
  then show ?case by (auto simp: list_all_iff intro!: commas_visible)
next
  case (6 fs)
  then have "list_all (\<lambda>x. CHR 0x0A \<notin> set x) (map (\<lambda>f. go_quote (fst f) @ '':'' @ go_text (snd f)) fs)"
    by (simp add: list_all_iff quote_visible)
  then show ?case using commas_visible by simp
qed simp_all

definition braced :: "string \<Rightarrow> bool" where
  "braced s \<longleftrightarrow> (\<exists>x. s = CHR ''{'' # x @ ''}'')"

lemma message_text_braced: "braced (message_text m)"
  by (simp add: braced_def message_text_def json_message_def)

lemma trim_braced: "braced s \<Longrightarrow> trim s = s"
  by (auto simp: braced_def trim_def is_space_def)

lemma split_lines_single: "newline \<notin> set s \<Longrightarrow> split_lines s = [s]"
  by (induction s) auto

lemma split_lines_append: "newline \<notin> set s \<Longrightarrow> split_lines (s @ newline # t) = s # split_lines t"
  by (induction s) auto

lemma newline_char: "newline = CHR 0x0A"
  by (simp add: newline_def char_of_eq_iff)

lemma split_frame:
  "list_all (\<lambda>s. newline \<notin> set s) (m # qs) \<Longrightarrow> split_lines (write_frame m qs) = m # qs"
proof (induction qs arbitrary: m)
  case Nil
  then show ?case by (simp add: write_frame_def split_lines_single)
next
  case (Cons q qs)
  have "write_frame m (q # qs) = m @ newline # write_frame q qs"
    by (simp add: write_frame_def newline_char)
  with Cons show ?case by (simp add: split_lines_append)
qed

lemma frame_braced: "list_all braced (m # qs) \<Longrightarrow> braced (write_frame m qs)"
proof (cases qs rule: rev_cases)
  case (snoc ys y)
  assume "list_all braced (m # qs)"
  then obtain a b where "m = CHR ''{'' # a @ ''}''" "y = CHR ''{'' # b @ ''}''" using snoc by (auto simp: braced_def)
  then show ?thesis using snoc by (simp add: braced_def write_frame_def)
qed (simp add: write_frame_def)

lemma lines_of_frame:
  "frame_lines (write_frame (message_text m) (map message_text qs)) = map message_text (m # qs)"
proof -
  let ?ts = "map message_text (m # qs)"
  have "list_all braced ?ts" by (simp add: list_all_iff message_text_braced)
  then have t: "trim (write_frame (message_text m) (map message_text qs)) = write_frame (message_text m) (map message_text qs)"
    using frame_braced trim_braced by simp
  have n: "list_all (\<lambda>s. newline \<notin> set s) ?ts" by (simp add: list_all_iff message_text_def newline_char go_text_visible)
  have "trim (message_text x) \<noteq> ''''" for x
    using message_text_braced [of x] by (auto simp: trim_braced braced_def)
  then have "filter (\<lambda>l. trim l \<noteq> '''') ?ts = ?ts" by (intro filter_True) auto
  with n show ?thesis by (simp add: frame_lines_def t split_frame)
qed

section \<open>From text to message\<close>

lemma unique_object: "unique_keys (go_object fs) \<longleftrightarrow> distinct (map fst (present fs)) \<and> list_all (\<lambda>f. unique_keys (snd f)) (present fs)"
  by (simp add: go_object_def)

lemma present_keys: "set (map fst (present fs)) \<subseteq> set (map fst fs)"
  by (induction fs rule: present.induct) (auto simp: present.simps split: option.splits)

lemma present_distinct: "distinct (map fst fs) \<Longrightarrow> distinct (map fst (present fs))"
proof (induction fs rule: present.induct)
  case (2 k v fs)
  then show ?case using present_keys [of fs] by (auto simp: present.simps split: option.split)
qed (simp add: present.simps)

lemma present_all: "list_all (\<lambda>f. P (snd f)) (present fs) \<longleftrightarrow> list_all (\<lambda>f. pred_option P (snd f)) fs"
  by (induction fs rule: present.induct) (auto simp: present.simps split: option.split)

lemma unique_go_object:
  "distinct (map fst fs) \<Longrightarrow> list_all (\<lambda>f. pred_option unique_keys (snd f)) fs \<Longrightarrow> unique_keys (go_object fs)"
  by (simp only: unique_object present_distinct present_all)

lemma unique_parts [simp]: "pred_option unique_keys (omit_empty s)" "unique_keys (or_null f x) \<longleftrightarrow> pred_option (\<lambda>y. unique_keys (f y)) x"
  "unique_keys (go_slice f xs) \<longleftrightarrow> list_all (\<lambda>x. unique_keys (f x)) xs"
  "pred_option unique_keys (map_option f x) \<longleftrightarrow> pred_option (\<lambda>y. unique_keys (f y)) x"
  by (cases x; simp add: omit_empty_def or_null_def go_slice_def list_all_iff)+

lemma pred_option_True [simp]: "pred_option (\<lambda>y. True) x"
  by (cases x) simp_all

lemma unique_data [simp]: "unique_keys (json_role ro)" "unique_keys (json_player p)" "unique_keys (json_leader l)" "unique_keys (json_exchange x)"
  "unique_keys (json_round rs)" "unique_keys (json_session g)" "unique_keys (json_vote_started v)" "unique_keys (json_vote_completed c)"
proof -
  show r: "unique_keys (json_role ro)" for ro unfolding json_role_def by (rule unique_go_object) simp_all
  show p: "unique_keys (json_player p)" for p unfolding json_player_def by (rule unique_go_object) (simp_all add: r)
  show l: "unique_keys (json_leader l)" for l unfolding json_leader_def by (rule unique_go_object) simp_all
  show "unique_keys (json_exchange x)" unfolding json_exchange_def by (rule unique_go_object) simp_all
  show rs: "unique_keys (json_round rs)" for rs unfolding json_round_def by (rule unique_go_object) (simp_all add: list_all_iff)
  show "unique_keys (json_session g)" unfolding json_session_def by (rule unique_go_object) (simp_all add: rs)
  show "unique_keys (json_vote_started v)" unfolding json_vote_started_def by (rule unique_go_object) (simp_all add: l list_all_iff)
  show "unique_keys (json_vote_completed c)" unfolding json_vote_completed_def by (rule unique_go_object) (simp_all add: l)
qed

lemma unique_room: "distinct (map fst (gr_selectedRoles r)) \<Longrightarrow> unique_keys (json_room r)"
  unfolding json_room_def by (rule unique_go_object) (auto simp: list_all_iff comp_def case_prod_beta)

text \<open>
  A message that the client can read: an exchange has players, and the counts of a room, which are a
  map of Go, have one entry for a role.
\<close>

definition deliverable :: "Server_Message \<Rightarrow> bool" where
  "deliverable m \<longleftrightarrow>
     (case m of
        S_ExchangeComplete _ xs _ \<Rightarrow> xs \<noteq> []
      | S_GameReset r \<Rightarrow> distinct (map fst (gr_selectedRoles r))
      | _ \<Rightarrow> True)"

lemma unique_message:
  assumes "deliverable m"
  shows "unique_keys (json_message m)"
proof -
  have "unique_keys (message_payload m)"
    using assms
    by (cases m) (auto simp: message_payload_def deliverable_def unique_room list_all_iff option.pred_set intro!: unique_go_object)
  then show ?thesis by (simp add: json_message_def)
qed

text \<open>\<open>JSON.parse\<close> of a line, read as a message.\<close>

definition ws_parse :: "string \<Rightarrow> WSMessage option" where
  "ws_parse line = Option.bind (json_parse line) read_message"

lemma parse_message: "deliverable m \<Longrightarrow> ws_parse (message_text m) = Some (page_message m)"
  by (auto simp: ws_parse_def message_text_def text_read unique_message message_arrives deliverable_def
      split: Server_Message.splits list.splits)

lemma parse_messages: "list_all deliverable ms \<Longrightarrow> List.map_filter ws_parse (map message_text ms) = map page_message ms"
  by (induction ms) (simp_all add: List.map_filter_simps parse_message)

text \<open>C22: The text of a message arrives: \<open>JSON.parse\<close> reads what the server has written, byte for byte and
  whatever the nicknames in it contain, as the message that was sent.\<close>

theorem texts_arrive:
  "deliverable m \<Longrightarrow> ws_parse (message_text m) = Some (page_message m)"
  by (rule parse_message)

theorem texts_arrive_witness:
  "ws_parse (message_text (S_NicknameChanged ''a'' ''<\"}{\"> & Ann'')) =
     Some (page_message (S_NicknameChanged ''a'' ''<\"}{\"> & Ann''))"
  by (rule texts_arrive) (simp add: deliverable_def)

end
