(* ===== verification/Server_Roles.thy ===== *)
theory Server_Roles
  imports Server_Messages "HOL-Library.Multiset"
begin

text \<open>
  How the server deals teams, roles and rooms: the pure part of
  \<open>backend/internal/services/game_service.go\<close>, with the role configurations of
  \<open>backend/internal/config\<close>. Go's slices of pointers to players are lists of positions in the room's
  list of players; a loop that writes through the pointers updates the list at these positions. The
  numbers that \<open>math/rand\<close> draws are given from outside.
\<close>

section \<open>Shuffling\<close>

definition swap :: "nat \<Rightarrow> nat \<Rightarrow> 'a list \<Rightarrow> 'a list" where
  "swap i j xs = xs[i := xs ! j, j := xs ! i]"

text \<open>\<open>rand.Shuffle\<close>: from the last position down, an exchange with a position that is not behind it.\<close>

fun shuffle_from :: "nat \<Rightarrow> nat list \<Rightarrow> 'a list \<Rightarrow> 'a list" where
  "shuffle_from (Suc i) (r # rs) xs = shuffle_from i rs (swap (Suc i) (r mod (Suc i + 1)) xs)"
| "shuffle_from _ _ xs = xs"

definition shuffle :: "nat list \<Rightarrow> 'a list \<Rightarrow> 'a list" where
  "shuffle rs xs = shuffle_from (length xs - 1) rs xs"

lemma length_swap [simp]: "length (swap i j xs) = length xs"
  by (simp add: swap_def)

lemma mset_swap_at: "i < length xs \<Longrightarrow> j < length xs \<Longrightarrow> mset (swap i j xs) = mset xs"
  by (simp add: swap_def mset_swap)

lemma mset_shuffle_from: "i < length xs \<Longrightarrow> mset (shuffle_from i rs xs) = mset xs"
proof (induction i rs xs rule: shuffle_from.induct)
  case (1 i r rs xs)
  have "r mod (Suc i + 1) < Suc i + 1" by (rule mod_less_divisor) simp
  then have "mset (swap (Suc i) (r mod (Suc i + 1)) xs) = mset xs" using 1(2) by (intro mset_swap_at) linarith+
  with 1 show ?case by simp
qed simp_all

lemma mset_shuffle [simp]: "mset (shuffle rs xs) = mset xs"
  by (cases xs) (simp_all add: shuffle_def mset_shuffle_from)

lemma length_shuffle [simp]: "length (shuffle rs xs) = length xs"
  by (metis mset_shuffle size_mset)

lemma set_shuffle [simp]: "set (shuffle rs xs) = set xs"
  by (metis mset_shuffle set_mset_mset)

lemma distinct_shuffle [simp]: "distinct (shuffle rs xs) = distinct xs"
  by (metis mset_shuffle mset_eq_imp_distinct_iff)

section \<open>Writing through pointers\<close>

text \<open>\<open>for k, player := range order { ... }\<close>, where the body changes the player by its place in the order.\<close>

definition write_each :: "nat list \<Rightarrow> (nat \<Rightarrow> 'a \<Rightarrow> 'a) \<Rightarrow> 'a list \<Rightarrow> 'a list" where
  "write_each order f ps = foldl (\<lambda>ps (k, i). ps[i := f k (ps ! i)]) ps (enumerate 0 order)"

lemma write_each_snoc:
  "write_each (order @ [i]) f ps = (let qs = write_each order f ps in qs[i := f (length order) (qs ! i)])"
  by (simp add: write_each_def enumerate_append_eq Let_def)

lemma write_each_Nil [simp]: "write_each [] f ps = ps"
  by (simp add: write_each_def)

lemma length_write_each [simp]: "length (write_each order f ps) = length ps"
  by (induction order rule: rev_induct) (simp_all add: write_each_snoc Let_def)

lemma write_each_other: "i \<notin> set order \<Longrightarrow> write_each order f ps ! i = ps ! i"
  by (induction order rule: rev_induct) (auto simp: write_each_snoc Let_def nth_list_update_neq)

lemma write_each_nth:
  assumes "distinct order" "set order \<subseteq> {..<length ps}" "k < length order"
  shows "write_each order f ps ! (order ! k) = f k (ps ! (order ! k))"
  using assms
proof (induction order rule: rev_induct)
  case (snoc i order)
  show ?case
  proof (cases "k < length order")
    case True
    then have "order ! k \<noteq> i" using snoc.prems(1) by (auto simp: in_set_conv_nth)
    then show ?thesis using snoc True by (simp add: write_each_snoc Let_def nth_append nth_list_update_neq)
  next
    case False
    then have "k = length order" using snoc.prems(3) by simp
    then show ?thesis using snoc.prems by (simp add: write_each_snoc Let_def nth_append write_each_other)
  qed
qed simp

text \<open>What a full pass leaves, as a multiset.\<close>

lemma write_each_mset:
  assumes "distinct order" "set order = {..<length ps}"
  shows "mset (write_each order f ps) = mset (map (\<lambda>k. f k (ps ! (order ! k))) [0..<length ps])"
proof -
  have l: "length order = length ps" using assms distinct_card [of order] by simp
  have "mset order = mset [0..<length ps]"
    using assms by (intro set_eq_iff_mset_eq_distinct [THEN iffD1]) auto
  then have "mset (map ((!) (write_each order f ps)) order) = mset (map ((!) (write_each order f ps)) [0..<length ps])"
    by (metis mset_map)
  moreover have "map ((!) (write_each order f ps)) [0..<length ps] = write_each order f ps"
    using map_nth [of "write_each order f ps"] by simp
  moreover have "map ((!) (write_each order f ps)) order = map (\<lambda>k. f k (ps ! (order ! k))) [0..<length ps]"
    using assms by (intro nth_equalityI) (simp_all add: l write_each_nth)
  ultimately show ?thesis by metis
qed

section \<open>Roles and configurations\<close>

definition RolePresident :: Go_Role where
  "RolePresident =
     \<lparr>gro_id = ''PRESIDENT'', gro_name = ''President'', gro_nameKo = '''',
      gro_description = ''The leader of the blue team. To win, the president must not be in the room of the bomber.'',
      gro_descriptionKo = '''', gro_team = BLUE, gro_icon = '''', gro_isSpy = False, gro_isLeader = True\<rparr>"

definition RoleBomber :: Go_Role where
  "RoleBomber =
     \<lparr>gro_id = ''BOMBER'', gro_name = ''Bomber'', gro_nameKo = '''',
      gro_description = ''The leader of the red team. To win, the bomber must be in the room of the president.'',
      gro_descriptionKo = '''', gro_team = RED, gro_icon = '''', gro_isSpy = False, gro_isLeader = True\<rparr>"

definition RoleRedSpy :: Go_Role where
  "RoleRedSpy =
     \<lparr>gro_id = ''RED_SPY'', gro_name = ''Red spy'', gro_nameKo = '''',
      gro_description = ''Of the red team; appears blue when colours are shared.'', gro_descriptionKo = '''',
      gro_team = RED, gro_icon = '''', gro_isSpy = True, gro_isLeader = False\<rparr>"

definition RoleBlueSpy :: Go_Role where
  "RoleBlueSpy =
     \<lparr>gro_id = ''BLUE_SPY'', gro_name = ''Blue spy'', gro_nameKo = '''',
      gro_description = ''Of the blue team; appears red when colours are shared.'', gro_descriptionKo = '''',
      gro_team = BLUE, gro_icon = '''', gro_isSpy = True, gro_isLeader = False\<rparr>"

definition RoleRedOperative :: Go_Role where
  "RoleRedOperative =
     \<lparr>gro_id = ''RED_OPERATIVE'', gro_name = ''Red operative'', gro_nameKo = '''',
      gro_description = ''A citizen of the red team.'', gro_descriptionKo = '''', gro_team = RED, gro_icon = '''',
      gro_isSpy = False, gro_isLeader = False\<rparr>"

definition RoleBlueOperative :: Go_Role where
  "RoleBlueOperative =
     \<lparr>gro_id = ''BLUE_OPERATIVE'', gro_name = ''Blue operative'', gro_nameKo = '''',
      gro_description = ''A citizen of the blue team.'', gro_descriptionKo = '''', gro_team = BLUE, gro_icon = '''',
      gro_isSpy = False, gro_isLeader = False\<rparr>"

datatype Go_RoleType = TypeLeader | TypeSpy | TypeOperative | TypeGrey | TypeSpecial

datatype Go_Count = Fixed int | Ranges "(string \<times> int) list" | NoCount

record Go_RoleDef =
  grd_id :: string
  grd_name :: string
  grd_nameKo :: string
  grd_team :: TeamColor
  grd_type :: Go_RoleType
  grd_description :: string
  grd_descriptionKo :: string
  grd_count :: Go_Count
  grd_minPlayers :: int
  grd_priority :: int
  grd_icon :: string

text \<open>\<open>%d\<close> of \<open>Sscanf\<close>, for the patterns of the configurations, which begin with a digit.\<close>

definition scan_int :: "string \<Rightarrow> (int \<times> string) option" where
  "scan_int s =
     (let ds = takeWhile is_digit s in if ds = '''' then None else Some (int (str_nat ds), dropWhile is_digit s))"

definition matchesRange :: "int \<Rightarrow> string \<Rightarrow> bool" where
  "matchesRange playerCount pat =
     (case scan_int pat of
        None \<Rightarrow> False
      | Some (lo, rest) \<Rightarrow>
          if take 1 rest = ''+'' then playerCount \<ge> lo
          else if take 1 rest = ''-'' then
            (case scan_int (drop 1 rest) of
               Some (hi, _) \<Rightarrow> playerCount \<ge> lo \<and> playerCount \<le> hi
             | None \<Rightarrow> playerCount = lo)
          else playerCount = lo)"

text \<open>The entries of the map in the order in which the loop happens to see them.\<close>

definition GetCount :: "int \<Rightarrow> Go_Count \<Rightarrow> int" where
  "GetCount playerCount rc =
     (case rc of
        Fixed n \<Rightarrow> n
      | Ranges rs \<Rightarrow>
          (case map_of rs (int_str playerCount) of
             Some n \<Rightarrow> n
           | None \<Rightarrow> (case find (\<lambda>(k, n). matchesRange playerCount k) rs of Some (k, n) \<Rightarrow> n | None \<Rightarrow> 0))
      | NoCount \<Rightarrow> 0)"

definition createRoleFromConfig :: "Go_RoleDef \<Rightarrow> Go_Role" where
  "createRoleFromConfig d =
     \<lparr>gro_id = grd_id d, gro_name = grd_name d, gro_nameKo = grd_nameKo d, gro_description = grd_description d,
      gro_descriptionKo = grd_descriptionKo d, gro_team = grd_team d, gro_icon = grd_icon d,
      gro_isSpy = (grd_type d = TypeSpy), gro_isLeader = (grd_type d = TypeLeader)\<rparr>"

section \<open>Dealing without a configuration\<close>

definition AssignTeams :: "nat list \<Rightarrow> Go_Player list \<Rightarrow> Go_Player list" where
  "AssignTeams rs ps =
     (let order = shuffle rs [0..<length ps]; redTeamSize = length ps - length ps div 2 in
      write_each order (\<lambda>k p. p\<lparr>gp_team := Some (if k < redTeamSize then RED else BLUE)\<rparr>) ps)"

definition team_positions :: "(TeamColor option \<Rightarrow> bool) \<Rightarrow> Go_Player list \<Rightarrow> nat list" where
  "team_positions P ps = filter (\<lambda>i. P (gp_team (ps ! i))) [0..<length ps]"

text \<open>The first of a team is its leader, those behind are its spies, the others are operatives.\<close>

definition hard_role :: "nat \<Rightarrow> Go_Role \<Rightarrow> Go_Role \<Rightarrow> Go_Role \<Rightarrow> nat \<Rightarrow> Go_Role" where
  "hard_role spiesPerTeam leader spy operative k =
     (if k = 0 then leader else if k \<le> spiesPerTeam then spy else operative)"

definition AssignRoles :: "nat list \<Rightarrow> nat list \<Rightarrow> Go_Player list \<Rightarrow> Go_Player list" where
  "AssignRoles rs bs ps =
     (let red = shuffle rs (team_positions (\<lambda>t. t = Some RED) ps);
          blue = shuffle bs (team_positions (\<lambda>t. t \<noteq> Some RED) ps);
          spies = (if length ps \<ge> 10 then 2 else 1);
          ps = write_each red (\<lambda>k p. p\<lparr>gp_role := Some (hard_role spies RoleBomber RoleRedSpy RoleRedOperative k)\<rparr>) ps
      in write_each blue (\<lambda>k p. p\<lparr>gp_role := Some (hard_role spies RolePresident RoleBlueSpy RoleBlueOperative k)\<rparr>) ps)"

section \<open>Dealing by a configuration\<close>

definition selectedDefs :: "(string \<times> int) list \<Rightarrow> Go_RoleDef list \<Rightarrow> Go_RoleDef list" where
  "selectedDefs selected defs =
     (if selected \<noteq> [] then
        List.map_filter (\<lambda>d. case map_of selected (grd_id d) of
            Some n \<Rightarrow> if n > 0 then Some (d\<lparr>grd_count := Fixed n\<rparr>) else None
          | None \<Rightarrow> None) defs
      else defs)"

definition totalSelected :: "int \<Rightarrow> (string \<times> int) list \<Rightarrow> Go_RoleDef list \<Rightarrow> int" where
  "totalSelected n selected defs =
     (if selected \<noteq> [] then sum_list (map (\<lambda>d. GetCount n (grd_count d)) (selectedDefs selected defs))
      else sum_list (map (\<lambda>d. GetCount n (grd_count d)) (filter (\<lambda>d. grd_minPlayers d \<le> n) defs)))"

definition team_count :: "int \<Rightarrow> TeamColor \<Rightarrow> Go_RoleDef list \<Rightarrow> int" where
  "team_count n t defs = sum_list (map (\<lambda>d. GetCount n (grd_count d)) (filter (\<lambda>d. grd_team d = t) defs))"

definition basicRole :: "TeamColor \<Rightarrow> Go_RoleDef" where
  "basicRole t =
     (case (case t of
          RED \<Rightarrow> (''Red Team'', ''Red team member'', ''Standard Red Team member'', ''An ordinary agent of the red team'', ''star'')
        | BLUE \<Rightarrow> (''Blue Team'', ''Blue team member'', ''Standard Blue Team member'', ''An ordinary agent of the blue team'', ''star'')
        | GREY \<Rightarrow> (''Grey Team'', ''Grey team member'', ''Independent player'', ''An independent player'', ''white circle''))
      of (n, nk, d, dk, ic) \<Rightarrow>
        \<lparr>grd_id = go_team t @ ''_TEAM'', grd_name = n, grd_nameKo = nk, grd_team = t, grd_type = TypeOperative,
         grd_description = d, grd_descriptionKo = dk, grd_count = NoCount, grd_minPlayers = 0, grd_priority = 99,
         grd_icon = ic\<rparr>)"

definition defaultRole :: "TeamColor \<Rightarrow> Go_RoleDef list \<Rightarrow> Go_RoleDef" where
  "defaultRole t defs =
     (case find (\<lambda>d. grd_team d = t \<and> grd_type d = TypeOperative \<and> grd_priority d = 99) defs of
        Some d \<Rightarrow> d
      | None \<Rightarrow> basicRole t)"

text \<open>
  The roles of a team in the order of their priorities, each as often as its count says. Roles of equal
  priority, which a checked configuration has for the grey team only, are kept in their order.
\<close>

definition team_roles :: "int \<Rightarrow> TeamColor \<Rightarrow> Go_RoleDef list \<Rightarrow> Go_Role list" where
  "team_roles n t defs =
     concat (map (\<lambda>d. replicate (nat (GetCount n (grd_count d))) (createRoleFromConfig d))
       (sort_key grd_priority (filter (\<lambda>d. grd_team d = t) defs)))"

definition assignTeamRoles ::
  "nat list \<Rightarrow> nat list \<Rightarrow> TeamColor \<Rightarrow> int \<Rightarrow> Go_RoleDef list \<Rightarrow> Go_Player list \<Rightarrow> Go_Player list" where
  "assignTeamRoles rs team t n defs ps =
     (let roles = team_roles n t defs; filler = createRoleFromConfig (defaultRole t defs) in
      write_each (shuffle rs team)
        (\<lambda>k p. p\<lparr>gp_role := Some (if k < length roles then roles ! k else filler)\<rparr>) ps)"

text \<open>The random numbers of a deal: one list per shuffle, in their order.\<close>

record Draws =
  dr_teams :: "nat list"
  dr_players :: "nat list"
  dr_red :: "nat list"
  dr_blue :: "nat list"
  dr_grey :: "nat list"
  dr_rooms :: "nat list"

text \<open>The team of the player at a place of the shuffled order, and the players of a team, in that order.\<close>

definition side_of :: "int \<Rightarrow> int \<Rightarrow> nat \<Rightarrow> TeamColor" where
  "side_of greyCount redCount k =
     (if int k < greyCount then GREY else if int k < greyCount + redCount then RED else BLUE)"

definition on_side :: "(nat \<Rightarrow> TeamColor) \<Rightarrow> nat list \<Rightarrow> TeamColor \<Rightarrow> nat list" where
  "on_side side order t = map (\<lambda>k. order ! k) (filter (\<lambda>k. side k = t) [0..<length order])"

definition AssignRolesWithConfig ::
  "Draws \<Rightarrow> Go_RoleDef list option \<Rightarrow> (string \<times> int) list \<Rightarrow> Go_Player list \<Rightarrow> string + Go_Player list" where
  "AssignRolesWithConfig dr roleConfig selected ps =
     (case roleConfig of
        None \<Rightarrow> Inl ''failed to get role config''
      | Some defs \<Rightarrow>
          (let n = int (length ps) in
           if totalSelected n selected defs > n then Inl ''too many roles selected''
           else
             (let chosen = selectedDefs selected defs;
                  side = side_of (team_count n GREY chosen) (team_count n RED chosen);
                  order = shuffle (dr_players dr) [0..<length ps];
                  ps = write_each order (\<lambda>k p. p\<lparr>gp_team := Some (side k)\<rparr>) ps;
                  ps = assignTeamRoles (dr_red dr) (on_side side order RED) RED n chosen ps;
                  ps = assignTeamRoles (dr_blue dr) (on_side side order BLUE) BLUE n chosen ps
              in Inr (assignTeamRoles (dr_grey dr) (on_side side order GREY) GREY n chosen ps))))"

section \<open>The rooms\<close>

definition AssignRooms :: "nat list \<Rightarrow> Go_Player list \<Rightarrow> Go_Player list" where
  "AssignRooms rs ps =
     (let order = shuffle rs [0..<length ps]; redRoomSize = length ps - length ps div 2 in
      write_each order (\<lambda>k p. p\<lparr>gp_room := Some (if k < redRoomSize then RED_ROOM else BLUE_ROOM)\<rparr>) ps)"

text \<open>The deal at the start of a game, with the fall-back for a configuration that cannot be dealt.\<close>

definition deal :: "Draws \<Rightarrow> Go_RoleDef list option \<Rightarrow> (string \<times> int) list \<Rightarrow> Go_Player list \<Rightarrow> Go_Player list" where
  "deal dr roleConfig selected ps =
     (let ps = AssignTeams (dr_teams dr) ps;
          ps = (case AssignRolesWithConfig dr roleConfig selected ps of
              Inr qs \<Rightarrow> qs
            | Inl _ \<Rightarrow> AssignRoles (dr_red dr) (dr_blue dr) ps)
      in AssignRooms (dr_rooms dr) ps)"

section \<open>What writing through pointers keeps and counts\<close>

lemma map_write_each:
  assumes "\<And>k p. g (f k p) = g p"
  shows "map g (write_each order f ps) = map g ps"
proof (induction order rule: rev_induct)
  case (snoc i order)
  let ?qs = "write_each order f ps"
  have "map g (?qs[i := f (length order) (?qs ! i)]) = map g ?qs"
    by (cases "i < length ?qs") (simp_all add: map_update assms list_update_same_conv list_update_beyond)
  with snoc show ?case by (simp add: write_each_snoc Let_def)
qed simp

lemma order_is_full:
  assumes "mset order = mset [0..<n]"
  shows "distinct order" "set order = {..<n}" "length order = n"
proof -
  show "distinct order" using assms mset_eq_imp_distinct_iff [of order "[0..<n]"] by simp
  show "set order = {..<n}" using arg_cong [OF assms, of set_mset] by auto
  show "length order = n" using arg_cong [OF assms, of size] by simp
qed

lemma mset_along:
  assumes "mset order = mset [0..<length ps]"
  shows "mset (map g ps) = mset (map (\<lambda>i. g (ps ! i)) order)"
proof -
  have "mset (map (\<lambda>i. g (ps ! i)) order) = mset (map (\<lambda>i. g (ps ! i)) [0..<length ps])"
    using assms by (metis mset_map)
  also have "map (\<lambda>i. g (ps ! i)) [0..<length ps] = map g ps"
    by (rule nth_equalityI) simp_all
  finally show ?thesis by simp
qed

lemma write_along:
  assumes "distinct order" "set order \<subseteq> {..<length ps}" "\<And>k p. g (f k p) = F k"
  shows "map (\<lambda>i. g (write_each order f ps ! i)) order = map F [0..<length order]"
  using assms by (intro nth_equalityI) (simp_all add: write_each_nth)

lemma census_full:
  assumes "\<And>k p. g (f k p) = F k"
  shows "mset (map g (write_each (shuffle rs [0..<length ps]) f ps)) = mset (map F [0..<length ps])"
proof -
  let ?order = "shuffle rs [0..<length ps]"
  have "mset (map g (write_each ?order f ps)) = mset (map (\<lambda>i. g (write_each ?order f ps ! i)) ?order)"
    by (rule mset_along) simp
  also have "map (\<lambda>i. g (write_each ?order f ps ! i)) ?order = map F [0..<length ?order]"
    by (rule write_along) (auto simp: assms)
  finally show ?thesis by simp
qed

text \<open>Three passes over parts of the players that together are all of them.\<close>

lemma census_three:
  assumes "mset (a @ b @ c) = mset [0..<length ps]"
    and "\<And>k p. g (f1 k p) = F1 k" "\<And>k p. g (f2 k p) = F2 k" "\<And>k p. g (f3 k p) = F3 k"
  shows "mset (map g (write_each c f3 (write_each b f2 (write_each a f1 ps)))) =
    mset (map F1 [0..<length a] @ map F2 [0..<length b] @ map F3 [0..<length c])"
proof -
  note full = order_is_full [OF assms(1)]
  let ?p1 = "write_each a f1 ps"
  let ?p2 = "write_each b f2 ?p1"
  let ?p3 = "write_each c f3 ?p2"
  have "map (\<lambda>i. g (?p3 ! i)) a = map (\<lambda>i. g (?p1 ! i)) a"
    using full(1) by (intro map_cong refl) (auto simp: write_each_other disjoint_iff)
  also have "\<dots> = map F1 [0..<length a]" using full assms(2) by (intro write_along) auto
  finally have A: "map (\<lambda>i. g (?p3 ! i)) a = map F1 [0..<length a]" .
  have "map (\<lambda>i. g (?p3 ! i)) b = map (\<lambda>i. g (?p2 ! i)) b"
    using full(1) by (intro map_cong refl) (auto simp: write_each_other disjoint_iff)
  also have "\<dots> = map F2 [0..<length b]" using full assms(3) by (intro write_along) auto
  finally have B: "map (\<lambda>i. g (?p3 ! i)) b = map F2 [0..<length b]" .
  have C: "map (\<lambda>i. g (?p3 ! i)) c = map F3 [0..<length c]" using full assms(4) by (intro write_along) auto
  have "mset (map g ?p3) = mset (map (\<lambda>i. g (?p3 ! i)) (a @ b @ c))"
    using assms(1) by (intro mset_along) simp
  then show ?thesis unfolding map_append A B C .
qed

lemma mset_three: "mset (filter P xs) + mset (filter Q xs) + mset (filter R xs) = mset xs"
  if "\<And>x. (P x \<and> \<not> Q x \<and> \<not> R x) \<or> (\<not> P x \<and> Q x \<and> \<not> R x) \<or> (\<not> P x \<and> \<not> Q x \<and> R x)"
  using that by (induction xs) fastforce+

lemma sides_are_all:
  "mset (on_side side order RED @ on_side side order BLUE @ on_side side order GREY) = mset order"
proof -
  have "mset (filter (\<lambda>k. side k = RED) [0..<length order]) + mset (filter (\<lambda>k. side k = BLUE) [0..<length order]) +
      mset (filter (\<lambda>k. side k = GREY) [0..<length order]) = mset [0..<length order]"
    by (rule mset_three) (metis TeamColor.distinct TeamColor.exhaust)
  then have "image_mset ((!) order) (mset (filter (\<lambda>k. side k = RED) [0..<length order]) +
      mset (filter (\<lambda>k. side k = BLUE) [0..<length order]) + mset (filter (\<lambda>k. side k = GREY) [0..<length order])) =
      mset (map ((!) order) [0..<length order])"
    by simp
  then show ?thesis by (simp add: on_side_def map_nth ac_simps del: mset_upt)
qed

section \<open>Who gets what\<close>

lemma fill_roles:
  assumes "length xs \<le> m"
  shows "mset (map (\<lambda>k. if k < length xs then xs ! k else y) [0..<m]) = mset xs + replicate_mset (m - length xs) y"
proof -
  have "map (\<lambda>k. if k < length xs then xs ! k else y) [0..<m] = xs @ replicate (m - length xs) y"
    using assms by (intro nth_equalityI) (auto simp: nth_append)
  then show ?thesis by (metis mset_append mset_replicate)
qed

lemma length_on_side: "length (on_side side order t) = length (filter (\<lambda>k. side k = t) [0..<length order])"
  by (simp add: on_side_def)

lemma length_filter_upt: "length (filter (\<lambda>k. a \<le> k \<and> k < b) [0..<n]) = min b n - min a n" for a b n :: nat
  by (induction n) auto

lemma side_sizes:
  assumes "0 \<le> g" "0 \<le> r" "g + r \<le> int (length order)"
  shows "length (on_side (side_of g r) order GREY) = nat g" "length (on_side (side_of g r) order RED) = nat r"
    "length (on_side (side_of g r) order BLUE) = length order - nat (g + r)"
proof -
  let ?n = "length order"
  have c: "(side_of g r k = GREY) = (0 \<le> k \<and> k < nat g)" "(side_of g r k = RED) = (nat g \<le> k \<and> k < nat (g + r))"
    for k using assms by (auto simp: side_of_def)
  have b: "(side_of g r k = BLUE) = (nat (g + r) \<le> k \<and> k < ?n)" if "k < ?n" for k
    using assms that by (auto simp: side_of_def)
  show "length (on_side (side_of g r) order GREY) = nat g"
    unfolding length_on_side c(1) length_filter_upt using assms by simp
  show "length (on_side (side_of g r) order RED) = nat r"
    unfolding length_on_side c(2) length_filter_upt using assms by (simp add: nat_add_distrib)
  have "filter (\<lambda>k. side_of g r k = BLUE) [0..<?n] = filter (\<lambda>k. nat (g + r) \<le> k \<and> k < ?n) [0..<?n]"
    by (rule filter_cong [OF refl]) (use b in auto)
  then show "length (on_side (side_of g r) order BLUE) = ?n - nat (g + r)"
    using assms by (simp add: length_on_side length_filter_upt)
qed

text \<open>Counts are not negative, as the check of a configuration and of a selection demands.\<close>

definition counted :: "int \<Rightarrow> Go_RoleDef list \<Rightarrow> bool" where
  "counted n defs \<longleftrightarrow> list_all (\<lambda>d. 0 \<le> GetCount n (grd_count d)) defs"

lemma length_team_roles: "counted n defs \<Longrightarrow> int (length (team_roles n t defs)) = team_count n t defs"
proof -
  assume c: "counted n defs"
  have l: "int (length (concat (map (\<lambda>d. replicate (nat (GetCount n (grd_count d))) (createRoleFromConfig d)) ds))) =
      sum_list (map (\<lambda>d. GetCount n (grd_count d)) ds)" if "counted n ds" for ds
    using that by (induction ds) (simp_all add: counted_def)
  have "mset (sort_key grd_priority (filter (\<lambda>d. grd_team d = t) defs)) = mset (filter (\<lambda>d. grd_team d = t) defs)"
    by simp
  moreover have "counted n (sort_key grd_priority (filter (\<lambda>d. grd_team d = t) defs))"
    using c by (auto simp: counted_def list_all_iff)
  moreover have "sum_list (map f xs) = sum_mset (image_mset f (mset xs))" for f :: "Go_RoleDef \<Rightarrow> int" and xs
    by (simp flip: sum_mset_sum_list mset_map)
  ultimately show ?thesis by (simp add: team_roles_def team_count_def l)
qed

lemma mset_concat_map: "mset (concat (map f xs)) = (\<Sum>x\<in>#mset xs. mset (f x))"
  by (induction xs) simp_all

lemma all_team_roles:
  "mset (team_roles n RED defs @ team_roles n BLUE defs @ team_roles n GREY defs) =
     mset (concat (map (\<lambda>d. replicate (nat (GetCount n (grd_count d))) (createRoleFromConfig d)) defs))"
proof -
  have s: "mset (filter (\<lambda>d. grd_team d = RED) defs) + mset (filter (\<lambda>d. grd_team d = BLUE) defs) +
      mset (filter (\<lambda>d. grd_team d = GREY) defs) = mset defs"
    by (rule mset_three) (metis TeamColor.distinct TeamColor.exhaust)
  show ?thesis
    unfolding team_roles_def mset_append mset_concat_map mset_sort s [symmetric] image_mset_union sum_mset.union
    by (simp only: ac_simps)
qed

lemma team_counts_sum:
  "team_count n RED defs + team_count n BLUE defs + team_count n GREY defs = sum_list (map (\<lambda>d. GetCount n (grd_count d)) defs)"
proof (induction defs)
  case (Cons d ds)
  then show ?case by (cases "grd_team d") (simp_all add: team_count_def)
qed (simp add: team_count_def)

lemma team_count_nonneg: "counted n defs \<Longrightarrow> 0 \<le> team_count n t defs"
  by (simp flip: length_team_roles)

lemma config_census:
  assumes c: "counted (int (length ps)) (selectedDefs selected defs)"
    and t: "sum_list (map (\<lambda>d. GetCount (int (length ps)) (grd_count d)) (selectedDefs selected defs)) = tot"
    and fits: "totalSelected (int (length ps)) selected defs \<le> int (length ps)" "tot \<le> int (length ps)"
  shows "\<exists>qs. AssignRolesWithConfig dr (Some defs) selected ps = Inr qs \<and>
    mset (map gp_role qs) =
      image_mset Some (mset (concat (map (\<lambda>d. replicate (nat (GetCount (int (length ps)) (grd_count d)))
          (createRoleFromConfig d)) (selectedDefs selected defs)))) +
      replicate_mset (length ps - nat tot) (Some (createRoleFromConfig (defaultRole BLUE (selectedDefs selected defs))))"
proof -
  let ?n = "int (length ps)" and ?ch = "selectedDefs selected defs"
  let ?g = "team_count ?n GREY ?ch" and ?r = "team_count ?n RED ?ch" and ?b = "team_count ?n BLUE ?ch"
  let ?side = "side_of ?g ?r" and ?order = "shuffle (dr_players dr) [0..<length ps]"
  let ?R = "team_roles ?n RED ?ch" and ?B = "team_roles ?n BLUE ?ch" and ?G = "team_roles ?n GREY ?ch"
  let ?fill = "\<lambda>t. createRoleFromConfig (defaultRole t ?ch)"
  let ?p0 = "write_each ?order (\<lambda>k p. p\<lparr>gp_team := Some (?side k)\<rparr>) ps"
  let ?a = "shuffle (dr_red dr) (on_side ?side ?order RED)"
  let ?bb = "shuffle (dr_blue dr) (on_side ?side ?order BLUE)"
  let ?cc = "shuffle (dr_grey dr) (on_side ?side ?order GREY)"
  let ?role = "\<lambda>xs y k. if k < length xs then xs ! k else y"
  let ?qs = "write_each ?cc (\<lambda>k p. p\<lparr>gp_role := Some (?role ?G (?fill GREY) k)\<rparr>)
      (write_each ?bb (\<lambda>k p. p\<lparr>gp_role := Some (?role ?B (?fill BLUE) k)\<rparr>)
        (write_each ?a (\<lambda>k p. p\<lparr>gp_role := Some (?role ?R (?fill RED) k)\<rparr>) ?p0))"
  have nn: "0 \<le> ?g" "0 \<le> ?r" "0 \<le> ?b" using team_count_nonneg [OF c] by simp_all
  have sum: "?r + ?b + ?g = tot" using team_counts_sum t by simp
  have sizes: "length (on_side ?side ?order RED) = nat ?r" "length (on_side ?side ?order GREY) = nat ?g"
    "length (on_side ?side ?order BLUE) = length ps - nat (?g + ?r)"
    using side_sizes [of ?g ?r ?order] nn sum fits(2) by simp_all
  have lens: "length ?R = nat ?r" "length ?G = nat ?g" "length ?B = nat ?b"
    using length_team_roles [OF c, of RED] length_team_roles [OF c, of GREY] length_team_roles [OF c, of BLUE] by linarith+
  have all: "mset (?a @ ?bb @ ?cc) = mset [0..<length ?p0]"
    using sides_are_all [of ?side ?order] by simp
  have "mset (map gp_role ?qs) =
      mset (map (\<lambda>k. Some (?role ?R (?fill RED) k)) [0..<length ?a] @
        map (\<lambda>k. Some (?role ?B (?fill BLUE) k)) [0..<length ?bb] @
        map (\<lambda>k. Some (?role ?G (?fill GREY) k)) [0..<length ?cc])"
    by (rule census_three [OF all]) simp_all
  also have "\<dots> = image_mset Some (mset (map (?role ?R (?fill RED)) [0..<length ?a]) +
      mset (map (?role ?B (?fill BLUE)) [0..<length ?bb]) + mset (map (?role ?G (?fill GREY)) [0..<length ?cc]))"
    by (simp add: image_mset.compositionality comp_def del: mset_upt)
  also have "mset (map (?role ?R (?fill RED)) [0..<length ?a]) = mset ?R"
    by (subst fill_roles) (simp_all add: sizes lens)
  also have "mset (map (?role ?G (?fill GREY)) [0..<length ?cc]) = mset ?G"
    by (subst fill_roles) (simp_all add: sizes lens)
  also have "mset (map (?role ?B (?fill BLUE)) [0..<length ?bb]) =
      mset ?B + replicate_mset (length ps - nat tot) (?fill BLUE)"
  proof -
    have e: "length ?bb - length ?B = length ps - nat tot" and le: "length ?B \<le> length ?bb"
      unfolding length_shuffle using sizes lens nn sum fits(2) by linarith+
    show ?thesis using fill_roles [OF le, of "?fill BLUE"] unfolding e .
  qed
  finally have "mset (map gp_role ?qs) = image_mset Some (mset (?R @ ?B @ ?G)) +
      replicate_mset (length ps - nat tot) (Some (?fill BLUE))"
    by (simp add: ac_simps)
  moreover have "AssignRolesWithConfig dr (Some defs) selected ps = Inr ?qs"
    using fits(1) by (simp add: AssignRolesWithConfig_def assignTeamRoles_def Let_def)
  ultimately show ?thesis unfolding all_team_roles by blast
qed

lemma length_team_positions: "length (team_positions P ps) = size (filter_mset P (mset (map gp_team ps)))"
proof -
  have m: "map (\<lambda>i. gp_team (ps ! i)) [0..<length ps] = map gp_team ps"
    by (rule nth_equalityI) simp_all
  have "map (\<lambda>i. gp_team (ps ! i)) (team_positions P ps) = filter P (map gp_team ps)"
    unfolding m [symmetric] by (simp add: team_positions_def filter_map comp_def)
  then show ?thesis by (metis length_map mset_filter size_mset)
qed

lemma filter_replicate_mset: "filter_mset P (replicate_mset n x) = (if P x then replicate_mset n x else {#})"
  by (induction n) auto

lemma halves:
  "mset (map (\<lambda>k. Some (if k < n - n div 2 then x else y)) [0..<n]) =
     replicate_mset (n - n div 2) (Some x) + replicate_mset (n div 2) (Some y)"
proof -
  have "map (\<lambda>k. Some (if k < n - n div 2 then x else y)) [0..<n] =
      replicate (n - n div 2) (Some x) @ replicate (n div 2) (Some y)"
    by (intro nth_equalityI) (auto simp: nth_append)
  then show ?thesis by (metis mset_append mset_replicate)
qed

lemma team_census:
  "mset (map gp_team (AssignTeams rs ps)) =
     replicate_mset (length ps - length ps div 2) (Some RED) + replicate_mset (length ps div 2) (Some BLUE)"
  unfolding AssignTeams_def Let_def halves [symmetric] by (rule census_full) simp

lemma hard_roles:
  "1 + s \<le> m \<Longrightarrow>
    mset (map (hard_role s l y z) [0..<m]) = {#l#} + replicate_mset s y + replicate_mset (m - 1 - s) z"
proof -
  assume "1 + s \<le> m"
  then have "map (hard_role s l y z) [0..<m] = l # replicate s y @ replicate (m - 1 - s) z"
    by (intro nth_equalityI) (auto simp: hard_role_def nth_Cons nth_append split: nat.split)
  then show ?thesis by simp
qed

definition hard_census :: "nat \<Rightarrow> Go_Role multiset" where
  "hard_census n =
     (let s = (if n \<ge> 10 then 2 else 1) in
      {#RoleBomber, RolePresident#} + replicate_mset s RoleRedSpy + replicate_mset s RoleBlueSpy +
      replicate_mset (n - n div 2 - 1 - s) RoleRedOperative + replicate_mset (n div 2 - 1 - s) RoleBlueOperative)"

lemma hard_census_dealt:
  assumes "6 \<le> length ps"
  shows "mset (map gp_role (AssignRoles rs bs (AssignTeams ts ps))) = image_mset Some (hard_census (length ps))"
proof -
  let ?n = "length ps" and ?qs = "AssignTeams ts ps"
  let ?s = "if length ps \<ge> 10 then 2 else 1 :: nat"
  let ?a = "shuffle rs (team_positions (\<lambda>t. t = Some RED) ?qs)"
  let ?b = "shuffle bs (team_positions (\<lambda>t. t \<noteq> Some RED) ?qs)"
  have l [simp]: "length ?qs = ?n" by (simp add: AssignTeams_def Let_def)
  have sizes: "length (team_positions (\<lambda>t. t = Some RED) ?qs) = ?n - ?n div 2"
    "length (team_positions (\<lambda>t. t \<noteq> Some RED) ?qs) = ?n div 2"
    unfolding length_team_positions team_census by (simp_all add: filter_replicate_mset)
  have parts: "mset (?a @ ?b @ []) = mset [0..<length ?qs]"
    by (simp add: team_positions_def del: mset_upt flip: mset_filter)
      (metis mset_filter multiset_partition)
  have "mset (map gp_role (AssignRoles rs bs ?qs)) =
      mset (map (\<lambda>k. Some (hard_role ?s RoleBomber RoleRedSpy RoleRedOperative k)) [0..<length ?a] @
        map (\<lambda>k. Some (hard_role ?s RolePresident RoleBlueSpy RoleBlueOperative k)) [0..<length ?b] @
        map (\<lambda>k. None) [0..<length ([] :: nat list)])"
    using census_three [OF parts, of gp_role] by (simp add: AssignRoles_def Let_def)
  also have "\<dots> = image_mset Some (mset (map (hard_role ?s RoleBomber RoleRedSpy RoleRedOperative) [0..<?n - ?n div 2]) +
      mset (map (hard_role ?s RolePresident RoleBlueSpy RoleBlueOperative) [0..<?n div 2]))"
    by (simp add: sizes image_mset.compositionality comp_def del: mset_upt)
  also have "\<dots> = image_mset Some (hard_census ?n)"
    using assms by (subst (1 2) hard_roles) (auto simp: hard_census_def Let_def)
  finally show ?thesis .
qed

lemma room_census:
  "mset (map gp_room (AssignRooms rs ps)) =
     replicate_mset (length ps - length ps div 2) (Some RED_ROOM) + replicate_mset (length ps div 2) (Some BLUE_ROOM)"
  unfolding AssignRooms_def Let_def halves [symmetric] by (rule census_full) simp

section \<open>The deal as a whole\<close>

definition persona :: "Go_Player \<Rightarrow> string \<times> string \<times> bool \<times> string \<times> bool \<times> string" where
  "persona p = (gp_id p, gp_nickname p, gp_isAnonymous p, gp_roomCode p, gp_isOwner p, gp_connectedAt p)"

lemma assign_keeps:
  "map persona (AssignTeams rs ps) = map persona ps"
  "map persona (AssignRoles rs bs ps) = map persona ps"
  "map persona (AssignRooms rs ps) = map persona ps"
  "map gp_role (AssignRooms rs ps) = map gp_role ps"
  by (simp_all add: AssignTeams_def AssignRoles_def AssignRooms_def Let_def map_write_each persona_def)

lemma config_keeps: "AssignRolesWithConfig dr cfg selected ps = Inr qs \<Longrightarrow> map persona qs = map persona ps"
  by (auto simp: AssignRolesWithConfig_def assignTeamRoles_def Let_def map_write_each persona_def
      split: option.splits if_splits)

lemma deal_keeps: "map persona (deal dr cfg selected ps) = map persona ps"
proof (cases "AssignRolesWithConfig dr cfg selected (AssignTeams (dr_teams dr) ps)")
  case (Inr qs)
  then show ?thesis using config_keeps [OF Inr] by (simp add: deal_def Let_def assign_keeps)
qed (simp add: deal_def Let_def assign_keeps)

lemma length_deal [simp]: "length (deal dr cfg selected ps) = length ps"
  using deal_keeps [THEN arg_cong [where f = length]] by simp

lemma deal_ids: "map gp_id (deal dr cfg selected ps) = map gp_id ps"
  using deal_keeps [THEN arg_cong [where f = "map fst"], of dr cfg selected ps] by (simp add: persona_def comp_def)

lemma deal_rooms:
  "mset (map gp_room (deal dr cfg selected ps)) =
     replicate_mset (length ps - length ps div 2) (Some RED_ROOM) + replicate_mset (length ps div 2) (Some BLUE_ROOM)"
proof -
  define qs where "qs = (case AssignRolesWithConfig dr cfg selected (AssignTeams (dr_teams dr) ps) of
      Inr qs \<Rightarrow> qs
    | Inl _ \<Rightarrow> AssignRoles (dr_red dr) (dr_blue dr) (AssignTeams (dr_teams dr) ps))"
  have d: "deal dr cfg selected ps = AssignRooms (dr_rooms dr) qs" by (simp add: deal_def qs_def Let_def)
  have "map persona qs = map persona ps" using deal_keeps [of dr cfg selected ps] unfolding d assign_keeps .
  then have "length qs = length ps" using map_eq_imp_length_eq by blast
  then show ?thesis unfolding d room_census by (simp only:)
qed

lemma chosen_pairs:
  assumes "distinct (map grd_id defs)" "distinct (map fst selected)" "selected \<noteq> []"
    "fst ` set selected \<subseteq> grd_id ` set defs" "list_all (\<lambda>(i, k). 1 \<le> k) selected"
  shows "mset (map (\<lambda>d. (grd_id d, GetCount n (grd_count d))) (selectedDefs selected defs)) = mset selected"
proof -
  let ?f = "\<lambda>d. case map_of selected (grd_id d) of Some k \<Rightarrow> if k > 0 then Some (d\<lparr>grd_count := Fixed k\<rparr>) else None | None \<Rightarrow> None"
  have e: "map (\<lambda>d. (grd_id d, GetCount n (grd_count d))) (List.map_filter ?f ds) =
      List.map_filter (\<lambda>i. map_option (Pair i) (map_of selected i)) (map grd_id ds)" for ds
  proof (induction ds)
    case (Cons d ds)
    have "0 < k" if "map_of selected (grd_id d) = Some k" for k
      using that assms(5) by (auto simp: list_all_iff dest!: map_of_SomeD)
    with Cons show ?case by (cases "map_of selected (grd_id d)") (auto simp: List.map_filter_simps GetCount_def)
  qed (simp add: List.map_filter_simps)
  let ?is = "List.map_filter (\<lambda>i. map_option (Pair i) (map_of selected i)) (map grd_id defs)"
  have "map fst (List.map_filter (\<lambda>i. map_option (Pair i) (map_of selected i)) xs) =
      filter (\<lambda>i. map_of selected i \<noteq> None) xs" for xs
    by (induction xs) (auto simp: List.map_filter_simps split: option.split)
  then have "distinct (map fst ?is)" by (simp add: assms(1))
  then have d: "distinct ?is" "distinct selected" using assms(2) by (simp_all add: distinct_map)
  have "set ?is = set selected"
  proof -
    have "set ?is = {x. fst x \<in> grd_id ` set defs \<and> map_of selected (fst x) = Some (snd x)}"
      by (fastforce simp: List.map_filter_def image_iff)
    also have "\<dots> = set selected" using assms(2,4) by (auto dest: map_of_SomeD)
    finally show ?thesis .
  qed
  then have "mset ?is = mset selected" using d set_eq_iff_mset_eq_distinct by blast
  then show ?thesis using assms(3) by (simp add: selectedDefs_def e del: mset_map)
qed

text \<open>The roles that are dealt, by their identifiers.\<close>

definition dealt :: "Go_Player list \<Rightarrow> string option multiset" where
  "dealt ps = mset (map (\<lambda>p. map_option gro_id (gp_role p)) ps)"

lemma dealt_roles: "dealt ps = image_mset (map_option gro_id) (mset (map gp_role ps))"
  by (simp add: dealt_def image_mset.compositionality comp_def)

lemma dealt_deal:
  "dealt (deal dr cfg selected ps) =
     dealt (case AssignRolesWithConfig dr cfg selected (AssignTeams (dr_teams dr) ps) of
       Inr qs \<Rightarrow> qs | Inl _ \<Rightarrow> AssignRoles (dr_red dr) (dr_blue dr) (AssignTeams (dr_teams dr) ps))"
  by (simp only: deal_def Let_def dealt_roles assign_keeps)

lemma length_AssignTeams [simp]: "length (AssignTeams rs ps) = length ps"
  by (simp add: AssignTeams_def Let_def)

text \<open>A choice of roles: each once and from the configuration, with positive numbers.\<close>

definition good_choice :: "Go_RoleDef list \<Rightarrow> (string \<times> int) list \<Rightarrow> bool" where
  "good_choice defs selected \<longleftrightarrow>
     distinct (map grd_id defs) \<and> distinct (map fst selected) \<and> selected \<noteq> [] \<and>
     fst ` set selected \<subseteq> grd_id ` set defs \<and> list_all (\<lambda>(i, k). 1 \<le> k) selected"

lemma choice_total:
  assumes "good_choice defs selected"
  shows "sum_list (map (\<lambda>d. GetCount n (grd_count d)) (selectedDefs selected defs)) = sum_list (map snd selected)"
    and "counted n (selectedDefs selected defs)"
    and "totalSelected n selected defs = sum_list (map snd selected)"
proof -
  let ?ch = "selectedDefs selected defs"
  note g = assms [unfolded good_choice_def]
  have m: "mset (map (\<lambda>d. (grd_id d, GetCount n (grd_count d))) ?ch) = mset selected"
    using g by (intro chosen_pairs) simp_all
  have "mset (map snd (map (\<lambda>d. (grd_id d, GetCount n (grd_count d))) ?ch)) = mset (map snd selected)"
    using m by (metis mset_map)
  then have s: "mset (map (\<lambda>d. GetCount n (grd_count d)) ?ch) = mset (map snd selected)" by (simp add: comp_def)
  show t: "sum_list (map (\<lambda>d. GetCount n (grd_count d)) ?ch) = sum_list (map snd selected)"
    using arg_cong [OF s, of sum_mset] by (simp only: sum_mset_sum_list)
  show "totalSelected n selected defs = sum_list (map snd selected)" using g t by (simp add: totalSelected_def)
  have "set (map (\<lambda>d. GetCount n (grd_count d)) ?ch) = set (map snd selected)" using s by (metis set_mset_mset)
  moreover have "0 \<le> k" if "k \<in> set (map snd selected)" for k
    using that g by (force simp: list_all_iff)
  ultimately have "0 \<le> k" if "k \<in> set (map (\<lambda>d. GetCount n (grd_count d)) ?ch)" for k using that by blast
  then show "counted n ?ch" by (simp add: counted_def list_all_iff)
qed

lemma dealt_full:
  assumes "good_choice defs selected" "int (length ps) = sum_list (map snd selected)"
  shows "dealt (deal dr (Some defs) selected ps) = mset (concat (map (\<lambda>(i, k). replicate (nat k) (Some i)) selected))"
proof -
  let ?ch = "selectedDefs selected defs" and ?n = "int (length ps)"
  let ?ts = "AssignTeams (dr_teams dr) ps"
  note c = choice_total [OF assms(1), of ?n]
  obtain qs where qs: "AssignRolesWithConfig dr (Some defs) selected ?ts = Inr qs"
    and m: "mset (map gp_role qs) = image_mset Some (mset (concat (map (\<lambda>d. replicate (nat (GetCount ?n (grd_count d)))
          (createRoleFromConfig d)) ?ch)))"
    using config_census [of ?ts selected defs "sum_list (map snd selected)" dr] c assms(2) by auto
  have r: "mset (map (\<lambda>d. (grd_id d, GetCount ?n (grd_count d))) ?ch) = mset selected"
    using assms(1) by (intro chosen_pairs) (simp_all add: good_choice_def)
  have "dealt (deal dr (Some defs) selected ps) = image_mset (map_option gro_id) (mset (map gp_role qs))"
    unfolding dealt_deal qs sum.case by (rule dealt_roles)
  also have "\<dots> = mset (concat (map (\<lambda>(i, k). replicate (nat k) (Some i)) (map (\<lambda>d. (grd_id d, GetCount ?n (grd_count d))) ?ch)))"
  proof -
    have "image_mset (map_option gro_id) (image_mset Some (mset (concat (map (\<lambda>d. replicate (nat (GetCount ?n (grd_count d)))
          (createRoleFromConfig d)) ds)))) =
        mset (concat (map (\<lambda>(i, k). replicate (nat k) (Some i)) (map (\<lambda>d. (grd_id d, GetCount ?n (grd_count d))) ds)))" for ds
      by (induction ds) (simp_all add: createRoleFromConfig_def)
    then show ?thesis unfolding m .
  qed
  also have "\<dots> = mset (concat (map (\<lambda>(i, k). replicate (nat k) (Some i)) selected))"
    unfolding mset_concat_map r ..
  finally show ?thesis .
qed

lemma dealt_short:
  assumes "good_choice defs selected" "int (length ps) < sum_list (map snd selected)" "6 \<le> length ps"
  shows "dealt (deal dr (Some defs) selected ps) = image_mset (Some \<circ> gro_id) (hard_census (length ps))"
proof -
  have "AssignRolesWithConfig dr (Some defs) selected (AssignTeams (dr_teams dr) ps) = Inl ''too many roles selected''"
    using choice_total(3) [OF assms(1), of "int (length ps)"] assms(2) by (simp add: AssignRolesWithConfig_def Let_def)
  then show ?thesis
    unfolding dealt_deal
    by (simp add: dealt_roles hard_census_dealt [OF assms(3)] image_mset.compositionality comp_def del: mset_map)
qed

text \<open>Everybody is dealt a role, a team and a room.\<close>

lemma write_each_all:
  assumes "\<And>k p. g (f k p) \<noteq> None" "None \<notin> set (map g ps)"
  shows "None \<notin> set (map g (write_each order f ps))"
proof (induction order rule: rev_induct)
  case (snoc i order)
  let ?qs = "write_each order f ps"
  have "set (map g (?qs[i := f (length order) (?qs ! i)])) \<subseteq> insert (g (f (length order) (?qs ! i))) (set (map g ?qs))"
    unfolding map_update by (rule set_update_subset_insert)
  then show ?case using snoc assms(1) [of "length order" "?qs ! i"] unfolding write_each_snoc Let_def by (metis insert_iff subsetD)
qed (use assms(2) in simp)

lemma filled_by_three:
  assumes "mset (a @ b @ c) = mset [0..<length ps]" "\<And>k p. g (f1 k p) = Some (F1 k)" "\<And>k p. g (f2 k p) = Some (F2 k)"
    "\<And>k p. g (f3 k p) = Some (F3 k)"
  shows "None \<notin> set (map g (write_each c f3 (write_each b f2 (write_each a f1 ps))))"
proof -
  let ?xs = "map g (write_each c f3 (write_each b f2 (write_each a f1 ps)))"
  have "set ?xs = set_mset (mset ?xs)" by (rule set_mset_mset [symmetric])
  also have "\<dots> = set (map (\<lambda>k. Some (F1 k)) [0..<length a] @ map (\<lambda>k. Some (F2 k)) [0..<length b] @ map (\<lambda>k. Some (F3 k)) [0..<length c])"
    using census_three [OF assms(1), of g f1 "\<lambda>k. Some (F1 k)" f2 "\<lambda>k. Some (F2 k)" f3 "\<lambda>k. Some (F3 k)"] assms(2-4)
    by (simp only: set_mset_mset)
  finally show ?thesis by auto
qed

lemma config_dealt:
  assumes "AssignRolesWithConfig dr cfg selected ps = Inr qs" "None \<notin> set (map gp_team ps)"
  shows "None \<notin> set (map gp_role qs)" "None \<notin> set (map gp_team qs)"
proof -
  obtain side order xs defs where q: "order = shuffle (dr_players dr) [0..<length ps]"
      "xs = write_each order (\<lambda>k p. p\<lparr>gp_team := Some (side k)\<rparr>) ps" "qs =
      assignTeamRoles (dr_grey dr) (on_side side order GREY) GREY (int (length ps)) defs
        (assignTeamRoles (dr_blue dr) (on_side side order BLUE) BLUE (int (length ps)) defs
          (assignTeamRoles (dr_red dr) (on_side side order RED) RED (int (length ps)) defs xs))"
    using assms(1) by (auto simp: AssignRolesWithConfig_def Let_def split: option.splits if_splits)
  have m: "mset (shuffle (dr_red dr) (on_side side order RED) @ shuffle (dr_blue dr) (on_side side order BLUE) @
      shuffle (dr_grey dr) (on_side side order GREY)) = mset [0..<length xs]"
    using sides_are_all [of side order] by (simp add: q(1,2))
  show "None \<notin> set (map gp_role qs)"
    unfolding q(3) assignTeamRoles_def Let_def by (rule filled_by_three [OF m]) simp_all
  have e: "map gp_team qs = map gp_team xs"
    unfolding q(3) assignTeamRoles_def Let_def by (simp add: map_write_each del: list.map_comp)
  show "None \<notin> set (map gp_team qs)" unfolding e q(2) by (rule write_each_all [OF _ assms(2)]) simp
qed

lemma everybody_dealt:
  assumes "6 \<le> length ps"
  shows "\<forall>p \<in> set (deal dr cfg selected ps). gp_role p \<noteq> None \<and> gp_team p \<noteq> None \<and> gp_room p \<noteq> None"
proof -
  let ?ts = "AssignTeams (dr_teams dr) ps"
  define qs where "qs = (case AssignRolesWithConfig dr cfg selected ?ts of
      Inr qs \<Rightarrow> qs | Inl _ \<Rightarrow> AssignRoles (dr_red dr) (dr_blue dr) ?ts)"
  have d: "deal dr cfg selected ps = AssignRooms (dr_rooms dr) qs" by (simp add: deal_def qs_def Let_def)
  have "set (map gp_team ?ts) = set_mset (mset (map gp_team ?ts))" by (rule set_mset_mset [symmetric])
  then have t: "None \<notin> set (map gp_team ?ts)" unfolding team_census by (auto split: if_splits)
  have "set (map gp_role (AssignRoles (dr_red dr) (dr_blue dr) ?ts)) = set_mset (mset (map gp_role (AssignRoles (dr_red dr) (dr_blue dr) ?ts)))"
    by (rule set_mset_mset [symmetric])
  then have h: "None \<notin> set (map gp_role (AssignRoles (dr_red dr) (dr_blue dr) ?ts))" unfolding hard_census_dealt [OF assms] by auto
  have ht: "map gp_team (AssignRoles (dr_red dr) (dr_blue dr) ?ts) = map gp_team ?ts"
    by (simp add: AssignRoles_def Let_def map_write_each del: list.map_comp)
  have q: "None \<notin> set (map gp_role qs)" "None \<notin> set (map gp_team qs)"
    unfolding qs_def using config_dealt [OF _ t] t h ht by (auto split: sum.splits simp del: set_map)
  have r: "map gp_team (AssignRooms (dr_rooms dr) qs) = map gp_team qs"
    by (simp add: AssignRooms_def Let_def map_write_each del: list.map_comp)
  have "set (map gp_room (AssignRooms (dr_rooms dr) qs)) = set_mset (mset (map gp_room (AssignRooms (dr_rooms dr) qs)))"
    by (rule set_mset_mset [symmetric])
  then have "None \<notin> set (map gp_room (AssignRooms (dr_rooms dr) qs))" unfolding room_census by (auto split: if_splits)
  then show ?thesis
    using q unfolding d r [symmetric] assign_keeps(4) [symmetric, of qs "dr_rooms dr"] by (metis imageI set_map)
qed

end
