(* ===== verification/Server_Rooms.thy ===== *)
theory Server_Rooms
  imports Server_Roles
begin

text \<open>
  The rooms of the server: the store (\<open>store/room_store.go\<close>), joining, leaving and renaming
  (\<open>player_service.go\<close>), the game (\<open>game_service.go\<close>), its rounds (\<open>round_manager.go\<close>) and their leaders
  (\<open>leader_service.go\<close>). An operation takes the state of the server and gives an error or a result,
  the new state and the messages that it sends, with the players who get them. The clock, new
  identifiers and random numbers come from outside. Every call runs without interruption; what it
  starts with \<open>go\<close> is a job that runs later.
\<close>

section \<open>State\<close>

text \<open>A session of voting, in \<open>models/vote_session.go\<close>; the votes by player.\<close>

record Go_Vote =
  gv_id :: string
  gv_type :: VoteType
  gv_room :: RoomColor
  gv_target :: string
  gv_targetName :: string
  gv_initiator :: string
  gv_initiatorName :: string
  gv_candidates :: "string list"
  gv_startedAt :: string
  gv_totalVoters :: int
  gv_votes :: "(string, string) js_map"
  gv_status :: VoteSessionStatus

datatype job =
    JobExchange string
  | JobComplete string string
  | JobTimeout string string
  | JobElection string RoomColor string bool
  | JobNextRound string int
  | JobReveal string

text \<open>
  The vote that is registered for a room and colour, the jobs, and the timers by the session that
  started them, each with its room.
\<close>

record Server =
  sv_rooms :: "string \<Rightarrow> Go_Room option"
  sv_votes :: "string \<Rightarrow> Go_Vote option"
  sv_roomVotes :: "string \<times> RoomColor \<Rightarrow> string option"
  sv_jobs :: "job list"
  sv_timers :: "(string, string) js_map"

definition empty_server :: Server where
  "empty_server = \<lparr>sv_rooms = \<lambda>_. None, sv_votes = \<lambda>_. None, sv_roomVotes = \<lambda>_. None, sv_jobs = [], sv_timers = []\<rparr>"

text \<open>A message with its room and, unless it goes to all of the room, the players who get it.\<close>

datatype sent = Sent (sent_room: string) (sent_to: "string list option") (sent_message: Server_Message)

type_synonym 'a outcome = "(string + 'a) \<times> Server \<times> sent list"

definition fail :: "string \<Rightarrow> Server \<Rightarrow> 'a outcome" where
  "fail e sv = (Inl e, sv, [])"

definition done_with :: "'a \<Rightarrow> Server \<Rightarrow> sent list \<Rightarrow> 'a outcome" where
  "done_with x sv out = (Inr x, sv, out)"

text \<open>What comes from outside.\<close>

record World =
  wd_now :: string
  wd_uuid :: string
  wd_draws :: Draws
  wd_red :: nat
  wd_blue :: nat

text \<open>
  A room is written back. The store (\<open>room_store.go\<close>, \<open>Update\<close>) also stamps the time of every such change
  on the room; here \<open>gr_updatedAt\<close> is the time of the last change for which the operation sets it itself.
  The client reads the field and uses it nowhere.
\<close>

definition put_room :: "Go_Room \<Rightarrow> Server \<Rightarrow> Server" where
  "put_room r sv = sv\<lparr>sv_rooms := (sv_rooms sv)(gr_code r := Some r)\<rparr>"

definition add_job :: "job \<Rightarrow> Server \<Rightarrow> Server" where
  "add_job j sv = sv\<lparr>sv_jobs := sv_jobs sv @ [j]\<rparr>"

definition find_go :: "string \<Rightarrow> Go_Player list \<Rightarrow> Go_Player option" where
  "find_go i ps = find (\<lambda>p. gp_id p = i) ps"

definition leader_info :: "Go_Player \<Rightarrow> LeaderInfo" where
  "leader_info p = \<lparr>leader_id = gp_id p, leader_nickname = gp_nickname p\<rparr>"

definition in_color :: "RoomColor \<Rightarrow> Go_Player list \<Rightarrow> Go_Player list" where
  "in_color c ps = filter (\<lambda>p. gp_room p = Some c) ps"

text \<open>The round of a room, if a game is on, and a change of it.\<close>

definition round_of :: "Go_Room \<Rightarrow> RoundState option" where
  "round_of r = Option.bind (gr_session r) gs_roundState"

definition set_round :: "RoundState \<Rightarrow> Go_Room \<Rightarrow> Go_Room" where
  "set_round rs r = r\<lparr>gr_session := map_option (\<lambda>g. g\<lparr>gs_roundState := Some rs\<rparr>) (gr_session r)\<rparr>"

section \<open>Players\<close>

definition CreateRoom :: "string \<Rightarrow> World \<Rightarrow> int \<Rightarrow> bool \<Rightarrow> string \<Rightarrow> (string \<times> int) list \<Rightarrow> Server \<Rightarrow> string outcome" where
  "CreateRoom new_code w max_players is_public config selected sv =
     (if max_players < 6 \<or> max_players > 30 then fail ''maxPlayers must be between 6 and 30'' sv
      else if sv_rooms sv new_code \<noteq> None then fail ''failed to generate unique room code'' sv
      else done_with new_code
        (put_room \<lparr>gr_code = new_code, gr_status = WAITING, gr_players = [], gr_maxPlayers = max_players, gr_session = None,
           gr_isPublic = is_public, gr_roleConfigId = (if config = '''' then ''standard'' else config),
           gr_selectedRoles = selected, gr_createdAt = wd_now w, gr_updatedAt = wd_now w\<rparr> sv) [])"

definition JoinRoom :: "World \<Rightarrow> string \<Rightarrow> Server \<Rightarrow> Go_Player outcome" where
  "JoinRoom w rc sv =
     (case sv_rooms sv rc of
        None \<Rightarrow> fail ''room not found'' sv
      | Some r \<Rightarrow>
          if int (length (gr_players r)) \<ge> gr_maxPlayers r then fail ''room is full'' sv
          else if gr_status r = IN_PROGRESS then fail ''game already started'' sv
          else
            (let p = \<lparr>gp_id = wd_uuid w, gp_nickname = ''Player'' @ int_str (int (length (gr_players r)) + 1),
                 gp_isAnonymous = True, gp_roomCode = rc, gp_isOwner = (gr_players r = []), gp_role = None,
                 gp_team = None, gp_room = None, gp_connectedAt = wd_now w\<rparr>
             in done_with p (put_room (r\<lparr>gr_players := gr_players r @ [p], gr_updatedAt := wd_now w\<rparr>) sv)
                  [Sent rc None (S_PlayerJoined p)]))"

text \<open>
  \<open>handleDuplicateNickname\<close>: the name, or the name with the first free number from two on; the loop ends
  with the number 101.
\<close>

definition name_taken :: "string \<Rightarrow> string \<Rightarrow> Go_Player list \<Rightarrow> bool" where
  "name_taken playerId n ps = list_ex (\<lambda>p. gp_id p \<noteq> playerId \<and> gp_nickname p = n) ps"

definition numbered :: "string \<Rightarrow> nat \<Rightarrow> string" where
  "numbered n k = n @ '' ('' @ nat_str k @ '')''"

function free_name :: "string \<Rightarrow> string \<Rightarrow> Go_Player list \<Rightarrow> nat \<Rightarrow> string" where
  "free_name playerId n ps suffix =
     (if \<not> name_taken playerId (numbered n suffix) ps then numbered n suffix
      else if suffix + 1 > 100 then numbered n (suffix + 1)
      else free_name playerId n ps (suffix + 1))"
  by pat_completeness auto
termination by (relation "measure (\<lambda>(_, _, _, suffix). 101 - suffix)") auto

declare free_name.simps [simp del]

definition handleDuplicateNickname :: "Go_Player list \<Rightarrow> string \<Rightarrow> string \<Rightarrow> string" where
  "handleDuplicateNickname ps playerId n = (if name_taken playerId n ps then free_name playerId n ps 2 else n)"

text \<open>A change of the first element that satisfies a condition.\<close>

fun update_first :: "('a \<Rightarrow> bool) \<Rightarrow> ('a \<Rightarrow> 'a) \<Rightarrow> 'a list \<Rightarrow> 'a list" where
  "update_first P f [] = []"
| "update_first P f (x # xs) = (if P x then f x # xs else x # update_first P f xs)"

definition UpdateNickname :: "World \<Rightarrow> string \<Rightarrow> string \<Rightarrow> string \<Rightarrow> Server \<Rightarrow> Go_Player outcome" where
  "UpdateNickname w rc playerId n sv =
     (if length n < 2 \<or> length n > 20 then fail ''invalid nickname'' sv
      else case sv_rooms sv rc of
        None \<Rightarrow> fail ''room not found'' sv
      | Some r \<Rightarrow>
          (case find_go playerId (gr_players r) of
             None \<Rightarrow> fail ''player not found'' sv
           | Some p \<Rightarrow>
               (let n' = handleDuplicateNickname (gr_players r) playerId n;
                    p' = p\<lparr>gp_nickname := n', gp_isAnonymous := False\<rparr>;
                    ps = update_first (\<lambda>q. gp_id q = playerId) (\<lambda>q. q\<lparr>gp_nickname := n', gp_isAnonymous := False\<rparr>) (gr_players r)
                in done_with p' (put_room (r\<lparr>gr_players := ps, gr_updatedAt := wd_now w\<rparr>) sv)
                     [Sent rc None (S_NicknameChanged playerId n')])))"

definition LeaveRoom :: "World \<Rightarrow> string \<Rightarrow> string \<Rightarrow> Server \<Rightarrow> unit outcome" where
  "LeaveRoom w rc playerId sv =
     (case sv_rooms sv rc of
        None \<Rightarrow> fail ''room not found'' sv
      | Some r \<Rightarrow>
          (case find_go playerId (gr_players r) of
             None \<Rightarrow> fail ''player not found'' sv
           | Some p \<Rightarrow>
               if gr_status r = IN_PROGRESS then done_with () sv [Sent rc None (S_PlayerLeft playerId)]
               else if gp_isOwner p then
                 done_with () (sv\<lparr>sv_rooms := (sv_rooms sv)(rc := None)\<rparr>)
                   [Sent rc None (S_RoomClosed ''The host has left'')]
               else
                 (let ps = remove1 p (gr_players r) in
                  if ps = [] then done_with () (sv\<lparr>sv_rooms := (sv_rooms sv)(rc := None)\<rparr>) []
                  else done_with () (put_room (r\<lparr>gr_players := ps, gr_updatedAt := wd_now w\<rparr>) sv)
                         [Sent rc None (S_PlayerLeft playerId)])))"

definition UpdateRoomVisibility :: "World \<Rightarrow> string \<Rightarrow> string \<Rightarrow> bool \<Rightarrow> Server \<Rightarrow> unit outcome" where
  "UpdateRoomVisibility w rc playerId is_public sv =
     (case sv_rooms sv rc of
        None \<Rightarrow> fail ''room not found'' sv
      | Some r \<Rightarrow>
          if \<not> list_ex (\<lambda>p. gp_id p = playerId \<and> gp_isOwner p) (gr_players r)
            then fail ''only the room owner can change visibility'' sv
          else done_with () (put_room (r\<lparr>gr_isPublic := is_public, gr_updatedAt := wd_now w\<rparr>) sv) [])"

section \<open>Rounds\<close>

definition GetRoundDuration :: "int \<Rightarrow> int" where
  "GetRoundDuration n = (if n = 1 then 180 else if n = 2 then 120 else if n = 3 then 60 else 180)"

definition GetHostageCount :: "int \<Rightarrow> int \<Rightarrow> int" where
  "GetHostageCount playerCount n =
     (if playerCount \<le> 10 then 1
      else if playerCount \<le> 21 then (if n = 1 then 2 else 1)
      else (if n = 1 then 3 else if n = 2 then 2 else if n = 3 then 1 else 1))"

definition broadcastRoundStarted :: "Go_Room \<Rightarrow> RoundState \<Rightarrow> sent" where
  "broadcastRoundStarted r rs =
     Sent (gr_code r) None (S_RoundStarted
       \<lparr>rst_roundNumber = rs_roundNumber rs, rst_duration = rs_duration rs, rst_timeRemaining = rs_timeRemaining rs,
        rst_redLeader = map_option leader_info (find_go (redLeaderId rs) (gr_players r)),
        rst_blueLeader = map_option leader_info (find_go (blueLeaderId rs) (gr_players r)),
        rst_hostageCount = hostageCount rs\<rparr>)"

text \<open>A session has one timer; an older one of the same session is stopped.\<close>

definition startTimer :: "string \<Rightarrow> string \<Rightarrow> Server \<Rightarrow> Server" where
  "startTimer rc sessionID sv = sv\<lparr>sv_timers := map_set sessionID rc (map_delete sessionID (sv_timers sv))\<rparr>"

definition StartRound :: "World \<Rightarrow> string \<Rightarrow> int \<Rightarrow> Server \<Rightarrow> unit outcome" where
  "StartRound w rc n sv =
     (case sv_rooms sv rc of
        None \<Rightarrow> fail ''room not found'' sv
      | Some r \<Rightarrow>
          (case gr_session r of
             None \<Rightarrow> fail ''no active game session'' sv
           | Some g \<Rightarrow>
               if n < 1 \<or> n > 3 then fail ''invalid round number: must be 1, 2, or 3'' sv
               else
                 (let rs = \<lparr>rs_gameSessionId = gs_id g, rs_roundNumber = n, rs_duration = GetRoundDuration n,
                        rs_timeRemaining = GetRoundDuration n, rs_status = SETUP,
                        redLeaderId = (case gs_roundState g of None \<Rightarrow> '''' | Some o' \<Rightarrow> redLeaderId o'),
                        blueLeaderId = (case gs_roundState g of None \<Rightarrow> '''' | Some o' \<Rightarrow> blueLeaderId o'),
                        hostageCount = GetHostageCount (int (length (gr_players r))) n, redHostages = [],
                        blueHostages = [], redLeaderReady = False, blueLeaderReady = False, rs_startedAt = wd_now w,
                        rs_endedAt = None\<rparr>;
                      r' = r\<lparr>gr_session := Some (g\<lparr>gs_currentRound := n, gs_roundState := Some rs\<rparr>)\<rparr>
                  in done_with () (startTimer rc (gs_id g) (put_room r' sv)) [broadcastRoundStarted r' rs])))"

text \<open>The picks of \<open>rand.Intn\<close> are any numbers, taken modulo the number of players.\<close>

definition AssignLeaders :: "World \<Rightarrow> string \<Rightarrow> Server \<Rightarrow> unit outcome" where
  "AssignLeaders w rc sv =
     (case sv_rooms sv rc of
        None \<Rightarrow> fail ''room not found'' sv
      | Some r \<Rightarrow>
          (case round_of r of
             None \<Rightarrow> fail ''no active round'' sv
           | Some rs \<Rightarrow>
               (let red = in_color RED_ROOM (gr_players r); blue = in_color BLUE_ROOM (gr_players r) in
                if red = [] \<or> blue = [] then fail ''both rooms must have at least one player'' sv
                else
                  (let rl = red ! (wd_red w mod length red); bl = blue ! (wd_blue w mod length blue) in
                   if gp_id rl = gp_id bl then fail ''leaders cannot be the same player'' sv
                   else
                     (let rs' = rs\<lparr>redLeaderId := gp_id rl, blueLeaderId := gp_id bl, rs_status := ACTIVE\<rparr>;
                          r' = set_round rs' r
                      in done_with () (put_room r' sv)
                           [Sent rc None (S_RoundStarted
                              \<lparr>rst_roundNumber = rs_roundNumber rs', rst_duration = rs_duration rs',
                               rst_timeRemaining = rs_timeRemaining rs', rst_redLeader = Some (leader_info rl),
                               rst_blueLeader = Some (leader_info bl), rst_hostageCount = hostageCount rs'\<rparr>)])))))"

definition PreserveLeaders :: "string \<Rightarrow> Server \<Rightarrow> unit outcome" where
  "PreserveLeaders rc sv =
     (case sv_rooms sv rc of
        None \<Rightarrow> fail ''room not found'' sv
      | Some r \<Rightarrow>
          (case round_of r of
             None \<Rightarrow> fail ''no active round'' sv
           | Some rs \<Rightarrow>
               (case (find_go (redLeaderId rs) (gr_players r), find_go (blueLeaderId rs) (gr_players r)) of
                  (Some rl, Some bl) \<Rightarrow>
                    (let rs' = rs\<lparr>rs_status := ACTIVE\<rparr>; r' = set_round rs' r in
                     done_with () (put_room r' sv)
                       [Sent rc None (S_RoundStarted
                          \<lparr>rst_roundNumber = rs_roundNumber rs', rst_duration = rs_duration rs',
                           rst_timeRemaining = rs_timeRemaining rs', rst_redLeader = Some (leader_info rl),
                           rst_blueLeader = Some (leader_info bl), rst_hostageCount = hostageCount rs'\<rparr>)])
                | _ \<Rightarrow> fail ''existing leaders not found'' sv)))"

text \<open>
  A second of a timer: it looks at the round that its room has now, whichever session started it. A
  timer whose room has no round ends; \<open>None\<close> says so.
\<close>

definition tickTimer :: "string \<Rightarrow> Server \<Rightarrow> unit outcome" where
  "tickTimer rc sv =
     (case sv_rooms sv rc of
        None \<Rightarrow> fail ''room not found'' sv
      | Some r \<Rightarrow>
          (case round_of r of
             None \<Rightarrow> fail ''no active round'' sv
           | Some rs \<Rightarrow>
               if rs_timeRemaining rs \<le> 0 then done_with () sv []
               else
                 (let rs' = rs\<lparr>rs_timeRemaining := rs_timeRemaining rs - 1\<rparr>;
                      tick = Sent rc None (S_TimerTick (rs_roundNumber rs') (rs_timeRemaining rs'))
                  in if rs_timeRemaining rs' = 0 then
                       done_with () (put_room (set_round (rs'\<lparr>rs_status := SELECTING\<rparr>) r) sv)
                         [tick, Sent rc None (S_RoundEnding (rs_roundNumber rs') (hostageCount rs'))]
                     else done_with () (put_room (set_round rs' r) sv) [tick])))"

definition tick :: "string \<Rightarrow> Server \<Rightarrow> Server \<times> sent list" where
  "tick sessionID sv =
     (case map_get (sv_timers sv) sessionID of
        None \<Rightarrow> (sv, [])
      | Some rc \<Rightarrow>
          (case tickTimer rc sv of
             (Inl _, sv', out) \<Rightarrow> (sv'\<lparr>sv_timers := map_delete sessionID (sv_timers sv')\<rparr>, out)
           | (Inr _, sv', out) \<Rightarrow> (sv', out)))"

definition GoLeaderReady :: "string \<Rightarrow> string \<Rightarrow> Server \<Rightarrow> unit outcome" where
  "GoLeaderReady rc leaderID sv =
     (case sv_rooms sv rc of
        None \<Rightarrow> fail ''room not found'' sv
      | Some r \<Rightarrow>
          (case round_of r of
             None \<Rightarrow> fail ''no active round'' sv
           | Some rs \<Rightarrow>
               if redLeaderId rs \<noteq> leaderID \<and> blueLeaderId rs \<noteq> leaderID then fail ''player is not a leader'' sv
               else if redLeaderId rs = leaderID \<and> redLeaderReady rs then fail ''red leader already ready'' sv
               else if redLeaderId rs \<noteq> leaderID \<and> blueLeaderReady rs then fail ''blue leader already ready'' sv
               else
                 (let red = (redLeaderId rs = leaderID);
                      rs' = (if red then rs\<lparr>redLeaderReady := True\<rparr> else rs\<lparr>blueLeaderReady := True\<rparr>);
                      both = (redLeaderReady rs' \<and> blueLeaderReady rs');
                      sv' = put_room (set_round rs' r) sv;
                      sv'' = (if \<not> both then sv'
                              else if rs_roundNumber rs' = 3 then add_job (JobReveal rc) sv'
                              else add_job (JobNextRound rc (rs_roundNumber rs' + 1)) sv')
                  in done_with () sv''
                       [Sent rc None (S_LeaderReady (if red then RED_ROOM else BLUE_ROOM) leaderID both)])))"

definition transitionToRevealing :: "string \<Rightarrow> Server \<Rightarrow> unit outcome" where
  "transitionToRevealing rc sv =
     (case sv_rooms sv rc of
        None \<Rightarrow> fail ''room not found'' sv
      | Some r \<Rightarrow>
          if gr_session r = None then fail ''no active game session'' sv
          else done_with () (put_room (r\<lparr>gr_status := REVEALING\<rparr>) sv)
            [Sent rc None (S_GameRevealing ''All rounds have ended. The roles are now revealed.'')])"

text \<open>The job that starts the next round, once both leaders are ready.\<close>

definition startNextRound :: "World \<Rightarrow> string \<Rightarrow> int \<Rightarrow> Server \<Rightarrow> unit outcome" where
  "startNextRound w rc n sv =
     (case StartRound w rc n sv of
        (Inl e, sv', out) \<Rightarrow> (Inl e, sv', out)
      | (Inr _, sv', out) \<Rightarrow>
          (case PreserveLeaders rc sv' of (x, sv'', out') \<Rightarrow> (Inr (), sv'', out @ out')))"

section \<open>Leaders\<close>

definition IsLeader :: "string \<Rightarrow> string \<Rightarrow> Server \<Rightarrow> bool" where
  "IsLeader rc playerID sv =
     (case Option.bind (sv_rooms sv rc) round_of of
        None \<Rightarrow> False
      | Some rs \<Rightarrow> redLeaderId rs = playerID \<or> blueLeaderId rs = playerID)"

definition set_leader :: "RoomColor \<Rightarrow> string \<Rightarrow> RoundState \<Rightarrow> RoundState" where
  "set_leader c i rs = (if c = RED_ROOM then rs\<lparr>redLeaderId := i\<rparr> else rs\<lparr>blueLeaderId := i\<rparr>)"

definition broadcastLeadershipChanged ::
  "World \<Rightarrow> Go_Room \<Rightarrow> RoomColor \<Rightarrow> LeaderInfo option \<Rightarrow> LeaderInfo option \<Rightarrow> LeadershipChangeReason \<Rightarrow> sent" where
  "broadcastLeadershipChanged w r c old new why =
     Sent (gr_code r) (Some (map gp_id (in_color c (gr_players r))))
       (S_LeadershipChanged \<lparr>lc_roomColor = c, oldLeader = old, newLeader = new, reason = why, lc_timestamp = wd_now w\<rparr>)"

text \<open>The room of the players' colour; a leader without a colour is treated like one in the blue room.\<close>

definition GoTransferLeadership :: "World \<Rightarrow> string \<Rightarrow> string \<Rightarrow> string \<Rightarrow> Server \<Rightarrow> unit outcome" where
  "GoTransferLeadership w rc currentLeaderID newLeaderID sv =
     (case sv_rooms sv rc of
        None \<Rightarrow> fail ''room not found'' sv
      | Some r \<Rightarrow>
          (case round_of r of
             None \<Rightarrow> fail ''no active round'' sv
           | Some rs \<Rightarrow>
               if \<not> IsLeader rc currentLeaderID sv then fail ''only current leader can transfer leadership'' sv
               else if rs_status rs = SELECTING then fail ''cannot transfer leadership during hostage selection'' sv
               else case find_go currentLeaderID (gr_players r) of
                 None \<Rightarrow> fail ''current leader not found'' sv
               | Some old \<Rightarrow>
                   (case find_go newLeaderID (gr_players r) of
                      None \<Rightarrow> fail ''new leader not found'' sv
                    | Some new \<Rightarrow>
                        if gp_room new \<noteq> gp_room old then fail ''new leader must be in same room'' sv
                        else if newLeaderID = redLeaderId rs \<or> newLeaderID = blueLeaderId rs
                          then fail ''player is already a leader'' sv
                        else
                          (let c = (if gp_room old = Some RED_ROOM then RED_ROOM else BLUE_ROOM);
                               r' = set_round (set_leader c newLeaderID rs) r
                           in done_with () (put_room r' sv)
                                [broadcastLeadershipChanged w r' c (Some (leader_info old)) (Some (leader_info new))
                                   VOLUNTARY_TRANSFER]))))"

definition SetLeader :: "string \<Rightarrow> RoomColor \<Rightarrow> string \<Rightarrow> Server \<Rightarrow> Go_Player outcome" where
  "SetLeader rc c playerID sv =
     (case sv_rooms sv rc of
        None \<Rightarrow> fail ''room not found'' sv
      | Some r \<Rightarrow>
          (case round_of r of
             None \<Rightarrow> fail ''no active round'' sv
           | Some rs \<Rightarrow>
               (case find_go playerID (gr_players r) of
                  None \<Rightarrow> fail ''player not found'' sv
                | Some p \<Rightarrow>
                    if gp_room p \<noteq> Some c then fail ''player not in specified room'' sv
                    else done_with p (put_room (set_round (set_leader c playerID rs) r) sv) [])))"

section \<open>The game\<close>

text \<open>
  The start of a game: the deal, the announcement to all, the role to each, the first round and its
  leaders. The configuration is what the loader has for the identifier of the room.
\<close>

definition role_message :: "string \<Rightarrow> Go_Player \<Rightarrow> sent list" where
  "role_message rc p =
     (case (gp_role p, gp_team p, gp_room p) of
        (Some ro, Some t, Some c) \<Rightarrow> [Sent rc (Some [gp_id p]) (S_RoleAssigned ro t c)]
      | _ \<Rightarrow> [])"

definition GoStartGame :: "(string \<Rightarrow> Go_RoleDef list option) \<Rightarrow> World \<Rightarrow> string \<Rightarrow> Server \<Rightarrow> unit outcome" where
  "GoStartGame loader w rc sv =
     (case sv_rooms sv rc of
        None \<Rightarrow> fail ''room not found'' sv
      | Some r \<Rightarrow>
          if gr_status r = IN_PROGRESS then fail ''game already started'' sv
          else if length (gr_players r) < 6 then fail ''insufficient players: minimum 6 required'' sv
          else
            (let config = (if gr_roleConfigId r = '''' then ''standard'' else gr_roleConfigId r);
                 ps = deal (wd_draws w) (loader config) (gr_selectedRoles r) (gr_players r);
                 g = \<lparr>gs_id = wd_uuid w, gs_roomCode = rc, gs_startedAt = wd_now w, gs_currentRound = 0,
                      gs_roundState = None\<rparr>;
                 r' = r\<lparr>gr_players := ps, gr_status := IN_PROGRESS, gr_session := Some g, gr_updatedAt := wd_now w\<rparr>;
                 sv1 = put_room r' sv;
                 out1 = Sent rc None (S_GameStarted g) # concat (map (role_message rc) ps)
             in case StartRound w rc 1 sv1 of
                  (Inl _, sv2, out2) \<Rightarrow> done_with () sv2 (out1 @ out2)
                | (Inr _, sv2, out2) \<Rightarrow>
                    (case AssignLeaders w rc sv2 of (_, sv3, out3) \<Rightarrow> done_with () sv3 (out1 @ out2 @ out3))))"

definition GoResetGame :: "World \<Rightarrow> string \<Rightarrow> Server \<Rightarrow> unit outcome" where
  "GoResetGame w rc sv =
     (case sv_rooms sv rc of
        None \<Rightarrow> fail ''room not found'' sv
      | Some r \<Rightarrow>
          if gr_status r \<noteq> IN_PROGRESS then fail ''game not started'' sv
          else
            (let r' = r\<lparr>gr_session := None,
                   gr_players := map (\<lambda>p. p\<lparr>gp_role := None, gp_team := None, gp_room := None\<rparr>) (gr_players r),
                   gr_status := WAITING, gr_updatedAt := wd_now w\<rparr>
             in done_with () (put_room r' sv) [Sent rc None (S_GameReset r')]))"

end
