(* ===== verification/Server_Games.thy ===== *)
theory Server_Games
  imports Server_Rooms
begin

text \<open>
  The votes (\<open>voting_service.go\<close>) and the exchange of hostages (\<open>exchange_service.go\<close>) of the server, and
  the server as a machine: its requests, its jobs and its timers. The removal of old
  sessions is in \<open>Server_Upkeep\<close>. The order in which Go
  goes through the votes of an election, which decides among equals, comes from outside.
\<close>

section \<open>Votes\<close>

definition HasActiveVote :: "string \<Rightarrow> RoomColor \<Rightarrow> Server \<Rightarrow> bool" where
  "HasActiveVote rc c sv =
     (case Option.bind (sv_roomVotes sv (rc, c)) (sv_votes sv) of None \<Rightarrow> False | Some v \<Rightarrow> gv_status v = VoteActive)"

text \<open>The session of a new vote is stored, registered for its room, announced, and given thirty seconds.\<close>

definition open_session :: "string \<Rightarrow> Go_Room \<Rightarrow> Go_Vote \<Rightarrow> LeaderInfo \<Rightarrow> LeaderInfo \<Rightarrow> Server \<Rightarrow> string outcome" where
  "open_session rc r v target initiator sv =
     (let sv' = sv\<lparr>sv_votes := (sv_votes sv)(gv_id v := Some v),
            sv_roomVotes := (sv_roomVotes sv)((rc, gv_room v) := Some (gv_id v))\<rparr>
      in done_with (gv_id v) (add_job (JobTimeout (gv_id v) rc) sv')
           [Sent rc (Some (map gp_id (in_color (gv_room v) (gr_players r)))) (S_VoteStarted
              \<lparr>gvs_voteId = gv_id v, gvs_room = gv_room v, gvs_target = target, gvs_initiator = initiator,
               gvs_candidates = gv_candidates v, gvs_totalVoters = gv_totalVoters v, gvs_timeoutSeconds = 30,
               gvs_startedAt = gv_startedAt v\<rparr>)])"

definition GoStartVote :: "World \<Rightarrow> string \<Rightarrow> string \<Rightarrow> string \<Rightarrow> RoomColor \<Rightarrow> Server \<Rightarrow> string outcome" where
  "GoStartVote w rc initiatorID targetLeaderID c sv =
     (case sv_rooms sv rc of
        None \<Rightarrow> fail ''room not found'' sv
      | Some r \<Rightarrow>
          (case round_of r of
             None \<Rightarrow> fail ''no active round'' sv
           | Some rs \<Rightarrow>
               if rs_status rs = SELECTING then fail ''cannot start vote during hostage selection'' sv
               else case find_go initiatorID (gr_players r) of
                 None \<Rightarrow> fail ''initiator not found'' sv
               | Some initiator \<Rightarrow>
                   if gp_room initiator \<noteq> Some c then fail ''initiator not in specified room'' sv
                   else if IsLeader rc initiatorID sv then fail ''leader cannot vote to remove themselves'' sv
                   else if \<not> IsLeader rc targetLeaderID sv then fail ''target is not a leader'' sv
                   else case find_go targetLeaderID (gr_players r) of
                     None \<Rightarrow> fail ''target leader not in specified room'' sv
                   | Some target \<Rightarrow>
                       if gp_room target \<noteq> Some c then fail ''target leader not in specified room'' sv
                       else if length (in_color c (gr_players r)) < 3
                         then fail ''minimum 3 players required to start vote'' sv
                       else if HasActiveVote rc c sv then fail ''another vote is already in progress'' sv
                       else open_session rc r
                         \<lparr>gv_id = wd_uuid w, gv_type = REMOVAL, gv_room = c, gv_target = targetLeaderID,
                          gv_targetName = gp_nickname target, gv_initiator = initiatorID,
                          gv_initiatorName = gp_nickname initiator, gv_candidates = [], gv_startedAt = wd_now w,
                          gv_totalVoters = int (length (in_color c (gr_players r))), gv_votes = [],
                          gv_status = VoteActive\<rparr>
                         (leader_info target) (leader_info initiator) sv))"

definition GoCastVote :: "int \<Rightarrow> string \<Rightarrow> string \<Rightarrow> string \<Rightarrow> string \<Rightarrow> Server \<Rightarrow> unit outcome" where
  "GoCastVote timeRemaining rc vid playerID vote sv =
     (case sv_votes sv vid of
        None \<Rightarrow> fail ''vote session not found'' sv
      | Some v \<Rightarrow>
          if gv_status v \<noteq> VoteActive then fail ''vote session is not active'' sv
          else if map_get (gv_votes v) playerID \<noteq> None then fail ''player has already voted'' sv
          else if gv_type v = REMOVAL \<and> vote \<noteq> ''YES'' \<and> vote \<noteq> ''NO'' then fail ''invalid vote choice for removal vote'' sv
          else if gv_type v = ELECTION \<and> vote \<notin> set (gv_candidates v) then fail ''invalid candidate ID'' sv
          else
            (let v' = v\<lparr>gv_votes := map_set playerID vote (gv_votes v)\<rparr>;
                 sv' = sv\<lparr>sv_votes := (sv_votes sv)(vid := Some v')\<rparr>;
                 votedCount = int (length (gv_votes v'));
                 out = (case sv_rooms sv rc of
                     None \<Rightarrow> []
                   | Some r \<Rightarrow> [Sent rc (Some (map gp_id (in_color (gv_room v) (gr_players r))))
                       (S_VoteProgress vid votedCount (gv_totalVoters v) (max 0 timeRemaining))])
             in done_with () (if votedCount = gv_totalVoters v then add_job (JobComplete rc vid) sv' else sv') out))"

definition tally :: "string \<Rightarrow> Go_Vote \<Rightarrow> int" where
  "tally x v = int (length (filter (\<lambda>(_, y). y = x) (gv_votes v)))"

text \<open>The candidates in the order in which the loop meets them: the first with the most votes wins.\<close>

definition winner :: "string list \<Rightarrow> Go_Vote \<Rightarrow> string" where
  "winner order v = fst (foldl (\<lambda>(best, m) i. if tally i v > m then (i, tally i v) else (best, m)) ('''', 0) order)"

definition target_info :: "Go_Vote \<Rightarrow> Go_Room \<Rightarrow> LeaderInfo option" where
  "target_info v r = (if gv_target v = '''' then None else map_option leader_info (find_go (gv_target v) (gr_players r)))"

definition vote_completed :: "string \<Rightarrow> Go_Room \<Rightarrow> Go_Vote \<Rightarrow> Go_Vote_Completed \<Rightarrow> sent" where
  "vote_completed rc r v c = Sent rc (Some (map gp_id (in_color (gv_room v) (gr_players r)))) (S_VoteCompleted c)"

definition no_votes :: "Go_Vote \<Rightarrow> int" where
  "no_votes v = int (length (gv_votes v)) - tally ''YES'' v"

text \<open>The winner of an election, if there is one, is made the leader.\<close>

definition elect :: "string \<Rightarrow> RoomColor \<Rightarrow> string \<Rightarrow> Server \<Rightarrow> Go_Player option \<times> Server" where
  "elect rc c i sv =
     (if i = '''' then (None, sv)
      else (case SetLeader rc c i sv of (Inr p, sv', _) \<Rightarrow> (Some p, sv') | (Inl _, sv', _) \<Rightarrow> (None, sv')))"

text \<open>
  \<open>CompleteVote\<close>, when all have voted. The room's registration stays if an election is to follow, which
  a job starts seven seconds later.
\<close>

definition completeVote :: "World \<Rightarrow> string list \<Rightarrow> string \<Rightarrow> string \<Rightarrow> Server \<Rightarrow> Server \<times> sent list" where
  "completeVote w order rc vid sv =
     (case sv_votes sv vid of
        None \<Rightarrow> (sv, [])
      | Some v \<Rightarrow>
          if gv_status v \<noteq> VoteActive then (sv, [])
          else
            (let sv = sv\<lparr>sv_votes := (sv_votes sv)(vid := Some (v\<lparr>gv_status := VoteCompleted\<rparr>))\<rparr>;
                 yes = (if gv_type v = REMOVAL then tally ''YES'' v else 0);
                 no = (if gv_type v = REMOVAL then no_votes v else 0);
                 removed = (gv_type v = REMOVAL \<and> yes > gv_totalVoters v div 2);
                 w_id = (if gv_type v = ELECTION then winner order v else '''');
                 (elected, sv) = elect rc (gv_room v) w_id sv;
                 result = (if removed \<or> elected \<noteq> None then PASSED else FAILED);
                 sv = (if removed then sv else sv\<lparr>sv_roomVotes := (sv_roomVotes sv)((rc, gv_room v) := None)\<rparr>)
             in case sv_rooms sv rc of
                  None \<Rightarrow> (sv, [])
                | Some r \<Rightarrow>
                    (let info = map_option leader_info (find_go (gv_target v) (gr_players r));
                         new = map_option leader_info elected;
                         out = vote_completed rc r v \<lparr>gvc_voteId = vid, gvc_result = result, gvc_yes = yes, gvc_no = no,
                             gvc_target = info, gvc_newLeader = new,
                             gvc_reason = (if new = None then '''' else ''MAJORITY_VOTE'')\<rparr> #
                           (if new = None then [] else [broadcastLeadershipChanged w r (gv_room v) info new VOTE_REMOVAL])
                     in (if removed then add_job (JobElection rc (gv_room v) (gv_target v) True) sv else sv, out))))"

text \<open>\<open>handleVoteTimeout\<close>, after thirty seconds: a removal passes here with more yes than no.\<close>

definition voteTimeout :: "string list \<Rightarrow> string \<Rightarrow> string \<Rightarrow> Server \<Rightarrow> Server \<times> sent list" where
  "voteTimeout order rc vid sv =
     (case sv_votes sv vid of
        None \<Rightarrow> (sv, [])
      | Some v \<Rightarrow>
          if gv_status v \<noteq> VoteActive then (sv, [])
          else
            (let sv = sv\<lparr>sv_votes := (sv_votes sv)(vid := Some (v\<lparr>gv_status := VoteTimeout\<rparr>)),
                   sv_roomVotes := (sv_roomVotes sv)((rc, gv_room v) := None)\<rparr>;
                 yes = (if gv_type v = REMOVAL then tally ''YES'' v else 0);
                 no = (if gv_type v = REMOVAL then no_votes v else 0);
                 removed = (gv_type v = REMOVAL \<and> yes > no);
                 w_id = (if gv_type v = ELECTION then winner order v else '''');
                 sv = snd (elect rc (gv_room v) w_id sv)
             in case sv_rooms sv rc of
                  None \<Rightarrow> (sv, [])
                | Some r \<Rightarrow>
                    (if removed then add_job (JobElection rc (gv_room v) (gv_target v) False) sv else sv,
                     [vote_completed rc r v \<lparr>gvc_voteId = vid, gvc_result = (if removed then PASSED else TIMEOUT),
                        gvc_yes = yes, gvc_no = no, gvc_target = target_info v r, gvc_newLeader = None,
                        gvc_reason = (if removed then ''PASSED_ON_TIMEOUT'' else ''TIMEOUT'')\<rparr>])))"

definition StartElectionVote :: "World \<Rightarrow> string \<Rightarrow> RoomColor \<Rightarrow> string \<Rightarrow> Server \<Rightarrow> string outcome" where
  "StartElectionVote w rc c excludePlayerID sv =
     (case sv_rooms sv rc of
        None \<Rightarrow> fail ''room not found'' sv
      | Some r \<Rightarrow>
          if round_of r = None then fail ''no active round'' sv
          else
            (let candidates = filter (\<lambda>p. gp_id p \<noteq> excludePlayerID) (in_color c (gr_players r));
                 removed = find (\<lambda>p. gp_id p = excludePlayerID) (in_color c (gr_players r)) in
             if candidates = [] then fail ''no eligible candidates'' sv
             else open_session rc r
               \<lparr>gv_id = wd_uuid w, gv_type = ELECTION, gv_room = c, gv_target = '''', gv_targetName = '''',
                gv_initiator = '''', gv_initiatorName = ''System'', gv_candidates = map gp_id candidates,
                gv_startedAt = wd_now w, gv_totalVoters = int (length candidates), gv_votes = [], gv_status = VoteActive\<rparr>
               \<lparr>leader_id = excludePlayerID, leader_nickname = (case removed of None \<Rightarrow> '''' | Some p \<Rightarrow> gp_nickname p)\<rparr>
               \<lparr>leader_id = '''', leader_nickname = ''System''\<rparr> sv))"

definition electionJob :: "World \<Rightarrow> string \<Rightarrow> RoomColor \<Rightarrow> string \<Rightarrow> bool \<Rightarrow> Server \<Rightarrow> Server \<times> sent list" where
  "electionJob w rc c excludePlayerID cleanup sv =
     (case StartElectionVote w rc c excludePlayerID sv of
        (Inr _, sv', out) \<Rightarrow> (sv', out)
      | (Inl _, sv', out) \<Rightarrow>
          (if cleanup then sv'\<lparr>sv_roomVotes := (sv_roomVotes sv')((rc, c) := None)\<rparr> else sv', out))"

section \<open>Hostages\<close>

text \<open>The checks of a selection, in their order, as far as they concern the players chosen.\<close>

fun leader_chosen :: "string \<Rightarrow> RoundState \<Rightarrow> string list \<Rightarrow> string option" where
  "leader_chosen leaderID rs [] = None"
| "leader_chosen leaderID rs (h # hs) =
     (if h = leaderID then Some ''leader cannot select themselves as hostage''
      else if h = redLeaderId rs \<or> h = blueLeaderId rs then Some ''leaders cannot be selected as hostages - they must transfer leadership first''
      else leader_chosen leaderID rs hs)"

fun wrong_hostage :: "RoomColor option \<Rightarrow> Go_Player list \<Rightarrow> string list \<Rightarrow> string list \<Rightarrow> string option" where
  "wrong_hostage c ps seen [] = None"
| "wrong_hostage c ps seen (h # hs) =
     (if h \<in> set seen then Some ''duplicate player in selection''
      else case find_go h ps of
        None \<Rightarrow> Some ''invalid player ID in selection''
      | Some p \<Rightarrow> if gp_room p \<noteq> c then Some ''can only select players in your room'' else wrong_hostage c ps (h # seen) hs)"

definition chosen_players :: "string list \<Rightarrow> Go_Player list \<Rightarrow> Go_Player list" where
  "chosen_players ids ps = List.map_filter (\<lambda>i. find_go i ps) ids"

definition GoSelectHostages :: "string \<Rightarrow> string \<Rightarrow> string list \<Rightarrow> Server \<Rightarrow> unit outcome" where
  "GoSelectHostages rc leaderID ids sv =
     (case sv_rooms sv rc of
        None \<Rightarrow> fail ''room not found'' sv
      | Some r \<Rightarrow>
          (case round_of r of
             None \<Rightarrow> fail ''no active round'' sv
           | Some rs \<Rightarrow>
               if \<not> IsLeader rc leaderID sv then fail ''only leaders can select hostages'' sv
               else if int (length ids) \<noteq> hostageCount rs then fail (''must select exactly '' @ int_str (hostageCount rs) @ '' hostages'') sv
               else
                 (let room = Option.bind (find_go leaderID (gr_players r)) gp_room;
                      red = (room = Some RED_ROOM) in
                  case leader_chosen leaderID rs ids of
                    Some e \<Rightarrow> fail e sv
                  | None \<Rightarrow>
                      (case wrong_hostage room (gr_players r) [] ids of
                         Some e \<Rightarrow> fail e sv
                       | None \<Rightarrow>
                           if (if red then redHostages rs else blueHostages rs) \<noteq> []
                             then fail (if red then ''red leader has already selected hostages''
                                        else ''blue leader has already selected hostages'') sv
                           else
                             (let rs' = (if red then rs\<lparr>redHostages := ids\<rparr> else rs\<lparr>blueHostages := ids\<rparr>);
                                  waiting = ((if red then blueHostages rs' else redHostages rs') = []);
                                  sv' = put_room (set_round rs' r) sv
                              in done_with ()
                                   (if redHostages rs' \<noteq> [] \<and> blueHostages rs' \<noteq> [] then add_job (JobExchange rc) sv' else sv')
                                   [Sent rc (Some (map gp_id (filter (\<lambda>p. gp_room p = room) (gr_players r))))
                                      (S_HostagesAnnounced (if red then RED_ROOM else BLUE_ROOM)
                                        (chosen_players ids (gr_players r)) waiting)])))))"

text \<open>The loop over the players, and the record of a player who moves.\<close>

definition move_player :: "RoundState \<Rightarrow> Go_Player \<Rightarrow> Go_Player" where
  "move_player rs p =
     (let p = (if gp_id p \<in> set (redHostages rs) then p\<lparr>gp_room := Some BLUE_ROOM\<rparr> else p)
      in if gp_id p \<in> set (blueHostages rs) then p\<lparr>gp_room := Some RED_ROOM\<rparr> else p)"

definition exchange_record :: "string \<Rightarrow> RoomColor \<Rightarrow> RoomColor \<Rightarrow> Go_Player \<Rightarrow> ExchangeRecord" where
  "exchange_record now a b p =
     \<lparr>ex_playerId = gp_id p, ex_nickname = gp_nickname p, fromRoom = a, toRoom = b, ex_timestamp = now\<rparr>"

definition executeExchange :: "World \<Rightarrow> string \<Rightarrow> Server \<Rightarrow> unit outcome" where
  "executeExchange w rc sv =
     (case sv_rooms sv rc of
        None \<Rightarrow> fail ''room not found'' sv
      | Some r \<Rightarrow>
          (case round_of r of
             None \<Rightarrow> fail ''no active round'' sv
           | Some rs \<Rightarrow>
               if redHostages rs = [] \<or> blueHostages rs = [] then fail ''both leaders must select hostages'' sv
               else if length (redHostages rs) \<noteq> length (blueHostages rs) then fail ''unequal hostage counts'' sv
               else
                 (let reds = chosen_players (redHostages rs) (gr_players r);
                      blues = chosen_players (blueHostages rs) (gr_players r);
                      r' = set_round (rs\<lparr>rs_status := COMPLETE\<rparr>) (r\<lparr>gr_players := map (move_player rs) (gr_players r)\<rparr>);
                      xs = map (exchange_record (wd_now w) RED_ROOM BLUE_ROOM) reds @
                           map (exchange_record (wd_now w) BLUE_ROOM RED_ROOM) blues
                  in done_with () (put_room r' sv)
                       [Sent rc None (S_ExchangeReady reds blues 3),
                        Sent rc None (S_ExchangeComplete (rs_roundNumber rs) xs
                          (if rs_roundNumber rs < 3 then rs_roundNumber rs + 1 else 0))])))"

section \<open>The server as a machine\<close>

datatype request =
    Create string int bool string "(string \<times> int) list"
  | Join string
  | Rename string string string
  | Leave string string
  | Visibility string string bool
  | Start string
  | Reset string
  | BeginRound string int
  | Transfer string string string
  | Vote string string string RoomColor
  | Cast string string string string int
  | Select string string "string list"
  | Ready string string

datatype server_event =
    Serve World request
  | RunJob World "string list" nat
  | Second string

definition outcome_state :: "'a outcome \<Rightarrow> Server \<times> sent list" where
  "outcome_state x = snd x"

text \<open>The handler of a started round also assigns its leaders (\<open>handlers/round_handler.go\<close>).\<close>

definition beginRound :: "World \<Rightarrow> string \<Rightarrow> int \<Rightarrow> Server \<Rightarrow> unit outcome" where
  "beginRound w rc n sv =
     (case StartRound w rc n sv of
        (Inl e, sv', out) \<Rightarrow> (Inl e, sv', out)
      | (Inr _, sv', out) \<Rightarrow> (case AssignLeaders w rc sv' of (x, sv'', out') \<Rightarrow> (x, sv'', out @ out')))"

text \<open>
  What the handlers check of a request before they call the services (\<open>handlers/*.go\<close>): the length of a
  code, and the fields that their bindings require, where \<open>required\<close> refuses an empty text and, for the
  flag of the visibility, \<open>false\<close>.
\<close>

definition handler_checks :: "(string \<Rightarrow> Go_RoleDef list option) \<Rightarrow> request \<Rightarrow> bool" where
  "handler_checks loader q \<longleftrightarrow>
     (case q of
        Create new_code n public config selected \<Rightarrow>
          6 \<le> n \<and> n \<le> 30 \<and> loader (if config = '''' then ''standard'' else config) \<noteq> None
      | Join rc \<Rightarrow> True
      | Rename rc i n \<Rightarrow> n \<noteq> ''''
      | Leave rc i \<Rightarrow> True
      | Visibility rc i b \<Rightarrow> length rc = 6 \<and> b \<and> i \<noteq> ''''
      | Start rc \<Rightarrow> length rc = 6
      | Reset rc \<Rightarrow> length rc = 6
      | BeginRound rc n \<Rightarrow> 1 \<le> n \<and> n \<le> 3
      | Transfer rc i n \<Rightarrow> i \<noteq> '''' \<and> n \<noteq> ''''
      | Vote rc i l c \<Rightarrow> i \<noteq> '''' \<and> l \<noteq> ''''
      | Cast rc v i x t \<Rightarrow> i \<noteq> '''' \<and> x \<noteq> ''''
      | Select rc i ids \<Rightarrow> i \<noteq> ''''
      | Ready rc i \<Rightarrow> i \<noteq> '''')"

definition serve :: "(string \<Rightarrow> Go_RoleDef list option) \<Rightarrow> World \<Rightarrow> request \<Rightarrow> Server \<Rightarrow> Server \<times> sent list" where
  "serve loader w q sv =
     (if \<not> handler_checks loader q then (sv, [])
      else case q of
        Create new_code n public config selected \<Rightarrow> outcome_state (CreateRoom new_code w n public config selected sv)
      | Join rc \<Rightarrow> outcome_state (JoinRoom w rc sv)
      | Rename rc i n \<Rightarrow> outcome_state (UpdateNickname w rc i n sv)
      | Leave rc i \<Rightarrow> outcome_state (LeaveRoom w rc i sv)
      | Visibility rc i b \<Rightarrow> outcome_state (UpdateRoomVisibility w rc i b sv)
      | Start rc \<Rightarrow> outcome_state (GoStartGame loader w rc sv)
      | Reset rc \<Rightarrow> outcome_state (GoResetGame w rc sv)
      | BeginRound rc n \<Rightarrow> outcome_state (beginRound w rc n sv)
      | Transfer rc i n \<Rightarrow> outcome_state (GoTransferLeadership w rc i n sv)
      | Vote rc i l c \<Rightarrow> outcome_state (GoStartVote w rc i l c sv)
      | Cast rc v i x t \<Rightarrow> outcome_state (GoCastVote t rc v i x sv)
      | Select rc i ids \<Rightarrow> outcome_state (GoSelectHostages rc i ids sv)
      | Ready rc i \<Rightarrow> outcome_state (GoLeaderReady rc i sv))"

text \<open>Whether a request is answered with success.\<close>

definition succeeds :: "'a outcome \<Rightarrow> bool" where
  "succeeds x = (case fst x of Inl _ \<Rightarrow> False | Inr _ \<Rightarrow> True)"

definition accepted :: "(string \<Rightarrow> Go_RoleDef list option) \<Rightarrow> World \<Rightarrow> request \<Rightarrow> Server \<Rightarrow> bool" where
  "accepted loader w q sv \<longleftrightarrow>
     handler_checks loader q \<and>
     (case q of
        Create new_code n public config selected \<Rightarrow> succeeds (CreateRoom new_code w n public config selected sv)
      | Join rc \<Rightarrow> succeeds (JoinRoom w rc sv)
      | Rename rc i n \<Rightarrow> succeeds (UpdateNickname w rc i n sv)
      | Leave rc i \<Rightarrow> succeeds (LeaveRoom w rc i sv)
      | Visibility rc i b \<Rightarrow> succeeds (UpdateRoomVisibility w rc i b sv)
      | Start rc \<Rightarrow> succeeds (GoStartGame loader w rc sv)
      | Reset rc \<Rightarrow> succeeds (GoResetGame w rc sv)
      | BeginRound rc n \<Rightarrow> succeeds (beginRound w rc n sv)
      | Transfer rc i n \<Rightarrow> succeeds (GoTransferLeadership w rc i n sv)
      | Vote rc i l c \<Rightarrow> succeeds (GoStartVote w rc i l c sv)
      | Cast rc v i x t \<Rightarrow> succeeds (GoCastVote t rc v i x sv)
      | Select rc i ids \<Rightarrow> succeeds (GoSelectHostages rc i ids sv)
      | Ready rc i \<Rightarrow> succeeds (GoLeaderReady rc i sv))"

definition run_job :: "World \<Rightarrow> string list \<Rightarrow> job \<Rightarrow> Server \<Rightarrow> Server \<times> sent list" where
  "run_job w order j sv =
     (case j of
        JobExchange rc \<Rightarrow> outcome_state (executeExchange w rc sv)
      | JobComplete rc v \<Rightarrow> completeVote w order rc v sv
      | JobTimeout v rc \<Rightarrow> voteTimeout order rc v sv
      | JobElection rc c i b \<Rightarrow> electionJob w rc c i b sv
      | JobNextRound rc n \<Rightarrow> outcome_state (startNextRound w rc n sv)
      | JobReveal rc \<Rightarrow> outcome_state (transitionToRevealing rc sv))"

definition take_job :: "nat \<Rightarrow> Server \<Rightarrow> (job \<times> Server) option" where
  "take_job k sv =
     (if k < length (sv_jobs sv)
      then Some (sv_jobs sv ! k, sv\<lparr>sv_jobs := take k (sv_jobs sv) @ drop (Suc k) (sv_jobs sv)\<rparr>) else None)"

definition server_step :: "(string \<Rightarrow> Go_RoleDef list option) \<Rightarrow> Server \<Rightarrow> server_event \<Rightarrow> Server \<times> sent list" where
  "server_step loader sv e =
     (case e of
        Serve w q \<Rightarrow> serve loader w q sv
      | RunJob w order k \<Rightarrow> (case take_job k sv of None \<Rightarrow> (sv, []) | Some (j, sv') \<Rightarrow> run_job w order j sv')
      | Second sessionID \<Rightarrow> tick sessionID sv)"

definition server_next :: "(string \<Rightarrow> Go_RoleDef list option) \<Rightarrow> Server \<Rightarrow> server_event \<Rightarrow> Server" where
  "server_next loader sv e = fst (server_step loader sv e)"

abbreviation server_run :: "(string \<Rightarrow> Go_RoleDef list option) \<Rightarrow> Server \<Rightarrow> server_event list \<Rightarrow> Server" where
  "server_run loader \<equiv> run (server_next loader)"

end
