(* ===== verification/Server_Tables.thy ===== *)
theory Server_Tables
  imports Server_Games
begin

text \<open>
  What a room of the server is to its players, without names, roles, rounds, clocks and votes: a table
  with seats in two rooms and the hostages that were chosen. The moves at a table are the abstract
  specification: each request and each job has its moves, which it makes at the table of its room if it
  is accepted, and nothing else happens at any table. What holds of all moves then holds of the server.
\<close>

section \<open>Tables\<close>

record Table =
  tb_status :: RoomStatus
  tb_max :: int
  tb_seats :: "(string \<times> RoomColor option) list"
  tb_red :: "string list"
  tb_blue :: "string list"

definition seat_of :: "Go_Player \<Rightarrow> string \<times> RoomColor option" where
  "seat_of p = (gp_id p, gp_room p)"

definition table_of :: "Go_Room \<Rightarrow> Table" where
  "table_of r =
     \<lparr>tb_status = gr_status r, tb_max = gr_maxPlayers r, tb_seats = map seat_of (gr_players r),
      tb_red = (case round_of r of None \<Rightarrow> [] | Some rs \<Rightarrow> redHostages rs),
      tb_blue = (case round_of r of None \<Rightarrow> [] | Some rs \<Rightarrow> blueHostages rs)\<rparr>"

definition table_at :: "string \<Rightarrow> Server \<Rightarrow> Table option" where
  "table_at rc sv = map_option table_of (sv_rooms sv rc)"

text \<open>The seats of a deal: the same players, half of them in each room, the odd one in the red room.\<close>

definition seats_dealt :: "(string \<times> RoomColor option) list \<Rightarrow> (string \<times> RoomColor option) list \<Rightarrow> bool" where
  "seats_dealt xs ys \<longleftrightarrow>
     map fst ys = map fst xs \<and>
     mset (map snd ys) =
       replicate_mset (length xs - length xs div 2) (Some RED_ROOM) + replicate_mset (length xs div 2) (Some BLUE_ROOM)"

definition reseat :: "string list \<Rightarrow> string list \<Rightarrow> string \<times> RoomColor option \<Rightarrow> string \<times> RoomColor option" where
  "reseat red blue x =
     (fst x, if fst x \<in> set blue then Some RED_ROOM else if fst x \<in> set red then Some BLUE_ROOM else snd x)"

datatype table_act =
    Opens int
  | Joins string
  | Leaves string
  | Closes
  | Deals
  | Resets
  | Reveals
  | Begins
  | Picks RoomColor "string list"
  | Exchanges

inductive table_move :: "table_act \<Rightarrow> Table option \<Rightarrow> Table option \<Rightarrow> bool" where
  opens: "6 \<le> n \<Longrightarrow> n \<le> 30 \<Longrightarrow>
     table_move (Opens n) None (Some \<lparr>tb_status = WAITING, tb_max = n, tb_seats = [], tb_red = [], tb_blue = []\<rparr>)"
| joins: "tb_status t \<noteq> IN_PROGRESS \<Longrightarrow> int (length (tb_seats t)) < tb_max t \<Longrightarrow> i \<notin> fst ` set (tb_seats t) \<Longrightarrow>
     table_move (Joins i) (Some t) (Some (t\<lparr>tb_seats := tb_seats t @ [(i, None)]\<rparr>))"
| leaves: "tb_status t \<noteq> IN_PROGRESS \<Longrightarrow> k < length (tb_seats t) \<Longrightarrow> fst (tb_seats t ! k) = i \<Longrightarrow>
     table_move (Leaves i) (Some t) (Some (t\<lparr>tb_seats := take k (tb_seats t) @ drop (Suc k) (tb_seats t)\<rparr>))"
| closes: "tb_status t \<noteq> IN_PROGRESS \<Longrightarrow> table_move Closes (Some t) None"
| deals: "tb_status t \<noteq> IN_PROGRESS \<Longrightarrow> 6 \<le> length (tb_seats t) \<Longrightarrow> seats_dealt (tb_seats t) ys \<Longrightarrow>
     table_move Deals (Some t) (Some (t\<lparr>tb_status := IN_PROGRESS, tb_seats := ys, tb_red := [], tb_blue := []\<rparr>))"
| resets: "tb_status t = IN_PROGRESS \<Longrightarrow> table_move Resets (Some t)
     (Some (t\<lparr>tb_status := WAITING, tb_seats := map (\<lambda>x. (fst x, None)) (tb_seats t), tb_red := [], tb_blue := []\<rparr>))"
| reveals: "table_move Reveals (Some t) (Some (t\<lparr>tb_status := REVEALING\<rparr>))"
| begins: "table_move Begins (Some t) (Some (t\<lparr>tb_red := [], tb_blue := []\<rparr>))"
| picks_red: "tb_red t = [] \<Longrightarrow> distinct ids \<Longrightarrow> \<forall>i \<in> set ids. (i, Some RED_ROOM) \<in> set (tb_seats t) \<Longrightarrow>
     table_move (Picks RED_ROOM ids) (Some t) (Some (t\<lparr>tb_red := ids\<rparr>))"
| picks_blue: "tb_blue t = [] \<Longrightarrow> distinct ids \<Longrightarrow> \<forall>i \<in> set ids. \<exists>c. c \<noteq> Some RED_ROOM \<and> (i, c) \<in> set (tb_seats t) \<Longrightarrow>
     table_move (Picks BLUE_ROOM ids) (Some t) (Some (t\<lparr>tb_blue := ids\<rparr>))"
| exchanges: "tb_red t \<noteq> [] \<Longrightarrow> tb_blue t \<noteq> [] \<Longrightarrow> length (tb_red t) = length (tb_blue t) \<Longrightarrow>
     table_move Exchanges (Some t) (Some (t\<lparr>tb_seats := map (reseat (tb_red t) (tb_blue t)) (tb_seats t)\<rparr>))"

text \<open>One move after the other.\<close>

fun table_path :: "table_act list \<Rightarrow> Table option \<Rightarrow> Table option \<Rightarrow> bool" where
  "table_path [] x y \<longleftrightarrow> x = y"
| "table_path (a # as) x y \<longleftrightarrow> (\<exists>z. table_move a x z \<and> table_path as z y)"

lemma path_append: "table_path (as @ bs) x y \<longleftrightarrow> (\<exists>z. table_path as x z \<and> table_path bs z y)"
  by (induction as arbitrary: x) auto

section \<open>The moves of an event\<close>

text \<open>
  What a request asks of its table, and what a job does there: a few possible sequences of moves, where
  the empty one leaves the table as it is.
\<close>

definition game_on :: "Table option \<Rightarrow> bool" where
  "game_on x \<longleftrightarrow> map_option tb_status x = Some IN_PROGRESS"

definition seat_color :: "string \<Rightarrow> Table option \<Rightarrow> RoomColor option" where
  "seat_color i x = (case x of None \<Rightarrow> None | Some t \<Rightarrow> Option.bind (map_of (tb_seats t) i) (\<lambda>c. c))"

text \<open>The room is closed when its host leaves, or its last player.\<close>

definition closes_with :: "string \<Rightarrow> Go_Room option \<Rightarrow> bool" where
  "closes_with i x =
     (case x of None \<Rightarrow> False
      | Some r \<Rightarrow> (case find_go i (gr_players r) of None \<Rightarrow> False | Some p \<Rightarrow> gp_isOwner p \<or> length (gr_players r) = 1))"

definition request_moves :: "World \<Rightarrow> request \<Rightarrow> Go_Room option \<Rightarrow> table_act list list" where
  "request_moves w q r =
     (let x = map_option table_of r in case q of
        Create c n public config selected \<Rightarrow> [[Opens n]]
      | Join rc \<Rightarrow> [[Joins (wd_uuid w)]]
      | Leave rc i \<Rightarrow> if game_on x then [[]] else if closes_with i r then [[Closes]] else [[Leaves i]]
      | Start rc \<Rightarrow> [[Deals, Begins]]
      | Reset rc \<Rightarrow> [[Resets]]
      | BeginRound rc n \<Rightarrow> [[Begins]]
      | Select rc i ids \<Rightarrow> [[Picks (if seat_color i x = Some RED_ROOM then RED_ROOM else BLUE_ROOM) ids]]
      | _ \<Rightarrow> [[]])"

definition request_room :: "request \<Rightarrow> string" where
  "request_room q =
     (case q of
        Create c n public config selected \<Rightarrow> c | Join rc \<Rightarrow> rc | Rename rc i n \<Rightarrow> rc | Leave rc i \<Rightarrow> rc
      | Visibility rc i b \<Rightarrow> rc | Start rc \<Rightarrow> rc | Reset rc \<Rightarrow> rc | BeginRound rc n \<Rightarrow> rc | Transfer rc i n \<Rightarrow> rc
      | Vote rc i l c \<Rightarrow> rc | Cast rc v i y t \<Rightarrow> rc | Select rc i ids \<Rightarrow> rc | Ready rc i \<Rightarrow> rc)"

text \<open>A refused request does nothing, but a round may have begun that then finds no leaders.\<close>

definition refused_moves :: "request \<Rightarrow> table_act list list" where
  "refused_moves q = (case q of BeginRound rc n \<Rightarrow> [[], [Begins]] | _ \<Rightarrow> [[]])"

definition exchange_due :: "Table option \<Rightarrow> bool" where
  "exchange_due x \<longleftrightarrow>
     (case x of None \<Rightarrow> False
      | Some t \<Rightarrow> tb_red t \<noteq> [] \<and> tb_blue t \<noteq> [] \<and> length (tb_red t) = length (tb_blue t))"

definition job_moves :: "job \<Rightarrow> Table option \<Rightarrow> table_act list list" where
  "job_moves j x =
     (case j of
        JobExchange rc \<Rightarrow> if exchange_due x then [[Exchanges]] else [[]]
      | JobNextRound rc n \<Rightarrow> [[], [Begins]]
      | JobReveal rc \<Rightarrow> [[], [Reveals]]
      | _ \<Rightarrow> [[]])"

definition job_room :: "job \<Rightarrow> string" where
  "job_room j =
     (case j of JobExchange rc \<Rightarrow> rc | JobComplete rc v \<Rightarrow> rc | JobTimeout v rc \<Rightarrow> rc | JobElection rc c i b \<Rightarrow> rc
      | JobNextRound rc n \<Rightarrow> rc | JobReveal rc \<Rightarrow> rc)"

text \<open>The moves of an event at the table of one room.\<close>

definition event_moves ::
  "(string \<Rightarrow> Go_RoleDef list option) \<Rightarrow> Server \<Rightarrow> server_event \<Rightarrow> string \<Rightarrow> table_act list list" where
  "event_moves loader sv e rc =
     (case e of
        Serve w q \<Rightarrow>
          if request_room q \<noteq> rc then [[]]
          else if accepted loader w q sv then request_moves w q (sv_rooms sv rc) else refused_moves q
      | RunJob w order k \<Rightarrow>
          (case take_job k sv of
             None \<Rightarrow> [[]]
           | Some (j, _) \<Rightarrow> if job_room j \<noteq> rc then [[]] else job_moves j (table_at rc sv))
      | Second i \<Rightarrow> [[]])"

section \<open>What every move keeps\<close>

definition in_room :: "RoomColor \<Rightarrow> (string \<times> RoomColor option) list \<Rightarrow> string set" where
  "in_room c xs = {i. (i, Some c) \<in> set xs}"

definition table_ok :: "Table \<Rightarrow> bool" where
  "table_ok t \<longleftrightarrow>
     distinct (map fst (tb_seats t)) \<and> int (length (tb_seats t)) \<le> tb_max t \<and> 6 \<le> tb_max t \<and> tb_max t \<le> 30 \<and>
     distinct (tb_red t) \<and> distinct (tb_blue t) \<and>
     (tb_status t = IN_PROGRESS \<longrightarrow>
        6 \<le> length (tb_seats t) \<and> None \<notin> snd ` set (tb_seats t) \<and>
        card (in_room RED_ROOM (tb_seats t)) = length (tb_seats t) - length (tb_seats t) div 2 \<and>
        card (in_room BLUE_ROOM (tb_seats t)) = length (tb_seats t) div 2 \<and>
        (set (tb_red t) \<subseteq> in_room RED_ROOM (tb_seats t) \<and> set (tb_blue t) \<subseteq> in_room BLUE_ROOM (tb_seats t) \<or>
         tb_red t \<noteq> [] \<and> tb_blue t \<noteq> [] \<and>
         set (tb_red t) \<subseteq> in_room BLUE_ROOM (tb_seats t) \<and> set (tb_blue t) \<subseteq> in_room RED_ROOM (tb_seats t)))"

lemma in_room_finite [simp]: "finite (in_room c xs)"
  by (rule finite_subset [of _ "fst ` set xs"]) (auto simp: in_room_def image_iff Bex_def)

lemma card_in_room:
  assumes "distinct (map fst xs)"
  shows "card (in_room c xs) = count (mset (map snd xs)) (Some c)"
  using assms
proof (induction xs)
  case (Cons x xs)
  have "in_room c (x # xs) = (if snd x = Some c then insert (fst x) (in_room c xs) else in_room c xs)"
    by (cases x) (auto simp: in_room_def)
  moreover have "fst x \<notin> in_room c xs" using Cons.prems by (auto simp: in_room_def image_iff)
  ultimately show ?case using Cons by simp
qed (simp add: in_room_def)

lemma rooms_disjoint: "distinct (map fst xs) \<Longrightarrow> in_room RED_ROOM xs \<inter> in_room BLUE_ROOM xs = {}"
  by (auto simp: in_room_def dest: eq_key_imp_eq_value)

lemma in_reseat:
  "(i, c) \<in> set (map (reseat red blue) xs) \<longleftrightarrow>
     (if i \<in> set blue then i \<in> fst ` set xs \<and> c = Some RED_ROOM
      else if i \<in> set red then i \<in> fst ` set xs \<and> c = Some BLUE_ROOM else (i, c) \<in> set xs)"
  by (induction xs) (auto simp: reseat_def)

lemma in_room_reseat:
  assumes "set red \<subseteq> fst ` set xs" "set blue \<subseteq> fst ` set xs" "set red \<inter> set blue = {}"
  shows "in_room RED_ROOM (map (reseat red blue) xs) = (in_room RED_ROOM xs - set red) \<union> set blue"
    and "in_room BLUE_ROOM (map (reseat red blue) xs) = (in_room BLUE_ROOM xs - set blue) \<union> set red"
  unfolding in_room_def in_reseat using assms by (auto split: if_splits)

lemma reseat_ids [simp]: "fst (reseat red blue x) = fst x" "fst \<circ> reseat red blue = fst"
  by (simp_all add: reseat_def fun_eq_iff)

lemma reseat_seated: "None \<notin> snd ` set xs \<Longrightarrow> None \<notin> snd ` set (map (reseat red blue) xs)"
  by (force simp: reseat_def split: if_splits)

lemma in_room_ids: "in_room c xs \<subseteq> fst ` set xs"
  by (force simp: in_room_def)

lemma exchange_ok:
  assumes ok: "table_ok t" and n: "tb_red t \<noteq> []" "tb_blue t \<noteq> []" "length (tb_red t) = length (tb_blue t)"
  shows "table_ok (t\<lparr>tb_seats := map (reseat (tb_red t) (tb_blue t)) (tb_seats t)\<rparr>)"
proof (cases "tb_status t = IN_PROGRESS")
  case True
  let ?xs = "tb_seats t" and ?r = "set (tb_red t)" and ?b = "set (tb_blue t)"
  let ?R = "in_room RED_ROOM ?xs" and ?B = "in_room BLUE_ROOM ?xs"
  note o = ok [unfolded table_ok_def]
  have d: "distinct (map fst ?xs)" "distinct (tb_red t)" "distinct (tb_blue t)" using o by simp_all
  have RB: "?R \<inter> ?B = {}" by (rule rooms_disjoint [OF d(1)])
  have c: "card ?r = card ?b" using d n(3) by (simp add: distinct_card)
  have p: "?r \<subseteq> ?R \<and> ?b \<subseteq> ?B \<or> ?r \<subseteq> ?B \<and> ?b \<subseteq> ?R" using o True by blast
  have sub: "?r \<subseteq> fst ` set ?xs" "?b \<subseteq> fst ` set ?xs" using p in_room_ids [of RED_ROOM ?xs] in_room_ids [of BLUE_ROOM ?xs] by blast+
  have dis: "?r \<inter> ?b = {}" using p RB by blast
  note rs = in_room_reseat [OF sub dis]
  have f: "finite ?R" "finite ?B" by simp_all
  have cards: "card ((?R - ?r) \<union> ?b) = card ?R \<and> card ((?B - ?b) \<union> ?r) = card ?B"
    using p
  proof (elim disjE conjE)
    assume a: "?r \<subseteq> ?R" "?b \<subseteq> ?B"
    have "card ((?R - ?r) \<union> ?b) = card (?R - ?r) + card ?b" "card ((?B - ?b) \<union> ?r) = card (?B - ?b) + card ?r"
      using a RB by (auto intro!: card_Un_disjoint)
    moreover have "card ?r \<le> card ?R" "card ?b \<le> card ?B" using a f by (auto intro: card_mono)
    ultimately show ?thesis
      using a c by (simp_all add: card_Diff_subset)
  next
    assume a: "?r \<subseteq> ?B" "?b \<subseteq> ?R"
    have "(?R - ?r) \<union> ?b = ?R" "(?B - ?b) \<union> ?r = ?B" using a RB by blast+
    then show ?thesis by simp
  qed
  have "?r \<subseteq> (?B - ?b) \<union> ?r" "?b \<subseteq> (?R - ?r) \<union> ?b" by blast+
  then show ?thesis
    using o True n reseat_seated [of ?xs "tb_red t" "tb_blue t"] by (simp add: table_ok_def rs cards)
qed (use ok in \<open>simp add: table_ok_def\<close>)

lemma dealt_ok:
  assumes "table_ok t" "6 \<le> length (tb_seats t)" "seats_dealt (tb_seats t) ys"
  shows "table_ok (t\<lparr>tb_status := IN_PROGRESS, tb_seats := ys, tb_red := [], tb_blue := []\<rparr>)"
proof -
  have k: "map fst ys = map fst (tb_seats t)" using assms(3) by (simp add: seats_dealt_def)
  have m: "mset (map snd ys) = replicate_mset (length (tb_seats t) - length (tb_seats t) div 2) (Some RED_ROOM) +
      replicate_mset (length (tb_seats t) div 2) (Some BLUE_ROOM)"
    using assms(3) by (simp only: seats_dealt_def)
  have l: "length ys = length (tb_seats t)" using k map_eq_imp_length_eq by blast
  have d: "distinct (map fst ys)" using assms(1) k by (simp add: table_ok_def)
  have s: "snd ` set ys = set_mset (mset (map snd ys))" by simp
  have "None \<notin> snd ` set ys" unfolding s m by (auto simp: in_replicate_mset split: if_splits)
  then show ?thesis
    using assms(1,2) by (simp add: table_ok_def card_in_room [OF d] m l d del: mset_map)
qed

lemma table_move_ok: "table_move a x y \<Longrightarrow> (case x of None \<Rightarrow> True | Some t \<Rightarrow> table_ok t) \<Longrightarrow> (case y of None \<Rightarrow> True | Some t \<Rightarrow> table_ok t)"
proof (induction rule: table_move.induct)
  case (joins t i)
  then show ?case by (auto simp: table_ok_def)
next
  case (leaves t k i)
  have "distinct (map fst (take k (tb_seats t) @ drop (Suc k) (tb_seats t)))"
  proof -
    have "distinct (map fst (tb_seats t))" using leaves.prems by (simp add: table_ok_def)
    then have "distinct (take k (map fst (tb_seats t)) @ drop k (map fst (tb_seats t)))" by simp
    moreover have "set (drop (Suc k) xs) \<subseteq> set (drop k xs)" for xs :: "string list" by (rule set_drop_subset_set_drop) simp
    moreover have "distinct (drop (Suc k) (map fst (tb_seats t)))" using \<open>distinct (map fst (tb_seats t))\<close> by (rule distinct_drop)
    ultimately show ?thesis unfolding map_append take_map [symmetric] drop_map [symmetric] distinct_append
      by blast
  qed
  then show ?case using leaves by (simp add: table_ok_def)
next
  case (deals t ys)
  then show ?case using dealt_ok [of t ys] by simp
next
  case (exchanges t)
  then show ?case using exchange_ok [of t] by simp
next
  case (picks_red t ids)
  then show ?case by (auto simp: table_ok_def in_room_def)
next
  case (picks_blue t ids)
  have "set ids \<subseteq> in_room BLUE_ROOM (tb_seats t)" if "tb_status t = IN_PROGRESS"
  proof
    fix i assume "i \<in> set ids"
    then obtain c where c: "c \<noteq> Some RED_ROOM" "(i, c) \<in> set (tb_seats t)" using picks_blue(3) by blast
    have s: "None \<notin> snd ` set (tb_seats t)" using picks_blue.prems that by (simp add: table_ok_def)
    have "c \<in> snd ` set (tb_seats t)" using imageI [OF c(2), of snd] by (simp only: snd_conv)
    then have "c \<noteq> None" using s by metis
    with c(1) have "c = Some BLUE_ROOM" by (metis RoomColor.exhaust option.exhaust)
    with c(2) show "i \<in> in_room BLUE_ROOM (tb_seats t)" by (simp add: in_room_def)
  qed
  then show ?case
    using picks_blue.prems picks_blue(1,2) by (cases "tb_status t = IN_PROGRESS") (simp_all add: table_ok_def)
qed (auto simp: table_ok_def comp_def)

lemma table_path_ok:
  "table_path as x y \<Longrightarrow> (case x of None \<Rightarrow> True | Some t \<Rightarrow> table_ok t) \<Longrightarrow> (case y of None \<Rightarrow> True | Some t \<Rightarrow> table_ok t)"
  by (induction as arbitrary: x) (auto dest: table_move_ok)

section \<open>The operations of the server are moves\<close>

type_synonym rooms = "string \<Rightarrow> Go_Room option"

text \<open>Rooms are stored under their codes.\<close>

definition codes_ok :: "rooms \<Rightarrow> bool" where
  "codes_ok R \<longleftrightarrow> (\<forall>rc r. R rc = Some r \<longrightarrow> gr_code r = rc)"

abbreviation tables :: "rooms \<Rightarrow> string \<Rightarrow> Table option" where
  "tables R rc \<equiv> map_option table_of (R rc)"

text \<open>
  The tables of the rooms before and after an operation are the same, or are at one room connected by one
  of some sequences of moves.
\<close>

definition quiet :: "rooms \<Rightarrow> rooms \<Rightarrow> bool" where
  "quiet R R' \<longleftrightarrow> (codes_ok R \<longrightarrow> codes_ok R' \<and> (\<forall>c. tables R' c = tables R c))"

definition moved :: "string \<Rightarrow> table_act list list \<Rightarrow> rooms \<Rightarrow> rooms \<Rightarrow> bool" where
  "moved rc ms R R' \<longleftrightarrow>
     (codes_ok R \<longrightarrow> codes_ok R' \<and> (\<forall>c. c \<noteq> rc \<longrightarrow> tables R' c = tables R c) \<and>
        (\<exists>as \<in> set ms. table_path as (tables R rc) (tables R' rc)))"

lemma quiet_refl [simp, intro]: "quiet R R"
  by (simp add: quiet_def)

lemma quiet_trans: "quiet R S \<Longrightarrow> quiet S T \<Longrightarrow> quiet R T"
  by (simp add: quiet_def)

lemma moved_quiet: "quiet R R' \<Longrightarrow> [] \<in> set ms \<Longrightarrow> moved rc ms R R'"
  by (auto simp: quiet_def moved_def intro: bexI [of _ "[]"])

lemma moved_then_quiet: "moved rc ms R S \<Longrightarrow> quiet S T \<Longrightarrow> moved rc ms R T"
  by (simp add: quiet_def moved_def)

lemma moved_then: "moved rc [as] R S \<Longrightarrow> moved rc [bs] S T \<Longrightarrow> moved rc [as @ bs] R T"
  by (auto simp: moved_def path_append)

lemma moved_put:
  assumes "R rc = Some r" "gr_code r' = gr_code r" "table_move a (Some (table_of r)) (Some (table_of r'))"
  shows "moved rc [[a]] R (R(gr_code r' := Some r'))"
  using assms by (auto simp: moved_def codes_ok_def)

lemma moved_drop:
  assumes "R rc = Some r" "table_move a (Some (table_of r)) None"
  shows "moved rc [[a]] R (R(rc := None))"
  using assms by (auto simp: moved_def codes_ok_def)

lemma moved_more: "moved rc ms R R' \<Longrightarrow> set ms \<subseteq> set ns \<Longrightarrow> moved rc ns R R'"
  by (auto simp: moved_def)

lemma put_rooms [simp]:
  "sv_rooms (put_room r sv) = (sv_rooms sv)(gr_code r := Some r)"
  "sv_rooms (add_job j sv) = sv_rooms sv"
  "sv_rooms (startTimer rc i sv) = sv_rooms sv"
  by (simp_all add: put_room_def add_job_def startTimer_def)

lemma done_state [simp]: "snd (done_with x sv out) = (sv, out)" "snd (fail e sv) = (sv, [])"
  by (simp_all add: done_with_def fail_def)

lemma set_round_fields [simp]:
  "gr_code (set_round rs r) = gr_code r" "gr_players (set_round rs r) = gr_players r"
  "gr_status (set_round rs r) = gr_status r" "gr_maxPlayers (set_round rs r) = gr_maxPlayers r"
  by (simp_all add: set_round_def)

lemma round_of_set_round: "round_of (set_round rs r) = (if gr_session r = None then None else Some rs)"
  by (cases "gr_session r") (simp_all add: round_of_def set_round_def)

lemma round_session: "round_of r = Some rs \<Longrightarrow> gr_session r \<noteq> None"
  by (cases "gr_session r") (simp_all add: round_of_def)

lemma table_set_round:
  "round_of r = Some rs \<Longrightarrow>
     table_of (set_round rs' r) = (table_of r)\<lparr>tb_red := redHostages rs', tb_blue := blueHostages rs'\<rparr>"
  using round_session [of r rs] by (simp add: table_of_def round_of_set_round del: not_None_eq)

lemma table_quiet_round:
  "round_of r = Some rs \<Longrightarrow> redHostages rs' = redHostages rs \<Longrightarrow> blueHostages rs' = blueHostages rs \<Longrightarrow>
     table_of (set_round rs' r) = table_of r"
  by (simp add: table_set_round) (simp add: table_of_def)

lemma quiet_put:
  "R rc = Some r \<Longrightarrow> gr_code r' = gr_code r \<Longrightarrow> table_of r' = table_of r \<Longrightarrow> quiet R (R(gr_code r' := Some r'))"
  by (auto simp: quiet_def codes_ok_def)

lemma quiet_round:
  assumes "R rc = Some r" "round_of r = Some rs" "redHostages rs' = redHostages rs" "blueHostages rs' = blueHostages rs"
  shows "quiet R (R(gr_code r := Some (set_round rs' r)))"
  using quiet_put [of R rc r "set_round rs' r"] assms by (simp add: table_quiet_round)

abbreviation after :: "'a outcome \<Rightarrow> rooms" where
  "after x \<equiv> sv_rooms (fst (snd x))"

text \<open>What an operation of a service does if it succeeds; a refused one changes nothing.\<close>

abbreviation if_done :: "'a outcome \<Rightarrow> table_act list list \<Rightarrow> table_act list list" where
  "if_done x ms \<equiv> if succeeds x then ms else [[]]"

lemma succeeds_simps [simp]: "succeeds (fail e sv) = False" "succeeds (done_with x sv out)"
  by (simp_all add: succeeds_def fail_def done_with_def)

lemma succeeds_if [simp]: "succeeds (if b then x else y) = (if b then succeeds x else succeeds y)"
  by simp

lemma moved_none [simp, intro]: "moved rc [[]] R R"
  by (simp add: moved_quiet)

named_theorems server_quiet
named_theorems server_moves

lemma moved_create [server_moves]:
  "moved c (if_done (CreateRoom c w n public config selected sv) [[Opens n]]) (sv_rooms sv) (after (CreateRoom c w n public config selected sv))"
proof (cases "n < 6 \<or> n > 30 \<or> sv_rooms sv c \<noteq> None")
  case False
  then show ?thesis by (simp add: CreateRoom_def moved_def codes_ok_def table_of_def round_of_def opens)
qed (auto simp: CreateRoom_def)

lemma moved_join:
  assumes "case sv_rooms sv rc of None \<Rightarrow> True | Some r \<Rightarrow> wd_uuid w \<notin> gp_id ` set (gr_players r)"
  shows "moved rc (if_done (JoinRoom w rc sv) [[Joins (wd_uuid w)]]) (sv_rooms sv) (after (JoinRoom w rc sv))"
proof (cases "sv_rooms sv rc")
  case (Some r)
  have "moved rc [[Joins (wd_uuid w)]] (sv_rooms sv) ((sv_rooms sv)(gr_code r := Some (r\<lparr>gr_players := gr_players r @ [p], gr_updatedAt := t\<rparr>)))"
    if "int (length (gr_players r)) < gr_maxPlayers r" "gr_status r \<noteq> IN_PROGRESS" "gp_id p = wd_uuid w" "gp_room p = None" for p t
    using that assms Some table_move.joins [of "table_of r" "gp_id p"]
      moved_put [of "sv_rooms sv" rc r "r\<lparr>gr_players := gr_players r @ [p], gr_updatedAt := t\<rparr>"]
    by (auto simp: table_of_def round_of_def seat_of_def image_iff)
  then show ?thesis by (simp add: JoinRoom_def Some Let_def)
qed (simp add: JoinRoom_def)

lemma map_update_first: "(\<And>x. f (g x) = f x) \<Longrightarrow> map f (update_first P g xs) = map f xs"
  by (induction xs) simp_all

lemma quiet_rename [server_quiet]: "quiet (sv_rooms sv) (after (UpdateNickname w rc i n sv))"
proof (cases "sv_rooms sv rc")
  case (Some r)
  have "quiet (sv_rooms sv) ((sv_rooms sv)(gr_code r := Some (r\<lparr>gr_players := update_first P (\<lambda>q. q\<lparr>gp_nickname := n', gp_isAnonymous := False\<rparr>)
      (gr_players r), gr_updatedAt := t\<rparr>)))" for P n' t
    using quiet_put [of "sv_rooms sv" rc r "r\<lparr>gr_players := update_first P (\<lambda>q. q\<lparr>gp_nickname := n', gp_isAnonymous := False\<rparr>)
      (gr_players r), gr_updatedAt := t\<rparr>"] Some
    by (simp add: table_of_def round_of_def map_update_first seat_of_def)
  then show ?thesis by (simp add: UpdateNickname_def Some Let_def split: option.split)
qed (simp add: UpdateNickname_def)

lemma remove1_at: "x \<in> set xs \<Longrightarrow> \<exists>k < length xs. xs ! k = x \<and> remove1 x xs = take k xs @ drop (Suc k) xs"
proof (induction xs)
  case (Cons y ys)
  show ?case
  proof (cases "x = y")
    case False
    then obtain k where "k < length ys" "ys ! k = x" "remove1 x ys = take k ys @ drop (Suc k) ys" using Cons by auto
    then show ?thesis using False by (intro exI [of _ "Suc k"]) simp
  qed (auto intro: exI [of _ 0])
qed simp

lemma table_status [simp]: "tb_status (table_of r) = gr_status r" "tb_seats (table_of r) = map seat_of (gr_players r)"
  by (simp_all add: table_of_def)

lemma moved_leave [server_moves]:
  "moved rc (if_done (LeaveRoom w rc i sv) (if game_on (tables (sv_rooms sv) rc) then [[]]
       else if closes_with i (sv_rooms sv rc) then [[Closes]] else [[Leaves i]]))
     (sv_rooms sv) (after (LeaveRoom w rc i sv))"
proof (cases "sv_rooms sv rc")
  case (Some r)
  show ?thesis
  proof (cases "find_go i (gr_players r)")
    case (Some p)
    have p: "p \<in> set (gr_players r)" "gp_id p = i" using Some find_holds [of "\<lambda>p. gp_id p = i"] by (auto simp: find_go_def)
    have drop: "moved rc [[Closes]] (sv_rooms sv) ((sv_rooms sv)(rc := None))" if "gr_status r \<noteq> IN_PROGRESS"
      using that moved_drop [of "sv_rooms sv" rc r Closes] \<open>sv_rooms sv rc = Some r\<close> table_move.closes [of "table_of r"]
      by simp
    have one: "moved rc [[Leaves i]] (sv_rooms sv)
        ((sv_rooms sv)(gr_code r := Some (r\<lparr>gr_players := remove1 p (gr_players r), gr_updatedAt := t\<rparr>)))"
      if h: "gr_status r \<noteq> IN_PROGRESS" for t
    proof -
      obtain k where k: "k < length (gr_players r)" "gr_players r ! k = p"
          "remove1 p (gr_players r) = take k (gr_players r) @ drop (Suc k) (gr_players r)"
        using remove1_at [OF p(1)] by blast
      then have "table_move (Leaves i) (Some (table_of r)) (Some (table_of (r\<lparr>gr_players := remove1 p (gr_players r), gr_updatedAt := t\<rparr>)))"
        using table_move.leaves [of "table_of r" k i] h p(2) by (simp add: table_of_def round_of_def take_map drop_map seat_of_def)
      then show ?thesis
        using \<open>sv_rooms sv rc = Some r\<close> moved_put [of "sv_rooms sv" rc r "r\<lparr>gr_players := remove1 p (gr_players r), gr_updatedAt := t\<rparr>"] by simp
    qed
    have e: "remove1 p (gr_players r) = [] \<longleftrightarrow> length (gr_players r) = 1"
      using p(1) length_remove1 [of p "gr_players r"] by (cases "gr_players r") auto
    show ?thesis
      using drop one by (simp add: LeaveRoom_def Let_def \<open>sv_rooms sv rc = Some r\<close> Some game_on_def closes_with_def e)
  qed (simp add: LeaveRoom_def Some)
qed (simp add: LeaveRoom_def)

lemma quiet_visibility [server_quiet]: "quiet (sv_rooms sv) (after (UpdateRoomVisibility w rc i b sv))"
proof (cases "sv_rooms sv rc")
  case (Some r)
  then show ?thesis
    using quiet_put [of "sv_rooms sv" rc r "r\<lparr>gr_isPublic := b, gr_updatedAt := wd_now w\<rparr>"]
    by (simp add: UpdateRoomVisibility_def table_of_def round_of_def)
qed (simp add: UpdateRoomVisibility_def)

lemma moved_begin:
  assumes "R rc = Some r" "gr_session r = Some g" "redHostages rs = []" "blueHostages rs = []"
  shows "moved rc [[Begins]] R (R(gr_code r := Some (r\<lparr>gr_session := Some (g\<lparr>gs_currentRound := n, gs_roundState := Some rs\<rparr>)\<rparr>)))"
  using moved_put [of R rc r "r\<lparr>gr_session := Some (g\<lparr>gs_currentRound := n, gs_roundState := Some rs\<rparr>)\<rparr>"]
    table_move.begins [of "table_of r"] assms
  by (simp add: table_of_def round_of_def)

lemma moved_start_round [server_moves]:
  "moved rc (if_done (StartRound w rc n sv) [[Begins]]) (sv_rooms sv) (after (StartRound w rc n sv))"
proof (cases "sv_rooms sv rc")
  case (Some r)
  show ?thesis
  proof (cases "gr_session r")
    case (Some g)
    then show ?thesis using \<open>sv_rooms sv rc = Some r\<close> moved_begin [of "sv_rooms sv" rc r g]
      by (simp add: StartRound_def Let_def)
  qed (simp add: StartRound_def Some)
qed (simp add: StartRound_def)

lemma quiet_assign [server_quiet]: "quiet (sv_rooms sv) (after (AssignLeaders w rc sv))"
  using quiet_round [of "sv_rooms sv" rc] by (simp add: AssignLeaders_def Let_def split: option.split)

lemma quiet_preserve [server_quiet]: "quiet (sv_rooms sv) (after (PreserveLeaders rc sv))"
  using quiet_round [of "sv_rooms sv" rc] by (simp add: PreserveLeaders_def Let_def split: option.split)

lemma quiet_tick_timer: "quiet (sv_rooms sv) (after (tickTimer rc sv))"
  using quiet_round [of "sv_rooms sv" rc] by (simp add: tickTimer_def Let_def split: option.split)

lemma quiet_tick [server_quiet]: "quiet (sv_rooms sv) (sv_rooms (fst (tick i sv)))"
proof (cases "map_get (sv_timers sv) i")
  case (Some rc)
  then show ?thesis using quiet_tick_timer [of sv rc] by (cases "tickTimer rc sv") (auto simp: tick_def split: sum.split)
qed (simp add: tick_def)

lemma quiet_ready [server_quiet]: "quiet (sv_rooms sv) (after (GoLeaderReady rc i sv))"
  using quiet_round [of "sv_rooms sv" rc] by (simp add: GoLeaderReady_def Let_def split: option.split)

lemma moved_reveal [server_moves]: "moved rc [[], [Reveals]] (sv_rooms sv) (after (transitionToRevealing rc sv))"
proof (cases "sv_rooms sv rc")
  case (Some r)
  have "moved rc [[Reveals]] (sv_rooms sv) ((sv_rooms sv)(gr_code r := Some (r\<lparr>gr_status := REVEALING\<rparr>)))"
    using Some moved_put [of "sv_rooms sv" rc r "r\<lparr>gr_status := REVEALING\<rparr>"] table_move.reveals [of "table_of r"]
    by (simp add: table_of_def round_of_def)
  from moved_more [OF this] show ?thesis using Some by (simp add: transitionToRevealing_def moved_quiet)
qed (simp add: transitionToRevealing_def moved_quiet)

lemma moved_next_round [server_moves]: "moved rc [[], [Begins]] (sv_rooms sv) (after (startNextRound w rc n sv))"
proof -
  have "moved rc [[], [Begins]] (sv_rooms sv) (after (StartRound w rc n sv))"
    using moved_start_round [of rc w n sv] by (rule moved_more) simp
  then show ?thesis
    using moved_then_quiet quiet_preserve [of "fst (snd (StartRound w rc n sv))" rc]
    by (auto simp: startNextRound_def split: prod.splits sum.splits)
qed

lemma moved_begin_round:
  "moved rc (if_done (beginRound w rc n sv) [[Begins]]) (sv_rooms sv) (after (beginRound w rc n sv)) \<or>
   \<not> succeeds (beginRound w rc n sv) \<and> moved rc [[], [Begins]] (sv_rooms sv) (after (beginRound w rc n sv))"
proof -
  note m = moved_start_round [of rc w n sv]
  have q: "quiet (after (StartRound w rc n sv)) (after (beginRound w rc n sv))"
    using quiet_assign [of "fst (snd (StartRound w rc n sv))" w rc]
    by (auto simp: beginRound_def split: prod.splits sum.splits)
  have s: "succeeds (beginRound w rc n sv) \<Longrightarrow> succeeds (StartRound w rc n sv)"
    by (auto simp: beginRound_def succeeds_def split: prod.splits sum.splits)
  have "moved rc [[], [Begins]] (sv_rooms sv) (after (StartRound w rc n sv))" using m by (rule moved_more) simp
  with s m show ?thesis using moved_then_quiet [OF _ q] by (cases "succeeds (beginRound w rc n sv)") auto
qed

lemma set_leader_hostages [simp]:
  "redHostages (set_leader c i rs) = redHostages rs" "blueHostages (set_leader c i rs) = blueHostages rs"
  by (simp_all add: set_leader_def)

lemma quiet_transfer [server_quiet]: "quiet (sv_rooms sv) (after (GoTransferLeadership w rc i n sv))"
  using quiet_round [of "sv_rooms sv" rc] by (simp add: GoTransferLeadership_def Let_def split: option.split)

lemma quiet_set_leader [server_quiet]: "quiet (sv_rooms sv) (after (SetLeader rc c i sv))"
  using quiet_round [of "sv_rooms sv" rc] by (simp add: SetLeader_def Let_def split: option.split)

lemma deal_seats: "seats_dealt (map seat_of ps) (map seat_of (deal dr cfg selected ps))"
  using deal_ids [of dr cfg selected ps] deal_rooms [of dr cfg selected ps]
  by (simp add: seats_dealt_def comp_def seat_of_def del: mset_map)

text \<open>The first round begins at the table that has just been dealt.\<close>

lemma started_round:
  assumes "gr_code r' = rc" "gr_session r' \<noteq> None"
  shows "moved rc [[Begins]] (sv_rooms (put_room r' sv)) (after (case StartRound w rc 1 (put_room r' sv) of
      (Inl _, sv2, out2) \<Rightarrow> done_with () sv2 (out1 @ out2)
    | (Inr _, sv2, out2) \<Rightarrow> (case AssignLeaders w rc sv2 of (_, sv3, out3) \<Rightarrow> done_with () sv3 (out1 @ out2 @ out3))))"
proof -
  have "succeeds (StartRound w rc 1 (put_room r' sv))"
    using assms by (auto simp: StartRound_def Let_def put_room_def)
  with moved_start_round [of rc w 1 "put_room r' sv"]
  have m: "moved rc [[Begins]] (sv_rooms (put_room r' sv)) (after (StartRound w rc 1 (put_room r' sv)))" by simp
  obtain x sv2 out2 where s: "StartRound w rc 1 (put_room r' sv) = (x, sv2, out2)" by (cases "StartRound w rc 1 (put_room r' sv)")
  obtain y sv3 out3 where a: "AssignLeaders w rc sv2 = (y, sv3, out3)" by (cases "AssignLeaders w rc sv2")
  show ?thesis
    using m quiet_assign [of sv2 w rc] unfolding s by (cases x) (auto simp: a intro: moved_then_quiet)
qed

lemma moved_start_game:
  assumes "codes_ok (sv_rooms sv)"
  shows "moved rc (if_done (GoStartGame loader w rc sv) [[Deals, Begins]]) (sv_rooms sv) (after (GoStartGame loader w rc sv))"
proof (cases "sv_rooms sv rc")
  case (Some r)
  let ?r' = "r\<lparr>gr_players := deal (wd_draws w) (loader (if gr_roleConfigId r = '''' then ''standard'' else gr_roleConfigId r))
      (gr_selectedRoles r) (gr_players r), gr_status := IN_PROGRESS, gr_session := Some \<lparr>gs_id = wd_uuid w, gs_roomCode = rc,
      gs_startedAt = wd_now w, gs_currentRound = 0, gs_roundState = None\<rparr>, gr_updatedAt := wd_now w\<rparr>"
  show ?thesis
  proof (cases "gr_status r = IN_PROGRESS \<or> length (gr_players r) < 6")
    case False
    have "gr_code ?r' = rc" using Some assms by (simp add: codes_ok_def)
    have "moved rc [[Deals]] (sv_rooms sv) (sv_rooms (put_room ?r' sv))"
      using False Some deal_seats [of "gr_players r"] table_move.deals [of "table_of r" "map seat_of (gr_players ?r')"]
        moved_put [of "sv_rooms sv" rc r ?r']
      by (simp add: table_of_def round_of_def)
    from moved_then [OF this started_round [OF \<open>gr_code ?r' = rc\<close>]]
    have "moved rc [[Deals, Begins]] (sv_rooms sv) (after (GoStartGame loader w rc sv))"
      using False by (simp add: GoStartGame_def Some Let_def)
    moreover have "succeeds (GoStartGame loader w rc sv)"
      using False by (simp add: GoStartGame_def Some Let_def split: prod.split sum.split)
    ultimately show ?thesis by simp
  qed (auto simp: GoStartGame_def Some)
qed (simp add: GoStartGame_def)

lemma moved_reset [server_moves]:
  "moved rc (if_done (GoResetGame w rc sv) [[Resets]]) (sv_rooms sv) (after (GoResetGame w rc sv))"
proof (cases "sv_rooms sv rc")
  case (Some r)
  then show ?thesis
    using moved_put [of "sv_rooms sv" rc r "r\<lparr>gr_session := None,
        gr_players := map (\<lambda>p. p\<lparr>gp_role := None, gp_team := None, gp_room := None\<rparr>) (gr_players r),
        gr_status := WAITING, gr_updatedAt := wd_now w\<rparr>" Resets] table_move.resets [of "table_of r"]
    by (simp add: GoResetGame_def Let_def table_of_def round_of_def seat_of_def comp_def)
qed (simp add: GoResetGame_def)

text \<open>The hostages that pass the checks have seats in the room of their leader.\<close>

lemma hostages_checked:
  "wrong_hostage c ps seen ids = None \<Longrightarrow>
     distinct ids \<and> set ids \<inter> set seen = {} \<and> (\<forall>i \<in> set ids. (i, c) \<in> set (map seat_of ps))"
proof (induction c ps seen ids rule: wrong_hostage.induct)
  case (2 c ps seen h hs)
  obtain p where p: "find_go h ps = Some p" "gp_room p = c" and h: "h \<notin> set seen" "wrong_hostage c ps (h # seen) hs = None"
    using "2.prems" by (auto split: if_splits option.splits)
  have "(h, c) = seat_of p" "p \<in> set ps"
    using p find_holds [of "\<lambda>p. gp_id p = h" ps p] by (auto simp: find_go_def seat_of_def)
  then show ?case using "2.IH" [OF h(1) p(1)] p(2) h by auto
qed simp

lemma seat_color_tables:
  "seat_color i (tables R rc) = Option.bind (R rc) (\<lambda>r. Option.bind (find_go i (gr_players r)) gp_room)"
proof -
  have "Option.bind (map_of (map seat_of ps) i) (\<lambda>c. c) = Option.bind (find_go i ps) gp_room" for ps
    by (induction ps) (simp_all add: seat_of_def find_go_def)
  then show ?thesis by (cases "R rc") (simp_all add: seat_color_def)
qed

lemma moved_select [server_moves]:
  "moved rc (if_done (GoSelectHostages rc i ids sv)
       [[Picks (if seat_color i (tables (sv_rooms sv) rc) = Some RED_ROOM then RED_ROOM else BLUE_ROOM) ids]])
     (sv_rooms sv) (after (GoSelectHostages rc i ids sv))"
proof (cases "sv_rooms sv rc")
  case (Some r)
  show ?thesis
  proof (cases "round_of r")
    case (Some rs)
    let ?c = "Option.bind (find_go i (gr_players r)) gp_room"
    have red: "moved rc [[Picks RED_ROOM ids]] (sv_rooms sv) ((sv_rooms sv)(gr_code r := Some (set_round (rs\<lparr>redHostages := ids\<rparr>) r)))"
      if "wrong_hostage (Some RED_ROOM) (gr_players r) [] ids = None" "redHostages rs = []"
      using hostages_checked [OF that(1)] that(2) Some \<open>sv_rooms sv rc = Some r\<close> table_move.picks_red [of "table_of r" ids]
        moved_put [of "sv_rooms sv" rc r "set_round (rs\<lparr>redHostages := ids\<rparr>) r"] table_set_round [OF Some]
      by (simp add: table_of_def)
    have blue: "moved rc [[Picks BLUE_ROOM ids]] (sv_rooms sv) ((sv_rooms sv)(gr_code r := Some (set_round (rs\<lparr>blueHostages := ids\<rparr>) r)))"
      if "wrong_hostage ?c (gr_players r) [] ids = None" "?c \<noteq> Some RED_ROOM" "blueHostages rs = []"
    proof -
      have "\<forall>h \<in> set ids. \<exists>c. c \<noteq> Some RED_ROOM \<and> (h, c) \<in> set (map seat_of (gr_players r))" "distinct ids"
        using hostages_checked [OF that(1)] that(2) by blast+
      then show ?thesis
        using that(3) Some \<open>sv_rooms sv rc = Some r\<close> table_move.picks_blue [of "table_of r" ids]
          moved_put [of "sv_rooms sv" rc r "set_round (rs\<lparr>blueHostages := ids\<rparr>) r"] table_set_round [OF Some]
        by (simp add: table_of_def)
    qed
    show ?thesis
      unfolding seat_color_tables
      using red blue Some \<open>sv_rooms sv rc = Some r\<close> by (auto simp: GoSelectHostages_def Let_def split: option.split)
  qed (simp add: GoSelectHostages_def Some)
qed (simp add: GoSelectHostages_def)

lemma seat_moves: "seat_of (move_player rs p) = reseat (redHostages rs) (blueHostages rs) (seat_of p)"
  by (simp add: seat_of_def move_player_def reseat_def Let_def)

lemma moved_exchange [server_moves]:
  "moved rc (if exchange_due (tables (sv_rooms sv) rc) then [[Exchanges]] else [[]]) (sv_rooms sv) (after (executeExchange w rc sv))"
proof (cases "sv_rooms sv rc")
  case (Some r)
  show ?thesis
  proof (cases "round_of r")
    case (Some rs)
    let ?r' = "set_round (rs\<lparr>rs_status := COMPLETE\<rparr>) (r\<lparr>gr_players := map (move_player rs) (gr_players r)\<rparr>)"
    have due: "exchange_due (tables (sv_rooms sv) rc) \<longleftrightarrow>
        redHostages rs \<noteq> [] \<and> blueHostages rs \<noteq> [] \<and> length (redHostages rs) = length (blueHostages rs)"
      using Some \<open>sv_rooms sv rc = Some r\<close> by (simp add: exchange_due_def table_of_def)
    have t: "table_of ?r' = (table_of r)\<lparr>tb_seats := map (reseat (redHostages rs) (blueHostages rs)) (map seat_of (gr_players r))\<rparr>"
      using table_quiet_round [of "r\<lparr>gr_players := map (move_player rs) (gr_players r)\<rparr>" rs "rs\<lparr>rs_status := COMPLETE\<rparr>"] Some
      by (simp add: round_of_def) (simp add: table_of_def round_of_def comp_def seat_moves)
    have "moved rc [[Exchanges]] (sv_rooms sv) ((sv_rooms sv)(gr_code r := Some ?r'))"
      if d: "exchange_due (tables (sv_rooms sv) rc)"
    proof -
      have "table_move Exchanges (Some (table_of r)) (Some (table_of ?r'))"
        unfolding t using d Some table_move.exchanges [of "table_of r"] by (simp add: due) (simp add: table_of_def)
      then show ?thesis using \<open>sv_rooms sv rc = Some r\<close> moved_put [of "sv_rooms sv" rc r ?r'] by simp
    qed
    then show ?thesis using Some \<open>sv_rooms sv rc = Some r\<close> unfolding due by (auto simp: executeExchange_def Let_def)
  next
    case None
    then show ?thesis using \<open>sv_rooms sv rc = Some r\<close> by (simp add: executeExchange_def exchange_due_def table_of_def)
  qed
qed (simp add: executeExchange_def exchange_due_def)

lemma open_session_rooms [simp]: "after (open_session rc r v a b sv) = sv_rooms sv"
  by (simp add: open_session_def Let_def)

lemma vote_rooms [simp]:
  "after (GoStartVote w rc i l c sv) = sv_rooms sv" "after (GoCastVote t rc v i x sv) = sv_rooms sv"
  "after (StartElectionVote w rc c i sv) = sv_rooms sv"
  by (simp_all add: GoStartVote_def GoCastVote_def StartElectionVote_def Let_def split: option.split)

lemma quiet_elect_rooms: "quiet (sv_rooms sv) (sv_rooms (snd (elect rc c i sv)))"
  using quiet_set_leader [of sv rc c i] by (cases "SetLeader rc c i sv") (auto simp: elect_def split: sum.split)

lemma rooms_if: "sv_rooms (if b then s else t) = (if b then sv_rooms s else sv_rooms t)"
  by simp

lemma option_same: "(case x of None \<Rightarrow> y | Some _ \<Rightarrow> y) = y"
  by (cases x) simp_all

lemma complete_rooms:
  "sv_rooms (fst (completeVote w order rc v sv)) =
     (case sv_votes sv v of
        None \<Rightarrow> sv_rooms sv
      | Some x \<Rightarrow>
          if gv_status x \<noteq> VoteActive then sv_rooms sv
          else sv_rooms (snd (elect rc (gv_room x) (if gv_type x = ELECTION then winner order x else '''')
            (sv\<lparr>sv_votes := (sv_votes sv)(v := Some (x\<lparr>gv_status := VoteCompleted\<rparr>))\<rparr>))))"
proof (cases "sv_votes sv v")
  case (Some x)
  have f: "fst (case o' of None \<Rightarrow> (s, []) | Some r \<Rightarrow> (if b r then add_job (j r) s else s, out r)) =
      (case o' of None \<Rightarrow> s | Some r \<Rightarrow> if b r then add_job (j r) s else s)" for o' s and b :: "Go_Room \<Rightarrow> bool" and j out
    by (simp split: option.split)
  show ?thesis
    unfolding completeVote_def Some option.case Let_def split_beta
    by (cases "gv_status x = VoteActive") (simp_all add: rooms_if f option_same option.case_distrib [of sv_rooms] cong: option.case_cong)
qed (simp add: completeVote_def)

lemma quiet_complete [server_quiet]: "quiet (sv_rooms sv) (sv_rooms (fst (completeVote w order rc v sv)))"
proof (cases "sv_votes sv v")
  case (Some x)
  show ?thesis unfolding complete_rooms Some option.case
    using quiet_elect_rooms [of "sv\<lparr>sv_votes := vs\<rparr>" rc c i for vs c i] by simp
qed (simp add: complete_rooms)

lemma quiet_timeout [server_quiet]: "quiet (sv_rooms sv) (sv_rooms (fst (voteTimeout order rc v sv)))"
proof (cases "sv_votes sv v")
  case (Some x)
  have "quiet (sv_rooms sv) (sv_rooms (snd (elect rc c i (sv\<lparr>sv_votes := vs, sv_roomVotes := rv\<rparr>))))" for c i vs rv
    using quiet_elect_rooms [of "sv\<lparr>sv_votes := vs, sv_roomVotes := rv\<rparr>" rc c i] by simp
  then show ?thesis
    using Some by (simp add: voteTimeout_def Let_def split: option.split)
qed (simp add: voteTimeout_def)

lemma quiet_election [server_quiet]: "quiet (sv_rooms sv) (sv_rooms (fst (electionJob w rc c i b sv)))"
proof -
  have "sv_rooms (fst (electionJob w rc c i b sv)) = after (StartElectionVote w rc c i sv)"
    by (cases "StartElectionVote w rc c i sv") (simp add: electionJob_def split: sum.split)
  then show ?thesis by simp
qed

text \<open>The identifiers that a run gives to players who join.\<close>

definition joining :: "server_event list \<Rightarrow> string list" where
  "joining es = List.map_filter (\<lambda>e. case e of Serve w (Join rc) \<Rightarrow> Some (wd_uuid w) | _ \<Rightarrow> None) es"

lemma joining_simps [simp]:
  "joining [] = []"
  "joining (e # es) = (case e of Serve w (Join rc) \<Rightarrow> wd_uuid w # joining es | _ \<Rightarrow> joining es)"
  by (simp_all add: joining_def List.map_filter_simps split: server_event.split request.split)

lemma joining_append [simp]: "joining (es @ fs) = joining es @ joining fs"
  by (induction es) (simp_all split: server_event.split request.split)

definition new_to :: "rooms \<Rightarrow> server_event \<Rightarrow> bool" where
  "new_to R e \<longleftrightarrow> (case e of
      Serve w (Join rc) \<Rightarrow> (case R rc of None \<Rightarrow> True | Some r \<Rightarrow> wd_uuid w \<notin> gp_id ` set (gr_players r))
    | _ \<Rightarrow> True)"

lemma table_at_rooms: "table_at rc sv = tables (sv_rooms sv) rc"
  by (simp add: table_at_def)

text \<open>A request makes its moves exactly if it is accepted.\<close>

lemma moved_serve:
  assumes "new_to (sv_rooms sv) (Serve w q)" "codes_ok (sv_rooms sv)"
  shows "moved (request_room q)
    (if accepted loader w q sv then request_moves w q (sv_rooms sv (request_room q)) else refused_moves q)
    (sv_rooms sv) (sv_rooms (fst (serve loader w q sv)))"
proof (cases "handler_checks loader q")
  case True
  note d = serve_def accepted_def request_moves_def request_room_def refused_moves_def outcome_state_def table_at_rooms
  show ?thesis
  proof (cases q)
    case (Create c n public config selected)
    then show ?thesis using True moved_create [of c w n public config selected sv] by (simp add: d split: if_splits)
  next
    case (Join rc)
    then show ?thesis using True assms(1) moved_join [of w sv rc] by (simp add: d new_to_def split: if_splits)
  next
    case (Leave rc i)
    then show ?thesis using True moved_leave [of rc w i sv] by (simp add: d split: if_splits)
  next
    case (Start rc)
    then show ?thesis using True moved_start_game [OF assms(2), of rc loader w] by (simp add: d split: if_splits)
  next
    case (Reset rc)
    then show ?thesis using True moved_reset [of rc w sv] by (simp add: d split: if_splits)
  next
    case (BeginRound rc n)
    then show ?thesis using True moved_begin_round [of rc w n sv] moved_more [of rc "[[]]" _ _ "[[], [Begins]]"]
      by (cases "succeeds (beginRound w rc n sv)") (auto simp: d)
  next
    case (Select rc i ids)
    then show ?thesis using True moved_select [of rc i ids sv] by (simp add: d split: if_splits)
  qed (use True in \<open>simp_all add: d moved_quiet server_quiet\<close>)
next
  case False
  then show ?thesis by (auto simp: serve_def accepted_def refused_moves_def moved_quiet split: request.split)
qed

lemma moved_job:
  "moved (job_room j) (job_moves j (table_at (job_room j) sv)) (sv_rooms sv) (sv_rooms (fst (run_job w order j sv)))"
proof -
  note d = run_job_def job_moves_def job_room_def outcome_state_def table_at_rooms
  show ?thesis
  proof (cases j)
    case (JobExchange rc)
    then show ?thesis using moved_exchange [of rc sv w] by (simp add: d)
  next
    case (JobNextRound rc n)
    then show ?thesis using moved_next_round [of rc sv w n] by (simp add: d)
  next
    case (JobReveal rc)
    then show ?thesis using moved_reveal [of rc sv] by (simp add: d)
  qed (simp_all add: d moved_quiet server_quiet)
qed

text \<open>An event makes one of its sequences of moves at each table.\<close>

definition event_done :: "table_act list list \<Rightarrow> string \<Rightarrow> rooms \<Rightarrow> rooms \<Rightarrow> bool" where
  "event_done ms rc R R' \<longleftrightarrow> (\<exists>as \<in> set ms. table_path as (tables R rc) (tables R' rc))"

lemma moved_done: "moved rc0 ms R R' \<Longrightarrow> codes_ok R \<Longrightarrow> event_done (if rc0 \<noteq> rc then [[]] else ms) rc R R' \<and> codes_ok R'"
  by (auto simp: moved_def event_done_def)

lemma quiet_done: "quiet R R' \<Longrightarrow> codes_ok R \<Longrightarrow> event_done [[]] rc R R' \<and> codes_ok R'"
  by (simp add: quiet_def event_done_def)

lemma moved_step:
  assumes "new_to (sv_rooms sv) e" "codes_ok (sv_rooms sv)"
  shows "event_done (event_moves loader sv e rc) rc (sv_rooms sv) (sv_rooms (server_next loader sv e)) \<and>
    codes_ok (sv_rooms (server_next loader sv e))"
proof (cases e)
  case (Serve w q)
  from moved_done [OF moved_serve [of sv w q loader] assms(2), of rc] assms Serve
  show ?thesis
    by (cases "request_room q = rc") (simp_all add: server_next_def server_step_def event_moves_def split: if_splits)
next
  case (RunJob w order k)
  show ?thesis
  proof (cases "take_job k sv")
    case None
    then show ?thesis using RunJob quiet_done [OF quiet_refl assms(2)] by (simp add: server_next_def server_step_def event_moves_def)
  next
    case (Some x)
    obtain j sv' where x: "x = (j, sv')" by (cases x)
    have r: "sv_rooms sv' = sv_rooms sv" using Some x by (auto simp: take_job_def split: if_splits)
    from moved_done [OF moved_job [of j sv' w order], of rc] assms(2) r
    have "event_done (if job_room j \<noteq> rc then [[]] else job_moves j (table_at (job_room j) sv')) rc
        (sv_rooms sv) (sv_rooms (fst (run_job w order j sv'))) \<and> codes_ok (sv_rooms (fst (run_job w order j sv')))" by simp
    then show ?thesis
      using RunJob Some x r by (cases "job_room j = rc") (simp_all add: server_next_def server_step_def event_moves_def table_at_rooms)
  qed
next
  case (Second i)
  then show ?thesis using quiet_done [OF quiet_tick assms(2)] by (simp add: server_next_def server_step_def event_moves_def)
qed

text \<open>Nobody sits at a table who has not joined.\<close>

definition ids_at :: "Table option \<Rightarrow> string set" where
  "ids_at x = (case x of None \<Rightarrow> {} | Some t \<Rightarrow> fst ` set (tb_seats t))"

lemma move_ids: "table_move a x y \<Longrightarrow> ids_at y \<subseteq> ids_at x \<union> {i. a = Joins i}"
proof (induction rule: table_move.induct)
  case (leaves t k)
  then show ?case by (auto simp: ids_at_def dest: in_set_takeD in_set_dropD)
next
  case (deals t ys)
  have "fst ` set ys = fst ` set (tb_seats t)" using deals(3) by (metis seats_dealt_def set_map)
  then show ?case by (simp add: ids_at_def)
qed (auto simp: ids_at_def image_image)

lemma path_ids: "table_path as x y \<Longrightarrow> ids_at y \<subseteq> ids_at x \<union> {i. Joins i \<in> set as}"
proof (induction as arbitrary: x)
  case (Cons a as)
  then obtain z where "table_move a x z" "ids_at y \<subseteq> ids_at z \<union> {i. Joins i \<in> set as}" by auto
  with move_ids [of a x z] show ?case by auto
qed simp

lemma event_joins: "as \<in> set (event_moves loader sv e rc) \<Longrightarrow> Joins i \<in> set as \<Longrightarrow> i \<in> set (joining [e])"
  by (auto simp: event_moves_def request_moves_def refused_moves_def job_moves_def
      split: server_event.splits request.splits job.splits option.splits prod.splits if_splits)

lemma ids_of_room: "ids_at (tables R rc) = (case R rc of None \<Rightarrow> {} | Some r \<Rightarrow> gp_id ` set (gr_players r))"
  by (auto simp: ids_at_def table_of_def seat_of_def image_image split: option.split)

text \<open>What holds in a run that never gives an identifier twice.\<close>

definition run_inv :: "string list \<Rightarrow> rooms \<Rightarrow> bool" where
  "run_inv is R \<longleftrightarrow>
     codes_ok R \<and> (\<forall>rc. ids_at (tables R rc) \<subseteq> set is) \<and>
     (\<forall>rc. case tables R rc of None \<Rightarrow> True | Some t \<Rightarrow> table_ok t)"

lemma run_inv_new:
  assumes "run_inv (joining es) R" "distinct (joining (es @ [e]))"
  shows "new_to R e"
proof -
  have "set (joining es) \<inter> set (joining [e]) = {}" using assms(2) by (simp only: joining_append distinct_append)
  moreover have "ids_at (tables R rc) \<subseteq> set (joining es)" for rc using assms(1) by (simp add: run_inv_def)
  ultimately have "wd_uuid w \<notin> ids_at (tables R rc)" if "e = Serve w (Join rc)" for w rc
    using that by auto
  then show ?thesis by (auto simp: new_to_def ids_of_room split: server_event.split request.split option.splits)
qed

lemma run_inv_step:
  assumes "run_inv is (sv_rooms sv)" "new_to (sv_rooms sv) e"
  shows "run_inv (is @ joining [e]) (sv_rooms (server_next loader sv e))"
proof -
  let ?R = "sv_rooms sv" and ?R' = "sv_rooms (server_next loader sv e)"
  have c: "codes_ok ?R" using assms(1) by (simp add: run_inv_def)
  note st = moved_step [OF assms(2) c, of loader]
  have "ids_at (tables ?R' rc) \<subseteq> set (is @ joining [e]) \<and> (case tables ?R' rc of None \<Rightarrow> True | Some t \<Rightarrow> table_ok t)" for rc
  proof -
    obtain as where as: "as \<in> set (event_moves loader sv e rc)" "table_path as (tables ?R rc) (tables ?R' rc)"
      using st [of rc] by (auto simp: event_done_def)
    have "ids_at (tables ?R rc) \<subseteq> set is" "case tables ?R rc of None \<Rightarrow> True | Some t \<Rightarrow> table_ok t"
      using assms(1) by (simp_all add: run_inv_def)
    then show ?thesis
      using path_ids [OF as(2)] event_joins [OF as(1)] table_path_ok [OF as(2)] by fastforce
  qed
  then show ?thesis using st by (simp add: run_inv_def)
qed

lemma run_inv: "distinct (joining es) \<Longrightarrow> run_inv (joining es) (sv_rooms (server_run loader empty_server es))"
proof (induction es rule: rev_induct)
  case (snoc e es)
  have "distinct (joining es)" using snoc.prems by (simp only: joining_append distinct_append)
  from snoc.IH [OF this] run_inv_step [OF _ run_inv_new [OF _ snoc.prems]]
  show ?case by (simp only: run_append run_Cons run_Nil joining_append)
qed (simp add: run_inv_def empty_server_def codes_ok_def ids_at_def)

lemma run_tables:
  assumes "distinct (joining es)" "sv_rooms (server_run loader empty_server es) rc = Some r"
  shows "table_ok (table_of r)"
proof -
  have "case tables (sv_rooms (server_run loader empty_server es)) rc of None \<Rightarrow> True | Some t \<Rightarrow> table_ok t"
    using run_inv [OF assms(1), of loader] by (simp add: run_inv_def)
  then show ?thesis using assms(2) by simp
qed

section \<open>Runs of the server\<close>

text \<open>A world that draws the first player everywhere, and the opening of a game of six.\<close>

definition plain_world :: "string \<Rightarrow> World" where
  "plain_world i =
     \<lparr>wd_now = '''', wd_uuid = i,
      wd_draws = \<lparr>dr_teams = [], dr_players = [], dr_red = [], dr_blue = [], dr_grey = [], dr_rooms = []\<rparr>,
      wd_red = 0, wd_blue = 0\<rparr>"

definition game_of_six :: "server_event list" where
  "game_of_six =
     Serve (plain_world '''') (Create ''ABCDEF'' 6 True '''' []) #
     map (\<lambda>i. Serve (plain_world i) (Join ''ABCDEF'')) [''a'', ''b'', ''c'', ''d'', ''e'', ''f''] @
     [Serve (plain_world ''g'') (Start ''ABCDEF'')]"

definition exchange_of_six :: "server_event list" where
  "exchange_of_six = game_of_six @
     [Serve (plain_world '''') (Select ''ABCDEF'' ''a'' [''b'']), Serve (plain_world '''') (Select ''ABCDEF'' ''d'' [''e'']),
      RunJob (plain_world '''') [] 0]"

lemma joining_six: "joining game_of_six = [''a'', ''b'', ''c'', ''d'', ''e'', ''f'']"
  "joining exchange_of_six = [''a'', ''b'', ''c'', ''d'', ''e'', ''f'']"
  by code_simp+

text \<open>C14: The server keeps the abstract game of tables, event by event. After any run, the next request makes
  its moves at the table of its room if it is accepted, and none if it is refused (except that a round
  may begin and then find no leaders). The job of an exchange makes the exchange exactly if it is due;
  those of a round and of the reveal make their move or find nothing to do. At all other tables, and in
  every second of a timer, nothing happens: a room is opened, joined, left, closed, dealt, reset, picked
  from or exchanged by the event that stands for it and by no other, under the rules of that move, and
  closed only by the host or the last player, outside a game. Identifiers are not given twice.\<close>

theorem server_refines_tables:
  assumes "distinct (joining (es @ [e]))"
  shows "let sv = server_run loader empty_server es; sv' = server_run loader empty_server (es @ [e]) in
    table_at rc empty_server = None \<and>
    (\<exists>as \<in> set (event_moves loader sv e rc). table_path as (table_at rc sv) (table_at rc sv'))"
proof -
  let ?sv = "server_run loader empty_server es"
  have "distinct (joining es)" using assms by (simp only: joining_append distinct_append)
  from run_inv [OF this, of loader] have i: "run_inv (joining es) (sv_rooms ?sv)" .
  from moved_step [OF run_inv_new [OF i assms], of loader rc] i show ?thesis
    by (simp add: run_inv_def event_done_def table_at_rooms run_append empty_server_def)
qed

theorem server_refines_tables_witness:
  "let sv = server_run (\<lambda>_. Some []) empty_server (butlast exchange_of_six); sv' = server_run (\<lambda>_. Some []) empty_server exchange_of_six in
    table_at ''ABCDEF'' empty_server = None \<and>
    (\<exists>as \<in> set (event_moves (\<lambda>_. Some []) sv (last exchange_of_six) ''ABCDEF'').
       table_path as (table_at ''ABCDEF'' sv) (table_at ''ABCDEF'' sv'))"
proof -
  have e: "butlast exchange_of_six @ [last exchange_of_six] = exchange_of_six"
    by (rule append_butlast_last_id) (simp add: exchange_of_six_def)
  then have "distinct (joining (butlast exchange_of_six @ [last exchange_of_six]))" by (simp add: joining_six del: joining_append)
  from server_refines_tables [OF this, of "\<lambda>_. Some []" "''ABCDEF''", unfolded e] show ?thesis .
qed

text \<open>In that run the last event is the exchange, which is due and made.\<close>

lemma exchange_made:
  "event_moves (\<lambda>_. Some []) (server_run (\<lambda>_. Some []) empty_server (butlast exchange_of_six)) (last exchange_of_six) ''ABCDEF'' =
     [[Exchanges]]"
  by code_simp

text \<open>The players of a room, and during a game how they are spread over its two rooms.\<close>

definition balanced :: "Go_Room \<Rightarrow> bool" where
  "balanced r \<longleftrightarrow>
     distinct (map gp_id (gr_players r)) \<and> int (length (gr_players r)) \<le> gr_maxPlayers r \<and> gr_maxPlayers r \<le> 30 \<and>
     (gr_status r = IN_PROGRESS \<longrightarrow>
        6 \<le> length (gr_players r) \<and>
        length (in_color RED_ROOM (gr_players r)) = (length (gr_players r) + 1) div 2 \<and>
        length (in_color BLUE_ROOM (gr_players r)) = length (gr_players r) div 2)"

lemma in_color_card:
  assumes "distinct (map gp_id ps)"
  shows "length (in_color c ps) = card (in_room c (map seat_of ps))"
proof -
  have "distinct (map fst (map seat_of ps))" using assms by (simp add: comp_def seat_of_def)
  from card_in_room [OF this] have c: "card (in_room c (map seat_of ps)) = count (mset (map gp_room ps)) (Some c)"
    by (simp add: comp_def seat_of_def del: mset_map)
  have "length (in_color c ps) = count (mset (map gp_room ps)) (Some c)"
    unfolding in_color_def by (induction ps) simp_all
  with c show ?thesis by simp
qed

lemma table_balanced: "table_ok (table_of r) \<Longrightarrow> balanced r"
proof -
  assume ok: "table_ok (table_of r)"
  then have "distinct (map fst (map seat_of (gr_players r)))" by (simp add: table_ok_def table_of_def)
  then have d: "distinct (map gp_id (gr_players r))" by (simp add: comp_def seat_of_def)
  show ?thesis using ok d by (auto simp: balanced_def table_ok_def table_of_def in_color_card)
qed

text \<open>C12: In every room of the server, after any run of requests, jobs and timers, the players are
  distinct and no more than the room holds; and while a game is on there are at least six of them,
  and the two rooms differ by at most one player, with the odd one in the red room: joining,
  leaving, exchanges, votes and transfers in any order do not change that.\<close>

theorem rooms_stay_balanced:
  assumes "distinct (joining es)"
  shows "case sv_rooms (server_run loader empty_server es) rc of None \<Rightarrow> True | Some r \<Rightarrow> balanced r"
  using run_tables [OF assms] table_balanced by (auto split: option.split)

lemma six_play: "map_option gr_status (sv_rooms (server_run (\<lambda>_. Some []) empty_server game_of_six) ''ABCDEF'') = Some IN_PROGRESS"
  by code_simp

theorem rooms_stay_balanced_witness:
  "case sv_rooms (server_run (\<lambda>_. Some []) empty_server game_of_six) ''ABCDEF'' of
     None \<Rightarrow> False | Some r \<Rightarrow> gr_status r = IN_PROGRESS \<and> balanced r"
  using rooms_stay_balanced [of game_of_six "\<lambda>_. Some []" "''ABCDEF''"] six_play
  by (auto simp: joining_six split: option.splits)

end
