(* ===== verification/Server_Facts.thy ===== *)
theory Server_Facts
  imports Server_Tables
begin

text \<open>
  What the operations of the server promise: names that stay apart, the clock of a round, what an
  exchange announces, how votes are counted, and what happens when a vote and an exchange meet.
\<close>

section \<open>Names\<close>

lemma numbered_inject [simp]: "numbered n j = numbered n k \<longleftrightarrow> j = k"
  by (simp add: numbered_def)

lemma taken_in: "name_taken i n ps \<Longrightarrow> n \<in> gp_nickname ` set ps"
  by (auto simp: name_taken_def list_ex_iff)

text \<open>Of the names from a number on, one up to the number 100 is free if there are fewer players.\<close>

lemma some_name_free:
  assumes "length ps < card {k..100::nat}"
  shows "\<exists>j. k \<le> j \<and> j \<le> 100 \<and> \<not> name_taken i (numbered n j) ps"
proof (rule ccontr)
  assume "\<not> ?thesis"
  then have "numbered n ` {k..100} \<subseteq> gp_nickname ` set ps" using taken_in by auto
  then have "card (numbered n ` {k..100}) \<le> card (gp_nickname ` set ps)" by (intro card_mono) simp_all
  also have "\<dots> \<le> length ps" using card_image_le [of "set ps" gp_nickname] card_length [of ps] by simp
  finally show False using assms by (simp add: card_image inj_on_def)
qed

lemma free_name_free:
  assumes "j \<le> 100" "\<not> name_taken i (numbered n j) ps" "k \<le> j"
  shows "\<not> name_taken i (free_name i n ps k) ps \<and> (\<exists>m \<le> j. free_name i n ps k = numbered n m)"
  using assms
proof (induction i n ps k rule: free_name.induct)
  case (1 i n ps k)
  show ?case
  proof (cases "name_taken i (numbered n k) ps")
    case True
    then have "k \<noteq> j" using "1.prems" by auto
    then have k: "Suc k \<le> j" "\<not> k + 1 > 100" using "1.prems" by simp_all
    have "free_name i n ps k = free_name i n ps (k + 1)" using True k(2) by (simp add: free_name.simps [of i n ps k])
    then show ?thesis using "1.IH" [OF _ k(2)] True "1.prems" k(1) by simp
  next
    case False
    then show ?thesis using "1.prems" by (auto simp: free_name.simps [of i n ps k])
  qed
qed

lemma given_name_free:
  assumes "length ps \<le> 30"
  shows "\<not> name_taken i (handleDuplicateNickname ps i n) ps"
proof -
  obtain j where "2 \<le> j" "j \<le> 100" "\<not> name_taken i (numbered n j) ps" using some_name_free [of ps 2 i n] assms by auto
  then show ?thesis using free_name_free [of j i n ps 2] by (auto simp: handleDuplicateNickname_def)
qed

lemma rename_first:
  "distinct (map gp_id ps) \<Longrightarrow>
     map gp_nickname (update_first (\<lambda>q. gp_id q = i) (\<lambda>q. q\<lparr>gp_nickname := n, gp_isAnonymous := False\<rparr>) ps) =
       map (\<lambda>q. if gp_id q = i then n else gp_nickname q) ps"
proof (induction ps)
  case (Cons p ps)
  have "gp_id q \<noteq> gp_id p" if "q \<in> set ps" for q using Cons.prems that by (auto simp: image_iff)
  then show ?case using Cons by auto
qed simp

text \<open>A player who asks for a name gets it, or the name with a number, and nobody else in the room
  has it, since a room holds at most thirty players and a hundred numbers are tried; everybody else
  keeps the name, and all hear of it. The number may make the name longer than the twenty letters
  allowed.\<close>

theorem names_stay_apart:
  assumes "sv_rooms sv rc = Some r" "gr_code r = rc" "balanced r" "2 \<le> length n" "length n \<le> 20" "i \<in> gp_id ` set (gr_players r)"
  shows "case UpdateNickname w rc i n sv of
      (Inl _, _, _) \<Rightarrow> False
    | (Inr p, sv', out) \<Rightarrow>
        gp_id p = i \<and> (gp_nickname p = n \<or> (\<exists>k. gp_nickname p = numbered n k)) \<and>
        (\<forall>q \<in> set (gr_players r). gp_id q \<noteq> i \<longrightarrow> gp_nickname q \<noteq> gp_nickname p) \<and>
        map_option (\<lambda>r. map gp_nickname (gr_players r)) (sv_rooms sv' rc) =
          Some (map (\<lambda>q. if gp_id q = i then gp_nickname p else gp_nickname q) (gr_players r)) \<and>
        out = [Sent rc None (S_NicknameChanged i (gp_nickname p))]"
proof -
  have "find_go i (gr_players r) \<noteq> None" using assms(6) by (auto simp: find_go_def find_None_iff)
  then obtain p where p: "find_go i (gr_players r) = Some p" by blast
  have l: "length (gr_players r) \<le> 30" and d: "distinct (map gp_id (gr_players r))" using assms(3) by (auto simp: balanced_def)
  have "handleDuplicateNickname (gr_players r) i n = n \<or> (\<exists>k. handleDuplicateNickname (gr_players r) i n = numbered n k)"
  proof -
    obtain j where "2 \<le> j" "j \<le> 100" "\<not> name_taken i (numbered n j) (gr_players r)"
      using some_name_free [of "gr_players r" 2 i n] l by auto
    then show ?thesis using free_name_free [of j i n "gr_players r" 2] by (auto simp: handleDuplicateNickname_def)
  qed
  then show ?thesis
    using assms(1,2,4,5) p given_name_free [OF l, of i n] find_holds [of "\<lambda>p. gp_id p = i" "gr_players r" p]
      rename_first [OF d, of i "handleDuplicateNickname (gr_players r) i n"]
    by (auto simp: UpdateNickname_def Let_def done_with_def name_taken_def list_ex_iff find_go_def put_room_def)
qed

definition two_anns :: "Go_Player list" where
  "two_anns = map (\<lambda>(i, n). \<lparr>gp_id = i, gp_nickname = n, gp_isAnonymous = False, gp_roomCode = ''ABCDEF'', gp_isOwner = False,
     gp_role = None, gp_team = None, gp_room = None, gp_connectedAt = ''''\<rparr>) [(''a'', ''Ann''), (''b'', ''Bob'')]"

definition lobby_of :: "Go_Player list \<Rightarrow> Go_Room" where
  "lobby_of ps = \<lparr>gr_code = ''ABCDEF'', gr_status = WAITING, gr_players = ps, gr_maxPlayers = 6, gr_session = None,
     gr_isPublic = True, gr_roleConfigId = ''standard'', gr_selectedRoles = [], gr_createdAt = '''', gr_updatedAt = ''''\<rparr>"

theorem names_stay_apart_witness:
  "case UpdateNickname (plain_world '''') ''ABCDEF'' ''b'' ''Ann'' (put_room (lobby_of two_anns) empty_server) of
      (Inl _, _, _) \<Rightarrow> False
    | (Inr p, sv', out) \<Rightarrow>
        gp_id p = ''b'' \<and> (gp_nickname p = ''Ann'' \<or> (\<exists>k. gp_nickname p = numbered ''Ann'' k)) \<and>
        (\<forall>q \<in> set two_anns. gp_id q \<noteq> ''b'' \<longrightarrow> gp_nickname q \<noteq> gp_nickname p) \<and>
        map_option (\<lambda>r. map gp_nickname (gr_players r)) (sv_rooms sv' ''ABCDEF'') =
          Some (map (\<lambda>q. if gp_id q = ''b'' then gp_nickname p else gp_nickname q) two_anns) \<and>
        out = [Sent ''ABCDEF'' None (S_NicknameChanged ''b'' (gp_nickname p))]"
proof -
  let ?r = "lobby_of two_anns"
  have ps: "gr_players ?r = two_anns" by (simp add: lobby_of_def)
  have h: "sv_rooms (put_room ?r empty_server) ''ABCDEF'' = Some ?r" "gr_code ?r = ''ABCDEF''" "balanced ?r"
      "''b'' \<in> gp_id ` set (gr_players ?r)"
    unfolding balanced_def ps by (simp_all add: lobby_of_def two_anns_def)
  have "2 \<le> length ''Ann''" "length ''Ann'' \<le> 20" by simp_all
  from names_stay_apart [OF h(1-3) this h(4)] show ?thesis unfolding ps .
qed

section \<open>The clock of a round\<close>

text \<open>Seconds that pass for a timer, with all that is sent.\<close>

fun seconds :: "nat \<Rightarrow> string \<Rightarrow> Server \<Rightarrow> Server \<times> sent list" where
  "seconds 0 g sv = (sv, [])"
| "seconds (Suc k) g sv = (case tick g sv of (sv', out) \<Rightarrow> (case seconds k g sv' of (sv'', out') \<Rightarrow> (sv'', out @ out')))"

text \<open>The round of a room when some time of it has passed, and what is sent meanwhile.\<close>

definition clock_at :: "int \<Rightarrow> RoundState \<Rightarrow> RoundState" where
  "clock_at t rs = rs\<lparr>rs_timeRemaining := t, rs_status := (if t = 0 then SELECTING else rs_status rs)\<rparr>"

definition clock_messages :: "string \<Rightarrow> RoundState \<Rightarrow> nat \<Rightarrow> sent list" where
  "clock_messages rc rs k =
     concat (map (\<lambda>j. let t = rs_timeRemaining rs - int j in
         Sent rc None (S_TimerTick (rs_roundNumber rs) t) #
         (if t = 0 then [Sent rc None (S_RoundEnding (rs_roundNumber rs) (hostageCount rs))] else []))
       [1..<Suc k])"

lemma set_round_twice [simp]: "set_round a (set_round b r) = set_round a r"
  by (cases "gr_session r") (simp_all add: set_round_def)

lemma tick_counts:
  assumes "map_get (sv_timers sv) g = Some rc" "sv_rooms sv rc = Some r" "gr_code r = rc" "round_of r = Some rs"
    "0 < rs_timeRemaining rs"
  shows "tick g sv = (put_room (set_round (clock_at (rs_timeRemaining rs - 1) rs) r) sv, clock_messages rc rs 1)"
  using assms by (simp add: tick_def tickTimer_def Let_def done_with_def clock_at_def clock_messages_def)

lemma tick_stopped:
  assumes "map_get (sv_timers sv) g = Some rc" "sv_rooms sv rc = Some r" "round_of r = Some rs" "rs_timeRemaining rs \<le> 0"
  shows "tick g sv = (sv, [])"
  using assms by (simp add: tick_def tickTimer_def done_with_def)

lemma clock_at_fields [simp]:
  "rs_roundNumber (clock_at t rs) = rs_roundNumber rs" "hostageCount (clock_at t rs) = hostageCount rs"
  "rs_timeRemaining (clock_at t rs) = t"
  by (simp_all add: clock_at_def)

lemma clock_at_at: "clock_at t (clock_at u rs) = clock_at t rs" if "0 < u"
  using that by (simp add: clock_at_def)

lemma clock_messages_Suc:
  "0 < rs_timeRemaining rs \<Longrightarrow>
     clock_messages rc rs (Suc k) = clock_messages rc rs 1 @ clock_messages rc (clock_at (rs_timeRemaining rs - 1) rs) k"
proof -
  have "[1..<Suc (Suc k)] = 1 # map Suc [1..<Suc k]" by (simp add: map_Suc_upt upt_conv_Cons)
  then show ?thesis by (simp add: clock_messages_def comp_def algebra_simps cong: if_cong)
qed

lemma put_room_twice [simp]: "gr_code r = gr_code r' \<Longrightarrow> put_room r' (put_room r sv) = put_room r' sv"
  by (simp add: put_room_def)

lemma seconds_stopped:
  assumes "map_get (sv_timers sv) g = Some rc" "sv_rooms sv rc = Some r" "round_of r = Some rs" "rs_timeRemaining rs \<le> 0"
  shows "seconds k g sv = (sv, [])"
  by (induction k) (simp_all add: tick_stopped [OF assms])

lemma seconds_count:
  assumes "map_get (sv_timers sv) g = Some rc" "sv_rooms sv rc = Some r" "gr_code r = rc" "round_of r = Some rs"
    "int k \<le> rs_timeRemaining rs" "0 < k"
  shows "seconds k g sv = (put_room (set_round (clock_at (rs_timeRemaining rs - int k) rs) r) sv, clock_messages rc rs k)"
  using assms
proof (induction k arbitrary: sv r rs)
  case (Suc k)
  let ?rs = "clock_at (rs_timeRemaining rs - 1) rs"
  let ?r = "set_round ?rs r"
  have t: "tick g sv = (put_room ?r sv, clock_messages rc rs 1)" using Suc.prems by (intro tick_counts) simp_all
  show ?case
  proof (cases k)
    case 0
    then show ?thesis using t by simp
  next
    case (Suc j)
    have s: "round_of ?r = Some ?rs" using Suc.prems(4) round_session [of r rs] by (simp add: round_of_set_round del: not_None_eq)
    have "seconds k g (put_room ?r sv) =
        (put_room (set_round (clock_at (rs_timeRemaining ?rs - int k) ?rs) ?r) (put_room ?r sv), clock_messages rc ?rs k)"
    proof (rule Suc.IH)
      show "map_get (sv_timers (put_room ?r sv)) g = Some rc" using Suc.prems(1) by (simp add: put_room_def)
      show "int k \<le> rs_timeRemaining ?rs" using Suc.prems(5) by (simp add: clock_at_def)
    qed (use Suc.prems Suc s in simp_all)
    moreover have "clock_at (rs_timeRemaining ?rs - int k) ?rs = clock_at (rs_timeRemaining rs - int (Suc k)) rs"
      using Suc.prems(5) Suc clock_at_at [of "rs_timeRemaining rs - 1"] by (simp add: clock_at_def)
    ultimately show ?thesis
      using t Suc.prems(5) clock_messages_Suc [of rs rc k] by simp
  qed
qed simp

lemma seconds_add:
  "seconds (j + k) g sv = (case seconds j g sv of (sv', out) \<Rightarrow> case seconds k g sv' of (sv'', out') \<Rightarrow> (sv'', out @ out'))"
  by (induction j arbitrary: sv) (simp_all split: prod.split)

lemma seconds_pass:
  assumes "map_get (sv_timers sv) g = Some rc" "sv_rooms sv rc = Some r" "gr_code r = rc" "round_of r = Some rs"
    "rs_timeRemaining rs = int d" "0 < d"
  shows "Option.bind (sv_rooms (fst (seconds k g sv)) rc) round_of = Some (clock_at (max 0 (int d - int k)) rs)"
    and "snd (seconds k g sv) = clock_messages rc rs (min k d)"
proof -
  have some: "round_of (set_round x r) = Some x" for x using assms(4) round_session [of r rs] by (simp add: round_of_set_round del: not_None_eq)
  have upto: "seconds j g sv = (put_room (set_round (clock_at (int d - int j) rs) r) sv, clock_messages rc rs j)"
    if "j \<le> d" "0 < j" for j
    using seconds_count [of sv g rc r rs j] assms that by simp
  have rest: "seconds j g (put_room (set_round (clock_at 0 rs) r) sv) = (put_room (set_round (clock_at 0 rs) r) sv, [])" for j
    using assms(1,3) some by (intro seconds_stopped [of _ _ rc "set_round (clock_at 0 rs) r" "clock_at 0 rs"])
      (simp_all add: put_room_def)
  have "seconds k g sv = (if k = 0 then (sv, []) else
      (put_room (set_round (clock_at (max 0 (int d - int k)) rs) r) sv, clock_messages rc rs (min k d)))"
  proof (cases "d < k")
    case True
    then have "k = d + (k - d)" by simp
    then show ?thesis using seconds_add [of d "k - d" g sv] upto [of d] rest [of "k - d"] assms(6) True by simp
  next
    case False
    then show ?thesis using upto [of k] by simp
  qed
  moreover have "clock_at (int d) rs = rs" using assms(5,6) by (simp add: clock_at_def)
  ultimately show "Option.bind (sv_rooms (fst (seconds k g sv)) rc) round_of = Some (clock_at (max 0 (int d - int k)) rs)"
    "snd (seconds k g sv) = clock_messages rc rs (min k d)"
    using assms some by (simp_all add: clock_messages_def)
qed

lemma start_round_state:
  assumes "sv_rooms sv rc = Some r" "gr_code r = rc" "gr_session r = Some g" "1 \<le> n" "n \<le> 3"
  shows "\<exists>r' rs. StartRound w rc n sv = (Inr (), startTimer rc (gs_id g) (put_room r' sv), [broadcastRoundStarted r' rs]) \<and>
     gr_code r' = rc \<and> gr_players r' = gr_players r \<and> gr_status r' = gr_status r \<and> round_of r' = Some rs \<and>
     gr_session r' \<noteq> None \<and>
     rs_roundNumber rs = n \<and> rs_timeRemaining rs = GetRoundDuration n \<and> rs_duration rs = GetRoundDuration n \<and>
     hostageCount rs = GetHostageCount (int (length (gr_players r))) n \<and> rs_status rs = SETUP"
proof -
  let ?rs = "\<lparr>rs_gameSessionId = gs_id g, rs_roundNumber = n, rs_duration = GetRoundDuration n,
      rs_timeRemaining = GetRoundDuration n, rs_status = SETUP,
      redLeaderId = (case gs_roundState g of None \<Rightarrow> '''' | Some o' \<Rightarrow> redLeaderId o'),
      blueLeaderId = (case gs_roundState g of None \<Rightarrow> '''' | Some o' \<Rightarrow> blueLeaderId o'),
      hostageCount = GetHostageCount (int (length (gr_players r))) n, redHostages = [],
      blueHostages = [], redLeaderReady = False, blueLeaderReady = False, rs_startedAt = wd_now w, rs_endedAt = None\<rparr>"
  let ?r' = "r\<lparr>gr_session := Some (g\<lparr>gs_currentRound := n, gs_roundState := Some ?rs\<rparr>)\<rparr>"
  have "StartRound w rc n sv = (Inr (), startTimer rc (gs_id g) (put_room ?r' sv), [broadcastRoundStarted ?r' ?rs])"
    using assms by (simp add: StartRound_def Let_def done_with_def)
  then show ?thesis using assms by (intro exI [of _ ?r'] exI [of _ ?rs]) (simp add: round_of_def)
qed

lemma map_get_set [simp]: "map_get (map_set k v m) j = (if j = k then Some v else map_get m j)"
  by (simp add: map_get_def map_of_map_set)

lemma map_get_delete [simp]: "map_get (map_delete k m) j = (if j = k then None else map_get m j)"
  by (simp add: map_get_def map_of_map_delete)

lemma put_timers [simp]: "sv_timers (put_room r sv) = sv_timers sv"
  by (simp add: put_room_def)

lemma duration_range: "0 < GetRoundDuration n" "GetRoundDuration n \<le> 180"
  by (simp_all add: GetRoundDuration_def)

text \<open>C31: A round that is started lasts three, two or one minutes: after every second of its timer the time
  that is left is announced, and when it is up the hostages are asked for, once; the choice of
  hostages has begun exactly when the whole time has passed, and seconds after that do nothing.\<close>

theorem round_lasts_its_time:
  assumes "sv_rooms sv rc = Some r" "gr_code r = rc" "gr_session r = Some g" "1 \<le> n" "n \<le> 3"
  shows "case StartRound w rc n sv of (x, sv', _) \<Rightarrow>
      (case Option.bind (sv_rooms sv' rc) round_of of
         None \<Rightarrow> False
       | Some rs \<Rightarrow>
           x = Inr () \<and> rs_timeRemaining rs = (if n = 1 then 180 else if n = 2 then 120 else 60) \<and>
           (case seconds k (gs_id g) sv' of (sv'', out) \<Rightarrow>
              out = clock_messages rc rs (min k (nat (rs_timeRemaining rs))) \<and>
              (case Option.bind (sv_rooms sv'' rc) round_of of
                 None \<Rightarrow> False
               | Some rs' \<Rightarrow> rs_timeRemaining rs' = max 0 (rs_timeRemaining rs - int k) \<and>
                   (rs_status rs' = SELECTING \<longleftrightarrow> rs_timeRemaining rs \<le> int k))))"
proof -
  obtain r' rs where st: "StartRound w rc n sv = (Inr (), startTimer rc (gs_id g) (put_room r' sv), [broadcastRoundStarted r' rs])"
    and r': "gr_code r' = rc" "round_of r' = Some rs" "rs_timeRemaining rs = GetRoundDuration n" "rs_status rs = SETUP"
    using start_round_state [OF assms, of w] by blast
  let ?sv = "startTimer rc (gs_id g) (put_room r' sv)" and ?d = "nat (GetRoundDuration n)"
  have g: "map_get (sv_timers ?sv) (gs_id g) = Some rc" by (simp add: startTimer_def)
  have R: "sv_rooms ?sv rc = Some r'" using r'(1) by simp
  note s = seconds_pass [OF g R r'(1,2), of ?d k]
  have d: "rs_timeRemaining rs = int ?d" "0 < ?d" using r'(3) duration_range [of n] by simp_all
  have dn: "GetRoundDuration n = (if n = 1 then 180 else if n = 2 then 120 else 60)" using assms(4,5) by (simp add: GetRoundDuration_def)
  show ?thesis
    using s [OF d] R r' d dn by (cases "seconds k (gs_id g) ?sv") (auto simp: st clock_at_def max_def)
qed

definition playing :: Go_Room where
  "playing = (lobby_of two_anns)\<lparr>gr_status := IN_PROGRESS, gr_session :=
     Some \<lparr>gs_id = ''g'', gs_roomCode = ''ABCDEF'', gs_startedAt = '''', gs_currentRound = 0, gs_roundState = None\<rparr>\<rparr>"

theorem round_lasts_its_time_witness:
  "case StartRound (plain_world '''') ''ABCDEF'' 2 (put_room playing empty_server) of (x, sv', _) \<Rightarrow>
      (case Option.bind (sv_rooms sv' ''ABCDEF'') round_of of
         None \<Rightarrow> False
       | Some rs \<Rightarrow>
           x = Inr () \<and> rs_timeRemaining rs = (if (2::int) = 1 then 180 else if (2::int) = 2 then 120 else 60) \<and>
           (case seconds 120 (gs_id (the (gr_session playing))) sv' of (sv'', out) \<Rightarrow>
              out = clock_messages ''ABCDEF'' rs (min 120 (nat (rs_timeRemaining rs))) \<and>
              (case Option.bind (sv_rooms sv'' ''ABCDEF'') round_of of
                 None \<Rightarrow> False
               | Some rs' \<Rightarrow> rs_timeRemaining rs' = max 0 (rs_timeRemaining rs - int 120) \<and>
                   (rs_status rs' = SELECTING \<longleftrightarrow> rs_timeRemaining rs \<le> int 120))))"
  by (rule round_lasts_its_time [where r = playing]) (simp_all add: playing_def lobby_of_def)

section \<open>A clock that runs double\<close>

lemma start_game_state:
  assumes "sv_rooms sv rc = Some r" "gr_code r = rc" "gr_status r \<noteq> IN_PROGRESS" "6 \<le> length (gr_players r)"
  shows "\<exists>r' rs. sv_rooms (fst (snd (GoStartGame loader w rc sv))) rc = Some r' \<and> gr_code r' = rc \<and>
     gr_status r' = IN_PROGRESS \<and> length (gr_players r') = length (gr_players r) \<and> round_of r' = Some rs \<and>
     rs_timeRemaining rs = 180 \<and> rs_roundNumber rs = 1 \<and>
     sv_timers (fst (snd (GoStartGame loader w rc sv))) = map_set (wd_uuid w) rc (map_delete (wd_uuid w) (sv_timers sv))"
proof -
  let ?ps = "deal (wd_draws w) (loader (if gr_roleConfigId r = '''' then ''standard'' else gr_roleConfigId r))
      (gr_selectedRoles r) (gr_players r)"
  let ?g = "\<lparr>gs_id = wd_uuid w, gs_roomCode = rc, gs_startedAt = wd_now w, gs_currentRound = 0, gs_roundState = None\<rparr>"
  let ?r = "r\<lparr>gr_players := ?ps, gr_status := IN_PROGRESS, gr_session := Some ?g, gr_updatedAt := wd_now w\<rparr>"
  have h: "sv_rooms (put_room ?r sv) rc = Some ?r" "gr_code ?r = rc" "gr_session ?r = Some ?g" using assms(2) by simp_all
  obtain r' rs where st: "StartRound w rc 1 (put_room ?r sv) =
        (Inr (), startTimer rc (wd_uuid w) (put_room r' (put_room ?r sv)), [broadcastRoundStarted r' rs])"
    and r': "gr_code r' = rc" "gr_players r' = ?ps" "gr_status r' = IN_PROGRESS" "round_of r' = Some rs" "gr_session r' \<noteq> None"
      "rs_roundNumber rs = 1" "rs_timeRemaining rs = GetRoundDuration 1"
    using start_round_state [OF h, of 1 w] by auto
  let ?sv = "startTimer rc (wd_uuid w) (put_room r' (put_room ?r sv))"
  have a: "\<exists>r'' rs'. sv_rooms (fst (snd (AssignLeaders w rc ?sv))) rc = Some r'' \<and> gr_code r'' = rc \<and> gr_status r'' = IN_PROGRESS \<and>
      length (gr_players r'') = length (gr_players r) \<and> round_of r'' = Some rs' \<and> rs_timeRemaining rs' = 180 \<and> rs_roundNumber rs' = 1 \<and>
      sv_timers (fst (snd (AssignLeaders w rc ?sv))) = sv_timers ?sv"
    using r' by (auto simp: AssignLeaders_def Let_def round_of_set_round GetRoundDuration_def)
  have e: "fst (snd (GoStartGame loader w rc sv)) = fst (snd (AssignLeaders w rc ?sv))"
    using assms st by (simp add: GoStartGame_def Let_def split: prod.split)
  show ?thesis using a unfolding e by (simp add: startTimer_def)
qed

text \<open>When a game is reset and started again before a second passes, the timer of the old game, which
  nobody stopped, takes the new round for its own: two timers count the same round, so that each
  second takes two off its time, and each is announced to all.\<close>

theorem restarted_clock_runs_double:
  assumes "sv_rooms sv rc = Some r" "gr_code r = rc" "gr_status r \<noteq> IN_PROGRESS" "6 \<le> length (gr_players r)"
    "wd_uuid w1 \<noteq> wd_uuid w2"
  shows "let sv1 = fst (snd (GoStartGame loader w1 rc sv));
      sv2 = fst (snd (GoResetGame w rc sv1));
      sv3 = fst (snd (GoStartGame loader w2 rc sv2));
      (sv4, out) = tick (wd_uuid w1) sv3;
      (sv5, out') = tick (wd_uuid w2) sv4
    in out @ out' = [Sent rc None (S_TimerTick 1 179), Sent rc None (S_TimerTick 1 178)] \<and>
       map_option rs_timeRemaining (Option.bind (sv_rooms sv5 rc) round_of) = Some 178"
proof -
  let ?sv1 = "fst (snd (GoStartGame loader w1 rc sv))"
  let ?sv2 = "fst (snd (GoResetGame w rc ?sv1))"
  let ?sv3 = "fst (snd (GoStartGame loader w2 rc ?sv2))"
  obtain r1 where r1: "sv_rooms ?sv1 rc = Some r1" "gr_code r1 = rc" "gr_status r1 = IN_PROGRESS"
      "length (gr_players r1) = length (gr_players r)"
    and t1: "sv_timers ?sv1 = map_set (wd_uuid w1) rc (map_delete (wd_uuid w1) (sv_timers sv))"
    using start_game_state [OF assms(1-4), of loader w1] by blast
  obtain r2 where r2: "sv_rooms ?sv2 rc = Some r2" "gr_code r2 = rc" "gr_status r2 \<noteq> IN_PROGRESS" "6 \<le> length (gr_players r2)"
    and t2: "sv_timers ?sv2 = sv_timers ?sv1"
    using r1 assms(4) by (simp add: GoResetGame_def Let_def)
  obtain r3 rs where r3: "sv_rooms ?sv3 rc = Some r3" "gr_code r3 = rc" "round_of r3 = Some rs" "rs_timeRemaining rs = 180"
      "rs_roundNumber rs = 1"
    and t3: "sv_timers ?sv3 = map_set (wd_uuid w2) rc (map_delete (wd_uuid w2) (sv_timers ?sv2))"
    using start_game_state [OF r2, of loader w2] by blast
  have timers: "map_get (sv_timers ?sv3) (wd_uuid w1) = Some rc" "map_get (sv_timers ?sv3) (wd_uuid w2) = Some rc"
    using assms(5) by (simp_all add: t3 t2 t1)
  let ?r4 = "set_round (clock_at 179 rs) r3"
  have s4: "tick (wd_uuid w1) ?sv3 = (put_room ?r4 ?sv3, clock_messages rc rs 1)"
    using tick_counts [OF timers(1) r3(1-3)] r3(4) by simp
  have r4: "round_of ?r4 = Some (clock_at 179 rs)" using r3(3) round_session [OF r3(3)] by (simp add: round_of_set_round del: not_None_eq)
  have "tick (wd_uuid w2) (put_room ?r4 ?sv3) =
      (put_room (set_round (clock_at 178 (clock_at 179 rs)) ?r4) (put_room ?r4 ?sv3), clock_messages rc (clock_at 179 rs) 1)"
    using tick_counts [of "put_room ?r4 ?sv3" "wd_uuid w2" rc ?r4 "clock_at 179 rs"] timers(2) r3(2) r4 by simp
  then show ?thesis
    using s4 r3 round_session [OF r3(3)] by (simp add: Let_def clock_messages_def round_of_set_round del: not_None_eq)
qed

text \<open>A lobby with six players.\<close>

definition six_players :: "Go_Player list" where
  "six_players = map (\<lambda>i. \<lparr>gp_id = i, gp_nickname = i, gp_isAnonymous = False, gp_roomCode = ''ABCDEF'', gp_isOwner = (i = ''a''),
     gp_role = None, gp_team = None, gp_room = None, gp_connectedAt = ''''\<rparr>) [''a'', ''b'', ''c'', ''d'', ''e'', ''f'']"

theorem restarted_clock_runs_double_witness:
  "let sv1 = fst (snd (GoStartGame (\<lambda>_. None) (plain_world ''g'') ''ABCDEF'' (put_room (lobby_of six_players) empty_server)));
      sv2 = fst (snd (GoResetGame (plain_world '''') ''ABCDEF'' sv1));
      sv3 = fst (snd (GoStartGame (\<lambda>_. None) (plain_world ''h'') ''ABCDEF'' sv2));
      (sv4, out) = tick (wd_uuid (plain_world ''g'')) sv3;
      (sv5, out') = tick (wd_uuid (plain_world ''h'')) sv4
    in out @ out' = [Sent ''ABCDEF'' None (S_TimerTick 1 179), Sent ''ABCDEF'' None (S_TimerTick 1 178)] \<and>
       map_option rs_timeRemaining (Option.bind (sv_rooms sv5 ''ABCDEF'') round_of) = Some 178"
  by (rule restarted_clock_runs_double [where r = "lobby_of six_players"])
    (simp_all add: lobby_of_def six_players_def plain_world_def)

end

