(* ===== verification/Server_Votes.thy ===== *)
theory Server_Votes
  imports Server_Facts
begin

text \<open>
  What the server announces of an exchange and of a vote, and what happens when a vote and an exchange
  meet: a player who has been chosen as a hostage can be elected before the exchange.
\<close>

section \<open>Exchanges\<close>

text \<open>Hostages that were chosen and have not been exchanged yet.\<close>

definition hostages_wait :: "Go_Room \<Rightarrow> RoundState \<Rightarrow> bool" where
  "hostages_wait r rs \<longleftrightarrow>
     redHostages rs \<noteq> [] \<and> length (redHostages rs) = length (blueHostages rs) \<and>
     distinct (redHostages rs) \<and> distinct (blueHostages rs) \<and>
     set (redHostages rs) \<subseteq> in_room RED_ROOM (map seat_of (gr_players r)) \<and>
     set (blueHostages rs) \<subseteq> in_room BLUE_ROOM (map seat_of (gr_players r))"

definition exchanged :: "RoundState \<Rightarrow> Go_Room \<Rightarrow> Go_Room" where
  "exchanged rs r = set_round (rs\<lparr>rs_status := COMPLETE\<rparr>) (r\<lparr>gr_players := map (move_player rs) (gr_players r)\<rparr>)"

definition exchange_records :: "string \<Rightarrow> RoundState \<Rightarrow> Go_Player list \<Rightarrow> ExchangeRecord list" where
  "exchange_records now rs ps =
     map (exchange_record now RED_ROOM BLUE_ROOM) (chosen_players (redHostages rs) ps) @
     map (exchange_record now BLUE_ROOM RED_ROOM) (chosen_players (blueHostages rs) ps)"

lemma exchange_result:
  assumes "sv_rooms sv rc = Some r" "round_of r = Some rs" "redHostages rs \<noteq> []" "length (redHostages rs) = length (blueHostages rs)"
  shows "executeExchange w rc sv = (Inr (), put_room (exchanged rs r) sv,
    [Sent rc None (S_ExchangeReady (chosen_players (redHostages rs) (gr_players r)) (chosen_players (blueHostages rs) (gr_players r)) 3),
     Sent rc None (S_ExchangeComplete (rs_roundNumber rs) (exchange_records (wd_now w) rs (gr_players r))
       (if rs_roundNumber rs < 3 then rs_roundNumber rs + 1 else 0))])"
proof -
  have "blueHostages rs \<noteq> []" using assms(3,4) by auto
  then show ?thesis using assms by (simp add: executeExchange_def done_with_def exchanged_def exchange_records_def Let_def)
qed

lemma exchanged_ids [simp]: "map gp_id (gr_players (exchanged rs r)) = map gp_id (gr_players r)"
  by (simp add: exchanged_def move_player_def Let_def comp_def)

lemma find_go_seat: "distinct (map gp_id ps) \<Longrightarrow> (i, c) \<in> set (map seat_of ps) \<Longrightarrow> \<exists>p. find_go i ps = Some p \<and> gp_id p = i \<and> gp_room p = c"
proof (induction ps)
  case (Cons p ps)
  have "gp_id p \<notin> gp_id ` set ps" using Cons.prems(1) by simp
  then show ?case using Cons by (auto simp: find_go_def seat_of_def image_iff)
qed simp

lemma chosen_ids:
  "distinct (map gp_id ps) \<Longrightarrow> set ids \<subseteq> in_room c (map seat_of ps) \<Longrightarrow> map gp_id (chosen_players ids ps) = ids"
proof (induction ids)
  case (Cons i ids)
  have "(i, Some c) \<in> set (map seat_of ps)" using Cons.prems(2) by (simp add: in_room_def)
  then obtain p where "find_go i ps = Some p" "gp_id p = i" using find_go_seat Cons.prems(1) by blast
  then show ?case using Cons by (simp add: chosen_players_def List.map_filter_simps)
qed (simp add: chosen_players_def List.map_filter_simps)

lemma exchanged_seats: "map seat_of (gr_players (exchanged rs r)) = map (reseat (redHostages rs) (blueHostages rs)) (map seat_of (gr_players r))"
  by (simp add: exchanged_def seat_moves)

lemma moved_seats:
  assumes "distinct (map fst xs)" "set red \<subseteq> in_room RED_ROOM xs" "set blue \<subseteq> in_room BLUE_ROOM xs"
  shows "{(i, a, b). (i, Some a) \<in> set xs \<and> (i, Some b) \<in> set (map (reseat red blue) xs) \<and> a \<noteq> b} =
    (\<lambda>i. (i, RED_ROOM, BLUE_ROOM)) ` set red \<union> (\<lambda>i. (i, BLUE_ROOM, RED_ROOM)) ` set blue"
proof -
  have red: "(i, Some RED_ROOM) \<in> set xs" "i \<in> fst ` set xs" if "i \<in> set red" for i
    using assms(2) that in_room_ids [of RED_ROOM xs] by (auto simp: in_room_def)
  have blue: "(i, Some BLUE_ROOM) \<in> set xs" "i \<in> fst ` set xs" if "i \<in> set blue" for i
    using assms(3) that in_room_ids [of BLUE_ROOM xs] by (auto simp: in_room_def)
  have one: "a = b" if "(i, Some a) \<in> set xs" "(i, Some b) \<in> set xs" for i a b
    using eq_key_imp_eq_value [OF assms(1) that] by simp
  have apart: "i \<notin> set blue" if "i \<in> set red" for i using red(1) [OF that] blue(1) [of i] one by blast
  show ?thesis
    unfolding in_reseat using red blue one apart by (auto split: if_splits)
qed

lemma exchange_keeps_sizes:
  assumes "distinct (map gp_id (gr_players r))" "hostages_wait r rs"
  shows "length (in_color c (gr_players (exchanged rs r))) = length (in_color c (gr_players r))"
proof -
  let ?xs = "map seat_of (gr_players r)" and ?red = "redHostages rs" and ?blue = "blueHostages rs"
  note h = assms(2) [unfolded hostages_wait_def]
  have df: "distinct (map fst ?xs)" using assms(1) by (simp add: comp_def seat_of_def)
  note dis = rooms_disjoint [OF df]
  have sub: "set ?red \<subseteq> fst ` set ?xs" "set ?blue \<subseteq> fst ` set ?xs" "set ?red \<inter> set ?blue = {}"
    using h in_room_ids [of RED_ROOM ?xs] in_room_ids [of BLUE_ROOM ?xs] dis by blast+
  have k: "card (set ?red) = card (set ?blue)" using h by (simp add: distinct_card)
  have n: "card (set ?red) \<le> card (in_room RED_ROOM ?xs)" "card (set ?blue) \<le> card (in_room BLUE_ROOM ?xs)"
    using h by (auto intro!: card_mono)
  have "card ((in_room RED_ROOM ?xs - set ?red) \<union> set ?blue) = card (in_room RED_ROOM ?xs - set ?red) + card (set ?blue)"
    "card ((in_room BLUE_ROOM ?xs - set ?blue) \<union> set ?red) = card (in_room BLUE_ROOM ?xs - set ?blue) + card (set ?red)"
    using h dis by (auto intro!: card_Un_disjoint)
  then have "card (in_room c (map (reseat ?red ?blue) ?xs)) = card (in_room c ?xs)"
    using h k n by (cases c) (simp_all add: in_room_reseat [OF sub] card_Diff_subset del: map_map set_map)
  then show ?thesis using assms(1) by (simp only: in_color_card exchanged_seats exchanged_ids)
qed

text \<open>The records of an exchange are the moves of its players.\<close>

lemma exchange_moves:
  assumes "distinct (map gp_id (gr_players r))" "hostages_wait r rs"
  shows "(\<lambda>x. (ex_playerId x, fromRoom x, toRoom x)) ` set (exchange_records now rs (gr_players r)) =
      {(i, a, b). (i, Some a) \<in> set (map seat_of (gr_players r)) \<and>
         (i, Some b) \<in> set (map seat_of (gr_players (exchanged rs r))) \<and> a \<noteq> b}"
    and "distinct (map ex_playerId (exchange_records now rs (gr_players r)))"
proof -
  let ?xs = "map seat_of (gr_players r)" and ?red = "redHostages rs" and ?blue = "blueHostages rs"
  note h = assms(2) [unfolded hostages_wait_def]
  have df: "distinct (map fst ?xs)" using assms(1) by (simp add: comp_def seat_of_def)
  have ids: "map gp_id (chosen_players ?red (gr_players r)) = ?red" "map gp_id (chosen_players ?blue (gr_players r)) = ?blue"
    using h chosen_ids [OF assms(1)] by blast+
  have "set ?red \<inter> set ?blue = {}" using h rooms_disjoint [OF df] by blast
  then show "distinct (map ex_playerId (exchange_records now rs (gr_players r)))"
    using h by (simp add: exchange_records_def exchange_record_def comp_def ids)
  have "(\<lambda>x. (ex_playerId x, fromRoom x, toRoom x)) ` set (exchange_records now rs (gr_players r)) =
      (\<lambda>i. (i, RED_ROOM, BLUE_ROOM)) ` set (map gp_id (chosen_players ?red (gr_players r))) \<union>
      (\<lambda>i. (i, BLUE_ROOM, RED_ROOM)) ` set (map gp_id (chosen_players ?blue (gr_players r)))"
    by (simp add: exchange_records_def exchange_record_def image_Un image_image)
  also have "\<dots> = {(i, a, b). (i, Some a) \<in> set ?xs \<and> (i, Some b) \<in> set (map (reseat ?red ?blue) ?xs) \<and> a \<noteq> b}"
    unfolding ids using moved_seats [OF df] h by simp
  finally show "(\<lambda>x. (ex_playerId x, fromRoom x, toRoom x)) ` set (exchange_records now rs (gr_players r)) =
      {(i, a, b). (i, Some a) \<in> set ?xs \<and> (i, Some b) \<in> set (map seat_of (gr_players (exchanged rs r))) \<and> a \<noteq> b}"
    by (simp only: exchanged_seats)
qed

text \<open>What the whole room is told of exchanges: the round and the records.\<close>

definition announced :: "sent list \<Rightarrow> (int \<times> ExchangeRecord list) list" where
  "announced out = List.map_filter
     (\<lambda>x. case (sent_to x, sent_message x) of (None, S_ExchangeComplete n xs _) \<Rightarrow> Some (n, xs) | _ \<Rightarrow> None) out"

text \<open>C16: An exchange is announced to the whole room exactly as it happens: the records name every player
  who changes rooms, once, with the room that the player leaves and the one that the player enters,
  and nobody else; all players stay in the game, and both rooms keep their sizes.\<close>

theorem exchange_is_announced:
  assumes "sv_rooms sv rc = Some r" "gr_code r = rc" "balanced r" "round_of r = Some rs" "hostages_wait r rs"
  shows "case executeExchange w rc sv of (x, sv', out) \<Rightarrow>
      x = Inr () \<and>
      (case (announced out, sv_rooms sv' rc) of
         ([(n, xs)], Some r') \<Rightarrow>
           n = rs_roundNumber rs \<and> distinct (map ex_playerId xs) \<and>
           map gp_id (gr_players r') = map gp_id (gr_players r) \<and>
           length (in_color RED_ROOM (gr_players r')) = length (in_color RED_ROOM (gr_players r)) \<and>
           length (in_color BLUE_ROOM (gr_players r')) = length (in_color BLUE_ROOM (gr_players r)) \<and>
           (\<lambda>x. (ex_playerId x, fromRoom x, toRoom x)) ` set xs =
             {(i, a, b). (i, Some a) \<in> set (map seat_of (gr_players r)) \<and>
                (i, Some b) \<in> set (map seat_of (gr_players r')) \<and> a \<noteq> b}
       | _ \<Rightarrow> False)"
proof -
  have d: "distinct (map gp_id (gr_players r))" using assms(3) by (simp add: balanced_def)
  have r': "gr_code (exchanged rs r) = rc" using assms(2) by (simp add: exchanged_def)
  show ?thesis
    using exchange_result [OF assms(1,4), of w] assms(5) [unfolded hostages_wait_def] r'
      exchange_keeps_sizes [OF d assms(5)] exchange_moves [OF d assms(5), of "wd_now w"]
    by (simp add: announced_def List.map_filter_simps del: set_map map_map)
qed

text \<open>A game of six in which both leaders have chosen.\<close>

definition seated_six :: "Go_Player list" where
  "seated_six = map (\<lambda>p. p\<lparr>gp_room := Some (if gp_id p \<in> {''a'', ''b'', ''c''} then RED_ROOM else BLUE_ROOM)\<rparr>) six_players"

definition round_of_six :: RoundState where
  "round_of_six = \<lparr>rs_gameSessionId = ''g'', rs_roundNumber = 1, rs_duration = 180, rs_timeRemaining = 0, rs_status = SELECTING,
     redLeaderId = ''a'', blueLeaderId = ''d'', hostageCount = 1, redHostages = [''b''], blueHostages = [''e''],
     redLeaderReady = False, blueLeaderReady = False, rs_startedAt = '''', rs_endedAt = None\<rparr>"

definition room_of_six :: Go_Room where
  "room_of_six = (lobby_of seated_six)\<lparr>gr_status := IN_PROGRESS, gr_session := Some \<lparr>gs_id = ''g'', gs_roomCode = ''ABCDEF'',
     gs_startedAt = '''', gs_currentRound = 1, gs_roundState = Some round_of_six\<rparr>\<rparr>"

lemma room_of_six: "gr_code room_of_six = ''ABCDEF''" "balanced room_of_six" "round_of room_of_six = Some round_of_six"
  "hostages_wait room_of_six round_of_six" "gr_players room_of_six = seated_six"
  by (simp_all add: room_of_six_def lobby_of_def balanced_def round_of_def hostages_wait_def round_of_six_def seated_six_def
      six_players_def in_color_def in_room_def seat_of_def)

theorem exchange_is_announced_witness:
  "case executeExchange (plain_world '''') ''ABCDEF'' (put_room room_of_six empty_server) of (x, sv', out) \<Rightarrow>
      x = Inr () \<and>
      (case (announced out, sv_rooms sv' ''ABCDEF'') of
         ([(n, xs)], Some r') \<Rightarrow>
           n = rs_roundNumber round_of_six \<and> distinct (map ex_playerId xs) \<and>
           map gp_id (gr_players r') = map gp_id (gr_players room_of_six) \<and>
           length (in_color RED_ROOM (gr_players r')) = length (in_color RED_ROOM (gr_players room_of_six)) \<and>
           length (in_color BLUE_ROOM (gr_players r')) = length (in_color BLUE_ROOM (gr_players room_of_six)) \<and>
           (\<lambda>x. (ex_playerId x, fromRoom x, toRoom x)) ` set xs =
             {(i, a, b). (i, Some a) \<in> set (map seat_of (gr_players room_of_six)) \<and>
                (i, Some b) \<in> set (map seat_of (gr_players r')) \<and> a \<noteq> b}
       | _ \<Rightarrow> False)"
  by (rule exchange_is_announced) (simp_all add: room_of_six)

section \<open>Votes\<close>

text \<open>The results of votes that are announced.\<close>

definition vote_results :: "sent list \<Rightarrow> (VoteResult \<times> int \<times> int) list" where
  "vote_results out = List.map_filter
     (\<lambda>x. case sent_message x of S_VoteCompleted c \<Rightarrow> Some (gvc_result c, gvc_yes c, gvc_no c) | _ \<Rightarrow> None) out"

text \<open>C19: A vote on the removal of a leader in which all have voted passes with more than half of all
  voters; one that runs out of time passes as soon as more voted yes than no, however few voted. In
  both cases an election follows exactly when the vote has passed, and the leader stays the leader
  until then.\<close>

theorem removal_passes:
  assumes "sv_rooms sv rc = Some r" "sv_votes sv vid = Some v" "gv_status v = VoteActive" "gv_type v = REMOVAL"
  shows "(case completeVote w order rc vid sv of (sv', out) \<Rightarrow>
      vote_results out = [(if tally ''YES'' v > gv_totalVoters v div 2 then PASSED else FAILED, tally ''YES'' v, no_votes v)] \<and>
      sv_jobs sv' = sv_jobs sv @
        (if tally ''YES'' v > gv_totalVoters v div 2 then [JobElection rc (gv_room v) (gv_target v) True] else []) \<and>
      sv_rooms sv' = sv_rooms sv) \<and>
    (case voteTimeout order rc vid sv of (sv', out) \<Rightarrow>
      vote_results out = [(if tally ''YES'' v > no_votes v then PASSED else TIMEOUT, tally ''YES'' v, no_votes v)] \<and>
      sv_jobs sv' = sv_jobs sv @ (if tally ''YES'' v > no_votes v then [JobElection rc (gv_room v) (gv_target v) False] else []) \<and>
      sv_rooms sv' = sv_rooms sv)"
  using assms
  by (simp add: completeVote_def voteTimeout_def Let_def elect_def vote_results_def vote_completed_def
      List.map_filter_simps add_job_def)

text \<open>One vote of three, for the removal of the red leader, and a server with it.\<close>

definition lone_vote :: Go_Vote where
  "lone_vote = \<lparr>gv_id = ''v'', gv_type = REMOVAL, gv_room = RED_ROOM, gv_target = ''a'', gv_targetName = ''a'',
     gv_initiator = ''b'', gv_initiatorName = ''b'', gv_candidates = [], gv_startedAt = '''', gv_totalVoters = 3,
     gv_votes = [(''b'', ''YES'')], gv_status = VoteActive\<rparr>"

definition voting_server :: "Go_Vote \<Rightarrow> Server" where
  "voting_server v = (put_room room_of_six empty_server)\<lparr>sv_votes := [gv_id v \<mapsto> v]\<rparr>"

lemma voting_server: "sv_rooms (voting_server v) ''ABCDEF'' = Some room_of_six" "sv_votes (voting_server v) (gv_id v) = Some v"
  "gr_code room_of_six = ''ABCDEF''"
  by (simp_all add: voting_server_def room_of_six)

theorem removal_passes_witness:
  "(case completeVote (plain_world '''') [] ''ABCDEF'' (gv_id lone_vote) (voting_server lone_vote) of (sv', out) \<Rightarrow>
      vote_results out = [(if tally ''YES'' lone_vote > gv_totalVoters lone_vote div 2 then PASSED else FAILED,
        tally ''YES'' lone_vote, no_votes lone_vote)] \<and>
      sv_jobs sv' = sv_jobs (voting_server lone_vote) @ (if tally ''YES'' lone_vote > gv_totalVoters lone_vote div 2
        then [JobElection ''ABCDEF'' (gv_room lone_vote) (gv_target lone_vote) True] else []) \<and>
      sv_rooms sv' = sv_rooms (voting_server lone_vote)) \<and>
    (case voteTimeout [] ''ABCDEF'' (gv_id lone_vote) (voting_server lone_vote) of (sv', out) \<Rightarrow>
      vote_results out = [(if tally ''YES'' lone_vote > no_votes lone_vote then PASSED else TIMEOUT,
        tally ''YES'' lone_vote, no_votes lone_vote)] \<and>
      sv_jobs sv' = sv_jobs (voting_server lone_vote) @ (if tally ''YES'' lone_vote > no_votes lone_vote
        then [JobElection ''ABCDEF'' (gv_room lone_vote) (gv_target lone_vote) False] else []) \<and>
      sv_rooms sv' = sv_rooms (voting_server lone_vote))"
  by (rule removal_passes [OF voting_server(1,2)]) (simp_all add: lone_vote_def)

section \<open>A vote during an exchange\<close>

lemma exchanged_round: "round_of r = Some x \<Longrightarrow> round_of (exchanged rs r) = Some (rs\<lparr>rs_status := COMPLETE\<rparr>)"
  by (cases "gr_session r") (simp_all add: round_of_def exchanged_def set_round_def)

text \<open>A player who has been chosen as a hostage can still be elected, since neither the election nor the
  exchange looks at the other: the exchange then takes the new leader of the red room into the blue
  room, so that the red room is led by somebody in the other room.\<close>

theorem elected_hostage_leads_from_the_other_room:
  assumes "sv_rooms sv rc = Some r" "gr_code r = rc" "balanced r" "round_of r = Some rs" "hostages_wait r rs"
    "sv_votes sv vid = Some v" "gv_status v = VoteActive" "gv_type v = ELECTION" "gv_room v = RED_ROOM"
    "winner order v \<in> set (redHostages rs)" "winner order v \<noteq> ''''"
  shows "let sv1 = fst (completeVote w order rc vid sv);
      sv2 = fst (snd (executeExchange w rc sv1))
    in case sv_rooms sv2 rc of
         None \<Rightarrow> False
       | Some r' \<Rightarrow> map_option redLeaderId (round_of r') = Some (winner order v) \<and>
           map_option gp_room (find_go (winner order v) (gr_players r')) = Some (Some BLUE_ROOM)"
proof -
  let ?i = "winner order v" and ?rs = "rs\<lparr>redLeaderId := winner order v\<rparr>"
  let ?r = "set_round ?rs r" and ?sv1 = "fst (completeVote w order rc vid sv)"
  note h = assms(5) [unfolded hostages_wait_def]
  have d: "distinct (map gp_id (gr_players r))" using assms(3) by (simp add: balanced_def)
  have s: "(?i, Some RED_ROOM) \<in> set (map seat_of (gr_players r))" using h assms(10) by (auto simp: in_room_def)
  obtain p where p: "find_go ?i (gr_players r) = Some p" "gp_id p = ?i" "gp_room p = Some RED_ROOM"
    using find_go_seat [OF d s] by blast
  have "sv_rooms ?sv1 rc = Some ?r"
    using assms p by (simp add: complete_rooms elect_def SetLeader_def set_leader_def done_with_def)
  moreover have rr: "round_of ?r = Some ?rs" using round_session [OF assms(4)] by (simp add: round_of_set_round del: not_None_eq)
  ultimately have sv2: "fst (snd (executeExchange w rc ?sv1)) = put_room (exchanged ?rs ?r) ?sv1"
    using exchange_result [of ?sv1 rc ?r ?rs w] h by simp
  have e: "gr_code (exchanged ?rs ?r) = rc" "map_option redLeaderId (round_of (exchanged ?rs ?r)) = Some ?i"
    using assms(2) exchanged_round [OF rr] by (simp_all add: exchanged_def [of _ ?r])
  have "?i \<notin> set (blueHostages rs)"
    using h assms(10) rooms_disjoint [of "map seat_of (gr_players r)"] d by (auto simp: comp_def seat_of_def)
  then have "(?i, Some BLUE_ROOM) \<in> set (map seat_of (gr_players (exchanged ?rs ?r)))"
    unfolding exchanged_seats in_reseat using assms(10) imageI [OF s, of fst] by simp
  moreover have "distinct (map gp_id (gr_players (exchanged ?rs ?r)))"
    using d by (simp del: map_map add: exchanged_ids)
  ultimately obtain q where "find_go ?i (gr_players (exchanged ?rs ?r)) = Some q" "gp_room q = Some BLUE_ROOM"
    using find_go_seat by blast
  then show ?thesis using sv2 e by (simp add: Let_def)
qed

definition lone_ballot :: Go_Vote where
  "lone_ballot = lone_vote\<lparr>gv_type := ELECTION, gv_target := '''', gv_candidates := [''b'', ''c''], gv_votes := [(''c'', ''b'')]\<rparr>"

theorem elected_hostage_leads_from_the_other_room_witness:
  "let sv1 = fst (completeVote (plain_world '''') [''b''] ''ABCDEF'' (gv_id lone_ballot) (voting_server lone_ballot));
      sv2 = fst (snd (executeExchange (plain_world '''') ''ABCDEF'' sv1))
    in case sv_rooms sv2 ''ABCDEF'' of
         None \<Rightarrow> False
       | Some r' \<Rightarrow> map_option redLeaderId (round_of r') = Some (winner [''b''] lone_ballot) \<and>
           map_option gp_room (find_go (winner [''b''] lone_ballot) (gr_players r')) = Some (Some BLUE_ROOM)"
  by (rule elected_hostage_leads_from_the_other_room [OF voting_server(1) room_of_six(1-4) voting_server(2)])
    (simp_all add: lone_ballot_def lone_vote_def winner_def tally_def round_of_six_def)

end
