(* ===== verification/Room_Messages.thy ===== *)
theory Room_Messages
  imports Room_State
begin

text \<open>
  What \<open>RoomPage\<close> does with a message of the server: the effect on \<open>lastMessage\<close>, one definition per
  case of its switch.
\<close>

section \<open>Players\<close>

definition on_player_joined :: "Player \<Rightarrow> Room_Page \<Rightarrow> Room_Page" where
  "on_player_joined p s =
     s\<lparr>room := map_option (\<lambda>r.
        if list_ex (\<lambda>q. player_id q = player_id p) (players r) then r
        else r\<lparr>players := players r @ [p]\<rparr>) (room s)\<rparr>"

definition on_player_gone :: "string \<Rightarrow> Room_Page \<Rightarrow> Room_Page" where
  "on_player_gone playerId s =
     s\<lparr>room := map_option (\<lambda>r. r\<lparr>players := filter (\<lambda>q. player_id q \<noteq> playerId) (players r)\<rparr>) (room s)\<rparr>"

definition on_nickname_changed :: "string \<Rightarrow> string \<Rightarrow> Room_Page \<Rightarrow> Room_Page" where
  "on_nickname_changed playerId newNickname s =
     s\<lparr>room := map_option (\<lambda>r. r\<lparr>players := map (\<lambda>q.
          if player_id q = playerId then q\<lparr>nickname := newNickname, isAnonymous := False\<rparr> else q) (players r)\<rparr>) (room s),
       currentPlayer := map_option (\<lambda>q.
          if player_id q \<noteq> playerId then q else q\<lparr>nickname := newNickname, isAnonymous := False\<rparr>) (currentPlayer s)\<rparr>"

definition on_owner_changed :: "Player \<Rightarrow> Room_Page \<Rightarrow> Room_Page" where
  "on_owner_changed newOwner s =
     s\<lparr>room := map_option (\<lambda>r. r\<lparr>players := map (\<lambda>q.
          q\<lparr>isOwner := (player_id q = player_id newOwner)\<rparr>) (players r)\<rparr>) (room s),
       currentPlayer := map_option (\<lambda>q.
          if player_id q \<noteq> player_id newOwner then q else q\<lparr>isOwner := True\<rparr>) (currentPlayer s)\<rparr>"

section \<open>The game\<close>

definition on_game_started :: "Room_Page \<Rightarrow> Room_Page" where
  "on_game_started s = set_view ''game'' (s\<lparr>isStarting := False\<rparr>)"

definition on_role_assigned :: "RoleAssignedPayload \<Rightarrow> Room_Page \<Rightarrow> Room_Page" where
  "on_role_assigned payload s =
     (if roleAssignedProcessedRef s then s
      else
        (let s = s\<lparr>roleAssignedProcessedRef := True, isStarting := False, my_role := Some (ra_role payload),
                   my_team := Some (ra_team payload), currentRoom := Some (ra_currentRoom payload)\<rparr>;
             s = (if rp_roomCode s \<noteq> '''' then
                    s\<lparr>storage := (storage s)\<lparr>ls_role := Some (ra_role payload), ls_team := Some (ra_team payload),
                        ls_currentRoom := Some (ra_currentRoom payload)\<rparr>\<rparr>
                  else s);
             s = add_task T_RolesView s
         in if rp_roomCode s \<noteq> '''' then add_task T_RolesRoom s else s))"

definition on_game_reset :: "Room_Page \<Rightarrow> Room_Page" where
  "on_game_reset s =
     (let s = set_view ''lobby'' s;
          s = s\<lparr>my_role := None, my_team := None, currentRoom := None, redRoomPlayers := [], blueRoomPlayers := [],
                currentRound := 0, timeRemaining := 0, redLeader := None, blueLeader := None, historyEvents := []\<rparr>;
          s = (if rp_roomCode s \<noteq> '''' then s\<lparr>storage := (storage s)\<lparr>ls_history := None\<rparr>\<rparr> else s)
      in s\<lparr>roleAssignedProcessedRef := False\<rparr>)"

definition on_round_started :: "RoundStartedPayload \<Rightarrow> Room_Page \<Rightarrow> Room_Page" where
  "on_round_started payload s =
     s\<lparr>currentRound := rst_roundNumber payload, timeRemaining := rst_timeRemaining payload,
       totalRoundTime := rst_duration payload, redLeader := rst_redLeader payload,
       blueLeader := rst_blueLeader payload, canTransferLeadership := True\<rparr>"

definition on_round_ended :: "RoundEndedPayload \<Rightarrow> Room_Page \<Rightarrow> Room_Page" where
  "on_round_ended payload s = (if finalRound payload then s\<lparr>currentRound := 0\<rparr> else s)"

section \<open>Leaders\<close>

text \<open>The updater of \<open>setHistoryEvents\<close>: a change already in the log is not added again.\<close>

definition log_leadership :: "int \<Rightarrow> LeadershipChangedPayload \<Rightarrow> History_Event list \<Rightarrow> History_Event list" where
  "log_leadership round_number payload prev =
     (if list_ex (\<lambda>e. case he_data e of
            LeadershipChange p \<Rightarrow> he_timestamp e = lc_timestamp payload \<and> lc_roomColor p = lc_roomColor payload
          | Exchange _ \<Rightarrow> False) prev
      then prev
      else prev @ [\<lparr>he_roundNumber = round_number, he_timestamp = lc_timestamp payload, he_data = LeadershipChange payload\<rparr>])"

definition on_leadership_changed :: "LeadershipChangedPayload \<Rightarrow> Room_Page \<Rightarrow> Room_Page" where
  "on_leadership_changed payload s =
     (case newLeader payload of
        None \<Rightarrow> s
      | Some l \<Rightarrow>
          (let s = (if lc_roomColor payload = RED_ROOM then s\<lparr>redLeader := Some l\<rparr> else s\<lparr>blueLeader := Some l\<rparr>);
               s = s\<lparr>historyEvents := log_leadership (currentRound s) payload (historyEvents s),
                     showTransferModal := False\<rparr>
           in if reason payload = VOTE_REMOVAL then
                set_view ''game'' (s\<lparr>activeVoteSession := None, hasVoted := False, voteResult := None\<rparr>)
              else s))"

section \<open>Votes\<close>

definition started_vote :: "VoteSessionStartedPayload \<Rightarrow> VoteSession" where
  "started_vote payload =
     (let isElection = (case vss_candidates payload of None \<Rightarrow> False | Some cs \<Rightarrow> 0 < length cs) in
      \<lparr>voteID = vss_voteId payload, vote_gameSessionId = '''', vote_roomColor = vss_roomColor payload,
       voteType = Some (if isElection then ELECTION else REMOVAL),
       targetLeaderId = or_else (map_option leader_id (vss_targetLeader payload)) '''',
       targetLeaderName = or_else (map_option leader_nickname (vss_targetLeader payload)) '''',
       initiatorId = or_else (map_option leader_id (vss_initiator payload)) '''',
       initiatorName = or_else (map_option leader_nickname (vss_initiator payload)) '''',
       candidates = Some (case vss_candidates payload of None \<Rightarrow> [] | Some cs \<Rightarrow> cs),
       vote_startedAt = vss_startedAt payload, expiresAt = '''', timeoutSeconds = vss_timeoutSeconds payload,
       totalVoters = vss_totalVoters payload, votedCount = 0, vote_status = VoteActive\<rparr>)"

definition on_vote_started :: "VoteSessionStartedPayload \<Rightarrow> Room_Page \<Rightarrow> Room_Page" where
  "on_vote_started payload s = open_vote (started_vote payload) s"

definition on_vote_progress :: "VoteProgressPayload \<Rightarrow> Room_Page \<Rightarrow> Room_Page" where
  "on_vote_progress payload s =
     s\<lparr>activeVoteSession := map_option (\<lambda>v. v\<lparr>votedCount := vp_votedCount payload\<rparr>) (activeVoteSession s)\<rparr>"

definition on_vote_completed :: "VoteResultPayload \<Rightarrow> Room_Page \<Rightarrow> Room_Page" where
  "on_vote_completed payload s =
     add_task T_VoteDone (s\<lparr>voteResult := Some payload, canTransferLeadership := True\<rparr>)"

text \<open>The callback of the timeout of three seconds.\<close>

definition vote_done :: "Room_Page \<Rightarrow> Room_Page" where
  "vote_done s = set_view ''game'' (s\<lparr>activeVoteSession := None, voteResult := None, hasVoted := False\<rparr>)"

section \<open>Exchanges\<close>

definition log_exchanges :: "int \<Rightarrow> ExchangeRecord list \<Rightarrow> History_Event list \<Rightarrow> History_Event list" where
  "log_exchanges round_number xs prev =
     (let newHistoryEvents = map (\<lambda>x. \<lparr>he_roundNumber = round_number, he_timestamp = ex_timestamp x,
                                       he_data = Exchange x\<rparr>) xs;
          seen = (\<lambda>new. list_ex (\<lambda>old. case (he_data old, he_data new) of
              (Exchange x, Exchange y) \<Rightarrow> he_timestamp old = he_timestamp new \<and> ex_playerId x = ex_playerId y
            | _ \<Rightarrow> False) prev)
      in prev @ filter (\<lambda>new. \<not> seen new) newHistoryEvents)"

definition on_exchange_complete :: "ExchangeCompletePayload \<Rightarrow> Room_Page \<Rightarrow> Room_Page" where
  "on_exchange_complete payload s =
     (let alreadyShown = set_has (shownExchangeRoundsRef s) (ec_roundNumber payload);
          canShowMore = (set_size (shownExchangeRoundsRef s) < 2);
          s = (if \<not> alreadyShown \<and> canShowMore then
                 s\<lparr>shownExchangeRoundsRef := set_add (ec_roundNumber payload) (shownExchangeRoundsRef s),
                   exchangeRecords := exchanges payload, showExchangeAnimation := True\<rparr>
               else s)
      in s\<lparr>historyEvents := log_exchanges (ec_roundNumber payload) (exchanges payload) (historyEvents s)\<rparr>)"

section \<open>The switch\<close>

definition handle_message :: "WSMessage \<Rightarrow> Room_Page \<Rightarrow> Room_Page" where
  "handle_message m s =
     (case m of
        PLAYER_JOINED p \<Rightarrow> (case p of None \<Rightarrow> s | Some p \<Rightarrow> on_player_joined p s)
      | PLAYER_LEFT i \<Rightarrow> on_player_gone i s
      | PLAYER_DISCONNECTED i \<Rightarrow> on_player_gone i s
      | NICKNAME_CHANGED i n \<Rightarrow> on_nickname_changed i n s
      | OWNER_CHANGED p \<Rightarrow> (case p of None \<Rightarrow> s | Some p \<Rightarrow> on_owner_changed p s)
      | GAME_STARTED _ \<Rightarrow> on_game_started s
      | ROLE_ASSIGNED payload \<Rightarrow> on_role_assigned payload s
      | GAME_RESET _ \<Rightarrow> on_game_reset s
      | ROUND_STARTED payload \<Rightarrow> on_round_started payload s
      | TIMER_TICK _ t \<Rightarrow> s\<lparr>timeRemaining := t\<rparr>
      | ROUND_ENDED payload \<Rightarrow> on_round_ended payload s
      | ROUND_ENDING _ _ \<Rightarrow> s
      | LEADER_READY _ _ _ \<Rightarrow> s
      | GAME_REVEALING _ \<Rightarrow> fetchRoom s
      | LEADERSHIP_CHANGED p \<Rightarrow> (case p of None \<Rightarrow> s | Some payload \<Rightarrow> on_leadership_changed payload s)
      | VOTE_SESSION_STARTED payload \<Rightarrow> on_vote_started payload s
      | VOTE_PROGRESS payload \<Rightarrow> on_vote_progress payload s
      | VOTE_COMPLETED payload \<Rightarrow> on_vote_completed payload s
      | LEADER_ANNOUNCED_HOSTAGES _ _ _ \<Rightarrow> s
      | EXCHANGE_COMPLETE payload \<Rightarrow> on_exchange_complete payload s
      | LEADER_ASSIGNED _ _ \<Rightarrow> s
      | LEADER_TRANSFERRED _ _ \<Rightarrow> s
      | VOTE_REMOVE_LEADER_STARTED _ _ \<Rightarrow> s
      | VOTE_CAST _ _ \<Rightarrow> s
      | HOSTAGES_SELECTED _ _ \<Rightarrow> s
      | EXCHANGE_READY _ _ _ \<Rightarrow> s
      | UNLISTED _ \<Rightarrow> s)"

text \<open>
  The effect: a message equal to the last one processed is skipped. The source compares the texts of
  the messages, which are equal when the messages are.
\<close>

definition on_lastMessage :: "WSMessage \<Rightarrow> Room_Page \<Rightarrow> Room_Page" where
  "on_lastMessage m s =
     (if lastProcessedMessageRef s = Some m then s
      else handle_message m (s\<lparr>lastProcessedMessageRef := Some m\<rparr>))"

end
