(* ===== verification/Room_Handlers.thy ===== *)
theory Room_Handlers
  imports Room_Messages
begin

text \<open>
  The handlers of \<open>RoomPage\<close>, split at each \<open>await\<close> into the part before it and the continuation with
  the answer, and the step of the whole page: an event is handled, a changed history is stored, and
  the render that follows performs its redirections.
\<close>

section \<open>Handlers up to their await\<close>

definition page_nicknameUpdate :: "string \<Rightarrow> Room_Page \<Rightarrow> Room_Page" where
  "page_nicknameUpdate newNickname s =
     (case currentPlayer s of
        None \<Rightarrow> s
      | Some p \<Rightarrow> if rp_roomCode s = '''' then s else add_task (T_Nickname (player_id p) newNickname) s)"

definition handleBackToHome :: "Room_Page \<Rightarrow> Room_Page \<times> page_command list" where
  "handleBackToHome s =
     (case currentPlayer s of
        Some p \<Rightarrow> if rp_roomCode s \<noteq> '''' \<and> player_id p \<noteq> ''''
                  then (add_task (T_Leave (player_id p)) s, [Navigate ''/'']) else (s, [Navigate ''/''])
      | None \<Rightarrow> (s, [Navigate ''/'']))"

definition handleStartGame :: "Room_Page \<Rightarrow> Room_Page \<times> page_command list" where
  "handleStartGame s =
     (if rp_roomCode s = '''' then (s, [])
      else case room s of
        None \<Rightarrow> (s, [PageAlert ''At least 6 players are needed to start the game''])
      | Some r \<Rightarrow>
          if length (players r) < 6 then (s, [PageAlert ''At least 6 players are needed to start the game''])
          else (add_task T_Start (s\<lparr>isStarting := True\<rparr>), []))"

definition handleResetGame :: "Room_Page \<Rightarrow> Room_Page" where
  "handleResetGame s = (if rp_roomCode s = '''' then s else add_task T_Reset (s\<lparr>isResetting := True\<rparr>))"

definition handleSelectHostages :: "string list \<Rightarrow> Room_Page \<Rightarrow> Room_Page" where
  "handleSelectHostages ids s =
     (case (room s, currentPlayer s) of
        (Some r, Some p) \<Rightarrow> add_task (T_Hostages (code r) (player_id p) ids) s
      | _ \<Rightarrow> s)"

definition handleLeaderReady :: "Room_Page \<Rightarrow> Room_Page" where
  "handleLeaderReady s =
     (case room s of
        None \<Rightarrow> s
      | Some r \<Rightarrow> add_task (T_Ready (code r) (or_else (map_option player_id (currentPlayer s)) '''')) s)"

definition page_transferLeadership :: "string \<Rightarrow> Room_Page \<Rightarrow> Room_Page" where
  "page_transferLeadership new_leader s =
     (case currentPlayer s of
        None \<Rightarrow> s
      | Some p \<Rightarrow> if rp_roomCode s = '''' \<or> player_id p = '''' then s
                  else add_task (T_Transfer (player_id p) new_leader) s)"

definition handleStartVote :: "Room_Page \<Rightarrow> Room_Page \<times> page_command list" where
  "handleStartVote s =
     (case (currentRoom s, currentPlayer s) of
        (Some c, Some p) \<Rightarrow>
          if rp_roomCode s = '''' then (s, [])
          else (case if c = RED_ROOM then redLeader s else blueLeader s of
              None \<Rightarrow> (s, [PageAlert ''There is no leader.''])
            | Some l \<Rightarrow> (add_task (T_StartVote (player_id p) c (leader_id l)) s, []))
      | _ \<Rightarrow> (s, []))"

definition handleVote :: "string \<Rightarrow> Room_Page \<Rightarrow> Room_Page" where
  "handleVote vote s =
     (case (activeVoteSession s, currentPlayer s) of
        (Some v, Some p) \<Rightarrow>
          if rp_roomCode s = '''' then s else add_task (T_CastVote (voteID v) (player_id p) vote) s
      | _ \<Rightarrow> s)"

text \<open>The completion handler of the animation, with the player that its closure knows.\<close>

definition handleExchangeAnimationComplete :: "string option \<Rightarrow> Room_Page \<Rightarrow> Room_Page" where
  "handleExchangeAnimationComplete player s =
     (let s = s\<lparr>showExchangeAnimation := False\<rparr>
      in if rp_roomCode s \<noteq> '''' then add_task (T_ExchangeRoom player) s else s)"

definition exchange_room :: "string option \<Rightarrow> Room \<Rightarrow> Room_Page \<Rightarrow> Room_Page" where
  "exchange_room player r s =
     (let s = set_room_players r s in
      case Option.bind player (\<lambda>i. find_player i (players r)) of
        None \<Rightarrow> s
      | Some d \<Rightarrow> (case player_currentRoom d of None \<Rightarrow> s | Some c \<Rightarrow> s\<lparr>currentRoom := Some c\<rparr>))"

section \<open>Continuations\<close>

text \<open>
  The code after the \<open>await\<close> of a call, with its answer. Where the source has no \<open>catch\<close>, a failure
  changes nothing. An answer of a kind that a call does not have changes nothing either.
\<close>

definition resume_init :: "task \<Rightarrow> answer \<Rightarrow> Room_Page \<Rightarrow> Room_Page" where
  "resume_init t a s =
     (case (t, a) of
        (T_InitRoom view0, GotRoom r) \<Rightarrow> init_room view0 r s
      | (T_InitRoom _, Failed e) \<Rightarrow> init_failed e s
      | (T_InitJoin, GotPlayer p) \<Rightarrow> init_join p s
      | (T_InitJoin, Failed e) \<Rightarrow> init_failed e s
      | (T_InitRefresh p, GotRoom u) \<Rightarrow> init_refresh p u s
      | (T_InitRefresh _, Failed e) \<Rightarrow> init_failed e s
      | (T_InitRound u d, GotRound ri) \<Rightarrow> init_round u d ri s
      | (T_InitRound _ _, Failed _) \<Rightarrow> init_restore False s
      | (T_InitVote _, GotVote v) \<Rightarrow> init_vote v s
      | (T_InitVote _, Failed _) \<Rightarrow> init_restore False s
      | _ \<Rightarrow> s)"

definition resume :: "task \<Rightarrow> answer \<Rightarrow> Room_Page \<Rightarrow> Room_Page \<times> page_command list" where
  "resume t a s =
     (case (t, a) of
        (T_Poll i, GotRoom r) \<Rightarrow> (refreshed i r s, [])
      | (T_RolesView, _) \<Rightarrow> (set_view ''game'' s, [])
      | (T_RolesRoom, GotRoom r) \<Rightarrow> (set_room_players r s, [])
      | (T_VoteDone, _) \<Rightarrow> (vote_done s, [])
      | (T_Nickname _ _, GotPlayer p) \<Rightarrow> (s\<lparr>currentPlayer := Some p\<rparr>, [])
      | (T_Start, Failed e) \<Rightarrow>
          (s\<lparr>isStarting := False\<rparr>, [PageAlert (report_error ''Failed to start the game'' e)])
      | (T_Reset, Failed _) \<Rightarrow> (s\<lparr>isResetting := False\<rparr>, [PageAlert ''Failed to reset the game.''])
      | (T_Hostages _ _ _, Failed _) \<Rightarrow> (s, [PageAlert ''Failed to select the hostages''])
      | (T_Ready _ _, Failed _) \<Rightarrow> (s, [PageAlert ''Failed to report ready''])
      | (T_Transfer _ _, Failed _) \<Rightarrow> (s, [PageAlert ''Failed to transfer the leadership.''])
      | (T_Transfer _ _, Done) \<Rightarrow> (s\<lparr>showTransferModal := False\<rparr>, [])
      | (T_StartVote _ _ _, Failed e) \<Rightarrow> (s, [PageAlert (report_error ''Failed to start the vote.'' e)])
      | (T_CastVote _ _ _, Done) \<Rightarrow> (s\<lparr>hasVoted := True\<rparr>, [])
      | (T_CastVote _ _ _, Failed e) \<Rightarrow> (s, [PageAlert (report_error ''Failed to vote.'' e)])
      | (T_ExchangeRoom p, GotRoom r) \<Rightarrow> (exchange_room p r s, [])
      | _ \<Rightarrow> (resume_init t a s, []))"

section \<open>The step of the page\<close>

datatype page_event =
    Mounted
  | Message WSMessage
  | Answered nat answer
  | PollTimer
  | Home
  | StartGame
  | ResetGame
  | ToggleSidebar
  | SubmitNickname string
  | ShowReveal
  | ToggleRevealMode
  | BackToGame
  | StartVote
  | CastVote string
  | PanelCommand panel_command
  | DialogCommand modal_command
  | AnimationComplete "string option"

definition handle_panel :: "panel_command \<Rightarrow> Room_Page \<Rightarrow> Room_Page \<times> page_command list" where
  "handle_panel c s =
     (case c of
        SelectHostages ids \<Rightarrow> (handleSelectHostages ids s, [])
      | LeaderReady \<Rightarrow> (handleLeaderReady s, [])
      | TransferLeadership i \<Rightarrow> (page_transferLeadership i s, [])
      | OpenTransfer \<Rightarrow> (s, [])
      | PanelAlert msg \<Rightarrow> (s, [PageAlert msg]))"

definition handle_dialog :: "modal_command \<Rightarrow> Room_Page \<Rightarrow> Room_Page \<times> page_command list" where
  "handle_dialog c s =
     (case c of
        OnTransfer i \<Rightarrow> (page_transferLeadership i s, [])
      | OnCancel \<Rightarrow> (s\<lparr>showTransferModal := False\<rparr>, [])
      | ModalAlert msg \<Rightarrow> (s, [PageAlert msg]))"

text \<open>A call that has been answered is no longer under way.\<close>

definition take_task :: "nat \<Rightarrow> Room_Page \<Rightarrow> (task \<times> Room_Page) option" where
  "take_task i s =
     (if i < length (tasks s)
      then Some (tasks s ! i, s\<lparr>tasks := take i (tasks s) @ drop (Suc i) (tasks s)\<rparr>) else None)"

definition handle_event :: "page_event \<Rightarrow> Room_Page \<Rightarrow> Room_Page \<times> page_command list" where
  "handle_event e s =
     (case e of
        Mounted \<Rightarrow> (initializeRoom s, [])
      | Message m \<Rightarrow> (on_lastMessage m s, [])
      | Answered i a \<Rightarrow> (case take_task i s of None \<Rightarrow> (s, []) | Some (t, s') \<Rightarrow> resume t a s')
      | PollTimer \<Rightarrow> (fetchRoom s, [])
      | Home \<Rightarrow> handleBackToHome s
      | StartGame \<Rightarrow> handleStartGame s
      | ResetGame \<Rightarrow> (handleResetGame s, [])
      | ToggleSidebar \<Rightarrow> (s\<lparr>isSidebarOpen := \<not> isSidebarOpen s\<rparr>, [])
      | SubmitNickname n \<Rightarrow> (page_nicknameUpdate n s, [])
      | ShowReveal \<Rightarrow> (set_view ''reveal'' s, [])
      | ToggleRevealMode \<Rightarrow> (s\<lparr>revealMode := (if revealMode s = ColorMode then FullMode else ColorMode)\<rparr>, [])
      | BackToGame \<Rightarrow> (set_view ''game'' s, [])
      | StartVote \<Rightarrow> handleStartVote s
      | CastVote v \<Rightarrow> (handleVote v s, [])
      | PanelCommand c \<Rightarrow> handle_panel c s
      | DialogCommand c \<Rightarrow> handle_dialog c s
      | AnimationComplete p \<Rightarrow> (handleExchangeAnimationComplete p s, []))"

definition page_step :: "Room_Page \<Rightarrow> page_event \<Rightarrow> Room_Page" where
  "page_step s e = render_redirect (save_history s (fst (handle_event e s)))"

definition page_alerts :: "Room_Page \<Rightarrow> page_event \<Rightarrow> page_command list" where
  "page_alerts s e = snd (handle_event e s)"

abbreviation page_run :: "Room_Page \<Rightarrow> page_event list \<Rightarrow> Room_Page" where
  "page_run \<equiv> run page_step"

end
