(* ===== verification/Reveal.thy ===== *)
theory Reveal
  imports Api
begin

text \<open>
  How roles are shown: the card of \<open>components/role/RoleCard.tsx\<close>, the page at the end of the game
  (\<open>components/game/RevealPage.tsx\<close>) with the team that it announces as the winner, and the screen of
  \<open>pages/RevealPage.tsx\<close> on which a player shows the own team or card to another one.
\<close>

section \<open>The role card\<close>

definition team_hex :: "TeamColor \<Rightarrow> string" where
  "team_hex t = (case t of RED \<Rightarrow> ''#dc2626'' | BLUE \<Rightarrow> ''#2563eb'' | GREY \<Rightarrow> ''#6b7280'')"

definition team_text :: "TeamColor \<Rightarrow> string" where
  "team_text t = (case t of RED \<Rightarrow> ''Red team'' | BLUE \<Rightarrow> ''Blue team'' | GREY \<Rightarrow> ''Grey team'')"

definition room_hex :: "RoomColor \<Rightarrow> string" where
  "room_hex c = (if c = RED_ROOM then ''#dc2626'' else ''#2563eb'')"

definition room_text :: "RoomColor \<Rightarrow> string" where
  "room_text c = (if c = RED_ROOM then ''Red room'' else ''Blue room'')"

text \<open>The team that a card shows: a spy of the red or blue team shows the other one.\<close>

definition opposite_team :: "TeamColor \<Rightarrow> TeamColor" where
  "opposite_team t = (if t = RED then BLUE else if t = BLUE then RED else t)"

definition displayTeam :: "Role \<Rightarrow> TeamColor \<Rightarrow> TeamColor" where
  "displayTeam r t = (if isSpy r then opposite_team t else t)"

definition role_title :: "Role \<Rightarrow> string" where
  "role_title r = or_else (role_nameKo r) (role_name r)"

definition role_text :: "Role \<Rightarrow> string" where
  "role_text r = or_else (role_descriptionKo r) (role_description r)"

definition RoleCard :: "Role \<Rightarrow> TeamColor \<Rightarrow> RoomColor \<Rightarrow> 'a node" where
  "RoleCard r t c =
     (let shown_team = displayTeam r t; teamColor = team_hex shown_team in
      El ''div'' [Style ''border'' (''3px solid '' @ teamColor)]
       ([El ''div'' [] [El ''h2'' [Style ''color'' teamColor] [Txt ''Your role'']],
         El ''div'' []
          [El ''h3'' [] [Txt (role_title r)],
           El ''p'' [Style ''color'' teamColor]
            ([Txt (team_text shown_team)] @
             shown (isSpy r) [El ''span'' [] [Txt ''(really: '', Txt (team_text t), Txt '')'']])],
         El ''div'' [] [El ''p'' [] [Txt (role_text r)]],
         El ''div'' [Style ''border'' (''3px solid '' @ room_hex c)]
          [El ''p'' [Style ''color'' (room_hex c)] [Txt ''Current place: '', El ''span'' [] [Txt (room_text c)]]]] @
        shown (role_isLeader r) [El ''div'' [] [El ''span'' [] [Txt ''Leader'']]] @
        shown (isSpy r) [El ''div'' [] [El ''span'' [] [Txt ''Spy'']]]))"

section \<open>The end of the game\<close>

text \<open>A player's role has the identifier \<open>i\<close>: \<open>p.role?.id === i\<close>.\<close>

definition plays :: "string \<Rightarrow> Player \<Rightarrow> bool" where
  "plays i p = (case player_role p of None \<Rightarrow> False | Some r \<Rightarrow> role_id r = i)"

definition no_winner :: "TeamColor option \<times> string" where
  "no_winner = (None, ''The winner cannot be determined'')"

definition getWinner :: "Player list \<Rightarrow> TeamColor option \<times> string" where
  "getWinner ps =
     (case (find (plays ''president'') ps, find (plays ''bomber'') ps) of
        (Some president, Some bomber) \<Rightarrow>
          if player_currentRoom president = Some BLUE_ROOM then (Some BLUE, ''The president is in the blue room!'')
          else if player_currentRoom bomber = Some RED_ROOM then (Some RED, ''The bomber is in the red room!'')
          else if player_currentRoom president = Some RED_ROOM \<and> player_currentRoom bomber = Some RED_ROOM
            then (Some RED, ''The president and the bomber are in the same room!'')
          else no_winner
      | _ \<Rightarrow> no_winner)"

text \<open>The colour of a player's team, grey for a player without one.\<close>

definition player_hex :: "Player \<Rightarrow> string" where
  "player_hex p = (case player_team p of None \<Rightarrow> ''#6b7280'' | Some t \<Rightarrow> team_hex t)"

definition render_revealed_player :: "Player \<Rightarrow> 'a node" where
  "render_revealed_player p =
     (let isSpecial = (plays ''president'' p \<or> plays ''bomber'' p) in
      El ''div''
       [Style ''border'' (''3px solid '' @ player_hex p),
        Style ''boxShadow'' (if isSpecial then ''0 0 20px '' @ player_hex p @ ''80'' else ''0 2px 4px rgba(0, 0, 0, 0.1)'')]
       [El ''div'' []
         [El ''h3'' [] [Txt (nickname p)],
          El ''span'' [Style ''backgroundColor'' (player_hex p)]
           (case player_team p of None \<Rightarrow> [] | Some t \<Rightarrow> [Txt (team_text t)])],
        El ''div'' [Style ''backgroundColor'' (player_hex p @ ''15'')]
         ([El ''div'' [Style ''color'' (player_hex p)]
            (shown isSpecial [Txt ''* ''] @
             [Txt (case player_role p of None \<Rightarrow> ''No role''
                   | Some r \<Rightarrow> or_else (role_nameKo r) (or_else (Some (role_name r)) ''No role''))])] @
          (case player_role p of
             None \<Rightarrow> []
           | Some r \<Rightarrow> let d = or_else (role_descriptionKo r) '''' in shown (d \<noteq> '''') [El ''div'' [] [Txt d]]))])"

definition renderRoom :: "Player list \<Rightarrow> RoomColor \<Rightarrow> 'a node list" where
  "renderRoom roomPlayers c =
     (if length roomPlayers = 0 then []
      else [El ''div'' []
        [El ''h2'' [Style ''color'' (room_hex c)] [Txt (room_text c), Num (int (length roomPlayers))],
         El ''div'' [] (map render_revealed_player roomPlayers)]])"

definition render_winner :: "Player list \<Rightarrow> 'a node list" where
  "render_winner ps =
     (case getWinner ps of
        (None, _) \<Rightarrow> []
      | (Some t, why) \<Rightarrow>
          [El ''div''
            [Style ''backgroundColor'' (team_hex t @ ''15''), Style ''border'' (''3px solid '' @ team_hex t),
             Style ''boxShadow'' (''0 0 30px '' @ team_hex t @ ''40'')]
            [El ''div'' [] [Txt ''trophy''],
             El ''h2'' [Style ''color'' (team_hex t)] [Txt (team_text t), Txt '' wins!''],
             El ''p'' [] [Txt why]]])"

definition RevealPage :: "Player list \<Rightarrow> string \<Rightarrow> 'a node" where
  "RevealPage ps room_code =
     El ''div'' []
      ([El ''div'' [] [El ''h1'' [] [Txt ''Roles revealed''], El ''p'' [] [Txt ''Room code: '', Txt room_code]]] @
       render_winner ps @
       renderRoom (players_in RED_ROOM ps) RED_ROOM @
       renderRoom (players_in BLUE_ROOM ps) BLUE_ROOM)"

section \<open>The screen shown to another player\<close>

record Screen =
  scr_role :: "Role option"
  scr_team :: "TeamColor option"
  full_mode :: bool

datatype screen_action = GoBack | ToggleMode

definition mount_screen :: Screen where
  "mount_screen = \<lparr>scr_role = None, scr_team = None, full_mode = False\<rparr>"

text \<open>The effect on mounting, with the stored role and team; it may lead away.\<close>

definition screen_effect :: "string \<Rightarrow> Role option \<Rightarrow> TeamColor option \<Rightarrow> Screen \<Rightarrow> Screen \<times> string list" where
  "screen_effect rc stored_role stored_team s =
     (case (stored_role, stored_team) of
        (Some r, Some t) \<Rightarrow> (s\<lparr>scr_role := Some r, scr_team := Some t\<rparr>, [])
      | _ \<Rightarrow> (s, [''/room/'' @ rc @ ''?view=game'']))"

definition screen_step :: "string \<Rightarrow> Screen \<Rightarrow> screen_action \<Rightarrow> Screen \<times> string list" where
  "screen_step rc s a =
     (case a of
        GoBack \<Rightarrow> (s, [''/game/'' @ rc])
      | ToggleMode \<Rightarrow> (s\<lparr>full_mode := \<not> full_mode s\<rparr>, []))"

definition screen_team :: "bool \<Rightarrow> Role \<Rightarrow> TeamColor \<Rightarrow> TeamColor" where
  "screen_team full r t = (if \<not> full \<and> isSpy r then (if t = RED then BLUE else RED) else t)"

definition screen_hex :: "bool \<Rightarrow> Role \<Rightarrow> TeamColor \<Rightarrow> string" where
  "screen_hex full r t =
     (if screen_team full r t = RED then ''#dc2626'' else if t = BLUE then ''#2563eb'' else ''#6b7280'')"

text \<open>The parts of the screen that \<open>RoomPage.tsx\<close> renders in the same way for its own view.\<close>

definition reveal_card :: "string \<Rightarrow> Role \<Rightarrow> TeamColor \<Rightarrow> 'a node" where
  "reveal_card bgColor r t =
     El ''div'' []
      ((case role_icon r of None \<Rightarrow> [] | Some i \<Rightarrow> shown (i \<noteq> '''') [El ''div'' [] [Txt i]]) @
       [El ''h1'' [Style ''color'' bgColor] [Txt (role_title r)],
        El ''div'' [Style ''backgroundColor'' bgColor] [Txt (team_text t)],
        El ''div'' []
         (shown (role_isLeader r) [El ''span'' [] [Txt ''Leader'']] @
          shown (isSpy r) [El ''span'' [] [Txt ''Spy'']] @
          shown (t = GREY) [El ''span'' [] [Txt ''Independent'']]),
        El ''p'' [] [Txt (role_text r)]])"

definition reveal_screen :: "'a \<Rightarrow> 'a \<Rightarrow> bool \<Rightarrow> string \<Rightarrow> TeamColor \<Rightarrow> Role \<Rightarrow> TeamColor \<Rightarrow> 'a node" where
  "reveal_screen back toggle full bgColor shown_team r t =
     El ''div'' [Style ''backgroundColor'' bgColor]
      [El ''button'' [OnClick back, Style ''color'' bgColor] [Txt ''Back''],
       El ''button'' [OnClick toggle, Style ''color'' bgColor] [Txt (if full then ''Colour only'' else ''Show all'')],
       El ''div'' []
        [if full then reveal_card bgColor r t
         else El ''div'' [] [El ''h1'' [] [Txt (team_text shown_team)]]],
       El ''div'' []
        [El ''p'' [] [Txt (if full then ''Card share: show this screen to another player''
                       else ''Colour share: show this screen to another player'')]]]"

definition RevealScreen :: "Screen \<Rightarrow> screen_action node list" where
  "RevealScreen s =
     (case (scr_role s, scr_team s) of
        (Some r, Some t) \<Rightarrow>
          [reveal_screen GoBack ToggleMode (full_mode s) (screen_hex (full_mode s) r t) (screen_team (full_mode s) r t) r t]
      | _ \<Rightarrow> [])"

section \<open>The winner\<close>

text \<open>
  The rule of the game, from the README: the red team wins when the bomber is in the president's
  room, the blue team when the two are in different rooms.
\<close>

definition rules_winner :: "RoomColor \<Rightarrow> RoomColor \<Rightarrow> TeamColor" where
  "rules_winner president_room bomber_room = (if bomber_room = president_room then RED else BLUE)"

lemma getWinner_None: "fst (getWinner ps) = None \<Longrightarrow> render_winner ps = []"
  by (cases "getWinner ps") (simp add: render_winner_def)

text \<open>When the president and the bomber are both found and have their rooms, the end page names the
  winner of the game's rules exactly when the bomber is in the red room; with the bomber in the blue
  room it names blue although red has won, or nobody although blue has. Without the two it names
  nobody.\<close>

theorem winner_versus_rules:
  "case (find (plays ''president'') ps, find (plays ''bomber'') ps) of
     (Some president, Some bomber) \<Rightarrow>
       (case (player_currentRoom president, player_currentRoom bomber) of
          (Some a, Some b) \<Rightarrow> fst (getWinner ps) = Some (rules_winner a b) \<longleftrightarrow> b = RED_ROOM
        | _ \<Rightarrow> True)
   | _ \<Rightarrow> getWinner ps = no_winner"
proof -
  have "c \<noteq> RED_ROOM \<longleftrightarrow> c = BLUE_ROOM" for c by (cases c) simp_all
  then show ?thesis
    by (auto simp: getWinner_def rules_winner_def no_winner_def split: option.split)
qed

text \<open>Without the roles that the page looks for there is no winner.\<close>

lemma no_winner_without: "list_all (\<lambda>p. \<not> plays ''president'' p) ps \<Longrightarrow> getWinner ps = no_winner"
proof -
  assume "list_all (\<lambda>p. \<not> plays ''president'' p) ps"
  then have "find (plays ''president'') ps = None" by (auto simp: find_None_iff list_all_iff)
  then show ?thesis by (simp add: getWinner_def)
qed

section \<open>What the screen gives away\<close>

lemma reveal_screen_colour:
  "reveal_screen b t False bg d r x = reveal_screen b t False bg' d' r' x' \<longleftrightarrow>
     bg = bg' \<and> team_text d = team_text d'"
  by (auto simp: reveal_screen_def)

lemma team_text_inject [simp]: "team_text a = team_text b \<longleftrightarrow> a = b"
  by (cases a; cases b) (simp_all add: team_text_def)

end
