(* ===== verification/Lobby_Views.thy ===== *)
theory Lobby_Views
  imports Api
begin

text \<open>
  The smaller components of the pages: the frame of \<open>components/common/Layout.tsx\<close> and
  \<open>LoadingSpinner.tsx\<close>, the player lists (\<open>game/PlayerList.tsx\<close>, \<open>room/RoomPlayerList.tsx\<close>), the clock
  of a round (\<open>game/RoundTimer.tsx\<close>), and the editor of the own nickname (\<open>game/NicknameEditor.tsx\<close>)
  with what it sends to the page.
\<close>

section \<open>The frame of a page\<close>

definition Header :: "'a node" where
  "Header = El ''header'' [] [El ''h1'' [] [Txt ''Two rooms, one bomb'']]"

definition Footer :: "'a node" where
  "Footer = El ''footer'' [] [El ''p'' [] [Txt ''(c) 2025 Two Rooms and a Boom'']]"

definition Layout :: "'a node list \<Rightarrow> 'a node" where
  "Layout kids = El ''div'' [] [Header, El ''main'' [] kids, Footer]"

datatype spinner_size = SmallSpinner | MediumSpinner | LargeSpinner

definition sizeMap :: "spinner_size \<Rightarrow> string" where
  "sizeMap z = (case z of SmallSpinner \<Rightarrow> ''20px'' | MediumSpinner \<Rightarrow> ''40px'' | LargeSpinner \<Rightarrow> ''60px'')"

definition LoadingSpinner :: "spinner_size option \<Rightarrow> string option \<Rightarrow> 'a node" where
  "LoadingSpinner z msg =
     (let px = sizeMap (case z of None \<Rightarrow> MediumSpinner | Some z \<Rightarrow> z) in
      El ''div'' [Attr ''class'' ''loading-spinner-container'']
       ([El ''div'' [Attr ''class'' ''loading-spinner'', Style ''width'' px, Style ''height'' px] []] @
        (case msg of None \<Rightarrow> [] | Some m \<Rightarrow> shown (m \<noteq> '''') [El ''p'' [Attr ''class'' ''loading-message''] [Txt m]])))"

lemma offers_frame [view_simps]:
  "offers (Layout kids) = offers_all kids" "offers (LoadingSpinner z m) = []"
  by (simp_all add: Layout_def Header_def Footer_def LoadingSpinner_def Let_def view_simps split: option.split)

section \<open>Player lists\<close>

definition is_me :: "string option \<Rightarrow> Player \<Rightarrow> bool" where
  "is_me me p \<longleftrightarrow> me = Some (player_id p)"

definition render_list_player :: "string option \<Rightarrow> Player \<Rightarrow> 'a node" where
  "render_list_player me p =
     El ''li'' [Style ''backgroundColor'' (if is_me me p then ''rgba(59, 130, 246, 0.15)'' else ''var(--bg-secondary)'')]
      ([El ''div'' []
         ([El ''span'' [Style ''fontWeight'' (if is_me me p then ''bold'' else ''normal'')]
            ([Txt (nickname p)] @ shown (is_me me p) [Txt '' (me)''])] @
          shown (isAnonymous p) [El ''span'' [] [Txt ''(anonymous)'']])] @
       shown (isOwner p) [El ''span'' [] [Txt ''host'']])"

definition PlayerList :: "Player list \<Rightarrow> string option \<Rightarrow> 'a node" where
  "PlayerList ps me =
     El ''div'' []
      [El ''h3'' [] [Txt ''Players '', Num (int (length ps))],
       if length ps = 0 then El ''p'' [] [Txt ''There are no players yet'']
       else El ''ul'' [] (map (render_list_player me) ps)]"

definition room_border :: "RoomColor \<Rightarrow> string" where
  "room_border c = (if c = RED_ROOM then ''#dc2626'' else ''#2563eb'')"

definition room_ink :: "RoomColor \<Rightarrow> string" where
  "room_ink c = (if c = RED_ROOM then ''#991b1b'' else ''#1e40af'')"

definition is_leader_of :: "string option \<Rightarrow> Player \<Rightarrow> bool" where
  "is_leader_of leader p = (case leader of None \<Rightarrow> False | Some l \<Rightarrow> l \<noteq> '''' \<and> player_id p = l)"

definition render_room_player :: "RoomColor \<Rightarrow> string option \<Rightarrow> string option \<Rightarrow> Player \<Rightarrow> 'a node" where
  "render_room_player c me leader p =
     El ''li'' [Style ''border'' (if is_me me p then ''2px solid '' @ room_border c else ''1px solid #e5e7eb'')]
      [El ''span'' [Style ''fontWeight'' (if is_me me p then ''bold'' else ''500'')]
        ([Txt (nickname p)] @ shown (is_me me p) [El ''span'' [Style ''color'' (room_ink c)] [Txt ''(me)'']]),
       El ''div'' []
        (shown (isOwner p) [El ''span'' [] [Txt ''host'']] @
         shown (is_leader_of leader p) [El ''span'' [] [Txt ''leader'']])]"

definition RoomPlayerList :: "Player list \<Rightarrow> RoomColor \<Rightarrow> string option \<Rightarrow> string option \<Rightarrow> 'a node" where
  "RoomPlayerList ps c me leader =
     El ''div''
      [Style ''border'' (''3px solid '' @ room_border c),
       Style ''backgroundColor'' (if c = RED_ROOM then ''#fecaca'' else ''#bfdbfe'')]
      ([El ''h3'' [Style ''color'' (room_ink c)]
         [Txt (if c = RED_ROOM then ''Red room'' else ''Blue room''), Num (int (length ps))],
        El ''ul'' [] (map (render_room_player c me leader) ps)] @
       shown (length ps = 0) [El ''p'' [] [Txt ''There are no players in this room yet'']])"

lemma offers_player_lists [view_simps]:
  "offers (PlayerList ps me) = []" "offers (RoomPlayerList ps c me leader) = []"
  by (simp_all add: PlayerList_def RoomPlayerList_def render_list_player_def render_room_player_def view_simps)

section \<open>The clock of a round\<close>

definition formatTime :: "int \<Rightarrow> string" where
  "formatTime seconds =
     (let mins = seconds div 60; secs = js_rem seconds 60
      in int_str mins @ '':'' @ pad_start 2 (CHR ''0'') (int_str secs))"

text \<open>The drawn circle, whose length is a fraction of its circumference in floating point, is left out.\<close>

definition timer_color :: "int \<Rightarrow> string" where
  "timer_color left = (if left > 60 then ''#10b981'' else if left > 30 then ''#f59e0b'' else ''#ef4444'')"

definition shouldPulse :: "int \<Rightarrow> bool" where
  "shouldPulse left \<longleftrightarrow> left < 30"

definition RoundTimer :: "int \<Rightarrow> int \<Rightarrow> 'a node" where
  "RoundTimer round left =
     El ''div'' []
      [El ''div'' []
        [El ''div'' [] [El ''div'' [] [Txt ''Round''], El ''div'' [] [Num round, Txt '' / 3'']],
         El ''div'' []
          [El ''svg'' [Style ''animation'' (if shouldPulse left then ''pulse 1s ease-in-out infinite'' else ''none'')]
            [El ''circle'' [] [], El ''circle'' [Attr ''stroke'' (timer_color left)] []],
           El ''div'' []
            [El ''div'' [Style ''color'' (timer_color left), Attr ''role'' ''timer''] [Txt (formatTime left)]]],
         El ''div'' []
          [El ''div'' [] [Txt (if left > 0 then ''Time left'' else ''End of the round'')],
           El ''div'' [Style ''color'' (if shouldPulse left then timer_color left else ''var(--text-primary, #1f2937)'')]
            [Txt (if left > 60 then ''Make a plan''
                  else if left > 30 then ''Prepare the choice of hostages''
                  else if left > 0 then ''Time is running out''
                  else ''Choice of hostages'')]]]]"

lemma offers_timer [view_simps]: "offers (RoundTimer r t) = []"
  by (simp add: RoundTimer_def view_simps)

section \<open>The nickname editor\<close>

record Nickname_Editor =
  isEditing :: bool
  ne_nickname :: string
  isUpdating :: bool
  ne_error :: string

definition mount_editor :: "string \<Rightarrow> Nickname_Editor" where
  "mount_editor currentNickname =
     \<lparr>isEditing = False, ne_nickname = currentNickname, isUpdating = False, ne_error = ''''\<rparr>"

datatype editor_action = EditClick | TypeNickname string | SaveClick | CancelEdit | Settled "js_error option"

text \<open>\<open>handleSubmit\<close> up to its \<open>await\<close>, with the nickname handed to the page.\<close>

definition handleSubmit :: "Nickname_Editor \<Rightarrow> Nickname_Editor \<times> string list" where
  "handleSubmit s =
     (let s = s\<lparr>ne_error := ''''\<rparr> in
      if length (ne_nickname s) < 2 \<or> length (ne_nickname s) > 20
      then (s\<lparr>ne_error := ''A nickname has 2 to 20 characters''\<rparr>, [])
      else (s\<lparr>isUpdating := True\<rparr>, [ne_nickname s]))"

text \<open>After it: every error is an \<open>Error\<close> and has a message.\<close>

definition message_of :: "js_error \<Rightarrow> string" where
  "message_of e = (case e of ApiFailure a \<Rightarrow> or_else (err_message a) '''' | OtherFailure m \<Rightarrow> m)"

definition submit_settled :: "js_error option \<Rightarrow> Nickname_Editor \<Rightarrow> Nickname_Editor" where
  "submit_settled r s =
     (let s = (case r of None \<Rightarrow> s\<lparr>isEditing := False\<rparr> | Some e \<Rightarrow> s\<lparr>ne_error := message_of e\<rparr>)
      in s\<lparr>isUpdating := False\<rparr>)"

definition handleCancel :: "string \<Rightarrow> Nickname_Editor \<Rightarrow> Nickname_Editor" where
  "handleCancel currentNickname s = s\<lparr>ne_nickname := currentNickname, ne_error := '''', isEditing := False\<rparr>"

definition editor_step :: "string \<Rightarrow> Nickname_Editor \<Rightarrow> editor_action \<times> bool \<Rightarrow> Nickname_Editor \<times> string list" where
  "editor_step currentNickname s e =
     (case fst e of
        EditClick \<Rightarrow> (s\<lparr>isEditing := True\<rparr>, [])
      | TypeNickname v \<Rightarrow> (s\<lparr>ne_nickname := v\<rparr>, [])
      | SaveClick \<Rightarrow> handleSubmit s
      | CancelEdit \<Rightarrow> (handleCancel currentNickname s, [])
      | Settled r \<Rightarrow> (submit_settled r s, []))"

definition NicknameEditor :: "string \<Rightarrow> Nickname_Editor \<Rightarrow> editor_action node" where
  "NicknameEditor currentNickname s =
     (if \<not> isEditing s then
        El ''div'' []
         [El ''div'' []
           [El ''div'' [] [El ''label'' [] [Txt ''My nickname''], El ''span'' [] [Txt currentNickname]],
            El ''button'' [OnClick EditClick] [Txt ''Change'']]]
      else
        El ''div'' []
         ([El ''label'' [] [Txt ''New nickname''],
           El ''div'' []
            [El ''input'' [Attr ''type'' ''text'', Attr ''value'' (ne_nickname s), Attr ''maxLength'' ''20'',
               Disabled (isUpdating s)] [],
             El ''button'' [OnClick SaveClick, Disabled (isUpdating s),
               Style ''cursor'' (if isUpdating s then ''not-allowed'' else ''pointer''),
               Style ''opacity'' (if isUpdating s then ''0.6'' else ''1'')]
              [Txt (if isUpdating s then ''Saving...'' else ''Save'')],
             El ''button'' [OnClick CancelEdit, Disabled (isUpdating s),
               Style ''cursor'' (if isUpdating s then ''not-allowed'' else ''pointer'')] [Txt ''Cancel'']]] @
          shown (ne_error s \<noteq> '''') [El ''div'' [] [Txt (ne_error s)]] @
          [El ''div'' [] [Num (int (length (ne_nickname s))), Txt ''/20'']]))"

text \<open>The field takes any text within its length while it is enabled; a save settles while it is under way.\<close>

definition editor_offers :: "string \<Rightarrow> Nickname_Editor \<Rightarrow> editor_action \<Rightarrow> bool" where
  "editor_offers currentNickname s a \<longleftrightarrow>
     (case a of
        TypeNickname v \<Rightarrow> isEditing s \<and> \<not> isUpdating s \<and> length v \<le> 20
      | Settled _ \<Rightarrow> isUpdating s
      | _ \<Rightarrow> a \<in> set (offers (NicknameEditor currentNickname s)))"

section \<open>Properties\<close>

lemma takeWhile_colon: "CHR '':'' \<notin> set xs \<Longrightarrow> takeWhile (\<lambda>c. c \<noteq> CHR '':'') (xs @ CHR '':'' # ys) = xs"
  by (induction xs) auto

lemma dropWhile_colon: "CHR '':'' \<notin> set xs \<Longrightarrow> dropWhile (\<lambda>c. c \<noteq> CHR '':'') (xs @ CHR '':'' # ys) = CHR '':'' # ys"
  by (induction xs) auto

lemma str_nat_pad: "str_nat (pad_start n (CHR ''0'') s) = str_nat s"
proof -
  have "foldl (\<lambda>n c. 10 * n + digit_val c) 0 (replicate k (CHR ''0'') @ s) = foldl (\<lambda>n c. 10 * n + digit_val c) 0 s" for k
    by (induction k) (simp_all add: digit_val_def)
  then show ?thesis by (simp add: str_nat_def pad_start_def)
qed

text \<open>What a reader makes of a time on the clock: minutes before the colon, seconds after it.\<close>

definition read_clock :: "string \<Rightarrow> nat \<times> nat" where
  "read_clock t =
     (str_nat (takeWhile (\<lambda>c. c \<noteq> CHR '':'') t), str_nat (tl (dropWhile (\<lambda>c. c \<noteq> CHR '':'') t)))"

lemma clock_text:
  assumes "0 \<le> s"
  shows "formatTime s = nat_str (nat (s div 60)) @ '':'' @ pad_start 2 (CHR ''0'') (nat_str (nat (s mod 60)))"
proof -
  have "\<not> s div 60 < 0" "\<not> s mod 60 < 0" using assms by (simp_all add: not_less pos_imp_zdiv_nonneg_iff)
  then show ?thesis using assms by (simp add: formatTime_def int_str_def Let_def)
qed

lemma clock_reads:
  assumes "0 \<le> s"
  shows "read_clock (formatTime s) = (nat s div 60, nat s mod 60)"
  using assms by (simp add: clock_text read_clock_def takeWhile_colon dropWhile_colon nat_str_no_colon str_nat_nat_str
      str_nat_pad nat_div_distrib nat_mod_distrib)

text \<open>The time on the clock of a round reads back as the seconds that are left, with fewer than
  sixty seconds after the colon, in two digits.\<close>

theorem clock_round_trip:
  "if 0 \<le> s then
     (let (m, r) = read_clock (formatTime s) in int m * 60 + int r = s \<and> r < 60) \<and>
     length (tl (dropWhile (\<lambda>c. c \<noteq> CHR '':'') (formatTime s))) = 2
   else True"
proof (cases "0 \<le> s")
  case True
  have n: "nat (s mod 60) < 100" using pos_mod_bound [of 60 s] by linarith
  have "length (nat_str (nat (s mod 60))) \<le> 2" using length_nat_str_2 [OF n] by simp
  then have "length (pad_start 2 (CHR ''0'') (nat_str (nat (s mod 60)))) = 2" by (simp add: pad_start_def)
  moreover have "int (nat s div 60) * 60 + int (nat s mod 60) = s"
    unfolding of_nat_mod of_nat_div using True by (simp add: zmod_int zdiv_int)
  ultimately show ?thesis
    using True clock_reads [OF True] by (simp add: clock_text dropWhile_colon nat_str_no_colon)
qed simp

text \<open>The editor saves once at a time.\<close>

definition settlements :: "(string \<times> editor_action \<times> bool) list \<Rightarrow> nat" where
  "settlements es = length (filter (\<lambda>e. case fst (snd e) of Settled _ \<Rightarrow> True | _ \<Rightarrow> False) es)"

definition saving :: "Nickname_Editor \<Rightarrow> nat" where
  "saving s = (if isUpdating s then 1 else 0)"

lemma editor_offers_iff:
  "editor_offers n s a \<longleftrightarrow>
     (case a of
        EditClick \<Rightarrow> \<not> isEditing s
      | TypeNickname v \<Rightarrow> isEditing s \<and> \<not> isUpdating s \<and> length v \<le> 20
      | SaveClick \<Rightarrow> isEditing s \<and> \<not> isUpdating s
      | CancelEdit \<Rightarrow> isEditing s \<and> \<not> isUpdating s
      | Settled _ \<Rightarrow> isUpdating s)"
  by (cases a) (auto simp: editor_offers_def NicknameEditor_def view_simps)

lemma editor_interact:
  assumes "interact editor_offers editor_step s e = (s', cs)"
  shows "length cs + saving s \<le> saving s' + settlements [e] \<and> list_all (\<lambda>n. 2 \<le> length n \<and> length n \<le> 20) cs"
proof -
  obtain n a b where e: "e = (n, a, b)" by (cases e)
  show ?thesis
    using assms
    by (cases a)
      (auto simp: e interact_def editor_offers_iff editor_step_def handleSubmit_def handleCancel_def submit_settled_def
        saving_def settlements_def Let_def split: if_splits option.splits)
qed

lemma editor_session:
  "session editor_offers editor_step s es = (s', cs) \<Longrightarrow>
    length cs + saving s \<le> saving s' + settlements es \<and> list_all (\<lambda>n. 2 \<le> length n \<and> length n \<le> 20) cs"
proof (induction es arbitrary: s s' cs)
  case (Cons e es)
  obtain t ds where i: "interact editor_offers editor_step s e = (t, ds)" by (cases "interact editor_offers editor_step s e")
  obtain u fs where j: "session editor_offers editor_step t es = (u, fs)" by (cases "session editor_offers editor_step t es")
  have "settlements (e # es) = settlements [e] + settlements es" by (simp add: settlements_def)
  then show ?case using Cons.prems Cons.IH [OF j] editor_interact [OF i] by (auto simp: i j)
qed (simp add: settlements_def)

text \<open>However a player uses the nickname editor, every nickname that it hands to the page has 2 to 20
  characters, and a new one is handed on only after the one before it has been settled.\<close>

theorem nicknames_saved_one_at_a_time:
  "let cs = snd (session editor_offers editor_step (mount_editor n) es) in
     list_all (\<lambda>n. 2 \<le> length n \<and> length n \<le> 20) cs \<and> length cs \<le> Suc (settlements es)"
proof -
  obtain s' cs where s: "session editor_offers editor_step (mount_editor n) es = (s', cs)"
    by (cases "session editor_offers editor_step (mount_editor n) es")
  have "saving s' \<le> 1" by (simp add: saving_def)
  then show ?thesis using editor_session [OF s] by (simp add: s Let_def)
qed

end
