(* ===== verification/Role_Lists.thy ===== *)
theory Role_Lists
  imports Api
begin

text \<open>
  \<open>components/role/RoleListSidebar.tsx\<close>, the list of the roles chosen for a room beside the lobby, and
  \<open>components/role/RoleConfigSelector.tsx\<close>, the menu of game modes.
\<close>

section \<open>The sidebar\<close>

record Sidebar_Props =
  sb_roleConfigId :: "string option"
  sb_selectedRoles :: "(string, int) js_map option"
  sb_isOpen :: bool

record Sidebar =
  roleConfig :: "RoleConfig option"
  sb_loading :: bool
  sb_error :: string

definition mount_sidebar :: Sidebar where
  "mount_sidebar = \<lparr>roleConfig = None, sb_loading = True, sb_error = ''''\<rparr>"

definition sidebar_config_id :: "Sidebar_Props \<Rightarrow> string" where
  "sidebar_config_id p = (case sb_roleConfigId p of None \<Rightarrow> ''standard'' | Some c \<Rightarrow> c)"

text \<open>\<open>loadRoleConfig\<close> up to its \<open>await\<close>, with the configuration that it asks for, and after it.\<close>

definition loadRoleConfig :: "Sidebar_Props \<Rightarrow> Sidebar \<Rightarrow> Sidebar \<times> string list" where
  "loadRoleConfig p s =
     (if sidebar_config_id p = '''' then (s, [])
      else (s\<lparr>sb_loading := True, sb_error := ''''\<rparr>, [sidebar_config_id p]))"

definition sidebar_answered :: "js_error + RoleConfig \<Rightarrow> Sidebar \<Rightarrow> Sidebar" where
  "sidebar_answered a s =
     (case a of
        Inl _ \<Rightarrow> s\<lparr>sb_error := ''The role configuration cannot be loaded'', sb_loading := False\<rparr>
      | Inr config \<Rightarrow> s\<lparr>roleConfig := Some config, sb_loading := False\<rparr>)"

definition getTeamColor :: "TeamColor \<Rightarrow> string" where
  "getTeamColor t = (case t of RED \<Rightarrow> ''var(--color-red)'' | BLUE \<Rightarrow> ''var(--color-blue)'' | GREY \<Rightarrow> ''var(--color-grey)'')"

definition getTeamNameKo :: "TeamColor \<Rightarrow> string" where
  "getTeamNameKo t = (case t of RED \<Rightarrow> ''Red team'' | BLUE \<Rightarrow> ''Blue team'' | GREY \<Rightarrow> ''Grey team'')"

definition formatRoleCount :: "RoleCount \<Rightarrow> string" where
  "formatRoleCount c =
     (case c of
        FixedCount n \<Rightarrow> int_str n @ '' players''
      | CountTable entries \<Rightarrow>
          if length entries = 0 then ''0 players''
          else if length entries = 1 then int_str (snd (entries ! 0)) @ '' players''
          else ''variable'')"

definition role_selected :: "(string, int) js_map option \<Rightarrow> RoleDefinition \<Rightarrow> bool" where
  "role_selected sel r = (case sel of None \<Rightarrow> False | Some m \<Rightarrow> map_get m (rd_id r) \<noteq> None)"

definition groupedRoles :: "(string, int) js_map option \<Rightarrow> RoleConfig \<Rightarrow> (TeamColor, RoleDefinition list) js_map" where
  "groupedRoles sel config = group_by rd_team (filter (role_selected sel) (config_roles config))"

text \<open>The groups as they are rendered: in the order of the teams, each by falling priority.\<close>

definition displayed_groups :: "(string, int) js_map option \<Rightarrow> RoleConfig \<Rightarrow> (TeamColor \<times> RoleDefinition list) list" where
  "displayed_groups sel config =
     map (\<lambda>(t, rs). (t, sort_key (\<lambda>r. - rd_priority r) rs)) (sort_key fst (groupedRoles sel config))"

definition role_count_text :: "(string, int) js_map option \<Rightarrow> RoleDefinition \<Rightarrow> string" where
  "role_count_text sel r =
     (case sel of
        None \<Rightarrow> formatRoleCount (rd_count r)
      | Some m \<Rightarrow> (case map_get m (rd_id r) of
            None \<Rightarrow> formatRoleCount (rd_count r)
          | Some n \<Rightarrow> if n = 0 then formatRoleCount (rd_count r) else int_str n @ '' players''))"

definition render_sidebar_role :: "(string, int) js_map option \<Rightarrow> RoleDefinition \<Rightarrow> 'a node" where
  "render_sidebar_role sel r =
     (let description = or_else (rd_descriptionKo r) (or_else (rd_description r) '''') in
      El ''div'' [Attr ''class'' ''role-item'']
       ([El ''div'' []
          [El ''div'' []
            [El ''span'' [Style ''backgroundColor'' (getTeamColor (rd_team r))] [],
             El ''span'' [] [Txt (or_else (Some (rd_nameKo r)) (rd_name r))]],
           El ''span'' [] [Txt (role_count_text sel r)]]] @
        shown (description \<noteq> '''') [El ''p'' [] [Txt description]] @
        [El ''div'' []
          (shown (rd_type r = Leader) [El ''span'' [] [Txt ''leader'']] @
           shown (rd_type r = Spy) [El ''span'' [] [Txt ''spy'']])]))"

definition render_config_header :: "RoleConfig \<Rightarrow> 'a node" where
  "render_config_header config =
     (let description = or_else (Some (config_descriptionKo config)) (config_description config) in
      El ''div'' []
       ([El ''h3'' [] [Txt (or_else (Some (config_nameKo config)) (config_name config))]] @
        shown (description \<noteq> '''') [El ''p'' [] [Txt description]]))"

definition render_groups :: "(string, int) js_map option \<Rightarrow> RoleConfig \<Rightarrow> 'a node" where
  "render_groups sel config =
     El ''div'' []
      (map (\<lambda>(t, rs). El ''div'' []
          [El ''div'' [] [El ''h4'' [Style ''color'' (getTeamColor t)] [Txt (getTeamNameKo t)]],
           El ''div'' [] (map (render_sidebar_role sel) rs)])
        (displayed_groups sel config))"

datatype sidebar_action = SidebarToggle

definition RoleListSidebar :: "Sidebar_Props \<Rightarrow> Sidebar \<Rightarrow> sidebar_action node list" where
  "RoleListSidebar p s =
     [El ''button'' [OnClick SidebarToggle, Attr ''class'' ''role-sidebar-toggle''] [Txt ''menu'']] @
     shown (sb_isOpen p) [El ''div'' [OnClick SidebarToggle, Attr ''class'' ''role-sidebar-backdrop''] []] @
     [El ''aside'' [Attr ''class'' (''role-sidebar '' @ (if sb_isOpen p then ''open'' else ''''))]
       ([El ''div'' [] [El ''div'' []
           [El ''h2'' [] [Txt ''Roles''], El ''button'' [OnClick SidebarToggle] [Txt ''x'']]]] @
        (if sb_loading s then [El ''div'' [] [Txt ''Loading...'']]
         else if sb_error s \<noteq> '''' then [El ''div'' [] [Txt (sb_error s)]]
         else (case roleConfig s of
             None \<Rightarrow> [El ''div'' [] [Txt ''The roles cannot be loaded'']]
           | Some config \<Rightarrow> [render_config_header config, render_groups (sb_selectedRoles p) config])))]"

section \<open>What the sidebar lists\<close>

text \<open>The sidebar lists every role of the configuration that was chosen for the room exactly once,
  and no other: in one group for each team that has a chosen role, red before blue before grey, and
  in each group by falling priority.\<close>

theorem sidebar_lists_chosen_roles:
  "let gs = displayed_groups sel config in
     sorted_wrt (<) (map fst gs) \<and>
     list_all (\<lambda>(t, rs). rs \<noteq> [] \<and> list_all (\<lambda>r. rd_team r = t) rs \<and>
        sorted_wrt (\<lambda>a b. rd_priority a \<ge> rd_priority b) rs) gs \<and>
     mset (concat (map snd gs)) = mset (filter (role_selected sel) (config_roles config))"
proof -
  define rs where "rs = filter (role_selected sel) (config_roles config)"
  define g where "g = group_by rd_team rs"
  have d: "displayed_groups sel config =
      map (\<lambda>(t, rs). (t, sort_key (\<lambda>r. - rd_priority r) rs)) (sort_key fst g)"
    by (simp add: displayed_groups_def groupedRoles_def g_def rs_def)
  have f: "map fst (displayed_groups sel config) = map fst (sort_key fst g)"
    unfolding d by (simp add: comp_def case_prod_unfold)
  have "distinct (map fst (sort_key fst g))"
  proof -
    have "mset (map fst (sort_key fst g)) = mset (map fst g)" by simp
    then show ?thesis using group_by_wf [of rd_team rs] mset_eq_imp_distinct_iff g_def by metis
  qed
  moreover have "sorted (map fst (sort_key fst g))" by simp
  ultimately have "sorted_wrt (<) (map fst (displayed_groups sel config))"
    unfolding f by (simp add: strict_sorted_iff)
  moreover have "list_all (\<lambda>(t, rs). rs \<noteq> [] \<and> list_all (\<lambda>r. rd_team r = t) rs \<and>
      sorted_wrt (\<lambda>a b. rd_priority a \<ge> rd_priority b) rs) (displayed_groups sel config)"
  proof -
    have "sorted (map (\<lambda>r. - rd_priority r) xs) = sorted_wrt (\<lambda>a b. rd_priority a \<ge> rd_priority b) xs" for xs :: "RoleDefinition list"
      by (simp add: sorted_wrt_map)
    then have s: "sorted_wrt (\<lambda>a b. rd_priority a \<ge> rd_priority b) (sort_key (\<lambda>r. - rd_priority r) xs)" for xs :: "RoleDefinition list"
      using sorted_sort_key by blast
    have e: "xs \<noteq> [] \<and> list_all (\<lambda>r. rd_team r = t) xs" if "(t, xs) \<in> set g" for t xs
      using group_by_entry [of t xs rd_team rs] that by (auto simp: g_def list_all_iff)
    have n: "sort_key f xs = [] \<longleftrightarrow> xs = []" for f :: "RoleDefinition \<Rightarrow> int" and xs
      by (metis length_0_conv length_sort)
    show ?thesis
      unfolding d list.pred_map comp_def
    proof (rule list.pred_mono_strong [where P = "\<lambda>_. True"])
      fix z assume z: "z \<in> set (sort_key fst g)"
      obtain t xs where zt: "z = (t, xs)" by (cases z)
      have *: "xs \<noteq> []" "list_all (\<lambda>r. rd_team r = t) xs" using e [of t xs] z by (simp_all add: zt)
      have "list_all (\<lambda>r. rd_team r = t) (sort_key (\<lambda>r. - rd_priority r) xs)"
        using *(2) by (simp add: list_all_iff)
      then show "case case z of (t, rs) \<Rightarrow> (t, sort_key (\<lambda>r. - rd_priority r) rs) of (t, rs) \<Rightarrow>
          rs \<noteq> [] \<and> list_all (\<lambda>r. rd_team r = t) rs \<and> sorted_wrt (\<lambda>a b. rd_priority a \<ge> rd_priority b) rs"
        unfolding zt prod.case using *(1) s [of xs] n [of "\<lambda>r. - rd_priority r" xs] by blast
    qed (simp add: list_all_iff)
  qed
  moreover have "mset (concat (map snd (displayed_groups sel config))) = mset rs"
  proof -
    have "mset (concat (map (\<lambda>p. sort_key f (snd p)) xs)) = mset (concat (map snd xs))" for f :: "'b \<Rightarrow> int" and xs :: "('c \<times> 'b list) list"
      by (induction xs) simp_all
    then have "mset (concat (map snd (displayed_groups sel config))) = mset (concat (map snd (sort_key fst g)))"
      unfolding d by (simp add: comp_def case_prod_unfold)
    also have "\<dots> = mset (concat (map snd g))"
    proof -
      have "mset (concat xs) = sum_mset (image_mset mset (mset xs))" for xs :: "RoleDefinition list list"
        by (induction xs) simp_all
      then show ?thesis by simp
    qed
    finally show ?thesis by (simp add: g_def mset_group_by)
  qed
  ultimately show ?thesis by (simp add: Let_def rs_def)
qed

section \<open>The menu of game modes\<close>

record Mode_Menu =
  configs :: "RoleConfigMeta list"
  mm_loading :: bool
  mm_error :: string

definition mount_mode_menu :: Mode_Menu where
  "mount_mode_menu = \<lparr>configs = [], mm_loading = True, mm_error = ''''\<rparr>"

definition default_configs :: "RoleConfigMeta list" where
  "default_configs = [\<lparr>config_id = ''standard'', config_name = ''Standard Game'', config_nameKo = ''Basic game'',
     config_description = ''Standard Two Rooms and a Boom roles'',
     config_descriptionKo = ''The basic roles of Two Rooms and a Boom'', config_version = None\<rparr>]"

text \<open>\<open>loadConfigs\<close> after its \<open>await\<close>, with the value that it knows and the changes that it asks for.\<close>

definition loadConfigs :: "string \<Rightarrow> js_error + RoleConfigMeta list \<Rightarrow> Mode_Menu \<Rightarrow> Mode_Menu \<times> string list" where
  "loadConfigs value0 a s =
     (case a of
        Inr cs \<Rightarrow>
          (s\<lparr>configs := cs, mm_loading := False\<rparr>, if length cs = 0 \<and> value0 = '''' then [''standard''] else [])
      | Inl _ \<Rightarrow>
          (s\<lparr>mm_error := ''The role configurations cannot be loaded'', configs := default_configs, mm_loading := False\<rparr>,
           if value0 = '''' then [''standard''] else []))"

text \<open>The options of the menu carry the values that choosing them hands to the page.\<close>

definition RoleConfigSelector :: "string \<Rightarrow> Mode_Menu \<Rightarrow> string node" where
  "RoleConfigSelector value0 s =
     (if mm_loading s then El ''div'' [] [Txt ''Loading...'']
      else if mm_error s \<noteq> '''' \<and> length (configs s) = 0 then El ''div'' [] [Txt (mm_error s)]
      else
       El ''div'' []
        ([El ''label'' [Attr ''for'' ''role-config-select''] [Txt ''Game mode''],
          El ''select'' [Attr ''id'' ''role-config-select'', Attr ''value'' value0]
           (map (\<lambda>c. El ''option'' [Attr ''value'' (config_id c), OnChange (config_id c)]
               [Txt (or_else (Some (config_nameKo c)) (config_name c))]) (configs s))] @
         (case find (\<lambda>c. config_id c = value0) (configs s) of
            None \<Rightarrow> []
          | Some c \<Rightarrow>
              (let description = or_else (Some (config_descriptionKo c)) (config_description c) in
               shown (description \<noteq> '''') [El ''div'' [] [Txt description]]))))"

text \<open>Once its configurations have been asked for, the menu always lets the host play: whatever the
  server answers, either it offers a mode or the page has been told to use the standard game, unless
  the server knows no mode and the page has a value already.\<close>

theorem a_mode_can_be_chosen:
  "let (s, changes) = loadConfigs value0 a mount_mode_menu in
     offers (RoleConfigSelector value0 s) =
       (case a of Inl _ \<Rightarrow> [''standard''] | Inr cs \<Rightarrow> map config_id cs) \<and>
     changes = (if value0 = '''' \<and> (case a of Inl _ \<Rightarrow> True | Inr cs \<Rightarrow> cs = []) then [''standard''] else [])"
proof -
  have "concat (map (\<lambda>x. [f x]) xs) = map f xs" for f :: "RoleConfigMeta \<Rightarrow> string" and xs
    by (induction xs) simp_all
  then show ?thesis
    by (auto simp: loadConfigs_def RoleConfigSelector_def mount_mode_menu_def default_configs_def Let_def view_simps
        split: sum.split option.split)
qed

end
