(* ===== verification/Vote_Page.thy ===== *)
theory Vote_Page
  imports Game_Types
begin

text \<open>
  \<open>components/game/VotePage.tsx\<close>: the page on which a player votes on the removal of a leader or
  elects a new one, with its countdown. The interval of the countdown is started and cleared by an
  effect on the result of the vote and on whether the player has voted.
\<close>

section \<open>State, properties and handlers\<close>

record Vote_Props =
  voteSession :: VoteSession
  vp_voteResult :: "VoteResultPayload option"
  vp_hasVoted :: bool
  vp_players :: "Player list"
  vp_currentPlayer :: Player

record Vote_Page =
  vt_timeRemaining :: int
  isVoting :: bool
  vt_interval :: bool
  vt_deps :: "VoteResultPayload option \<times> bool"

datatype vote_action = VRendered | VTick | VSettled | VClick string | VBack

datatype vote_command = OnVote string | OnClose

definition vote_deps :: "Vote_Props \<Rightarrow> VoteResultPayload option \<times> bool" where
  "vote_deps p = (vp_voteResult p, vp_hasVoted p)"

definition isElection :: "Vote_Props \<Rightarrow> bool" where
  "isElection p = (case candidates (voteSession p) of None \<Rightarrow> False | Some cs \<Rightarrow> 0 < length cs)"

definition candidatePlayers :: "Vote_Props \<Rightarrow> Player list" where
  "candidatePlayers p =
     (if isElection p
      then filter (\<lambda>q. case candidates (voteSession p) of None \<Rightarrow> False | Some cs \<Rightarrow> player_id q \<in> set cs) (vp_players p)
      else [])"

text \<open>The effect: the countdown runs unless the vote is decided or the player has voted.\<close>

definition countdown_running :: "Vote_Props \<Rightarrow> bool" where
  "countdown_running p = (if vp_voteResult p \<noteq> None \<or> vp_hasVoted p then False else True)"

definition vote_effect :: "Vote_Props \<Rightarrow> Vote_Page \<Rightarrow> Vote_Page" where
  "vote_effect p s =
     (if vt_deps s = vote_deps p then s
      else s\<lparr>vt_interval := countdown_running p, vt_deps := vote_deps p\<rparr>)"

definition mount_vote_page :: "Vote_Props \<Rightarrow> Vote_Page" where
  "mount_vote_page p = \<lparr>vt_timeRemaining = timeoutSeconds (voteSession p), isVoting = False,
     vt_interval = countdown_running p, vt_deps = vote_deps p\<rparr>"

definition countdown_tick :: "Vote_Page \<Rightarrow> Vote_Page" where
  "countdown_tick s =
     (if vt_timeRemaining s \<le> 1 then s\<lparr>vt_interval := False, vt_timeRemaining := 0\<rparr>
      else s\<lparr>vt_timeRemaining := vt_timeRemaining s - 1\<rparr>)"

text \<open>\<open>handleVoteClick\<close> up to its \<open>await\<close>; \<open>VSettled\<close> is its \<open>finally\<close>.\<close>

definition handleVoteClick :: "string \<Rightarrow> Vote_Page \<Rightarrow> Vote_Page \<times> vote_command list" where
  "handleVoteClick v s = (s\<lparr>isVoting := True\<rparr>, [OnVote v])"

definition vote_handle :: "Vote_Page \<Rightarrow> vote_action \<Rightarrow> Vote_Page \<times> vote_command list" where
  "vote_handle s a =
     (case a of
        VRendered \<Rightarrow> (s, [])
      | VTick \<Rightarrow> (countdown_tick s, [])
      | VSettled \<Rightarrow> (s\<lparr>isVoting := False\<rparr>, [])
      | VClick v \<Rightarrow> handleVoteClick v s
      | VBack \<Rightarrow> (s, [OnClose]))"

definition vote_page_step :: "Vote_Props \<Rightarrow> Vote_Page \<Rightarrow> vote_action \<times> bool \<Rightarrow> Vote_Page \<times> vote_command list" where
  "vote_page_step p s e = vote_handle (vote_effect p s) (fst e)"

section \<open>The rendered page\<close>

definition vote_room_name :: "Vote_Props \<Rightarrow> string" where
  "vote_room_name p = (if vote_roomColor (voteSession p) = RED_ROOM then ''red room'' else ''blue room'')"

definition vote_room_css :: "Vote_Props \<Rightarrow> string" where
  "vote_room_css p = (if vote_roomColor (voteSession p) = RED_ROOM then ''#dc2626'' else ''#2563eb'')"

definition render_question :: "Vote_Props \<Rightarrow> vote_action node" where
  "render_question p =
     El ''div'' []
      (if \<not> isElection p then
         [El ''div'' [] [Txt (targetLeaderName (voteSession p)), Txt '': replace this leader?''],
          El ''div'' [Style ''color'' (vote_room_css p)] [Txt (vote_room_name p)]]
       else
         [El ''div'' [] [Txt ''Elect the new leader of the '', Txt (vote_room_name p)],
          El ''div'' [] [Txt ''Previous leader: '', Txt (targetLeaderName (voteSession p))]])"

definition render_vote_info :: "Vote_Props \<Rightarrow> Vote_Page \<Rightarrow> vote_action node" where
  "render_vote_info p s =
     (let late = (vt_timeRemaining s \<le> 10) in
      El ''div'' []
       [El ''div'' [] [El ''span'' [] [Txt ''Started by:''], El ''span'' [] [Txt (initiatorName (voteSession p))]],
        El ''div'' [Style ''backgroundColor'' (if late then ''#fef3c7'' else ''var(--bg-secondary, #f3f4f6)'')]
         [El ''span'' [] [Txt ''Time left:''],
          El ''span'' [Style ''color'' (if late then ''#d97706'' else ''var(--text-primary, #1f2937)'')]
           [Num (vt_timeRemaining s), Txt '' s'']],
        El ''div'' []
         [El ''span'' [] [Txt ''Votes:''],
          El ''span'' [] [Num (votedCount (voteSession p)), Txt '' / '', Num (totalVoters (voteSession p))]]])"

definition result_css :: "VoteResult \<Rightarrow> string" where
  "result_css r = (if r = PASSED then ''#16a34a'' else if r = FAILED then ''#dc2626'' else ''#d97706'')"

definition render_vote_result :: "Vote_Props \<Rightarrow> VoteResultPayload \<Rightarrow> vote_action node" where
  "render_vote_result p v =
     (let r = vr_result v in
      El ''div''
       [Style ''backgroundColor'' (if r = PASSED then ''#dcfce7'' else if r = FAILED then ''#fee2e2'' else ''#fef3c7''),
        Style ''border'' (''2px solid '' @ result_css r)]
       ([El ''div'' [Style ''color'' (result_css r)]
          [Txt (if r = PASSED then ''Vote passed'' else if r = FAILED then ''Vote failed'' else ''Timed out'')]] @
        shown (\<not> isElection p)
         [El ''div'' [] [Txt ''Yes: '', Num (yesVotes v), Txt '' / No: '', Num (noVotes v)]] @
        (case newLeaderName v of
           None \<Rightarrow> []
         | Some n \<Rightarrow> shown (n \<noteq> '''') [El ''div'' [] [Txt ''New leader: '', Txt n]])))"

definition render_removal_buttons :: "Vote_Page \<Rightarrow> vote_action node" where
  "render_removal_buttons s =
     (let off = (isVoting s \<or> vt_timeRemaining s = 0);
          button = (\<lambda>v css label. El ''button''
            [OnClick (VClick v), Disabled off, Style ''backgroundColor'' (if off then ''#d1d5db'' else css),
             Style ''cursor'' (if off then ''not-allowed'' else ''pointer''),
             Style ''opacity'' (if off then ''0.6'' else ''1'')] [Txt label]) in
      El ''div'' [] [button ''YES'' ''#16a34a'' ''Yes'', button ''NO'' ''#dc2626'' ''No''])"

definition render_candidate_button :: "Vote_Props \<Rightarrow> Vote_Page \<Rightarrow> Player \<Rightarrow> vote_action node" where
  "render_candidate_button p s q =
     (let off = (isVoting s \<or> vt_timeRemaining s = 0) in
      El ''button''
       [OnClick (VClick (player_id q)), Disabled off,
        Style ''backgroundColor'' (if off then ''#f3f4f6'' else ''var(--bg-card, #ffffff)''),
        Style ''border'' (''2px solid '' @ (if off then ''#d1d5db'' else vote_room_css p)),
        Style ''cursor'' (if off then ''not-allowed'' else ''pointer''),
        Style ''opacity'' (if off then ''0.5'' else ''1'')]
       ([El ''span'' [] [Txt (nickname q)]] @
        shown (player_id q = player_id (vp_currentPlayer p)) [El ''span'' [] [Txt ''(me)'']]))"

definition render_election_buttons :: "Vote_Props \<Rightarrow> Vote_Page \<Rightarrow> vote_action node" where
  "render_election_buttons p s = El ''div'' [] (map (render_candidate_button p s) (candidatePlayers p))"

definition render_vote_cast :: "'a node" where
  "render_vote_cast =
     El ''div'' []
      [El ''div'' [] [Txt ''Vote cast''], El ''div'' [] [Txt ''Waiting for the votes of the other players...'']]"

definition VotePage :: "Vote_Props \<Rightarrow> Vote_Page \<Rightarrow> vote_action node" where
  "VotePage p s =
     (let open = (vp_voteResult p = None \<and> \<not> vp_hasVoted p) in
      El ''div'' []
       [El ''div'' []
         [El ''button'' [OnClick VBack] [Txt ''Back''],
          El ''h1'' [] [Txt (if \<not> isElection p then ''Vote on replacing the leader'' else ''Election of a new leader'')]],
        El ''div'' []
         ([render_question p, render_vote_info p s] @
          (case vp_voteResult p of None \<Rightarrow> [] | Some v \<Rightarrow> [render_vote_result p v]) @
          shown (open \<and> \<not> isElection p) [render_removal_buttons s] @
          shown (open \<and> isElection p) [render_election_buttons p s] @
          shown (vp_hasVoted p \<and> vp_voteResult p = None) [render_vote_cast])])"

text \<open>The interval can fire while it is installed, and a vote can settle while it is under way.\<close>

definition vote_page_offers :: "Vote_Props \<Rightarrow> Vote_Page \<Rightarrow> vote_action \<Rightarrow> bool" where
  "vote_page_offers p s a \<longleftrightarrow>
     a = VRendered \<or> (a = VTick \<and> vt_interval (vote_effect p s)) \<or> (a = VSettled \<and> isVoting s) \<or>
     a \<in> set (offers (VotePage p (vote_effect p s)))"

abbreviation vote_session :: "Vote_Page \<Rightarrow> (Vote_Props \<times> vote_action \<times> bool) list \<Rightarrow> Vote_Page \<times> vote_command list" where
  "vote_session \<equiv> session vote_page_offers vote_page_step"

section \<open>The votes that a player can cast\<close>

lemma vote_effect_simps [simp]:
  "vt_timeRemaining (vote_effect p s) = vt_timeRemaining s" "isVoting (vote_effect p s) = isVoting s"
  by (simp_all add: vote_effect_def)

definition ballot :: "Vote_Props \<Rightarrow> string list" where
  "ballot p = (if isElection p then player_ids (candidatePlayers p) else [''YES'', ''NO''])"

lemma vote_page_nodes:
  "offers (render_candidate_button p s q) =
      (if isVoting s \<or> vt_timeRemaining s = 0 then [] else [VClick (player_id q)])"
  "offers (render_removal_buttons s) =
      (if isVoting s \<or> vt_timeRemaining s = 0 then [] else [VClick ''YES'', VClick ''NO''])"
  "offers (render_question p) = []" "offers (render_vote_info p s) = []"
  "offers (render_vote_result p v) = []" "offers render_vote_cast = []"
  by (simp_all add: render_vote_cast_def render_candidate_button_def render_removal_buttons_def render_question_def
      render_vote_info_def render_vote_result_def Let_def view_simps split: option.split)

lemma set_offers_vote_page:
  "set (offers (VotePage p s)) = {VBack} \<union>
     (if vp_voteResult p = None \<and> \<not> vp_hasVoted p \<and> \<not> isVoting s \<and> vt_timeRemaining s \<noteq> 0
      then VClick ` set (ballot p) else {})"
  by (auto simp: VotePage_def render_election_buttons_def Let_def view_simps vote_page_nodes ballot_def split: option.split)

lemma vote_page_offers_iff:
  "vote_page_offers p s a \<longleftrightarrow>
     (case a of
        VRendered \<Rightarrow> True
      | VTick \<Rightarrow> vt_interval (vote_effect p s)
      | VSettled \<Rightarrow> isVoting s
      | VBack \<Rightarrow> True
      | VClick v \<Rightarrow> v \<in> set (ballot p) \<and> vp_voteResult p = None \<and> \<not> vp_hasVoted p \<and>
          \<not> isVoting s \<and> vt_timeRemaining s \<noteq> 0)"
  by (cases a) (auto simp: vote_page_offers_def set_offers_vote_page)

text \<open>A player can cast exactly the votes of the ballot, a yes or a no on a removal and the
  candidates present in the room in an election, and each only while the vote is undecided, the
  player has not voted, no vote of the player is being sent and time is left.\<close>

theorem votes_offered:
  "{v. VClick v \<in> set (offers (VotePage p s))} =
     (if vp_voteResult p = None \<and> \<not> vp_hasVoted p \<and> \<not> isVoting s \<and> vt_timeRemaining s \<noteq> 0
      then if candidates (voteSession p) \<in> {None, Some []} then {''YES'', ''NO''}
        else set (player_ids (filter (\<lambda>q. player_id q \<in> set (the (candidates (voteSession p)))) (vp_players p)))
      else {})"
  by (auto simp: set_offers_vote_page ballot_def candidatePlayers_def isElection_def split: option.split)

section \<open>The countdown\<close>

lemma vote_page_step_time:
  "vt_timeRemaining (fst (vote_page_step p s (a, b))) =
     (if a = VTick then if vt_timeRemaining s \<le> 1 then 0 else vt_timeRemaining s - 1 else vt_timeRemaining s)"
  by (cases a) (simp_all add: vote_page_step_def vote_handle_def countdown_tick_def handleVoteClick_def)

definition undecided :: "Vote_Props \<Rightarrow> bool" where
  "undecided p \<longleftrightarrow> vp_voteResult p = None \<and> \<not> vp_hasVoted p"

definition ticks :: "(Vote_Props \<times> vote_action \<times> bool) list \<Rightarrow> int" where
  "ticks es = int (length (filter (\<lambda>e. fst (snd e) = VTick) es))"

definition counting :: "Vote_Page \<Rightarrow> bool" where
  "counting s \<longleftrightarrow> vt_deps s = (None, False) \<and> 0 \<le> vt_timeRemaining s \<and> (vt_timeRemaining s \<noteq> 0 \<longrightarrow> vt_interval s)"

lemma counting_interact:
  assumes "counting s" "undecided p"
  shows "counting (fst (interact vote_page_offers vote_page_step s (p, a, b))) \<and>
    vt_timeRemaining (fst (interact vote_page_offers vote_page_step s (p, a, b))) =
      (if a = VTick then max 0 (vt_timeRemaining s - 1) else vt_timeRemaining s)"
proof -
  have "vote_effect p s = s"
    using assms by (simp add: vote_effect_def counting_def undecided_def vote_deps_def)
  then show ?thesis
    using assms(1)
    by (cases a)
      (auto simp: interact_def vote_page_offers_iff vote_page_step_def vote_handle_def counting_def
        countdown_tick_def handleVoteClick_def)
qed

lemma counting_session:
  "counting s \<Longrightarrow> list_all (undecided \<circ> fst) es \<Longrightarrow>
    vt_timeRemaining (fst (vote_session s es)) = max 0 (vt_timeRemaining s - ticks es)"
proof (induction es arbitrary: s)
  case (Cons e es)
  obtain p a b where e: "e = (p, a, b)" by (cases e)
  obtain s' cs where i: "interact vote_page_offers vote_page_step s e = (s', cs)"
    by (cases "interact vote_page_offers vote_page_step s e")
  have "counting s' \<and> vt_timeRemaining s' = (if a = VTick then max 0 (vt_timeRemaining s - 1) else vt_timeRemaining s)"
    using counting_interact [OF Cons.prems(1), of p a b] Cons.prems(2) i by (simp add: e)
  then show ?case
    using Cons.IH [of s'] Cons.prems(2) i by (auto simp: e ticks_def split: prod.splits)
qed (simp add: ticks_def counting_def)

text \<open>While the vote is open to the player, the time shown is the session's timeout less one for
  each second that has passed, and stops at zero, whatever else happens on the page.\<close>

theorem countdown_exact:
  assumes "0 \<le> timeoutSeconds (voteSession p)" "undecided p" "list_all (undecided \<circ> fst) es"
  shows "vt_timeRemaining (fst (vote_session (mount_vote_page p) es)) =
    max 0 (timeoutSeconds (voteSession p) - ticks es)"
  using counting_session [of "mount_vote_page p" es] assms
  by (simp add: counting_def mount_vote_page_def undecided_def vote_deps_def countdown_running_def)

definition wv_player :: "string \<Rightarrow> Player" where
  "wv_player i = \<lparr>player_id = i, nickname = i, isAnonymous = False, player_roomCode = ''R'', isOwner = False,
     player_role = None, player_team = None, player_currentRoom = Some RED_ROOM, connectedAt = ''''\<rparr>"

definition wv_props :: "int \<Rightarrow> Vote_Props" where
  "wv_props n = \<lparr>voteSession = \<lparr>voteID = ''v'', vote_gameSessionId = '''', vote_roomColor = RED_ROOM,
       voteType = Some ELECTION, targetLeaderId = ''x'', targetLeaderName = ''x'', initiatorId = ''y'',
       initiatorName = ''y'', candidates = Some [''a'', ''b''], vote_startedAt = '''', expiresAt = '''',
       timeoutSeconds = n, totalVoters = 3, votedCount = 0, vote_status = VoteActive\<rparr>,
     vp_voteResult = None, vp_hasVoted = False, vp_players = [wv_player ''a'', wv_player ''c''],
     vp_currentPlayer = wv_player ''c''\<rparr>"

theorem countdown_exact_witness:
  "vt_timeRemaining (fst (vote_session (mount_vote_page (wv_props 3))
     [(wv_props 3, VTick, True), (wv_props 3, VClick ''a'', True), (wv_props 3, VTick, True)])) =
   max 0 (3 - ticks [(wv_props 3, VTick, True), (wv_props 3, VClick ''a'', True), (wv_props 3, VTick, True)])"
  using countdown_exact [of "wv_props 3"
      "[(wv_props 3, VTick, True), (wv_props 3, VClick ''a'', True), (wv_props 3, VTick, True)]"]
  by (simp add: wv_props_def undecided_def)

interpretation closed_vote: interactive vote_page_offers vote_page_step "\<lambda>_. True"
  "\<lambda>s. vt_timeRemaining s = 0" "\<lambda>c. c = OnClose"
proof (unfold_locales, goal_cases)
  case (1 p s e)
  then show ?case using vote_page_step_time [of p s "fst e" "snd e"] by simp
next
  case (2 p s e)
  then show ?case
    by (cases "fst e") (simp_all add: vote_page_offers_iff vote_page_step_def vote_handle_def)
qed

text \<open>Once the countdown of a mounted page has reached zero, no vote is ever sent from it again, not
  even when a new voting session replaces the old one: the time is not taken from the new session.\<close>

theorem closed_page_stays_closed:
  assumes "vt_timeRemaining s = 0"
  shows "list_all (\<lambda>c. c = OnClose) (snd (vote_session s es))"
  using closed_vote.session_good [of s es] assms by (simp add: list_all_iff)

theorem closed_page_stays_closed_witness:
  "list_all (\<lambda>c. c = OnClose)
     (snd (vote_session (fst (vote_session (mount_vote_page (wv_props 1)) [(wv_props 1, VTick, True)]))
       [(wv_props 30, VRendered, True), (wv_props 30, VClick ''a'', True), (wv_props 30, VBack, True)]))"
proof (rule closed_page_stays_closed)
  have "counting (mount_vote_page (wv_props 1))"
    by (simp add: counting_def mount_vote_page_def wv_props_def vote_deps_def countdown_running_def)
  from counting_session [OF this, of "[(wv_props 1, VTick, True)]"]
  show "vt_timeRemaining (fst (vote_session (mount_vote_page (wv_props 1)) [(wv_props 1, VTick, True)])) = 0"
    by (simp add: undecided_def wv_props_def ticks_def mount_vote_page_def)
qed

end
