(* ===== verification/Round_Timer_Panel.thy ===== *)
theory Round_Timer_Panel
  imports Hostage_Selection
begin

text \<open>
  \<open>components/game/RoundTimerPanel.tsx\<close>, the panel with which a leader runs a round: its local
  state, its handlers, the tree it renders in each phase of the round, and what a leader can do
  through it. A nullable list of hostages is the empty list, which the code treats alike.
\<close>

section \<open>State and properties\<close>

record Timer_Panel_Props =
  tp_isLeader :: bool
  tp_roundState :: "RoundState option"
  tp_players :: "Player list"
  tp_currentPlayerId :: string
  tp_currentRoom :: RoomColor

record Timer_Panel =
  tp_selectedHostages :: "string js_set"
  tp_error :: string
  tp_isReady :: bool
  tp_showTransferModal :: bool
  tp_selectedNewLeader :: string

definition init_timer_panel :: Timer_Panel where
  "init_timer_panel = \<lparr>tp_selectedHostages = [], tp_error = '''', tp_isReady = False,
     tp_showTransferModal = False, tp_selectedNewLeader = ''''\<rparr>"

datatype timer_panel_action =
    ToggleTransferModal
  | ChooseNewLeader string
  | ConfirmTransfer
  | CancelTransfer
  | ToggleHostage string
  | AnnounceHostages
  | ConfirmReady

section \<open>Values derived from the properties\<close>

definition room_name :: "RoomColor \<Rightarrow> string" where
  "room_name c = (if c = RED_ROOM then ''red room'' else ''blue room'')"

definition other_room_name :: "RoomColor \<Rightarrow> string" where
  "other_room_name c = (if c = RED_ROOM then ''blue room'' else ''red room'')"

definition room_css :: "RoomColor \<Rightarrow> string" where
  "room_css c = (if c = RED_ROOM then ''#dc2626'' else ''#2563eb'')"

definition isMyTurnReady :: "RoomColor \<Rightarrow> RoundState \<Rightarrow> bool" where
  "isMyTurnReady c rs = (if c = RED_ROOM then \<not> redLeaderReady rs else \<not> blueLeaderReady rs)"

definition otherLeaderReady :: "RoomColor \<Rightarrow> RoundState \<Rightarrow> bool" where
  "otherLeaderReady c rs = (if c = RED_ROOM then blueLeaderReady rs else redLeaderReady rs)"

definition my_hostages :: "RoomColor \<Rightarrow> RoundState \<Rightarrow> string list" where
  "my_hostages c rs = (if c = RED_ROOM then redHostages rs else blueHostages rs)"

definition hostagesSelected :: "RoomColor \<Rightarrow> RoundState \<Rightarrow> bool" where
  "hostagesSelected c rs \<longleftrightarrow> 0 < length (my_hostages c rs)"

section \<open>Handlers\<close>

definition handleToggleHostage :: "Timer_Panel_Props \<Rightarrow> RoundState \<Rightarrow> string \<Rightarrow> Timer_Panel \<Rightarrow> Timer_Panel" where
  "handleToggleHostage p rs playerId s =
     (if hostagesSelected (tp_currentRoom p) rs then s
      else if playerId = tp_currentPlayerId p
        then s\<lparr>tp_error := ''A leader cannot select themselves as a hostage''\<rparr>
      else if playerId = redLeaderId rs \<or> playerId = blueLeaderId rs
        then s\<lparr>tp_error := ''A leader cannot be selected as a hostage. Transfer the leadership first.''\<rparr>
      else
        (let (sel, err) = limited_toggle (hostageCount rs) playerId (tp_selectedHostages s, '''')
         in s\<lparr>tp_selectedHostages := sel, tp_error := err\<rparr>))"

definition handleAnnounceHostages :: "RoundState \<Rightarrow> bool \<Rightarrow> Timer_Panel \<Rightarrow> Timer_Panel \<times> panel_command list" where
  "handleAnnounceHostages rs answer s =
     (if set_size (tp_selectedHostages s) \<noteq> hostageCount rs
        then (s\<lparr>tp_error := ''Exactly '' @ int_str (hostageCount rs) @ '' must be selected''\<rparr>, [])
      else if answer then (s, [SelectHostages (tp_selectedHostages s)])
      else (s, []))"

definition handleReady :: "bool \<Rightarrow> Timer_Panel \<Rightarrow> Timer_Panel \<times> panel_command list" where
  "handleReady answer s = (if answer then (s\<lparr>tp_isReady := True\<rparr>, [LeaderReady]) else (s, []))"

definition handleTransferLeadership :: "bool \<Rightarrow> Timer_Panel \<Rightarrow> Timer_Panel \<times> panel_command list" where
  "handleTransferLeadership answer s =
     (if tp_selectedNewLeader s = '''' then (s, [PanelAlert ''Please select a new leader''])
      else if answer
        then (s\<lparr>tp_showTransferModal := False, tp_selectedNewLeader := ''''\<rparr>,
              [TransferLeadership (tp_selectedNewLeader s)])
      else (s, []))"

text \<open>All handlers, with the answer that the user gives to \<open>confirm\<close> when the handler asks.\<close>

definition timer_panel_handle ::
  "Timer_Panel_Props \<Rightarrow> RoundState \<Rightarrow> Timer_Panel \<Rightarrow> timer_panel_action \<times> bool \<Rightarrow>
     Timer_Panel \<times> panel_command list" where
  "timer_panel_handle p rs s e =
     (case e of (a, answer) \<Rightarrow>
       (case a of
          ToggleTransferModal \<Rightarrow> (s\<lparr>tp_showTransferModal := \<not> tp_showTransferModal s\<rparr>, [])
        | ChooseNewLeader i \<Rightarrow> (s\<lparr>tp_selectedNewLeader := i\<rparr>, [])
        | ConfirmTransfer \<Rightarrow> handleTransferLeadership answer s
        | CancelTransfer \<Rightarrow> (s\<lparr>tp_showTransferModal := False, tp_selectedNewLeader := ''''\<rparr>, [])
        | ToggleHostage i \<Rightarrow> (handleToggleHostage p rs i s, [])
        | AnnounceHostages \<Rightarrow> handleAnnounceHostages rs answer s
        | ConfirmReady \<Rightarrow> handleReady answer s))"

definition timer_panel_step ::
  "Timer_Panel_Props \<Rightarrow> Timer_Panel \<Rightarrow> timer_panel_action \<times> bool \<Rightarrow> Timer_Panel \<times> panel_command list" where
  "timer_panel_step p s e =
     (case tp_roundState p of
        None \<Rightarrow> (s, [])
      | Some rs \<Rightarrow> if tp_isLeader p then timer_panel_handle p rs s e else (s, []))"

section \<open>The rendered panel\<close>

definition panel_formatTime :: "int \<Rightarrow> string" where
  "panel_formatTime seconds =
     (let mins = seconds div 60; secs = js_rem seconds 60
      in int_str mins @ '':'' @ pad_start 2 (CHR ''0'') (int_str secs))"

definition renderHostageList :: "Timer_Panel_Props \<Rightarrow> RoundState \<Rightarrow> 'a node list" where
  "renderHostageList p rs =
     (let myHostages = my_hostages (tp_currentRoom p) rs in
      if length myHostages = 0 then []
      else [El ''div'' []
        [El ''p'' [] [Txt ''Selected hostages:''],
         El ''ul'' [] (map (\<lambda>hostageId.
           El ''li'' [] [Txt (or_else (map_option nickname (find_player hostageId (tp_players p))) ''Unknown player'')])
           myHostages)]])"

definition render_new_leader_option :: "Timer_Panel \<Rightarrow> Player \<Rightarrow> timer_panel_action node" where
  "render_new_leader_option s q =
     (let chosen = (tp_selectedNewLeader s = player_id q) in
      El ''label'' [Style ''backgroundColor'' (if chosen then ''#fde68a'' else ''transparent'')]
       [El ''input'' [Attr ''type'' ''radio'', Attr ''name'' ''newLeader'', Attr ''value'' (player_id q),
          Checked chosen, OnChange (ChooseNewLeader (player_id q))] [],
        El ''span'' [Style ''fontWeight'' (if chosen then ''600'' else ''400'')] [Txt (nickname q)]])"

definition render_active_phase :: "Timer_Panel_Props \<Rightarrow> RoundState \<Rightarrow> Timer_Panel \<Rightarrow> timer_panel_action node list" where
  "render_active_phase p rs s =
     (let chosen = (tp_selectedNewLeader s \<noteq> '''');
          myRoom = players_in (tp_currentRoom p) (tp_players p) in
      [El ''div'' []
        [El ''p'' []
          [Txt ''When the timer ends you must select '',
           El ''strong'' [] [Num (hostageCount rs), Txt '' players''], Txt '' as hostages.'', El ''br'' [] [],
           Txt ''Discuss the strategy with your team in the remaining time!'']],
       El ''button'' [OnClick ToggleTransferModal] [Txt ''Transfer leadership'']] @
      shown (tp_showTransferModal s)
       [El ''div'' []
         [El ''h4'' [] [Txt ''Select the new leader''],
          El ''div'' []
            (map (render_new_leader_option s)
              (filter (\<lambda>q. player_id q \<noteq> tp_currentPlayerId p) myRoom)),
          El ''div'' []
           [El ''button'' [OnClick ConfirmTransfer, Disabled (\<not> chosen),
               Style ''backgroundColor'' (if chosen then ''#8b5cf6'' else ''#9ca3af''),
               Style ''cursor'' (if chosen then ''pointer'' else ''not-allowed''),
               Style ''opacity'' (if chosen then ''1'' else ''0.6'')]
              [Txt ''Transfer''],
            El ''button'' [OnClick CancelTransfer] [Txt ''Cancel'']]]])"

definition render_hostage_option ::
  "Timer_Panel_Props \<Rightarrow> RoundState \<Rightarrow> Timer_Panel \<Rightarrow> Player \<Rightarrow> timer_panel_action node" where
  "render_hostage_option p rs s q =
     (let isSelected = set_has (tp_selectedHostages s) (player_id q);
          isSelf = (player_id q = tp_currentPlayerId p);
          isLeader = (player_id q = redLeaderId rs \<or> player_id q = blueLeaderId rs);
          isDisabled = (isSelf \<or> isLeader) in
      El ''label''
       [Style ''backgroundColor'' (if isSelected then room_css (tp_currentRoom p) @ ''15'' else ''transparent''),
        Style ''cursor'' (if isDisabled then ''not-allowed'' else ''pointer''),
        Style ''opacity'' (if isDisabled then ''0.5'' else ''1'')]
       [El ''input''
         [Attr ''type'' ''checkbox'', Checked isSelected, OnChange (ToggleHostage (player_id q)),
          Disabled isDisabled, Style ''cursor'' (if isDisabled then ''not-allowed'' else ''pointer'')] [],
        El ''span'' [Style ''fontWeight'' (if isSelected then ''600'' else ''400'')]
         ([Txt (nickname q)] @ shown isSelf [Txt '' (you)''] @
          shown (isLeader \<and> \<not> isSelf) [Txt '' (leader)''] @ shown isSelected [Txt '' (selected)''])])"

definition render_selecting_phase :: "Timer_Panel_Props \<Rightarrow> RoundState \<Rightarrow> Timer_Panel \<Rightarrow> timer_panel_action node list" where
  "render_selecting_phase p rs s =
     (let full = (set_size (tp_selectedHostages s) = hostageCount rs);
          canAnnounce = (full \<and> \<not> hostagesSelected (tp_currentRoom p) rs) in
      [El ''div'' []
        [El ''p'' []
          [Txt ''Time is up! Select '', El ''strong'' [] [Num (hostageCount rs), Txt '' players''],
           Txt '' and send them to the '', El ''strong'' [] [Txt (other_room_name (tp_currentRoom p))]]]] @
      shown (tp_error s \<noteq> '''') [El ''div'' [] [El ''p'' [] [Txt (tp_error s)]]] @
      [El ''div'' []
        (map (render_hostage_option p rs s) (players_in (tp_currentRoom p) (tp_players p))),
       El ''div'' []
        [El ''div'' [Style ''color'' (if full then room_css (tp_currentRoom p) else ''var(--text-secondary, #6b7280)'')]
          [Txt ''Selected: '', Num (set_size (tp_selectedHostages s)), Txt '' / '', Num (hostageCount rs)],
         El ''button''
          [OnClick AnnounceHostages, Disabled (\<not> canAnnounce),
           Style ''backgroundColor'' (if canAnnounce then room_css (tp_currentRoom p) else ''#9ca3af''),
           Style ''cursor'' (if canAnnounce then ''pointer'' else ''not-allowed''),
           Style ''opacity'' (if canAnnounce then ''1'' else ''0.6'')]
          [Txt ''Announce the hostages'']]])"

definition render_complete_phase :: "Timer_Panel_Props \<Rightarrow> RoundState \<Rightarrow> Timer_Panel \<Rightarrow> timer_panel_action node list" where
  "render_complete_phase p rs s =
     (let mine = isMyTurnReady (tp_currentRoom p) rs; other = otherLeaderReady (tp_currentRoom p) rs in
      [El ''div'' []
        ([El ''p'' []
           ([Txt ''Round '', Num (rs_roundNumber rs), Txt '' complete!''] @
            shown (rs_roundNumber rs < 3)
              [Txt '' Start the next round once the players have moved between the rooms.''] @
            shown (rs_roundNumber rs = 3) [Txt '' Moving on to the reveal of the roles.''])] @
         renderHostageList p rs)] @
      shown (mine \<and> \<not> tp_isReady s)
        [El ''button'' [OnClick ConfirmReady, Style ''backgroundColor'' (room_css (tp_currentRoom p))]
          [Txt ''Ready'']] @
      shown (tp_isReady s)
        [El ''div'' [] [El ''p'' []
          ([Txt ''Waiting for the other leader to be ready...''] @
           shown other [Txt '' The next round starts soon!''])]] @
      shown (\<not> mine)
        [El ''div'' [] [El ''p'' []
          ([Txt ''Ready! ''] @ shown (\<not> other) [Txt ''Waiting for the other leader to be ready...''])]])"

definition render_panel_header :: "Timer_Panel_Props \<Rightarrow> RoundState \<Rightarrow> 'a node" where
  "render_panel_header p rs =
     El ''div'' []
      [El ''div'' []
        [El ''h3'' [Style ''color'' (room_css (tp_currentRoom p))]
           [Txt (room_name (tp_currentRoom p)), Txt '' leader''],
         El ''p'' [] [Txt ''Round '', Num (rs_roundNumber rs)]]]"

definition render_announced_phase :: "Timer_Panel_Props \<Rightarrow> RoundState \<Rightarrow> 'a node list" where
  "render_announced_phase p rs =
     [El ''div'' []
       ([El ''p'' [] [Txt ''The hostages are selected. Waiting for the other leader...'']] @
        renderHostageList p rs)]"

definition render_exchanging_phase :: "Timer_Panel_Props \<Rightarrow> RoundState \<Rightarrow> 'a node list" where
  "render_exchanging_phase p rs =
     [El ''div'' [] ([El ''p'' [] [Txt ''Exchanging the hostages...'']] @ renderHostageList p rs)]"

definition RoundTimerPanel :: "Timer_Panel_Props \<Rightarrow> Timer_Panel \<Rightarrow> timer_panel_action node list" where
  "RoundTimerPanel p s =
     (case tp_roundState p of
        None \<Rightarrow> []
      | Some rs \<Rightarrow>
          if \<not> tp_isLeader p then []
          else
           [El ''div'' [Style ''border'' (''3px solid '' @ room_css (tp_currentRoom p))]
             ([render_panel_header p rs] @
              shown (rs_status rs = ACTIVE) (render_active_phase p rs s) @
              shown (rs_status rs = SELECTING \<and> \<not> hostagesSelected (tp_currentRoom p) rs)
                (render_selecting_phase p rs s) @
              shown (rs_status rs = SELECTING \<and> hostagesSelected (tp_currentRoom p) rs)
                (render_announced_phase p rs) @
              shown (rs_status rs = EXCHANGING) (render_exchanging_phase p rs) @
              shown (rs_status rs = COMPLETE) (render_complete_phase p rs s))])"

definition timer_panel_offers :: "Timer_Panel_Props \<Rightarrow> Timer_Panel \<Rightarrow> timer_panel_action \<Rightarrow> bool" where
  "timer_panel_offers p s a \<longleftrightarrow> a \<in> set (offers_all (RoundTimerPanel p s))"

abbreviation timer_panel_session ::
  "Timer_Panel \<Rightarrow> (Timer_Panel_Props \<times> timer_panel_action \<times> bool) list \<Rightarrow> Timer_Panel \<times> panel_command list" where
  "timer_panel_session \<equiv> session timer_panel_offers timer_panel_step"

section \<open>The actions that the panel offers\<close>

lemma offers_renderHostageList [view_simps]: "offers_all (renderHostageList p rs) = []"
  by (simp add: renderHostageList_def Let_def view_simps concat_eq_Nil_conv)

lemma offers_passive_phases [view_simps]:
  "offers (render_panel_header p rs) = []"
  "offers_all (render_announced_phase p rs) = []" "offers_all (render_exchanging_phase p rs) = []"
  by (simp_all add: render_panel_header_def render_announced_phase_def render_exchanging_phase_def view_simps)

lemma offers_new_leader_option [view_simps]:
  "offers (render_new_leader_option s q) = [ChooseNewLeader (player_id q)]"
  by (simp add: render_new_leader_option_def Let_def view_simps)

lemma offers_hostage_option [view_simps]:
  "offers (render_hostage_option p rs s q) =
     (if player_id q = tp_currentPlayerId p \<or> player_id q = redLeaderId rs \<or> player_id q = blueLeaderId rs
      then [] else [ToggleHostage (player_id q)])"
  by (simp add: render_hostage_option_def Let_def view_simps)

lemma offers_active_phase:
  "set (offers_all (render_active_phase p rs s)) =
     {ToggleTransferModal} \<union>
     (if tp_showTransferModal s then
        {CancelTransfer} \<union> (if tp_selectedNewLeader s = '''' then {} else {ConfirmTransfer}) \<union>
        {ChooseNewLeader (player_id q) | q. q \<in> set (players_in (tp_currentRoom p) (tp_players p)) \<and>
           player_id q \<noteq> tp_currentPlayerId p}
      else {})"
  by (auto simp: render_active_phase_def Let_def view_simps)

lemma offers_selecting_phase:
  "set (offers_all (render_selecting_phase p rs s)) =
     (if set_size (tp_selectedHostages s) = hostageCount rs \<and> \<not> hostagesSelected (tp_currentRoom p) rs
      then {AnnounceHostages} else {}) \<union>
     {ToggleHostage (player_id q) | q. q \<in> set (players_in (tp_currentRoom p) (tp_players p)) \<and>
        player_id q \<notin> {tp_currentPlayerId p, redLeaderId rs, blueLeaderId rs}}"
  by (auto simp: render_selecting_phase_def Let_def view_simps)

lemma offers_complete_phase:
  "set (offers_all (render_complete_phase p rs s)) =
     (if isMyTurnReady (tp_currentRoom p) rs \<and> \<not> tp_isReady s then {ConfirmReady} else {})"
  by (auto simp: render_complete_phase_def Let_def view_simps)

lemma offers_timer_panel:
  "timer_panel_offers p s a \<longleftrightarrow> tp_isLeader p \<and> (\<exists>rs. tp_roundState p = Some rs \<and>
     (case rs_status rs of
        ACTIVE \<Rightarrow> a \<in> set (offers_all (render_active_phase p rs s))
      | SELECTING \<Rightarrow> \<not> hostagesSelected (tp_currentRoom p) rs \<and> a \<in> set (offers_all (render_selecting_phase p rs s))
      | COMPLETE \<Rightarrow> a \<in> set (offers_all (render_complete_phase p rs s))
      | _ \<Rightarrow> False))"
  by (cases "tp_roundState p"; cases "rs_status (the (tp_roundState p))")
    (simp_all add: timer_panel_offers_def RoundTimerPanel_def view_simps)

section \<open>The panel keeps the contract of the selection\<close>

definition selectable :: "Timer_Panel_Props \<Rightarrow> string \<Rightarrow> bool" where
  "selectable p i \<longleftrightarrow> (case tp_roundState p of
      None \<Rightarrow> False
    | Some rs \<Rightarrow> list_ex (\<lambda>q. player_id q = i) (players_in (tp_currentRoom p) (tp_players p)) \<and>
        i \<noteq> tp_currentPlayerId p \<and> i \<noteq> redLeaderId rs \<and> i \<noteq> blueLeaderId rs)"

definition round_limit :: "Timer_Panel_Props \<Rightarrow> int" where
  "round_limit p = (case tp_roundState p of None \<Rightarrow> 0 | Some rs \<Rightarrow> hostageCount rs)"

lemmas timer_panel_handlers = timer_panel_step_def timer_panel_handle_def handleToggleHostage_def
  handleAnnounceHostages_def handleReady_def handleTransferLeadership_def

lemma toggle_selection:
  "tp_selectedHostages (handleToggleHostage p rs i s) = tp_selectedHostages s \<or>
   tp_selectedHostages (handleToggleHostage p rs i s) =
     fst (limited_toggle (hostageCount rs) i (tp_selectedHostages s, ''''))"
  by (simp add: handleToggleHostage_def split: prod.split)

lemma other_selection:
  "\<forall>i. a \<noteq> ToggleHostage i \<Longrightarrow> tp_selectedHostages (fst (timer_panel_step p s (a, ok))) = tp_selectedHostages s"
  by (cases a) (simp_all add: timer_panel_handlers split: option.split)

lemma toggle_offered:
  assumes "timer_panel_offers p s (ToggleHostage i)"
  shows "selectable p i"
proof -
  obtain rs where rs: "tp_roundState p = Some rs"
    and o: "case rs_status rs of
        ACTIVE \<Rightarrow> ToggleHostage i \<in> set (offers_all (render_active_phase p rs s))
      | SELECTING \<Rightarrow> \<not> hostagesSelected (tp_currentRoom p) rs \<and>
          ToggleHostage i \<in> set (offers_all (render_selecting_phase p rs s))
      | COMPLETE \<Rightarrow> ToggleHostage i \<in> set (offers_all (render_complete_phase p rs s))
      | _ \<Rightarrow> False"
    using assms by (auto simp: offers_timer_panel)
  from o show ?thesis
    by (cases "rs_status rs")
      (auto simp: offers_active_phase offers_selecting_phase offers_complete_phase selectable_def rs
        list_ex_iff split: if_splits)
qed

lemma step_toggle:
  "timer_panel_step p s (ToggleHostage i, ok) = (case tp_roundState p of None \<Rightarrow> (s, [])
    | Some rs \<Rightarrow> if tp_isLeader p then (handleToggleHostage p rs i s, []) else (s, []))"
  by (simp add: timer_panel_step_def timer_panel_handle_def split: option.split)

lemma announced_by_step:
  "SelectHostages ids \<in> set (snd (timer_panel_step p s (a, ok))) \<Longrightarrow>
    a = AnnounceHostages \<and> ids = tp_selectedHostages s \<and> set_size ids = round_limit p"
  by (cases a) (auto simp: timer_panel_handlers round_limit_def split: option.splits if_splits)

interpretation timer_panel: hostage_panel timer_panel_offers timer_panel_step tp_selectedHostages
  round_limit selectable
proof (unfold_locales, goal_cases)
  case (1 p s e)
  obtain a ok where e: "e = (a, ok)" by (cases e)
  show ?case
  proof (cases "\<exists>i. a = ToggleHostage i")
    case True
    then obtain i where a: "a = ToggleHostage i" by blast
    with 1 e have "selectable p i" by (simp add: toggle_offered)
    then show ?thesis
      using a e toggle_selection [of p "the (tp_roundState p)" i s]
      by (auto simp: step_toggle round_limit_def split: option.splits)
  next
    case False
    then show ?thesis using e by (simp add: other_selection)
  qed
next
  case (2 p s e ids)
  then show ?case using announced_by_step [of ids p s "fst e" "snd e"] by auto
qed

lemma announce_offered:
  "timer_panel_offers p s AnnounceHostages \<longleftrightarrow>
     (case tp_roundState p of None \<Rightarrow> False
      | Some rs \<Rightarrow> tp_isLeader p \<and> rs_status rs = SELECTING \<and> my_hostages (tp_currentRoom p) rs = [] \<and>
          set_size (tp_selectedHostages s) = hostageCount rs)"
proof (cases "tp_roundState p")
  case (Some rs)
  then show ?thesis
    by (cases "rs_status rs")
      (auto simp: offers_timer_panel offers_active_phase offers_selecting_phase offers_complete_phase
        hostagesSelected_def)
qed (simp add: offers_timer_panel)

text \<open>The player was chosen by the leader, at a moment at which the player could be chosen.\<close>

definition chosen_in :: "(Timer_Panel_Props \<times> timer_panel_action \<times> bool) list \<Rightarrow> string \<Rightarrow> bool" where
  "chosen_in es i \<longleftrightarrow> list_ex (\<lambda>(q, a, _). a = ToggleHostage i \<and> selectable q i) es"

lemma session_chosen:
  "distinct (tp_selectedHostages (fst (timer_panel_session init_timer_panel es))) \<and>
   list_all (chosen_in es) (tp_selectedHostages (fst (timer_panel_session init_timer_panel es)))"
proof (induction es rule: rev_induct)
  case (snoc e es)
  obtain p a ok where e: "e = (p, a, ok)" by (cases e)
  let ?s = "fst (timer_panel_session init_timer_panel es)"
  have ih: "distinct (tp_selectedHostages ?s)" "list_all (chosen_in (es @ [e])) (tp_selectedHostages ?s)"
    using snoc.IH by (auto simp: chosen_in_def list_all_iff)
  have last: "fst (timer_panel_session init_timer_panel (es @ [e])) = fst (interact timer_panel_offers timer_panel_step ?s e)"
    by (simp add: session_append Let_def split: prod.split)
  show ?case
  proof (cases "timer_panel_offers p ?s a \<and> (\<exists>i. a = ToggleHostage i)")
    case True
    then obtain i where a: "a = ToggleHostage i" "chosen_in (es @ [e]) i"
      using toggle_offered [of p ?s] by (auto simp: chosen_in_def e)
    have "fst (interact timer_panel_offers timer_panel_step ?s e) = fst (timer_panel_step p ?s (ToggleHostage i, ok))"
      using True a by (simp add: interact_def e)
    moreover have "tp_selectedHostages (fst (timer_panel_step p ?s (ToggleHostage i, ok))) = tp_selectedHostages ?s \<or>
        (\<exists>n. tp_selectedHostages (fst (timer_panel_step p ?s (ToggleHostage i, ok))) = fst (limited_toggle n i (tp_selectedHostages ?s, '''')))"
      using toggle_selection [of p "the (tp_roundState p)" i ?s] by (auto simp: step_toggle split: option.splits)
    ultimately show ?thesis
      using ih a(2) set_limited_toggle [of _ i "tp_selectedHostages ?s" "''''"] distinct_limited_toggle [of "tp_selectedHostages ?s"]
      unfolding last by (auto simp: list_all_iff) blast
  next
    case False
    then have "tp_selectedHostages (fst (interact timer_panel_offers timer_panel_step ?s e)) = tp_selectedHostages ?s"
      by (auto simp: interact_def e other_selection)
    then show ?thesis unfolding last using ih by simp
  qed
qed (simp add: init_timer_panel_def)

text \<open>C27: Whatever a leader does with the panel and however the round, the players and the leaders change
  meanwhile, an announcement reaches the page only from a leader, while hostages are being chosen and
  the own room has announced none, and it names exactly as many distinct players as the round asks
  for, each of whom the leader has chosen at a moment at which the player was in the leader's room
  and led none. It need not be so any more when the player is announced
  (\<open>stale_hostage_announced\<close>).\<close>

theorem announcements_are_legal:
  "list_all (\<lambda>c. case c of
       SelectHostages ids \<Rightarrow>
         tp_isLeader p \<and>
         (case tp_roundState p of None \<Rightarrow> False
          | Some rs \<Rightarrow> rs_status rs = SELECTING \<and> my_hostages (tp_currentRoom p) rs = [] \<and> int (length ids) = hostageCount rs) \<and>
         distinct ids \<and> list_all (\<lambda>i. list_ex (\<lambda>(q, a, _). a = ToggleHostage i \<and> selectable q i) es) ids
     | _ \<Rightarrow> True)
   (snd (interact timer_panel_offers timer_panel_step (fst (timer_panel_session init_timer_panel es)) (p, e)))"
proof -
  let ?s = "fst (timer_panel_session init_timer_panel es)"
  obtain a ok where e: "e = (a, ok)" by (cases e)
  have "\<exists>rs. tp_isLeader p \<and> tp_roundState p = Some rs \<and> rs_status rs = SELECTING \<and> my_hostages (tp_currentRoom p) rs = [] \<and>
      int (length ids) = hostageCount rs \<and> ids = tp_selectedHostages ?s"
    if "SelectHostages ids \<in> set (snd (interact timer_panel_offers timer_panel_step ?s (p, e)))" for ids
    using that announced_by_step [of ids p ?s a ok] announce_offered [of p ?s]
    by (auto simp: interact_def e set_size_def split: if_splits option.splits)
  then show ?thesis
    using session_chosen [of es] unfolding chosen_in_def by (fastforce simp: list_all_iff split: panel_command.splits)
qed

text \<open>While the players who can be chosen stay the same, they are who is announced.\<close>

lemma announced_are_eligible:
  assumes "list_all (\<lambda>(q, _). selectable q = selectable p) es"
    "SelectHostages ids \<in> set (snd (interact timer_panel_offers timer_panel_step (fst (timer_panel_session init_timer_panel es)) (p, e)))"
  shows "list_all (selectable p) ids"
proof -
  have "ids = tp_selectedHostages (fst (timer_panel_session init_timer_panel es))"
    using assms(2) announced_by_step [of ids p _ "fst e" "snd e"] by (simp add: interact_def split: if_splits)
  then show ?thesis
    using session_chosen [of es] assms(1) by (fastforce simp: chosen_in_def list_all_iff list_ex_iff)
qed

text \<open>The announcement is open to a leader exactly while hostages are being selected, the own room
  has announced none yet and the selection has the required size; when the leader confirms it, the
  page receives the selection as it stands, and otherwise nothing happens.\<close>

theorem announcement_open_iff:
  "interact timer_panel_offers timer_panel_step s (p, AnnounceHostages, confirmed) =
     (s, if (case tp_roundState p of None \<Rightarrow> False
            | Some rs \<Rightarrow> tp_isLeader p \<and> rs_status rs = SELECTING \<and> my_hostages (tp_currentRoom p) rs = [] \<and>
                set_size (tp_selectedHostages s) = hostageCount rs) \<and> confirmed
         then [SelectHostages (tp_selectedHostages s)] else [])"
  by (simp add: interact_def announce_offered timer_panel_handlers split: option.split)

section \<open>From one round to the next\<close>

text \<open>
  Neither the selection nor the ready flag is reset when a round ends: the panel stays mounted as
  long as its player leads, and leaders stay in office from round to round. The numbers of hostages
  do not grow from round to round.
\<close>

definition stuck_on :: "string list \<Rightarrow> Timer_Panel_Props \<Rightarrow> Timer_Panel \<Rightarrow> bool" where
  "stuck_on ids p s \<longleftrightarrow> tp_selectedHostages s = ids \<and> round_limit p \<le> set_size ids \<and>
     list_all (\<lambda>i. \<not> selectable p i) ids"

lemma stuck_interact:
  assumes "stuck_on ids p s"
  shows "stuck_on ids p (fst (interact timer_panel_offers timer_panel_step s (p, e)))"
proof (cases "timer_panel_offers p s (fst e)")
  case True
  have "selectable p x \<Longrightarrow> fst (limited_toggle (round_limit p) x (ids, err)) = ids" for x err
    using assms by (auto simp: stuck_on_def limited_toggle_def set_has_def list_all_iff)
  then have "tp_selectedHostages (fst (timer_panel_step p s e)) = ids"
    using timer_panel.selection_step [OF True] assms by (auto simp: stuck_on_def)
  then show ?thesis using True assms by (simp add: interact_def stuck_on_def)
qed (use assms in \<open>simp add: interact_def\<close>)

lemma stuck_commands:
  assumes "stuck_on ids p s" "SelectHostages js \<in> set (snd (interact timer_panel_offers timer_panel_step s (p, e)))"
  shows "js = ids"
  using assms announced_by_step [of js p s "fst e" "snd e"]
  by (auto simp: interact_def stuck_on_def split: if_splits)

lemma stuck_session:
  "stuck_on ids p s \<Longrightarrow>
    tp_selectedHostages (fst (timer_panel_session s (map (Pair p) es))) = ids \<and>
    (\<forall>js. SelectHostages js \<in> set (snd (timer_panel_session s (map (Pair p) es))) \<longrightarrow> js = ids)"
proof (induction es arbitrary: s)
  case (Cons e es)
  obtain s' cs where i: "interact timer_panel_offers timer_panel_step s (p, e) = (s', cs)"
    by (cases "interact timer_panel_offers timer_panel_step s (p, e)")
  have "stuck_on ids p s'" "\<And>js. SelectHostages js \<in> set cs \<Longrightarrow> js = ids"
    using i stuck_interact [OF Cons.prems, of e] stuck_commands [OF Cons.prems, of _ e] by auto
  with Cons.IH [of s'] i show ?case by (auto split: prod.splits)
qed (simp add: stuck_on_def)

text \<open>C30: A leader who announced hostages in one round and still leads in a later round that needs no
  more hostages cannot choose any other hostages: once the announced players have left the room,
  the selection keeps consisting of them, whatever the leader does, and the only announcement
  possible is of the departed players.\<close>

theorem announced_hostages_block_later_rounds:
  assumes "SelectHostages ids \<in> set (snd (timer_panel_step p1 s (AnnounceHostages, True)))"
    and "round_limit p2 \<le> round_limit p1"
    and "list_all (\<lambda>i. find_player i (players_in (tp_currentRoom p2) (tp_players p2)) = None) ids"
  shows "let s1 = fst (timer_panel_step p1 s (AnnounceHostages, True));
             (s2, cs) = timer_panel_session s1 (map (Pair p2) es)
    in tp_selectedHostages s2 = ids \<and>
       list_all (\<lambda>c. case c of SelectHostages js \<Rightarrow> js = ids | _ \<Rightarrow> True) cs"
proof -
  let ?s1 = "fst (timer_panel_step p1 s (AnnounceHostages, True))"
  have sel: "ids = tp_selectedHostages s" "set_size ids = round_limit p1"
    using announced_by_step [OF assms(1)] by auto
  moreover have "tp_selectedHostages ?s1 = tp_selectedHostages s"
    by (rule other_selection) simp
  moreover have "list_all (\<lambda>i. \<not> selectable p2 i) ids"
    using assms(3) by (rule list.pred_mono_strong)
      (auto simp: selectable_def find_player_None list_ex_iff split: option.splits)
  ultimately have "stuck_on ids p2 ?s1"
    using assms(2) by (simp add: stuck_on_def)
  from stuck_session [OF this, of es] show ?thesis
    by (auto simp: Let_def list_all_iff split: prod.split panel_command.split)
qed

definition wt_player :: "string \<Rightarrow> RoomColor \<Rightarrow> Player" where
  "wt_player i c = \<lparr>player_id = i, nickname = i, isAnonymous = False, player_roomCode = ''R'', isOwner = False,
     player_role = None, player_team = None, player_currentRoom = Some c, connectedAt = ''''\<rparr>"

definition wt_round :: "int \<Rightarrow> RoundStatus \<Rightarrow> RoundState" where
  "wt_round n st = \<lparr>rs_gameSessionId = ''g'', rs_roundNumber = n, rs_duration = 180, rs_timeRemaining = 0,
     rs_status = st, redLeaderId = ''r1'', blueLeaderId = ''b1'', hostageCount = 1, redHostages = [],
     blueHostages = [], redLeaderReady = False, blueLeaderReady = False, rs_startedAt = '''', rs_endedAt = None\<rparr>"

definition wt_panel :: "int \<Rightarrow> RoundStatus \<Rightarrow> RoomColor \<Rightarrow> Timer_Panel_Props" where
  "wt_panel n st c = \<lparr>tp_isLeader = True, tp_roundState = Some (wt_round n st),
     tp_players = [wt_player ''r1'' RED_ROOM, wt_player ''r2'' c, wt_player ''b1'' BLUE_ROOM, wt_player ''r3'' RED_ROOM],
     tp_currentPlayerId = ''r1'', tp_currentRoom = RED_ROOM\<rparr>"

lemmas wt_defs = wt_player_def wt_round_def wt_panel_def init_timer_panel_def

text \<open>A player who was chosen and has gone to the other room since is announced all the same.\<close>

lemma stale_hostage_announced:
  "snd (timer_panel_session init_timer_panel
      [(wt_panel 1 SELECTING RED_ROOM, ToggleHostage ''r2'', True), (wt_panel 1 SELECTING BLUE_ROOM, AnnounceHostages, True)]) =
     [SelectHostages [''r2'']] \<and> \<not> selectable (wt_panel 1 SELECTING BLUE_ROOM) ''r2''"
  by code_simp

theorem announced_hostages_block_later_rounds_witness:
  "let s1 = fst (timer_panel_step (wt_panel 1 SELECTING RED_ROOM)
              (init_timer_panel\<lparr>tp_selectedHostages := [''r2'']\<rparr>) (AnnounceHostages, True));
       (s2, cs) = timer_panel_session s1 (map (Pair (wt_panel 2 SELECTING BLUE_ROOM)) [(ToggleHostage ''r3'', True)])
   in tp_selectedHostages s2 = [''r2''] \<and>
      list_all (\<lambda>c. case c of SelectHostages js \<Rightarrow> js = [''r2''] | _ \<Rightarrow> True) cs"
  by (rule announced_hostages_block_later_rounds)
    (simp_all add: timer_panel_handlers round_limit_def wt_defs set_size_def players_in_def find_player_def)

text \<open>The ready flag.\<close>

lemma ready_kept: "tp_isReady s \<Longrightarrow> tp_isReady (fst (timer_panel_step p s (a, ok)))"
  by (cases a) (simp_all add: timer_panel_handlers split: option.split prod.split)

lemma ready_command:
  "LeaderReady \<in> set (snd (timer_panel_step p s (a, ok))) \<Longrightarrow> a = ConfirmReady \<and> tp_isReady (fst (timer_panel_step p s (a, ok)))"
  by (cases a) (auto simp: timer_panel_handlers split: option.splits if_splits)

lemma ready_not_offered:
  assumes "tp_isReady s"
  shows "\<not> timer_panel_offers p s ConfirmReady"
proof (cases "tp_roundState p")
  case (Some rs)
  then show ?thesis using assms
    by (cases "rs_status rs")
      (auto simp: offers_timer_panel offers_active_phase offers_selecting_phase offers_complete_phase)
qed (simp add: offers_timer_panel)

interpretation ready_panel: interactive timer_panel_offers timer_panel_step "\<lambda>_. True" tp_isReady "\<lambda>c. c \<noteq> LeaderReady"
proof (unfold_locales, goal_cases)
  case (1 p s e)
  then show ?case using ready_kept [of s p "fst e" "snd e"] by simp
next
  case (2 p s e)
  have "LeaderReady \<notin> set (snd (timer_panel_step p s e))"
    using 2 ready_command [of p s "fst e" "snd e"] ready_not_offered [of s p] by auto
  then show ?case by (auto simp: list_all_iff)
qed

text \<open>A leader who has declared readiness once through a panel cannot do so again through it,
  in any later round: whatever the properties become and whatever the leader does, the page is never
  asked to report the leader ready a second time.\<close>

theorem ready_only_once:
  assumes "LeaderReady \<in> set (snd (timer_panel_step p s (a, confirmed)))"
  shows "LeaderReady \<notin> set (snd (timer_panel_session (fst (timer_panel_step p s (a, confirmed))) es))"
proof -
  have "tp_isReady (fst (timer_panel_step p s (a, confirmed)))"
    using ready_command [OF assms] by (rule conjunct2)
  from ready_panel.session_good [OF this, of es] show ?thesis
    by (auto simp: list_all_iff)
qed

theorem ready_only_once_witness:
  "LeaderReady \<notin> set (snd (timer_panel_session
     (fst (timer_panel_step (wt_panel 1 COMPLETE RED_ROOM) init_timer_panel (ConfirmReady, True)))
     [(wt_panel 2 COMPLETE RED_ROOM, ConfirmReady, True)]))"
  by (rule ready_only_once) (simp add: timer_panel_handlers wt_defs)

text \<open>Leadership transfers.\<close>

definition mate :: "Timer_Panel_Props \<Rightarrow> string \<Rightarrow> bool" where
  "mate p i \<longleftrightarrow> i \<noteq> tp_currentPlayerId p \<and> i \<in> set (player_ids (players_in (tp_currentRoom p) (tp_players p)))"

lemma choose_offered:
  assumes "timer_panel_offers p s (ChooseNewLeader i)"
  shows "mate p i"
proof -
  obtain rs where rs: "tp_roundState p = Some rs"
    and o: "case rs_status rs of
        ACTIVE \<Rightarrow> ChooseNewLeader i \<in> set (offers_all (render_active_phase p rs s))
      | SELECTING \<Rightarrow> \<not> hostagesSelected (tp_currentRoom p) rs \<and>
          ChooseNewLeader i \<in> set (offers_all (render_selecting_phase p rs s))
      | COMPLETE \<Rightarrow> ChooseNewLeader i \<in> set (offers_all (render_complete_phase p rs s))
      | _ \<Rightarrow> False"
    using assms by (auto simp: offers_timer_panel)
  from o show ?thesis
    by (cases "rs_status rs")
      (auto simp: offers_active_phase offers_selecting_phase offers_complete_phase mate_def split: if_splits)
qed

lemma new_leader_step:
  assumes "timer_panel_offers p s a" "tp_selectedNewLeader s = '''' \<or> mate p (tp_selectedNewLeader s)"
  shows "(let s' = fst (timer_panel_step p s (a, ok)) in
      tp_selectedNewLeader s' = '''' \<or> mate p (tp_selectedNewLeader s')) \<and>
    list_all (\<lambda>c. case c of TransferLeadership i \<Rightarrow> mate p i | _ \<Rightarrow> True) (snd (timer_panel_step p s (a, ok)))"
  using assms choose_offered [of p s]
  by (cases a) (auto simp: timer_panel_handlers split: option.split prod.split)

text \<open>While the room stays as it is, leadership is only ever handed to another player of the
  leader's own room, and only one whom the leader chose.\<close>

theorem leadership_goes_to_a_roommate:
  "list_all (\<lambda>c. case c of TransferLeadership i \<Rightarrow>
       i \<noteq> tp_currentPlayerId p \<and> find_player i (players_in (tp_currentRoom p) (tp_players p)) \<noteq> None
     | _ \<Rightarrow> True)
   (snd (timer_panel_session init_timer_panel (map (Pair p) es)))"
proof -
  have i: "interactive timer_panel_offers timer_panel_step (\<lambda>q. q = p)
      (\<lambda>s. tp_selectedNewLeader s = '''' \<or> mate p (tp_selectedNewLeader s))
      (\<lambda>c. case c of TransferLeadership i \<Rightarrow> mate p i | _ \<Rightarrow> True)"
  proof (unfold_locales, goal_cases)
    case (1 q s e)
    then show ?case using new_leader_step [of q s "fst e" "snd e"] by (simp add: Let_def)
  next
    case (2 q s e)
    then show ?case using new_leader_step [of q s "fst e" "snd e"] by simp
  qed
  have "list_all (\<lambda>c. case c of TransferLeadership i \<Rightarrow> mate p i | _ \<Rightarrow> True)
      (snd (timer_panel_session init_timer_panel (map (Pair p) es)))"
    by (rule interactive.session_good [OF i]) (simp_all add: init_timer_panel_def list_all_iff)
  then show ?thesis
    by (rule list.pred_mono_strong) (auto simp: mate_def find_player_None split: panel_command.splits)
qed

end
