(* ===== verification/Exchange_Animation.thy ===== *)
theory Exchange_Animation
  imports Game_Types
begin

text \<open>
  \<open>components/game/ExchangeAnimation.tsx\<close>: the overlay shown while hostages change rooms. Its three
  timeouts are kept with the time at which they are due, on a clock in milliseconds; the last one
  holds the \<open>onComplete\<close> of the render that started the animation. The effect has no cleanup, so
  timers survive the overlay's unmounting. The effect runs after every render, which gives every
  render a new \<open>onComplete\<close>; when the animation is running it does nothing.
\<close>

section \<open>State and events\<close>

datatype phase = Entering | Showing | Exiting

record 'k Animation =
  phase :: phase
  animationStarted :: bool
  showTimer :: "nat option"
  exitTimer :: "nat option"
  completeTimer :: "(nat \<times> 'k) option"
  clock :: nat
  an_mounted :: bool

definition mount_animation :: "nat \<Rightarrow> 'k Animation" where
  "mount_animation t = \<lparr>phase = Entering, animationStarted = False, showTimer = None, exitTimer = None,
     completeTimer = None, clock = t, an_mounted = True\<rparr>"

record 'k Animation_Props =
  isActive :: bool
  onComplete :: 'k

datatype animation_event = ARender | AUnmount | AWait nat

definition animation_effect :: "'k Animation_Props \<Rightarrow> 'k Animation \<Rightarrow> 'k Animation" where
  "animation_effect p s =
     (if \<not> isActive p then
        s\<lparr>phase := Entering, animationStarted := False, showTimer := None, exitTimer := None, completeTimer := None\<rparr>
      else if animationStarted s then s
      else s\<lparr>animationStarted := True, phase := Entering,
             showTimer := Some (clock s + 500), exitTimer := Some (clock s + 3000),
             completeTimer := Some (clock s + 3500, onComplete p)\<rparr>)"

text \<open>The timeouts that are due when the clock reaches a time, in the order in which they are due.\<close>

definition fire_show :: "'k Animation \<Rightarrow> 'k Animation" where
  "fire_show s = (case showTimer s of
      Some t \<Rightarrow> if t \<le> clock s then s\<lparr>phase := Showing, showTimer := None\<rparr> else s
    | None \<Rightarrow> s)"

definition fire_exit :: "'k Animation \<Rightarrow> 'k Animation" where
  "fire_exit s = (case exitTimer s of
      Some t \<Rightarrow> if t \<le> clock s then s\<lparr>phase := Exiting, exitTimer := None\<rparr> else s
    | None \<Rightarrow> s)"

definition fire_complete :: "'k Animation \<Rightarrow> 'k Animation \<times> 'k list" where
  "fire_complete s = (case completeTimer s of
      Some (t, k) \<Rightarrow> if t \<le> clock s then (s\<lparr>completeTimer := None\<rparr>, [k]) else (s, [])
    | None \<Rightarrow> (s, []))"

definition animation_step :: "'k Animation_Props \<Rightarrow> 'k Animation \<Rightarrow> animation_event \<times> bool \<Rightarrow> 'k Animation \<times> 'k list" where
  "animation_step p s e =
     (case fst e of
        ARender \<Rightarrow> if an_mounted s then (animation_effect p s, []) else (s, [])
      | AUnmount \<Rightarrow> (s\<lparr>an_mounted := False\<rparr>, [])
      | AWait d \<Rightarrow> fire_complete (fire_exit (fire_show (s\<lparr>clock := clock s + d\<rparr>))))"

abbreviation animation_session ::
  "'k Animation \<Rightarrow> ('k Animation_Props \<times> animation_event \<times> bool) list \<Rightarrow> 'k Animation \<times> 'k list" where
  "animation_session \<equiv> session (\<lambda>_ _ _. True) animation_step"

section \<open>The rendered overlay\<close>

definition redToBlue :: "ExchangeRecord list \<Rightarrow> ExchangeRecord list" where
  "redToBlue es = filter (\<lambda>e. fromRoom e = RED_ROOM) es"

definition blueToRed :: "ExchangeRecord list \<Rightarrow> ExchangeRecord list" where
  "blueToRed es = filter (\<lambda>e. fromRoom e = BLUE_ROOM) es"

definition render_direction :: "string \<Rightarrow> string \<Rightarrow> ExchangeRecord list \<Rightarrow> 'a node list" where
  "render_direction heading arrow es = shown (length es > 0)
     [El ''div'' []
       [El ''div'' [] [El ''div'' [] [Txt heading], El ''div'' [] [Txt arrow]],
        El ''div'' [] (map (\<lambda>e. El ''div'' [] [Txt (ex_nickname e)]) es)]]"

definition ExchangeAnimation :: "bool \<Rightarrow> ExchangeRecord list \<Rightarrow> 'k Animation \<Rightarrow> 'a node list" where
  "ExchangeAnimation active records s =
     (if \<not> active then []
      else
        (let opacity = (if phase s = Entering then ''0'' else if phase s = Exiting then ''0'' else ''1'') in
         [El ''div'' [Style ''opacity'' opacity]
           [El ''div'' []
             [El ''h1'' [] [Txt ''Exchanging the hostages''],
              El ''p'' [] [Txt ''Players are moving between the rooms...'']],
            El ''div'' []
             (render_direction ''red room to blue room'' ''right'' (redToBlue records) @
              render_direction ''blue room to red room'' ''left'' (blueToRed records))]]))"

section \<open>Properties\<close>

definition phase_at :: "nat \<Rightarrow> phase" where
  "phase_at t = (if t < 500 then Entering else if t < 3000 then Showing else Exiting)"

definition waited :: "('k Animation_Props \<times> animation_event \<times> bool) list \<Rightarrow> nat" where
  "waited es = sum_list (map (\<lambda>e. case fst (snd e) of AWait d \<Rightarrow> d | _ \<Rightarrow> 0) es)"

text \<open>The state of a running animation, \<open>t\<close> milliseconds after it was started.\<close>

definition running :: "nat \<Rightarrow> nat \<Rightarrow> 'k \<Rightarrow> 'k Animation \<Rightarrow> bool" where
  "running t0 t k s \<longleftrightarrow> clock s = t0 + t \<and> animationStarted s \<and> phase s = phase_at t \<and>
     showTimer s = (if t < 500 then Some (t0 + 500) else None) \<and>
     exitTimer s = (if t < 3000 then Some (t0 + 3000) else None) \<and>
     completeTimer s = (if t < 3500 then Some (t0 + 3500, k) else None)"

lemma running_start:
  "an_mounted s \<Longrightarrow> \<not> animationStarted s \<Longrightarrow> isActive p \<Longrightarrow>
    running (clock s) 0 (onComplete p) (fst (animation_step p s (ARender, b)))"
  by (simp add: animation_step_def animation_effect_def running_def phase_at_def)

lemma running_wait:
  assumes "running t0 t k s"
  shows "running t0 (t + d) k (fst (animation_step p s (AWait d, b))) \<and>
    snd (animation_step p s (AWait d, b)) = (if t < 3500 \<and> 3500 \<le> t + d then [k] else [])"
  using assms
  by (auto simp: running_def animation_step_def fire_show_def fire_exit_def fire_complete_def phase_at_def)

lemma running_session:
  "running t0 t k s \<Longrightarrow> list_all (\<lambda>e. fst (snd e) = ARender \<longrightarrow> isActive (fst e)) es \<Longrightarrow>
    running t0 (t + waited es) k (fst (animation_session s es)) \<and>
    snd (animation_session s es) = (if t < 3500 \<and> 3500 \<le> t + waited es then [k] else [])"
proof (induction es arbitrary: s t)
  case (Cons e es)
  obtain p a b where e: "e = (p, a, b)" by (cases e)
  obtain s' cs where i: "animation_step p s (a, b) = (s', cs)"
    by (cases "animation_step p s (a, b)")
  define d where "d = (case a of AWait d \<Rightarrow> d | _ \<Rightarrow> 0)"
  have s': "running t0 (t + d) k s' \<and> cs = (if t < 3500 \<and> 3500 \<le> t + d then [k] else [])"
  proof (cases a)
    case (AWait d')
    then show ?thesis using running_wait [OF Cons.prems(1), of d' p b] i by (simp add: d_def)
  qed (use Cons.prems i in \<open>auto simp: e d_def animation_step_def animation_effect_def running_def split: if_splits\<close>)
  have w: "waited (e # es) = d + waited es" by (simp add: waited_def e d_def)
  have "running t0 (t + d + waited es) k (fst (animation_session s' es)) \<and>
      snd (animation_session s' es) = (if t + d < 3500 \<and> 3500 \<le> t + d + waited es then [k] else [])"
    using Cons.IH [of "t + d" s'] s' Cons.prems(2) by simp
  with s' i show ?case by (auto simp: e interact_def w [unfolded e] add.assoc split: prod.splits)
qed (simp add: waited_def)

text \<open>An animation that is started runs through its phases by the clock alone: however often the
  page renders again, and even if the overlay is unmounted, it enters for half a second, shows until
  three seconds, and calls the completion handler of the render that started it exactly once, after
  three and a half seconds.\<close>

theorem animation_timeline:
  assumes "isActive p" "list_all (\<lambda>e. fst (snd e) = ARender \<longrightarrow> isActive (fst e)) es"
  shows "let (s, completed) = animation_session (mount_animation t0) ((p, ARender, b) # es)
    in phase s = phase_at (waited es) \<and> completed = (if 3500 \<le> waited es then [onComplete p] else [])"
proof -
  let ?s = "fst (animation_step p (mount_animation t0 :: 'a Animation) (ARender, b))"
  have "running t0 0 (onComplete p) ?s"
    using running_start [of "mount_animation t0" p b] assms(1) by (simp add: mount_animation_def)
  moreover have "interact (\<lambda>_ _ _. True) animation_step (mount_animation t0) (p, ARender, b) = (?s, [])"
    by (simp add: interact_def animation_step_def mount_animation_def)
  ultimately show ?thesis
    using running_session [of t0 0 "onComplete p" ?s es] assms(2) by (auto simp: running_def split: prod.split)
qed

theorem animation_timeline_witness:
  "let (s, completed) = animation_session (mount_animation 7)
         ((\<lparr>isActive = True, onComplete = ''a''\<rparr>, ARender, True) #
          [(\<lparr>isActive = True, onComplete = ''b''\<rparr>, AWait 3400, True),
           (\<lparr>isActive = True, onComplete = ''b''\<rparr>, ARender, True),
           (\<lparr>isActive = True, onComplete = ''b''\<rparr>, AWait 200, True)])
   in phase s = phase_at (waited [(\<lparr>isActive = True, onComplete = ''b''\<rparr>, AWait 3400, True),
           (\<lparr>isActive = True, onComplete = ''b''\<rparr>, ARender, True),
           (\<lparr>isActive = True, onComplete = ''b''\<rparr>, AWait 200, True)]) \<and>
      completed = (if 3500 \<le> waited [(\<lparr>isActive = True, onComplete = ''b''\<rparr>, AWait 3400, True),
           (\<lparr>isActive = True, onComplete = ''b''\<rparr>, ARender, True),
           (\<lparr>isActive = True, onComplete = ''b''\<rparr>, AWait 200, True)]
        then [onComplete \<lparr>isActive = True, onComplete = ''a''\<rparr>] else [])"
  by (rule animation_timeline) simp_all

text \<open>An overlay that is rendered inactive has no timer left.\<close>

definition idle :: "'k Animation \<Rightarrow> bool" where
  "idle s \<longleftrightarrow> showTimer s = None \<and> exitTimer s = None \<and> completeTimer s = None \<and> phase s = Entering"

interpretation idle_animation: interactive "\<lambda>_ _ _. True" animation_step "\<lambda>p. \<not> isActive p" idle "\<lambda>_. False"
  by unfold_locales
    (auto simp: animation_step_def animation_effect_def fire_show_def fire_exit_def fire_complete_def idle_def
      split: animation_event.splits)

text \<open>Deactivating a mounted overlay cancels the animation: nothing is completed afterwards until
  the overlay is activated again, whatever had been running before.\<close>

theorem deactivation_cancels:
  assumes "\<not> isActive p" "an_mounted s" "list_all (\<lambda>e. \<not> isActive (fst e)) es"
  shows "snd (animation_session s ((p, ARender, b) # es)) = []"
proof -
  have i: "interact (\<lambda>_ _ _. True) animation_step s (p, ARender, b) = (animation_effect p s, [])"
    using assms(2) by (simp add: interact_def animation_step_def)
  have "idle (animation_effect p s)"
    using assms(1) by (simp add: animation_effect_def idle_def)
  from idle_animation.session_good [OF this, of es] assms(3)
  have "list_all (\<lambda>_. False) (snd (animation_session (animation_effect p s) es))"
    by (simp add: comp_def)
  then have "snd (animation_session (animation_effect p s) es) = []"
    by (cases "snd (animation_session (animation_effect p s) es)") simp_all
  with i show ?thesis by (simp split: prod.split)
qed

theorem deactivation_cancels_witness:
  "snd (animation_session (fst (animation_session (mount_animation 0)
      [(\<lparr>isActive = True, onComplete = ()\<rparr>, ARender, True), (\<lparr>isActive = True, onComplete = ()\<rparr>, AWait 600, True)]))
    ((\<lparr>isActive = False, onComplete = ()\<rparr>, ARender, True) # [(\<lparr>isActive = False, onComplete = ()\<rparr>, AWait 5000, True)])) = []"
  by (rule deactivation_cancels)
    (simp_all add: interact_def animation_step_def animation_effect_def mount_animation_def fire_show_def
      fire_exit_def fire_complete_def Let_def split: prod.split)

end
