(* ===== verification/Room_View.thy ===== *)
theory Room_View
  imports Room_Handlers Reveal Lobby_Views Role_Lists Vote_Page Round_Timer_Panel Exchange_Animation
begin

text \<open>
  What \<open>pages/RoomPage.tsx\<close> renders, line 927 to its end: the choice of the screen, and the tree of each
  screen with the components embedded in it. The state of a component that is on the screen is
  given by \<open>Children\<close>; the actions of its tree become actions of the page's tree.
\<close>

section \<open>The components of the page\<close>

record Children =
  ch_panel :: "Timer_Panel option"
  ch_dialog :: "Modal option"
  ch_vote :: "Vote_Page option"
  ch_history :: "History_View option"
  ch_editor :: "Nickname_Editor option"
  ch_sidebar :: "Sidebar option"
  ch_animation :: "string option Animation option"

datatype view_action =
    Page page_event
  | InPanel timer_panel_action
  | InDialog modal_action
  | InVote vote_action
  | InHistory history_action
  | InEditor editor_action

section \<open>The screens\<close>

datatype screen =
    SpinnerScreen
  | ErrorScreen
  | NoRoomScreen
  | EndScreen Room
  | BlankScreen
  | RevealView Role TeamColor
  | VoteView VoteSession Player RoomColor
  | WaitingView
  | GameView Room Player Role TeamColor RoomColor
  | LobbyView Room Player

definition screen_of :: "Room_Page \<Rightarrow> screen" where
  "screen_of s =
     (if loading s then SpinnerScreen
      else if error s \<noteq> '''' then ErrorScreen
      else case (room s, currentPlayer s) of
        (Some r, Some p) \<Rightarrow>
          if status r = REVEALING then EndScreen r
          else if rp_view s = ''reveal'' then
            (case (my_role s, my_team s) of (Some ro, Some t) \<Rightarrow> RevealView ro t | _ \<Rightarrow> BlankScreen)
          else if rp_view s = ''vote'' then
            (case (activeVoteSession s, currentRoom s) of (Some v, Some c) \<Rightarrow> VoteView v p c | _ \<Rightarrow> BlankScreen)
          else if rp_view s = ''game'' then
            (case (my_role s, my_team s, currentRoom s) of
               (Some ro, Some t, Some c) \<Rightarrow> GameView r p ro t c
             | _ \<Rightarrow> WaitingView)
          else LobbyView r p
      | _ \<Rightarrow> NoRoomScreen)"

section \<open>Properties of the components\<close>

definition playersInMyRoom :: "RoomColor \<Rightarrow> Room_Page \<Rightarrow> Player list" where
  "playersInMyRoom c s = (if c = RED_ROOM then redRoomPlayers s else blueRoomPlayers s)"

definition myLeader :: "RoomColor \<Rightarrow> Room_Page \<Rightarrow> LeaderInfo option" where
  "myLeader c s = (if c = RED_ROOM then redLeader s else blueLeader s)"

definition isLeader :: "RoomColor \<Rightarrow> Player \<Rightarrow> Room_Page \<Rightarrow> bool" where
  "isLeader c p s \<longleftrightarrow> Some (player_id p) = map_option leader_id (myLeader c s)"

definition vote_page_props :: "VoteSession \<Rightarrow> Player \<Rightarrow> RoomColor \<Rightarrow> Room_Page \<Rightarrow> Vote_Props" where
  "vote_page_props v p c s =
     \<lparr>voteSession = v, vp_voteResult = voteResult s, vp_hasVoted = hasVoted s,
      vp_players = playersInMyRoom c s, vp_currentPlayer = p\<rparr>"

definition dialog_props :: "Player \<Rightarrow> RoomColor \<Rightarrow> Room_Page \<Rightarrow> Modal_Props" where
  "dialog_props p c s =
     \<lparr>lm_isOpen = showTransferModal s, currentLeader = p, lm_roomPlayers = playersInMyRoom c s,
      canTransfer = canTransferLeadership s,
      blockReason = (if \<not> canTransferLeadership s
        then Some ''Leadership cannot be transferred during the choice of hostages or a vote'' else None)\<rparr>"

definition panel_props :: "Room \<Rightarrow> Player \<Rightarrow> RoomColor \<Rightarrow> Room_Page \<Rightarrow> Timer_Panel_Props" where
  "panel_props r p c s =
     \<lparr>tp_isLeader = isLeader c p s, tp_roundState = Option.bind (gameSession r) roundState,
      tp_players = players r, tp_currentPlayerId = player_id p, tp_currentRoom = c\<rparr>"

definition sidebar_props :: "Room \<Rightarrow> Room_Page \<Rightarrow> Sidebar_Props" where
  "sidebar_props r s =
     \<lparr>sb_roleConfigId = roleConfigId r, sb_selectedRoles = selectedRoles r, sb_isOpen = isSidebarOpen s\<rparr>"

definition animation_props :: "Player \<Rightarrow> Room_Page \<Rightarrow> string option Animation_Props" where
  "animation_props p s = \<lparr>isActive = showExchangeAnimation s, onComplete = Some (player_id p)\<rparr>"

text \<open>Which components a screen contains.\<close>

definition panel_shown :: "RoomColor \<Rightarrow> Player \<Rightarrow> Room_Page \<Rightarrow> bool" where
  "panel_shown c p s \<longleftrightarrow> isLeader c p s \<and> currentRound s > 0"

definition history_shown :: "Room_Page \<Rightarrow> bool" where
  "history_shown s \<longleftrightarrow> length (historyEvents s) > 0"

section \<open>The reveal screen of the page\<close>

definition shown_team :: "RevealMode \<Rightarrow> Role \<Rightarrow> TeamColor \<Rightarrow> TeamColor" where
  "shown_team mode r t =
     (if mode = ColorMode \<and> isSpy r then (if t = RED then BLUE else if t = BLUE then RED else t) else t)"

definition render_reveal :: "RevealMode \<Rightarrow> Role \<Rightarrow> TeamColor \<Rightarrow> view_action node" where
  "render_reveal mode r t =
     reveal_screen (Page BackToGame) (Page ToggleRevealMode) (mode = FullMode)
       (team_hex (shown_team mode r t)) (shown_team mode r t) r t"

section \<open>The game\<close>

definition render_game_heading :: "Room_Page \<Rightarrow> 'a node" where
  "render_game_heading s =
     El ''div'' []
      [El ''h1'' [] [Txt ''The game is running''],
       El ''p'' []
        ([Txt ''Room code: '', El ''strong'' [] [Txt (rp_roomCode s)]] @
         shown (currentRound s > 0) [Txt '' Round '', Num (currentRound s), Txt ''/3''])]"

definition vote_can_start :: "RoomColor \<Rightarrow> Player \<Rightarrow> Room_Page \<Rightarrow> bool" where
  "vote_can_start c p s \<longleftrightarrow> \<not> isLeader c p s \<and> currentRound s > 0 \<and> length (playersInMyRoom c s) \<ge> 3 \<and>
     activeVoteSession s = None"

definition render_roommates :: "Player \<Rightarrow> RoomColor \<Rightarrow> Room_Page \<Rightarrow> view_action node" where
  "render_roommates p c s =
     El ''div'' []
      ([El ''h2'' [] [Txt ''Players in the same room''],
        RoomPlayerList (playersInMyRoom c s) c (Some (player_id p)) (map_option leader_id (myLeader c s))] @
       shown (vote_can_start c p s)
        [El ''div'' [] [El ''button'' [OnClick (Page StartVote)] [Txt ''Start a vote on replacing the leader'']]])"

definition render_reset :: "Player \<Rightarrow> Room_Page \<Rightarrow> view_action node list" where
  "render_reset p s = shown (isOwner p)
     [El ''div'' []
       [El ''button''
         [OnClick (Page ResetGame), Disabled (isResetting s),
          Style ''backgroundColor'' (if isResetting s then ''#6c757d'' else ''#dc2626''),
          Style ''cursor'' (if isResetting s then ''not-allowed'' else ''pointer''),
          Style ''opacity'' (if isResetting s then ''0.6'' else ''1'')]
         [Txt (if isResetting s then ''Resetting...'' else ''Back to the lobby'')],
        El ''p'' [] [Txt ''Ends the game and sends all players back to the lobby'']]]"

definition render_overlays :: "Player \<Rightarrow> RoomColor \<Rightarrow> Children \<Rightarrow> Room_Page \<Rightarrow> view_action node list" where
  "render_overlays p c ch s =
     shown (currentRound s > 0) [RoundTimer (currentRound s) (timeRemaining s)] @
     (case ch_animation ch of None \<Rightarrow> []
      | Some a \<Rightarrow> ExchangeAnimation (showExchangeAnimation s) (exchangeRecords s) a) @
     (case ch_dialog ch of None \<Rightarrow> []
      | Some d \<Rightarrow> map (map_node InDialog) (LeaderTransferModal (dialog_props p c s) d))"

definition render_panel :: "Room \<Rightarrow> Player \<Rightarrow> RoomColor \<Rightarrow> Children \<Rightarrow> Room_Page \<Rightarrow> view_action node list" where
  "render_panel r p c ch s = shown (panel_shown c p s)
     [El ''div'' [] (case ch_panel ch of None \<Rightarrow> []
       | Some t \<Rightarrow> map (map_node InPanel) (RoundTimerPanel (panel_props r p c s) t))]"

definition render_history :: "(string \<Rightarrow> string option) \<Rightarrow> Children \<Rightarrow> Room_Page \<Rightarrow> view_action node list" where
  "render_history locale_time ch s = shown (history_shown s)
     [El ''div'' [] (case ch_history ch of None \<Rightarrow> []
       | Some h \<Rightarrow> map (map_node InHistory) (RoundHistory locale_time (historyEvents s) h))]"

definition render_game ::
  "(string \<Rightarrow> string option) \<Rightarrow> Room \<Rightarrow> Player \<Rightarrow> Role \<Rightarrow> TeamColor \<Rightarrow> RoomColor \<Rightarrow> Children \<Rightarrow> Room_Page \<Rightarrow>
     view_action node" where
  "render_game locale_time r p ro t c ch s =
     Layout
      (render_overlays p c ch s @
       [El ''div'' []
         ([render_game_heading s,
           El ''div'' [Attr ''class'' ''game-container'']
            [El ''div'' []
              [RoleCard ro t c,
               El ''button'' [OnClick (Page ShowReveal), Style ''backgroundColor'' (team_hex t)]
                [Txt ''Screen for sharing'']],
             render_roommates p c s]] @
          render_panel r p c ch s @
          render_history locale_time ch s @
          [El ''div'' [] [El ''p'' [] [Txt ''Reveal roles, share information and share cards offline.'']]] @
          render_reset p s)])"

section \<open>The lobby and the other screens\<close>

definition render_start :: "Room \<Rightarrow> Player \<Rightarrow> Room_Page \<Rightarrow> view_action node list" where
  "render_start r p s =
     (let few = (length (players r) < 6) in
      shown (isOwner p)
       [El ''button''
         [OnClick (Page StartGame), Disabled (isStarting s \<or> few),
          Style ''backgroundColor'' (if few then ''#6c757d'' else ''#28a745''),
          Style ''cursor'' (if few \<or> isStarting s then ''not-allowed'' else ''pointer''),
          Style ''opacity'' (if few \<or> isStarting s then ''0.6'' else ''1''),
          Attr ''title'' (if few then ''At least 6 players are needed'' else ''Start the game'')]
         (if isStarting s then [Txt ''Starting...'']
          else [Txt ''Start the game '', Num (int (length (players r))), Txt ''/'', Num (maxPlayers r)])])"

definition render_lobby :: "bool \<Rightarrow> Room \<Rightarrow> Player \<Rightarrow> Children \<Rightarrow> Room_Page \<Rightarrow> view_action node" where
  "render_lobby isConnected r p ch s =
     Layout
      ((case ch_sidebar ch of None \<Rightarrow> []
        | Some b \<Rightarrow> map (map_node (\<lambda>_. Page ToggleSidebar)) (RoleListSidebar (sidebar_props r s) b)) @
       [El ''div'' []
         [El ''div'' []
           [El ''h2'' [] [Txt ''Lobby''],
            El ''div'' [] [Txt ''Room code: '', Txt (rp_roomCode s)],
            El ''div'' [] [Txt ''WebSocket: '', Txt (if isConnected then ''connected'' else ''disconnected'')]],
          El ''div'' [] (case ch_editor ch of None \<Rightarrow> []
            | Some e \<Rightarrow> [map_node InEditor (NicknameEditor (nickname p) e)]),
          El ''div'' [] [PlayerList (players r) (Some (player_id p))],
          El ''div'' [] ([El ''button'' [OnClick (Page Home)] [Txt ''Leave'']] @ render_start r p s)]])"

definition render_waiting :: "bool \<Rightarrow> view_action node" where
  "render_waiting isConnected =
     Layout [El ''div'' []
       [El ''h2'' [] [Txt ''The game is loading...''], El ''p'' [] [Txt ''Waiting for the roles to be dealt.''],
        El ''div'' [] [El ''p'' [Style ''color'' (if isConnected then ''#10b981'' else ''#ef4444'')]
          [Txt (if isConnected then ''connected'' else ''disconnected'')]]]]"

definition render_error :: "string \<Rightarrow> view_action node" where
  "render_error msg =
     Layout [El ''div'' []
       [El ''div'' [] [El ''h3'' [] [Txt ''Error''], El ''p'' [] [Txt msg]],
        El ''button'' [OnClick (Page Home)] [Txt ''Back to the home page'']]]"

definition RoomPage :: "(string \<Rightarrow> string option) \<Rightarrow> bool \<Rightarrow> Children \<Rightarrow> Room_Page \<Rightarrow> view_action node list" where
  "RoomPage locale_time isConnected ch s =
     (case screen_of s of
        SpinnerScreen \<Rightarrow> [Layout [LoadingSpinner (Some LargeSpinner) (Some ''Loading the room...'')]]
      | ErrorScreen \<Rightarrow> [render_error (error s)]
      | NoRoomScreen \<Rightarrow> [Layout [El ''div'' [] [El ''p'' [] [Txt ''The room cannot be loaded'']]]]
      | EndScreen r \<Rightarrow> [Layout [RevealPage (players r) (code r)]]
      | BlankScreen \<Rightarrow> []
      | RevealView ro t \<Rightarrow> [render_reveal (revealMode s) ro t]
      | VoteView v p c \<Rightarrow> (case ch_vote ch of None \<Rightarrow> []
          | Some w \<Rightarrow> [map_node InVote (VotePage (vote_page_props v p c s) w)])
      | WaitingView \<Rightarrow> [render_waiting isConnected]
      | GameView r p ro t c \<Rightarrow> [render_game locale_time r p ro t c ch s]
      | LobbyView r p \<Rightarrow> [render_lobby isConnected r p ch s])"

section \<open>What the screens offer\<close>

lemma offers_role_card [view_simps]: "offers (RoleCard ro t c) = []"
  by (simp add: RoleCard_def Let_def view_simps)

lemma offers_animation [view_simps]: "offers_all (ExchangeAnimation b es a) = []"
  by (simp add: ExchangeAnimation_def render_direction_def Let_def view_simps)

lemma offers_all_Nil_iff: "(\<And>x. x \<in> set ns \<Longrightarrow> offers x = []) \<Longrightarrow> offers_all ns = []"
  by (simp add: offers_all_def)

lemma offers_end_page [view_simps]: "offers (RevealPage ps rc) = []"
proof -
  have p: "offers (render_revealed_player q) = []" for q
    by (simp add: render_revealed_player_def Let_def view_simps split: option.split)
  have r: "offers_all (renderRoom qs c) = []" for qs c
    by (simp add: renderRoom_def view_simps p)
  have w: "offers_all (render_winner ps) = []"
    by (simp add: render_winner_def view_simps split: prod.split option.split)
  show ?thesis by (simp add: RevealPage_def view_simps r w)
qed

lemma offers_reveal_screen [view_simps]: "offers (reveal_screen b m full bg d r t) = [b, m]"
  by (simp add: reveal_screen_def reveal_card_def view_simps split: option.split)

lemma offers_sidebar: "set (offers_all (RoleListSidebar p b)) = {SidebarToggle}"
proof -
  have r: "offers (render_sidebar_role sel x :: sidebar_action node) = []" for sel x
    by (simp add: render_sidebar_role_def Let_def view_simps)
  have "offers (render_groups sel cf :: sidebar_action node) = []" for sel cf
    by (simp add: render_groups_def view_simps r case_prod_unfold)
  moreover have "offers (render_config_header cf :: sidebar_action node) = []" for cf
    by (simp add: render_config_header_def Let_def view_simps)
  ultimately show ?thesis
    by (auto simp: RoleListSidebar_def view_simps split: option.split)
qed

lemma offers_map_node_if [view_simps]: "offers (map_node f n) = map f (offers n)"
  by (rule offers_map_node)

text \<open>The page's own buttons on each screen, apart from those of its components.\<close>

definition page_buttons :: "screen \<Rightarrow> Room_Page \<Rightarrow> page_event set" where
  "page_buttons scr s =
     (case scr of
        ErrorScreen \<Rightarrow> {Home}
      | RevealView _ _ \<Rightarrow> {BackToGame, ToggleRevealMode}
      | GameView r p ro t c \<Rightarrow>
          {ShowReveal} \<union>
          (if Some (player_id p) \<noteq> map_option leader_id (if c = RED_ROOM then redLeader s else blueLeader s) \<and>
             currentRound s > 0 \<and> length (playersInMyRoom c s) \<ge> 3 \<and> activeVoteSession s = None
           then {StartVote} else {}) \<union>
          (if isOwner p \<and> \<not> isResetting s then {ResetGame} else {})
      | LobbyView r p \<Rightarrow>
          {Home, ToggleSidebar} \<union>
          (if isOwner p \<and> length (players r) \<ge> 6 \<and> \<not> isStarting s then {StartGame} else {})
      | _ \<Rightarrow> {})"

lemma offers_game:
  "{e. Page e \<in> set (offers (render_game lt r p ro t c ch s))} = page_buttons (GameView r p ro t c) s"
proof -
  have "Page e \<notin> set (offers_all (render_overlays p c ch s))" for e
    by (auto simp: render_overlays_def view_simps split: option.split)
  moreover have "Page e \<notin> set (offers_all (render_panel r p c ch s))" for e
    by (auto simp: render_panel_def view_simps split: option.split)
  moreover have "Page e \<notin> set (offers_all (render_history lt ch s))" for e
    by (auto simp: render_history_def view_simps split: option.split)
  ultimately show ?thesis
    by (auto simp: render_game_def render_game_heading_def render_roommates_def render_reset_def page_buttons_def
        vote_can_start_def isLeader_def myLeader_def view_simps)
qed

lemma offers_lobby:
  assumes "ch_sidebar ch \<noteq> None"
  shows "{e. Page e \<in> set (offers (render_lobby w r p ch s))} = page_buttons (LobbyView r p) s"
proof -
  obtain b where b: "ch_sidebar ch = Some b" using assms by auto
  define side where "side = map (map_node (\<lambda>_. Page ToggleSidebar)) (RoleListSidebar (sidebar_props r s) b)"
  have "set (offers_all side) = {Page ToggleSidebar}"
    unfolding side_def offers_all_map_node set_map offers_sidebar by simp
  then show ?thesis
    by (auto simp: render_lobby_def render_start_def page_buttons_def Let_def b side_def [symmetric] view_simps
        split: option.split)
qed

lemma offers_page:
  assumes "\<And>r p. screen_of s = LobbyView r p \<Longrightarrow> ch_sidebar ch \<noteq> None"
  shows "{e. Page e \<in> set (offers_all (RoomPage lt w ch s))} = page_buttons (screen_of s) s"
proof -
  have v: "Page e \<notin> set (offers_all (case ch_vote ch of None \<Rightarrow> []
      | Some x \<Rightarrow> [map_node InVote (VotePage (vote_page_props v p c s) x)]))" for e v p c
    by (auto simp: view_simps split: option.split)
  show ?thesis
    using offers_lobby [of ch] offers_game assms
    by (cases "screen_of s")
      (auto simp: RoomPage_def view_simps page_buttons_def render_error_def render_waiting_def render_reveal_def v)
qed

text \<open>On every screen the page's own buttons are exactly these: the game is started from the lobby by
  the owner of a room with at least six players and reset by the owner, each unless it is already
  under way; a vote on the leader is started by a player who is not the leader, during a round, with
  at least three players in the room and no vote open; and the role is shown and hidden.\<close>

theorem buttons_of_the_page:
  "if ch_sidebar ch \<noteq> None then
     {e. Page e \<in> set (offers_all (RoomPage lt w ch s))} = page_buttons (screen_of s) s
   else True"
  by (simp add: offers_page)

section \<open>What a screen shown to another player gives away\<close>

lemma team_hex_inject: "team_hex a = team_hex b \<longleftrightarrow> a = b"
  by (cases a; cases b) (simp_all add: team_hex_def)

text \<open>The colour screen of the room page tells an onlooker the displayed team and nothing else: two
  players' screens are the same tree exactly when their displayed teams are the same, whatever their
  roles are, and a spy of one side displays the other.\<close>

theorem colour_screen_shows_only_the_colour:
  "(render_reveal ColorMode r t = render_reveal ColorMode r' t') =
     ((if isSpy r then opposite_team t else t) = (if isSpy r' then opposite_team t' else t'))"
  by (simp add: render_reveal_def reveal_screen_colour team_hex_inject shown_team_def opposite_team_def)

text \<open>The actions of the separate screen, as events of the page.\<close>

definition as_page :: "screen_action \<Rightarrow> view_action" where
  "as_page a = (case a of GoBack \<Rightarrow> Page BackToGame | ToggleMode \<Rightarrow> Page ToggleRevealMode)"

lemma map_reveal_screen:
  "map_node f (reveal_screen b m full bg d r t) = reveal_screen (f b) (f m) full bg d r t"
  by (simp add: reveal_screen_def reveal_card_def shown_def split: option.split)

text \<open>The separate screen of \<open>pages/RevealPage.tsx\<close> shows the same as the reveal view of the room
  page, except to spies of the red and grey teams in colour mode, whom its colours give away.\<close>

theorem reveal_screens_agree:
  "(map (map_node as_page) (RevealScreen \<lparr>scr_role = Some r, scr_team = Some t, full_mode = (mode = FullMode)\<rparr>) =
      [render_reveal mode r t]) =
   (\<not> (mode = ColorMode \<and> isSpy r \<and> t \<noteq> BLUE))"
  by (cases mode; cases t)
    (simp_all add: RevealScreen_def map_reveal_screen render_reveal_def as_page_def screen_hex_def screen_team_def
      shown_team_def team_hex_def reveal_screen_colour)

end
