(* ===== verification/Room_Frames.thy ===== *)
theory Room_Frames
  imports Room_Handlers
begin

text \<open>
  What the parts of \<open>RoomPage\<close>'s handlers leave alone: the rules with which an invariant that
  concerns a few fields is carried through all the steps of the page.
\<close>

named_theorems page_frame \<open>fields that a part of a handler does not change\<close>

lemma frame_add_task [page_frame]:
  "rp_roomCode (add_task t s) = rp_roomCode s" "room (add_task t s) = room s"
  "currentPlayer (add_task t s) = currentPlayer s" "isResetting (add_task t s) = isResetting s"
  "showTransferModal (add_task t s) = showTransferModal s"
  "shownExchangeRoundsRef (add_task t s) = shownExchangeRoundsRef s"
  "showExchangeAnimation (add_task t s) = showExchangeAnimation s"
  "historyEvents (add_task t s) = historyEvents s" "storage (add_task t s) = storage s"
  "isJoiningRef (add_task t s) = isJoiningRef s" "hasJoinedRef (add_task t s) = hasJoinedRef s"
  "roleAssignedProcessedRef (add_task t s) = roleAssignedProcessedRef s"
  "lastProcessedMessageRef (add_task t s) = lastProcessedMessageRef s" "my_role (add_task t s) = my_role s"
  "my_team (add_task t s) = my_team s"
  by (simp_all add: add_task_def page_frame Let_def split: option.split)

lemma frame_set_view [page_frame]:
  "rp_roomCode (set_view v s) = rp_roomCode s" "room (set_view v s) = room s"
  "currentPlayer (set_view v s) = currentPlayer s" "isResetting (set_view v s) = isResetting s"
  "showTransferModal (set_view v s) = showTransferModal s"
  "shownExchangeRoundsRef (set_view v s) = shownExchangeRoundsRef s"
  "showExchangeAnimation (set_view v s) = showExchangeAnimation s"
  "historyEvents (set_view v s) = historyEvents s" "storage (set_view v s) = storage s"
  "tasks (set_view v s) = tasks s" "isJoiningRef (set_view v s) = isJoiningRef s"
  "hasJoinedRef (set_view v s) = hasJoinedRef s"
  "roleAssignedProcessedRef (set_view v s) = roleAssignedProcessedRef s"
  "lastProcessedMessageRef (set_view v s) = lastProcessedMessageRef s" "my_role (set_view v s) = my_role s"
  "my_team (set_view v s) = my_team s"
  by (simp_all add: set_view_def page_frame Let_def split: option.split)

lemma frame_set_room_players [page_frame]:
  "rp_roomCode (set_room_players r s) = rp_roomCode s" "room (set_room_players r s) = room s"
  "currentPlayer (set_room_players r s) = currentPlayer s"
  "isResetting (set_room_players r s) = isResetting s"
  "showTransferModal (set_room_players r s) = showTransferModal s"
  "shownExchangeRoundsRef (set_room_players r s) = shownExchangeRoundsRef s"
  "showExchangeAnimation (set_room_players r s) = showExchangeAnimation s"
  "historyEvents (set_room_players r s) = historyEvents s" "storage (set_room_players r s) = storage s"
  "tasks (set_room_players r s) = tasks s" "isJoiningRef (set_room_players r s) = isJoiningRef s"
  "hasJoinedRef (set_room_players r s) = hasJoinedRef s"
  "roleAssignedProcessedRef (set_room_players r s) = roleAssignedProcessedRef s"
  "lastProcessedMessageRef (set_room_players r s) = lastProcessedMessageRef s"
  "my_role (set_room_players r s) = my_role s" "my_team (set_room_players r s) = my_team s"
  by (simp_all add: set_room_players_def page_frame Let_def split: option.split)

lemma frame_init_failed [page_frame]:
  "rp_roomCode (init_failed e s) = rp_roomCode s" "room (init_failed e s) = room s"
  "currentPlayer (init_failed e s) = currentPlayer s" "isResetting (init_failed e s) = isResetting s"
  "showTransferModal (init_failed e s) = showTransferModal s"
  "shownExchangeRoundsRef (init_failed e s) = shownExchangeRoundsRef s"
  "showExchangeAnimation (init_failed e s) = showExchangeAnimation s"
  "historyEvents (init_failed e s) = historyEvents s" "storage (init_failed e s) = storage s"
  "tasks (init_failed e s) = tasks s" "hasJoinedRef (init_failed e s) = hasJoinedRef s"
  "roleAssignedProcessedRef (init_failed e s) = roleAssignedProcessedRef s"
  "lastProcessedMessageRef (init_failed e s) = lastProcessedMessageRef s"
  "my_role (init_failed e s) = my_role s" "my_team (init_failed e s) = my_team s"
  by (simp_all add: init_failed_def page_frame Let_def split: option.split)

lemma frame_init_done [page_frame]:
  "rp_roomCode (init_done s) = rp_roomCode s" "room (init_done s) = room s"
  "currentPlayer (init_done s) = currentPlayer s" "isResetting (init_done s) = isResetting s"
  "showTransferModal (init_done s) = showTransferModal s"
  "shownExchangeRoundsRef (init_done s) = shownExchangeRoundsRef s"
  "showExchangeAnimation (init_done s) = showExchangeAnimation s"
  "historyEvents (init_done s) = historyEvents s" "storage (init_done s) = storage s"
  "tasks (init_done s) = tasks s" "hasJoinedRef (init_done s) = hasJoinedRef s"
  "roleAssignedProcessedRef (init_done s) = roleAssignedProcessedRef s"
  "lastProcessedMessageRef (init_done s) = lastProcessedMessageRef s" "my_role (init_done s) = my_role s"
  "my_team (init_done s) = my_team s"
  by (simp_all add: init_done_def page_frame Let_def split: option.split)

lemma frame_init_joined [page_frame]:
  "rp_roomCode (init_joined p s) = rp_roomCode s" "room (init_joined p s) = room s"
  "isResetting (init_joined p s) = isResetting s" "showTransferModal (init_joined p s) = showTransferModal s"
  "shownExchangeRoundsRef (init_joined p s) = shownExchangeRoundsRef s"
  "showExchangeAnimation (init_joined p s) = showExchangeAnimation s"
  "historyEvents (init_joined p s) = historyEvents s" "storage (init_joined p s) = storage s"
  "isJoiningRef (init_joined p s) = isJoiningRef s"
  "roleAssignedProcessedRef (init_joined p s) = roleAssignedProcessedRef s"
  "lastProcessedMessageRef (init_joined p s) = lastProcessedMessageRef s"
  "my_role (init_joined p s) = my_role s" "my_team (init_joined p s) = my_team s"
  by (simp_all add: init_joined_def page_frame Let_def split: option.split)

lemma frame_init_join [page_frame]:
  "rp_roomCode (init_join p s) = rp_roomCode s" "room (init_join p s) = room s"
  "isResetting (init_join p s) = isResetting s" "showTransferModal (init_join p s) = showTransferModal s"
  "shownExchangeRoundsRef (init_join p s) = shownExchangeRoundsRef s"
  "showExchangeAnimation (init_join p s) = showExchangeAnimation s"
  "historyEvents (init_join p s) = historyEvents s" "isJoiningRef (init_join p s) = isJoiningRef s"
  "roleAssignedProcessedRef (init_join p s) = roleAssignedProcessedRef s"
  "lastProcessedMessageRef (init_join p s) = lastProcessedMessageRef s" "my_role (init_join p s) = my_role s"
  "my_team (init_join p s) = my_team s"
  by (simp_all add: init_join_def page_frame Let_def split: option.split)

lemma frame_init_room [page_frame]:
  "rp_roomCode (init_room v r s) = rp_roomCode s" "room (init_room v r s) = room s"
  "isResetting (init_room v r s) = isResetting s" "showTransferModal (init_room v r s) = showTransferModal s"
  "shownExchangeRoundsRef (init_room v r s) = shownExchangeRoundsRef s"
  "showExchangeAnimation (init_room v r s) = showExchangeAnimation s"
  "historyEvents (init_room v r s) = historyEvents s" "storage (init_room v r s) = storage s"
  "isJoiningRef (init_room v r s) = isJoiningRef s"
  "roleAssignedProcessedRef (init_room v r s) = roleAssignedProcessedRef s"
  "lastProcessedMessageRef (init_room v r s) = lastProcessedMessageRef s"
  "my_role (init_room v r s) = my_role s" "my_team (init_room v r s) = my_team s"
  by (simp_all add: init_room_def page_frame Let_def split: option.split)

lemma frame_init_restore [page_frame]:
  "rp_roomCode (init_restore b s) = rp_roomCode s" "room (init_restore b s) = room s"
  "currentPlayer (init_restore b s) = currentPlayer s" "isResetting (init_restore b s) = isResetting s"
  "showTransferModal (init_restore b s) = showTransferModal s"
  "shownExchangeRoundsRef (init_restore b s) = shownExchangeRoundsRef s"
  "showExchangeAnimation (init_restore b s) = showExchangeAnimation s"
  "storage (init_restore b s) = storage s" "tasks (init_restore b s) = tasks s"
  "hasJoinedRef (init_restore b s) = hasJoinedRef s"
  "roleAssignedProcessedRef (init_restore b s) = roleAssignedProcessedRef s"
  "lastProcessedMessageRef (init_restore b s) = lastProcessedMessageRef s"
  "my_role (init_restore b s) = my_role s" "my_team (init_restore b s) = my_team s"
  by (simp_all add: init_restore_def page_frame Let_def split: option.split)

lemma frame_init_refresh [page_frame]:
  "rp_roomCode (init_refresh p u s) = rp_roomCode s" "currentPlayer (init_refresh p u s) = currentPlayer s"
  "isResetting (init_refresh p u s) = isResetting s"
  "showTransferModal (init_refresh p u s) = showTransferModal s"
  "shownExchangeRoundsRef (init_refresh p u s) = shownExchangeRoundsRef s"
  "showExchangeAnimation (init_refresh p u s) = showExchangeAnimation s"
  "historyEvents (init_refresh p u s) = historyEvents s" "storage (init_refresh p u s) = storage s"
  "hasJoinedRef (init_refresh p u s) = hasJoinedRef s"
  "roleAssignedProcessedRef (init_refresh p u s) = roleAssignedProcessedRef s"
  "lastProcessedMessageRef (init_refresh p u s) = lastProcessedMessageRef s"
  by (simp_all add: init_refresh_def page_frame Let_def split: option.split)

lemma frame_init_round [page_frame]:
  "rp_roomCode (init_round u d ri s) = rp_roomCode s" "room (init_round u d ri s) = room s"
  "currentPlayer (init_round u d ri s) = currentPlayer s" "isResetting (init_round u d ri s) = isResetting s"
  "showTransferModal (init_round u d ri s) = showTransferModal s"
  "shownExchangeRoundsRef (init_round u d ri s) = shownExchangeRoundsRef s"
  "showExchangeAnimation (init_round u d ri s) = showExchangeAnimation s"
  "storage (init_round u d ri s) = storage s" "hasJoinedRef (init_round u d ri s) = hasJoinedRef s"
  "roleAssignedProcessedRef (init_round u d ri s) = roleAssignedProcessedRef s"
  "lastProcessedMessageRef (init_round u d ri s) = lastProcessedMessageRef s"
  "my_role (init_round u d ri s) = my_role s" "my_team (init_round u d ri s) = my_team s"
  by (simp_all add: init_round_def page_frame Let_def split: option.split)

lemma frame_open_vote [page_frame]:
  "rp_roomCode (open_vote v s) = rp_roomCode s" "room (open_vote v s) = room s"
  "currentPlayer (open_vote v s) = currentPlayer s" "isResetting (open_vote v s) = isResetting s"
  "showTransferModal (open_vote v s) = showTransferModal s"
  "shownExchangeRoundsRef (open_vote v s) = shownExchangeRoundsRef s"
  "showExchangeAnimation (open_vote v s) = showExchangeAnimation s"
  "historyEvents (open_vote v s) = historyEvents s" "storage (open_vote v s) = storage s"
  "tasks (open_vote v s) = tasks s" "isJoiningRef (open_vote v s) = isJoiningRef s"
  "hasJoinedRef (open_vote v s) = hasJoinedRef s"
  "roleAssignedProcessedRef (open_vote v s) = roleAssignedProcessedRef s"
  "lastProcessedMessageRef (open_vote v s) = lastProcessedMessageRef s" "my_role (open_vote v s) = my_role s"
  "my_team (open_vote v s) = my_team s"
  by (simp_all add: open_vote_def page_frame Let_def split: option.split)

lemma frame_init_vote [page_frame]:
  "rp_roomCode (init_vote v s) = rp_roomCode s" "room (init_vote v s) = room s"
  "currentPlayer (init_vote v s) = currentPlayer s" "isResetting (init_vote v s) = isResetting s"
  "showTransferModal (init_vote v s) = showTransferModal s"
  "shownExchangeRoundsRef (init_vote v s) = shownExchangeRoundsRef s"
  "showExchangeAnimation (init_vote v s) = showExchangeAnimation s" "storage (init_vote v s) = storage s"
  "tasks (init_vote v s) = tasks s" "hasJoinedRef (init_vote v s) = hasJoinedRef s"
  "roleAssignedProcessedRef (init_vote v s) = roleAssignedProcessedRef s"
  "lastProcessedMessageRef (init_vote v s) = lastProcessedMessageRef s" "my_role (init_vote v s) = my_role s"
  "my_team (init_vote v s) = my_team s"
  by (simp_all add: init_vote_def page_frame Let_def split: option.split)

lemma frame_refreshed [page_frame]:
  "rp_roomCode (refreshed i r s) = rp_roomCode s" "currentPlayer (refreshed i r s) = currentPlayer s"
  "isResetting (refreshed i r s) = isResetting s" "showTransferModal (refreshed i r s) = showTransferModal s"
  "shownExchangeRoundsRef (refreshed i r s) = shownExchangeRoundsRef s"
  "showExchangeAnimation (refreshed i r s) = showExchangeAnimation s"
  "historyEvents (refreshed i r s) = historyEvents s" "storage (refreshed i r s) = storage s"
  "tasks (refreshed i r s) = tasks s" "isJoiningRef (refreshed i r s) = isJoiningRef s"
  "hasJoinedRef (refreshed i r s) = hasJoinedRef s"
  "roleAssignedProcessedRef (refreshed i r s) = roleAssignedProcessedRef s"
  "lastProcessedMessageRef (refreshed i r s) = lastProcessedMessageRef s"
  by (simp_all add: refreshed_def page_frame Let_def split: option.split)

lemma frame_fetchRoom [page_frame]:
  "rp_roomCode (fetchRoom s) = rp_roomCode s" "room (fetchRoom s) = room s"
  "currentPlayer (fetchRoom s) = currentPlayer s" "isResetting (fetchRoom s) = isResetting s"
  "showTransferModal (fetchRoom s) = showTransferModal s"
  "shownExchangeRoundsRef (fetchRoom s) = shownExchangeRoundsRef s"
  "showExchangeAnimation (fetchRoom s) = showExchangeAnimation s"
  "historyEvents (fetchRoom s) = historyEvents s" "storage (fetchRoom s) = storage s"
  "isJoiningRef (fetchRoom s) = isJoiningRef s" "hasJoinedRef (fetchRoom s) = hasJoinedRef s"
  "roleAssignedProcessedRef (fetchRoom s) = roleAssignedProcessedRef s"
  "lastProcessedMessageRef (fetchRoom s) = lastProcessedMessageRef s" "my_role (fetchRoom s) = my_role s"
  "my_team (fetchRoom s) = my_team s"
  by (simp_all add: fetchRoom_def page_frame Let_def split: option.split)

lemma frame_save_history [page_frame]:
  "rp_roomCode (save_history old s) = rp_roomCode s" "room (save_history old s) = room s"
  "currentPlayer (save_history old s) = currentPlayer s" "isResetting (save_history old s) = isResetting s"
  "showTransferModal (save_history old s) = showTransferModal s"
  "shownExchangeRoundsRef (save_history old s) = shownExchangeRoundsRef s"
  "showExchangeAnimation (save_history old s) = showExchangeAnimation s"
  "historyEvents (save_history old s) = historyEvents s" "tasks (save_history old s) = tasks s"
  "isJoiningRef (save_history old s) = isJoiningRef s" "hasJoinedRef (save_history old s) = hasJoinedRef s"
  "roleAssignedProcessedRef (save_history old s) = roleAssignedProcessedRef s"
  "lastProcessedMessageRef (save_history old s) = lastProcessedMessageRef s"
  "my_role (save_history old s) = my_role s" "my_team (save_history old s) = my_team s"
  by (simp_all add: save_history_def page_frame Let_def split: option.split)

lemma frame_render_redirect [page_frame]:
  "rp_roomCode (render_redirect s) = rp_roomCode s" "room (render_redirect s) = room s"
  "currentPlayer (render_redirect s) = currentPlayer s" "isResetting (render_redirect s) = isResetting s"
  "showTransferModal (render_redirect s) = showTransferModal s"
  "shownExchangeRoundsRef (render_redirect s) = shownExchangeRoundsRef s"
  "showExchangeAnimation (render_redirect s) = showExchangeAnimation s"
  "historyEvents (render_redirect s) = historyEvents s" "storage (render_redirect s) = storage s"
  "tasks (render_redirect s) = tasks s" "isJoiningRef (render_redirect s) = isJoiningRef s"
  "hasJoinedRef (render_redirect s) = hasJoinedRef s"
  "roleAssignedProcessedRef (render_redirect s) = roleAssignedProcessedRef s"
  "lastProcessedMessageRef (render_redirect s) = lastProcessedMessageRef s"
  "my_role (render_redirect s) = my_role s" "my_team (render_redirect s) = my_team s"
  by (simp_all add: render_redirect_def page_frame Let_def split: option.split)

lemma frame_initializeRoom [page_frame]:
  "rp_roomCode (initializeRoom s) = rp_roomCode s" "room (initializeRoom s) = room s"
  "currentPlayer (initializeRoom s) = currentPlayer s" "isResetting (initializeRoom s) = isResetting s"
  "showTransferModal (initializeRoom s) = showTransferModal s"
  "shownExchangeRoundsRef (initializeRoom s) = shownExchangeRoundsRef s"
  "showExchangeAnimation (initializeRoom s) = showExchangeAnimation s"
  "historyEvents (initializeRoom s) = historyEvents s" "storage (initializeRoom s) = storage s"
  "hasJoinedRef (initializeRoom s) = hasJoinedRef s"
  "roleAssignedProcessedRef (initializeRoom s) = roleAssignedProcessedRef s"
  "lastProcessedMessageRef (initializeRoom s) = lastProcessedMessageRef s"
  "my_role (initializeRoom s) = my_role s" "my_team (initializeRoom s) = my_team s"
  by (simp_all add: initializeRoom_def page_frame Let_def split: option.split)

lemma frame_vote_done [page_frame]:
  "rp_roomCode (vote_done s) = rp_roomCode s" "room (vote_done s) = room s"
  "currentPlayer (vote_done s) = currentPlayer s" "isResetting (vote_done s) = isResetting s"
  "showTransferModal (vote_done s) = showTransferModal s"
  "shownExchangeRoundsRef (vote_done s) = shownExchangeRoundsRef s"
  "showExchangeAnimation (vote_done s) = showExchangeAnimation s"
  "historyEvents (vote_done s) = historyEvents s" "storage (vote_done s) = storage s"
  "tasks (vote_done s) = tasks s" "isJoiningRef (vote_done s) = isJoiningRef s"
  "hasJoinedRef (vote_done s) = hasJoinedRef s"
  "roleAssignedProcessedRef (vote_done s) = roleAssignedProcessedRef s"
  "lastProcessedMessageRef (vote_done s) = lastProcessedMessageRef s" "my_role (vote_done s) = my_role s"
  "my_team (vote_done s) = my_team s"
  by (simp_all add: vote_done_def page_frame Let_def split: option.split)

lemma frame_exchange_room [page_frame]:
  "rp_roomCode (exchange_room p r s) = rp_roomCode s" "room (exchange_room p r s) = room s"
  "currentPlayer (exchange_room p r s) = currentPlayer s" "isResetting (exchange_room p r s) = isResetting s"
  "showTransferModal (exchange_room p r s) = showTransferModal s"
  "shownExchangeRoundsRef (exchange_room p r s) = shownExchangeRoundsRef s"
  "showExchangeAnimation (exchange_room p r s) = showExchangeAnimation s"
  "historyEvents (exchange_room p r s) = historyEvents s" "storage (exchange_room p r s) = storage s"
  "tasks (exchange_room p r s) = tasks s" "isJoiningRef (exchange_room p r s) = isJoiningRef s"
  "hasJoinedRef (exchange_room p r s) = hasJoinedRef s"
  "roleAssignedProcessedRef (exchange_room p r s) = roleAssignedProcessedRef s"
  "lastProcessedMessageRef (exchange_room p r s) = lastProcessedMessageRef s"
  "my_role (exchange_room p r s) = my_role s" "my_team (exchange_room p r s) = my_team s"
  by (simp_all add: exchange_room_def page_frame Let_def split: option.split)

lemma frame_on_player_joined [page_frame]:
  "rp_roomCode (on_player_joined p s) = rp_roomCode s"
  "currentPlayer (on_player_joined p s) = currentPlayer s"
  "isResetting (on_player_joined p s) = isResetting s"
  "showTransferModal (on_player_joined p s) = showTransferModal s"
  "shownExchangeRoundsRef (on_player_joined p s) = shownExchangeRoundsRef s"
  "showExchangeAnimation (on_player_joined p s) = showExchangeAnimation s"
  "historyEvents (on_player_joined p s) = historyEvents s" "storage (on_player_joined p s) = storage s"
  "tasks (on_player_joined p s) = tasks s" "isJoiningRef (on_player_joined p s) = isJoiningRef s"
  "hasJoinedRef (on_player_joined p s) = hasJoinedRef s"
  "roleAssignedProcessedRef (on_player_joined p s) = roleAssignedProcessedRef s"
  "lastProcessedMessageRef (on_player_joined p s) = lastProcessedMessageRef s"
  "my_role (on_player_joined p s) = my_role s" "my_team (on_player_joined p s) = my_team s"
  by (simp_all add: on_player_joined_def page_frame Let_def split: option.split)

lemma frame_on_player_gone [page_frame]:
  "rp_roomCode (on_player_gone i s) = rp_roomCode s" "currentPlayer (on_player_gone i s) = currentPlayer s"
  "isResetting (on_player_gone i s) = isResetting s"
  "showTransferModal (on_player_gone i s) = showTransferModal s"
  "shownExchangeRoundsRef (on_player_gone i s) = shownExchangeRoundsRef s"
  "showExchangeAnimation (on_player_gone i s) = showExchangeAnimation s"
  "historyEvents (on_player_gone i s) = historyEvents s" "storage (on_player_gone i s) = storage s"
  "tasks (on_player_gone i s) = tasks s" "isJoiningRef (on_player_gone i s) = isJoiningRef s"
  "hasJoinedRef (on_player_gone i s) = hasJoinedRef s"
  "roleAssignedProcessedRef (on_player_gone i s) = roleAssignedProcessedRef s"
  "lastProcessedMessageRef (on_player_gone i s) = lastProcessedMessageRef s"
  "my_role (on_player_gone i s) = my_role s" "my_team (on_player_gone i s) = my_team s"
  by (simp_all add: on_player_gone_def page_frame Let_def split: option.split)

lemma frame_on_nickname_changed [page_frame]:
  "rp_roomCode (on_nickname_changed i n s) = rp_roomCode s"
  "isResetting (on_nickname_changed i n s) = isResetting s"
  "showTransferModal (on_nickname_changed i n s) = showTransferModal s"
  "shownExchangeRoundsRef (on_nickname_changed i n s) = shownExchangeRoundsRef s"
  "showExchangeAnimation (on_nickname_changed i n s) = showExchangeAnimation s"
  "historyEvents (on_nickname_changed i n s) = historyEvents s"
  "storage (on_nickname_changed i n s) = storage s" "tasks (on_nickname_changed i n s) = tasks s"
  "isJoiningRef (on_nickname_changed i n s) = isJoiningRef s"
  "hasJoinedRef (on_nickname_changed i n s) = hasJoinedRef s"
  "roleAssignedProcessedRef (on_nickname_changed i n s) = roleAssignedProcessedRef s"
  "lastProcessedMessageRef (on_nickname_changed i n s) = lastProcessedMessageRef s"
  "my_role (on_nickname_changed i n s) = my_role s" "my_team (on_nickname_changed i n s) = my_team s"
  by (simp_all add: on_nickname_changed_def page_frame Let_def split: option.split)

lemma frame_on_owner_changed [page_frame]:
  "rp_roomCode (on_owner_changed p s) = rp_roomCode s" "isResetting (on_owner_changed p s) = isResetting s"
  "showTransferModal (on_owner_changed p s) = showTransferModal s"
  "shownExchangeRoundsRef (on_owner_changed p s) = shownExchangeRoundsRef s"
  "showExchangeAnimation (on_owner_changed p s) = showExchangeAnimation s"
  "historyEvents (on_owner_changed p s) = historyEvents s" "storage (on_owner_changed p s) = storage s"
  "tasks (on_owner_changed p s) = tasks s" "isJoiningRef (on_owner_changed p s) = isJoiningRef s"
  "hasJoinedRef (on_owner_changed p s) = hasJoinedRef s"
  "roleAssignedProcessedRef (on_owner_changed p s) = roleAssignedProcessedRef s"
  "lastProcessedMessageRef (on_owner_changed p s) = lastProcessedMessageRef s"
  "my_role (on_owner_changed p s) = my_role s" "my_team (on_owner_changed p s) = my_team s"
  by (simp_all add: on_owner_changed_def page_frame Let_def split: option.split)

lemma frame_on_game_started [page_frame]:
  "rp_roomCode (on_game_started s) = rp_roomCode s" "room (on_game_started s) = room s"
  "currentPlayer (on_game_started s) = currentPlayer s" "isResetting (on_game_started s) = isResetting s"
  "showTransferModal (on_game_started s) = showTransferModal s"
  "shownExchangeRoundsRef (on_game_started s) = shownExchangeRoundsRef s"
  "showExchangeAnimation (on_game_started s) = showExchangeAnimation s"
  "historyEvents (on_game_started s) = historyEvents s" "storage (on_game_started s) = storage s"
  "tasks (on_game_started s) = tasks s" "isJoiningRef (on_game_started s) = isJoiningRef s"
  "hasJoinedRef (on_game_started s) = hasJoinedRef s"
  "roleAssignedProcessedRef (on_game_started s) = roleAssignedProcessedRef s"
  "lastProcessedMessageRef (on_game_started s) = lastProcessedMessageRef s"
  "my_role (on_game_started s) = my_role s" "my_team (on_game_started s) = my_team s"
  by (simp_all add: on_game_started_def page_frame Let_def split: option.split)

lemma frame_on_role_assigned [page_frame]:
  "rp_roomCode (on_role_assigned p s) = rp_roomCode s" "room (on_role_assigned p s) = room s"
  "currentPlayer (on_role_assigned p s) = currentPlayer s"
  "isResetting (on_role_assigned p s) = isResetting s"
  "showTransferModal (on_role_assigned p s) = showTransferModal s"
  "shownExchangeRoundsRef (on_role_assigned p s) = shownExchangeRoundsRef s"
  "showExchangeAnimation (on_role_assigned p s) = showExchangeAnimation s"
  "historyEvents (on_role_assigned p s) = historyEvents s"
  "isJoiningRef (on_role_assigned p s) = isJoiningRef s"
  "hasJoinedRef (on_role_assigned p s) = hasJoinedRef s"
  "lastProcessedMessageRef (on_role_assigned p s) = lastProcessedMessageRef s"
  by (simp_all add: on_role_assigned_def page_frame Let_def split: option.split)

lemma frame_on_game_reset [page_frame]:
  "rp_roomCode (on_game_reset s) = rp_roomCode s" "room (on_game_reset s) = room s"
  "currentPlayer (on_game_reset s) = currentPlayer s" "isResetting (on_game_reset s) = isResetting s"
  "showTransferModal (on_game_reset s) = showTransferModal s"
  "shownExchangeRoundsRef (on_game_reset s) = shownExchangeRoundsRef s"
  "showExchangeAnimation (on_game_reset s) = showExchangeAnimation s" "tasks (on_game_reset s) = tasks s"
  "isJoiningRef (on_game_reset s) = isJoiningRef s" "hasJoinedRef (on_game_reset s) = hasJoinedRef s"
  "lastProcessedMessageRef (on_game_reset s) = lastProcessedMessageRef s"
  by (simp_all add: on_game_reset_def page_frame Let_def split: option.split)

lemma frame_on_round_started [page_frame]:
  "rp_roomCode (on_round_started p s) = rp_roomCode s" "room (on_round_started p s) = room s"
  "currentPlayer (on_round_started p s) = currentPlayer s"
  "isResetting (on_round_started p s) = isResetting s"
  "showTransferModal (on_round_started p s) = showTransferModal s"
  "shownExchangeRoundsRef (on_round_started p s) = shownExchangeRoundsRef s"
  "showExchangeAnimation (on_round_started p s) = showExchangeAnimation s"
  "historyEvents (on_round_started p s) = historyEvents s" "storage (on_round_started p s) = storage s"
  "tasks (on_round_started p s) = tasks s" "isJoiningRef (on_round_started p s) = isJoiningRef s"
  "hasJoinedRef (on_round_started p s) = hasJoinedRef s"
  "roleAssignedProcessedRef (on_round_started p s) = roleAssignedProcessedRef s"
  "lastProcessedMessageRef (on_round_started p s) = lastProcessedMessageRef s"
  "my_role (on_round_started p s) = my_role s" "my_team (on_round_started p s) = my_team s"
  by (simp_all add: on_round_started_def page_frame Let_def split: option.split)

lemma frame_on_round_ended [page_frame]:
  "rp_roomCode (on_round_ended p s) = rp_roomCode s" "room (on_round_ended p s) = room s"
  "currentPlayer (on_round_ended p s) = currentPlayer s" "isResetting (on_round_ended p s) = isResetting s"
  "showTransferModal (on_round_ended p s) = showTransferModal s"
  "shownExchangeRoundsRef (on_round_ended p s) = shownExchangeRoundsRef s"
  "showExchangeAnimation (on_round_ended p s) = showExchangeAnimation s"
  "historyEvents (on_round_ended p s) = historyEvents s" "storage (on_round_ended p s) = storage s"
  "tasks (on_round_ended p s) = tasks s" "isJoiningRef (on_round_ended p s) = isJoiningRef s"
  "hasJoinedRef (on_round_ended p s) = hasJoinedRef s"
  "roleAssignedProcessedRef (on_round_ended p s) = roleAssignedProcessedRef s"
  "lastProcessedMessageRef (on_round_ended p s) = lastProcessedMessageRef s"
  "my_role (on_round_ended p s) = my_role s" "my_team (on_round_ended p s) = my_team s"
  by (simp_all add: on_round_ended_def page_frame Let_def split: option.split)

lemma frame_on_leadership_changed [page_frame]:
  "rp_roomCode (on_leadership_changed p s) = rp_roomCode s" "room (on_leadership_changed p s) = room s"
  "currentPlayer (on_leadership_changed p s) = currentPlayer s"
  "isResetting (on_leadership_changed p s) = isResetting s"
  "shownExchangeRoundsRef (on_leadership_changed p s) = shownExchangeRoundsRef s"
  "showExchangeAnimation (on_leadership_changed p s) = showExchangeAnimation s"
  "storage (on_leadership_changed p s) = storage s" "tasks (on_leadership_changed p s) = tasks s"
  "isJoiningRef (on_leadership_changed p s) = isJoiningRef s"
  "hasJoinedRef (on_leadership_changed p s) = hasJoinedRef s"
  "roleAssignedProcessedRef (on_leadership_changed p s) = roleAssignedProcessedRef s"
  "lastProcessedMessageRef (on_leadership_changed p s) = lastProcessedMessageRef s"
  "my_role (on_leadership_changed p s) = my_role s" "my_team (on_leadership_changed p s) = my_team s"
  by (simp_all add: on_leadership_changed_def page_frame Let_def split: option.split)

lemma frame_on_vote_started [page_frame]:
  "rp_roomCode (on_vote_started p s) = rp_roomCode s" "room (on_vote_started p s) = room s"
  "currentPlayer (on_vote_started p s) = currentPlayer s" "isResetting (on_vote_started p s) = isResetting s"
  "showTransferModal (on_vote_started p s) = showTransferModal s"
  "shownExchangeRoundsRef (on_vote_started p s) = shownExchangeRoundsRef s"
  "showExchangeAnimation (on_vote_started p s) = showExchangeAnimation s"
  "historyEvents (on_vote_started p s) = historyEvents s" "storage (on_vote_started p s) = storage s"
  "tasks (on_vote_started p s) = tasks s" "isJoiningRef (on_vote_started p s) = isJoiningRef s"
  "hasJoinedRef (on_vote_started p s) = hasJoinedRef s"
  "roleAssignedProcessedRef (on_vote_started p s) = roleAssignedProcessedRef s"
  "lastProcessedMessageRef (on_vote_started p s) = lastProcessedMessageRef s"
  "my_role (on_vote_started p s) = my_role s" "my_team (on_vote_started p s) = my_team s"
  by (simp_all add: on_vote_started_def page_frame Let_def split: option.split)

lemma frame_on_vote_progress [page_frame]:
  "rp_roomCode (on_vote_progress p s) = rp_roomCode s" "room (on_vote_progress p s) = room s"
  "currentPlayer (on_vote_progress p s) = currentPlayer s"
  "isResetting (on_vote_progress p s) = isResetting s"
  "showTransferModal (on_vote_progress p s) = showTransferModal s"
  "shownExchangeRoundsRef (on_vote_progress p s) = shownExchangeRoundsRef s"
  "showExchangeAnimation (on_vote_progress p s) = showExchangeAnimation s"
  "historyEvents (on_vote_progress p s) = historyEvents s" "storage (on_vote_progress p s) = storage s"
  "tasks (on_vote_progress p s) = tasks s" "isJoiningRef (on_vote_progress p s) = isJoiningRef s"
  "hasJoinedRef (on_vote_progress p s) = hasJoinedRef s"
  "roleAssignedProcessedRef (on_vote_progress p s) = roleAssignedProcessedRef s"
  "lastProcessedMessageRef (on_vote_progress p s) = lastProcessedMessageRef s"
  "my_role (on_vote_progress p s) = my_role s" "my_team (on_vote_progress p s) = my_team s"
  by (simp_all add: on_vote_progress_def page_frame Let_def split: option.split)

lemma frame_on_vote_completed [page_frame]:
  "rp_roomCode (on_vote_completed p s) = rp_roomCode s" "room (on_vote_completed p s) = room s"
  "currentPlayer (on_vote_completed p s) = currentPlayer s"
  "isResetting (on_vote_completed p s) = isResetting s"
  "showTransferModal (on_vote_completed p s) = showTransferModal s"
  "shownExchangeRoundsRef (on_vote_completed p s) = shownExchangeRoundsRef s"
  "showExchangeAnimation (on_vote_completed p s) = showExchangeAnimation s"
  "historyEvents (on_vote_completed p s) = historyEvents s" "storage (on_vote_completed p s) = storage s"
  "isJoiningRef (on_vote_completed p s) = isJoiningRef s"
  "hasJoinedRef (on_vote_completed p s) = hasJoinedRef s"
  "roleAssignedProcessedRef (on_vote_completed p s) = roleAssignedProcessedRef s"
  "lastProcessedMessageRef (on_vote_completed p s) = lastProcessedMessageRef s"
  "my_role (on_vote_completed p s) = my_role s" "my_team (on_vote_completed p s) = my_team s"
  by (simp_all add: on_vote_completed_def page_frame Let_def split: option.split)

lemma frame_on_exchange_complete [page_frame]:
  "rp_roomCode (on_exchange_complete p s) = rp_roomCode s" "room (on_exchange_complete p s) = room s"
  "currentPlayer (on_exchange_complete p s) = currentPlayer s"
  "isResetting (on_exchange_complete p s) = isResetting s"
  "showTransferModal (on_exchange_complete p s) = showTransferModal s"
  "storage (on_exchange_complete p s) = storage s" "tasks (on_exchange_complete p s) = tasks s"
  "isJoiningRef (on_exchange_complete p s) = isJoiningRef s"
  "hasJoinedRef (on_exchange_complete p s) = hasJoinedRef s"
  "roleAssignedProcessedRef (on_exchange_complete p s) = roleAssignedProcessedRef s"
  "lastProcessedMessageRef (on_exchange_complete p s) = lastProcessedMessageRef s"
  "my_role (on_exchange_complete p s) = my_role s" "my_team (on_exchange_complete p s) = my_team s"
  by (simp_all add: on_exchange_complete_def page_frame Let_def split: option.split)


end
