(* ===== verification/Room_Facts.thy ===== *)
theory Room_Facts
  imports Room_Frames
begin

text \<open>
  What holds of \<open>RoomPage\<close> in every state that it can reach, whatever the user, the server and the
  timers do: its views, its joining, its dialog, its reset button, its animations and its log.
\<close>

section \<open>Steps\<close>

lemmas handle_event_defs = handle_event_def handleBackToHome_def handleStartGame_def handleResetGame_def
  handleSelectHostages_def handleLeaderReady_def page_transferLeadership_def handleStartVote_def
  handleVote_def handleExchangeAnimationComplete_def page_nicknameUpdate_def handle_panel_def
  handle_dialog_def

lemmas resume_defs = resume_def resume_init_def

lemma take_task_Some:
  "take_task i s = Some (t, s') \<longleftrightarrow>
     i < length (tasks s) \<and> t = tasks s ! i \<and> s' = s\<lparr>tasks := take i (tasks s) @ drop (Suc i) (tasks s)\<rparr>"
  by (auto simp: take_task_def)

lemma taken_mset:
  "i < length ts \<Longrightarrow> add_mset (ts ! i) (mset (take i ts @ drop (Suc i) ts)) = mset ts"
  by (metis add_mset_add_single id_take_nth_drop mset.simps(2) mset_append union_mset_add_mset_right)

lemma taken_set: "set (take i ts @ drop (Suc i) ts) \<subseteq> set ts"
  by (auto dest: in_set_takeD in_set_dropD)

text \<open>
  A property of the page that messages, answers and the handlers of the user keep, and that neither
  the storing of the history nor a redirection affects, holds after every step.
\<close>

locale page_invariant =
  fixes inv :: "Room_Page \<Rightarrow> bool" and allowed :: "page_event \<Rightarrow> bool"
  assumes inv_after: "inv s \<Longrightarrow> inv (render_redirect (save_history old s))"
    and inv_message: "inv s \<Longrightarrow> allowed (Message m) \<Longrightarrow> inv (handle_message m s)"
    and inv_seen: "inv s \<Longrightarrow> inv (s\<lparr>lastProcessedMessageRef := l\<rparr>)"
    and inv_answer: "inv s \<Longrightarrow> i < length (tasks s) \<Longrightarrow>
      inv (fst (resume (tasks s ! i) a (s\<lparr>tasks := take i (tasks s) @ drop (Suc i) (tasks s)\<rparr>)))"
    and inv_user: "inv s \<Longrightarrow> allowed e \<Longrightarrow> (\<And>m. e \<noteq> Message m) \<Longrightarrow> (\<And>i a. e \<noteq> Answered i a) \<Longrightarrow>
      inv (fst (handle_event e s))"
begin

lemma inv_handle: "inv s \<Longrightarrow> allowed e \<Longrightarrow> inv (fst (handle_event e s))"
proof (cases e)
  case (Message m)
  assume "inv s" "allowed e"
  then show ?thesis
    using Message inv_message [OF inv_seen [of s "Some m"]] by (simp add: handle_event_def on_lastMessage_def)
next
  case (Answered i a)
  assume "inv s"
  then show ?thesis
    using Answered inv_answer [of s i a]
    by (auto simp: handle_event_def take_task_Some split: option.split prod.split)
qed (use inv_user [of s e] in auto)

lemma inv_page_step: "inv s \<Longrightarrow> allowed e \<Longrightarrow> inv (page_step s e)"
  by (simp add: page_step_def inv_after inv_handle)

lemma inv_page_run: "inv s \<Longrightarrow> list_all allowed es \<Longrightarrow> inv (page_run s es)"
  by (induction es arbitrary: s) (simp_all add: inv_page_step)

end

section \<open>The views have what they show\<close>

text \<open>What the render of a view needs.\<close>

definition backed :: "Room_Page \<Rightarrow> bool" where
  "backed s \<longleftrightarrow>
     (case (room s, currentPlayer s) of
        (Some r, Some _) \<Rightarrow> loading s \<or> error s \<noteq> '''' \<or> status r = REVEALING \<or>
          ((rp_view s = ''vote'' \<longrightarrow> activeVoteSession s \<noteq> None \<and> currentRoom s \<noteq> None) \<and>
           (rp_view s = ''reveal'' \<longrightarrow> my_role s \<noteq> None \<and> my_team s \<noteq> None))
      | _ \<Rightarrow> True)"

lemma redirect_backed: "backed (render_redirect s)"
  by (auto simp: backed_def render_redirect_def set_view_def split: option.splits)

text \<open>After every step, a page that shows the vote has an open voting session and knows its
  player's room, and a page that shows the role has a role and a team to show: otherwise the render
  has moved on to the game or the lobby.\<close>

theorem views_are_backed: "backed (page_run (page_step s e) es)"
proof (cases es rule: rev_cases)
  case Nil
  then show ?thesis by (simp add: page_step_def redirect_backed)
next
  case (snoc fs f)
  then show ?thesis by (simp add: run_append page_step_def redirect_backed)
qed

section \<open>The transfer dialog\<close>

interpretation dialog_closed: page_invariant "\<lambda>s. \<not> showTransferModal s" "\<lambda>_. True"
proof (unfold_locales, goal_cases)
  case (2 s m)
  then show ?case
    by (cases m) (simp_all add: handle_message_def page_frame on_leadership_changed_def set_view_def Let_def
        split: option.split)
next
  case (4 s i a)
  then show ?case
    by (cases "tasks s ! i"; cases a) (simp_all add: resume_defs page_frame)
next
  case (5 s e)
  then show ?case
    by (cases e)
      (auto simp: handle_event_defs page_frame Let_def split: option.split panel_command.split modal_command.split prod.split)
qed (simp_all add: page_frame)

text \<open>The dialog for handing over the leadership never opens: no step of the page, whatever the
  user does and the server sends, sets the flag that shows it.\<close>

theorem transfer_dialog_never_opens:
  "\<not> showTransferModal (page_run (mount_room_page room_code view_param st) es)"
proof -
  have "list_all (\<lambda>_. True) es" by (simp add: list_all_iff)
  then show ?thesis
    by (rule dialog_closed.inv_page_run [rotated]) (simp add: mount_room_page_def)
qed

section \<open>The reset button\<close>

interpretation resetting: page_invariant "\<lambda>s. isResetting s \<and> T_Reset \<notin> set (tasks s)" "\<lambda>e. e \<noteq> ResetGame"
proof (unfold_locales, goal_cases)
  case (2 s m)
  then show ?case
    by (cases m) (auto simp: handle_message_def page_frame on_role_assigned_def on_vote_completed_def
        fetchRoom_def add_task_def Let_def split: option.split)
next
  case (4 s i a)
  have t: "T_Reset \<notin> set (take i (tasks s) @ drop (Suc i) (tasks s))"
    using 4(1) taken_set [of i "tasks s"] by blast
  have "tasks s ! i \<noteq> T_Reset" using 4 by (metis nth_mem)
  with 4(1) t show ?case
    by (cases "tasks s ! i"; cases a)
      (auto simp: resume_defs page_frame add_task_def init_joined_def init_join_def init_room_def
        init_refresh_def init_round_def Let_def split: option.split)
next
  case (5 s e)
  then show ?case
    by (cases e)
      (auto simp: handle_event_defs page_frame initializeRoom_def fetchRoom_def add_task_def Let_def
        split: option.split panel_command.split modal_command.split prod.split)
qed (simp_all add: page_frame)

text \<open>Once a reset that was asked for has succeeded, the page stays in its resetting state, in which
  the reset button is disabled, for as long as it lives: no message of the server, not even the
  reset itself, and no other action clears it.\<close>

theorem reset_button_stays_disabled:
  assumes "isResetting s" "tasks s = ts @ [T_Reset] @ us" "T_Reset \<notin> set (ts @ us)"
    and "list_all (\<lambda>e. e \<noteq> ResetGame) es"
  shows "isResetting (page_run s (Answered (length ts) Done # es))"
proof -
  have "isResetting (page_step s (Answered (length ts) Done)) \<and>
      T_Reset \<notin> set (tasks (page_step s (Answered (length ts) Done)))"
    using assms(1-3) by (simp add: page_step_def handle_event_def take_task_def resume_defs page_frame)
  then show ?thesis
    using resetting.inv_page_run [OF _ assms(4)] by simp
qed

definition wr_storage :: Storage where
  "wr_storage = \<lparr>ls_playerId = None, ls_isOwner = None, ls_role = None, ls_team = None, ls_currentRoom = None,
     ls_history = None\<rparr>"

definition wr_room :: "Player list \<Rightarrow> RoomStatus \<Rightarrow> Room" where
  "wr_room ps st = \<lparr>code = ''ABC123'', status = st, players = ps, maxPlayers = 10, roleConfigId = None,
     selectedRoles = None, gameSession = None, room_createdAt = '''', room_updatedAt = ''''\<rparr>"

theorem reset_button_stays_disabled_witness:
  "isResetting (page_run (page_run (mount_room_page ''ABC123'' None wr_storage) [ResetGame])
     (Answered (length ([] :: task list)) Done # [Message (GAME_RESET (wr_room [] WAITING)), Home]))"
  by (rule reset_button_stays_disabled [where us = "[]"])
    (simp_all add: page_step_def handle_event_defs add_task_def mount_room_page_def save_history_def render_redirect_def)

section \<open>Joining\<close>

text \<open>The calls with which the page enters a room.\<close>

fun is_init :: "task \<Rightarrow> bool" where
  "is_init (T_InitRoom _) = True"
| "is_init T_InitJoin = True"
| "is_init (T_InitRefresh _) = True"
| "is_init (T_InitRound _ _) = True"
| "is_init (T_InitVote _) = True"
| "is_init _ = False"

fun before_join :: "task \<Rightarrow> bool" where
  "before_join (T_InitRoom _) = True"
| "before_join T_InitJoin = True"
| "before_join _ = False"

definition joining :: "Room_Page \<Rightarrow> bool" where
  "joining s \<longleftrightarrow>
     (case filter is_init (tasks s) of
        [] \<Rightarrow> True
      | [t] \<Rightarrow> isJoiningRef s \<and> (hasJoinedRef s \<longleftrightarrow> \<not> before_join t)
      | _ \<Rightarrow> False) \<and>
     (hasJoinedRef s \<longrightarrow> currentPlayer s \<noteq> None)"

lemma filter_taken:
  assumes "i < length ts"
  shows "filter P ts = filter P (take i ts) @ (if P (ts ! i) then [ts ! i] else []) @ filter P (drop (Suc i) ts)"
proof -
  have "filter P ts = filter P (take i ts @ ts ! i # drop (Suc i) ts)"
    using id_take_nth_drop [OF assms] by simp
  then show ?thesis by simp
qed

lemma joining_answer:
  assumes "joining s" "i < length (tasks s)" "is_init (tasks s ! i)"
  shows "filter is_init (take i (tasks s) @ drop (Suc i) (tasks s)) = [] \<and> isJoiningRef s \<and>
    (hasJoinedRef s \<longleftrightarrow> \<not> before_join (tasks s ! i)) \<and> (hasJoinedRef s \<longrightarrow> currentPlayer s \<noteq> None)"
  using assms filter_taken [OF assms(2), of is_init]
  by (auto simp: joining_def append_eq_Cons_conv split: list.splits)

lemma joining_other_answer:
  assumes "joining s" "i < length (tasks s)" "\<not> is_init (tasks s ! i)"
  shows "filter is_init (take i (tasks s) @ drop (Suc i) (tasks s)) = filter is_init (tasks s)"
  using assms filter_taken [OF assms(2), of is_init] by simp

lemma joining_cong:
  assumes "joining s" "filter is_init (tasks s') = filter is_init (tasks s)"
    "isJoiningRef s' = isJoiningRef s" "hasJoinedRef s' = hasJoinedRef s"
    "currentPlayer s \<noteq> None \<longrightarrow> currentPlayer s' \<noteq> None"
  shows "joining s'"
  using assms by (simp add: joining_def split: list.splits)

lemma joining_resume_other:
  assumes "joining s" "\<not> is_init t" "filter is_init ts = filter is_init (tasks s)"
  shows "joining (fst (resume t a (s\<lparr>tasks := ts\<rparr>)))"
  by (rule joining_cong [OF assms(1)])
    (use assms(2,3) in \<open>(cases t; cases a; simp add: resume_defs page_frame)+\<close>)

interpretation joining: page_invariant joining "\<lambda>_. True"
proof (unfold_locales, goal_cases)
  case (1 s old)
  then show ?case by (rule joining_cong) (simp_all add: page_frame)
next
  case (2 s m)
  show ?case
    by (rule joining_cong [OF 2(1)])
      (cases m; simp add: handle_message_def page_frame on_role_assigned_def on_vote_completed_def fetchRoom_def
        add_task_def on_nickname_changed_def on_owner_changed_def Let_def split: option.split)+
next
  case (3 s l)
  then show ?case by (rule joining_cong) simp_all
next
  case (4 s i a)
  show ?case
  proof (cases "is_init (tasks s ! i)")
    case True
    note j = joining_answer [OF 4 True]
    show ?thesis
      using j True
      by (cases "tasks s ! i"; cases a)
        (auto simp: resume_defs joining_def page_frame add_task_def init_joined_def init_join_def init_room_def
          init_refresh_def init_round_def init_vote_def init_restore_def init_done_def init_failed_def Let_def
          set_room_players_def set_view_def open_vote_def split: option.split)
  next
    case False
    show ?thesis
      by (rule joining_resume_other [OF 4(1) False joining_other_answer [OF 4 False]])
  qed
next
  case (5 s e)
  show ?case
  proof (cases "e = Mounted")
    case True
    then show ?thesis
      using 5(1)
      by (auto simp: handle_event_def initializeRoom_def add_task_def joining_def split: list.splits)
  next
    case False
    with 5 show ?thesis
      by (intro joining_cong [OF 5(1)])
        (cases e; auto simp: handle_event_defs page_frame fetchRoom_def add_task_def Let_def
          split: option.split panel_command.split modal_command.split prod.split)+
  qed
qed

text \<open>C28: However often the page is mounted and whatever it receives, it has at most one call of its
  entry into the room under way, and once it has joined it never asks to join again: no call that
  precedes the join is under way, and it knows its player.\<close>

theorem page_joins_once:
  "let s = page_run (mount_room_page room_code view_param st) es in
     length (filter is_init (tasks s)) \<le> 1 \<and>
     (if hasJoinedRef s then filter before_join (tasks s) = [] \<and> currentPlayer s \<noteq> None else True)"
proof -
  let ?s = "page_run (mount_room_page room_code view_param st) es"
  have "joining ?s"
    by (rule joining.inv_page_run) (simp_all add: joining_def mount_room_page_def list_all_iff)
  moreover have "filter before_join (tasks ?s) = filter before_join (filter is_init (tasks ?s))"
    unfolding filter_filter by (rule filter_cong) (auto elim: before_join.elims)
  ultimately show ?thesis
    by (auto simp: Let_def joining_def simp del: filter_filter split: list.splits if_splits)
qed

section \<open>Starting the game\<close>

lemma resume_starts_nothing:
  "T_Start \<in> set (tasks (fst (resume t a s))) \<longleftrightarrow> T_Start \<in> set (tasks s)"
  by (cases t; cases a)
    (auto simp: resume_defs page_frame add_task_def init_joined_def init_join_def init_room_def init_refresh_def
      init_round_def init_vote_def init_restore_def init_done_def init_failed_def exchange_room_def
      Let_def set_room_players_def set_view_def open_vote_def split: option.split)

lemma message_starts_nothing:
  "T_Start \<in> set (tasks (on_lastMessage m s)) \<longleftrightarrow> T_Start \<in> set (tasks s)"
  by (cases m) (auto simp: on_lastMessage_def handle_message_def page_frame on_role_assigned_def
      on_vote_completed_def fetchRoom_def add_task_def Let_def split: option.split)

text \<open>The game is started only by its button, and only in a room whose list holds at least six
  players; with fewer the player is told so and nothing is sent.\<close>

theorem start_needs_six_players:
  "(if T_Start \<in> set (tasks s) then True
    else T_Start \<in> set (tasks (page_step s e)) \<longleftrightarrow>
      e = StartGame \<and> rp_roomCode s \<noteq> '''' \<and> (case room s of None \<Rightarrow> False | Some r \<Rightarrow> 6 \<le> length (players r))) \<and>
   (page_alerts s StartGame = [] \<longleftrightarrow>
      rp_roomCode s = '''' \<or> (case room s of None \<Rightarrow> False | Some r \<Rightarrow> 6 \<le> length (players r)))"
proof (intro conjI)
  have "T_Start \<in> set (tasks (fst (handle_event e s))) \<longleftrightarrow>
      e = StartGame \<and> rp_roomCode s \<noteq> '''' \<and> (case room s of None \<Rightarrow> False | Some r \<Rightarrow> 6 \<le> length (players r))"
    if "T_Start \<notin> set (tasks s)"
  proof (cases e)
    case (Answered i a)
    have "T_Start \<notin> set (take i (tasks s) @ drop (Suc i) (tasks s))"
      using that taken_set [of i "tasks s"] by blast
    then show ?thesis
      using Answered that resume_starts_nothing [of _ a]
      by (auto simp: handle_event_def take_task_Some split: option.split prod.split)
  next
    case (Message m)
    then show ?thesis using that by (simp add: handle_event_def message_starts_nothing)
  qed (use that in \<open>auto simp: handle_event_defs page_frame initializeRoom_def fetchRoom_def add_task_def Let_def
        split: option.split panel_command.split modal_command.split prod.split\<close>)
  then show "if T_Start \<in> set (tasks s) then True
    else T_Start \<in> set (tasks (page_step s e)) \<longleftrightarrow>
      e = StartGame \<and> rp_roomCode s \<noteq> '''' \<and> (case room s of None \<Rightarrow> False | Some r \<Rightarrow> 6 \<le> length (players r))"
    by (simp add: page_step_def page_frame)
  show "page_alerts s StartGame = [] \<longleftrightarrow>
      rp_roomCode s = '''' \<or> (case room s of None \<Rightarrow> False | Some r \<Rightarrow> 6 \<le> length (players r))"
    by (auto simp: page_alerts_def handle_event_def handleStartGame_def split: option.split)
qed

section \<open>Exchange animations\<close>

definition two_shown :: "Room_Page \<Rightarrow> bool" where
  "two_shown s \<longleftrightarrow> distinct (shownExchangeRoundsRef s) \<and> length (shownExchangeRoundsRef s) = 2 \<and>
     \<not> showExchangeAnimation s"

lemma exchange_shown:
  "distinct (shownExchangeRoundsRef s) \<Longrightarrow> length (shownExchangeRoundsRef s) \<le> 2 \<Longrightarrow>
    distinct (shownExchangeRoundsRef (on_exchange_complete p s)) \<and>
    length (shownExchangeRoundsRef (on_exchange_complete p s)) \<le> 2"
  by (auto simp: on_exchange_complete_def Let_def set_add_def set_size_def set_has_def)

interpretation shown_rounds: page_invariant
  "\<lambda>s. distinct (shownExchangeRoundsRef s) \<and> length (shownExchangeRoundsRef s) \<le> 2" "\<lambda>_. True"
proof (unfold_locales, goal_cases)
  case (2 s m)
  then show ?case
    by (cases m) (simp_all add: handle_message_def page_frame exchange_shown split: option.split)
next
  case (4 s i a)
  then show ?case by (cases "tasks s ! i"; cases a) (simp_all add: resume_defs page_frame)
next
  case (5 s e)
  then show ?case
    by (cases e)
      (auto simp: handle_event_defs page_frame Let_def split: option.split panel_command.split modal_command.split prod.split)
qed (simp_all add: page_frame)

interpretation no_third: page_invariant two_shown "\<lambda>_. True"
proof (unfold_locales, goal_cases)
  case (2 s m)
  then show ?case
    by (cases m) (simp_all add: handle_message_def page_frame two_shown_def on_exchange_complete_def Let_def
        set_size_def split: option.split)
next
  case (4 s i a)
  then show ?case by (cases "tasks s ! i"; cases a) (simp_all add: resume_defs page_frame two_shown_def)
next
  case (5 s e)
  then show ?case
    by (cases e)
      (auto simp: handle_event_defs page_frame two_shown_def Let_def
        split: option.split panel_command.split modal_command.split prod.split)
qed (simp_all add: page_frame two_shown_def)

text \<open>The page animates the exchanges of at most two rounds in its whole life: it keeps at most two
  rounds as shown, and once there are two and no animation is running, none ever starts again, not
  after the third round and not in a new game after a reset.\<close>

theorem at_most_two_animations:
  "let s = page_run (mount_room_page room_code view_param st) es in
     length (shownExchangeRoundsRef s) \<le> 2 \<and>
     (if length (shownExchangeRoundsRef s) = 2 \<and> \<not> showExchangeAnimation s
      then \<not> showExchangeAnimation (page_run s fs) else True)"
proof -
  let ?s = "page_run (mount_room_page room_code view_param st) es"
  have "distinct (shownExchangeRoundsRef ?s) \<and> length (shownExchangeRoundsRef ?s) \<le> 2"
    by (rule shown_rounds.inv_page_run) (simp_all add: mount_room_page_def list_all_iff)
  moreover have "two_shown ?s \<Longrightarrow> two_shown (page_run ?s fs)"
    by (rule no_third.inv_page_run) (simp_all add: list_all_iff)
  ultimately show ?thesis by (auto simp: two_shown_def Let_def)
qed

section \<open>The role of the player\<close>

text \<open>Until the game is reset, the messages of the server assign a role only once.\<close>

fun keeps_role :: "WSMessage \<Rightarrow> bool" where
  "keeps_role (GAME_RESET _) = False"
| "keeps_role _ = True"

definition role_state :: "Room_Page \<Rightarrow> Role option \<times> TeamColor option" where
  "role_state s = (my_role s, my_team s)"

lemma assigned_step:
  assumes "roleAssignedProcessedRef s" "keeps_role m"
  shows "roleAssignedProcessedRef (page_step s (Message m)) \<and> role_state (page_step s (Message m)) = role_state s"
proof -
  have "roleAssignedProcessedRef (handle_message m s) \<and> role_state (handle_message m s) = role_state s"
    if "roleAssignedProcessedRef s" for s
    using that assms(2)
    by (cases m)
      (simp_all add: handle_message_def page_frame role_state_def on_role_assigned_def split: option.split)
  from this [of "s\<lparr>lastProcessedMessageRef := Some m\<rparr>"] assms(1)
  show ?thesis
    by (simp add: page_step_def handle_event_def on_lastMessage_def page_frame role_state_def)
qed

lemma assigned_run:
  "roleAssignedProcessedRef s \<Longrightarrow> list_all keeps_role ms \<Longrightarrow> role_state (page_run s (map Message ms)) = role_state s"
  using assigned_step by (induction ms arbitrary: s) simp_all

text \<open>The first assignment of a role is the one that counts: until the game is reset, no later
  message, in particular no second assignment, changes the player's role or team.\<close>

theorem first_role_counts:
  assumes "\<not> roleAssignedProcessedRef s" "lastProcessedMessageRef s \<noteq> Some (ROLE_ASSIGNED payload)"
    and "list_all keeps_role ms"
  shows "role_state (page_run s (map Message (ROLE_ASSIGNED payload # ms))) =
    (Some (ra_role payload), Some (ra_team payload))"
proof -
  let ?s = "page_step s (Message (ROLE_ASSIGNED payload))"
  have "roleAssignedProcessedRef ?s \<and> role_state ?s = (Some (ra_role payload), Some (ra_team payload))"
    using assms(1,2)
    by (simp add: page_step_def handle_event_def on_lastMessage_def handle_message_def on_role_assigned_def
        page_frame role_state_def Let_def)
  then show ?thesis using assigned_run [OF _ assms(3)] by simp
qed

definition wr_role :: "string \<Rightarrow> Role" where
  "wr_role i = \<lparr>role_id = i, role_name = i, role_nameKo = None, role_description = '''', role_descriptionKo = None,
     role_team = RED, role_icon = None, isSpy = False, role_isLeader = False\<rparr>"

definition wr_assigned :: "string \<Rightarrow> RoleAssignedPayload" where
  "wr_assigned i = \<lparr>ra_role = wr_role i, ra_team = RED, ra_currentRoom = RED_ROOM\<rparr>"

theorem first_role_counts_witness:
  "role_state (page_run (mount_room_page ''ABC123'' None wr_storage)
     (map Message (ROLE_ASSIGNED (wr_assigned ''BOMBER'') # [ROLE_ASSIGNED (wr_assigned ''PRESIDENT'')]))) =
   (Some (ra_role (wr_assigned ''BOMBER'')), Some (ra_team (wr_assigned ''BOMBER'')))"
  by (rule first_role_counts) (simp_all add: mount_room_page_def)

end
