(* ===== verification/Room_App.thy ===== *)
theory Room_App
  imports Room_View Room_Facts
begin

text \<open>
  The room page together with the components on its screen, as React runs them: a component is
  mounted, with its initial state, when a render first contains it, keeps its state while renders
  contain it, and is dropped when they no longer do; what it asks of the page through its callbacks
  is handled by the page at once. An overlay that is dropped while its timers run goes on until they
  have fired.
\<close>

section \<open>State\<close>

record App_State =
  ap_page :: Room_Page
  ap_children :: Children
  ap_orphans :: "string option Animation list"
  ap_now :: nat

definition no_children :: Children where
  "no_children = \<lparr>ch_panel = None, ch_dialog = None, ch_vote = None, ch_history = None, ch_editor = None,
     ch_sidebar = None, ch_animation = None\<rparr>"

definition kept :: "bool \<Rightarrow> 'a \<Rightarrow> 'a option \<Rightarrow> 'a option" where
  "kept rendered initial x = (if rendered then Some (case x of None \<Rightarrow> initial | Some y \<Rightarrow> y) else None)"

text \<open>The components after a render of the page, their effects included.\<close>

definition mount_children :: "nat \<Rightarrow> Room_Page \<Rightarrow> Children \<Rightarrow> Children" where
  "mount_children now s ch =
     (case screen_of s of
        GameView r p ro t c \<Rightarrow>
          no_children\<lparr>ch_panel := kept (panel_shown c p s) init_timer_panel (ch_panel ch),
            ch_dialog := map_option (reset_when_closed (dialog_props p c s)) (kept True init_modal (ch_dialog ch)),
            ch_history := kept (history_shown s) init_history (ch_history ch),
            ch_animation := map_option (animation_effect (animation_props p s))
              (kept True (mount_animation now) (ch_animation ch))\<rparr>
      | VoteView v p c \<Rightarrow>
          no_children\<lparr>ch_vote := map_option (vote_effect (vote_page_props v p c s))
            (kept True (mount_vote_page (vote_page_props v p c s)) (ch_vote ch))\<rparr>
      | LobbyView r p \<Rightarrow>
          no_children\<lparr>ch_editor := kept True (mount_editor (nickname p)) (ch_editor ch),
            ch_sidebar := kept True (fst (loadRoleConfig (sidebar_props r s) mount_sidebar)) (ch_sidebar ch)\<rparr>
      | _ \<Rightarrow> no_children)"

definition dropped :: "Children \<Rightarrow> Children \<Rightarrow> string option Animation list" where
  "dropped old new = (case (ch_animation old, ch_animation new) of
      (Some a, None) \<Rightarrow> [a\<lparr>an_mounted := False\<rparr>]
    | _ \<Rightarrow> [])"

text \<open>Events reach the page; it renders, and so do its components.\<close>

definition page_events :: "page_event list \<Rightarrow> App_State \<Rightarrow> App_State" where
  "page_events es st =
     (let s = page_run (ap_page st) es; ch = mount_children (ap_now st) s (ap_children st)
      in st\<lparr>ap_page := s, ap_children := ch, ap_orphans := ap_orphans st @ dropped (ap_children st) ch\<rparr>)"

definition mount_app :: "string \<Rightarrow> string option \<Rightarrow> Storage \<Rightarrow> App_State" where
  "mount_app room_code view_param st =
     \<lparr>ap_page = mount_room_page room_code view_param st, ap_children = no_children, ap_orphans = [], ap_now = 0\<rparr>"

section \<open>Steps\<close>

text \<open>What the callbacks of the components do on the page.\<close>

definition vote_callback :: "vote_command \<Rightarrow> page_event" where
  "vote_callback c = (case c of OnVote v \<Rightarrow> CastVote v | OnClose \<Rightarrow> BackToGame)"

definition upd_children :: "(Children \<Rightarrow> Children) \<Rightarrow> App_State \<Rightarrow> App_State" where
  "upd_children f st = st\<lparr>ap_children := f (ap_children st)\<rparr>"

text \<open>
  An action on the screen, a timer or the end of a call of a component, if the component is there
  and offers it: its own step, then its callbacks. The answer is the one given to \<open>confirm\<close>.
\<close>

definition in_panel :: "timer_panel_action \<times> bool \<Rightarrow> App_State \<Rightarrow> App_State" where
  "in_panel a st =
     (case (screen_of (ap_page st), ch_panel (ap_children st)) of
        (GameView r p ro t c, Some x) \<Rightarrow>
          (let (x', cs) = interact timer_panel_offers timer_panel_step x (panel_props r p c (ap_page st), a) in
           page_events (map PanelCommand cs) (upd_children (\<lambda>ch. ch\<lparr>ch_panel := Some x'\<rparr>) st))
      | _ \<Rightarrow> st)"

definition in_dialog :: "modal_action \<times> bool \<Rightarrow> App_State \<Rightarrow> App_State" where
  "in_dialog a st =
     (case (screen_of (ap_page st), ch_dialog (ap_children st)) of
        (GameView r p ro t c, Some x) \<Rightarrow>
          (let (x', cs) = interact modal_offers modal_step x (dialog_props p c (ap_page st), a) in
           page_events (map DialogCommand cs) (upd_children (\<lambda>ch. ch\<lparr>ch_dialog := Some x'\<rparr>) st))
      | _ \<Rightarrow> st)"

definition in_vote :: "vote_action \<times> bool \<Rightarrow> App_State \<Rightarrow> App_State" where
  "in_vote a st =
     (case (screen_of (ap_page st), ch_vote (ap_children st)) of
        (VoteView v p c, Some x) \<Rightarrow>
          (let (x', cs) = interact vote_page_offers vote_page_step x (vote_page_props v p c (ap_page st), a) in
           page_events (map vote_callback cs) (upd_children (\<lambda>ch. ch\<lparr>ch_vote := Some x'\<rparr>) st))
      | _ \<Rightarrow> st)"

definition in_editor :: "editor_action \<times> bool \<Rightarrow> App_State \<Rightarrow> App_State" where
  "in_editor a st =
     (case (screen_of (ap_page st), ch_editor (ap_children st)) of
        (LobbyView r p, Some x) \<Rightarrow>
          (let (x', cs) = interact editor_offers editor_step x (nickname p, a) in
           page_events (map SubmitNickname cs) (upd_children (\<lambda>ch. ch\<lparr>ch_editor := Some x'\<rparr>) st))
      | _ \<Rightarrow> st)"

definition in_history :: "history_action \<Rightarrow> App_State \<Rightarrow> App_State" where
  "in_history a st =
     upd_children (\<lambda>ch. ch\<lparr>ch_history := map_option (\<lambda>h. history_step h a) (ch_history ch)\<rparr>) st"

definition app_view :: "App_State \<Rightarrow> view_action node list" where
  "app_view st = RoomPage (\<lambda>_. None) True (ap_children st) (ap_page st)"

definition app_act :: "view_action \<Rightarrow> bool \<Rightarrow> App_State \<Rightarrow> App_State" where
  "app_act a answer st =
     (case a of
        Page e \<Rightarrow> if Page e \<in> set (offers_all (app_view st)) then page_events [e] st else st
      | InPanel b \<Rightarrow> in_panel (b, answer) st
      | InDialog b \<Rightarrow> in_dialog (b, answer) st
      | InVote b \<Rightarrow> in_vote (b, answer) st
      | InHistory b \<Rightarrow> if InHistory b \<in> set (offers_all (app_view st)) then in_history b st else st
      | InEditor b \<Rightarrow> in_editor (b, answer) st)"

text \<open>Time passes for the overlay on the screen and for the dropped ones.\<close>

definition wait_animation :: "nat \<Rightarrow> string option Animation \<Rightarrow> string option Animation \<times> string option list" where
  "wait_animation d a = animation_step \<lparr>isActive = True, onComplete = None\<rparr> a (AWait d, True)"

definition app_wait :: "nat \<Rightarrow> App_State \<Rightarrow> App_State" where
  "app_wait d st =
     (let on_screen = map (wait_animation d) (case ch_animation (ap_children st) of None \<Rightarrow> [] | Some a \<Rightarrow> [a]);
          others = map (wait_animation d) (ap_orphans st);
          done = concat (map snd (on_screen @ others))
      in page_events (map AnimationComplete done)
        (st\<lparr>ap_now := ap_now st + d, ap_orphans := map fst others,
           ap_children := (ap_children st)\<lparr>ch_animation :=
             (case on_screen of [] \<Rightarrow> None | x # _ \<Rightarrow> Some (fst x))\<rparr>\<rparr>))"

text \<open>What happens to the page: the server, its timers and its mounting; the user; and the clock.\<close>

definition from_outside :: "page_event \<Rightarrow> bool" where
  "from_outside e \<longleftrightarrow> (case e of Mounted \<Rightarrow> True | Message _ \<Rightarrow> True | Answered _ _ \<Rightarrow> True | PollTimer \<Rightarrow> True | _ \<Rightarrow> False)"

datatype app_event =
    Outside page_event
  | Act view_action bool
  | SidebarAnswer "js_error + RoleConfig"
  | Wait nat

definition app_step :: "App_State \<Rightarrow> app_event \<Rightarrow> App_State" where
  "app_step st e =
     (case e of
        Outside o' \<Rightarrow> if from_outside o' then page_events [o'] st else st
      | Act a answer \<Rightarrow> app_act a answer st
      | SidebarAnswer a \<Rightarrow> upd_children (\<lambda>ch. ch\<lparr>ch_sidebar := map_option (sidebar_answered a) (ch_sidebar ch)\<rparr>) st
      | Wait d \<Rightarrow> app_wait d st)"

abbreviation app_run :: "App_State \<Rightarrow> app_event list \<Rightarrow> App_State" where
  "app_run \<equiv> run app_step"

inductive app_reachable :: "App_State \<Rightarrow> bool" where
  start: "app_reachable (mount_app room_code view_param st)"
| step: "app_reachable st \<Longrightarrow> app_reachable (app_step st e)"

lemma reachable_run: "app_reachable st \<Longrightarrow> app_reachable (app_run st es)"
  by (induction es arbitrary: st) (auto intro: app_reachable.step)

section \<open>The requests of the user\<close>

definition by_user :: "task \<Rightarrow> bool" where
  "by_user t \<longleftrightarrow>
     (case t of
        T_Nickname _ _ \<Rightarrow> True | T_Leave _ \<Rightarrow> True | T_Start \<Rightarrow> True | T_Reset \<Rightarrow> True | T_Hostages _ _ _ \<Rightarrow> True
      | T_Ready _ _ \<Rightarrow> True | T_Transfer _ _ \<Rightarrow> True | T_StartVote _ _ _ \<Rightarrow> True | T_CastVote _ _ _ \<Rightarrow> True
      | _ \<Rightarrow> False)"

text \<open>The event of the page behind a request, and where the request takes its data from.\<close>

definition request_of :: "Room_Page \<Rightarrow> page_event \<Rightarrow> task \<Rightarrow> bool" where
  "request_of s e t \<longleftrightarrow>
     (case (t, currentPlayer s) of
        (T_Start, _) \<Rightarrow> e = StartGame
      | (T_Reset, _) \<Rightarrow> e = ResetGame
      | (T_Nickname i n, Some p) \<Rightarrow> e = SubmitNickname n \<and> i = player_id p
      | (T_Leave i, Some p) \<Rightarrow> e = Home \<and> i = player_id p
      | (T_Hostages rc i ids, Some p) \<Rightarrow> e = PanelCommand (SelectHostages ids) \<and> i = player_id p \<and> map_option code (room s) = Some rc
      | (T_Ready rc i, _) \<Rightarrow> e = PanelCommand LeaderReady \<and> map_option code (room s) = Some rc \<and>
          i = or_else (map_option player_id (currentPlayer s)) ''''
      | (T_Transfer i n, Some p) \<Rightarrow>
          (e = PanelCommand (TransferLeadership n) \<or> e = DialogCommand (OnTransfer n)) \<and> i = player_id p
      | (T_StartVote i c l, Some p) \<Rightarrow> e = StartVote \<and> i = player_id p \<and> currentRoom s = Some c \<and>
          map_option leader_id (myLeader c s) = Some l
      | (T_CastVote v i w, Some p) \<Rightarrow> e = CastVote w \<and> i = player_id p \<and> map_option voteID (activeVoteSession s) = Some v
      | _ \<Rightarrow> False)"

abbreviation pending :: "task \<Rightarrow> Room_Page \<Rightarrow> nat" where
  "pending t s \<equiv> count (mset (tasks s)) t"

lemma pending_resume:
  assumes "by_user t"
  shows "pending t (fst (resume u a s)) = pending t s"
  using assms
  by (cases u; cases a)
    (auto simp: by_user_def resume_defs page_frame add_task_def init_joined_def init_join_def init_room_def init_refresh_def
      init_round_def init_vote_def init_restore_def init_done_def init_failed_def exchange_room_def
      Let_def set_room_players_def set_view_def open_vote_def split: option.split)

lemma pending_message: "by_user t \<Longrightarrow> pending t (on_lastMessage m s) = pending t s"
  by (cases m) (auto simp: by_user_def on_lastMessage_def handle_message_def page_frame on_role_assigned_def
      on_vote_completed_def fetchRoom_def add_task_def Let_def split: option.split)

lemma request_from_event:
  assumes "by_user t" "pending t s < pending t (page_step s e)"
  shows "request_of s e t"
proof -
  have h: "pending t s < pending t (fst (handle_event e s))"
    using assms(2) by (simp add: page_step_def page_frame)
  show ?thesis
  proof (cases e)
    case (Answered i a)
    have "\<not> pending t s < pending t (fst (handle_event e s))"
    proof (cases "i < length (tasks s)")
      case True
      then show ?thesis
        using Answered pending_resume [OF assms(1)] taken_mset [OF True]
        by (auto simp: handle_event_def take_task_def not_less dest!: arg_cong [where f = "\<lambda>m. count m t"] split: if_splits)
    qed (simp add: Answered handle_event_def take_task_def)
    with h show ?thesis by simp
  next
    case (Message m)
    then show ?thesis using h pending_message [OF assms(1)] by (simp add: handle_event_def)
  qed (use assms(1) h in \<open>auto simp: by_user_def request_of_def handle_event_defs page_frame initializeRoom_def fetchRoom_def
        add_task_def myLeader_def Let_def or_else_def
        split: option.splits panel_command.splits modal_command.splits prod.splits if_splits task.splits\<close>)
qed

lemma request_from_run:
  assumes "by_user t" "pending t s < pending t (page_run s es)"
    and "length es \<le> 1 \<or> list_all (\<lambda>e. \<exists>p. e = AnimationComplete p) es"
  shows "\<exists>e. es = [e] \<and> request_of s e t"
proof -
  have a: "\<not> request_of s' (AnimationComplete p) t" for s' p
    by (auto simp: request_of_def split: task.splits option.splits)
  have "pending t (page_run s' es') \<le> pending t s'" if "list_all (\<lambda>e. \<exists>p. e = AnimationComplete p) es'" for s' es'
    using that
  proof (induction es' arbitrary: s')
    case (Cons e es')
    then obtain p where "e = AnimationComplete p" by auto
    then have "pending t (page_step s' e) \<le> pending t s'"
      using a request_from_event [OF assms(1), of s' e] not_le by blast
    with Cons show ?case by (auto intro: order_trans)
  qed simp
  with assms(2,3) have "length es \<le> 1" by (meson not_le)
  with assms(2) obtain e where "es = [e]" by (cases es) auto
  with assms(1,2) show ?thesis by (auto intro: request_from_event)
qed

text \<open>A step of a component asks at most one thing of the page.\<close>

lemma one_command:
  "length (snd (timer_panel_step p x a)) \<le> 1" "length (snd (modal_step q y b)) \<le> 1"
  "length (snd (vote_page_step v w c)) \<le> 1" "length (snd (editor_step n z d)) \<le> 1"
proof -
  show "length (snd (timer_panel_step p x a)) \<le> 1"
    by (cases a; cases "fst a") (auto simp: timer_panel_handlers split: option.split prod.split)
  show "length (snd (modal_step q y b)) \<le> 1" by (cases "fst b") (auto simp: modal_handlers)
  show "length (snd (vote_page_step v w c)) \<le> 1"
    by (cases "fst c") (auto simp: vote_page_step_def vote_handle_def handleVoteClick_def)
  show "length (snd (editor_step n z d)) \<le> 1"
    by (cases "fst d") (auto simp: editor_step_def handleSubmit_def Let_def)
qed

lemma interact_one:
  assumes "\<And>p s e. length (snd (step p s e)) \<le> 1" "interact offered step s e = (s', cs)"
  shows "length cs \<le> 1"
  using assms(1) [of "fst e" s "snd e"] assms(2) by (cases "offered (fst e) s (fst (snd e))") (simp_all add: interact_def)

lemma interact_command:
  "interact offered step s (p, a) = (s', cs) \<Longrightarrow> c \<in> set cs \<Longrightarrow>
    offered p s (fst a) \<and> step p s a = (s', cs)"
  by (auto simp: interact_def split: if_splits)

text \<open>A request that a component causes comes from the one command of its step.\<close>

lemma component_request:
  assumes "by_user t" "\<And>p s e. length (snd (step p s e)) \<le> 1"
    and "interact offered step x (p, a) = (x', cs)" "pending t s < pending t (page_run s (map f cs))"
  obtains q where "offered p x (fst a)" "q \<in> set (snd (step p x a))" "request_of s (f q) t"
proof -
  have "length (map f cs) \<le> 1" using interact_one [OF assms(2,3)] by simp
  from request_from_run [OF assms(1,4) disjI1 [OF this]]
  obtain q where "cs = [q]" "request_of s (f q) t" by (auto simp: map_eq_Cons_conv)
  then show thesis using that interact_command [OF assms(3), of q] by simp
qed

text \<open>What is legal for a request, in the state in which the user makes it.\<close>

definition leads :: "RoomColor \<Rightarrow> Player \<Rightarrow> Room_Page \<Rightarrow> bool" where
  "leads c p s \<longleftrightarrow> Some (player_id p) = map_option leader_id (if c = RED_ROOM then redLeader s else blueLeader s)"

definition room_round :: "Room \<Rightarrow> RoundState option" where
  "room_round r = (case gameSession r of None \<Rightarrow> None | Some g \<Rightarrow> roundState g)"

definition legal_request :: "Room_Page \<Rightarrow> task \<Rightarrow> bool" where
  "legal_request s t \<longleftrightarrow>
     (case (t, screen_of s) of
        (T_Start, LobbyView r p) \<Rightarrow> isOwner p \<and> 6 \<le> length (players r)
      | (T_Nickname i n, LobbyView r p) \<Rightarrow> i = player_id p \<and> 2 \<le> length n \<and> length n \<le> 20
      | (T_Leave i, LobbyView r p) \<Rightarrow> i = player_id p
      | (T_Leave i, ErrorScreen) \<Rightarrow> map_option player_id (currentPlayer s) = Some i
      | (T_Reset, GameView r p _ _ c) \<Rightarrow> isOwner p
      | (T_StartVote i d l, GameView r p _ _ c) \<Rightarrow> i = player_id p \<and> d = c \<and> \<not> leads c p s \<and>
          0 < currentRound s \<and> 3 \<le> length (if c = RED_ROOM then redRoomPlayers s else blueRoomPlayers s) \<and>
          activeVoteSession s = None \<and>
          map_option leader_id (if c = RED_ROOM then redLeader s else blueLeader s) = Some l
      | (T_Hostages rc i ids, GameView r p _ _ c) \<Rightarrow> rc = code r \<and> i = player_id p \<and> leads c p s \<and>
          0 < currentRound s \<and> distinct ids \<and>
          (case room_round r of None \<Rightarrow> False
           | Some rs \<Rightarrow> rs_status rs = SELECTING \<and> (if c = RED_ROOM then redHostages rs else blueHostages rs) = [] \<and>
               int (length ids) = hostageCount rs)
      | (T_Ready rc i, GameView r p _ _ c) \<Rightarrow> rc = code r \<and> i = player_id p \<and> leads c p s \<and> 0 < currentRound s \<and>
          (case room_round r of None \<Rightarrow> False
           | Some rs \<Rightarrow> rs_status rs = COMPLETE \<and> \<not> (if c = RED_ROOM then redLeaderReady rs else blueLeaderReady rs))
      | (T_Transfer i n, GameView r p _ _ c) \<Rightarrow> i = player_id p \<and> n \<noteq> '''' \<and> leads c p s \<and> 0 < currentRound s \<and>
          (case room_round r of None \<Rightarrow> False | Some rs \<Rightarrow> rs_status rs = ACTIVE)
      | (T_CastVote v i w, VoteView vs p c) \<Rightarrow> v = voteID vs \<and> i = player_id p \<and> voteResult s = None \<and>
          \<not> hasVoted s \<and> w \<in> set (ballot (vote_page_props vs p c s))
      | _ \<Rightarrow> False)"

lemma leads_isLeader: "leads c p s = isLeader c p s"
  by (simp add: leads_def isLeader_def myLeader_def)

lemma room_round_bind: "room_round r = Option.bind (gameSession r) roundState"
  by (simp add: room_round_def split: option.split)

lemmas legal_defs = legal_request_def leads_isLeader room_round_bind myLeader_def playersInMyRoom_def
  panel_shown_def my_hostages_def isMyTurnReady_def vote_can_start_def

section \<open>What holds of the whole\<close>

definition children_fit :: "Room_Page \<Rightarrow> Children \<Rightarrow> bool" where
  "children_fit s ch \<longleftrightarrow>
     (case screen_of s of
        GameView r p ro t c \<Rightarrow>
          (ch_panel ch \<noteq> None) = panel_shown c p s \<and> ch_dialog ch \<noteq> None \<and> (ch_history ch \<noteq> None) = history_shown s \<and>
          ch_animation ch \<noteq> None \<and> ch_vote ch = None \<and> ch_editor ch = None \<and> ch_sidebar ch = None
      | VoteView v p c \<Rightarrow> ch_vote ch \<noteq> None \<and> ch = no_children\<lparr>ch_vote := ch_vote ch\<rparr>
      | LobbyView r p \<Rightarrow> ch_editor ch \<noteq> None \<and> ch_sidebar ch \<noteq> None \<and>
          ch = no_children\<lparr>ch_editor := ch_editor ch, ch_sidebar := ch_sidebar ch\<rparr>
      | _ \<Rightarrow> ch = no_children)"

definition panel_distinct :: "Children \<Rightarrow> bool" where
  "panel_distinct ch \<longleftrightarrow> (case ch_panel ch of None \<Rightarrow> True | Some x \<Rightarrow> distinct (tp_selectedHostages x))"

lemma mounted_fit: "children_fit s (mount_children now s ch)"
  by (cases "screen_of s") (simp_all add: children_fit_def mount_children_def no_children_def kept_def)

lemma mounted_distinct: "panel_distinct ch \<Longrightarrow> panel_distinct (mount_children now s ch)"
  by (cases "screen_of s")
    (auto simp: panel_distinct_def mount_children_def no_children_def kept_def init_timer_panel_def split: option.splits)

definition app_inv :: "App_State \<Rightarrow> bool" where
  "app_inv st \<longleftrightarrow> children_fit (ap_page st) (ap_children st) \<and> panel_distinct (ap_children st)"

lemma inv_page_events: "panel_distinct (ap_children st) \<Longrightarrow> app_inv (page_events es st)"
  by (simp add: app_inv_def page_events_def Let_def mounted_fit mounted_distinct)

lemma inv_in_panel: "app_inv st \<Longrightarrow> app_inv (in_panel a st)"
proof -
  assume inv: "app_inv st"
  have "panel_distinct (ap_children (upd_children (\<lambda>ch. ch\<lparr>ch_panel := Some x'\<rparr>) st))"
    if "ch_panel (ap_children st) = Some x" "interact timer_panel_offers timer_panel_step x (q, a) = (x', cs)" for x x' cs q
    using that inv timer_panel.distinct_step [of x q a]
    by (auto simp: app_inv_def panel_distinct_def upd_children_def interact_def split: if_splits)
  then show ?thesis
    using inv by (auto simp: in_panel_def inv_page_events split: screen.split option.split prod.split)
qed

lemma inv_in_others:
  assumes "app_inv st"
  shows "app_inv (in_dialog a st)" "app_inv (in_vote b st)" "app_inv (in_editor c st)" "app_inv (in_history d st)"
proof -
  have k: "app_inv (page_events es (upd_children f st))" if "\<And>ch. ch_panel (f ch) = ch_panel ch" for es f
    using assms that by (intro inv_page_events) (simp add: app_inv_def panel_distinct_def upd_children_def)
  show "app_inv (in_dialog a st)" using assms by (auto simp: in_dialog_def k split: screen.split option.split prod.split)
  show "app_inv (in_vote b st)" using assms by (auto simp: in_vote_def k split: screen.split option.split prod.split)
  show "app_inv (in_editor c st)" using assms by (auto simp: in_editor_def k split: screen.split option.split prod.split)
  show "app_inv (in_history d st)"
    using assms
    by (auto simp: in_history_def app_inv_def upd_children_def panel_distinct_def children_fit_def no_children_def split: screen.splits)
qed

lemma inv_app_step:
  assumes "app_inv st"
  shows "app_inv (app_step st e)"
proof (cases e)
  case (Outside o')
  then show ?thesis using assms by (auto simp: app_step_def app_inv_def intro!: inv_page_events [unfolded app_inv_def])
next
  case (Act a ans)
  have "app_inv (page_events es st)" for es using assms by (intro inv_page_events) (simp add: app_inv_def)
  then show ?thesis
    using Act assms inv_in_panel inv_in_others [OF assms] by (cases a) (simp_all add: app_step_def app_act_def)
next
  case (SidebarAnswer a)
  then show ?thesis
    using assms
    by (auto simp: app_step_def app_inv_def upd_children_def panel_distinct_def children_fit_def no_children_def split: screen.splits)
next
  case (Wait d)
  show ?thesis
    unfolding Wait app_step_def app_wait_def Let_def app_event.case
    by (rule inv_page_events) (use assms in \<open>simp add: app_inv_def panel_distinct_def\<close>)
qed

lemma reachable_inv: "app_reachable st \<Longrightarrow> app_inv st"
proof (induction rule: app_reachable.induct)
  case (start rc v st)
  show ?case by (simp add: app_inv_def mount_app_def children_fit_def panel_distinct_def screen_of_def mount_room_page_def no_children_def)
qed (rule inv_app_step)

section \<open>The requests are legal\<close>

lemma game_screen:
  "screen_of s = GameView r p ro t c \<Longrightarrow> room s = Some r \<and> currentPlayer s = Some p \<and> currentRoom s = Some c"
  by (auto simp: screen_of_def split: if_splits option.splits)

lemma vote_screen:
  "screen_of s = VoteView v p c \<Longrightarrow> activeVoteSession s = Some v \<and> currentPlayer s = Some p \<and> currentRoom s = Some c"
  by (auto simp: screen_of_def split: if_splits option.splits)

lemma lobby_screen: "screen_of s = LobbyView r p \<Longrightarrow> room s = Some r \<and> currentPlayer s = Some p"
  by (auto simp: screen_of_def split: if_splits option.splits)

text \<open>What a leader's panel can ask for, in terms of its round.\<close>

definition panel_right :: "RoomColor \<Rightarrow> RoundState \<Rightarrow> Timer_Panel \<Rightarrow> panel_command \<Rightarrow> bool" where
  "panel_right c rs x q \<longleftrightarrow>
     (case q of
        SelectHostages ids \<Rightarrow> rs_status rs = SELECTING \<and> my_hostages c rs = [] \<and>
          ids = tp_selectedHostages x \<and> int (length ids) = hostageCount rs
      | LeaderReady \<Rightarrow> rs_status rs = COMPLETE \<and> isMyTurnReady c rs
      | TransferLeadership n \<Rightarrow> rs_status rs = ACTIVE \<and> n \<noteq> ''''
      | _ \<Rightarrow> True)"

lemma panel_asks:
  assumes "timer_panel_offers p x (fst a)" "q \<in> set (snd (timer_panel_step p x a))"
  shows "\<exists>rs. tp_roundState p = Some rs \<and> panel_right (tp_currentRoom p) rs x q"
proof -
  obtain rs where rs: "tp_roundState p = Some rs"
    and o: "case rs_status rs of
        ACTIVE \<Rightarrow> fst a \<in> set (offers_all (render_active_phase p rs x))
      | SELECTING \<Rightarrow> \<not> hostagesSelected (tp_currentRoom p) rs \<and> fst a \<in> set (offers_all (render_selecting_phase p rs x))
      | COMPLETE \<Rightarrow> fst a \<in> set (offers_all (render_complete_phase p rs x))
      | _ \<Rightarrow> False"
    using assms(1) by (auto simp: offers_timer_panel)
  have "panel_right (tp_currentRoom p) rs x q"
    using o assms(2) rs
    by (cases "rs_status rs"; cases a; cases "fst a")
      (auto simp: panel_right_def offers_active_phase offers_selecting_phase offers_complete_phase timer_panel_handlers
        set_size_def hostagesSelected_def split: if_splits panel_command.splits)
  with rs show ?thesis by blast
qed

lemma legal_from_panel:
  assumes "by_user t" "app_inv st" "pending t (ap_page st) < pending t (ap_page (in_panel a st))"
  shows "legal_request (ap_page st) t"
proof -
  let ?s = "ap_page st"
  obtain r p ro k c x where g: "screen_of ?s = GameView r p ro k c" and x: "ch_panel (ap_children st) = Some x"
    using assms(3) by (auto simp: in_panel_def split: screen.splits option.splits)
  obtain x' cs where i: "interact timer_panel_offers timer_panel_step x (panel_props r p c ?s, a) = (x', cs)"
    by (cases "interact timer_panel_offers timer_panel_step x (panel_props r p c ?s, a)")
  have s: "ap_page (in_panel a st) = page_run ?s (map PanelCommand cs)"
    by (simp add: in_panel_def g x i page_events_def upd_children_def Let_def)
  obtain q where o: "timer_panel_offers (panel_props r p c ?s) x (fst a)" and st: "q \<in> set (snd (timer_panel_step (panel_props r p c ?s) x a))"
      and e: "request_of ?s (PanelCommand q) t"
    using component_request [OF assms(1) one_command(1) i, of ?s PanelCommand] assms(3) s by auto
  have d: "distinct (tp_selectedHostages x)" and sh: "panel_shown c p ?s"
    using assms(2) x g by (auto simp: app_inv_def panel_distinct_def children_fit_def)
  have props: "tp_roundState (panel_props r p c ?s) = Option.bind (gameSession r) roundState"
      "tp_currentRoom (panel_props r p c ?s) = c"
    by (simp_all add: panel_props_def)
  obtain rs where rs: "Option.bind (gameSession r) roundState = Some rs" and q': "panel_right c rs x q"
    using panel_asks [OF o st] unfolding props by blast
  show ?thesis
    using e q'
    by (cases t; cases q) (simp_all add: request_of_def legal_defs or_else_def panel_right_def g game_screen [OF g] d sh [unfolded panel_shown_def] rs split: if_splits)
qed

lemma buttons_offered:
  assumes "app_inv st"
  shows "Page e \<in> set (offers_all (app_view st)) \<longleftrightarrow> e \<in> page_buttons (screen_of (ap_page st)) (ap_page st)"
proof -
  have "{e. Page e \<in> set (offers_all (app_view st))} = page_buttons (screen_of (ap_page st)) (ap_page st)"
    unfolding app_view_def using assms by (intro offers_page) (simp add: app_inv_def children_fit_def)
  then show ?thesis by blast
qed

text \<open>
  The page of the composed state runs the events that the components and the outside give it; what
  the user does on the screen reaches the page as the user's events.
\<close>

lemma callbacks_run:
  assumes "\<And>x. \<not> from_outside (g x)"
  shows "\<exists>es. ap_page (page_events (map g cs) (upd_children f st)) = page_run (ap_page st) es \<and>
    list_all (\<lambda>e. \<not> from_outside e) es"
  by (rule exI [of _ "map g cs"]) (simp add: page_events_def upd_children_def Let_def assms list_all_iff)

lemma act_page_run:
  assumes "app_inv st"
  shows "\<exists>es. ap_page (app_act a ans st) = page_run (ap_page st) es \<and> list_all (\<lambda>e. \<not> from_outside e) es"
proof -
  have n: "\<exists>es. ap_page st = page_run (ap_page st) es \<and> list_all (\<lambda>e. \<not> from_outside e) es"
    by (rule exI [of _ "[]"]) simp
  note c = callbacks_run [of PanelCommand] callbacks_run [of DialogCommand] callbacks_run [of vote_callback]
    callbacks_run [of SubmitNickname]
  have g: "\<not> from_outside (PanelCommand x)" "\<not> from_outside (DialogCommand y)" "\<not> from_outside (vote_callback z)"
      "\<not> from_outside (SubmitNickname w)" for x y z w
    by (simp_all add: from_outside_def vote_callback_def split: vote_command.split)
  show ?thesis
  proof (cases a)
    case (Page e)
    have "\<not> from_outside e" if "e \<in> page_buttons (screen_of (ap_page st)) (ap_page st)"
      using that by (cases "screen_of (ap_page st)") (auto simp: page_buttons_def from_outside_def split: if_splits)
    then show ?thesis
      using n callbacks_run [of "\<lambda>_. e" "[()]" id st] buttons_offered [OF assms, of e]
      by (auto simp: app_act_def Page upd_children_def)
  next
    case (InPanel b)
    then show ?thesis using n c(1) g(1) by (simp add: app_act_def in_panel_def split: screen.split option.split prod.split)
  next
    case (InDialog b)
    then show ?thesis using n c(2) g(2) by (simp add: app_act_def in_dialog_def split: screen.split option.split prod.split)
  next
    case (InVote b)
    then show ?thesis using n c(3) g(3) by (simp add: app_act_def in_vote_def split: screen.split option.split prod.split)
  next
    case (InHistory b)
    then show ?thesis using n by (simp add: app_act_def in_history_def upd_children_def)
  next
    case (InEditor b)
    then show ?thesis using n c(4) g(4) by (simp add: app_act_def in_editor_def split: screen.split option.split prod.split)
  qed
qed

lemma app_page_run:
  assumes "app_inv st"
  shows "\<exists>es. ap_page (app_step st e) = page_run (ap_page st) es"
proof (cases e)
  case (Act a ans)
  then show ?thesis using act_page_run [OF assms, of a ans] by (auto simp: app_step_def)
next
  case (Wait d)
  show ?thesis unfolding Wait app_step_def app_wait_def Let_def app_event.case
    by (auto simp: page_events_def Let_def)
next
  case (Outside o')
  then show ?thesis
    by (cases "from_outside o'")
      (auto simp: app_step_def page_events_def Let_def intro: exI [of _ "[o']"] exI [of _ "[]"])
next
  case (SidebarAnswer a)
  then show ?thesis by (auto simp: app_step_def upd_children_def intro: exI [of _ "[]"])
qed

lemma reachable_no_dialog: "app_reachable st \<Longrightarrow> \<not> showTransferModal (ap_page st)"
proof (induction rule: app_reachable.induct)
  case (step st e)
  obtain es where es: "ap_page (app_step st e) = page_run (ap_page st) es"
    using app_page_run [OF reachable_inv [OF step.hyps]] by blast
  have "list_all (\<lambda>_. True) es" by (simp add: list_all_iff)
  then show ?case unfolding es using step.IH by (rule dialog_closed.inv_page_run [rotated])
qed (simp add: mount_app_def mount_room_page_def)

lemma legal_from_dialog:
  assumes "by_user t" "\<not> showTransferModal (ap_page st)"
  shows "pending t (ap_page (in_dialog a st)) \<le> pending t (ap_page st)"
proof -
  have "snd (interact modal_offers modal_step x (dialog_props p c (ap_page st), a)) = []" for x p c
    using assms(2) by (cases a; cases "fst a") (auto simp: interact_def modal_offers_iff dialog_props_def modal_handlers)
  then have "\<exists>x'. interact modal_offers modal_step x (dialog_props p c (ap_page st), a) = (x', [])" for x p c
    by (metis prod.collapse)
  then show ?thesis
    by (auto simp: in_dialog_def page_events_def upd_children_def Let_def split: screen.split option.split prod.split)
      (metis Pair_inject list.simps(8) run_Nil order_refl)
qed

lemma legal_from_vote:
  assumes "by_user t" "pending t (ap_page st) < pending t (ap_page (in_vote a st))"
  shows "legal_request (ap_page st) t"
proof -
  let ?s = "ap_page st"
  obtain v p c x where g: "screen_of ?s = VoteView v p c" and x: "ch_vote (ap_children st) = Some x"
    using assms(2) by (auto simp: in_vote_def split: screen.splits option.splits)
  obtain x' cs where i: "interact vote_page_offers vote_page_step x (vote_page_props v p c ?s, a) = (x', cs)"
    by (cases "interact vote_page_offers vote_page_step x (vote_page_props v p c ?s, a)")
  have s: "ap_page (in_vote a st) = page_run ?s (map vote_callback cs)"
    by (simp add: in_vote_def g x i page_events_def upd_children_def Let_def)
  obtain q where o: "vote_page_offers (vote_page_props v p c ?s) x (fst a)" and st: "q \<in> set (snd (vote_page_step (vote_page_props v p c ?s) x a))"
      and e: "request_of ?s (vote_callback q) t"
    using component_request [OF assms(1) one_command(3) i, of ?s vote_callback] assms(2) s by auto
  have "case q of OnVote w \<Rightarrow> w \<in> set (ballot (vote_page_props v p c ?s)) \<and> voteResult ?s = None \<and> \<not> hasVoted ?s | _ \<Rightarrow> True"
    using o st
    by (cases "fst a") (auto simp: vote_page_offers_iff vote_page_step_def vote_handle_def handleVoteClick_def vote_page_props_def)
  then show ?thesis
    using e
    by (cases t; cases q) (simp_all add: request_of_def legal_request_def vote_callback_def g vote_screen [OF g])
qed

lemma legal_from_editor:
  assumes "by_user t" "pending t (ap_page st) < pending t (ap_page (in_editor a st))"
  shows "legal_request (ap_page st) t"
proof -
  let ?s = "ap_page st"
  obtain r p x where g: "screen_of ?s = LobbyView r p" and x: "ch_editor (ap_children st) = Some x"
    using assms(2) by (auto simp: in_editor_def split: screen.splits option.splits)
  obtain x' cs where i: "interact editor_offers editor_step x (nickname p, a) = (x', cs)"
    by (cases "interact editor_offers editor_step x (nickname p, a)")
  have s: "ap_page (in_editor a st) = page_run ?s (map SubmitNickname cs)"
    by (simp add: in_editor_def g x i page_events_def upd_children_def Let_def)
  obtain n where o: "editor_offers (nickname p) x (fst a)" and st: "n \<in> set (snd (editor_step (nickname p) x a))"
      and e: "request_of ?s (SubmitNickname n) t"
    using component_request [OF assms(1) one_command(4) i, of ?s SubmitNickname] assms(2) s by auto
  have "2 \<le> length n \<and> length n \<le> 20" using o st by (cases a; cases "fst a") (auto simp: editor_offers_iff editor_step_def handleSubmit_def Let_def split: if_splits)
  then show ?thesis
    using e by (cases t) (simp_all add: request_of_def legal_request_def g lobby_screen [OF g])
qed

lemma legal_from_button:
  assumes "by_user t" "e \<in> page_buttons (screen_of s) s" "request_of s e t"
  shows "legal_request s t"
proof (cases "screen_of s")
  case (GameView r p ro k c)
  then show ?thesis
    using assms game_screen [OF GameView]
    by (cases t)
      (auto simp: request_of_def legal_defs page_buttons_def isLeader_def split: if_splits)
next
  case (LobbyView r p)
  then show ?thesis
    using assms lobby_screen [OF LobbyView]
    by (cases t) (auto simp: request_of_def legal_request_def page_buttons_def split: if_splits)
qed (use assms in \<open>cases t; auto simp: request_of_def legal_request_def page_buttons_def by_user_def split: option.splits\<close>)+

lemma outside_asks_nothing:
  "from_outside e \<Longrightarrow> \<not> request_of s e t"
  by (cases e; cases t) (auto simp: from_outside_def request_of_def split: option.splits)

lemma legal_step:
  assumes "app_reachable st" "by_user t" "pending t (ap_page st) < pending t (ap_page (app_step st e))"
  shows "legal_request (ap_page st) t"
proof -
  note inv = reachable_inv [OF assms(1)]
  have p: "pending t (ap_page st) < pending t (page_step (ap_page st) e') \<Longrightarrow> request_of (ap_page st) e' t" for e'
    by (rule request_from_event [OF assms(2)])
  show ?thesis
  proof (cases e)
    case (Outside o')
    then have "from_outside o'" "request_of (ap_page st) o' t"
      using assms(3) p [of o'] by (auto simp: app_step_def page_events_def Let_def split: if_splits)
    then show ?thesis using outside_asks_nothing by blast
  next
    case (Act a ans)
    show ?thesis
    proof (cases a)
      case (Page e')
      then have "e' \<in> page_buttons (screen_of (ap_page st)) (ap_page st)" "request_of (ap_page st) e' t"
        using Act assms(3) p [of e'] buttons_offered [OF inv, of e']
        by (auto simp: app_step_def app_act_def page_events_def Let_def split: if_splits)
      then show ?thesis by (rule legal_from_button [OF assms(2)])
    next
      case (InDialog b)
      then show ?thesis
        using Act assms(3) legal_from_dialog [OF assms(2) reachable_no_dialog [OF assms(1)], of "(b, ans)"]
        by (simp add: app_step_def app_act_def)
    next
      case (InHistory b)
      then show ?thesis
        using Act assms(3) by (simp add: app_step_def app_act_def in_history_def upd_children_def split: if_splits)
    qed (use Act assms(2,3) inv legal_from_panel legal_from_vote legal_from_editor in
        \<open>simp_all add: app_step_def app_act_def\<close>)
  next
    case (Wait d)
    then obtain es where "ap_page (app_step st e) = page_run (ap_page st) (map AnimationComplete es)"
      by (auto simp: app_step_def app_wait_def page_events_def Let_def simp del: map_append concat_append map_map)
    moreover have "\<not> request_of (ap_page st) (AnimationComplete q) t" for q
      by (auto simp: request_of_def split: task.splits option.splits)
    ultimately show ?thesis
      using request_from_run [OF assms(2), of "ap_page st" "map AnimationComplete es"] assms(3)
      by (auto simp: list_all_iff)
  qed (use assms(3) in \<open>simp add: app_step_def upd_children_def\<close>)
qed

text \<open>C1: In every state that the room page and its components can reach, whatever the users, the server
  and the timers do next, each new request that the page sends on behalf of its player is legal on
  the screen that the player sees: hostages come from the leader's own panel while hostages are
  being chosen and none were announced, are distinct and exactly as many as the round asks for;
  votes are on the open vote, from its ballot, by a player who has not voted; a game is started by
  the owner with six players and reset by the owner; and likewise for votes, transfers, readiness
  and nicknames.\<close>

theorem requests_are_legal:
  "let st = app_run (mount_app room_code view_param st0) es; s = ap_page st; s' = ap_page (app_step st e) in
     list_all (\<lambda>t. count (mset (tasks s')) t \<le> count (mset (tasks s)) t \<or> legal_request s t)
       (filter by_user (tasks s'))"
proof -
  have "app_reachable (app_run (mount_app room_code view_param st0) es)"
    by (rule reachable_run) (rule app_reachable.start)
  from legal_step [OF this] show ?thesis
    by (auto simp: Let_def list_all_iff not_le [symmetric])
qed

section \<open>Components and screens\<close>

text \<open>When the page shows the game, a vote and the lobby, in terms of its fields.\<close>

definition page_ready :: "Room_Page \<Rightarrow> bool" where
  "page_ready s \<longleftrightarrow> \<not> loading s \<and> error s = '''' \<and> currentPlayer s \<noteq> None \<and>
     (case room s of None \<Rightarrow> False | Some r \<Rightarrow> status r \<noteq> REVEALING)"

definition shows_game :: "Room_Page \<Rightarrow> bool" where
  "shows_game s \<longleftrightarrow> page_ready s \<and> rp_view s = ''game'' \<and> my_role s \<noteq> None \<and> my_team s \<noteq> None \<and> currentRoom s \<noteq> None"

definition shows_ballot :: "Room_Page \<Rightarrow> bool" where
  "shows_ballot s \<longleftrightarrow> page_ready s \<and> rp_view s = ''vote'' \<and> activeVoteSession s \<noteq> None \<and> currentRoom s \<noteq> None"

definition shows_lobby :: "Room_Page \<Rightarrow> bool" where
  "shows_lobby s \<longleftrightarrow> page_ready s \<and> rp_view s \<notin> {''reveal'', ''vote'', ''game''}"

definition leads_here :: "Room_Page \<Rightarrow> bool" where
  "leads_here s \<longleftrightarrow> (case (currentPlayer s, currentRoom s) of
      (Some p, Some c) \<Rightarrow> leads c p s | _ \<Rightarrow> False)"

lemma screens_by_fields:
  "(case screen_of s of GameView r p ro t c \<Rightarrow> shows_game s \<and> leads_here s = leads c p s | _ \<Rightarrow> \<not> shows_game s) \<and>
   (case screen_of s of VoteView v p c \<Rightarrow> shows_ballot s | _ \<Rightarrow> \<not> shows_ballot s) \<and>
   (case screen_of s of LobbyView r p \<Rightarrow> shows_lobby s | _ \<Rightarrow> \<not> shows_lobby s)"
  by (auto simp: screen_of_def page_ready_def shows_game_def shows_ballot_def shows_lobby_def leads_here_def split: option.splits)

definition components_due :: "Room_Page \<Rightarrow> Children \<Rightarrow> bool" where
  "components_due s ch \<longleftrightarrow>
     (ch_panel ch \<noteq> None) = (shows_game s \<and> leads_here s \<and> 0 < currentRound s) \<and>
     (ch_history ch \<noteq> None) = (shows_game s \<and> historyEvents s \<noteq> []) \<and>
     (ch_animation ch \<noteq> None) = shows_game s \<and> (ch_dialog ch \<noteq> None) = shows_game s \<and>
     (ch_vote ch \<noteq> None) = shows_ballot s \<and> (ch_editor ch \<noteq> None) = shows_lobby s \<and> (ch_sidebar ch \<noteq> None) = shows_lobby s"

lemma fit_due: "children_fit s ch \<Longrightarrow> components_due s ch"
  using screens_by_fields [of s]
  by (cases "screen_of s")
    (auto simp: children_fit_def components_due_def no_children_def panel_shown_def history_shown_def leads_isLeader)

text \<open>The actions that the components with a state have on the screen.\<close>

definition component_actions :: "Room_Page \<Rightarrow> Children \<Rightarrow> view_action set" where
  "component_actions s ch =
     (case ch_panel ch of None \<Rightarrow> {} | Some x \<Rightarrow>
        InPanel ` set (offers_all (RoundTimerPanel (panel_props (the (room s)) (the (currentPlayer s)) (the (currentRoom s)) s) x))) \<union>
     (case ch_vote ch of None \<Rightarrow> {} | Some x \<Rightarrow>
        InVote ` set (offers (VotePage (vote_page_props (the (activeVoteSession s)) (the (currentPlayer s)) (the (currentRoom s)) s) x))) \<union>
     (case ch_editor ch of None \<Rightarrow> {} | Some x \<Rightarrow> InEditor ` set (offers (NicknameEditor (nickname (the (currentPlayer s))) x))) \<union>
     (case ch_history ch of None \<Rightarrow> {} | Some x \<Rightarrow> InHistory ` set (offers_all (RoundHistory (\<lambda>_. None) (historyEvents s) x)))"

lemma overlays_offer_nothing: "\<not> showTransferModal s \<Longrightarrow> offers_all (render_overlays p c ch s) = []"
  by (auto simp: render_overlays_def LeaderTransferModal_def dialog_props_def view_simps split: option.split)

lemma panel_actions:
  "set (offers_all (render_panel r p c ch s)) =
     (if panel_shown c p s then case ch_panel ch of None \<Rightarrow> {} | Some x \<Rightarrow> InPanel ` set (offers_all (RoundTimerPanel (panel_props r p c s) x)) else {})"
  by (cases "ch_panel ch") (simp_all add: render_panel_def offers_El offers_all_map_node offers_all_shown offers_all_Cons offers_all_Nil shown_def)

lemma history_actions:
  "set (offers_all (render_history lt ch s)) =
     (if history_shown s then case ch_history ch of None \<Rightarrow> {} | Some x \<Rightarrow> InHistory ` set (offers_all (RoundHistory lt (historyEvents s) x)) else {})"
  by (cases "ch_history ch") (simp_all add: render_history_def offers_El offers_all_map_node offers_all_shown offers_all_Cons offers_all_Nil shown_def)

lemma game_actions:
  assumes "screen_of s = GameView r p ro t c" "children_fit s ch" "\<not> showTransferModal s" "\<And>e. a \<noteq> Page e"
  shows "a \<in> set (offers (render_game (\<lambda>_. None) r p ro t c ch s)) \<longleftrightarrow> a \<in> component_actions s ch"
proof -
  have n: "a \<noteq> Page e" for e by (rule assms(4))
  have "a \<in> set (offers (render_game (\<lambda>_. None) r p ro t c ch s)) \<longleftrightarrow>
      a \<in> set (offers_all (render_panel r p c ch s)) \<union> set (offers_all (render_history (\<lambda>_. None) ch s))"
    using n by (auto simp: render_game_def render_game_heading_def render_roommates_def render_reset_def
        overlays_offer_nothing [OF assms(3)] view_simps)
  also have "\<dots> \<longleftrightarrow> a \<in> component_actions s ch"
    unfolding panel_actions history_actions using assms(2) game_screen [OF assms(1)]
    by (cases "ch_panel ch"; cases "ch_history ch") (simp_all add: assms(1) children_fit_def component_actions_def)
  finally show ?thesis .
qed

lemma lobby_actions:
  assumes "screen_of s = LobbyView r p" "children_fit s ch" "\<And>e. a \<noteq> Page e"
  shows "a \<in> set (offers (render_lobby b r p ch s)) \<longleftrightarrow> a \<in> component_actions s ch"
proof -
  have n: "a \<noteq> Page e" for e by (rule assms(3))
  obtain x y where xy: "ch_sidebar ch = Some x" "ch_editor ch = Some y" and c: "ch = no_children\<lparr>ch_editor := Some y, ch_sidebar := Some x\<rparr>"
    using assms(1,2) by (auto simp: children_fit_def)
  have "a \<notin> set (offers_all (map (map_node (\<lambda>_. Page ToggleSidebar)) (RoleListSidebar (sidebar_props r s) x)))"
    unfolding offers_all_map_node set_map using n by auto
  then show ?thesis
    using lobby_screen [OF assms(1)] n
    by (auto simp: xy render_lobby_def render_start_def component_actions_def Let_def view_simps)
      (simp_all add: c no_children_def)
qed

lemma view_actions:
  assumes "children_fit s ch" "\<not> showTransferModal s" "\<And>e. a \<noteq> Page e"
  shows "a \<in> set (offers_all (RoomPage (\<lambda>_. None) True ch s)) \<longleftrightarrow> a \<in> component_actions s ch"
proof -
  have n: "a \<noteq> Page e" for e by (rule assms(3))
  have none: "component_actions s no_children = {}" by (simp add: component_actions_def no_children_def)
  show ?thesis
  proof (cases "screen_of s")
    case (GameView r p ro t c)
    then show ?thesis using game_actions [OF GameView assms] by (simp add: RoomPage_def view_simps)
  next
    case (LobbyView r p)
    then show ?thesis using lobby_actions [OF LobbyView assms(1,3)] by (simp add: RoomPage_def view_simps)
  next
    case (VoteView v p c)
    then obtain x where "ch = no_children\<lparr>ch_vote := Some x\<rparr>" using assms(1) by (auto simp: children_fit_def)
    then show ?thesis
      using VoteView vote_screen [OF VoteView]
      by (auto simp: RoomPage_def component_actions_def no_children_def view_simps)
  qed (use assms(1) n none in \<open>auto simp: children_fit_def RoomPage_def render_error_def render_waiting_def render_reveal_def view_simps\<close>)
qed

text \<open>C39: In every reachable state the components that have a state are exactly those that the fields of the
  page call for: the leader's panel in a game whose round has begun while the player leads the own
  room, the history once there is something in it, the dialog and the overlay in the game, the vote
  while one is open and looked at, the editor and the sidebar in the lobby. And the whole tree offers
  the actions of exactly these components, none of the dialog, and the page's own buttons: no
  component is rendered without its state, and none is left out.\<close>

theorem components_on_screen:
  "let st = app_run (mount_app room_code view_param st0) es; s = ap_page st; ch = ap_children st in
     components_due s ch \<and>
     set (offers_all (app_view st)) = Page ` page_buttons (screen_of s) s \<union> component_actions s ch"
proof -
  define st where "st = app_run (mount_app room_code view_param st0) es"
  have r: "app_reachable st" unfolding st_def by (rule reachable_run) (rule app_reachable.start)
  have inv: "app_inv st" by (rule reachable_inv [OF r])
  then have fit: "children_fit (ap_page st) (ap_children st)" by (simp add: app_inv_def)
  have "a \<in> set (offers_all (app_view st)) \<longleftrightarrow>
      a \<in> Page ` page_buttons (screen_of (ap_page st)) (ap_page st) \<union> component_actions (ap_page st) (ap_children st)" for a
  proof (cases "\<exists>e. a = Page e")
    case True
    then obtain e where "a = Page e" by blast
    moreover have "Page e \<notin> component_actions s ch" for s ch by (auto simp: component_actions_def split: option.splits)
    ultimately show ?thesis using buttons_offered [OF inv, of e] by auto
  next
    case False
    then show ?thesis
      using view_actions [OF fit reachable_no_dialog [OF r], of a] by (auto simp: app_view_def)
  qed
  then have "set (offers_all (app_view st)) =
      Page ` page_buttons (screen_of (ap_page st)) (ap_page st) \<union> component_actions (ap_page st) (ap_children st)" by blast
  then show ?thesis unfolding st_def [symmetric] Let_def using fit_due [OF fit] by blast
qed

text \<open>The user's own events never open the vote.\<close>

lemma redirect_view: "rp_view s \<noteq> ''vote'' \<Longrightarrow> rp_view (render_redirect s) \<noteq> ''vote''"
  by (simp add: render_redirect_def set_view_def split: option.split)

lemma after_view:
  "rp_view (save_history old s) = rp_view s" "activeVoteSession (save_history old s) = activeVoteSession s"
  "activeVoteSession (render_redirect s) = activeVoteSession s"
  by (simp_all add: save_history_def render_redirect_def set_view_def split: option.split)

lemma user_view:
  assumes "\<not> from_outside e" "rp_view s \<noteq> ''vote''"
  shows "rp_view (page_step s e) \<noteq> ''vote'' \<and> activeVoteSession (page_step s e) = activeVoteSession s"
proof -
  have "rp_view (fst (handle_event e s)) \<noteq> ''vote'' \<and> activeVoteSession (fst (handle_event e s)) = activeVoteSession s"
    using assms
    by (cases e)
      (auto simp: from_outside_def handle_event_defs page_frame add_task_def set_view_def Let_def
        split: option.split panel_command.split modal_command.split prod.split)
  then show ?thesis by (simp add: page_step_def redirect_view after_view)
qed

lemma user_run_view:
  "list_all (\<lambda>e. \<not> from_outside e) es \<Longrightarrow> rp_view s \<noteq> ''vote'' \<Longrightarrow>
    rp_view (page_run s es) \<noteq> ''vote'' \<and> activeVoteSession (page_run s es) = activeVoteSession s"
proof (induction es arbitrary: s)
  case (Cons e es)
  then show ?case using user_view [of e s] by simp
qed simp

lemma acts_page_run:
  "app_inv st \<Longrightarrow> \<exists>es. ap_page (app_run st (map (\<lambda>(a, ans). Act a ans) as)) = page_run (ap_page st) es \<and>
    list_all (\<lambda>e. \<not> from_outside e) es"
proof (induction as arbitrary: st)
  case Nil
  show ?case by (rule exI [of _ "[]"]) simp
next
  case (Cons x as)
  obtain a ans where x: "x = (a, ans)" by (cases x)
  obtain es where es: "ap_page (app_act a ans st) = page_run (ap_page st) es" "list_all (\<lambda>e. \<not> from_outside e) es"
    using act_page_run [OF Cons.prems] by blast
  have s: "app_step st (Act a ans) = app_act a ans st" by (simp add: app_step_def)
  obtain fs where fs: "ap_page (app_run (app_act a ans st) (map (\<lambda>(a, ans). Act a ans) as)) =
      page_run (ap_page (app_act a ans st)) fs" "list_all (\<lambda>e. \<not> from_outside e) fs"
    using Cons.IH [OF inv_app_step [OF Cons.prems, of "Act a ans"]] unfolding s by blast
  show ?case
    by (rule exI [of _ "es @ fs"]) (use es fs in \<open>simp add: x s run_append list_all_iff ball_Un\<close>)
qed

lemma back_from_vote:
  assumes "screen_of (ap_page st) = VoteView v p c" "ch_vote (ap_children st) = Some x"
  shows "ap_page (app_act (InVote VBack) b st) = page_step (ap_page st) BackToGame"
  using assms
  by (simp add: app_act_def in_vote_def interact_def vote_page_offers_iff vote_page_step_def vote_handle_def
      page_events_def upd_children_def vote_callback_def Let_def)

text \<open>A player who leaves the page of an open vote with its back button cannot return to it: whatever
  the player does on the screens afterwards, no action leads to the vote view again, although the
  vote is still open for the page.\<close>

theorem no_way_back_to_the_vote:
  "let st = app_run (mount_app room_code view_param st0) es;
       st1 = app_act (InVote VBack) b st; st2 = app_run st1 (map (\<lambda>(a, ans). Act a ans) as)
   in case screen_of (ap_page st) of
        VoteView v p c \<Rightarrow> activeVoteSession (ap_page st2) = Some v \<and> rp_view (ap_page st2) \<noteq> ''vote''
      | _ \<Rightarrow> True"
proof -
  define st where "st = app_run (mount_app room_code view_param st0) es"
  have r: "app_reachable st" unfolding st_def by (rule reachable_run) (rule app_reachable.start)
  note inv = reachable_inv [OF r]
  define st1 where "st1 = app_act (InVote VBack) b st"
  have inv1: "app_inv st1" using inv_app_step [OF inv, of "Act (InVote VBack) b"] by (simp add: app_step_def st1_def)
  obtain fs where fs: "ap_page (app_run st1 (map (\<lambda>(a, ans). Act a ans) as)) = page_run (ap_page st1) fs"
      "list_all (\<lambda>e. \<not> from_outside e) fs"
    using acts_page_run [OF inv1] by blast
  have "activeVoteSession (page_run (ap_page st1) fs) = Some v \<and> rp_view (page_run (ap_page st1) fs) \<noteq> ''vote''"
    if v: "screen_of (ap_page st) = VoteView v p c" for v p c
  proof -
    obtain x where "ch_vote (ap_children st) = Some x" using inv v by (auto simp: app_inv_def children_fit_def)
    then have b: "ap_page st1 = page_step (ap_page st) BackToGame" using back_from_vote [OF v] by (simp add: st1_def)
    have "rp_view (ap_page st1) \<noteq> ''vote'' \<and> activeVoteSession (ap_page st1) = activeVoteSession (ap_page st)"
      unfolding b by (auto simp: page_step_def handle_event_def set_view_def save_history_def render_redirect_def split: option.split)
    then show ?thesis using user_run_view [OF fs(2), of "ap_page st1"] vote_screen [OF v] by simp
  qed
  with fs(1) have "case screen_of (ap_page st) of
      VoteView v p c \<Rightarrow> activeVoteSession (ap_page (app_run st1 (map (\<lambda>(a, ans). Act a ans) as))) = Some v \<and>
        rp_view (ap_page (app_run st1 (map (\<lambda>(a, ans). Act a ans) as))) \<noteq> ''vote''
    | _ \<Rightarrow> True"
    by (cases "screen_of (ap_page st)") simp_all
  then show ?thesis unfolding Let_def st_def st1_def .
qed

section \<open>The panel forgets\<close>

lemma game_screen_parts:
  "screen_of s = GameView r p ro t c \<longleftrightarrow>
     \<not> loading s \<and> error s = '''' \<and> room s = Some r \<and> currentPlayer s = Some p \<and> status r \<noteq> REVEALING \<and>
     rp_view s = ''game'' \<and> my_role s = Some ro \<and> my_team s = Some t \<and> currentRoom s = Some c"
  by (auto simp: screen_of_def split: option.splits if_splits)

lemma share_and_back:
  assumes "screen_of s = GameView r p ro t c"
  shows "page_step s ShowReveal = s\<lparr>rp_view := ''reveal''\<rparr>"
    and "page_step (s\<lparr>rp_view := ''reveal''\<rparr>) BackToGame = s"
    and "screen_of (s\<lparr>rp_view := ''reveal''\<rparr>) = RevealView ro t"
proof -
  note f = assms [unfolded game_screen_parts]
  show "page_step s ShowReveal = s\<lparr>rp_view := ''reveal''\<rparr>"
    using f by (simp add: page_step_def handle_event_def set_view_def save_history_def render_redirect_def)
  have "s\<lparr>rp_view := ''game''\<rparr> = s" using f by (cases s) simp
  then show "page_step (s\<lparr>rp_view := ''reveal''\<rparr>) BackToGame = s"
    using f by (simp add: page_step_def handle_event_def set_view_def save_history_def render_redirect_def)
  show "screen_of (s\<lparr>rp_view := ''reveal''\<rparr>) = RevealView ro t"
    using f by (simp add: screen_of_def)
qed

text \<open>A leader who looks at the screen for sharing and comes back finds an empty panel: the hostages
  chosen so far, the readiness and the chosen successor are gone.\<close>

theorem sharing_empties_the_panel:
  "let st = app_run (mount_app room_code view_param st0) es;
       st2 = app_run st [Act (Page ShowReveal) b, Act (Page BackToGame) d]
   in case ch_panel (ap_children st) of
        None \<Rightarrow> True
      | Some x \<Rightarrow> ap_page st2 = ap_page st \<and> ch_panel (ap_children st2) = Some init_timer_panel"
proof -
  define st where "st = app_run (mount_app room_code view_param st0) es"
  have inv: "app_inv st" unfolding st_def by (intro reachable_inv reachable_run app_reachable.start)
  have "ap_page (app_step (app_step st (Act (Page ShowReveal) b)) (Act (Page BackToGame) d)) = ap_page st \<and>
      ch_panel (ap_children (app_step (app_step st (Act (Page ShowReveal) b)) (Act (Page BackToGame) d))) = Some init_timer_panel"
    if x: "ch_panel (ap_children st) = Some x" for x
  proof -
    obtain r p ro t c where g: "screen_of (ap_page st) = GameView r p ro t c" and sh: "panel_shown c p (ap_page st)"
      using inv x by (auto simp: app_inv_def children_fit_def no_children_def split: screen.splits)
    note s = share_and_back [OF g]
    define st1 where "st1 = page_events [ShowReveal] st"
    have p1: "ap_page st1 = (ap_page st)\<lparr>rp_view := ''reveal''\<rparr>" "ch_panel (ap_children st1) = None"
      by (simp_all add: st1_def page_events_def Let_def s mount_children_def no_children_def)
    have a1: "app_step st (Act (Page ShowReveal) b) = st1"
      using buttons_offered [OF inv, of ShowReveal] g by (simp add: app_step_def app_act_def page_buttons_def st1_def)
    have inv1: "app_inv st1" unfolding a1 [symmetric] by (rule inv_app_step [OF inv])
    have a2: "app_step st1 (Act (Page BackToGame) d) = page_events [BackToGame] st1"
      using buttons_offered [OF inv1, of BackToGame] s(3) by (simp add: app_step_def app_act_def page_buttons_def p1)
    show ?thesis
      unfolding a1 a2 by (simp add: page_events_def Let_def p1 s(2) mount_children_def g sh kept_def no_children_def)
  qed
  then show ?thesis unfolding Let_def st_def [symmetric] by (simp split: option.split)
qed

end
