(* ===== verification/Contract.thy ===== *)
theory Contract
  imports Wire Server_Votes Room_App
begin

text \<open>
  The page and the server put together: when what a page shows is what the server holds, which of the
  requests that the page lets its player send does the server accept?
\<close>

section \<open>Requests\<close>

text \<open>
  The request behind a call of the page (\<open>services/api.ts\<close>); the time left for a vote is the server's
  own. A call that only reads has none.
\<close>

definition request_for :: "string \<Rightarrow> int \<Rightarrow> task \<Rightarrow> request option" where
  "request_for rc left t =
     (case t of
        T_InitJoin \<Rightarrow> Some (Join rc)
      | T_Nickname i n \<Rightarrow> Some (Rename rc i n)
      | T_Leave i \<Rightarrow> Some (Leave rc i)
      | T_Start \<Rightarrow> Some (Start rc)
      | T_Reset \<Rightarrow> Some (Reset rc)
      | T_Hostages rc' i ids \<Rightarrow> Some (Select rc' i ids)
      | T_Ready rc' i \<Rightarrow> Some (Ready rc' i)
      | T_Transfer i n \<Rightarrow> Some (Transfer rc i n)
      | T_StartVote i c l \<Rightarrow> Some (Vote rc i l c)
      | T_CastVote v i x \<Rightarrow> Some (Cast rc v i x left)
      | _ \<Rightarrow> None)"

section \<open>A page that shows what the server holds\<close>

definition leader_shown :: "string \<Rightarrow> Go_Room \<Rightarrow> LeaderInfo option" where
  "leader_shown l r = map_option leader_info (find_go l (gr_players r))"

definition vote_candidates :: "VoteSession \<Rightarrow> string list" where
  "vote_candidates x = (case candidates x of None \<Rightarrow> [] | Some cs \<Rightarrow> cs)"

text \<open>The page of player \<open>i\<close>: its room, its player, the players of both rooms, the leaders and the vote.\<close>

definition vote_in_sync :: "string \<Rightarrow> string \<Rightarrow> RoomColor \<Rightarrow> Server \<Rightarrow> Room_Page \<Rightarrow> bool" where
  "vote_in_sync rc i c sv s \<longleftrightarrow>
     (case activeVoteSession s of
        None \<Rightarrow> \<not> HasActiveVote rc c sv
      | Some x \<Rightarrow>
          (case sv_votes sv (voteID x) of
             None \<Rightarrow> False
           | Some v \<Rightarrow> (voteResult s = None \<longrightarrow> gv_status v = VoteActive) \<and> gv_room v = c \<and>
               vote_candidates x = gv_candidates v \<and> (gv_type v = ELECTION) = (gv_candidates v \<noteq> []) \<and>
               hasVoted s = (map_get (gv_votes v) i \<noteq> None)))"

definition in_sync :: "string \<Rightarrow> Server \<Rightarrow> Room_Page \<Rightarrow> Go_Room \<Rightarrow> Go_Player \<Rightarrow> bool" where
  "in_sync rc sv s r p \<longleftrightarrow>
     sv_rooms sv rc = Some r \<and> gr_code r = rc \<and> length rc = 6 \<and>
     find_go (gp_id p) (gr_players r) = Some p \<and> gp_id p \<noteq> '''' \<and>
     room s = Some (page_room r) \<and> currentPlayer s = Some (page_player p) \<and> currentRoom s = gp_room p \<and>
     redRoomPlayers s = map page_player (in_color RED_ROOM (gr_players r)) \<and>
     blueRoomPlayers s = map page_player (in_color BLUE_ROOM (gr_players r)) \<and>
     redLeader s = Option.bind (round_of r) (\<lambda>rs. leader_shown (redLeaderId rs) r) \<and>
     blueLeader s = Option.bind (round_of r) (\<lambda>rs. leader_shown (blueLeaderId rs) r) \<and>
     (case gp_room p of None \<Rightarrow> True | Some c \<Rightarrow> vote_in_sync rc (gp_id p) c sv s)"

text \<open>A player who may be sent to the other room, or become the leader, of the players in a room.\<close>

definition eligible :: "Go_Room \<Rightarrow> RoomColor option \<Rightarrow> string \<Rightarrow> bool" where
  "eligible r c i \<longleftrightarrow>
     map_option gp_room (find_go i (gr_players r)) = Some c \<and>
     (case round_of r of None \<Rightarrow> False | Some rs \<Rightarrow> i \<noteq> redLeaderId rs \<and> i \<noteq> blueLeaderId rs)"

text \<open>
  When the server accepts a request that the page lets a player send: what the page does not check,
  or checks against a list that may be old. The leaders of the two rooms are any players here, even
  the same: an exchange or an election may leave the leader of a room in the other one.
\<close>

definition also_needed :: "Go_Room \<Rightarrow> Go_Player \<Rightarrow> task \<Rightarrow> bool" where
  "also_needed r p t =
     (case t of
        T_Start \<Rightarrow> gr_status r \<noteq> IN_PROGRESS
      | T_Reset \<Rightarrow> gr_status r = IN_PROGRESS
      | T_StartVote _ c l \<Rightarrow> map_option gp_room (find_go l (gr_players r)) = Some (Some c) \<and>
          (case round_of r of None \<Rightarrow> False
           | Some rs \<Rightarrow> rs_status rs \<noteq> SELECTING \<and> gp_id p \<noteq> redLeaderId rs \<and> gp_id p \<noteq> blueLeaderId rs)
      | T_Ready _ _ \<Rightarrow>
          (case round_of r of None \<Rightarrow> False | Some rs \<Rightarrow> gp_id p = redLeaderId rs \<longrightarrow> \<not> redLeaderReady rs)
      | T_Hostages _ _ ids \<Rightarrow> list_all (eligible r (gp_room p)) ids
      | T_Transfer _ n \<Rightarrow> eligible r (gp_room p) n
      | _ \<Rightarrow> True)"

lemma round_shown: "Option.bind (gameSession (page_room r)) roundState = map_option page_round (round_of r)"
  by (cases "gr_session r") (simp_all add: page_room_def page_session_def round_of_def)

lemma page_round_fields [simp]:
  "rs_status (page_round rs) = rs_status rs" "redLeaderId (page_round rs) = redLeaderId rs"
  "blueLeaderId (page_round rs) = blueLeaderId rs" "hostageCount (page_round rs) = hostageCount rs"
  "redHostages (page_round rs) = redHostages rs" "blueHostages (page_round rs) = blueHostages rs"
  "redLeaderReady (page_round rs) = redLeaderReady rs" "blueLeaderReady (page_round rs) = blueLeaderReady rs"
  by (simp_all add: page_round_def)

lemma page_fields [simp]:
  "code (page_room r) = gr_code r" "status (page_room r) = gr_status r" "players (page_room r) = map page_player (gr_players r)"
  "player_id (page_player p) = gp_id p" "isOwner (page_player p) = gp_isOwner p"
  by (simp_all add: page_room_def page_player_def)

lemma leader_id_shown: "map_option leader_id (leader_shown l r) = (if find_go l (gr_players r) = None then None else Some l)"
  using find_holds [of "\<lambda>p. gp_id p = l" "gr_players r"]
  by (cases "find_go l (gr_players r)") (auto simp: leader_shown_def leader_info_def find_go_def)

lemma leader_shown_id: "leader_shown l r = Some z \<Longrightarrow> leader_id z = l"
  using leader_id_shown [of l r] by (auto split: if_splits)

text \<open>On a page in sync the player leads the room that is shown exactly if the server says so.\<close>

lemma leads_on_server:
  assumes "in_sync rc sv s r p" "gp_room p = Some c"
  shows "leads c (page_player p) s \<longleftrightarrow>
    (case round_of r of None \<Rightarrow> False | Some rs \<Rightarrow> gp_id p = (if c = RED_ROOM then redLeaderId rs else blueLeaderId rs))"
  using assms
  by (cases "round_of r") (auto simp: leads_def in_sync_def leader_id_shown)

lemma wrong_hostage_iff:
  "wrong_hostage c ps seen ids = None \<longleftrightarrow>
     distinct ids \<and> set ids \<inter> set seen = {} \<and> list_all (\<lambda>i. map_option gp_room (find_go i ps) = Some c) ids"
  by (induction c ps seen ids rule: wrong_hostage.induct) (auto split: option.splits)

lemma leader_chosen_iff:
  "leader_chosen l rs ids = None \<longleftrightarrow> list_all (\<lambda>i. i \<noteq> l \<and> i \<noteq> redLeaderId rs \<and> i \<noteq> blueLeaderId rs) ids"
  by (induction ids) auto

lemma is_leader: "sv_rooms sv rc = Some r \<Longrightarrow> round_of r = Some rs \<Longrightarrow> IsLeader rc i sv \<longleftrightarrow> redLeaderId rs = i \<or> blueLeaderId rs = i"
  by (simp add: IsLeader_def)

section \<open>One request after the other\<close>

lemma start_accepted:
  assumes "in_sync rc sv s r p" "6 \<le> length (gr_players r)"
  shows "accepted loader w (Start rc) sv \<longleftrightarrow> gr_status r \<noteq> IN_PROGRESS"
  using assms by (simp add: accepted_def handler_checks_def in_sync_def GoStartGame_def Let_def split: prod.split sum.split)

lemma reset_accepted: "in_sync rc sv s r p \<Longrightarrow> accepted loader w (Reset rc) sv \<longleftrightarrow> gr_status r = IN_PROGRESS"
  by (simp add: accepted_def handler_checks_def in_sync_def GoResetGame_def Let_def)

lemma rename_accepted:
  "in_sync rc sv s r p \<Longrightarrow> 2 \<le> length n \<Longrightarrow> length n \<le> 20 \<Longrightarrow> accepted loader w (Rename rc (gp_id p) n) sv"
  by (auto simp: accepted_def handler_checks_def in_sync_def UpdateNickname_def Let_def)

lemma leave_accepted: "in_sync rc sv s r p \<Longrightarrow> accepted loader w (Leave rc (gp_id p)) sv"
  by (simp add: accepted_def handler_checks_def in_sync_def LeaveRoom_def Let_def)

lemma hostages_accepted:
  assumes "in_sync rc sv s r p" "gp_room p = Some c" "leads c (page_player p) s" "round_of r = Some rs"
    "(if c = RED_ROOM then redHostages rs else blueHostages rs) = []" "int (length ids) = hostageCount rs" "distinct ids"
  shows "accepted loader w (Select rc (gp_id p) ids) sv \<longleftrightarrow> list_all (eligible r (gp_room p)) ids"
proof -
  have l: "IsLeader rc (gp_id p) sv" "gp_id p = redLeaderId rs \<or> gp_id p = blueLeaderId rs"
    using leads_on_server [OF assms(1,2)] assms(1,3,4) by (auto simp: is_leader in_sync_def split: if_splits)
  have e: "list_all (eligible r (gp_room p)) ids \<longleftrightarrow>
      leader_chosen (gp_id p) rs ids = None \<and> wrong_hostage (gp_room p) (gr_players r) [] ids = None"
    using l(2) assms(4,7) by (auto simp: eligible_def leader_chosen_iff wrong_hostage_iff list_all_iff)
  show ?thesis
    unfolding e using assms(1,2,4,5,6) l(1)
    by (cases c) (auto simp: accepted_def handler_checks_def in_sync_def GoSelectHostages_def Let_def split: option.splits)
qed

lemma ready_accepted:
  assumes "in_sync rc sv s r p" "gp_room p = Some c" "leads c (page_player p) s" "round_of r = Some rs"
    "\<not> (if c = RED_ROOM then redLeaderReady rs else blueLeaderReady rs)"
  shows "accepted loader w (Ready rc (gp_id p)) sv \<longleftrightarrow> (gp_id p = redLeaderId rs \<longrightarrow> \<not> redLeaderReady rs)"
proof -
  have "gp_id p = (if c = RED_ROOM then redLeaderId rs else blueLeaderId rs)"
    using leads_on_server [OF assms(1,2)] assms(3,4) by simp
  then show ?thesis
    using assms(1,4,5) by (auto simp: accepted_def handler_checks_def in_sync_def GoLeaderReady_def Let_def split: if_splits)
qed

lemma transfer_accepted:
  assumes "in_sync rc sv s r p" "gp_room p = Some c" "leads c (page_player p) s" "round_of r = Some rs"
    "rs_status rs = ACTIVE" "n \<noteq> ''''"
  shows "accepted loader w (Transfer rc (gp_id p) n) sv \<longleftrightarrow> eligible r (gp_room p) n"
proof -
  have l: "IsLeader rc (gp_id p) sv"
    using leads_on_server [OF assms(1,2)] assms(1,3,4) by (auto simp: is_leader in_sync_def split: if_splits)
  show ?thesis
    using assms(1,2,4-6) l
    by (auto simp: accepted_def handler_checks_def in_sync_def GoTransferLeadership_def eligible_def Let_def split: option.splits)
qed

lemma start_vote_accepted:
  assumes "in_sync rc sv s r p" "gp_room p = Some c"
    "3 \<le> length (if c = RED_ROOM then redRoomPlayers s else blueRoomPlayers s)" "activeVoteSession s = None"
    "map_option leader_id (if c = RED_ROOM then redLeader s else blueLeader s) = Some l"
    "list_all (\<lambda>q. gp_id q \<noteq> '''') (gr_players r)"
  shows "accepted loader w (Vote rc (gp_id p) l c) sv \<longleftrightarrow>
    map_option gp_room (find_go l (gr_players r)) = Some (Some c) \<and>
    (case round_of r of None \<Rightarrow> False
     | Some rs \<Rightarrow> rs_status rs \<noteq> SELECTING \<and> gp_id p \<noteq> redLeaderId rs \<and> gp_id p \<noteq> blueLeaderId rs)"
proof -
  obtain rs where rs: "round_of r = Some rs"
    using assms(1,5) by (cases "round_of r") (auto simp: in_sync_def split: if_splits)
  obtain z where z: "leader_shown (if c = RED_ROOM then redLeaderId rs else blueLeaderId rs) r = Some z" "leader_id z = l"
    using assms(1,5) rs by (auto simp: in_sync_def split: if_splits)
  from leader_shown_id [OF z(1)] z(2) have l: "l = (if c = RED_ROOM then redLeaderId rs else blueLeaderId rs)" by simp
  obtain q where q: "find_go l (gr_players r) = Some q"
    using z(1) unfolding l [symmetric] by (auto simp: leader_shown_def)
  have "gp_id q = l" "q \<in> set (gr_players r)" using find_holds [of "\<lambda>p. gp_id p = l" "gr_players r"] q by (auto simp: find_go_def)
  then have t: "IsLeader rc l sv" "l \<noteq> ''''"
    using assms(1,6) rs l by (auto simp: is_leader in_sync_def list_all_iff)
  have n: "3 \<le> length (in_color c (gr_players r))" and v: "\<not> HasActiveVote rc c sv"
    using assms(1-4) by (cases c; auto simp: in_sync_def vote_in_sync_def)+
  show ?thesis
    using assms(1,2) rs t n v q
    by (cases "find_go l (gr_players r)") (auto simp: accepted_def handler_checks_def in_sync_def GoStartVote_def open_session_def Let_def IsLeader_def)
qed

lemma cast_accepted:
  assumes "in_sync rc sv s r p" "gp_room p = Some c" "activeVoteSession s = Some x" "voteResult s = None" "\<not> hasVoted s"
    "y \<in> set (ballot (vote_page_props x (page_player p) c s))" "list_all (\<lambda>q. gp_id q \<noteq> '''') (gr_players r)"
  shows "accepted loader w (Cast rc (voteID x) (gp_id p) y left) sv"
proof -
  obtain v where v: "sv_votes sv (voteID x) = Some v" "gv_status v = VoteActive" "vote_candidates x = gv_candidates v"
      "(gv_type v = ELECTION) = (gv_candidates v \<noteq> [])" "map_get (gv_votes v) (gp_id p) = None"
    using assms(1-5) by (auto simp: in_sync_def vote_in_sync_def split: option.splits)
  have b: "ballot (vote_page_props x (page_player p) c s) = (if gv_candidates v = [] then [''YES'', ''NO'']
      else player_ids (filter (\<lambda>q. player_id q \<in> set (gv_candidates v)) (playersInMyRoom c s)))"
    using v(3) by (cases "candidates x") (auto simp: ballot_def isElection_def candidatePlayers_def vote_page_props_def vote_candidates_def)
  have "player_id q \<noteq> ''''" if "q \<in> set (playersInMyRoom c s)" for q
    using that assms(1,7) by (auto simp: playersInMyRoom_def in_sync_def list_all_iff in_color_def split: if_splits)
  then have y: "y \<noteq> ''''" "gv_type v = REMOVAL \<Longrightarrow> y = ''YES'' \<or> y = ''NO''" "gv_type v = ELECTION \<Longrightarrow> y \<in> set (gv_candidates v)"
    using assms(6) v(4) unfolding b by (auto split: if_splits)
  show ?thesis
    using assms(1) v y by (auto simp: accepted_def handler_checks_def in_sync_def GoCastVote_def Let_def)
qed

section \<open>The contract\<close>

text \<open>C2: When a page shows what the server holds, whoever leads the rooms, the server's answer to every
  request that the page lets its player send, other than to join, is known: leaving, a new name and a
  vote that is cast are always accepted, and the others exactly if what the page does not check holds.
  A start needs a game that is not on, and a reset one that is. A vote may not be started while
  hostages are chosen, nor by a leader of either room, and its target must be in the voters' room,
  where a leader may not be any more after an exchange or an election. A leader of both rooms is
  ready only once. All hostages, or the new leader, must be players of the own room who lead none.
  The players' identifiers are not empty, as those that the server makes.\<close>

theorem legal_requests_are_accepted:
  assumes "in_sync rc sv s r p" "list_all (\<lambda>q. gp_id q \<noteq> '''') (gr_players r)"
    "legal_request s t" "request_for rc left t = Some q" "t \<noteq> T_InitJoin"
  shows "accepted loader w q sv \<longleftrightarrow> also_needed r p t"
proof -
  have pl: "room s = Some (page_room r)" "currentPlayer s = Some (page_player p)" "currentRoom s = gp_room p" "gr_code r = rc"
    using assms(1) by (simp_all add: in_sync_def)
  have rr: "room_round (page_room r) = map_option page_round (round_of r)" by (simp add: room_round_bind round_shown)
  note game = game_screen [of s] and lobby = lobby_screen [of s] and vote = vote_screen [of s]
  show ?thesis
  proof (cases t)
    case T_Start
    then show ?thesis
      using assms(3,4) lobby pl start_accepted [OF assms(1), of loader w]
      by (auto simp: legal_request_def request_for_def also_needed_def split: screen.splits)
  next
    case T_Reset
    then show ?thesis
      using assms(4) reset_accepted [OF assms(1), of loader w] by (auto simp: request_for_def also_needed_def)
  next
    case (T_Nickname i n)
    then show ?thesis
      using assms(3,4) lobby pl rename_accepted [OF assms(1), of n loader w]
      by (auto simp: legal_request_def request_for_def also_needed_def split: screen.splits)
  next
    case (T_Leave i)
    then show ?thesis
      using assms(3,4) lobby pl leave_accepted [OF assms(1), of loader w]
      by (auto simp: legal_request_def request_for_def also_needed_def split: screen.splits)
  next
    case (T_StartVote i d l)
    then show ?thesis
      using assms(3,4) game pl start_vote_accepted [OF assms(1) _ _ _ _ assms(2), of _ l loader w]
      by (auto simp: legal_request_def request_for_def also_needed_def split: screen.splits)
  next
    case (T_Hostages rc' i ids)
    then show ?thesis
      using assms(3,4) game pl rr hostages_accepted [OF assms(1), of _ _ ids loader w]
      by (auto simp: legal_request_def request_for_def also_needed_def split: screen.splits option.splits cong: if_cong)
  next
    case (T_Ready rc' i)
    then show ?thesis
      using assms(3,4) game pl rr ready_accepted [OF assms(1), of _ _ loader w]
      by (auto simp: legal_request_def request_for_def also_needed_def split: screen.splits option.splits cong: if_cong)
  next
    case (T_Transfer i n)
    then show ?thesis
      using assms(3,4) game pl rr transfer_accepted [OF assms(1), of _ _ n loader w]
      by (auto simp: legal_request_def request_for_def also_needed_def split: screen.splits option.splits)
  next
    case (T_CastVote v i y)
    then show ?thesis
      using assms(2,3,4) vote pl cast_accepted [OF assms(1), of _ _ y loader w left]
      by (auto simp: legal_request_def request_for_def also_needed_def split: screen.splits)
  qed (use assms(4,5) in \<open>simp_all add: request_for_def\<close>)
qed

text \<open>The page of the red leader in a game of six, when hostages are to be chosen.\<close>

definition choosing_six :: Go_Room where
  "choosing_six = set_round (round_of_six\<lparr>redHostages := [], blueHostages := []\<rparr>) room_of_six"

definition leader_of_six :: Go_Player where
  "leader_of_six = hd seated_six"

definition leader_page :: Room_Page where
  "leader_page = (mount_room_page ''ABCDEF'' (Some ''game'') wr_storage)
     \<lparr>loading := False, room := Some (page_room choosing_six), currentPlayer := Some (page_player leader_of_six),
      currentRoom := Some RED_ROOM, my_role := Some (page_role RoleBomber), my_team := Some RED, currentRound := 1,
      redRoomPlayers := map page_player (in_color RED_ROOM (gr_players choosing_six)),
      blueRoomPlayers := map page_player (in_color BLUE_ROOM (gr_players choosing_six)),
      redLeader := leader_shown ''a'' choosing_six, blueLeader := leader_shown ''d'' choosing_six\<rparr>"

lemma choosing_six:
  "gr_players choosing_six = seated_six" "gr_code choosing_six = ''ABCDEF''" "gr_status choosing_six = IN_PROGRESS"
  "round_of choosing_six = Some (round_of_six\<lparr>redHostages := [], blueHostages := []\<rparr>)"
  by (simp_all add: choosing_six_def room_of_six_def lobby_of_def set_round_def round_of_def)

lemma leader_page_fields:
  "rp_roomCode leader_page = ''ABCDEF''" "loading leader_page = False" "activeVoteSession leader_page = None"
  "room leader_page = Some (page_room choosing_six)" "currentPlayer leader_page = Some (page_player leader_of_six)"
  "currentRoom leader_page = Some RED_ROOM" "my_role leader_page = Some (page_role RoleBomber)" "my_team leader_page = Some RED"
  "redLeader leader_page = leader_shown ''a'' choosing_six" "blueLeader leader_page = leader_shown ''d'' choosing_six"
  "redRoomPlayers leader_page = map page_player (in_color RED_ROOM (gr_players choosing_six))"
  "blueRoomPlayers leader_page = map page_player (in_color BLUE_ROOM (gr_players choosing_six))"
  "rp_view leader_page = ''game''" "voteResult leader_page = None" "error leader_page = ''''" "currentRound leader_page = 1"
  by (simp_all add: leader_page_def mount_room_page_def or_else_def)

lemma leader_of_six: "gp_id leader_of_six = ''a''" "gp_room leader_of_six = Some RED_ROOM" "gp_isOwner leader_of_six"
    "find_go ''a'' seated_six = Some leader_of_six"
  by (simp_all add: leader_of_six_def seated_six_def six_players_def find_go_def)

lemma leader_page_in_sync: "in_sync ''ABCDEF'' (put_room choosing_six empty_server) leader_page choosing_six leader_of_six"
  by (simp add: in_sync_def leader_page_fields choosing_six vote_in_sync_def HasActiveVote_def empty_server_def put_room_def
      round_of_six_def leader_of_six)

lemma leader_page_legal: "legal_request leader_page (T_Hostages ''ABCDEF'' ''a'' [''b''])"
proof -
  have "screen_of leader_page = GameView (page_room choosing_six) (page_player leader_of_six) (page_role RoleBomber) RED RED_ROOM"
    by (simp add: screen_of_def leader_page_fields choosing_six)
  then show ?thesis
    by (simp add: legal_request_def room_round_bind round_shown choosing_six leads_def leader_page_fields leader_of_six
        leader_id_shown)
      (simp add: seated_six_def six_players_def round_of_six_def leader_shown_def leader_info_def find_go_def)
qed

theorem legal_requests_are_accepted_witness:
  "accepted (\<lambda>_. None) (plain_world '''') (Select ''ABCDEF'' ''a'' [''b'']) (put_room choosing_six empty_server) \<longleftrightarrow>
     also_needed choosing_six leader_of_six (T_Hostages ''ABCDEF'' ''a'' [''b''])"
proof (rule legal_requests_are_accepted [OF leader_page_in_sync _ leader_page_legal])
  show "list_all (\<lambda>q. gp_id q \<noteq> '''') (gr_players choosing_six)" by (simp add: choosing_six seated_six_def six_players_def)
qed (simp_all add: request_for_def)

end
