(* ===== verification/Reopening.thy ===== *)
theory Reopening
  imports Contract
begin

text \<open>
  What the server answers to the requests that change nothing (\<open>handlers/room_handler.go\<close>,
  \<open>handlers/round_handler.go\<close>), and the page that is opened, or opened again, during a game: it asks four
  times, and shows what it is told.
\<close>

section \<open>The answers of the server\<close>

text \<open>The body of an answer, as \<open>response.json()\<close> reads it; the keys of \<open>gin.H\<close> are sorted.\<close>

definition json_answer :: "nat \<Rightarrow> string \<Rightarrow> Json \<Rightarrow> Http_Outcome" where
  "json_answer st statusText j = Response st statusText (json_parse (go_text j))"

definition GoGetRoom :: "string \<Rightarrow> Server \<Rightarrow> Http_Outcome" where
  "GoGetRoom rc sv =
     (if length rc \<noteq> 6 then
        json_answer 400 ''Bad Request'' (JObj [(''code'', JStr ''INVALID_ROOM_CODE''), (''message'', JStr ''Room code must be 6 characters'')])
      else case sv_rooms sv rc of
        None \<Rightarrow> json_answer 404 ''Not Found'' (JObj [(''code'', JStr ''ROOM_NOT_FOUND''), (''message'', JStr ''Room not found'')])
      | Some r \<Rightarrow> json_answer 200 ''OK'' (json_room r))"

definition GetRoundState :: "string \<Rightarrow> Server \<Rightarrow> string + RoundState" where
  "GetRoundState rc sv =
     (case sv_rooms sv rc of
        None \<Rightarrow> Inl ''room not found''
      | Some r \<Rightarrow>
          (case gr_session r of
             None \<Rightarrow> Inl ''no active game session''
           | Some g \<Rightarrow> (case gs_roundState g of None \<Rightarrow> Inl ''no active round'' | Some rs \<Rightarrow> Inr rs)))"

definition GoGetCurrentRound :: "string \<Rightarrow> Server \<Rightarrow> Http_Outcome" where
  "GoGetCurrentRound rc sv =
     (case GetRoundState rc sv of
        Inl e \<Rightarrow> json_answer 404 ''Not Found'' (JObj [(''error'', JStr e)])
      | Inr rs \<Rightarrow> json_answer 200 ''OK'' (JObj
          [(''blueHostagesSelected'', JBool (blueHostages rs \<noteq> [])), (''blueLeader'', JStr (blueLeaderId rs)),
           (''duration'', JNum (rs_duration rs)), (''hostageCount'', JNum (hostageCount rs)),
           (''redHostagesSelected'', JBool (redHostages rs \<noteq> [])), (''redLeader'', JStr (redLeaderId rs)),
           (''roundNumber'', JNum (rs_roundNumber rs)), (''status'', JStr (go_round_status (rs_status rs))),
           (''timeRemaining'', JNum (rs_timeRemaining rs))]))"

definition GetActiveVoteForRoom :: "string \<Rightarrow> RoomColor \<Rightarrow> Server \<Rightarrow> Go_Vote option" where
  "GetActiveVoteForRoom rc c sv =
     (case Option.bind (sv_roomVotes sv (rc, c)) (sv_votes sv) of
        None \<Rightarrow> None
      | Some v \<Rightarrow> if gv_status v \<noteq> VoteActive then None else Some v)"

text \<open>The time left is that of the server's clock. Every vote has thirty seconds.\<close>

definition json_active_vote :: "int \<Rightarrow> Go_Vote \<Rightarrow> Json" where
  "json_active_vote left v = JObj
     [(''initiatorId'', JStr (gv_initiator v)), (''initiatorName'', JStr (gv_initiatorName v)),
      (''roomColor'', JStr (go_room_color (gv_room v))), (''startedAt'', JStr (gv_startedAt v)),
      (''targetLeaderId'', JStr (gv_target v)), (''targetLeaderName'', JStr (gv_targetName v)),
      (''timeRemaining'', JNum (max 0 left)), (''timeoutSeconds'', JNum 30), (''totalVoters'', JNum (gv_totalVoters v)),
      (''votedCount'', JNum (int (length (gv_votes v)))), (''voteId'', JStr (gv_id v))]"

definition GoGetCurrentVote :: "int \<Rightarrow> string \<Rightarrow> string \<Rightarrow> Server \<Rightarrow> Http_Outcome" where
  "GoGetCurrentVote left rc color sv =
     (if color = '''' then json_answer 400 ''Bad Request'' (JObj [(''error'', JStr ''roomColor query parameter required'')])
      else case (if color = ''RED_ROOM'' then Some RED_ROOM else if color = ''BLUE_ROOM'' then Some BLUE_ROOM else None) of
        None \<Rightarrow> json_answer 400 ''Bad Request'' (JObj [(''error'', JStr ''invalid room color'')])
      | Some c \<Rightarrow>
          (case GetActiveVoteForRoom rc c sv of
             None \<Rightarrow> json_answer 200 ''OK'' (JObj [(''activeVote'', JNull)])
           | Some v \<Rightarrow> json_answer 200 ''OK'' (JObj [(''activeVote'', json_active_vote left v)])))"

section \<open>The opening of a page\<close>

text \<open>The answer to a call of the page that only reads.\<close>

definition server_answer :: "int \<Rightarrow> string \<Rightarrow> Server \<Rightarrow> task \<Rightarrow> answer option" where
  "server_answer left rc sv t =
     (case t of
        T_InitRound _ _ \<Rightarrow> answer_of t (GoGetCurrentRound rc sv)
      | T_InitVote c \<Rightarrow> answer_of t (GoGetCurrentVote left rc (color_str c) sv)
      | _ \<Rightarrow> answer_of t (GoGetRoom rc sv))"

definition answer_first :: "int \<Rightarrow> string \<Rightarrow> Server \<Rightarrow> Room_Page \<Rightarrow> Room_Page" where
  "answer_first left rc sv s =
     (case tasks s of
        [] \<Rightarrow> s
      | t # _ \<Rightarrow> (case server_answer left rc sv t of None \<Rightarrow> s | Some a \<Rightarrow> page_step s (Answered 0 a)))"

definition opened_page :: "int \<Rightarrow> string \<Rightarrow> Server \<Rightarrow> string option \<Rightarrow> Storage \<Rightarrow> Room_Page" where
  "opened_page left rc sv view st = (answer_first left rc sv ^^ 4) (page_step (mount_room_page rc view st) Mounted)"

lemma json_answer_ok: "unique_keys j \<Longrightarrow> answer_of t (json_answer 200 m j) = read_answer t j"
  by (simp add: answer_of_def json_answer_def json_result_def response_ok_def text_read)

lemma room_answered:
  assumes "sv_rooms sv rc = Some r" "length rc = 6" "distinct (map fst (gr_selectedRoles r))"
  shows "server_answer left rc sv (T_InitRoom v) = Some (GotRoom (page_room r))"
    "server_answer left rc sv (T_InitRefresh p) = Some (GotRoom (page_room r))"
  using assms
  by (simp_all add: server_answer_def GoGetRoom_def json_answer_ok unique_room read_answer_def game_rooms.dec_enc)

definition round_info :: "RoundState \<Rightarrow> Round_Info" where
  "round_info rs = \<lparr>ri_roundNumber = rs_roundNumber rs, ri_timeRemaining = rs_timeRemaining rs, ri_duration = rs_duration rs,
     ri_redLeader = redLeaderId rs, ri_blueLeader = blueLeaderId rs\<rparr>"

lemma round_answered:
  assumes "sv_rooms sv rc = Some r" "round_of r = Some rs"
  shows "server_answer left rc sv (T_InitRound u d) = Some (GotRound (round_info rs))"
proof -
  have "GetRoundState rc sv = Inr rs" using assms by (cases "gr_session r") (simp_all add: GetRoundState_def round_of_def)
  then show ?thesis
    by (simp add: server_answer_def GoGetCurrentRound_def json_answer_ok read_answer_def read_round_info_def round_info_def
        arrives_simps)
qed

definition vote_info :: "Go_Vote \<Rightarrow> Active_Vote" where
  "vote_info v = \<lparr>av_voteId = gv_id v, av_voteType = None, av_roomColor = gv_room v, av_targetLeaderId = gv_target v,
     av_targetLeaderName = gv_targetName v, av_initiatorId = gv_initiator v, av_initiatorName = gv_initiatorName v,
     av_candidates = None, av_totalVoters = gv_totalVoters v, av_votedCount = int (length (gv_votes v)),
     av_timeoutSeconds = 30, av_startedAt = gv_startedAt v\<rparr>"

lemma vote_read: "read_active_vote (json_active_vote left v) = Some (vote_info v)"
  by (simp add: json_active_vote_def read_active_vote_def vote_info_def arrives_simps)

lemma vote_answered:
  "server_answer left rc sv (T_InitVote c) = Some (GotVote (map_option vote_info (GetActiveVoteForRoom rc c sv)))"
proof -
  have u: "unique_keys (json_active_vote left v)" for v by (simp add: json_active_vote_def)
  have o: "json_active_vote left v \<noteq> JNull" "json_active_vote left v \<noteq> JStr ''''" for v by (simp_all add: json_active_vote_def)
  have m: "maybe ''activeVote'' read_active_vote (JObj [(''activeVote'', json_active_vote left v)]) = Some (Some (vote_info v))" for v
    by (simp add: maybe_def js_prop_def if_given_def o vote_read)
  have c: "server_answer left rc sv (T_InitVote c) = answer_of (T_InitVote c)
      (case GetActiveVoteForRoom rc c sv of
         None \<Rightarrow> json_answer 200 ''OK'' (JObj [(''activeVote'', JNull)])
       | Some v \<Rightarrow> json_answer 200 ''OK'' (JObj [(''activeVote'', json_active_vote left v)]))"
    by (cases c) (simp_all add: server_answer_def GoGetCurrentVote_def color_str_def)
  show ?thesis
    unfolding c by (cases "GetActiveVoteForRoom rc c sv") (simp_all add: json_answer_ok u m read_answer_def, simp add: maybe_def js_prop_def if_given_def)
qed

section \<open>What an opened page shows\<close>

lemma find_player_shown: "find_player i (map page_player ps) = map_option page_player (find_go i ps)"
  by (induction ps) (simp_all add: find_player_def find_go_def)

lemma players_in_shown: "players_in c (map page_player ps) = map page_player (in_color c ps)"
  by (induction ps) (simp_all add: players_in_def in_color_def page_player_def)

lemma find_leader_shown:
  assumes "list_all (\<lambda>q. gp_id q \<noteq> '''') (gr_players r)"
  shows "find_leader i (page_room r) = leader_shown i r"
proof -
  have "find_go '''' (gr_players r) = None" using assms by (auto simp: find_go_def find_None_iff list_all_iff)
  then show ?thesis
    by (cases "find_go i (gr_players r)")
      (auto simp: find_leader_def find_player_shown leader_shown_def leader_info_def page_player_def)
qed

text \<open>A game that is on, and a player in it who has a role.\<close>

definition in_game :: "string \<Rightarrow> Server \<Rightarrow> Go_Room \<Rightarrow> RoundState \<Rightarrow> Go_Player \<Rightarrow> bool" where
  "in_game rc sv r rs p \<longleftrightarrow>
     sv_rooms sv rc = Some r \<and> gr_code r = rc \<and> length rc = 6 \<and> gr_status r = IN_PROGRESS \<and> round_of r = Some rs \<and>
     find_go (gp_id p) (gr_players r) = Some p \<and> gp_id p \<noteq> '''' \<and> gp_role p \<noteq> None \<and> gp_room p \<noteq> None \<and>
     list_all (\<lambda>q. gp_id q \<noteq> '''') (gr_players r) \<and> distinct (map fst (gr_selectedRoles r))"

lemma answered_step:
  "tasks s = [t] \<Longrightarrow> server_answer left rc sv t = Some a \<Longrightarrow> fst (resume t a (s\<lparr>tasks := []\<rparr>)) = s' \<Longrightarrow>
    answer_first left rc sv s = render_redirect (save_history s s')"
  by (simp add: answer_first_def page_step_def handle_event_def take_task_def)

lemma resume_opening:
  "resume (T_InitRoom v) (GotRoom r) s = (init_room v r s, [])" "resume (T_InitRefresh p) (GotRoom r) s = (init_refresh p r s, [])"
  "resume (T_InitRound r p) (GotRound x) s = (init_round r p x s, [])" "resume (T_InitVote c) (GotVote w) s = (init_vote w s, [])"
  by (simp_all add: resume_def resume_init_def)

lemma still_loading: "loading s' \<Longrightarrow> historyEvents s' = historyEvents s \<Longrightarrow> render_redirect (save_history s s') = s'"
  by (simp add: render_redirect_def save_history_def)

text \<open>What the rest of a step leaves of what is shown.\<close>

definition shown_game :: "Room_Page \<Rightarrow> RoomColor option \<times> Player list \<times> Player list \<times> LeaderInfo option \<times>
    LeaderInfo option \<times> VoteSession option \<times> VoteResultPayload option \<times> bool" where
  "shown_game s = (currentRoom s, redRoomPlayers s, blueRoomPlayers s, redLeader s, blueLeader s, activeVoteSession s,
     voteResult s, hasVoted s)"

lemma shown_kept: "shown_game (render_redirect s) = shown_game s" "shown_game (save_history s' s) = shown_game s"
  "shown_game (init_restore b s) = shown_game s" "shown_game (set_view w s) = shown_game s"
  by (simp_all add: shown_game_def render_redirect_def save_history_def init_restore_def init_done_def set_view_def Let_def
      split: option.split)

lemma opened:
  assumes "in_game rc sv r rs p" "ls_playerId st = Some (gp_id p)" "gp_room p = Some c"
    and s: "s = opened_page left rc sv view st"
  shows "room s = Some (page_room r) \<and> currentPlayer s = Some (page_player p) \<and> currentRoom s = Some c \<and>
    redRoomPlayers s = map page_player (in_color RED_ROOM (gr_players r)) \<and>
    blueRoomPlayers s = map page_player (in_color BLUE_ROOM (gr_players r)) \<and>
    redLeader s = leader_shown (redLeaderId rs) r \<and> blueLeader s = leader_shown (blueLeaderId rs) r \<and>
    activeVoteSession s = map_option (\<lambda>v. restored_vote (vote_info v)) (GetActiveVoteForRoom rc c sv) \<and>
    voteResult s = None \<and> \<not> hasVoted s"
proof -
  note g = assms(1) [unfolded in_game_def]
  obtain ro where ro: "gp_role p = Some ro" using g by blast
  have i: "rc \<noteq> ''''" using g by auto
  let ?u = "page_room r" and ?d = "page_player p"
  have u: "status ?u = IN_PROGRESS" "find_player (gp_id p) (players ?u) = Some ?d" "player_role ?d = Some (page_role ro)"
    "player_currentRoom ?d = Some c" "player_team ?d = gp_team p" "player_id ?d = gp_id p"
    using g ro assms(3) by (simp_all add: find_player_shown page_player_def)
  note a1 = room_answered [of sv rc r left] and a3 = round_answered [of sv rc r rs left] and a4 = vote_answered [of left rc sv]
  note lead = find_leader_shown [of r]
  define m where "m = mount_room_page rc view st"
  have m: "loading m" "rp_roomCode m = rc" "storage m = st" "\<not> isJoiningRef m" "\<not> hasJoinedRef m" "tasks m = []" "error m = ''''"
    "redLeader m = None" "blueLeader m = None" "activeVoteSession m = None" "voteResult m = None" "\<not> hasVoted m"
    by (simp_all add: m_def mount_room_page_def)
  define s0 where "s0 = m\<lparr>isJoiningRef := True, tasks := [T_InitRoom (rp_view m)]\<rparr>"
  have s0: "page_step m Mounted = s0"
    using i m by (simp add: s0_def page_step_def handle_event_def initializeRoom_def add_task_def still_loading)
  define s1 where "s1 = m\<lparr>rp_view := (if rp_view m = ''lobby'' then ''game'' else rp_view m), isJoiningRef := True,
      hasJoinedRef := True, currentPlayer := Some ?d, tasks := [T_InitRefresh ?d]\<rparr>"
  have s1: "answer_first left rc sv s0 = s1"
  proof -
    have "fst (resume (T_InitRoom (rp_view m)) (GotRoom ?u) (s0\<lparr>tasks := []\<rparr>)) = s1"
      using g m(3) u(1,2) assms(2)
      by (simp add: resume_opening init_room_def init_joined_def add_task_def set_view_def s0_def s1_def)
    from answered_step [OF _ a1(1) this] show ?thesis using g m by (simp add: still_loading s0_def s1_def)
  qed
  define s2 where "s2 = s1\<lparr>room := Some ?u, my_role := Some (page_role ro), my_team := gp_team p, currentRoom := Some c,
      redRoomPlayers := map page_player (in_color RED_ROOM (gr_players r)),
      blueRoomPlayers := map page_player (in_color BLUE_ROOM (gr_players r)), tasks := [T_InitRound ?u ?d]\<rparr>"
  have s2: "answer_first left rc sv s1 = s2"
  proof -
    have "fst (resume (T_InitRefresh ?d) (GotRoom ?u) (s1\<lparr>tasks := []\<rparr>)) = s2"
      using u by (simp add: resume_opening init_refresh_def add_task_def set_room_players_def players_in_shown s1_def s2_def)
    from answered_step [OF _ a1(2) this] show ?thesis using g m by (simp add: still_loading s1_def s2_def)
  qed
  define s3 where "s3 = s2\<lparr>currentRound := rs_roundNumber rs, timeRemaining := rs_timeRemaining rs, totalRoundTime := rs_duration rs,
      redLeader := leader_shown (redLeaderId rs) r, blueLeader := leader_shown (blueLeaderId rs) r, tasks := [T_InitVote c]\<rparr>"
  have s3: "answer_first left rc sv s2 = s3"
  proof -
    have "fst (resume (T_InitRound ?u ?d) (GotRound (round_info rs)) (s2\<lparr>tasks := []\<rparr>)) = s3"
      using g u(4) m(8,9) lead
      by (cases "leader_shown (redLeaderId rs) r"; cases "leader_shown (blueLeaderId rs) r")
        (simp_all add: resume_opening init_round_def add_task_def round_info_def s1_def s2_def s3_def)
    from answered_step [OF _ a3 this] show ?thesis using g m by (simp add: still_loading s1_def s2_def s3_def)
  qed
  have e: "s = answer_first left rc sv s3"
    unfolding s opened_page_def m_def [symmetric] s0 by (simp add: numeral_eq_Suc s1 s2 s3)
  define v where "v = GetActiveVoteForRoom rc c sv"
  define s4 where "s4 = init_vote (map_option vote_info v) (s3\<lparr>tasks := []\<rparr>)"
  have "s = render_redirect (save_history s3 s4)"
    unfolding e s4_def v_def by (rule answered_step [OF _ a4]) (simp_all add: resume_opening s3_def)
  moreover have "shown_game s4 = shown_game (s3\<lparr>activeVoteSession := map_option (\<lambda>v. restored_vote (vote_info v)) v,
      voteResult := None, hasVoted := False\<rparr>)"
    using m(8-12) by (cases v) (simp_all add: s4_def init_vote_def shown_kept open_vote_def, simp_all add: shown_game_def s1_def s2_def s3_def)
  ultimately have "shown_game s = shown_game (s3\<lparr>activeVoteSession := map_option (\<lambda>v. restored_vote (vote_info v)) v,
      voteResult := None, hasVoted := False\<rparr>)" "room s = room s3" "currentPlayer s = currentPlayer s3"
    by (cases v; simp add: shown_kept page_frame s4_def init_vote_def open_vote_def)+
  then show ?thesis by (simp add: shown_game_def v_def s1_def s2_def s3_def)
qed

text \<open>The vote of a room is stored under its identifier, and elections have candidates.\<close>

definition vote_fits :: "string \<Rightarrow> RoomColor \<Rightarrow> Server \<Rightarrow> bool" where
  "vote_fits rc c sv \<longleftrightarrow>
     (case GetActiveVoteForRoom rc c sv of
        None \<Rightarrow> True
      | Some v \<Rightarrow> gv_room v = c \<and> sv_votes sv (gv_id v) = Some v \<and> (gv_type v = ELECTION) = (gv_candidates v \<noteq> []))"

lemma active_vote: "HasActiveVote rc c sv \<longleftrightarrow> GetActiveVoteForRoom rc c sv \<noteq> None"
  "GetActiveVoteForRoom rc c sv = Some v \<Longrightarrow> gv_status v = VoteActive"
  by (auto simp: HasActiveVote_def GetActiveVoteForRoom_def split: option.splits if_splits)

text \<open>C4: A player who opens the page again during a game sees what the server holds: after the four answers
  of the server the page is in sync with it, unless a vote is open in the player's room that is an
  election or in which the player has voted already. Those two are not restored: the page then shows
  a vote on a removal in which the player has not voted.\<close>

theorem reopened_page_shows_the_server:
  assumes "in_game rc sv r rs p" "gp_room p = Some c" "vote_fits rc c sv" "ls_playerId st = Some (gp_id p)"
  shows "in_sync rc sv (opened_page left rc sv view st) r p \<longleftrightarrow>
    (case GetActiveVoteForRoom rc c sv of
       None \<Rightarrow> True
     | Some v \<Rightarrow> gv_type v = REMOVAL \<and> map_get (gv_votes v) (gp_id p) = None)"
proof -
  let ?s = "opened_page left rc sv view st"
  note o = opened [OF assms(1,4,2) refl, of left view]
  have "in_sync rc sv ?s r p \<longleftrightarrow> vote_in_sync rc (gp_id p) c sv ?s"
    using o assms(1,2) by (simp add: in_sync_def in_game_def)
  also have "\<dots> \<longleftrightarrow> (case GetActiveVoteForRoom rc c sv of
       None \<Rightarrow> True
     | Some v \<Rightarrow> gv_type v = REMOVAL \<and> map_get (gv_votes v) (gp_id p) = None)"
  proof (cases "GetActiveVoteForRoom rc c sv")
    case None
    then show ?thesis using o by (simp add: vote_in_sync_def active_vote(1))
  next
    case (Some v)
    then have "vote_in_sync rc (gp_id p) c sv ?s \<longleftrightarrow> gv_candidates v = [] \<and> map_get (gv_votes v) (gp_id p) = None"
      using o assms(3) active_vote(2) [OF Some]
      by (auto simp: vote_in_sync_def vote_fits_def restored_vote_def vote_info_def vote_candidates_def)
    then show ?thesis using Some assms(3) by (cases "gv_type v") (auto simp: vote_fits_def)
  qed
  finally show ?thesis .
qed

text \<open>The game of six, with roles, and a vote on the red leader.\<close>

definition dealt_six :: Go_Room where
  "dealt_six = choosing_six\<lparr>gr_players := map (\<lambda>p. p\<lparr>gp_role := Some RoleRedOperative\<rparr>) seated_six\<rparr>"

definition third_of_six :: Go_Player where
  "third_of_six = gr_players dealt_six ! 2"

definition asking_server :: Server where
  "asking_server = (put_room dealt_six empty_server)\<lparr>sv_votes := [''v'' \<mapsto> lone_vote], sv_roomVotes := [(''ABCDEF'', RED_ROOM) \<mapsto> ''v'']\<rparr>"

lemma third_of_six: "gp_id third_of_six = ''c''" "gp_room third_of_six = Some RED_ROOM" "gp_role third_of_six = Some RoleRedOperative"
  by (simp_all add: third_of_six_def dealt_six_def seated_six_def six_players_def)

lemma dealt_six: "gr_code dealt_six = ''ABCDEF''" "gr_status dealt_six = IN_PROGRESS" "gr_selectedRoles dealt_six = []"
  "round_of dealt_six = Some (round_of_six\<lparr>redHostages := [], blueHostages := []\<rparr>)"
  "list_all (\<lambda>q. gp_id q \<noteq> '''') (gr_players dealt_six)" "find_go ''c'' (gr_players dealt_six) = Some third_of_six"
  by (simp_all add: dealt_six_def choosing_six_def room_of_six_def lobby_of_def set_round_def round_of_def third_of_six_def
      seated_six_def six_players_def find_go_def)

theorem reopened_page_shows_the_server_witness:
  "in_sync ''ABCDEF'' asking_server (opened_page 12 ''ABCDEF'' asking_server None (wr_storage\<lparr>ls_playerId := Some ''c''\<rparr>))
     dealt_six third_of_six \<longleftrightarrow>
    (case GetActiveVoteForRoom ''ABCDEF'' RED_ROOM asking_server of
       None \<Rightarrow> True
     | Some v \<Rightarrow> gv_type v = REMOVAL \<and> map_get (gv_votes v) (gp_id third_of_six) = None)"
  by (rule reopened_page_shows_the_server)
    (simp_all add: in_game_def asking_server_def dealt_six third_of_six put_room_def vote_fits_def GetActiveVoteForRoom_def lone_vote_def)

end
