(* ===== verification/Delivery.thy ===== *)
theory Delivery
  imports Wire Web_Socket Room_Facts Server_Facts
begin

text \<open>
  The way of the server's messages to the page: the frames of the socket, what the page sees of them,
  and what this means at the start of a game.
\<close>

section \<open>From the socket to the page\<close>

text \<open>
  The effect of the page on \<open>lastMessage\<close>, run by the render that follows the handling of a frame: all
  \<open>setLastMessage\<close> of one frame happen in one callback of the browser, after which React renders once.
\<close>

definition page_render :: "Hook \<Rightarrow> Room_Page \<Rightarrow> Room_Page" where
  "page_render h s = (case lastMessage h of None \<Rightarrow> s | Some m \<Rightarrow> page_step s (Message m))"

definition page_gets :: "Hook \<times> Room_Page \<Rightarrow> string \<Rightarrow> Hook \<times> Room_Page" where
  "page_gets st frame = (let h = on_message ws_parse frame (fst st) in (h, page_render h (snd st)))"

text \<open>A frame with one message, and all messages in one frame.\<close>

definition alone :: "Server_Message \<Rightarrow> string" where
  "alone m = write_frame (message_text m) []"

definition together :: "Server_Message list \<Rightarrow> string" where
  "together ms = write_frame (message_text (hd ms)) (map message_text (tl ms))"

lemma latest_last: "latest parse m ls = (if List.map_filter parse ls = [] then m else Some (last (List.map_filter parse ls)))"
proof (induction ls arbitrary: m)
  case (Cons l ls)
  have "latest parse m (l # ls) = latest parse (case parse l of None \<Rightarrow> m | Some x \<Rightarrow> Some x) ls"
    by (simp add: latest_def split: option.split)
  then show ?case using Cons.IH by (cases "parse l") (simp_all add: List.map_filter_simps)
qed (simp add: latest_def List.map_filter_simps)

lemma frame_seen:
  "list_all deliverable (m # qs) \<Longrightarrow>
    snd (page_gets st (together (m # qs))) = page_step (snd st) (Message (page_message (last (m # qs))))"
  using parse_messages [of "m # qs"]
  by (simp add: page_gets_def together_def page_render_def on_message_eq lines_of_frame latest_last Let_def on_open_def last_map
      del: list.map)

lemma alone_seen: "deliverable m \<Longrightarrow> snd (page_gets st (alone m)) = page_step (snd st) (Message (page_message m))"
  using frame_seen [of m "[]" st] by (simp add: alone_def together_def)

lemma all_alone_seen:
  "list_all deliverable ms \<Longrightarrow>
    snd (foldl page_gets st (map alone ms)) = page_run (snd st) (map Message (map page_message ms))"
  by (induction ms arbitrary: st) (simp_all add: alone_seen)

text \<open>Of the messages that the server sends in one frame the page sees the last one only: it takes the step
  for that message, with the data that the server has put into it, as if the others had never been sent.\<close>

theorem only_the_last_is_seen:
  assumes "list_all deliverable ms" "ms \<noteq> []"
  shows "snd (page_gets st (together ms)) = page_step (snd st) (Message (page_message (last ms)))"
  using assms by (cases ms) (simp_all add: frame_seen del: list.map)

text \<open>The page of the second of six players.\<close>

definition joined_page :: "Hook \<times> Room_Page" where
  "joined_page = (useWebSocket ''ws://localhost'' (\<lambda>_. True) ''ABCDEF'' (Some ''b''), mount_room_page ''ABCDEF'' None wr_storage)"

theorem only_the_last_is_seen_witness:
  "snd (page_gets joined_page (together [S_PlayerLeft ''c'', S_NicknameChanged ''a'' ''Ann''])) =
     page_step (snd joined_page) (Message (page_message (last [S_PlayerLeft ''c'', S_NicknameChanged ''a'' ''Ann''])))"
  by (rule only_the_last_is_seen) (simp_all add: deliverable_def)

section \<open>The roles of a new game\<close>

text \<open>What a player's socket is sent.\<close>

definition inbox :: "string \<Rightarrow> string \<Rightarrow> sent list \<Rightarrow> Server_Message list" where
  "inbox rc i out = map sent_message
     (filter (\<lambda>x. sent_room x = rc \<and> (case sent_to x of None \<Rightarrow> True | Some ids \<Rightarrow> i \<in> set ids)) out)"

lemma inbox_simps [simp]: "inbox rc i [] = []" "inbox rc i (xs @ ys) = inbox rc i xs @ inbox rc i ys"
  "inbox rc i (x # ys) = (if sent_room x = rc \<and> (case sent_to x of None \<Rightarrow> True | Some ids \<Rightarrow> i \<in> set ids)
     then sent_message x # inbox rc i ys else inbox rc i ys)"
  by (simp_all add: inbox_def)

lemma inbox_all [simp]: "inbox rc i (map (\<lambda>p. Sent rc None (f p)) xs) = map f xs"
  by (induction xs) simp_all

lemma find_go_player: "i \<in> set (map gp_id ps) \<Longrightarrow> \<exists>p. find_go i ps = Some p \<and> p \<in> set ps \<and> gp_id p = i"
  by (induction ps) (auto simp: find_go_def)

lemma role_inbox:
  "distinct (map gp_id ps) \<Longrightarrow>
    inbox rc i (concat (map (role_message rc) ps)) =
      (case find_go i ps of
         None \<Rightarrow> []
       | Some p \<Rightarrow> map sent_message (role_message rc p))"
proof (induction ps)
  case (Cons p ps)
  have "find_go i ps = None" if "gp_id p = i"
    using Cons.prems that by (force simp: find_go_def find_None_iff image_iff)
  then show ?case
    using Cons by (auto simp: find_go_def role_message_def split: option.splits)
qed (simp add: find_go_def)

lemma leaders_announced:
  assumes "sv_rooms sv rc = Some r" "gr_code r = rc"
  shows "\<exists>zs q. snd (snd (AssignLeaders w rc sv)) = map (\<lambda>p. Sent rc None (S_RoundStarted p)) zs \<and>
     sv_rooms (fst (snd (AssignLeaders w rc sv))) rc = Some q \<and> gr_players q = gr_players r"
proof (cases "round_of r")
  case None
  then show ?thesis using assms by (intro exI [of _ "[]"] exI [of _ r]) (simp add: AssignLeaders_def fail_def)
next
  case (Some rs)
  define red where "red = in_color RED_ROOM (gr_players r)"
  define blue where "blue = in_color BLUE_ROOM (gr_players r)"
  define rl where "rl = red ! (wd_red w mod length red)"
  define bl where "bl = blue ! (wd_blue w mod length blue)"
  note d = red_def [symmetric] blue_def [symmetric] rl_def [symmetric] bl_def [symmetric]
  show ?thesis
  proof (cases "red = [] \<or> blue = [] \<or> gp_id rl = gp_id bl")
    case True
    then show ?thesis
      using assms Some by (intro exI [of _ "[]"] exI [of _ r]) (auto simp: AssignLeaders_def fail_def Let_def d)
  next
    case False
    then show ?thesis
      using assms Some by (simp add: AssignLeaders_def done_with_def Let_def d ex_map_conv)
  qed
qed

lemma start_game_messages:
  assumes "sv_rooms sv rc = Some r" "gr_code r = rc" "gr_status r \<noteq> IN_PROGRESS" "6 \<le> length (gr_players r)"
  shows "\<exists>r' g z zs. sv_rooms (fst (snd (GoStartGame loader w rc sv))) rc = Some r' \<and>
     gr_players r' = deal (wd_draws w) (loader (if gr_roleConfigId r = '''' then ''standard'' else gr_roleConfigId r))
       (gr_selectedRoles r) (gr_players r) \<and>
     snd (snd (GoStartGame loader w rc sv)) =
       Sent rc None (S_GameStarted g) # concat (map (role_message rc) (gr_players r')) @
       map (\<lambda>p. Sent rc None (S_RoundStarted p)) (z # zs)"
proof -
  let ?cfg = "loader (if gr_roleConfigId r = '''' then ''standard'' else gr_roleConfigId r)"
  let ?ps = "deal (wd_draws w) ?cfg (gr_selectedRoles r) (gr_players r)"
  let ?g = "\<lparr>gs_id = wd_uuid w, gs_roomCode = rc, gs_startedAt = wd_now w, gs_currentRound = 0, gs_roundState = None\<rparr>"
  let ?r = "r\<lparr>gr_players := ?ps, gr_status := IN_PROGRESS, gr_session := Some ?g, gr_updatedAt := wd_now w\<rparr>"
  have h: "sv_rooms (put_room ?r sv) rc = Some ?r" "gr_code ?r = rc" "gr_session ?r = Some ?g" using assms(2) by simp_all
  obtain r' rs where st: "StartRound w rc 1 (put_room ?r sv) =
        (Inr (), startTimer rc (wd_uuid w) (put_room r' (put_room ?r sv)), [broadcastRoundStarted r' rs])"
    and r': "gr_code r' = rc" "gr_players r' = ?ps" "round_of r' = Some rs"
    using start_round_state [OF h, of 1 w] by auto
  let ?sv = "startTimer rc (wd_uuid w) (put_room r' (put_room ?r sv))"
  have "sv_rooms ?sv rc = Some r'" using r'(1) by (simp add: startTimer_def)
  from leaders_announced [OF this r'(1), of w]
  obtain zs q where a: "snd (snd (AssignLeaders w rc ?sv)) = map (\<lambda>p. Sent rc None (S_RoundStarted p)) zs"
      "sv_rooms (fst (snd (AssignLeaders w rc ?sv))) rc = Some q" "gr_players q = ?ps"
    using r'(2) by auto
  obtain y where b: "broadcastRoundStarted r' rs = Sent rc None (S_RoundStarted y)"
    by (simp add: broadcastRoundStarted_def r'(1))
  have "GoStartGame loader w rc sv = done_with () (fst (snd (AssignLeaders w rc ?sv)))
      ((Sent rc None (S_GameStarted ?g) # concat (map (role_message rc) ?ps)) @ [Sent rc None (S_RoundStarted y)] @
       snd (snd (AssignLeaders w rc ?sv)))"
    using assms st unfolding b by (simp add: GoStartGame_def Let_def split: prod.split)
  then show ?thesis
    using a by (intro exI [of _ q] exI [of _ ?g] exI [of _ y] exI [of _ zs])
      (simp add: done_with_def)
qed

text \<open>What the messages of a start do to a page that has no role.\<close>

lemma round_started_role: "role_state (page_step s (Message (ROUND_STARTED p))) = role_state s"
  by (simp add: page_step_def handle_event_def on_lastMessage_def handle_message_def on_round_started_def page_frame role_state_def)

lemma start_page:
  assumes "\<not> roleAssignedProcessedRef s"
  shows "role_state (page_run s (map Message (GAME_STARTED g # ROLE_ASSIGNED a # map ROUND_STARTED zs))) =
    (Some (ra_role a), Some (ra_team a))"
proof -
  let ?s = "page_step s (Message (GAME_STARTED g))"
  let ?t = "page_step ?s (Message (ROLE_ASSIGNED a))"
  have "\<not> roleAssignedProcessedRef ?s \<and> lastProcessedMessageRef ?s = Some (GAME_STARTED g)"
    using assms by (simp add: page_step_def handle_event_def on_lastMessage_def handle_message_def on_game_started_def page_frame)
  then have "roleAssignedProcessedRef ?t \<and> role_state ?t = (Some (ra_role a), Some (ra_team a))"
    by (simp add: page_step_def [of ?s] handle_event_def on_lastMessage_def handle_message_def on_role_assigned_def
        page_frame role_state_def Let_def)
  then show ?thesis using assigned_run [of ?t "map ROUND_STARTED zs"] by (simp add: list_all_iff)
qed

text \<open>C7: When a game starts, the role and the team that the server has dealt to a player appear on the player's
  page, if every message comes in a frame of its own; but the server may send all of them in one frame,
  and then the page gets no role at all.\<close>

theorem roles_reach_their_players:
  assumes "sv_rooms sv rc = Some r" "gr_code r = rc" "gr_status r \<noteq> IN_PROGRESS" "6 \<le> length (gr_players r)"
    "distinct (map gp_id (gr_players r))" "i \<in> set (map gp_id (gr_players r))" "\<not> roleAssignedProcessedRef s"
  shows "case GoStartGame loader w rc sv of (x, sv', out) \<Rightarrow>
      (case Option.bind (sv_rooms sv' rc) (\<lambda>r'. find_go i (gr_players r')) of
         None \<Rightarrow> False
       | Some p \<Rightarrow>
           gp_role p \<noteq> None \<and> gp_team p \<noteq> None \<and>
           role_state (snd (foldl page_gets (h, s) (map alone (inbox rc i out)))) = (map_option page_role (gp_role p), gp_team p) \<and>
           role_state (snd (page_gets (h, s) (together (inbox rc i out)))) = role_state s)"
proof -
  obtain x sv' out where gs: "GoStartGame loader w rc sv = (x, sv', out)" by (metis prod_cases3)
  let ?cfg = "loader (if gr_roleConfigId r = '''' then ''standard'' else gr_roleConfigId r)"
  obtain r' g z zs where st: "sv_rooms sv' rc = Some r'"
      "gr_players r' = deal (wd_draws w) ?cfg (gr_selectedRoles r) (gr_players r)"
      "out = Sent rc None (S_GameStarted g) # concat (map (role_message rc) (gr_players r')) @
         map (\<lambda>p. Sent rc None (S_RoundStarted p)) (z # zs)"
    using start_game_messages [OF assms(1-4), of loader w] unfolding gs by auto
  have ids: "map gp_id (gr_players r') = map gp_id (gr_players r)" by (simp only: st(2) deal_ids)
  obtain p where p: "find_go i (gr_players r') = Some p" "p \<in> set (gr_players r')" "gp_id p = i"
    using find_go_player assms(6) unfolding ids [symmetric] by blast
  obtain ro t c where d: "gp_role p = Some ro" "gp_team p = Some t" "gp_room p = Some c"
    using everybody_dealt [OF assms(4), of "wd_draws w" ?cfg "gr_selectedRoles r"] p(2) unfolding st(2) by (auto dest!: bspec)
  have box: "inbox rc i out = S_GameStarted g # S_RoleAssigned ro t c # map S_RoundStarted (z # zs)"
    using role_inbox [of "gr_players r'" rc i] assms(5) ids p(1) d unfolding st(3) by (simp add: role_message_def p(3))
  have del: "list_all deliverable (inbox rc i out)" by (simp add: box deliverable_def list_all_iff)
  have one: "snd (page_gets (h, s) (together (inbox rc i out))) = page_step s (Message (ROUND_STARTED (last (z # zs))))"
    using frame_seen [of _ _ "(h, s)", OF del [unfolded box]] unfolding box
    by (simp add: page_message_def last_map)
  have all: "snd (foldl page_gets (h, s) (map alone (inbox rc i out))) =
      page_run s (map Message (GAME_STARTED (page_session g) # ROLE_ASSIGNED \<lparr>ra_role = page_role ro, ra_team = t, ra_currentRoom = c\<rparr> #
        map ROUND_STARTED (z # zs)))"
    using all_alone_seen [OF del, of "(h, s)"] unfolding box by (simp add: page_message_def comp_def)
  show ?thesis
    unfolding gs prod.case one all round_started_role start_page [OF assms(7)] by (simp add: st(1) p(1) d)
qed

theorem roles_reach_their_players_witness:
  "case GoStartGame (\<lambda>_. None) (plain_world ''g'') ''ABCDEF'' (put_room (lobby_of six_players) empty_server) of (x, sv', out) \<Rightarrow>
      (case Option.bind (sv_rooms sv' ''ABCDEF'') (\<lambda>r'. find_go ''b'' (gr_players r')) of
         None \<Rightarrow> False
       | Some p \<Rightarrow>
           gp_role p \<noteq> None \<and> gp_team p \<noteq> None \<and>
           role_state (snd (foldl page_gets (fst joined_page, snd joined_page) (map alone (inbox ''ABCDEF'' ''b'' out)))) =
             (map_option page_role (gp_role p), gp_team p) \<and>
           role_state (snd (page_gets (fst joined_page, snd joined_page) (together (inbox ''ABCDEF'' ''b'' out)))) =
             role_state (snd joined_page))"
  by (rule roles_reach_their_players [where r = "lobby_of six_players"])
    (simp_all add: lobby_of_def six_players_def put_room_def joined_page_def mount_room_page_def)

end
