(* ===== verification/Leader_Panel.thy ===== *)
theory Leader_Panel
  imports Round_Timer_Panel
begin

text \<open>
  \<open>components/game/LeaderPanel.tsx\<close>, the earlier panel for choosing hostages, with its lock and its
  shortcut to the transfer dialog. It keeps the same contract as the round panel, over the players
  that it is given.
\<close>

section \<open>State, properties and handlers\<close>

record Leader_Panel_Props =
  lp_isLeader :: bool
  lp_hostageCount :: int
  lp_players :: "Player list"
  lp_currentPlayerId :: string
  lp_currentRoom :: RoomColor
  lp_canTransferLeadership :: bool
  lp_selectionLocked :: bool

record Leader_Panel =
  lp_selectedHostages :: "string js_set"
  lp_error :: string

definition init_leader_panel :: Leader_Panel where
  "init_leader_panel = \<lparr>lp_selectedHostages = [], lp_error = ''''\<rparr>"

datatype leader_panel_action = LP_Transfer | LP_Toggle string | LP_Announce

definition lp_toggle :: "Leader_Panel_Props \<Rightarrow> string \<Rightarrow> Leader_Panel \<Rightarrow> Leader_Panel" where
  "lp_toggle p playerId s =
     (if lp_selectionLocked p then s
      else if playerId = lp_currentPlayerId p
        then s\<lparr>lp_error := ''A leader cannot select themselves as a hostage''\<rparr>
      else
        (let (sel, err) = limited_toggle (lp_hostageCount p) playerId (lp_selectedHostages s, '''')
         in s\<lparr>lp_selectedHostages := sel, lp_error := err\<rparr>))"

definition lp_announce :: "Leader_Panel_Props \<Rightarrow> bool \<Rightarrow> Leader_Panel \<Rightarrow> Leader_Panel \<times> panel_command list" where
  "lp_announce p answer s =
     (if set_size (lp_selectedHostages s) \<noteq> lp_hostageCount p
        then (s\<lparr>lp_error := ''Exactly '' @ int_str (lp_hostageCount p) @ '' must be selected''\<rparr>, [])
      else if answer then (s, [SelectHostages (lp_selectedHostages s)])
      else (s, []))"

definition leader_panel_step ::
  "Leader_Panel_Props \<Rightarrow> Leader_Panel \<Rightarrow> leader_panel_action \<times> bool \<Rightarrow> Leader_Panel \<times> panel_command list" where
  "leader_panel_step p s e =
     (if \<not> lp_isLeader p then (s, [])
      else case e of (a, answer) \<Rightarrow>
        (case a of
           LP_Transfer \<Rightarrow> (s, [OpenTransfer])
         | LP_Toggle i \<Rightarrow> (lp_toggle p i s, [])
         | LP_Announce \<Rightarrow> lp_announce p answer s))"

section \<open>The rendered panel\<close>

definition render_lp_option :: "Leader_Panel_Props \<Rightarrow> Leader_Panel \<Rightarrow> Player \<Rightarrow> leader_panel_action node" where
  "render_lp_option p s q =
     (let isSelected = set_has (lp_selectedHostages s) (player_id q);
          isSelf = (player_id q = lp_currentPlayerId p) in
      El ''label''
       [Style ''backgroundColor'' (if isSelected then room_css (lp_currentRoom p) @ ''15'' else ''transparent''),
        Style ''cursor'' (if isSelf \<or> lp_selectionLocked p then ''not-allowed'' else ''pointer''),
        Style ''opacity'' (if isSelf then ''0.5'' else ''1'')]
       [El ''input''
         [Attr ''type'' ''checkbox'', Checked isSelected, OnChange (LP_Toggle (player_id q)),
          Disabled (isSelf \<or> lp_selectionLocked p),
          Style ''cursor'' (if isSelf \<or> lp_selectionLocked p then ''not-allowed'' else ''pointer'')] [],
        El ''span'' [Style ''fontWeight'' (if isSelected then ''600'' else ''400'')]
         ([Txt (nickname q)] @ shown isSelf [Txt '' (you)''] @ shown isSelected [Txt '' (selected)''])])"

definition render_lp_announce :: "Leader_Panel_Props \<Rightarrow> Leader_Panel \<Rightarrow> leader_panel_action node" where
  "render_lp_announce p s =
     (let full = (set_size (lp_selectedHostages s) = lp_hostageCount p);
          canAnnounce = (full \<and> \<not> lp_selectionLocked p) in
      El ''div'' []
       [El ''div'' [Style ''color'' (if full then room_css (lp_currentRoom p) else ''var(--text-secondary, #6b7280)'')]
         [Txt ''Selected: '', Num (set_size (lp_selectedHostages s)), Txt '' / '', Num (lp_hostageCount p)],
        El ''button''
         [OnClick LP_Announce, Disabled (\<not> canAnnounce),
          Style ''backgroundColor'' (if canAnnounce then room_css (lp_currentRoom p) else ''#9ca3af''),
          Style ''cursor'' (if canAnnounce then ''pointer'' else ''not-allowed''),
          Style ''opacity'' (if canAnnounce then ''1'' else ''0.6'')]
         [Txt ''Announce the hostages'']])"

definition LeaderPanel :: "Leader_Panel_Props \<Rightarrow> Leader_Panel \<Rightarrow> leader_panel_action node list" where
  "LeaderPanel p s =
     (if \<not> lp_isLeader p then []
      else
       [El ''div'' [Style ''border'' (''3px solid '' @ room_css (lp_currentRoom p))]
         ([El ''div'' []
            [El ''div'' []
              [El ''h3'' [Style ''color'' (room_css (lp_currentRoom p))] [Txt ''You are the leader''],
               El ''p'' [] [Txt (room_name (lp_currentRoom p)), Txt '' leader'']],
             El ''button''
              [OnClick LP_Transfer, Disabled (\<not> lp_canTransferLeadership p),
               Style ''backgroundColor'' (if lp_canTransferLeadership p then ''#6366f1'' else ''#9ca3af''),
               Style ''cursor'' (if lp_canTransferLeadership p then ''pointer'' else ''not-allowed''),
               Style ''opacity'' (if lp_canTransferLeadership p then ''1'' else ''0.6''),
               Attr ''title'' (if lp_canTransferLeadership p then ''Transfer leadership''
                 else ''Leadership cannot be transferred while hostages are selected'')]
              [Txt ''Transfer leadership'']]] @
          shown (\<not> lp_selectionLocked p)
           [El ''div'' [] [El ''p'' []
             [Txt ''Select '', El ''strong'' [] [Num (lp_hostageCount p), Txt '' players''],
              Txt '' and send them to the '', El ''strong'' [] [Txt (other_room_name (lp_currentRoom p))]]]] @
          shown (lp_selectionLocked p)
           [El ''div'' [] [El ''p'' []
             [Txt ''The hostages are selected. Waiting for the other leader...'']]] @
          shown (lp_error s \<noteq> '''') [El ''div'' [] [El ''p'' [] [Txt (lp_error s)]]] @
          [El ''div'' [] (map (render_lp_option p s) (lp_players p)), render_lp_announce p s])])"

definition leader_panel_offers :: "Leader_Panel_Props \<Rightarrow> Leader_Panel \<Rightarrow> leader_panel_action \<Rightarrow> bool" where
  "leader_panel_offers p s a \<longleftrightarrow> a \<in> set (offers_all (LeaderPanel p s))"

section \<open>The contract\<close>

definition lp_selectable :: "Leader_Panel_Props \<Rightarrow> string \<Rightarrow> bool" where
  "lp_selectable p i \<longleftrightarrow> \<not> lp_selectionLocked p \<and> i \<noteq> lp_currentPlayerId p \<and> i \<in> set (player_ids (lp_players p))"

lemma lp_offers:
  "leader_panel_offers p s a \<longleftrightarrow> lp_isLeader p \<and>
     (case a of
        LP_Transfer \<Rightarrow> lp_canTransferLeadership p
      | LP_Toggle i \<Rightarrow> lp_selectable p i
      | LP_Announce \<Rightarrow> set_size (lp_selectedHostages s) = lp_hostageCount p \<and> \<not> lp_selectionLocked p)"
proof -
  have "offers (render_lp_option p s q) =
      (if player_id q = lp_currentPlayerId p \<or> lp_selectionLocked p then [] else [LP_Toggle (player_id q)])" for q
    by (simp add: render_lp_option_def Let_def view_simps)
  moreover have "offers (render_lp_announce p s) =
      (if set_size (lp_selectedHostages s) = lp_hostageCount p \<and> \<not> lp_selectionLocked p then [LP_Announce] else [])"
    by (simp add: render_lp_announce_def Let_def view_simps)
  ultimately show ?thesis
    by (cases a) (auto simp: leader_panel_offers_def LeaderPanel_def lp_selectable_def view_simps split: if_splits)
qed

lemmas lp_handlers = leader_panel_step_def lp_toggle_def lp_announce_def

lemma lp_selection_step:
  assumes "leader_panel_offers p s a"
  shows "lp_selectedHostages (fst (leader_panel_step p s (a, ok))) = lp_selectedHostages s \<or>
    (\<exists>x err. lp_selectable p x \<and> lp_selectedHostages (fst (leader_panel_step p s (a, ok))) =
        fst (limited_toggle (lp_hostageCount p) x (lp_selectedHostages s, err)))"
proof (cases a)
  case (LP_Toggle i)
  have "lp_selectedHostages (lp_toggle p i s) = lp_selectedHostages s \<or>
      lp_selectedHostages (lp_toggle p i s) = fst (limited_toggle (lp_hostageCount p) i (lp_selectedHostages s, ''''))"
    by (simp add: lp_toggle_def split: prod.split)
  then show ?thesis using LP_Toggle assms by (auto simp: lp_offers leader_panel_step_def)
qed (simp_all add: lp_handlers)

lemma lp_announced:
  "SelectHostages ids \<in> set (snd (leader_panel_step p s (a, ok))) \<Longrightarrow>
    ids = lp_selectedHostages s \<and> set_size (lp_selectedHostages s) = lp_hostageCount p"
  by (cases a) (auto simp: lp_handlers split: if_splits)

interpretation leader_panel: hostage_panel leader_panel_offers leader_panel_step lp_selectedHostages
  lp_hostageCount lp_selectable
proof (unfold_locales, goal_cases)
  case (1 p s e)
  then show ?case using lp_selection_step [of p s "fst e" "snd e"] by simp
next
  case (2 p s e ids)
  then show ?case using lp_announced [of ids p s "fst e" "snd e"] by simp
qed

text \<open>The leader panel announces distinct players that it was given, never its own player, exactly
  as many as required, and nothing at all while the selection is locked.\<close>

theorem leader_panel_announcements:
  "list_all (\<lambda>c. case c of
       SelectHostages ids \<Rightarrow> distinct ids \<and> int (length ids) = lp_hostageCount p \<and> list_all (lp_selectable p) ids \<and>
         \<not> lp_selectionLocked p
     | _ \<Rightarrow> True)
   (snd (session leader_panel_offers leader_panel_step init_leader_panel (map (Pair p) es)))"
proof -
  have exact: "list_all (leader_panel.exact (lp_hostageCount p) (lp_selectable p))
      (snd (session leader_panel_offers leader_panel_step init_leader_panel (map (Pair p) es)))"
    using leader_panel.announced_exactly [of "lp_hostageCount p" "lp_selectable p" "map (Pair p) es" init_leader_panel]
    by (simp add: list_all_iff init_leader_panel_def)
  have i: "interactive leader_panel_offers leader_panel_step (\<lambda>q. q = p) (\<lambda>_. True)
      (\<lambda>c. \<forall>ids. c = SelectHostages ids \<longrightarrow> \<not> lp_selectionLocked p)"
    by unfold_locales (auto simp: lp_offers lp_handlers list_all_iff split: leader_panel_action.splits if_splits)
  have "list_all (\<lambda>c. \<forall>ids. c = SelectHostages ids \<longrightarrow> \<not> lp_selectionLocked p)
      (snd (session leader_panel_offers leader_panel_step init_leader_panel (map (Pair p) es)))"
    by (rule interactive.session_good [OF i]) (simp_all add: list_all_iff)
  with exact show ?thesis
    by (auto simp: list_all_iff leader_panel.exact_def split: panel_command.splits)
qed

end
