(* ===== verification/Room_Roster.thy ===== *)
theory Room_Roster
  imports Room_Frames
begin

text \<open>
  The list of players that \<open>RoomPage\<close> keeps, against an abstract roster: a finite map from player
  identifiers to players, on which each message of the server is one update. Skipping a repeated
  message is harmless because every update is idempotent.
\<close>

section \<open>The abstract roster\<close>

type_synonym roster = "string \<Rightarrow> Player option"

text \<open>
  The contract of a roster: what each message does to it, for any representation that can look up
  players.
\<close>

locale player_roster =
  fixes look :: "'r \<Rightarrow> string \<Rightarrow> Player option"
    and join :: "Player \<Rightarrow> 'r \<Rightarrow> 'r"
    and leave :: "string \<Rightarrow> 'r \<Rightarrow> 'r"
    and rename :: "string \<Rightarrow> string \<Rightarrow> 'r \<Rightarrow> 'r"
    and own :: "string \<Rightarrow> 'r \<Rightarrow> 'r"
  assumes look_join: "look (join p r) = (if look r (player_id p) = None then (look r)(player_id p \<mapsto> p) else look r)"
    and look_leave: "look (leave i r) = (look r)(i := None)"
    and look_rename: "look (rename i n r) =
      (look r)(i := map_option (\<lambda>q. q\<lparr>nickname := n, isAnonymous := False\<rparr>) (look r i))"
    and look_own: "look (own i r) = (\<lambda>j. map_option (\<lambda>q. q\<lparr>isOwner := (j = i)\<rparr>) (look r j))"
begin

lemma look_join_present: "look (join p r) (player_id p) \<noteq> None"
  by (auto simp: look_join)

lemma look_leave_gone: "look (leave i r) i = None"
  by (simp add: look_leave)

lemma join_idem: "look (join p (join p r)) = look (join p r)"
  by (auto simp: look_join)

lemma leave_idem: "look (leave i (leave i r)) = look (leave i r)"
  by (auto simp: look_leave)

lemma rename_idem: "look (rename i n (rename i n r)) = look (rename i n r)"
  by (auto simp: look_rename map_option.compositionality comp_def)

lemma own_idem: "look (own i (own i r)) = look (own i r)"
  by (auto simp: look_own map_option.compositionality comp_def)

lemma own_unique: "look (own i r) j = Some q \<Longrightarrow> isOwner q \<longleftrightarrow> j = i"
  by (auto simp: look_own)

end

text \<open>The map itself, and the page's list.\<close>

definition rs_join :: "Player \<Rightarrow> roster \<Rightarrow> roster" where
  "rs_join p r = (if r (player_id p) = None then r(player_id p \<mapsto> p) else r)"

definition rs_rename :: "string \<Rightarrow> string \<Rightarrow> roster \<Rightarrow> roster" where
  "rs_rename i n r = r(i := map_option (\<lambda>q. q\<lparr>nickname := n, isAnonymous := False\<rparr>) (r i))"

definition rs_own :: "string \<Rightarrow> roster \<Rightarrow> roster" where
  "rs_own i r = (\<lambda>j. map_option (\<lambda>q. q\<lparr>isOwner := (j = i)\<rparr>) (r j))"

fun roster_step :: "WSMessage \<Rightarrow> roster \<Rightarrow> roster" where
  "roster_step (PLAYER_JOINED (Some p)) r = rs_join p r"
| "roster_step (PLAYER_LEFT i) r = r(i := None)"
| "roster_step (PLAYER_DISCONNECTED i) r = r(i := None)"
| "roster_step (NICKNAME_CHANGED i n) r = rs_rename i n r"
| "roster_step (OWNER_CHANGED (Some p)) r = rs_own (player_id p) r"
| "roster_step _ r = r"

definition roster_of :: "Player list \<Rightarrow> roster" where
  "roster_of ps i = find_player i ps"

definition list_join :: "Player \<Rightarrow> Player list \<Rightarrow> Player list" where
  "list_join p ps = (if list_ex (\<lambda>q. player_id q = player_id p) ps then ps else ps @ [p])"

lemma find_append: "find P (xs @ ys) = (case find P xs of None \<Rightarrow> find P ys | r \<Rightarrow> r)"
  by (induction xs) auto

lemma list_ex_ids: "list_ex (\<lambda>q. player_id q = i) ps \<longleftrightarrow> i \<in> set (player_ids ps)"
  by (induction ps) auto

lemma roster_list_join: "roster_of (list_join p ps) = rs_join p (roster_of ps)"
proof -
  have "list_ex (\<lambda>q. player_id q = player_id p) ps \<longleftrightarrow> find_player (player_id p) ps \<noteq> None"
    by (simp add: list_ex_ids find_player_None)
  moreover have "find_player i [p] = (if player_id p = i then Some p else None)" for i
    by (simp add: find_player_def)
  ultimately show ?thesis
    by (auto simp: list_join_def rs_join_def roster_of_def fun_eq_iff find_player_def find_append split: option.split)
qed

lemma roster_filter: "roster_of (filter (\<lambda>q. player_id q \<noteq> i) ps) = (roster_of ps)(i := None)"
  by (induction ps) (auto simp: roster_of_def fun_eq_iff find_player_def)

lemma roster_map:
  assumes "\<And>q. player_id (f q) = player_id q"
  shows "roster_of (map f ps) i = map_option f (roster_of ps i)"
  using assms by (induction ps) (auto simp: roster_of_def find_player_def)

lemma roster_rename:
  "roster_of (map (\<lambda>q. if player_id q = i then q\<lparr>nickname := n, isAnonymous := False\<rparr> else q) ps) =
     rs_rename i n (roster_of ps)"
proof
  fix j
  have "roster_of ps j = Some q \<Longrightarrow> player_id q = j" for q
    by (auto simp: roster_of_def dest: find_player_id)
  then show "roster_of (map (\<lambda>q. if player_id q = i then q\<lparr>nickname := n, isAnonymous := False\<rparr> else q) ps) j =
      rs_rename i n (roster_of ps) j"
    by (cases "roster_of ps j") (auto simp: roster_map rs_rename_def)
qed

lemma roster_own:
  "roster_of (map (\<lambda>q. q\<lparr>isOwner := (player_id q = i)\<rparr>) ps) = rs_own i (roster_of ps)"
proof
  fix j
  have "roster_of ps j = Some q \<Longrightarrow> player_id q = j" for q
    by (auto simp: roster_of_def dest: find_player_id)
  then show "roster_of (map (\<lambda>q. q\<lparr>isOwner := (player_id q = i)\<rparr>) ps) j = rs_own i (roster_of ps) j"
    by (cases "roster_of ps j") (auto simp: roster_map rs_own_def)
qed

interpretation abstract_roster: player_roster "\<lambda>r. r" rs_join "\<lambda>i r. r(i := None)" rs_rename rs_own
  by unfold_locales (simp_all add: rs_join_def rs_rename_def rs_own_def)

interpretation page_roster: player_roster roster_of list_join "\<lambda>i. filter (\<lambda>q. player_id q \<noteq> i)"
  "\<lambda>i n. map (\<lambda>q. if player_id q = i then q\<lparr>nickname := n, isAnonymous := False\<rparr> else q)"
  "\<lambda>i. map (\<lambda>q. q\<lparr>isOwner := (player_id q = i)\<rparr>)"
  by unfold_locales
    (simp_all add: roster_list_join roster_filter roster_rename roster_own rs_join_def rs_rename_def rs_own_def)

section \<open>The page refines the roster\<close>

definition page_roster :: "Room_Page \<Rightarrow> roster option" where
  "page_roster s = map_option (\<lambda>r. roster_of (players r)) (room s)"

lemma roster_step_idem: "roster_step m (roster_step m r) = roster_step m r"
  by (induction m r rule: roster_step.induct)
    (simp_all add: abstract_roster.join_idem abstract_roster.rename_idem abstract_roster.own_idem fun_eq_iff)

lemma handle_roster:
  "page_roster (handle_message m s) = map_option (roster_step m) (page_roster s)"
proof (cases m)
  case (PLAYER_JOINED p)
  have j: "(if list_ex (\<lambda>q. player_id q = player_id p) (players r) then r else r\<lparr>players := players r @ [p]\<rparr>) =
      r\<lparr>players := list_join p (players r)\<rparr>" for p r
    by (simp add: list_join_def)
  show ?thesis
    unfolding PLAYER_JOINED
    by (cases p) (simp_all add: handle_message_def on_player_joined_def j page_roster_def roster_list_join
        map_option.compositionality comp_def option.map_ident)
qed (auto simp: handle_message_def page_roster_def page_frame on_player_gone_def on_nickname_changed_def
    on_owner_changed_def roster_filter roster_rename roster_own map_option.compositionality comp_def
    option.map_ident split: option.split)

lemma step_roster:
  assumes "case lastProcessedMessageRef s of None \<Rightarrow> True
    | Some m \<Rightarrow> map_option (roster_step m) (page_roster s) = page_roster s"
  shows "page_roster (page_step s (Message m)) = map_option (roster_step m) (page_roster s) \<and>
    lastProcessedMessageRef (page_step s (Message m)) = Some m"
proof -
  have p: "page_roster (page_step s (Message m)) = page_roster (on_lastMessage m s)"
    "lastProcessedMessageRef (page_step s (Message m)) = lastProcessedMessageRef (on_lastMessage m s)"
    by (simp_all add: page_step_def handle_event_def page_roster_def page_frame)
  show ?thesis
  proof (cases "lastProcessedMessageRef s = Some m")
    case True
    then show ?thesis using assms p by (simp add: on_lastMessage_def)
  next
    case False
    have "lastProcessedMessageRef (handle_message m t) = lastProcessedMessageRef t" for t
      by (cases m) (simp_all add: handle_message_def page_frame split: option.split)
    then show ?thesis
      using False p handle_roster [of m "s\<lparr>lastProcessedMessageRef := Some m\<rparr>"]
      by (simp add: on_lastMessage_def page_roster_def)
  qed
qed

lemma run_roster:
  "(case lastProcessedMessageRef s of None \<Rightarrow> True
     | Some m \<Rightarrow> map_option (roster_step m) (page_roster s) = page_roster s) \<Longrightarrow>
   page_roster (page_run s (map Message ms)) = map_option (fold roster_step ms) (page_roster s)"
proof (induction ms arbitrary: s)
  case (Cons m ms)
  note st = step_roster [OF Cons.prems, of m]
  have "map_option (roster_step m) (page_roster (page_step s (Message m))) = page_roster (page_step s (Message m))"
    using st by (simp add: map_option.compositionality comp_def roster_step_idem)
  then have "page_roster (page_run (page_step s (Message m)) (map Message ms)) =
      map_option (fold roster_step ms) (page_roster (page_step s (Message m)))"
    using Cons.IH [of "page_step s (Message m)"] st by simp
  then show ?case using st by (simp add: map_option.compositionality comp_def)
qed (simp add: option.map_id)

text \<open>C6: The page's list of players refines the abstract roster: after any messages of the server, in
  any order and with any repetitions, looking up a player in the list gives what the map gives on
  which each message has been performed once, one after the other.\<close>

theorem roster_refinement:
  assumes "lastProcessedMessageRef s = None" "room s = Some r"
  shows "case room (page_run s (map Message ms)) of
      None \<Rightarrow> False
    | Some r' \<Rightarrow> (\<lambda>i. find_player i (players r')) = fold roster_step ms (\<lambda>i. find_player i (players r))"
proof -
  have "page_roster (page_run s (map Message ms)) = Some (fold roster_step ms (roster_of (players r)))"
    using run_roster [of s ms] assms by (simp add: page_roster_def)
  then show ?thesis
    by (auto simp: page_roster_def roster_of_def [abs_def] split: option.split)
qed

section \<open>Distinct players and a single owner\<close>

definition distinct_players :: "Room_Page \<Rightarrow> bool" where
  "distinct_players s \<longleftrightarrow> (case room s of None \<Rightarrow> True | Some r \<Rightarrow> distinct (player_ids (players r)))"

lemma distinct_handle: "distinct_players s \<Longrightarrow> distinct_players (handle_message m s)"
proof (cases m)
  case (NICKNAME_CHANGED i n)
  have e: "map (player_id \<circ> (\<lambda>q. if player_id q = i then q\<lparr>nickname := n, isAnonymous := False\<rparr> else q)) ps = player_ids ps" for ps
    by (induction ps) auto
  show "distinct_players s \<Longrightarrow> ?thesis"
    unfolding NICKNAME_CHANGED
    by (simp add: distinct_players_def handle_message_def on_nickname_changed_def e split: option.splits)
qed (auto simp: distinct_players_def handle_message_def page_frame on_player_joined_def on_player_gone_def
    on_owner_changed_def list_ex_ids distinct_map_filter comp_def split: option.splits)

lemma distinct_messages: "distinct_players s \<Longrightarrow> distinct_players (page_run s (map Message ms))"
proof (induction ms arbitrary: s)
  case (Cons m ms)
  have "distinct_players (on_lastMessage m s)"
    using Cons.prems distinct_handle [of "s\<lparr>lastProcessedMessageRef := Some m\<rparr>" m]
    by (simp add: on_lastMessage_def distinct_players_def)
  then have "distinct_players (page_step s (Message m))"
    by (simp add: page_step_def handle_event_def distinct_players_def page_frame)
  then show ?case using Cons.IH by simp
qed simp

text \<open>The messages of the server never make the page list a player twice, and a change of the owner
  leaves the room with exactly one owner, the new one, if the room has that player.\<close>

theorem one_owner_in_the_room:
  assumes "room s = Some r" "distinct (player_ids (players r))"
    and "lastProcessedMessageRef (page_run s (map Message ms)) \<noteq> Some (OWNER_CHANGED (Some p))"
  shows "case room (page_run s (map Message (ms @ [OWNER_CHANGED (Some p)]))) of
      None \<Rightarrow> False
    | Some r' \<Rightarrow> distinct (player_ids (players r')) \<and>
        player_ids (filter isOwner (players r')) =
          (if find_player (player_id p) (players r') = None then [] else [player_id p])"
proof -
  let ?s = "page_run s (map Message ms)"
  have "room ?s \<noteq> None"
  proof -
    have "room t \<noteq> None \<Longrightarrow> room (page_step t (Message m)) \<noteq> None" for t m
      by (cases m) (auto simp: page_step_def handle_event_def on_lastMessage_def handle_message_def page_frame
          on_player_joined_def on_player_gone_def on_nickname_changed_def on_owner_changed_def split: option.split)
    then have "room t \<noteq> None \<Longrightarrow> room (page_run t (map Message ms)) \<noteq> None" for t
      by (induction ms arbitrary: t) auto
    with assms(1) show ?thesis by simp
  qed
  then obtain q where q: "room ?s = Some q" by auto
  have d: "distinct (player_ids (players q))"
    using distinct_messages [of s ms] assms(1,2) q by (simp add: distinct_players_def)
  have o: "room (page_run s (map Message (ms @ [OWNER_CHANGED (Some p)]))) =
      Some (q\<lparr>players := map (\<lambda>x. x\<lparr>isOwner := (player_id x = player_id p)\<rparr>) (players q)\<rparr>)"
    using q assms(3)
    by (simp add: run_append page_step_def handle_event_def on_lastMessage_def handle_message_def page_frame
        on_owner_changed_def)
  have f1: "filter isOwner (map (\<lambda>x. x\<lparr>isOwner := (player_id x = i)\<rparr>) ps) =
      map (\<lambda>x. x\<lparr>isOwner := True\<rparr>) (filter (\<lambda>x. player_id x = i) ps)" for i ps
    by (induction ps) auto
  have f2: "distinct (player_ids ps) \<Longrightarrow> player_ids (filter (\<lambda>x. player_id x = i) ps) =
      (if i \<in> set (player_ids ps) then [i] else [])" for i ps
    by (induction ps) (auto simp: filter_empty_conv)
  have f3: "player_ids (map (\<lambda>x. x\<lparr>isOwner := (player_id x = i)\<rparr>) ps) = player_ids ps"
    "player_ids (map (\<lambda>x. x\<lparr>isOwner := True\<rparr>) ps) = player_ids ps" for i ps
    by (simp_all add: comp_def)
  show ?thesis
    unfolding o find_player_None using d by (simp add: f1 f2 f3 del: map_map)
qed

definition wo_player :: "string \<Rightarrow> bool \<Rightarrow> Player" where
  "wo_player i b = \<lparr>player_id = i, nickname = i, isAnonymous = False, player_roomCode = ''R'', isOwner = b,
     player_role = None, player_team = None, player_currentRoom = None, connectedAt = ''''\<rparr>"

definition wo_room :: Room where
  "wo_room = \<lparr>code = ''ABC123'', status = WAITING, players = [wo_player ''a'' True, wo_player ''b'' False],
     maxPlayers = 10, roleConfigId = None, selectedRoles = None, gameSession = None, room_createdAt = '''',
     room_updatedAt = ''''\<rparr>"

definition wo_page :: Room_Page where
  "wo_page = (mount_room_page ''ABC123'' None
     \<lparr>ls_playerId = None, ls_isOwner = None, ls_role = None, ls_team = None, ls_currentRoom = None, ls_history = None\<rparr>)
     \<lparr>room := Some wo_room, currentPlayer := Some (wo_player ''a'' True), loading := False\<rparr>"

lemmas wo_defs = wo_page_def wo_room_def wo_player_def mount_room_page_def

theorem roster_refinement_witness:
  "case room (page_run wo_page (map Message [PLAYER_JOINED (Some (wo_player ''c'' False)), PLAYER_LEFT ''a'', PLAYER_LEFT ''a''])) of
      None \<Rightarrow> False
    | Some r' \<Rightarrow> (\<lambda>i. find_player i (players r')) =
        fold roster_step [PLAYER_JOINED (Some (wo_player ''c'' False)), PLAYER_LEFT ''a'', PLAYER_LEFT ''a'']
          (\<lambda>i. find_player i (players wo_room))"
  by (rule roster_refinement) (simp_all add: wo_page_def mount_room_page_def)

theorem one_owner_in_the_room_witness:
  "case room (page_run wo_page (map Message ([PLAYER_LEFT ''a''] @ [OWNER_CHANGED (Some (wo_player ''b'' True))]))) of
      None \<Rightarrow> False
    | Some r' \<Rightarrow> distinct (player_ids (players r')) \<and>
        player_ids (filter isOwner (players r')) =
          (if find_player (player_id (wo_player ''b'' True)) (players r') = None then [] else [player_id (wo_player ''b'' True)])"
proof (rule one_owner_in_the_room)
  show "room wo_page = Some wo_room" by (simp add: wo_page_def)
  show "distinct (player_ids (players wo_room))" by (simp add: wo_room_def wo_player_def)
  have "lastProcessedMessageRef (page_run wo_page (map Message [PLAYER_LEFT ''a''])) = Some (PLAYER_LEFT ''a'')"
    using step_roster [of wo_page "PLAYER_LEFT ''a''"] by (simp add: wo_page_def mount_room_page_def)
  then show "lastProcessedMessageRef (page_run wo_page (map Message [PLAYER_LEFT ''a''])) \<noteq>
      Some (OWNER_CHANGED (Some (wo_player ''b'' True)))"
    by simp
qed

end
