(* ===== verification/Room_Log.thy ===== *)
theory Room_Log
  imports Room_Facts
begin

text \<open>
  The log of \<open>RoomPage\<close>: it holds each exchange and each change of leadership once, it is stored
  whenever it changes, and a page that is loaded again finds it.
\<close>

section \<open>What is logged\<close>

text \<open>The fields by which the page recognises an event that it has logged already.\<close>

definition log_key :: "History_Event \<Rightarrow> bool \<times> string \<times> string" where
  "log_key e = (case he_data e of
      Exchange x \<Rightarrow> (True, he_timestamp e, ex_playerId x)
    | LeadershipChange p \<Rightarrow> (False, he_timestamp e, color_str (lc_roomColor p)))"

definition exchange_keys :: "ExchangeRecord list \<Rightarrow> (bool \<times> string \<times> string) list" where
  "exchange_keys xs = map (\<lambda>x. (True, ex_timestamp x, ex_playerId x)) xs"

fun message_keys :: "WSMessage \<Rightarrow> (bool \<times> string \<times> string) list" where
  "message_keys (EXCHANGE_COMPLETE p) = exchange_keys (exchanges p)"
| "message_keys (LEADERSHIP_CHANGED (Some p)) =
     (if newLeader p = None then [] else [(False, lc_timestamp p, color_str (lc_roomColor p))])"
| "message_keys _ = []"

lemma color_str_eq: "color_str a = color_str b \<longleftrightarrow> a = b"
  by (cases a; cases b) (simp_all add: color_str_def)

lemma log_leadership_cases:
  "log_leadership n p prev =
     (let k = (False, lc_timestamp p, color_str (lc_roomColor p)) in
      if k \<in> set (map log_key prev) then prev
      else prev @ [\<lparr>he_roundNumber = n, he_timestamp = lc_timestamp p, he_data = LeadershipChange p\<rparr>])"
proof -
  have "list_ex (\<lambda>e. case he_data e of
        LeadershipChange q \<Rightarrow> he_timestamp e = lc_timestamp p \<and> lc_roomColor q = lc_roomColor p
      | Exchange _ \<Rightarrow> False) prev \<longleftrightarrow>
    (False, lc_timestamp p, color_str (lc_roomColor p)) \<in> set (map log_key prev)"
    by (induction prev) (auto simp: log_key_def color_str_eq split: History_Data.splits)
  then show ?thesis by (simp add: log_leadership_def)
qed

lemma log_exchanges_cases:
  "log_exchanges n xs prev =
     prev @ filter (\<lambda>new. log_key new \<notin> set (map log_key prev))
       (map (\<lambda>x. \<lparr>he_roundNumber = n, he_timestamp = ex_timestamp x, he_data = Exchange x\<rparr>) xs)"
proof -
  have e: "list_ex (\<lambda>old. case (he_data old, he_data new) of
        (Exchange a, Exchange b) \<Rightarrow> he_timestamp old = he_timestamp new \<and> ex_playerId a = ex_playerId b
      | _ \<Rightarrow> False) prev \<longleftrightarrow> log_key new \<in> set (map log_key prev)"
    if "\<exists>x. he_data new = Exchange x" for new
    using that by (induction prev) (auto simp: log_key_def split: History_Data.splits)
  show ?thesis
    unfolding log_exchanges_def Let_def
    by (rule arg_cong [where f = "(@) prev"], rule filter_cong [OF refl], subst e) auto
qed

lemma log_leadership_keys:
  "distinct (map log_key prev) \<Longrightarrow>
    distinct (map log_key (log_leadership n p prev)) \<and>
    set (map log_key (log_leadership n p prev)) =
      insert (False, lc_timestamp p, color_str (lc_roomColor p)) (set (map log_key prev))"
  by (auto simp: log_leadership_cases Let_def log_key_def)

lemma set_map_filter_not: "set (map f (filter (\<lambda>x. f x \<notin> A) xs)) = set (map f xs) - A"
  by (induction xs) auto

lemma log_exchanges_keys:
  assumes "distinct (map log_key prev)" "distinct (exchange_keys xs)"
  shows "distinct (map log_key (log_exchanges n xs prev)) \<and>
    set (map log_key (log_exchanges n xs prev)) = set (map log_key prev) \<union> set (exchange_keys xs)"
proof -
  let ?new = "map (\<lambda>x. \<lparr>he_roundNumber = n, he_timestamp = ex_timestamp x, he_data = Exchange x\<rparr>) xs"
  have k: "map log_key ?new = exchange_keys xs"
    by (simp add: log_key_def exchange_keys_def)
  have "distinct (map log_key (filter (\<lambda>new. log_key new \<notin> set (map log_key prev)) ?new))"
    using assms(2) unfolding k [symmetric] by (rule distinct_map_filter)
  moreover have "set (map log_key (filter (\<lambda>new. log_key new \<notin> set (map log_key prev)) ?new)) =
      set (exchange_keys xs) - set (map log_key prev)"
    unfolding k [symmetric] by (rule set_map_filter_not)
  ultimately show ?thesis
    using assms(1) unfolding log_exchanges_cases map_append distinct_append set_append by blast
qed

text \<open>No reset, and no exchange listed twice in one message.\<close>

fun loggable :: "WSMessage \<Rightarrow> bool" where
  "loggable (GAME_RESET _) = False"
| "loggable (EXCHANGE_COMPLETE p) = distinct (exchange_keys (exchanges p))"
| "loggable _ = True"

lemma handle_log:
  assumes "distinct (map log_key (historyEvents s))" "loggable m"
  shows "distinct (map log_key (historyEvents (handle_message m s))) \<and>
    set (map log_key (historyEvents (handle_message m s))) =
      set (map log_key (historyEvents s)) \<union> set (message_keys m) \<and>
    (\<exists>new. historyEvents (handle_message m s) = historyEvents s @ new)"
proof (cases m)
  case (LEADERSHIP_CHANGED q)
  show ?thesis
  proof (cases "case q of None \<Rightarrow> None | Some p \<Rightarrow> newLeader p")
    case None
    then show ?thesis
      using LEADERSHIP_CHANGED assms(1)
      by (auto simp: handle_message_def on_leadership_changed_def split: option.splits)
  next
    case (Some l)
    then obtain p where p: "q = Some p" "newLeader p = Some l" by (auto split: option.splits)
    have h: "historyEvents (handle_message m s) = log_leadership (currentRound s) p (historyEvents s)"
      using p LEADERSHIP_CHANGED
      by (simp add: handle_message_def on_leadership_changed_def set_view_def Let_def)
    have "\<exists>new. log_leadership (currentRound s) p (historyEvents s) = historyEvents s @ new"
      by (simp add: log_leadership_def)
    then show ?thesis
      unfolding h using log_leadership_keys [OF assms(1), of "currentRound s" p] p LEADERSHIP_CHANGED by auto
  qed
next
  case (EXCHANGE_COMPLETE p)
  have h: "historyEvents (handle_message m s) = log_exchanges (ec_roundNumber p) (exchanges p) (historyEvents s)"
    using EXCHANGE_COMPLETE by (simp add: handle_message_def on_exchange_complete_def Let_def)
  have "\<exists>new. log_exchanges (ec_roundNumber p) (exchanges p) (historyEvents s) = historyEvents s @ new"
    by (simp add: log_exchanges_def)
  then show ?thesis
    unfolding h using log_exchanges_keys [OF assms(1)] assms(2) EXCHANGE_COMPLETE by simp
qed (use assms in \<open>simp_all add: handle_message_def page_frame split: option.split\<close>)

lemma log_run:
  "distinct (map log_key (historyEvents s)) \<Longrightarrow> list_all loggable ms \<Longrightarrow>
   (case lastProcessedMessageRef s of None \<Rightarrow> True
     | Some m \<Rightarrow> set (message_keys m) \<subseteq> set (map log_key (historyEvents s))) \<Longrightarrow>
   (let h = historyEvents (page_run s (map Message ms)) in
      distinct (map log_key h) \<and>
      set (map log_key h) = set (map log_key (historyEvents s)) \<union> set (concat (map message_keys ms)) \<and>
      (\<exists>new. h = historyEvents s @ new))"
proof (induction ms arbitrary: s)
  case (Cons m ms)
  let ?s = "page_step s (Message m)"
  have l: "lastProcessedMessageRef (handle_message m t) = lastProcessedMessageRef t" for t
    by (cases m) (simp_all add: handle_message_def page_frame split: option.split)
  have p: "historyEvents ?s = historyEvents (on_lastMessage m s)"
    "lastProcessedMessageRef ?s = Some m"
    by (simp_all add: page_step_def handle_event_def page_frame on_lastMessage_def l)
  have st: "distinct (map log_key (historyEvents ?s)) \<and>
      set (map log_key (historyEvents ?s)) = set (map log_key (historyEvents s)) \<union> set (message_keys m) \<and>
      (\<exists>new. historyEvents ?s = historyEvents s @ new)"
  proof (cases "lastProcessedMessageRef s = Some m")
    case True
    then show ?thesis using Cons.prems unfolding p by (auto simp: on_lastMessage_def)
  next
    case False
    then show ?thesis
      unfolding p
      using handle_log [of "s\<lparr>lastProcessedMessageRef := Some m\<rparr>" m] Cons.prems by (simp add: on_lastMessage_def)
  qed
  have "let h = historyEvents (page_run ?s (map Message ms)) in
      distinct (map log_key h) \<and>
      set (map log_key h) = set (map log_key (historyEvents ?s)) \<union> set (concat (map message_keys ms)) \<and>
      (\<exists>new. h = historyEvents ?s @ new)"
    using st Cons.prems(2) p by (intro Cons.IH) auto
  then show ?case using st unfolding Let_def list.map run_Cons concat.simps set_append by auto
qed (auto simp: Let_def)

text \<open>C29: Until the game is reset, the log only grows, it never holds an event twice, and it holds
  exactly the events that it held before and those that the messages of the server report, however
  often they are repeated.\<close>

theorem log_is_exact:
  assumes "distinct (map log_key (historyEvents s))" "lastProcessedMessageRef s = None"
    and "list_all loggable ms"
  shows "let h = historyEvents (page_run s (map Message ms)) in
      take (length (historyEvents s)) h = historyEvents s \<and> distinct (map log_key h) \<and>
      set (map log_key h) = set (map log_key (historyEvents s)) \<union> set (concat (map message_keys ms))"
  using log_run [OF assms(1,3)] assms(2) by (auto simp: Let_def)

section \<open>The stored log\<close>

definition stored :: "Room_Page \<Rightarrow> bool" where
  "stored s \<longleftrightarrow> rp_roomCode s \<noteq> '''' \<and>
     (historyEvents s \<noteq> [] \<longrightarrow> ls_history (storage s) = Some (historyEvents s))"

text \<open>No handler touches the stored log unless it empties the log.\<close>

definition log_kept :: "Room_Page \<Rightarrow> Room_Page \<Rightarrow> bool" where
  "log_kept s s' \<longleftrightarrow> rp_roomCode s' = rp_roomCode s \<and>
     (ls_history (storage s') = ls_history (storage s) \<or> historyEvents s' = [])"

lemma log_kept_message: "log_kept s (handle_message m s)"
  by (cases m) (simp_all add: log_kept_def handle_message_def page_frame on_role_assigned_def on_game_reset_def
      Let_def split: option.split)

lemma log_kept_resume: "log_kept s (fst (resume t a s))"
  by (cases t; cases a) (simp_all add: log_kept_def resume_defs page_frame init_join_def)

lemma log_kept_handle: "log_kept s (fst (handle_event e s))"
proof (cases e)
  case (Message m)
  then show ?thesis
    using log_kept_message [of "s\<lparr>lastProcessedMessageRef := Some m\<rparr>" m]
    by (simp add: handle_event_def on_lastMessage_def log_kept_def)
next
  case (Answered i a)
  then show ?thesis
    using log_kept_resume [of "s\<lparr>tasks := take i (tasks s) @ drop (Suc i) (tasks s)\<rparr>" "tasks s ! i" a]
    by (auto simp: handle_event_def take_task_def log_kept_def)
qed (auto simp: log_kept_def handle_event_defs page_frame Let_def
    split: option.split panel_command.split modal_command.split prod.split)

lemma stored_step: "stored s \<Longrightarrow> stored (page_step s e)"
  using log_kept_handle [of s e]
  by (auto simp: stored_def log_kept_def page_step_def page_frame save_history_def)

lemma stored_run: "stored s \<Longrightarrow> stored (page_run s es)"
  by (induction es arbitrary: s) (simp_all add: stored_step)

text \<open>Loading the page again loses nothing of the log: whatever a page has been through, a new page
  on the same storage that comes back into the running game has the log that the old page had.\<close>

theorem log_survives_reload:
  "let s = page_run (mount_room_page (c # cs) view_param st) es;
       s' = init_restore b (mount_room_page (c # cs) view_param' (storage s))
   in historyEvents s = [] \<or> historyEvents s' = historyEvents s"
proof -
  have "stored (page_run (mount_room_page (c # cs) view_param st) es)"
    by (rule stored_run) (simp add: stored_def mount_room_page_def)
  then show ?thesis
    by (auto simp: stored_def init_restore_def init_done_def mount_room_page_def set_view_def)
qed

definition wl_exchange :: "string \<Rightarrow> ExchangeRecord" where
  "wl_exchange i = \<lparr>ex_playerId = i, ex_nickname = i, fromRoom = RED_ROOM, toRoom = BLUE_ROOM, ex_timestamp = ''t''\<rparr>"

definition wl_complete :: WSMessage where
  "wl_complete = EXCHANGE_COMPLETE \<lparr>ec_roundNumber = 1, exchanges = [wl_exchange ''a'', wl_exchange ''b''], nextRound = Some 2\<rparr>"

theorem log_is_exact_witness:
  "let s = mount_room_page ''ABC123'' None wr_storage;
       h = historyEvents (page_run s (map Message [wl_complete, TIMER_TICK 1 5, wl_complete])) in
     take (length (historyEvents s)) h = historyEvents s \<and> distinct (map log_key h) \<and>
     set (map log_key h) = set (map log_key (historyEvents s)) \<union>
       set (concat (map message_keys [wl_complete, TIMER_TICK 1 5, wl_complete]))"
  using log_is_exact [of "mount_room_page ''ABC123'' None wr_storage" "[wl_complete, TIMER_TICK 1 5, wl_complete]"]
  by (simp add: mount_room_page_def wl_complete_def wl_exchange_def exchange_keys_def Let_def)

section \<open>Votes and owners that are out of date\<close>

text \<open>The timeout that follows the end of a vote closes whatever vote is open when it fires: if a new
  voting session has started within the three seconds, the player is taken out of it and the page
  forgets the session, although it is still open on the server.\<close>

theorem late_timeout_closes_new_vote:
  assumes "tasks s = ts @ [T_VoteDone] @ us"
  shows "let s1 = page_step s (Message (VOTE_SESSION_STARTED payload));
             s2 = page_step s1 (Answered (length ts) Done)
    in activeVoteSession s2 = None \<and> (lastProcessedMessageRef s = Some (VOTE_SESSION_STARTED payload) \<or>
         activeVoteSession s1 = Some (started_vote payload))"
proof -
  let ?s1 = "page_step s (Message (VOTE_SESSION_STARTED payload))"
  have "tasks ?s1 = ts @ [T_VoteDone] @ us"
    using assms by (simp add: page_step_def handle_event_def on_lastMessage_def handle_message_def page_frame)
  moreover have "activeVoteSession (render_redirect (save_history old t)) = activeVoteSession t" for old t
    by (simp add: render_redirect_def save_history_def set_view_def split: option.split)
  ultimately show ?thesis
    by (simp add: page_step_def handle_event_def take_task_def resume_def vote_done_def set_view_def Let_def
        on_lastMessage_def handle_message_def on_vote_started_def open_vote_def)
qed

theorem late_timeout_closes_new_vote_witness:
  "let s = (mount_room_page ''ABC123'' None wr_storage)\<lparr>tasks := [] @ [T_VoteDone] @ []\<rparr>;
       s1 = page_step s (Message (VOTE_SESSION_STARTED
         \<lparr>vss_voteId = ''v2'', vss_roomColor = RED_ROOM, vss_targetLeader = None, vss_initiator = None,
          vss_candidates = None, vss_totalVoters = 3, vss_timeoutSeconds = 30, vss_startedAt = ''''\<rparr>));
       s2 = page_step s1 (Answered (length ([] :: task list)) Done)
   in activeVoteSession s2 = None \<and> (lastProcessedMessageRef s = Some (VOTE_SESSION_STARTED
         \<lparr>vss_voteId = ''v2'', vss_roomColor = RED_ROOM, vss_targetLeader = None, vss_initiator = None,
          vss_candidates = None, vss_totalVoters = 3, vss_timeoutSeconds = 30, vss_startedAt = ''''\<rparr>) \<or>
       activeVoteSession s1 = Some (started_vote
         \<lparr>vss_voteId = ''v2'', vss_roomColor = RED_ROOM, vss_targetLeader = None, vss_initiator = None,
          vss_candidates = None, vss_totalVoters = 3, vss_timeoutSeconds = 30, vss_startedAt = ''''\<rparr>))"
  unfolding Let_def by (rule late_timeout_closes_new_vote [unfolded Let_def]) simp

end
