(* ===== verification/Role_Config.thy ===== *)
theory Role_Config
  imports Api
begin

text \<open>
  \<open>pages/RoleConfigPage.tsx\<close>: the page on which the host picks the roles of a game and their numbers
  and creates the room. The width of the window decides whether the summary is displayed.
\<close>

section \<open>State and loading\<close>

record Role_Page =
  allRoles :: "RoleDefinition list"
  rc_selectedRoles :: "(string, int) js_map"
  rc_loading :: bool
  creating :: bool
  rc_error :: string

definition mount_role_page :: Role_Page where
  "mount_role_page = \<lparr>allRoles = [], rc_selectedRoles = [], rc_loading = True, creating = False, rc_error = ''''\<rparr>"

datatype role_action =
    ConfigsAnswered "js_error + RoleConfigMeta list"
  | ConfigAnswered "js_error + RoleConfig"
  | RoleToggle string
  | CountChange string int
  | CreateClick
  | Created "js_error + string \<times> Player list"
  | BackClick

datatype role_command =
    CallConfig string
  | CallCreate int bool string "(string, int) js_map"
  | Store string string
  | RoleNavigate string

definition load_failed :: "Role_Page \<Rightarrow> Role_Page" where
  "load_failed s = s\<lparr>rc_error := ''The list of roles cannot be loaded'', rc_loading := False\<rparr>"

text \<open>\<open>loadRoles\<close>, after the list of configurations and after the full configuration.\<close>

definition on_configs :: "js_error + RoleConfigMeta list \<Rightarrow> Role_Page \<Rightarrow> Role_Page \<times> role_command list" where
  "on_configs a s =
     (case a of
        Inl _ \<Rightarrow> (load_failed s, [])
      | Inr configs \<Rightarrow>
          (case find (\<lambda>c. config_id c = ''all-roles'') configs of
             None \<Rightarrow> (load_failed s, [])
           | Some _ \<Rightarrow> (s, [CallConfig ''all-roles''])))"

definition on_config :: "js_error + RoleConfig \<Rightarrow> Role_Page \<Rightarrow> Role_Page" where
  "on_config a s =
     (case a of
        Inl _ \<Rightarrow> load_failed s
      | Inr config \<Rightarrow>
          s\<lparr>allRoles := config_roles config,
            rc_selectedRoles := map_set ''BOMBER'' 1 (map_set ''PRESIDENT'' 1 []), rc_loading := False\<rparr>)"

section \<open>Choosing\<close>

definition requiredRoles :: "string list" where
  "requiredRoles = [''PRESIDENT'', ''BOMBER'']"

definition toggleRole :: "string \<Rightarrow> Role_Page \<Rightarrow> Role_Page" where
  "toggleRole roleId s =
     (if roleId \<in> set requiredRoles then s
      else s\<lparr>rc_selectedRoles :=
        (if map_has (rc_selectedRoles s) roleId then map_delete roleId (rc_selectedRoles s)
         else map_set roleId 1 (rc_selectedRoles s))\<rparr>)"

definition updateRoleCount :: "string \<Rightarrow> int \<Rightarrow> Role_Page \<Rightarrow> Role_Page" where
  "updateRoleCount roleId n s =
     (if roleId \<in> set requiredRoles then s
      else if n < 0 then s
      else if n > 99 then s
      else s\<lparr>rc_selectedRoles :=
        (if n = 0 then map_delete roleId (rc_selectedRoles s)
         else map_set roleId n (rc_selectedRoles s))\<rparr>)"

definition getTotalRoleCount :: "Role_Page \<Rightarrow> int" where
  "getTotalRoleCount s = foldl (\<lambda>sum n. sum + n) 0 (map snd (rc_selectedRoles s))"

text \<open>The object built from the map, one assignment per entry.\<close>

definition roles_record :: "(string, int) js_map \<Rightarrow> (string, int) js_map" where
  "roles_record m = foldl (\<lambda>r (roleId, n). map_set roleId n r) [] m"

definition handleCreateRoom :: "Role_Page \<Rightarrow> Role_Page \<times> role_command list" where
  "handleCreateRoom s =
     (if map_size (rc_selectedRoles s) < 4 then
        (s\<lparr>rc_error := ''Select at least 4 roles (president, bomber, blue team, red team)''\<rparr>, [])
      else
        (let totalCount = getTotalRoleCount s in
         if totalCount < 6 then
           (s\<lparr>rc_error := ''At least 6 players are needed. Raise the numbers of the roles.''\<rparr>, [])
         else
           (s\<lparr>creating := True, rc_error := ''''\<rparr>,
            [CallCreate totalCount True ''all-roles'' (roles_record (rc_selectedRoles s))])))"

definition on_created :: "js_error + string \<times> Player list \<Rightarrow> Role_Page \<Rightarrow> Role_Page \<times> role_command list" where
  "on_created a s =
     (case a of
        Inl _ \<Rightarrow> (s\<lparr>rc_error := ''Failed to create the room'', creating := False\<rparr>, [])
      | Inr (room_code, ps) \<Rightarrow>
          (s, (case find isOwner ps of
                 None \<Rightarrow> []
               | Some owner \<Rightarrow> [Store (''playerId_'' @ room_code) (player_id owner), Store (''isOwner_'' @ room_code) ''true'']) @
              [RoleNavigate (''/room/'' @ room_code @ ''?view=lobby'')]))"

definition role_page_step :: "int \<Rightarrow> Role_Page \<Rightarrow> role_action \<times> bool \<Rightarrow> Role_Page \<times> role_command list" where
  "role_page_step width s e =
     (case fst e of
        ConfigsAnswered a \<Rightarrow> on_configs a s
      | ConfigAnswered a \<Rightarrow> (on_config a s, [])
      | RoleToggle i \<Rightarrow> (toggleRole i s, [])
      | CountChange i n \<Rightarrow> (updateRoleCount i n s, [])
      | CreateClick \<Rightarrow> handleCreateRoom s
      | Created a \<Rightarrow> on_created a s
      | BackClick \<Rightarrow> (s, [RoleNavigate ''/'']))"

section \<open>The rendered page\<close>

definition the_str :: "string option \<Rightarrow> string" where
  "the_str x = (case x of None \<Rightarrow> ''undefined'' | Some s \<Rightarrow> s)"

definition opt_text :: "string option \<Rightarrow> 'a node list" where
  "opt_text x = (case x of None \<Rightarrow> [] | Some s \<Rightarrow> [Txt s])"

definition render_summary_entry :: "Role_Page \<Rightarrow> string \<times> int \<Rightarrow> 'a node list" where
  "render_summary_entry s entry =
     (case find (\<lambda>r. rd_id r = fst entry) (allRoles s) of
        None \<Rightarrow> []
      | Some r \<Rightarrow>
          [El ''div'' [Style ''backgroundColor'' (the_str (rd_color r) @ ''15'')]
            [El ''div'' [] [El ''span'' [] (opt_text (rd_icon r)), El ''span'' [] [Txt (rd_nameKo r)]],
             El ''span'' [Style ''color'' (the_str (rd_color r))] [Txt ''x'', Num (snd entry)]]])"

definition total_styles :: "string \<Rightarrow> int \<Rightarrow> 'a attr list" where
  "total_styles width totalCount =
     [Style ''backgroundColor'' (if totalCount \<ge> 6 then ''#e6f7ff'' else ''#fff7e6''),
      Style ''border'' (width @ '' solid '' @ (if totalCount \<ge> 6 then ''#91d5ff'' else ''#ffd591'')),
      Style ''color'' (if totalCount \<ge> 6 then ''#0050b3'' else ''#d46b08'')]"

definition render_summary :: "int \<Rightarrow> Role_Page \<Rightarrow> 'a node" where
  "render_summary width s =
     El ''div'' [Style ''display'' (if width < 768 then ''none'' else ''block'')]
      [El ''div'' []
        [El ''h3'' [] [Txt ''Selected roles''],
         El ''div'' (total_styles ''2px'' (getTotalRoleCount s)) [Txt ''Total '', Num (getTotalRoleCount s)],
         El ''div'' []
          (concat (map (render_summary_entry s) (rc_selectedRoles s)) @
           shown (map_size (rc_selectedRoles s) = 0) [El ''div'' [] [Txt ''Please select roles'']])]]"

definition role_card :: "Role_Page \<Rightarrow> RoleDefinition \<Rightarrow> role_action node" where
  "role_card s r =
     (let n = (case map_get (rc_selectedRoles s) (rd_id r) of None \<Rightarrow> 0 | Some n \<Rightarrow> n);
          selected = map_has (rc_selectedRoles s) (rd_id r);
          isRequired = (rd_id r = ''PRESIDENT'' \<or> rd_id r = ''BOMBER'') in
      El ''div''
       ((if isRequired then [] else [OnClick (RoleToggle (rd_id r))]) @
        [Style ''border'' (''2px solid '' @ (if selected then the_str (rd_color r) else ''var(--border-color, #ddd)'')),
         Style ''backgroundColor'' (if selected then the_str (rd_color r) @ ''10'' else ''var(--bg-card)''),
         Style ''cursor'' (if isRequired then ''default'' else ''pointer'')])
       [El ''div'' []
         ([El ''span'' [] (opt_text (rd_icon r)),
           El ''div'' []
            [El ''div'' []
              ([El ''span'' [] [Txt (rd_nameKo r)]] @
               shown isRequired [El ''span'' [Style ''backgroundColor'' (the_str (rd_color r))] [Txt ''required'']]),
             El ''div'' [] (opt_text (rd_descriptionKo r))]] @
          shown (selected \<and> isRequired) [El ''div'' [Style ''color'' (the_str (rd_color r))] [Txt ''x1'']] @
          shown (selected \<and> \<not> isRequired)
           [El ''div'' []
             [El ''button'' [OnClick (CountChange (rd_id r) (n - 1)), Disabled (n \<le> 1),
                Style ''cursor'' (if n \<le> 1 then ''not-allowed'' else ''pointer''),
                Style ''opacity'' (if n \<le> 1 then ''0.5'' else ''1'')] [Txt ''-''],
              El ''div'' [Style ''color'' (the_str (rd_color r))] [Num n],
              El ''button'' [OnClick (CountChange (rd_id r) (n + 1))] [Txt ''+'']]])])"

definition roles_of_team :: "TeamColor \<Rightarrow> Role_Page \<Rightarrow> RoleDefinition list" where
  "roles_of_team t s = filter (\<lambda>r. rd_team r = t) (allRoles s)"

definition render_team :: "string \<Rightarrow> TeamColor \<Rightarrow> Role_Page \<Rightarrow> role_action node" where
  "render_team title t s =
     El ''div'' [] [El ''h2'' [] [Txt title], El ''div'' [] (map (role_card s) (roles_of_team t s))]"

definition render_role_buttons :: "Role_Page \<Rightarrow> role_action node" where
  "render_role_buttons s =
     (let total = getTotalRoleCount s; off = (creating s \<or> map_size (rc_selectedRoles s) < 4 \<or> total < 6) in
      El ''div'' []
       [El ''button''
         [OnClick CreateClick, Disabled off, Style ''backgroundColor'' (if off then ''#999'' else ''#28a745''),
          Style ''cursor'' (if off then ''not-allowed'' else ''pointer''), Style ''opacity'' (if off then ''0.6'' else ''1'')]
         (if creating s then [Txt ''Creating the room...''] else [Txt ''Create the room (total '', Num total, Txt '')'']),
        El ''button''
         [OnClick BackClick, Disabled (creating s), Style ''cursor'' (if creating s then ''not-allowed'' else ''pointer'')]
         [Txt ''Back'']])"

definition RoleConfigPage :: "int \<Rightarrow> Role_Page \<Rightarrow> role_action node" where
  "RoleConfigPage width s =
     (if rc_loading s then El ''Layout'' [] [El ''LoadingSpinner'' [] []]
      else
        (let total = getTotalRoleCount s in
         El ''Layout'' []
          [El ''div'' []
            [render_summary width s,
             El ''div'' []
              ([El ''h1'' [] [Txt ''Select the roles''],
                El ''p'' [] [Txt ''Choose the roles of the game and the number of players of each role''],
                El ''div'' (total_styles ''1px'' total)
                 ([Txt ''Total: '', Num total] @ shown (total < 6) [Txt '' (at least 6 are needed)''])] @
               shown (rc_error s \<noteq> '''') [El ''div'' [] [Txt (rc_error s)]] @
               [render_team ''Blue team'' BLUE s, render_team ''Red team'' RED s] @
               shown (length (roles_of_team GREY s) > 0) [render_team ''Neutral'' GREY s] @
               [render_role_buttons s])]]))"

text \<open>The user acts on what is rendered; the answers come while the page waits for them.\<close>

definition role_page_offers :: "int \<Rightarrow> Role_Page \<Rightarrow> role_action \<Rightarrow> bool" where
  "role_page_offers width s a \<longleftrightarrow>
     (case a of
        ConfigsAnswered _ \<Rightarrow> rc_loading s
      | ConfigAnswered _ \<Rightarrow> rc_loading s
      | Created _ \<Rightarrow> creating s
      | _ \<Rightarrow> a \<in> set (offers (RoleConfigPage width s)))"

section \<open>The selection stays legal\<close>

definition legal_selection :: "(string, int) js_map \<Rightarrow> bool" where
  "legal_selection m \<longleftrightarrow> map_wf m \<and> map_get m ''PRESIDENT'' = Some 1 \<and> map_get m ''BOMBER'' = Some 1 \<and>
     list_all (\<lambda>(i, n). 1 \<le> n \<and> n \<le> 99) m"

definition role_inv :: "Role_Page \<Rightarrow> bool" where
  "role_inv s \<longleftrightarrow> (allRoles s = [] \<and> rc_selectedRoles s = []) \<or> legal_selection (rc_selectedRoles s)"

lemma list_all_map_set:
  "list_all P m \<Longrightarrow> P (k, v) \<Longrightarrow> list_all P (map_set k v m)"
  by (induction k v m rule: map_set.induct) auto

lemma list_all_map_delete: "list_all P m \<Longrightarrow> list_all P (map_delete k m)"
  by (auto simp: map_delete_def list_all_iff)

lemma legal_set:
  assumes "legal_selection m" "i \<notin> set requiredRoles" "1 \<le> n" "n \<le> 99"
  shows "legal_selection (map_set i n m)"
  using assms by (auto simp: legal_selection_def requiredRoles_def jsm.wf_put jsm.lookup_put list_all_map_set)

lemma legal_delete:
  assumes "legal_selection m" "i \<notin> set requiredRoles"
  shows "legal_selection (map_delete i m)"
  using assms by (auto simp: legal_selection_def requiredRoles_def jsm.wf_remove jsm.lookup_remove list_all_map_delete)

lemma required_selection: "legal_selection (map_set ''BOMBER'' 1 (map_set ''PRESIDENT'' 1 []))"
  by (simp add: legal_selection_def map_get_def)

text \<open>Before the roles are loaded nothing can be chosen.\<close>

lemma toggles_offered:
  "RoleToggle i \<in> set (offers (RoleConfigPage w s)) \<or> CountChange i n \<in> set (offers (RoleConfigPage w s)) \<Longrightarrow>
    allRoles s \<noteq> []"
  by (cases "allRoles s") (auto simp: RoleConfigPage_def render_summary_def render_summary_entry_def render_team_def total_styles_def total_styles_def
      roles_of_team_def render_role_buttons_def Let_def view_simps split: if_splits)

lemma roles_record_append: "map_wf (m @ n) \<Longrightarrow> foldl (\<lambda>r (i, k). map_set i k r) m n = m @ n"
proof (induction n arbitrary: m)
  case (Cons p n)
  obtain i k where p: "p = (i, k)" by (cases p)
  have "i \<notin> fst ` set m" using Cons.prems by (auto simp: p)
  then have "map_set i k m = m @ [p]"
    unfolding p by (induction i k m rule: map_set.induct) auto
  then show ?case using Cons.IH [of "m @ [p]"] Cons.prems by (simp add: p)
qed simp

lemma roles_record_id: "map_wf m \<Longrightarrow> roles_record m = m"
  using roles_record_append [of "[]" m] by (simp add: roles_record_def)

lemma total_sum: "getTotalRoleCount s = sum_list (map snd (rc_selectedRoles s))"
proof -
  have "foldl (\<lambda>a n. a + n) k xs = k + sum_list xs" for k :: int and xs
    by (induction xs arbitrary: k) simp_all
  then show ?thesis by (simp add: getTotalRoleCount_def)
qed

definition legal_room :: "role_command \<Rightarrow> bool" where
  "legal_room c \<longleftrightarrow> (case c of
      CallCreate n public config roles \<Rightarrow>
        legal_selection roles \<and> n = sum_list (map snd roles) \<and> 6 \<le> n \<and> 4 \<le> length roles \<and>
        public \<and> config = ''all-roles''
    | _ \<Rightarrow> True)"

lemmas role_handlers = role_page_step_def on_configs_def on_config_def load_failed_def toggleRole_def
  updateRoleCount_def handleCreateRoom_def on_created_def

lemma role_inv_step:
  assumes "role_inv s" "role_page_offers w s a"
  shows "role_inv (fst (role_page_step w s (a, ok)))"
proof (cases a)
  case (RoleToggle i)
  then have "allRoles s \<noteq> []" using assms(2) toggles_offered [of i w s] by (simp add: role_page_offers_def)
  then show ?thesis
    using assms(1) RoleToggle legal_set [of "rc_selectedRoles s" i 1] legal_delete [of "rc_selectedRoles s" i]
    by (simp add: role_inv_def role_page_step_def toggleRole_def)
next
  case (CountChange i n)
  then have "allRoles s \<noteq> []" using assms(2) toggles_offered [of i w s n] by (simp add: role_page_offers_def)
  then show ?thesis
    using assms(1) CountChange legal_set [of "rc_selectedRoles s" i n] legal_delete [of "rc_selectedRoles s" i]
    by (simp add: role_inv_def role_page_step_def updateRoleCount_def)
qed (use assms(1) required_selection in
    \<open>auto simp: role_inv_def role_handlers Let_def split: sum.split option.split prod.split\<close>)

lemma legal_room_step:
  assumes "role_inv s"
  shows "list_all legal_room (snd (role_page_step w s (a, ok)))"
proof (cases a)
  case CreateClick
  have r: "roles_record (rc_selectedRoles s) = rc_selectedRoles s"
    by (rule roles_record_id) (use assms in \<open>auto simp: role_inv_def legal_selection_def\<close>)
  show ?thesis
    using assms CreateClick
    by (auto simp: role_page_step_def handleCreateRoom_def Let_def map_size_def legal_room_def role_inv_def
        r total_sum)
qed (auto simp: role_handlers legal_room_def split: sum.split option.split)

interpretation role_page: interactive role_page_offers role_page_step "\<lambda>_. True" role_inv legal_room
proof (unfold_locales, goal_cases)
  case (1 p s e)
  then show ?case using role_inv_step [of s p "fst e" "snd e"] by simp
next
  case (2 p s e)
  then show ?case using legal_room_step [of s p "fst e" "snd e"] unfolding prod.collapse by simp
qed

text \<open>C38: Whatever the host does on the page, every room that it asks the server to create has the
  president and the bomber exactly once, every other chosen role between 1 and 99 times, at least
  four roles and six players, and as many places as the chosen roles add up to.\<close>

theorem created_rooms_are_legal:
  "list_all (\<lambda>c. case c of
      CallCreate n public config roles \<Rightarrow>
        map_wf roles \<and> map_get roles ''PRESIDENT'' = Some 1 \<and> map_get roles ''BOMBER'' = Some 1 \<and>
        list_all (\<lambda>(i, k). 1 \<le> k \<and> k \<le> 99) roles \<and> 4 \<le> length roles \<and>
        n = sum_list (map snd roles) \<and> 6 \<le> n
    | _ \<Rightarrow> True)
   (snd (session role_page_offers role_page_step mount_role_page es))"
proof -
  have "list_all legal_room (snd (session role_page_offers role_page_step mount_role_page es))"
    by (rule role_page.session_good) (simp_all add: role_inv_def mount_role_page_def list_all_iff)
  then show ?thesis
    by (rule list.pred_mono_strong) (auto simp: legal_room_def legal_selection_def split: role_command.splits)
qed

end
