(* ===== verification/Home.thy ===== *)
theory Home
  imports Lobby_Views
begin

text \<open>
  The home page: the field for a room code (\<open>pages/HomePage.tsx\<close>, and \<open>room/RoomCodeInput.tsx\<close>, which
  checks more), the list of open rooms (\<open>room/RoomList.tsx\<close>, \<open>room/RoomListItem.tsx\<close>), the choice of a
  room's visibility (\<open>room/RoomVisibilityToggle.tsx\<close>) and the routes of \<open>App.tsx\<close>. Text is treated as
  ASCII: \<open>toUpperCase\<close> changes the letters a to z, \<open>trim\<close> removes white space.
\<close>

section \<open>Room codes\<close>

definition upper_char :: "char \<Rightarrow> char" where
  "upper_char c = (if 97 \<le> (of_char c :: nat) \<and> (of_char c :: nat) \<le> 122 then char_of (of_char c - 32 :: nat) else c)"

definition toUpperCase :: "string \<Rightarrow> string" where
  "toUpperCase = map upper_char"

text \<open>The class \<open>[A-Z0-9]\<close>.\<close>

definition code_char :: "char \<Rightarrow> bool" where
  "code_char c \<longleftrightarrow> (65 \<le> (of_char c :: nat) \<and> (of_char c :: nat) \<le> 90) \<or> (48 \<le> (of_char c :: nat) \<and> (of_char c :: nat) \<le> 57)"

record Code_Input =
  ci_roomCode :: string
  ci_error :: string

datatype code_action = TypeCode string | SubmitCode

definition mount_code_input :: Code_Input where
  "mount_code_input = \<lparr>ci_roomCode = '''', ci_error = ''''\<rparr>"

definition submit_code :: "Code_Input \<Rightarrow> Code_Input \<times> string list" where
  "submit_code s =
     (let s = s\<lparr>ci_error := ''''\<rparr> in
      if ci_roomCode s = '''' \<or> length (ci_roomCode s) \<noteq> 6 then (s\<lparr>ci_error := ''A room code has 6 characters''\<rparr>, [])
      else
        (let c = trim (toUpperCase (ci_roomCode s)) in
         if \<not> (length c = 6 \<and> list_all code_char c) then (s\<lparr>ci_error := ''A room code has only letters and digits''\<rparr>, [])
         else (s, [c])))"

definition code_input_step :: "Code_Input \<Rightarrow> code_action \<Rightarrow> Code_Input \<times> string list" where
  "code_input_step s a =
     (case a of
        TypeCode v \<Rightarrow> (s\<lparr>ci_roomCode := toUpperCase v\<rparr>, [])
      | SubmitCode \<Rightarrow> submit_code s)"

definition RoomCodeInput :: "Code_Input \<Rightarrow> code_action node" where
  "RoomCodeInput s =
     El ''div'' []
      ([El ''div'' []
         [El ''input'' [Attr ''type'' ''text'', Attr ''value'' (ci_roomCode s), Attr ''maxLength'' ''6''] [],
          El ''button'' [OnClick SubmitCode] [Txt ''Join'']]] @
       shown (ci_error s \<noteq> '''') [El ''div'' [] [Txt (ci_error s)]])"

section \<open>The visibility of a room\<close>

definition radio_css :: "bool \<Rightarrow> 'a attr list" where
  "radio_css selected =
     [Style ''border'' (''2px solid '' @ (if selected then ''#007bff'' else ''var(--border-color)'')),
      Style ''backgroundColor'' (if selected then ''#007bff'' else ''var(--bg-card)'')]"

definition visibility_option :: "bool \<Rightarrow> bool \<Rightarrow> bool node" where
  "visibility_option value0 public =
     (let selected = (value0 = public) in
      El ''label'' (radio_css selected)
       [El ''input'' [Attr ''type'' ''radio'', Attr ''name'' ''roomVisibility'',
          Attr ''value'' (if public then ''public'' else ''private''), Checked selected, OnChange public] [],
        El ''div'' []
         [El ''div'' [Style ''color'' (if selected then ''#ffffff'' else ''var(--text-primary)'')]
           [Txt (if public then ''Public room'' else ''Private room'')],
          El ''div'' [Style ''color'' (if selected then ''rgba(255, 255, 255, 0.9)'' else ''var(--text-secondary)'')]
           [Txt (if public then ''Other players can see it in the list of rooms'' else ''Only who knows the code can join'')]]])"

definition RoomVisibilityToggle :: "bool \<Rightarrow> bool node" where
  "RoomVisibilityToggle value0 =
     El ''div'' [] [El ''div'' [] [Txt ''Visibility''], visibility_option value0 True, visibility_option value0 False]"

section \<open>An entry of the list of rooms\<close>

text \<open>Two times in milliseconds; the parse of the creation time is given.\<close>

definition getTimeAgo :: "int \<Rightarrow> int \<Rightarrow> string" where
  "getTimeAgo now past =
     (let diffMs = now - past; diffSecs = diffMs div 1000; diffMins = diffSecs div 60;
          diffHours = diffMins div 60; diffDays = diffHours div 24 in
      if diffSecs < 60 then ''just now''
      else if diffMins < 60 then int_str diffMins @ '' minutes ago''
      else if diffHours < 24 then int_str diffHours @ '' hours ago''
      else int_str diffDays @ '' days ago'')"

definition item_full :: "RoomListEntry \<Rightarrow> bool" where
  "item_full r \<longleftrightarrow> rl_currentPlayers r \<ge> rl_maxPlayers r"

definition getStatusInfo :: "RoomListEntry \<Rightarrow> string \<times> string" where
  "getStatusInfo r =
     (if item_full r then (''#c82333'', ''full'')
      else if rl_status r = WAITING then (''#1e7e34'', ''waiting'')
      else if rl_status r = IN_PROGRESS then (''#d39e00'', ''playing'')
      else (''#495057'', ''over''))"

definition isJoinable :: "RoomListEntry \<Rightarrow> bool" where
  "isJoinable r \<longleftrightarrow> rl_status r = WAITING \<and> \<not> item_full r"

definition handleJoinClick :: "RoomListEntry \<Rightarrow> string list" where
  "handleJoinClick r = (if isJoinable r then [rl_code r] else [])"

datatype rooms_action =
    JoinClick RoomListEntry
  | ManualRefresh
  | RetryClick
  | RefreshTimer
  | VisibilityChange bool
  | RoomsAnswered "js_error + RoomListEntry list"

definition RoomListItem :: "int \<Rightarrow> (string \<Rightarrow> int) \<Rightarrow> RoomListEntry \<Rightarrow> rooms_action node" where
  "RoomListItem now parse_date r =
     (let (color, label) = getStatusInfo r; joinable = isJoinable r in
      El ''div'' [Style ''cursor'' (if joinable then ''pointer'' else ''default'')]
       [El ''div'' []
         [El ''div'' [] [Txt (rl_code r)],
          El ''div'' [] [El ''span'' [] [Txt ''dot''], El ''span'' [Style ''color'' color] [Txt label]]],
        El ''div'' []
         ((case hostNickname r of None \<Rightarrow> []
           | Some h \<Rightarrow> shown (h \<noteq> '''') [El ''div'' [] [Txt ''Host: '', Txt h]]) @
          [El ''div'' [] [Num (rl_currentPlayers r), Txt ''/'', Num (rl_maxPlayers r)],
           El ''div'' [] [Txt (getTimeAgo now (parse_date (rl_createdAt r)))]]),
        El ''button''
         [OnClick (JoinClick r), Disabled (\<not> joinable),
          Style ''backgroundColor'' (if joinable then ''#28a745'' else ''#6c757d''),
          Style ''cursor'' (if joinable then ''pointer'' else ''not-allowed''),
          Style ''opacity'' (if joinable then ''1'' else ''0.6'')]
         [Txt (if joinable then ''Join'' else if item_full r then ''Full'' else ''Cannot be joined'')]])"

section \<open>The list of rooms\<close>

record List_Props =
  lp_status :: "RoomStatus option"
  autoRefresh :: bool

text \<open>The state of the list, its ref, and the number of its requests under way.\<close>

record Room_List =
  rooms :: "RoomListEntry list"
  rl_loading :: bool
  rl_error :: string
  isVisibleRef :: bool
  rl_pending :: nat

datatype rooms_command = FetchRooms "RoomStatus option" | JoinRoom string

definition fetchRooms :: "List_Props \<Rightarrow> Room_List \<Rightarrow> Room_List \<times> rooms_command list" where
  "fetchRooms p s = (s\<lparr>rl_pending := Suc (rl_pending s)\<rparr>, [FetchRooms (lp_status p)])"

definition rooms_answered :: "js_error + RoomListEntry list \<Rightarrow> Room_List \<Rightarrow> Room_List" where
  "rooms_answered a s =
     (let s = s\<lparr>rl_pending := rl_pending s - 1\<rparr>;
          s = (case a of
              Inr rs \<Rightarrow> s\<lparr>rooms := rs, rl_error := ''''\<rparr>
            | Inl e \<Rightarrow> s\<lparr>rl_error := report_error ''The list of rooms cannot be loaded'' e\<rparr>)
      in s\<lparr>rl_loading := False\<rparr>)"

text \<open>The first render and its effect.\<close>

definition mount_room_list :: "List_Props \<Rightarrow> Room_List \<times> rooms_command list" where
  "mount_room_list p =
     fetchRooms p \<lparr>rooms = [], rl_loading = True, rl_error = '''', isVisibleRef = True, rl_pending = 0\<rparr>"

definition rooms_step :: "List_Props \<Rightarrow> Room_List \<Rightarrow> rooms_action \<times> bool \<Rightarrow> Room_List \<times> rooms_command list" where
  "rooms_step p s e =
     (case fst e of
        JoinClick r \<Rightarrow> (s, map JoinRoom (handleJoinClick r))
      | ManualRefresh \<Rightarrow> fetchRooms p (s\<lparr>rl_loading := True\<rparr>)
      | RetryClick \<Rightarrow> fetchRooms p (s\<lparr>rl_loading := True, rl_error := ''''\<rparr>)
      | RefreshTimer \<Rightarrow> if isVisibleRef s then fetchRooms p s else (s, [])
      | VisibilityChange visible \<Rightarrow> (s\<lparr>isVisibleRef := visible\<rparr>, [])
      | RoomsAnswered a \<Rightarrow> (rooms_answered a s, []))"

definition RoomList :: "int \<Rightarrow> (string \<Rightarrow> int) \<Rightarrow> Room_List \<Rightarrow> rooms_action node" where
  "RoomList now parse_date s =
     (if rl_loading s \<and> length (rooms s) = 0 then
        El ''div'' [] [LoadingSpinner (Some LargeSpinner) (Some ''Loading the list of rooms...'')]
      else if rl_error s \<noteq> '''' \<and> length (rooms s) = 0 then
        El ''div'' [] [El ''div'' [] [Txt (rl_error s)], El ''button'' [OnClick RetryClick] [Txt ''Try again'']]
      else if length (rooms s) = 0 then
        El ''div'' [] [El ''div'' [] [Txt ''There are no public rooms''], El ''div'' [] [Txt ''Create a new room!'']]
      else
        El ''div'' []
         [El ''div'' []
           [El ''h2'' [] [Txt ''Public rooms'', El ''span'' [] [Num (int (length (rooms s)))]],
            El ''button''
             [OnClick ManualRefresh, Disabled (rl_loading s),
              Style ''backgroundColor'' (if rl_loading s then ''#6c757d'' else ''#007bff''),
              Style ''cursor'' (if rl_loading s then ''not-allowed'' else ''pointer''),
              Style ''opacity'' (if rl_loading s then ''0.6'' else ''1'')]
             [Txt (if rl_loading s then ''Refreshing...'' else ''Refresh'')]],
          El ''div'' [] (map (RoomListItem now parse_date) (rooms s))])"

definition rooms_offers :: "List_Props \<Rightarrow> Room_List \<Rightarrow> rooms_action \<Rightarrow> bool" where
  "rooms_offers p s a \<longleftrightarrow>
     (case a of
        RefreshTimer \<Rightarrow> autoRefresh p
      | VisibilityChange _ \<Rightarrow> True
      | RoomsAnswered _ \<Rightarrow> 0 < rl_pending s
      | _ \<Rightarrow> a \<in> set (offers (RoomList 0 (\<lambda>_. 0) s)))"

section \<open>The home page and the routes\<close>

record Home_Page =
  hp_roomCode :: string
  hp_error :: string

datatype home_action = HomeType string | HomeJoin | HomeCreate | ListAction rooms_action

definition mount_home :: Home_Page where
  "mount_home = \<lparr>hp_roomCode = '''', hp_error = ''''\<rparr>"

definition handleJoinRoom :: "Home_Page \<Rightarrow> Home_Page \<times> string list" where
  "handleJoinRoom s =
     (if hp_roomCode s = '''' \<or> length (hp_roomCode s) \<noteq> 6
      then (s\<lparr>hp_error := ''A room code has 6 characters''\<rparr>, [])
      else (s, [''/room/'' @ toUpperCase (hp_roomCode s) @ ''?view=lobby'']))"

definition handleJoinFromList :: "string \<Rightarrow> string" where
  "handleJoinFromList c = ''/room/'' @ c @ ''?view=lobby''"

definition home_props :: List_Props where
  "home_props = \<lparr>lp_status = Some WAITING, autoRefresh = True\<rparr>"

text \<open>The addresses to which the page leads; a join in the list is one of them.\<close>

definition home_step :: "Home_Page \<times> Room_List \<Rightarrow> home_action \<Rightarrow> (Home_Page \<times> Room_List) \<times> string list" where
  "home_step st a =
     (let (s, l) = st in
      case a of
        HomeType v \<Rightarrow> ((s\<lparr>hp_roomCode := toUpperCase v\<rparr>, l), [])
      | HomeJoin \<Rightarrow> (let (s', cs) = handleJoinRoom s in ((s', l), cs))
      | HomeCreate \<Rightarrow> (st, [''/config''])
      | ListAction b \<Rightarrow>
          (let (l', cs) = rooms_step home_props l (b, True) in
           ((s, l'), concat (map (\<lambda>c. case c of JoinRoom r \<Rightarrow> [handleJoinFromList r] | FetchRooms _ \<Rightarrow> []) cs))))"

definition HomePage :: "int \<Rightarrow> (string \<Rightarrow> int) \<Rightarrow> Home_Page \<times> Room_List \<Rightarrow> home_action node" where
  "HomePage now parse_date st =
     (let (s, l) = st in
      Layout
       [El ''div'' []
         ([El ''p'' [] [Txt ''Welcome to the role dealing system'']] @
          shown (hp_error s \<noteq> '''') [El ''div'' [] [Txt (hp_error s)]] @
          [El ''div'' [] [El ''button'' [OnClick HomeCreate] [Txt ''Create a room'']],
           El ''div'' [] [map_node ListAction (RoomList now parse_date l)],
           El ''div'' [] [El ''span'' [] [Txt ''or'']],
           El ''div'' []
            [El ''h3'' [] [Txt ''Join with a room code''],
             El ''input'' [Attr ''type'' ''text'', Attr ''value'' (hp_roomCode s), Attr ''maxLength'' ''6''] [],
             El ''button'' [OnClick HomeJoin] [Txt ''Join the room'']]])])"

datatype route = HomeRoute | ConfigRoute | RoomRoute string | NoRoute | Incompatible

text \<open>The check for WebSockets, then the segments of the path as the router splits them.\<close>

definition App :: "bool \<Rightarrow> string list \<Rightarrow> route" where
  "App isCompatible path =
     (if \<not> isCompatible then Incompatible
      else case path of
        [] \<Rightarrow> HomeRoute
      | [a] \<Rightarrow> if a = ''config'' then ConfigRoute else NoRoute
      | [a, roomCode] \<Rightarrow> if a \<in> set [''room'', ''lobby'', ''game'', ''reveal''] then RoomRoute roomCode else NoRoute
      | _ \<Rightarrow> NoRoute)"

section \<open>Properties\<close>

lemma trim_code: "list_all code_char s \<Longrightarrow> trim s = s"
proof -
  assume a: "list_all code_char s"
  have nb: "code_char c \<Longrightarrow> \<not> is_space c" for c by (auto simp: code_char_def is_space_def)
  have d: "list_all code_char xs \<Longrightarrow> dropWhile is_space xs = xs" for xs
    using nb by (cases xs) auto
  show ?thesis using a d [of s] d [of "rev s"] by (simp add: trim_def)
qed

text \<open>The code input hands on a room code exactly when six letters and digits were typed, in upper
  case; the field of the home page leads to an address for any six characters, also those that are
  no room code.\<close>

theorem room_codes_checked:
  "snd (submit_code \<lparr>ci_roomCode = v, ci_error = err\<rparr>) =
     (if length v = 6 \<and> list_all code_char (toUpperCase v) then [toUpperCase v] else []) \<and>
   snd (handleJoinRoom \<lparr>hp_roomCode = v, hp_error = err\<rparr>) =
     (if length v = 6 then [''/room/'' @ toUpperCase v @ ''?view=lobby''] else [])"
proof -
  have l: "length (toUpperCase v) = length v" by (simp add: toUpperCase_def)
  show ?thesis
    using trim_full [of "toUpperCase v"] trim_code [of "toUpperCase v"] l
    by (auto simp: submit_code_def handleJoinRoom_def Let_def)
qed

lemma offers_item:
  "offers (RoomListItem now pd r) = (if isJoinable r then [JoinClick r] else [])"
  by (simp add: RoomListItem_def Let_def view_simps split: prod.split option.split)

text \<open>The list lets a player join exactly the listed rooms that wait for players and have a free
  place, and refresh it unless it is being loaded; an empty list can only be retried, and only after
  an error.\<close>

theorem rooms_offered:
  "set (offers (RoomList now pd s)) =
     (if rooms s = [] then if rl_loading s \<or> rl_error s = '''' then {} else {RetryClick}
      else JoinClick ` {r \<in> set (rooms s). rl_status r = WAITING \<and> rl_currentPlayers r < rl_maxPlayers r} \<union>
        (if rl_loading s then {} else {ManualRefresh}))"
  by (auto simp: RoomList_def view_simps offers_item isJoinable_def item_full_def)

definition list_inv :: "Room_List \<Rightarrow> bool" where
  "list_inv s \<longleftrightarrow> (rl_loading s \<longrightarrow> 0 < rl_pending s)"

lemma list_inv_step: "list_inv s \<Longrightarrow> list_inv (fst (rooms_step p s e))"
  by (auto simp: rooms_step_def fetchRooms_def rooms_answered_def list_inv_def Let_def
      split: rooms_action.split sum.split)

lemma list_commands:
  assumes "rooms_offers p s (fst e)" "lp_status p = st"
  shows "list_all (\<lambda>c. case c of FetchRooms x \<Rightarrow> x = st | JoinRoom _ \<Rightarrow> True) (snd (rooms_step p s e))"
  using assms by (cases "fst e") (simp_all add: rooms_step_def fetchRooms_def list_all_iff)

interpretation home_list: interactive rooms_offers rooms_step "\<lambda>p. lp_status p = Some WAITING" list_inv
  "\<lambda>c. case c of FetchRooms x \<Rightarrow> x = Some WAITING | JoinRoom _ \<Rightarrow> True"
  by unfold_locales (auto intro: list_inv_step list_commands)

text \<open>On the home page the list asks only for waiting rooms and never hangs: whatever is clicked and
  however the requests fail or are answered, it shows that it is loading only while a request is
  under way.\<close>

theorem list_never_hangs:
  "let (s, cs) = session rooms_offers rooms_step (fst (mount_room_list home_props)) (map (Pair home_props) es) in
     (if rl_pending s = 0 then \<not> rl_loading s else True) \<and>
     list_all (\<lambda>c. case c of FetchRooms x \<Rightarrow> x = Some WAITING | JoinRoom _ \<Rightarrow> True) cs"
proof -
  have i: "list_inv (fst (mount_room_list home_props))"
    by (simp add: mount_room_list_def fetchRooms_def list_inv_def)
  have o: "list_all ((\<lambda>p. lp_status p = Some WAITING) \<circ> fst) (map (Pair home_props) es)"
    by (simp add: list_all_iff home_props_def)
  from home_list.session_promise [OF i o] show ?thesis
    by (auto simp: list_inv_def split: prod.split)
qed

end
