(* ===== verification/Room_Listing.thy ===== *)
theory Room_Listing
  imports Home Reopening
begin

text \<open>
  The list of public rooms, from the store of the server (\<open>store/room_store.go\<close>) through its service and
  its handler (\<open>services/room_service.go\<close>, \<open>handlers/room_handler.go\<close>) to the entries that the home page
  shows, and what its buttons lead to. Go ranges over a map in any order; the order is given from
  outside, and so is the reading of a time.
\<close>

section \<open>The store\<close>

text \<open>The loops of \<open>ListPublicRooms\<close>: position \<open>i\<close> is compared with all behind it.\<close>

definition exchange_older :: "('a \<Rightarrow> int) \<Rightarrow> nat \<Rightarrow> nat \<Rightarrow> 'a list \<Rightarrow> 'a list" where
  "exchange_older time i j xs = (if time (xs ! i) < time (xs ! j) then swap i j xs else xs)"

definition newest_at :: "('a \<Rightarrow> int) \<Rightarrow> nat \<Rightarrow> nat \<Rightarrow> 'a list \<Rightarrow> 'a list" where
  "newest_at time i n xs = fold (exchange_older time i) [Suc i..<n] xs"

definition newest_first :: "('a \<Rightarrow> int) \<Rightarrow> 'a list \<Rightarrow> 'a list" where
  "newest_first time xs = fold (\<lambda>i. newest_at time i (length xs)) [0..<length xs - 1] xs"

definition public_rooms :: "string list \<Rightarrow> string \<Rightarrow> Server \<Rightarrow> Go_Room list" where
  "public_rooms order st sv =
     filter (\<lambda>r. gr_isPublic r \<and> (st = '''' \<or> room_status_str (gr_status r) = st)) (List.map_filter (sv_rooms sv) order)"

text \<open>\<open>xs[start:end]\<close> of a slice; with positions out of order it panics.\<close>

definition go_part :: "int \<Rightarrow> int \<Rightarrow> 'a list \<Rightarrow> 'a list option" where
  "go_part start stop xs =
     (if 0 \<le> start \<and> start \<le> stop \<and> stop \<le> int (length xs) then Some (take (nat (stop - start)) (drop (nat start) xs)) else None)"

text \<open>Go's \<open>int\<close> has 64 bits: the sum of the offset and the limit may wrap around.\<close>

definition ListPublicRooms ::
  "string list \<Rightarrow> (string \<Rightarrow> int) \<Rightarrow> string \<Rightarrow> int \<Rightarrow> int \<Rightarrow> Server \<Rightarrow> (Go_Room list \<times> int) option" where
  "ListPublicRooms order instant st limit offset sv =
     (let rs = newest_first (\<lambda>r. instant (gr_createdAt r)) (public_rooms order st sv);
          total = int (length rs);
          start = (if offset > total then total else offset);
          stop = signed_take_bit 63 (offset + limit);
          stop = (if stop > total then total else stop)
      in if start \<ge> total then Some ([], total) else map_option (\<lambda>xs. (xs, total)) (go_part start stop rs))"

section \<open>The service and the handler\<close>

record Rooms_Response =
  rr_rooms :: "Go_Room list"
  rr_total :: int
  rr_limit :: int
  rr_offset :: int

definition GetPublicRooms ::
  "string list \<Rightarrow> (string \<Rightarrow> int) \<Rightarrow> string \<Rightarrow> int \<Rightarrow> int \<Rightarrow> Server \<Rightarrow> (string + Rooms_Response) option" where
  "GetPublicRooms order instant st limit offset sv =
     (let limit = (if limit \<le> 0 then 50 else limit);
          limit = (if limit > 100 then 100 else limit);
          offset = (if offset < 0 then 0 else offset)
      in if st \<noteq> '''' \<and> st \<noteq> ''WAITING'' \<and> st \<noteq> ''IN_PROGRESS''
         then Some (Inl ''invalid status filter: must be WAITING or IN_PROGRESS'')
         else map_option (\<lambda>(rs, total). Inr \<lparr>rr_rooms = rs, rr_total = total, rr_limit = limit, rr_offset = offset\<rparr>)
           (ListPublicRooms order instant st limit offset sv))"

text \<open>\<open>strconv.Atoi\<close>.\<close>

definition Atoi :: "string \<Rightarrow> int option" where
  "Atoi s =
     (let ds = (if take 1 s = ''-'' \<or> take 1 s = ''+'' then tl s else s);
          n = (if take 1 s = ''-'' then - int (str_nat ds) else int (str_nat ds))
      in if ds = [] \<or> \<not> list_all is_digit ds \<or> n < - (2 ^ 63) \<or> 2 ^ 63 \<le> n then None else Some n)"

text \<open>
  \<open>c.Query\<close>: the first value of a key, or the empty text. The pairs of a query are separated by \<open>&\<close>;
  \<open>net/url\<close> drops those with a semicolon or a wrong escape.
\<close>

fun unescape :: "string \<Rightarrow> string option" where
  "unescape [] = Some []"
| "unescape (c # s) =
     (if c = CHR ''%'' then
        (case s of
           a # b # t \<Rightarrow>
             (case (hex_val a, hex_val b) of
                (Some x, Some y) \<Rightarrow> map_option ((#) (char_of (16 * x + y))) (unescape t)
              | _ \<Rightarrow> None)
         | _ \<Rightarrow> None)
      else map_option ((#) (if c = CHR ''+'' then CHR '' '' else c)) (unescape s))"

fun split_at_char :: "char \<Rightarrow> string \<Rightarrow> string list" where
  "split_at_char d [] = [[]]"
| "split_at_char d (c # s) =
     (case split_at_char d s of
        [] \<Rightarrow> [[c]]
      | x # xs \<Rightarrow> if c = d then [] # x # xs else (c # x) # xs)"

definition query_pair :: "string \<Rightarrow> (string \<times> string) option" where
  "query_pair p =
     (if CHR '';'' \<in> set p \<or> p = [] then None
      else case (unescape (takeWhile (\<lambda>c. c \<noteq> CHR ''='') p), unescape (drop 1 (dropWhile (\<lambda>c. c \<noteq> CHR ''='') p))) of
        (Some k, Some v) \<Rightarrow> Some (k, v)
      | _ \<Rightarrow> None)"

definition parse_query :: "string \<Rightarrow> (string \<times> string) list" where
  "parse_query q = List.map_filter query_pair (split_at_char CHR ''&'' q)"

definition query_value :: "string \<Rightarrow> string \<Rightarrow> string" where
  "query_value k q = (case map_of (parse_query q) k of None \<Rightarrow> '''' | Some v \<Rightarrow> v)"

definition int_param :: "string \<Rightarrow> int \<Rightarrow> string \<Rightarrow> string + int" where
  "int_param name given_by v =
     (if v = '''' then Inr given_by
      else case Atoi v of
        None \<Rightarrow> Inl (''invalid '' @ name @ '' parameter: must be an integer'')
      | Some n \<Rightarrow> Inr n)"

definition json_rooms :: "Rooms_Response \<Rightarrow> Json" where
  "json_rooms a = JObj
     [(''rooms'', JArr (map json_room (rr_rooms a))), (''total'', JNum (rr_total a)), (''limit'', JNum (rr_limit a)),
      (''offset'', JNum (rr_offset a))]"

definition bad_request :: "string \<Rightarrow> string \<Rightarrow> Http_Outcome" where
  "bad_request c msg = json_answer 400 ''Bad Request'' (JObj [(''code'', JStr c), (''message'', JStr msg)])"

definition ListRooms :: "string list \<Rightarrow> (string \<Rightarrow> int) \<Rightarrow> string \<Rightarrow> Server \<Rightarrow> Http_Outcome option" where
  "ListRooms order instant q sv =
     (case (int_param ''limit'' 50 (query_value ''limit'' q), int_param ''offset'' 0 (query_value ''offset'' q)) of
        (Inl e, _) \<Rightarrow> Some (bad_request ''INVALID_PARAMETER'' e)
      | (Inr limit, Inl e) \<Rightarrow> Some (bad_request ''INVALID_PARAMETER'' e)
      | (Inr limit, Inr offset) \<Rightarrow>
          map_option (\<lambda>x. case x of Inl e \<Rightarrow> bad_request ''INVALID_REQUEST'' e | Inr a \<Rightarrow> json_answer 200 ''OK'' (json_rooms a))
            (GetPublicRooms order instant (query_value ''status'' q) limit offset sv))"

section \<open>Sorting\<close>

text \<open>Up to position \<open>i\<close> every element is at least as new as all behind it.\<close>

definition newest_up_to :: "('a \<Rightarrow> int) \<Rightarrow> nat \<Rightarrow> 'a list \<Rightarrow> bool" where
  "newest_up_to time i xs \<longleftrightarrow> (\<forall>a b. a < i \<longrightarrow> a < b \<longrightarrow> b < length xs \<longrightarrow> time (xs ! b) \<le> time (xs ! a))"

lemma exchange_older_length [simp]: "length (exchange_older time i j xs) = length xs"
  by (simp add: exchange_older_def)

lemma exchange_older_mset: "i < length xs \<Longrightarrow> j < length xs \<Longrightarrow> mset (exchange_older time i j xs) = mset xs"
  by (simp add: exchange_older_def mset_swap_at)

lemma exchange_older_up_to:
  assumes "newest_up_to time i xs" "i < j" "j < length xs"
  shows "newest_up_to time i (exchange_older time i j xs)"
  using assms by (auto simp: newest_up_to_def exchange_older_def swap_def nth_list_update)

lemma newest_at_inv:
  assumes "i < length xs" "newest_up_to time i xs" "n \<le> length xs"
  shows "length (newest_at time i n xs) = length xs \<and> mset (newest_at time i n xs) = mset xs \<and>
    newest_up_to time i (newest_at time i n xs) \<and>
    (\<forall>b. i < b \<longrightarrow> b < n \<longrightarrow> time (newest_at time i n xs ! b) \<le> time (newest_at time i n xs ! i))"
  using assms(3)
proof (induction n)
  case 0
  then show ?case using assms by (simp add: newest_at_def)
next
  case (Suc n)
  define ys where "ys = newest_at time i n xs"
  have ys: "length ys = length xs" "mset ys = mset xs" "newest_up_to time i ys"
    "\<And>b. i < b \<Longrightarrow> b < n \<Longrightarrow> time (ys ! b) \<le> time (ys ! i)"
    using Suc by (simp_all add: ys_def)
  show ?case
  proof (cases "i < n")
    case True
    have e: "newest_at time i (Suc n) xs = exchange_older time i n ys" using True by (simp add: newest_at_def ys_def)
    have "time (exchange_older time i n ys ! b) \<le> time (exchange_older time i n ys ! i)" if "i < b" "b < Suc n" for b
      using ys(4) [of b] that True ys(1) Suc.prems
      by (cases "b = n") (auto simp: exchange_older_def swap_def nth_list_update)
    then show ?thesis
      using ys True Suc.prems exchange_older_mset [of i ys n time] exchange_older_up_to [OF ys(3) True]
      by (simp add: e)
  next
    case False
    then have "newest_at time i (Suc n) xs = xs" by (simp add: newest_at_def)
    then show ?thesis using False assms by auto
  qed
qed

lemma newest_at_up_to:
  assumes "i < length xs" "newest_up_to time i xs"
  shows "newest_up_to time (Suc i) (newest_at time i (length xs) xs)"
  using newest_at_inv [OF assms order_refl] by (auto simp: newest_up_to_def less_Suc_eq)

lemma newest_first_inv:
  assumes "m \<le> length xs"
  shows "length (fold (\<lambda>i. newest_at time i (length xs)) [0..<m] xs) = length xs \<and>
    mset (fold (\<lambda>i. newest_at time i (length xs)) [0..<m] xs) = mset xs \<and>
    newest_up_to time m (fold (\<lambda>i. newest_at time i (length xs)) [0..<m] xs)"
  using assms
proof (induction m)
  case (Suc m)
  then show ?case
    using newest_at_inv [of m "fold (\<lambda>i. newest_at time i (length xs)) [0..<m] xs" time "length xs"]
      newest_at_up_to [of m "fold (\<lambda>i. newest_at time i (length xs)) [0..<m] xs" time] by simp
qed (simp add: newest_up_to_def)

lemma newest_first_mset [simp]: "mset (newest_first time xs) = mset xs"
  using newest_first_inv [of "length xs - 1" xs time] by (simp add: newest_first_def)

lemma newest_first_sorted: "sorted_wrt (\<lambda>x y. time y \<le> time x) (newest_first time xs)"
  using newest_first_inv [of "length xs - 1" xs time]
  by (auto simp: newest_first_def sorted_wrt_iff_nth_less newest_up_to_def)

lemma newest_first_length [simp]: "length (newest_first time xs) = length xs"
  by (metis newest_first_mset size_mset)

lemma newest_first_set [simp]: "set (newest_first time xs) = set xs"
  by (metis newest_first_mset set_mset_mset)

section \<open>The addresses of the client\<close>

text \<open>A text that means itself in a query.\<close>

definition plain :: "string \<Rightarrow> bool" where
  "plain s \<longleftrightarrow> set s \<inter> set ''&=;%+'' = {}"

definition query_of :: "string \<Rightarrow> string" where
  "query_of url = drop 1 (dropWhile (\<lambda>c. c \<noteq> CHR ''?'') url)"

lemma unescape_plain: "plain s \<Longrightarrow> unescape s = Some s"
  by (induction s) (auto simp: plain_def)

lemma split_single: "d \<notin> set s \<Longrightarrow> split_at_char d s = [s]"
  by (induction s) auto

lemma split_append: "d \<notin> set s \<Longrightarrow> split_at_char d (s @ d # t) = s # split_at_char d t"
proof (induction s)
  case Nil
  have "split_at_char d t \<noteq> []" by (cases t) (auto split: list.split)
  then show ?case by (auto split: list.split)
qed (auto split: list.split)

lemma query_pair_plain: "plain k \<Longrightarrow> plain v \<Longrightarrow> query_pair (k @ ''='' @ v) = Some (k, v)"
proof -
  assume a: "plain k" "plain v"
  have "takeWhile (\<lambda>c. c \<noteq> CHR ''='') (k @ ''='' @ v) = k" "dropWhile (\<lambda>c. c \<noteq> CHR ''='') (k @ ''='' @ v) = ''='' @ v"
    using a(1) by (subst takeWhile_append2 dropWhile_append2; auto simp: plain_def)+
  then show ?thesis using a by (auto simp: query_pair_def unescape_plain, auto simp: plain_def)
qed

lemma query_read:
  "list_all (\<lambda>(k, v). plain k \<and> plain v) ps \<Longrightarrow> ps \<noteq> [] \<Longrightarrow> parse_query (query_string ps) = ps"
proof (induction ps rule: query_string.induct)
  case (2 k v)
  have "CHR ''&'' \<notin> set (k @ ''='' @ v)" using 2 by (auto simp: plain_def)
  then show ?case using 2 by (simp add: parse_query_def split_single query_pair_plain [simplified] List.map_filter_simps)
next
  case (3 k v p ps)
  have "CHR ''&'' \<notin> set (k @ ''='' @ v)" using 3 by (auto simp: plain_def)
  then have "split_at_char CHR ''&'' ((k @ ''='' @ v) @ CHR ''&'' # query_string (p # ps)) =
      (k @ ''='' @ v) # split_at_char CHR ''&'' (query_string (p # ps))" by (rule split_append)
  then show ?case using 3 by (simp add: parse_query_def query_pair_plain [simplified] List.map_filter_simps)
qed simp

lemma digits_plain: "list_all is_digit s \<Longrightarrow> plain s"
proof -
  have "\<forall>c \<in> set ''&=;%+''. \<not> is_digit c" by (simp add: is_digit_def)
  then show "list_all is_digit s \<Longrightarrow> plain s" unfolding plain_def list_all_iff by blast
qed

lemma int_plain: "plain (int_str n)"
proof -
  have "plain (''-'' @ s)" if "plain s" for s using that by (simp add: plain_def)
  then show ?thesis using digits_plain [OF nat_str_digits(1)] by (simp add: int_str_def)
qed

lemma status_plain: "plain (room_status_str st)"
  by (cases st) (simp_all add: room_status_str_def plain_def)

lemma Atoi_str: "- (2 ^ 63) \<le> n \<Longrightarrow> n < 2 ^ 63 \<Longrightarrow> Atoi (int_str n) = Some n"
proof -
  assume n: "- (2 ^ 63) \<le> n" "n < 2 ^ 63"
  have h: "nat_str k \<noteq> [] \<and> take 1 (nat_str k) \<noteq> ''-'' \<and> take 1 (nat_str k) \<noteq> ''+''" for k
    using nat_str_digits [of k] by (cases "nat_str k") (auto simp: is_digit_def)
  show ?thesis
    using n h [of "nat n"] h [of "nat (- n)"] nat_str_digits(1)
    by (cases "n < 0") (simp_all add: Atoi_def int_str_def str_nat_nat_str Let_def)
qed

lemma int_str_not_empty: "int_str n \<noteq> ''''"
  using nat_str_digits [of "nat n"] by (auto simp: int_str_def)

text \<open>What the handler reads of a request for the list is what the client asked for.\<close>

lemma request_read:
  assumes "CHR ''?'' \<notin> set base"
  shows "parse_query (query_of (req_url (listRooms base st limit offset))) =
    (case st of None \<Rightarrow> [] | Some s \<Rightarrow> [(''status'', room_status_str s)]) @
      [(''limit'', int_str (case limit of None \<Rightarrow> 50 | Some n \<Rightarrow> n)), (''offset'', int_str (case offset of None \<Rightarrow> 0 | Some n \<Rightarrow> n))]"
proof -
  let ?ps = "(case st of None \<Rightarrow> [] | Some s \<Rightarrow> [(''status'', room_status_str s)]) @
      [(''limit'', int_str (case limit of None \<Rightarrow> 50 | Some n \<Rightarrow> n)), (''offset'', int_str (case offset of None \<Rightarrow> 0 | Some n \<Rightarrow> n))]"
  have q: "query_string ?ps \<noteq> ''''" by (cases st) auto
  have "dropWhile (\<lambda>c. c \<noteq> CHR ''?'') (base @ ''/api/v1/rooms?'' @ u) = CHR ''?'' # u" for u
    using assms by (subst dropWhile_append2) auto
  then have "query_of (req_url (listRooms base st limit offset)) = query_string ?ps"
    using q by (simp add: listRooms_def api_get_def fetchJSON_def query_of_def Let_def)
  moreover have "list_all (\<lambda>(k, v). plain k \<and> plain v) ?ps"
    by (cases st) (simp_all add: int_plain status_plain, simp_all add: plain_def)
  ultimately show ?thesis using query_read [of ?ps] by simp
qed

lemma request_served:
  assumes "CHR ''?'' \<notin> set base" "0 \<le> n" "n < 2 ^ 63" "0 \<le> k" "k < 2 ^ 63"
    "n = (case limit of None \<Rightarrow> 50 | Some n \<Rightarrow> n)" "k = (case offset of None \<Rightarrow> 0 | Some n \<Rightarrow> n)"
  shows "ListRooms order instant (query_of (req_url (listRooms base st limit offset))) sv =
    map_option (\<lambda>x. case x of Inl e \<Rightarrow> bad_request ''INVALID_REQUEST'' e | Inr a \<Rightarrow> json_answer 200 ''OK'' (json_rooms a))
      (GetPublicRooms order instant (case st of None \<Rightarrow> '''' | Some s \<Rightarrow> room_status_str s) n k sv)"
  using assms(2-5) unfolding ListRooms_def query_value_def request_read [OF assms(1)] assms(6,7) [symmetric]
  by (cases st) (simp_all add: int_param_def Atoi_str int_str_not_empty)

section \<open>What is listed\<close>

lemma public_rooms_length: "length (public_rooms order st sv) \<le> length order"
proof -
  have "length (public_rooms order st sv) \<le> length (List.map_filter (sv_rooms sv) order)" by (simp add: public_rooms_def)
  also have "\<dots> \<le> length order" unfolding List.map_filter_def length_map by (rule length_filter_le)
  finally show ?thesis .
qed

lemma part_taken:
  assumes "0 \<le> a" "a < int (length xs)" "1 \<le> n"
  shows "go_part a (if a + n > int (length xs) then int (length xs) else a + n) xs = Some (take (nat n) (drop (nat a) xs))"
proof (cases "a + n > int (length xs)")
  case True
  then show ?thesis using assms by (simp add: go_part_def)
next
  case False
  then show ?thesis using assms by (simp add: go_part_def)
qed

lemma wrap_small: "0 \<le> a \<Longrightarrow> a < 2 ^ 62 \<Longrightarrow> 0 \<le> n \<Longrightarrow> n \<le> 100 \<Longrightarrow> signed_take_bit 63 (a + n) = (a + n :: int)"
  by (rule signed_take_bit_int_eq_self) simp_all

lemma listed_part:
  assumes "int (length order) < 2 ^ 62" "1 \<le> limit" "limit \<le> 100" "0 \<le> offset"
  shows "ListPublicRooms order instant st limit offset sv =
    (let rs = newest_first (\<lambda>r. instant (gr_createdAt r)) (public_rooms order st sv)
     in Some (take (nat limit) (drop (nat offset) rs), int (length rs)))"
proof -
  define rs where "rs = newest_first (\<lambda>r. instant (gr_createdAt r)) (public_rooms order st sv)"
  have n: "int (length rs) < 2 ^ 62" using public_rooms_length [of order st sv] assms(1) by (simp add: rs_def)
  show ?thesis
  proof (cases "offset \<ge> int (length rs)")
    case True
    then have "drop (nat offset) rs = []" by simp
    with True show ?thesis by (simp add: ListPublicRooms_def rs_def [symmetric] Let_def)
  next
    case False
    then have "signed_take_bit 63 (offset + limit) = offset + limit"
      using wrap_small [of offset limit] n assms(2-4) by simp
    moreover have "map_option (\<lambda>xs. (xs, int (length rs)))
        (go_part offset (if offset + limit > int (length rs) then int (length rs) else offset + limit) rs) =
        Some (take (nat limit) (drop (nat offset) rs), int (length rs))"
      using part_taken [of offset rs limit] False assms(2,4) by simp
    ultimately show ?thesis using False by (simp add: ListPublicRooms_def rs_def [symmetric] Let_def)
  qed
qed

lemma map_filter_set: "y \<in> set (List.map_filter f xs) \<longleftrightarrow> (\<exists>x \<in> set xs. f x = Some y)"
  by (induction xs) (auto simp: List.map_filter_simps split: option.split)

lemma public_rooms_iff:
  assumes "codes_ok (sv_rooms sv)" "set order = dom (sv_rooms sv)"
  shows "r \<in> set (public_rooms order st sv) \<longleftrightarrow>
    sv_rooms sv (gr_code r) = Some r \<and> gr_isPublic r \<and> (st = '''' \<or> room_status_str (gr_status r) = st)"
proof -
  have "r \<in> set (List.map_filter (sv_rooms sv) order) \<longleftrightarrow> (\<exists>rc. sv_rooms sv rc = Some r)"
    unfolding map_filter_set assms(2) by blast
  also have "\<dots> \<longleftrightarrow> sv_rooms sv (gr_code r) = Some r" using assms(1) unfolding codes_ok_def by metis
  finally have "r \<in> set (List.map_filter (sv_rooms sv) order) \<longleftrightarrow> sv_rooms sv (gr_code r) = Some r" .
  then show ?thesis by (simp add: public_rooms_def)
qed

section \<open>The answer on the page\<close>

declare present.simps [simp del]

text \<open>A room of the answer, as \<open>listRooms\<close> of the client reads it, and the outcome of the request.\<close>

definition read_backend_room :: "Json \<Rightarrow> Backend_Room option" where
  "read_backend_room j = do {
     c \<leftarrow> field ''code'' read_str j;
     st \<leftarrow> field ''status'' (read_lit status_lits) j;
     ps \<leftarrow> items ''players'' read_player j;
     n \<leftarrow> field ''maxPlayers'' read_int j;
     public \<leftarrow> flag ''isPublic'' j;
     created \<leftarrow> text_at ''createdAt'' j;
     updated \<leftarrow> text_at ''updatedAt'' j;
     Some \<lparr>br_code = c, br_status = st, br_players = ps, br_maxPlayers = n, br_isPublic = public, br_createdAt = created,
       br_updatedAt = updated\<rparr> }"

definition read_rooms :: "Http_Outcome \<Rightarrow> (js_error + Backend_Room list) option" where
  "read_rooms outcome =
     (case json_result outcome of
        Inl e \<Rightarrow> Some (Inl e)
      | Inr j \<Rightarrow> map_option Inr (field ''rooms'' (read_list read_backend_room) j))"

definition page_backend_room :: "Go_Room \<Rightarrow> Backend_Room" where
  "page_backend_room r =
     \<lparr>br_code = gr_code r, br_status = gr_status r, br_players = map page_player (gr_players r),
      br_maxPlayers = gr_maxPlayers r, br_isPublic = gr_isPublic r, br_createdAt = gr_createdAt r,
      br_updatedAt = gr_updatedAt r\<rparr>"

interpretation listed_rooms: codec json_room read_backend_room page_backend_room
  by unfold_locales (simp add: read_backend_room_def json_room_def page_backend_room_def arrives_simps)

lemma rooms_read:
  assumes "list_all (\<lambda>r. distinct (map fst (gr_selectedRoles r))) (rr_rooms a)"
  shows "read_rooms (json_answer 200 ''OK'' (json_rooms a)) = Some (Inr (map page_backend_room (rr_rooms a)))"
proof -
  have "unique_keys (json_rooms a)" using assms by (simp add: json_rooms_def list_all_iff unique_room)
  then show ?thesis
    by (simp add: read_rooms_def json_result_def json_answer_def response_ok_def text_read)
      (simp add: json_rooms_def field_def js_prop_def listed_rooms.list_enc)
qed

text \<open>The rooms of a server, with maps of roles, and an order in which Go meets their codes.\<close>

definition rooms_known :: "string list \<Rightarrow> Server \<Rightarrow> bool" where
  "rooms_known order sv \<longleftrightarrow>
     codes_ok (sv_rooms sv) \<and> set order = dom (sv_rooms sv) \<and> distinct order \<and> int (length order) < 2 ^ 62 \<and>
     (\<forall>rc r. sv_rooms sv rc = Some r \<longrightarrow> distinct (map fst (gr_selectedRoles r)))"

lemma rooms_served:
  assumes "rooms_known order sv" "CHR ''?'' \<notin> set base" "1 \<le> n" "n \<le> 100" "0 \<le> k" "k < 2 ^ 63" "st = WAITING \<or> st = IN_PROGRESS"
  shows "Option.bind (ListRooms order instant (query_of (req_url (listRooms base (Some st) (Some n) (Some k)))) sv) read_rooms =
    Some (Inr (map page_backend_room (take (nat n) (drop (nat k)
      (newest_first (\<lambda>r. instant (gr_createdAt r)) (public_rooms order (room_status_str st) sv))))))"
proof -
  let ?rs = "newest_first (\<lambda>r. instant (gr_createdAt r)) (public_rooms order (room_status_str st) sv)"
  note k = assms(1) [unfolded rooms_known_def]
  have st: "room_status_str st = ''WAITING'' \<or> room_status_str st = ''IN_PROGRESS''" using assms(7) by (auto simp: room_status_str_def)
  have g: "GetPublicRooms order instant (room_status_str st) n k sv =
      Some (Inr \<lparr>rr_rooms = take (nat n) (drop (nat k) ?rs), rr_total = int (length ?rs), rr_limit = n, rr_offset = k\<rparr>)"
    using assms(3-5) st k by (auto simp: GetPublicRooms_def listed_part Let_def)
  have "distinct (map fst (gr_selectedRoles r))" if "r \<in> set ?rs" for r
    using that k public_rooms_iff [of sv order r "room_status_str st"] by auto
  then have "list_all (\<lambda>r. distinct (map fst (gr_selectedRoles r))) (take (nat n) (drop (nat k) ?rs))"
    by (auto simp: list_all_iff dest!: in_set_takeD in_set_dropD)
  then show ?thesis
    using assms(3-6) by (simp add: request_served [OF assms(2), where n = n and k = k] g rooms_read)
qed

lemma default_request: "listRooms base st None None = listRooms base st (Some 50) (Some 0)"
  by (simp add: listRooms_def)

lemma join_accepted:
  "accepted loader w (Join rc) sv \<longleftrightarrow>
    (case sv_rooms sv rc of None \<Rightarrow> False
     | Some r \<Rightarrow> int (length (gr_players r)) < gr_maxPlayers r \<and> gr_status r \<noteq> IN_PROGRESS)"
  by (auto simp: accepted_def handler_checks_def JoinRoom_def Let_def split: option.split)

lemma listed_item: "room_list_item (page_backend_room r) =
    \<lparr>rl_code = gr_code r, rl_status = gr_status r, rl_currentPlayers = int (length (gr_players r)),
     rl_maxPlayers = gr_maxPlayers r, rl_isPublic = gr_isPublic r, rl_createdAt = gr_createdAt r,
     rl_updatedAt = gr_updatedAt r, hostNickname = map_option gp_nickname (find gp_isOwner (gr_players r))\<rparr>"
proof -
  have "find isOwner (map page_player ps) = map_option page_player (find gp_isOwner ps)" for ps
    by (induction ps) simp_all
  moreover have "nickname (page_player p) = gp_nickname p" for p by (simp add: page_player_def)
  ultimately show ?thesis
    by (simp add: room_list_item_def page_backend_room_def option.map_comp comp_def)
qed

lemma clickable: "{rl_code e | e. JoinClick e \<in> set (offers (RoomList now pd (rooms_answered (Inr rs) l)))} =
    rl_code ` {e \<in> set rs. rl_status e = WAITING \<and> rl_currentPlayers e < rl_maxPlayers e}"
  unfolding rooms_offered by (auto simp: rooms_answered_def Let_def)

lemma image_of_some: "g ` {y \<in> set (map f xs). P y} = (\<lambda>x. g (f x)) ` {x \<in> set xs. P (f x)}"
  by auto

lemma status_str_eq: "room_status_str s = room_status_str t \<longleftrightarrow> s = t"
  by (cases s; cases t) (simp_all add: room_status_str_def)

lemma waiting_rooms_iff:
  assumes "codes_ok (sv_rooms sv)" "set order = dom (sv_rooms sv)"
  shows "r \<in> set (public_rooms order ''WAITING'' sv) \<longleftrightarrow>
    sv_rooms sv (gr_code r) = Some r \<and> gr_isPublic r \<and> gr_status r = WAITING"
proof -
  have w: "room_status_str WAITING = ''WAITING''" by (simp add: room_status_str_def)
  show ?thesis using public_rooms_iff [OF assms, of r "''WAITING''"] status_str_eq [of _ WAITING] by (simp add: w)
qed

text \<open>The public rooms that wait for players and may be joined, by their codes.\<close>

lemma open_rooms:
  assumes "codes_ok (sv_rooms sv)" "set order = dom (sv_rooms sv)"
  shows "{rc. \<exists>r. sv_rooms sv rc = Some r \<and> gr_isPublic r \<and> gr_status r = WAITING \<and> accepted loader w (Join rc) sv} =
    gr_code ` {r \<in> set (public_rooms order ''WAITING'' sv). int (length (gr_players r)) < gr_maxPlayers r}" (is "?open = _")
proof -
  let ?joinable = "\<lambda>r. int (length (gr_players r)) < gr_maxPlayers r"
  note mem = waiting_rooms_iff [OF assms]
  have o: "rc \<in> ?open \<longleftrightarrow> (\<exists>r. sv_rooms sv rc = Some r \<and> gr_isPublic r \<and> gr_status r = WAITING \<and> ?joinable r)" for rc
    by (auto simp: join_accepted)
  have "(\<exists>r. sv_rooms sv rc = Some r \<and> gr_isPublic r \<and> gr_status r = WAITING \<and> ?joinable r) \<longleftrightarrow> rc \<in> gr_code ` {r \<in> set (public_rooms order ''WAITING'' sv). ?joinable r}" for rc
  proof
    assume "\<exists>r. sv_rooms sv rc = Some r \<and> gr_isPublic r \<and> gr_status r = WAITING \<and> ?joinable r"
    then obtain r where r: "sv_rooms sv rc = Some r" "gr_isPublic r" "gr_status r = WAITING" "?joinable r" by blast
    moreover have "gr_code r = rc" using assms(1) r(1) unfolding codes_ok_def by blast
    ultimately have "r \<in> {r \<in> set (public_rooms order ''WAITING'' sv). ?joinable r}" by (simp add: mem)
    then show "rc \<in> gr_code ` {r \<in> set (public_rooms order ''WAITING'' sv). ?joinable r}"
      using \<open>gr_code r = rc\<close> by (rule rev_image_eqI [OF _ sym])
  next
    assume "rc \<in> gr_code ` {r \<in> set (public_rooms order ''WAITING'' sv). ?joinable r}"
    then show "\<exists>r. sv_rooms sv rc = Some r \<and> gr_isPublic r \<and> gr_status r = WAITING \<and> ?joinable r"
      unfolding image_iff mem_Collect_eq mem by blast
  qed
  then show ?thesis by (intro set_eqI) (simp only: o)
qed

section \<open>Properties\<close>

text \<open>C23: The server lists a page of its public rooms in any order of its map: for every status that may
  be asked for, and every limit and offset, however large, it answers with rooms in the order of
  their creation, the newest first, from the offset on and at most a hundred of them, and with their
  number; it refuses every other status, and it never panics.\<close>

theorem public_rooms_listed:
  assumes "int (length order) < 2 ^ 62"
  shows "case GetPublicRooms order instant st limit offset sv of
      None \<Rightarrow> False
    | Some (Inl e) \<Rightarrow> st \<notin> {'''', ''WAITING'', ''IN_PROGRESS''}
    | Some (Inr a) \<Rightarrow> st \<in> {'''', ''WAITING'', ''IN_PROGRESS''} \<and>
        rr_limit a = (if limit \<le> 0 then 50 else min limit 100) \<and> rr_offset a = max 0 offset \<and>
        (\<exists>rs. mset rs = mset (public_rooms order st sv) \<and>
           sorted_wrt (\<lambda>x y. instant (gr_createdAt y) \<le> instant (gr_createdAt x)) rs \<and>
           rr_rooms a = take (nat (rr_limit a)) (drop (nat (rr_offset a)) rs) \<and> rr_total a = int (length rs))"
proof -
  let ?l = "if limit \<le> 0 then 50 else min limit 100" and ?o = "max 0 offset"
  define rs where "rs = newest_first (\<lambda>r. instant (gr_createdAt r)) (public_rooms order st sv)"
  have p: "ListPublicRooms order instant st ?l ?o sv = Some (take (nat ?l) (drop (nat ?o) rs), int (length rs))"
    using listed_part [OF assms, of ?l ?o instant st sv] by (simp add: rs_def)
  have "GetPublicRooms order instant st limit offset sv =
      (if st \<in> {'''', ''WAITING'', ''IN_PROGRESS''}
       then Some (Inr \<lparr>rr_rooms = take (nat ?l) (drop (nat ?o) rs), rr_total = int (length rs), rr_limit = ?l, rr_offset = ?o\<rparr>)
       else Some (Inl ''invalid status filter: must be WAITING or IN_PROGRESS''))"
    using p by (auto simp: GetPublicRooms_def Let_def min_def max_def split: if_splits)
  moreover have "mset rs = mset (public_rooms order st sv)"
      "sorted_wrt (\<lambda>x y. instant (gr_createdAt y) \<le> instant (gr_createdAt x)) rs"
    by (simp_all add: rs_def newest_first_sorted)
  ultimately show ?thesis by auto
qed

text \<open>Three rooms: one is open, one is full and one plays.\<close>

definition three_rooms :: Server where
  "three_rooms =
     put_room (lobby_of six_players)
       (put_room (lobby_of [hd six_players]\<lparr>gr_code := ''GHIJKL'', gr_createdAt := ''1''\<rparr>)
         (put_room (room_of_six\<lparr>gr_code := ''MNOPQR''\<rparr>) empty_server))"

definition three_codes :: "string list" where
  "three_codes = [''MNOPQR'', ''ABCDEF'', ''GHIJKL'']"

lemma three_rooms:
  "sv_rooms three_rooms = [''MNOPQR'' \<mapsto> room_of_six\<lparr>gr_code := ''MNOPQR''\<rparr>,
     ''GHIJKL'' \<mapsto> lobby_of [hd six_players]\<lparr>gr_code := ''GHIJKL'', gr_createdAt := ''1''\<rparr>, ''ABCDEF'' \<mapsto> lobby_of six_players]"
  by (simp add: three_rooms_def lobby_of_def empty_server_def)

lemma three_known: "rooms_known three_codes three_rooms"
  by (auto simp: rooms_known_def codes_ok_def three_rooms three_codes_def lobby_of_def room_of_six_def split: if_splits)

theorem public_rooms_listed_witness:
  "case GetPublicRooms three_codes (\<lambda>t. int (length t)) ''WAITING'' 1000 (-1) three_rooms of
      None \<Rightarrow> False
    | Some (Inl e) \<Rightarrow> ''WAITING'' \<notin> {'''', ''WAITING'', ''IN_PROGRESS''}
    | Some (Inr a) \<Rightarrow> ''WAITING'' \<in> {'''', ''WAITING'', ''IN_PROGRESS''} \<and>
        rr_limit a = (if (1000::int) \<le> 0 then 50 else min 1000 100) \<and> rr_offset a = max 0 (-1) \<and>
        (\<exists>rs. mset rs = mset (public_rooms three_codes ''WAITING'' three_rooms) \<and>
           sorted_wrt (\<lambda>x y. int (length (gr_createdAt y)) \<le> int (length (gr_createdAt x))) rs \<and>
           rr_rooms a = take (nat (rr_limit a)) (drop (nat (rr_offset a)) rs) \<and> rr_total a = int (length rs))"
  by (rule public_rooms_listed) (simp add: three_codes_def)

text \<open>C5: What the list of the home page lets a player join is open: for a list that the server has just
  sent in answer to the page's own request, the server accepts every join that the page offers; and
  unless there are more than fifty rooms that wait for players, the page offers all public ones among
  them that the server lets a player join.\<close>

theorem home_page_offers_open_rooms:
  assumes "rooms_known order sv" "CHR ''?'' \<notin> set base"
  shows "case Option.bind (ListRooms order instant (query_of (req_url (listRooms base (lp_status home_props) None None))) sv) read_rooms of
      Some (Inr bs) \<Rightarrow>
        (let offered = {rl_code e | e. JoinClick e \<in> set (offers (RoomList now parse_date (rooms_answered (Inr (room_list_items bs)) l)))};
             open_rooms = {rc. \<exists>r. sv_rooms sv rc = Some r \<and> gr_isPublic r \<and> gr_status r = WAITING \<and> accepted loader w (Join rc) sv}
         in offered \<subseteq> open_rooms \<and> (length (public_rooms order ''WAITING'' sv) \<le> 50 \<longrightarrow> offered = open_rooms))
    | _ \<Rightarrow> False"
proof -
  define rs where "rs = take 50 (newest_first (\<lambda>r. instant (gr_createdAt r)) (public_rooms order ''WAITING'' sv))"
  have w: "room_status_str WAITING = ''WAITING''" by (simp add: room_status_str_def)
  have a: "Option.bind (ListRooms order instant (query_of (req_url (listRooms base (lp_status home_props) None None))) sv) read_rooms =
      Some (Inr (map page_backend_room rs))"
    using rooms_served [OF assms, of 50 0 WAITING instant] by (simp add: home_props_def default_request rs_def w)
  have items: "room_list_items (map page_backend_room rs) = map (\<lambda>r. room_list_item (page_backend_room r)) rs"
    by (simp add: room_list_items_def)
  have known: "codes_ok (sv_rooms sv)" "set order = dom (sv_rooms sv)" using assms(1) by (simp_all add: rooms_known_def)
  let ?joinable = "\<lambda>r. int (length (gr_players r)) < gr_maxPlayers r"
  let ?offered = "{rl_code e | e. JoinClick e \<in> set (offers (RoomList now parse_date
      (rooms_answered (Inr (room_list_items (map page_backend_room rs))) l)))}"
  have off: "?offered = gr_code ` {r \<in> set rs. gr_status r = WAITING \<and> ?joinable r}"
    unfolding clickable items image_of_some by (simp add: listed_item)
  note mem = waiting_rooms_iff [OF known]
  let ?open = "{rc. \<exists>r. sv_rooms sv rc = Some r \<and> gr_isPublic r \<and> gr_status r = WAITING \<and> accepted loader w (Join rc) sv}"
  note opn = open_rooms [OF known, of loader w]
  have "set rs \<subseteq> set (public_rooms order ''WAITING'' sv)" using set_take_subset [of 50] by (fastforce simp: rs_def)
  then have "?offered \<subseteq> ?open" unfolding off opn by blast
  moreover have "?offered = ?open" if "length (public_rooms order ''WAITING'' sv) \<le> 50"
  proof -
    have "set rs = set (public_rooms order ''WAITING'' sv)" using that by (simp add: rs_def)
    then show ?thesis unfolding off opn by (auto simp: mem)
  qed
  ultimately show ?thesis by (simp add: a Let_def)
qed

theorem home_page_offers_open_rooms_witness:
  "case Option.bind (ListRooms three_codes (\<lambda>t. int (length t)) (query_of (req_url (listRooms '''' (lp_status home_props) None None))) three_rooms) read_rooms of
      Some (Inr bs) \<Rightarrow>
        (let offered = {rl_code e | e. JoinClick e \<in> set (offers (RoomList 0 (\<lambda>_. 0) (rooms_answered (Inr (room_list_items bs)) (fst (mount_room_list home_props)))))};
             open_rooms = {rc. \<exists>r. sv_rooms three_rooms rc = Some r \<and> gr_isPublic r \<and> gr_status r = WAITING \<and>
               accepted (\<lambda>_. None) (plain_world '''') (Join rc) three_rooms}
         in offered \<subseteq> open_rooms \<and> (length (public_rooms three_codes ''WAITING'' three_rooms) \<le> 50 \<longrightarrow> offered = open_rooms))
    | _ \<Rightarrow> False"
  by (rule home_page_offers_open_rooms [OF three_known]) simp

text \<open>C8: Roles are no secret: the server answers a request for the games that are on with the role, the team
  and the room of every player, and nobody has to be named in that request: while at most a hundred
  public games are on, whoever asks for them reads all of this about every player of each of them.\<close>

theorem roles_are_not_secret:
  assumes "rooms_known order sv" "CHR ''?'' \<notin> set base" "sv_rooms sv rc = Some r" "gr_isPublic r" "gr_status r = IN_PROGRESS"
    "length (public_rooms order ''IN_PROGRESS'' sv) \<le> 100"
  shows "case Option.bind (ListRooms order instant (query_of (req_url (listRooms base (Some IN_PROGRESS) (Some 100) (Some 0)))) sv) read_rooms of
      Some (Inr bs) \<Rightarrow> (\<exists>b \<in> set bs. br_code b = rc \<and>
        map (\<lambda>p. (player_id p, nickname p, player_role p, player_team p, player_currentRoom p)) (br_players b) =
        map (\<lambda>p. (gp_id p, gp_nickname p, map_option page_role (gp_role p), gp_team p, gp_room p)) (gr_players r))
    | _ \<Rightarrow> False"
proof -
  define rs where "rs = newest_first (\<lambda>r. instant (gr_createdAt r)) (public_rooms order ''IN_PROGRESS'' sv)"
  have w: "room_status_str IN_PROGRESS = ''IN_PROGRESS''" by (simp add: room_status_str_def)
  have "length rs \<le> 100" using assms(6) by (simp add: rs_def)
  then have a: "Option.bind (ListRooms order instant (query_of (req_url (listRooms base (Some IN_PROGRESS) (Some 100) (Some 0)))) sv) read_rooms =
      Some (Inr (map page_backend_room rs))"
    using rooms_served [OF assms(1,2), of 100 0 IN_PROGRESS instant] by (simp add: rs_def w)
  have c: "gr_code r = rc" using assms(1,3) by (simp add: rooms_known_def codes_ok_def)
  then have "r \<in> set rs"
    using public_rooms_iff [of sv order r "''IN_PROGRESS''"] assms by (simp add: rs_def rooms_known_def w)
  then have m: "page_backend_room r \<in> set (map page_backend_room rs)" by simp
  show ?thesis
    unfolding a option.case sum.case by (rule bexI [OF _ m]) (simp add: page_backend_room_def page_player_def c)
qed

theorem roles_are_not_secret_witness:
  "case Option.bind (ListRooms three_codes (\<lambda>t. int (length t)) (query_of (req_url (listRooms '''' (Some IN_PROGRESS) (Some 100) (Some 0)))) three_rooms) read_rooms of
      Some (Inr bs) \<Rightarrow> (\<exists>b \<in> set bs. br_code b = ''MNOPQR'' \<and>
        map (\<lambda>p. (player_id p, nickname p, player_role p, player_team p, player_currentRoom p)) (br_players b) =
        map (\<lambda>p. (gp_id p, gp_nickname p, map_option page_role (gp_role p), gp_team p, gp_room p)) (gr_players (room_of_six\<lparr>gr_code := ''MNOPQR''\<rparr>)))
    | _ \<Rightarrow> False"
  by (rule roles_are_not_secret [OF three_known])
    (simp_all add: three_rooms room_of_six_def lobby_of_def three_codes_def public_rooms_def List.map_filter_simps)

end
