(* ===== verification/Vote_Registry.thy ===== *)
theory Vote_Registry
  imports Reopening
begin

text \<open>
  The sessions of voting that the server keeps, and the register of the session of each room
  (\<open>services/voting_service.go\<close>), over whole runs of the server. A move of the registry opens a session,
  counts a ballot, ends a session or frees a place in the register; every step of the server is some
  moves, and what the moves keep holds after every run that gives no identifier twice.
\<close>

section \<open>Moves\<close>

type_synonym registry = "(string \<Rightarrow> Go_Vote option) \<times> (string \<times> RoomColor \<Rightarrow> string option)"

definition registry :: "Server \<Rightarrow> registry" where
  "registry sv = (sv_votes sv, sv_roomVotes sv)"

text \<open>A ballot that a session takes.\<close>

definition choice_ok :: "Go_Vote \<Rightarrow> string \<Rightarrow> bool" where
  "choice_ok v x = (case gv_type v of REMOVAL \<Rightarrow> x \<in> {''YES'', ''NO''} | ELECTION \<Rightarrow> x \<in> set (gv_candidates v))"

inductive vote_move :: "string set \<Rightarrow> registry \<Rightarrow> registry \<Rightarrow> bool" for N where
  opens: "V (gv_id v) = None \<Longrightarrow> gv_id v \<in> N \<Longrightarrow> gv_votes v = [] \<Longrightarrow> gv_status v = VoteActive \<Longrightarrow>
     (gv_type v = ELECTION) = (gv_candidates v \<noteq> []) \<Longrightarrow>
     vote_move N (V, M) (V(gv_id v := Some v), M((rc, gv_room v) := Some (gv_id v)))"
| counts: "V i = Some v \<Longrightarrow> gv_status v = VoteActive \<Longrightarrow> map_get (gv_votes v) p = None \<Longrightarrow> choice_ok v x \<Longrightarrow>
     vote_move N (V, M) (V(i := Some (v\<lparr>gv_votes := map_set p x (gv_votes v)\<rparr>)), M)"
| ends: "V i = Some v \<Longrightarrow> gv_status v = VoteActive \<Longrightarrow> st \<noteq> VoteActive \<Longrightarrow>
     vote_move N (V, M) (V(i := Some (v\<lparr>gv_status := st\<rparr>)), M)"
| frees: "vote_move N (V, M) (V, M(k := None))"

abbreviation vote_moves :: "string set \<Rightarrow> registry \<Rightarrow> registry \<Rightarrow> bool" where
  "vote_moves N \<equiv> (vote_move N)\<^sup>*\<^sup>*"

section \<open>What every move keeps\<close>

text \<open>
  A session under its own identifier, an election if it has candidates, with ballots that it takes, at
  most one of each player.
\<close>

definition session_ok :: "string \<Rightarrow> Go_Vote \<Rightarrow> bool" where
  "session_ok i v \<longleftrightarrow> gv_id v = i \<and> (gv_type v = ELECTION) = (gv_candidates v \<noteq> []) \<and>
     map_wf (gv_votes v) \<and> list_all (choice_ok v) (map snd (gv_votes v))"

definition registry_ok :: "registry \<Rightarrow> bool" where
  "registry_ok R \<longleftrightarrow>
     (\<forall>i v. fst R i = Some v \<longrightarrow> session_ok i v) \<and>
     (\<forall>rc c i. snd R (rc, c) = Some i \<longrightarrow> (\<exists>v. fst R i = Some v \<and> gv_room v = c))"

lemma values_map_set: "map_get m k = None \<Longrightarrow> map snd (map_set k x m) = map snd m @ [x]"
  by (induction k x m rule: map_set.induct) (simp_all add: map_get_def split: if_splits)

lemma choice_frame [simp]: "choice_ok (v\<lparr>gv_votes := xs\<rparr>) = choice_ok v" "choice_ok (v\<lparr>gv_status := st\<rparr>) = choice_ok v"
  by (simp_all add: choice_ok_def fun_eq_iff split: VoteType.split)

lemma registry_ok_store:
  assumes "registry_ok (V, M)" "session_ok i v" "V i = None \<or> (\<exists>w. V i = Some w \<and> gv_room w = gv_room v)"
  shows "registry_ok (V(i := Some v), M)"
  unfolding registry_ok_def fst_conv snd_conv
proof (intro conjI allI impI)
  show "session_ok j x" if "(V(i := Some v)) j = Some x" for j x
    using that assms(1,2) by (cases "j = i") (simp_all add: registry_ok_def)
  show "\<exists>x. (V(i := Some v)) j = Some x \<and> gv_room x = c" if "M (rc, c) = Some j" for rc c j
  proof -
    have "\<exists>x. V j = Some x \<and> gv_room x = c" using assms(1) that by (simp add: registry_ok_def)
    then show ?thesis using assms(3) by (cases "j = i") auto
  qed
qed

lemma registry_ok_register: "registry_ok (V, M) \<Longrightarrow> V i = Some v \<Longrightarrow> registry_ok (V, M((rc, gv_room v) := Some i))"
  by (simp add: registry_ok_def)

lemma registry_ok_free: "registry_ok (V, M) \<Longrightarrow> registry_ok (V, M(k := None))"
  by (simp add: registry_ok_def)

lemma registry_okD: "registry_ok (V, M) \<Longrightarrow> V i = Some v \<Longrightarrow> session_ok i v"
  by (simp add: registry_ok_def)

lemma registered: "registry_ok (V, M) \<Longrightarrow> M (rc, c) = Some i \<Longrightarrow> \<exists>v. V i = Some v \<and> gv_room v = c"
  by (simp add: registry_ok_def)

lemma move_ok: "vote_move N R R' \<Longrightarrow> registry_ok R \<Longrightarrow> registry_ok R'"
proof (induction rule: vote_move.induct)
  case (opens V v M rc)
  then have "session_ok (gv_id v) v" by (simp add: session_ok_def)
  from registry_ok_store [OF opens(6) this] opens(1) show ?case by (intro registry_ok_register) simp_all
next
  case (counts V i v p x M)
  then have "session_ok i (v\<lparr>gv_votes := map_set p x (gv_votes v)\<rparr>)"
    using registry_okD [OF counts(5,1)] by (simp add: session_ok_def map_wf_map_set values_map_set del: keys_map_set)
  from registry_ok_store [OF counts(5) this] show ?case using counts(1) by simp
next
  case (ends V i v st M)
  have "session_ok i (v\<lparr>gv_status := st\<rparr>)" using registry_okD [OF ends(4,1)] by (simp add: session_ok_def)
  from registry_ok_store [OF ends(4) this] show ?case using ends(1) by simp
qed (rule registry_ok_free)

lemma moves_ok: "vote_moves N R R' \<Longrightarrow> registry_ok R \<Longrightarrow> registry_ok R'"
  by (induction rule: rtranclp_induct) (auto intro: move_ok)

text \<open>Only identifiers that were given are used.\<close>

lemma moves_dom: "vote_moves N R R' \<Longrightarrow> dom (fst R') \<subseteq> dom (fst R) \<union> N"
proof (induction rule: rtranclp_induct)
  case (step R' R'')
  have "dom (fst R'') \<subseteq> dom (fst R') \<union> N"
    using step(2) by (induction rule: vote_move.induct) (auto split: if_splits)
  with step show ?case by blast
qed simp

section \<open>The operations of the server are moves\<close>

lemma registry_put [simp]: "registry (put_room r sv) = registry sv" "registry (add_job j sv) = registry sv"
  "registry (startTimer rc i sv) = registry sv" "registry (sv\<lparr>sv_rooms := R\<rparr>) = registry sv"
  "registry (sv\<lparr>sv_jobs := js\<rparr>) = registry sv" "registry (sv\<lparr>sv_timers := ts\<rparr>) = registry sv"
  by (simp_all add: registry_def put_room_def add_job_def startTimer_def)

abbreviation registry_after :: "'a outcome \<Rightarrow> registry" where
  "registry_after x \<equiv> registry (fst (snd x))"

named_theorems vote_quiet \<open>operations that leave the votes alone\<close>

lemma quiet_rooms [vote_quiet]:
  "registry_after (CreateRoom c w n public config selected sv) = registry sv"
  "registry_after (JoinRoom w rc sv) = registry sv"
  "registry_after (UpdateNickname w rc i nick sv) = registry sv"
  "registry_after (LeaveRoom w rc i sv) = registry sv"
  "registry_after (UpdateRoomVisibility w rc i public sv) = registry sv"
  "registry_after (StartRound w rc k sv) = registry sv"
  "registry_after (AssignLeaders w rc sv) = registry sv"
  "registry_after (PreserveLeaders rc sv) = registry sv"
  "registry_after (tickTimer rc sv) = registry sv"
  "registry_after (GoLeaderReady rc i sv) = registry sv"
  "registry_after (transitionToRevealing rc sv) = registry sv"
  by (auto simp: CreateRoom_def JoinRoom_def UpdateNickname_def LeaveRoom_def UpdateRoomVisibility_def StartRound_def
      AssignLeaders_def PreserveLeaders_def tickTimer_def GoLeaderReady_def transitionToRevealing_def Let_def split: option.split)

lemma quiet_later [vote_quiet]:
  "registry (fst (tick g sv)) = registry sv"
  "registry_after (startNextRound w rc k sv) = registry sv"
  "registry_after (GoTransferLeadership w rc i n sv) = registry sv"
  "registry_after (SetLeader rc c i sv) = registry sv"
  "registry_after (GoStartGame loader w rc sv) = registry sv"
  "registry_after (GoResetGame w rc sv) = registry sv"
  "registry_after (beginRound w rc k sv) = registry sv"
  "registry_after (GoSelectHostages rc i ids sv) = registry sv"
  "registry_after (executeExchange w rc sv) = registry sv"
proof -
  note q = quiet_rooms
  show "registry (fst (tick g sv)) = registry sv"
    using q(9) [of _ sv] by (auto simp: tick_def split: option.split prod.split sum.split) (metis fst_conv snd_conv)+
  show "registry_after (startNextRound w rc k sv) = registry sv"
    using q(6) [of w rc k sv] q(8) by (auto simp: startNextRound_def split: prod.split sum.split) (metis fst_conv snd_conv)+
  show "registry_after (beginRound w rc k sv) = registry sv"
    using q(6) [of w rc k sv] q(7) by (auto simp: beginRound_def split: prod.split sum.split) (metis fst_conv snd_conv)+
  show "registry_after (GoTransferLeadership w rc i n sv) = registry sv"
    by (auto simp: GoTransferLeadership_def Let_def split: option.split)
  show "registry_after (SetLeader rc c i sv) = registry sv"
    by (auto simp: SetLeader_def Let_def split: option.split)
  show "registry_after (GoResetGame w rc sv) = registry sv" by (auto simp: GoResetGame_def Let_def split: option.split)
  show "registry_after (GoSelectHostages rc i ids sv) = registry sv"
    by (auto simp: GoSelectHostages_def Let_def split: option.split)
  show "registry_after (executeExchange w rc sv) = registry sv"
    by (auto simp: executeExchange_def Let_def split: option.split)
  show "registry_after (GoStartGame loader w rc sv) = registry sv"
  proof (cases "sv_rooms sv rc")
    case (Some r)
    have "registry_after (case StartRound w rc 1 (put_room r' sv) of
        (Inl _, sv2, out2) \<Rightarrow> done_with () sv2 (x @ out2)
      | (Inr _, sv2, out2) \<Rightarrow> (case AssignLeaders w rc sv2 of (_, sv3, out3) \<Rightarrow> done_with () sv3 (x @ out2 @ out3))) = registry sv" for r' x
      using q(6) [of w rc 1 "put_room r' sv"] q(7) [of w rc]
      by (auto split: prod.split sum.split) (metis fst_conv snd_conv)+
    then show ?thesis by (simp add: GoStartGame_def Some Let_def)
  qed (simp add: GoStartGame_def)
qed

lemma quiet_elect [vote_quiet]: "registry (snd (elect rc c i sv)) = registry sv"
  using quiet_later(4) [of rc c i sv] by (cases "SetLeader rc c i sv") (auto simp: elect_def split: sum.split)

lemma registry_votes: "registry (sv\<lparr>sv_votes := V\<rparr>) = (V, snd (registry sv))"
  "registry (sv\<lparr>sv_roomVotes := M\<rparr>) = (fst (registry sv), M)"
  by (simp_all add: registry_def)

lemma registry_parts: "sv_votes sv = fst (registry sv)" "sv_roomVotes sv = snd (registry sv)"
  by (simp_all add: registry_def)

lemma moves_opened:
  assumes "sv_votes sv (gv_id v) = None" "gv_id v \<in> N" "gv_votes v = []" "gv_status v = VoteActive"
    "(gv_type v = ELECTION) = (gv_candidates v \<noteq> [])"
  shows "vote_moves N (registry sv) (registry_after (open_session rc r v t i sv))"
  using vote_move.opens [of "sv_votes sv" v N "sv_roomVotes sv" rc] assms
  by (simp add: open_session_def Let_def) (simp add: registry_def r_into_rtranclp)

lemma moves_start_vote:
  assumes "sv_votes sv (wd_uuid w) = None" "wd_uuid w \<in> N"
  shows "vote_moves N (registry sv) (registry_after (GoStartVote w rc i l c sv))"
  using assms by (auto simp: GoStartVote_def Let_def intro!: moves_opened split: option.split)

lemma moves_election:
  assumes "sv_votes sv (wd_uuid w) = None" "wd_uuid w \<in> N"
  shows "vote_moves N (registry sv) (registry_after (StartElectionVote w rc c i sv))"
  using assms by (auto simp: StartElectionVote_def Let_def intro!: moves_opened split: option.split)

lemma moves_election_job:
  assumes "sv_votes sv (wd_uuid w) = None" "wd_uuid w \<in> N"
  shows "vote_moves N (registry sv) (registry (fst (electionJob w rc c i b sv)))"
proof -
  obtain x sv' out where s: "StartElectionVote w rc c i sv = (x, sv', out)" by (cases "StartElectionVote w rc c i sv")
  have m: "vote_moves N (registry sv) (registry sv')" using moves_election [OF assms, of rc c i] by (simp add: s)
  have "vote_move N (registry sv') (registry (sv'\<lparr>sv_roomVotes := (sv_roomVotes sv')((rc, c) := None)\<rparr>))"
    unfolding registry_def by (simp add: vote_move.frees)
  with m have "vote_moves N (registry sv) (registry (sv'\<lparr>sv_roomVotes := (sv_roomVotes sv')((rc, c) := None)\<rparr>))" by simp
  then show ?thesis using m by (simp add: electionJob_def s split: sum.split)
qed

lemma moves_cast: "vote_moves N (registry sv) (registry_after (GoCastVote t rc vid p x sv))"
proof (cases "sv_votes sv vid")
  case (Some v)
  have "vote_move N (registry sv) (registry (sv\<lparr>sv_votes := (sv_votes sv)(vid := Some (v\<lparr>gv_votes := map_set p x (gv_votes v)\<rparr>))\<rparr>))"
    if "gv_status v = VoteActive" "map_get (gv_votes v) p = None" "choice_ok v x"
    using vote_move.counts [of "sv_votes sv" vid v p x N "sv_roomVotes sv"] that Some by (simp add: registry_def)
  then show ?thesis
    by (auto simp: GoCastVote_def Some Let_def choice_ok_def split: VoteType.splits)
qed (simp add: GoCastVote_def)

lemma moves_end:
  assumes "sv_votes sv vid = Some v" "gv_status v = VoteActive" "st \<noteq> VoteActive"
  shows "vote_moves N (registry sv) (registry (sv\<lparr>sv_votes := (sv_votes sv)(vid := Some (v\<lparr>gv_status := st\<rparr>))\<rparr>))" (is ?A)
    and "vote_moves N (registry sv) ((sv_votes sv)(vid := Some (v\<lparr>gv_status := st\<rparr>)), (sv_roomVotes sv)(k := None))"
proof -
  have a: "vote_move N (registry sv) ((sv_votes sv)(vid := Some (v\<lparr>gv_status := st\<rparr>)), sv_roomVotes sv)"
    using vote_move.ends [of "sv_votes sv" vid v st N "sv_roomVotes sv"] assms by (simp add: registry_def)
  then show ?A by (auto simp: registry_def)
  show "vote_moves N (registry sv) ((sv_votes sv)(vid := Some (v\<lparr>gv_status := st\<rparr>)), (sv_roomVotes sv)(k := None))"
    using a vote_move.frees by (meson converse_rtranclp_into_rtranclp r_into_rtranclp)
qed

lemma moves_complete: "vote_moves N (registry sv) (registry (fst (completeVote w order rc vid sv)))"
proof (cases "sv_votes sv vid")
  case (Some v)
  show ?thesis
  proof (cases "gv_status v = VoteActive")
    case True
    let ?V = "(sv_votes sv)(vid := Some (v\<lparr>gv_status := VoteCompleted\<rparr>))"
    obtain el sv' where e: "elect rc (gv_room v) (if gv_type v = ELECTION then winner order v else '''') (sv\<lparr>sv_votes := ?V\<rparr>) = (el, sv')"
      by (cases "elect rc (gv_room v) (if gv_type v = ELECTION then winner order v else '''') (sv\<lparr>sv_votes := ?V\<rparr>)")
    have q: "registry sv' = (?V, sv_roomVotes sv)"
      using quiet_elect [of rc "gv_room v" "if gv_type v = ELECTION then winner order v else ''''" "sv\<lparr>sv_votes := ?V\<rparr>"]
      unfolding e by (simp add: registry_def)
    have "registry (fst (completeVote w order rc vid sv)) \<in>
        {(?V, sv_roomVotes sv), (?V, (sv_roomVotes sv)((rc, gv_room v) := None))}"
      using q by (simp add: completeVote_def Some True Let_def e split: option.split)
        (simp add: registry_def)
    then show ?thesis using moves_end [OF Some True, of VoteCompleted N] by (auto simp: registry_def)
  qed (simp add: completeVote_def Some)
qed (simp add: completeVote_def)

lemma moves_timeout: "vote_moves N (registry sv) (registry (fst (voteTimeout order rc vid sv)))"
proof (cases "sv_votes sv vid")
  case (Some v)
  let ?V = "(sv_votes sv)(vid := Some (v\<lparr>gv_status := VoteTimeout\<rparr>))" and ?M = "(sv_roomVotes sv)((rc, gv_room v) := None)"
  have "registry (snd (elect rc (gv_room v) i (sv\<lparr>sv_votes := ?V, sv_roomVotes := ?M\<rparr>))) = (?V, ?M)" for i
    unfolding quiet_elect by (simp add: registry_def)
  then show ?thesis using Some moves_end(2) [OF Some, of VoteTimeout N "(rc, gv_room v)"]
    by (simp add: voteTimeout_def Let_def split: option.split)
qed (simp add: voteTimeout_def)

section \<open>Runs\<close>

text \<open>The identifiers that a run may give to sessions.\<close>

definition vote_ids :: "server_event list \<Rightarrow> string list" where
  "vote_ids es = List.map_filter
     (\<lambda>e. case e of Serve w (Vote _ _ _ _) \<Rightarrow> Some (wd_uuid w) | RunJob w _ _ \<Rightarrow> Some (wd_uuid w) | _ \<Rightarrow> None) es"

lemma vote_ids_simps [simp]:
  "vote_ids [] = []"
  "vote_ids (e # es) = (case e of Serve w (Vote _ _ _ _) \<Rightarrow> wd_uuid w # vote_ids es | RunJob w _ _ \<Rightarrow> wd_uuid w # vote_ids es | _ \<Rightarrow> vote_ids es)"
  by (simp_all add: vote_ids_def List.map_filter_simps split: server_event.split request.split)

lemma vote_ids_append [simp]: "vote_ids (es @ fs) = vote_ids es @ vote_ids fs"
  by (induction es) (simp_all split: server_event.split request.split)

lemma moves_serve:
  assumes "set (vote_ids [Serve w q]) \<subseteq> N" "dom (sv_votes sv) \<inter> set (vote_ids [Serve w q]) = {}"
  shows "vote_moves N (registry sv) (registry (fst (serve loader w q sv)))"
  using assms by (cases q) (auto simp: serve_def outcome_state_def vote_quiet moves_start_vote moves_cast)

lemma moves_job:
  assumes "wd_uuid w \<in> N" "sv_votes sv (wd_uuid w) = None"
  shows "vote_moves N (registry sv) (registry (fst (run_job w order j sv)))"
  using assms by (cases j) (simp_all add: run_job_def outcome_state_def vote_quiet moves_complete moves_timeout moves_election_job)

lemma moves_step:
  assumes "set (vote_ids [e]) \<subseteq> N" "dom (sv_votes sv) \<inter> set (vote_ids [e]) = {}"
  shows "vote_moves N (registry sv) (registry (server_next loader sv e))"
proof (cases e)
  case (RunJob w order k)
  then show ?thesis using moves_job [of w N "sv\<lparr>sv_jobs := js\<rparr>" for js] assms
    by (auto simp: server_next_def server_step_def take_job_def split: option.split)
qed (use assms in \<open>simp_all add: server_next_def server_step_def moves_serve vote_quiet\<close>)

lemma vote_moves_more: "vote_moves N R R' \<Longrightarrow> N \<subseteq> N' \<Longrightarrow> vote_moves N' R R'"
proof (induction rule: rtranclp_induct)
  case (step y z)
  have "vote_move N' y z" using step(2,4) by (induction rule: vote_move.induct) (auto intro: vote_move.intros)
  with step show ?case by (meson rtranclp.rtrancl_into_rtrancl)
qed simp

lemma run_votes:
  assumes "distinct (vote_ids es)"
  shows "vote_moves (set (vote_ids es)) (registry empty_server) (registry (server_run loader empty_server es))"
  using assms
proof (induction es rule: rev_induct)
  case (snoc e es)
  let ?sv = "server_run loader empty_server es" and ?N = "set (vote_ids (es @ [e]))"
  have d: "distinct (vote_ids es)" "set (vote_ids es) \<inter> set (vote_ids [e]) = {}"
    using snoc.prems by (simp_all only: vote_ids_append distinct_append)
  note ih = snoc.IH [OF d(1)]
  have "dom (sv_votes ?sv) \<subseteq> set (vote_ids es)" using moves_dom [OF ih] by (simp add: registry_def empty_server_def)
  then have "vote_moves ?N (registry ?sv) (registry (server_next loader ?sv e))" using d(2) by (intro moves_step) auto
  moreover have "vote_moves ?N (registry empty_server) (registry ?sv)" by (rule vote_moves_more [OF ih]) simp
  ultimately show ?case by (simp only: run_append run_Cons run_Nil)
qed simp

lemma registry_empty: "registry_ok (registry empty_server)"
  by (simp add: registry_ok_def registry_def empty_server_def)

section \<open>Properties\<close>

lemma choices:
  "list_all (choice_ok v) (map snd m) \<longleftrightarrow>
    list_all (\<lambda>(p, x). x \<in> (if gv_type v = ELECTION then set (gv_candidates v) else {''YES'', ''NO''})) m"
  by (cases "gv_type v") (simp_all add: list_all_iff choice_ok_def case_prod_beta)

text \<open>C13: After any run of requests, jobs and seconds that gives no identifier twice, the votes of the server
  are in order: a session is kept under its own identifier, it has candidates exactly if it is an
  election, no player is counted twice, and each ballot is yes or no, or in an election one of the
  candidates; and the session that is registered for a room and colour is a session of that colour.\<close>

theorem votes_stay_in_order:
  assumes "distinct (vote_ids es)"
  shows "let sv = server_run loader empty_server es in
    (case sv_votes sv vid of
       None \<Rightarrow> True
     | Some v \<Rightarrow> gv_id v = vid \<and> (gv_type v = ELECTION) = (gv_candidates v \<noteq> []) \<and> distinct (map fst (gv_votes v)) \<and>
         list_all (\<lambda>(p, x). x \<in> (if gv_type v = ELECTION then set (gv_candidates v) else {''YES'', ''NO''})) (gv_votes v)) \<and>
    (case sv_roomVotes sv (rc, c) of
       None \<Rightarrow> True
     | Some i \<Rightarrow> (case sv_votes sv i of None \<Rightarrow> False | Some v \<Rightarrow> gv_room v = c))"
proof -
  define sv where "sv = server_run loader empty_server es"
  have "registry_ok (registry sv)"
    using moves_ok [OF run_votes [OF assms] registry_empty] by (simp add: sv_def)
  then have ok: "registry_ok (sv_votes sv, sv_roomVotes sv)" by (simp add: registry_def)
  have "case sv_votes sv vid of
       None \<Rightarrow> True
     | Some v \<Rightarrow> gv_id v = vid \<and> (gv_type v = ELECTION) = (gv_candidates v \<noteq> []) \<and> distinct (map fst (gv_votes v)) \<and>
         list_all (\<lambda>(p, x). x \<in> (if gv_type v = ELECTION then set (gv_candidates v) else {''YES'', ''NO''})) (gv_votes v)"
  proof (cases "sv_votes sv vid")
    case (Some v)
    show ?thesis
      unfolding Some option.case using registry_okD [OF ok Some, unfolded session_ok_def choices] .
  qed simp
  moreover have "case sv_roomVotes sv (rc, c) of
       None \<Rightarrow> True
     | Some i \<Rightarrow> (case sv_votes sv i of None \<Rightarrow> False | Some v \<Rightarrow> gv_room v = c)"
    using registered [OF ok, of rc c] by (auto split: option.split)
  ultimately show ?thesis unfolding Let_def sv_def by blast
qed

text \<open>The game of six, in which a vote on the red leader is asked for and \<open>b\<close> votes.\<close>

definition vote_of_six :: "server_event list" where
  "vote_of_six = game_of_six @
     [Serve (plain_world ''v'') (Vote ''ABCDEF'' ''b'' ''a'' RED_ROOM),
      Serve (plain_world '''') (Cast ''ABCDEF'' ''v'' ''b'' ''YES'' 20)]"

lemma vote_of_six: "distinct (vote_ids vote_of_six)"
  by code_simp

theorem votes_stay_in_order_witness:
  "let sv = server_run (\<lambda>_. Some []) empty_server vote_of_six in
    (case sv_votes sv ''v'' of
       None \<Rightarrow> True
     | Some v \<Rightarrow> gv_id v = ''v'' \<and> (gv_type v = ELECTION) = (gv_candidates v \<noteq> []) \<and> distinct (map fst (gv_votes v)) \<and>
         list_all (\<lambda>(p, x). x \<in> (if gv_type v = ELECTION then set (gv_candidates v) else {''YES'', ''NO''})) (gv_votes v)) \<and>
    (case sv_roomVotes sv (''ABCDEF'', RED_ROOM) of
       None \<Rightarrow> True
     | Some i \<Rightarrow> (case sv_votes sv i of None \<Rightarrow> False | Some v \<Rightarrow> gv_room v = RED_ROOM))"
  by (rule votes_stay_in_order [OF vote_of_six])

text \<open>So the vote that a reopened page is told of fits its room.\<close>

lemma run_vote_fits:
  assumes "distinct (vote_ids es)"
  shows "vote_fits rc c (server_run loader empty_server es)"
proof -
  define sv where "sv = server_run loader empty_server es"
  have "registry_ok (registry sv)"
    using moves_ok [OF run_votes [OF assms] registry_empty] by (simp add: sv_def)
  then have ok: "registry_ok (sv_votes sv, sv_roomVotes sv)" by (simp add: registry_def)
  have "vote_fits rc c sv"
  proof (cases "GetActiveVoteForRoom rc c sv")
    case (Some v)
    then obtain i where i: "sv_roomVotes sv (rc, c) = Some i" "sv_votes sv i = Some v"
      by (cases "sv_roomVotes sv (rc, c)") (auto simp: GetActiveVoteForRoom_def split: option.splits if_splits)
    have "gv_room v = c" using registered [OF ok i(1)] i(2) by auto
    then show ?thesis using Some i registry_okD [OF ok i(2)] by (simp add: vote_fits_def session_ok_def)
  qed (simp add: vote_fits_def)
  then show ?thesis by (simp add: sv_def)
qed

section \<open>Who votes\<close>

text \<open>The ballots of a list of names, all yes, one request after the other.\<close>

definition all_yes :: "World \<Rightarrow> string \<Rightarrow> string \<Rightarrow> int \<Rightarrow> string list \<Rightarrow> server_event list" where
  "all_yes w rc vid left ids = map (\<lambda>i. Serve w (Cast rc vid i ''YES'' left)) ids"

definition with_yes :: "string list \<Rightarrow> Go_Vote \<Rightarrow> Go_Vote" where
  "with_yes ids v = v\<lparr>gv_votes := map (\<lambda>i. (i, ''YES'')) ids\<rparr>"

lemma map_set_unused: "k \<notin> set (map fst m) \<Longrightarrow> map_set k x m = m @ [(k, x)]"
  by (induction k x m rule: map_set.induct) auto

lemma map_get_yes: "i \<notin> set ids \<Longrightarrow> map_get (map (\<lambda>i. (i, ''YES'')) ids) i = None"
  by (auto simp: map_get_def map_of_eq_None_iff)

lemma cast_yes:
  assumes "sv_votes sv vid = Some (with_yes ids v)" "gv_status v = VoteActive" "gv_type v = REMOVAL" "i \<notin> set ids" "i \<noteq> ''''"
  shows "server_next loader sv (Serve w (Cast rc vid i ''YES'' left)) =
    (let sv' = sv\<lparr>sv_votes := (sv_votes sv)(vid := Some (with_yes (ids @ [i]) v))\<rparr>
     in if int (length ids + 1) = gv_totalVoters v then add_job (JobComplete rc vid) sv' else sv')"
proof -
  have "map_set i ''YES'' (map (\<lambda>i. (i, ''YES'')) ids) = map (\<lambda>i. (i, ''YES'')) ids @ [(i, ''YES'')]"
    using assms(4) by (intro map_set_unused) auto
  then show ?thesis
    using assms map_get_yes [OF assms(4)]
    by (simp add: server_next_def server_step_def serve_def handler_checks_def outcome_state_def GoCastVote_def with_yes_def Let_def)
qed

lemma casts_yes:
  assumes "sv_votes sv vid = Some (with_yes [] v)" "gv_status v = VoteActive" "gv_type v = REMOVAL" "distinct ids" "'''' \<notin> set ids"
    "int (length ids) \<le> gv_totalVoters v"
  shows "let sv' = server_run loader sv (all_yes w rc vid left ids) in
    sv_rooms sv' = sv_rooms sv \<and> sv_votes sv' vid = Some (with_yes ids v) \<and>
    (ids \<noteq> [] \<longrightarrow> int (length ids) = gv_totalVoters v \<longrightarrow> JobComplete rc vid \<in> set (sv_jobs sv'))"
  using assms(4-6)
proof (induction ids rule: rev_induct)
  case Nil
  then show ?case using assms(1) by (simp add: all_yes_def)
next
  case (snoc i ids)
  let ?sv = "server_run loader sv (all_yes w rc vid left ids)"
  have ih: "sv_rooms ?sv = sv_rooms sv" "sv_votes ?sv vid = Some (with_yes ids v)"
    using snoc by (simp_all add: Let_def)
  have r: "server_run loader sv (all_yes w rc vid left (ids @ [i])) = server_next loader ?sv (Serve w (Cast rc vid i ''YES'' left))"
    by (simp only: all_yes_def map_append list.map run_append run_Cons run_Nil)
  have "i \<notin> set ids" "i \<noteq> ''''" using snoc.prems by auto
  from cast_yes [OF ih(2) assms(2,3) this, of loader w rc left] show ?case
    unfolding r using ih(1) by (simp add: Let_def add_job_def)
qed

text \<open>C17: Anybody can vote a leader out: a vote on a removal counts whatever names its ballots carry, players of
  the room or not, and the identifier of the vote, which is all that is needed, is part of every
  answer for the current vote. With as many made-up names as the vote has voters it passes, and the
  election of a new leader follows.\<close>

theorem strangers_remove_a_leader:
  assumes "sv_rooms sv rc = Some r" "sv_votes sv vid = Some v" "gv_status v = VoteActive" "gv_type v = REMOVAL" "gv_votes v = []"
    "distinct ids" "'''' \<notin> set ids" "0 < gv_totalVoters v" "int (length ids) = gv_totalVoters v"
    "set ids \<inter> gp_id ` set (gr_players r) = {}"
  shows "let sv' = server_run loader sv (all_yes w rc vid left ids);
             (sv'', out) = run_job w order (JobComplete rc vid) sv' in
    JobComplete rc vid \<in> set (sv_jobs sv') \<and> vote_results out = [(PASSED, gv_totalVoters v, 0)] \<and>
    JobElection rc (gv_room v) (gv_target v) True \<in> set (sv_jobs sv'')"
proof -
  let ?sv = "server_run loader sv (all_yes w rc vid left ids)" and ?v = "with_yes ids v"
  have v: "sv_votes sv vid = Some (with_yes [] v)" using assms(2,5) by (simp add: with_yes_def)
  have n: "ids \<noteq> []" using assms(8,9) by auto
  have a: "sv_rooms ?sv rc = Some r" "sv_votes ?sv vid = Some ?v" "JobComplete rc vid \<in> set (sv_jobs ?sv)"
    using casts_yes [OF v assms(3,4,6,7), of loader w rc left] assms(1,9) n by (simp_all add: Let_def)
  have "tally ''YES'' ?v = gv_totalVoters v" "no_votes ?v = 0"
    using assms(9) by (simp_all add: tally_def no_votes_def with_yes_def comp_def)
  then show ?thesis
    using a assms(3,4,8)
    by (simp add: run_job_def completeVote_def Let_def elect_def vote_results_def vote_completed_def with_yes_def
        List.map_filter_simps add_job_def)
qed

theorem strangers_remove_a_leader_witness:
  "let sv' = server_run (\<lambda>_. None) (voting_server (lone_vote\<lparr>gv_votes := []\<rparr>)) (all_yes (plain_world '''') ''ABCDEF'' ''v'' 9 [''x'', ''y'', ''z'']);
       (sv'', out) = run_job (plain_world '''') [] (JobComplete ''ABCDEF'' ''v'') sv' in
    JobComplete ''ABCDEF'' ''v'' \<in> set (sv_jobs sv') \<and> vote_results out = [(PASSED, gv_totalVoters (lone_vote\<lparr>gv_votes := []\<rparr>), 0)] \<and>
    JobElection ''ABCDEF'' (gv_room (lone_vote\<lparr>gv_votes := []\<rparr>)) (gv_target (lone_vote\<lparr>gv_votes := []\<rparr>)) True \<in> set (sv_jobs sv'')"
  by (rule strangers_remove_a_leader [OF voting_server(1)])
    (simp_all add: voting_server_def lone_vote_def room_of_six seated_six_def six_players_def)

end
