(* ===== verification/Server_Hub.thy ===== *)
theory Server_Hub
  imports Delivery Reopening
begin

text \<open>
  The hub of the server (\<open>websocket/hub.go\<close>, \<open>websocket/client.go\<close>, \<open>handlers/websocket_handler.go\<close>): the
  connections, their registration by room, and the ways in which a message reaches them. A connection
  is named by a number, where Go has a pointer; the order in which Go ranges over the connections of a
  room comes from outside. The main loop and the cleanup are steps; the keeping alive of a connection
  is left out.
\<close>

section \<open>State\<close>

text \<open>The buffered channel of a connection holds up to 256 messages; the hub closes it.\<close>

record Conn =
  cn_room :: string
  cn_player :: string
  cn_send :: "string list"
  cn_closed :: bool

record Hub =
  hb_conns :: "nat \<Rightarrow> Conn option"
  hb_rooms :: "string \<Rightarrow> nat list option"
  hb_disconnected :: "(string, int) js_map"

definition new_hub :: Hub where
  "new_hub = \<lparr>hb_conns = \<lambda>_. None, hb_rooms = \<lambda>_. None, hb_disconnected = []\<rparr>"

definition in_room_of :: "string \<Rightarrow> Hub \<Rightarrow> nat list" where
  "in_room_of rc h = (case hb_rooms h rc of None \<Rightarrow> [] | Some cs \<Rightarrow> cs)"

section \<open>Sending\<close>

text \<open>
  A send that does not block, to a channel that is open: a full channel loses the message. To a closed
  one it panics (\<open>None\<close>).
\<close>

definition try_send :: "string \<Rightarrow> Conn \<Rightarrow> Conn option" where
  "try_send data c =
     (if cn_closed c then None
      else if length (cn_send c) < 256 then Some (c\<lparr>cn_send := cn_send c @ [data]\<rparr>) else Some c)"

text \<open>\<open>Client.Send\<close> recovers from the panic.\<close>

definition send_to :: "string \<Rightarrow> nat \<Rightarrow> Hub \<Rightarrow> Hub" where
  "send_to data i h =
     (case hb_conns h i of
        None \<Rightarrow> h
      | Some c \<Rightarrow> (case try_send data c of None \<Rightarrow> h | Some c' \<Rightarrow> h\<lparr>hb_conns := (hb_conns h)(i := Some c')\<rparr>))"

definition BroadcastToRoom :: "string \<Rightarrow> string \<Rightarrow> Hub \<Rightarrow> Hub" where
  "BroadcastToRoom rc data h = fold (send_to data) (in_room_of rc h) h"

definition player_at :: "Hub \<Rightarrow> nat \<Rightarrow> string" where
  "player_at h i = (case hb_conns h i of None \<Rightarrow> '''' | Some c \<Rightarrow> cn_player c)"

definition BroadcastToRoomColor :: "string \<Rightarrow> string list \<Rightarrow> string \<Rightarrow> Hub \<Rightarrow> Hub" where
  "BroadcastToRoomColor rc playerIDs data h =
     fold (send_to data) (filter (\<lambda>i. player_at h i \<in> set playerIDs) (in_room_of rc h)) h"

text \<open>
  \<open>SendToClient\<close> works on a copy of the room's connections, taken under the lock; it sends to the first
  of the player, and does not recover: the channel may have been closed since.
\<close>

definition SendToClient :: "nat list \<Rightarrow> string \<Rightarrow> string \<Rightarrow> Hub \<Rightarrow> Hub option" where
  "SendToClient clientsCopy playerID data h =
     (case find (\<lambda>i. player_at h i = playerID) clientsCopy of
        None \<Rightarrow> Some h
      | Some i \<Rightarrow>
          (case hb_conns h i of
             None \<Rightarrow> Some h
           | Some c \<Rightarrow> map_option (\<lambda>c'. h\<lparr>hb_conns := (hb_conns h)(i := Some c')\<rparr>) (try_send data c)))"

section \<open>The main loop\<close>

text \<open>A connection is made by the handler, if the room exists, with the player that its address names.\<close>

definition NewClient :: "nat \<Rightarrow> string \<Rightarrow> string \<Rightarrow> Hub \<Rightarrow> Hub" where
  "NewClient i rc playerID h =
     h\<lparr>hb_conns := (hb_conns h)(i := Some \<lparr>cn_room = rc, cn_player = playerID, cn_send = [], cn_closed = False\<rparr>)\<rparr>"

definition do_register :: "nat \<Rightarrow> Hub \<Rightarrow> Hub" where
  "do_register i h =
     (case hb_conns h i of
        None \<Rightarrow> h
      | Some c \<Rightarrow>
          h\<lparr>hb_rooms := (hb_rooms h)(cn_room c := Some (if i \<in> set (in_room_of (cn_room c) h) then in_room_of (cn_room c) h
                           else in_room_of (cn_room c) h @ [i])),
            hb_disconnected := map_delete (cn_player c) (hb_disconnected h)\<rparr>)"

definition do_unregister :: "int \<Rightarrow> nat \<Rightarrow> Hub \<Rightarrow> Hub" where
  "do_unregister now i h =
     (case hb_conns h i of
        None \<Rightarrow> h
      | Some c \<Rightarrow>
          if i \<notin> set (in_room_of (cn_room c) h) then h
          else
            (let rest = remove1 i (in_room_of (cn_room c) h);
                 h = h\<lparr>hb_conns := (hb_conns h)(i := Some (c\<lparr>cn_closed := True\<rparr>)),
                       hb_rooms := (hb_rooms h)(cn_room c := if rest = [] then None else Some rest),
                       hb_disconnected := map_set (cn_player c) now (hb_disconnected h)\<rparr>
             in if cn_player c = '''' then h
                else fold (send_to (message_text (S_PlayerDisconnected (cn_player c)))) rest h))"

text \<open>What the socket's writer takes of the channel: all that waits, as one frame.\<close>

definition write_pump :: "nat \<Rightarrow> Hub \<Rightarrow> (string \<times> Hub) option" where
  "write_pump i h =
     (case hb_conns h i of
        None \<Rightarrow> None
      | Some c \<Rightarrow>
          (case cn_send c of
             [] \<Rightarrow> None
           | message # queued \<Rightarrow>
               Some (write_frame message queued, h\<lparr>hb_conns := (hb_conns h)(i := Some (c\<lparr>cn_send := []\<rparr>))\<rparr>)))"

text \<open>After thirty seconds a player who has not come back is forgotten; times in nanoseconds.\<close>

definition cleanupDisconnected :: "int \<Rightarrow> Hub \<Rightarrow> Hub" where
  "cleanupDisconnected now h =
     h\<lparr>hb_disconnected := filter (\<lambda>(_, t). \<not> now - t > 30 * 10 ^ 9) (hb_disconnected h)\<rparr>"

definition IsPlayerDisconnected :: "string \<Rightarrow> Hub \<Rightarrow> bool" where
  "IsPlayerDisconnected playerID h \<longleftrightarrow> map_get (hb_disconnected h) playerID \<noteq> None"

section \<open>The messages of the services\<close>

text \<open>
  How a service's message is sent: to the room, to some players of it, or, a role, to one connection of
  its player. The order of the room's connections is that of Go's map when the role is sent.
\<close>

definition dispatch :: "(string \<Rightarrow> Hub \<Rightarrow> nat list) \<Rightarrow> sent \<Rightarrow> Hub \<Rightarrow> Hub option" where
  "dispatch order x h =
     (case sent_to x of
        None \<Rightarrow> Some (BroadcastToRoom (sent_room x) (message_text (sent_message x)) h)
      | Some ids \<Rightarrow>
          (case sent_message x of
             S_RoleAssigned _ _ _ \<Rightarrow> SendToClient (order (sent_room x) h) (hd ids) (message_text (sent_message x)) h
           | m \<Rightarrow> Some (BroadcastToRoomColor (sent_room x) ids (message_text m) h)))"

fun dispatch_all :: "(string \<Rightarrow> Hub \<Rightarrow> nat list) \<Rightarrow> sent list \<Rightarrow> Hub \<Rightarrow> Hub option" where
  "dispatch_all order [] h = Some h"
| "dispatch_all order (x # xs) h = Option.bind (dispatch order x h) (dispatch_all order xs)"

section \<open>Steps and their invariant\<close>

text \<open>A connection is registered once, right after it is made.\<close>

datatype hub_event =
    Connects nat string string
  | Disconnects int nat
  | ToRoom string string
  | ToPlayers string "string list" string
  | ToClient "nat list" string string
  | Writes nat
  | Sweeps int

definition hub_step :: "Hub \<Rightarrow> hub_event \<Rightarrow> Hub" where
  "hub_step h e =
     (case e of
        Connects i rc p \<Rightarrow> if hb_conns h i = None then do_register i (NewClient i rc p h) else h
      | Disconnects now i \<Rightarrow> do_unregister now i h
      | ToRoom rc data \<Rightarrow> BroadcastToRoom rc data h
      | ToPlayers rc ids data \<Rightarrow> BroadcastToRoomColor rc ids data h
      | ToClient copy p data \<Rightarrow> (case SendToClient copy p data h of None \<Rightarrow> h | Some h' \<Rightarrow> h')
      | Writes i \<Rightarrow> (case write_pump i h of None \<Rightarrow> h | Some (_, h') \<Rightarrow> h')
      | Sweeps now \<Rightarrow> cleanupDisconnected now h)"

text \<open>The connections that are registered for a room are open, are for that room, and are registered once.\<close>

definition hub_ok :: "Hub \<Rightarrow> bool" where
  "hub_ok h \<longleftrightarrow>
     (\<forall>rc. distinct (in_room_of rc h)) \<and>
     (\<forall>rc i. i \<in> set (in_room_of rc h) \<longrightarrow> (\<exists>c. hb_conns h i = Some c \<and> cn_room c = rc \<and> \<not> cn_closed c))"

definition push :: "string \<Rightarrow> Conn \<Rightarrow> Conn" where
  "push data c = (case try_send data c of None \<Rightarrow> c | Some c' \<Rightarrow> c')"

lemma push_fields [simp]: "cn_room (push data c) = cn_room c" "cn_player (push data c) = cn_player c" "cn_closed (push data c) = cn_closed c"
  by (simp_all add: push_def try_send_def)

lemma push_open: "\<not> cn_closed c \<Longrightarrow> length (cn_send c) < 256 \<Longrightarrow> cn_send (push data c) = cn_send c @ [data]"
  by (simp add: push_def try_send_def)

lemma send_to_conns: "hb_conns (send_to data j h) i = (if i = j then map_option (push data) (hb_conns h i) else hb_conns h i)"
  by (auto simp: send_to_def push_def split: option.split)

lemma send_to_frame [simp]: "hb_rooms (send_to data j h) = hb_rooms h" "hb_disconnected (send_to data j h) = hb_disconnected h"
  "in_room_of rc (send_to data j h) = in_room_of rc h"
  by (simp_all add: send_to_def in_room_of_def split: option.split)

lemma sends_frame [simp]: "hb_rooms (fold (send_to data) js h) = hb_rooms h" "hb_disconnected (fold (send_to data) js h) = hb_disconnected h"
  "in_room_of rc (fold (send_to data) js h) = in_room_of rc h"
  by (induction js arbitrary: h) simp_all

lemma sends_conns:
  "distinct js \<Longrightarrow> hb_conns (fold (send_to data) js h) i = (if i \<in> set js then map_option (push data) (hb_conns h i) else hb_conns h i)"
  by (induction js arbitrary: h) (auto simp: send_to_conns)

text \<open>What a step that only changes channels leaves.\<close>

definition same_conn :: "Conn option \<Rightarrow> Conn option \<Rightarrow> bool" where
  "same_conn x y \<longleftrightarrow> map_option (\<lambda>c. (cn_room c, cn_player c, cn_closed c)) x = map_option (\<lambda>c. (cn_room c, cn_player c, cn_closed c)) y"

lemma same_conn_push: "same_conn (map_option (push data) x) x"
  by (cases x) (simp_all add: same_conn_def)

lemma hub_ok_same:
  assumes "hub_ok h" "hb_rooms h' = hb_rooms h" "\<And>i. same_conn (hb_conns h' i) (hb_conns h i)"
  shows "hub_ok h'"
proof -
  have "in_room_of rc h' = in_room_of rc h" for rc by (simp add: in_room_of_def assms(2))
  moreover have "\<exists>c. hb_conns h' i = Some c \<and> cn_room c = rc \<and> \<not> cn_closed c"
    if "hb_conns h i = Some c" "cn_room c = rc" "\<not> cn_closed c" for i c rc
    using assms(3) [of i] that by (auto simp: same_conn_def)
  ultimately show ?thesis using assms(1) by (fastforce simp: hub_ok_def)
qed

lemma hub_ok_sends: "hub_ok h \<Longrightarrow> hub_ok (fold (send_to data) js h)"
proof (induction js arbitrary: h)
  case (Cons j js)
  have "same_conn (hb_conns (send_to data j h) i) (hb_conns h i)" for i
    using same_conn_push by (simp add: send_to_conns) (simp add: same_conn_def)
  from hub_ok_same [OF Cons.prems _ this] show ?case by (simp add: Cons.IH)
qed simp

lemma hub_okD: "hub_ok h \<Longrightarrow> i \<in> set (in_room_of rc h) \<Longrightarrow> \<exists>c. hb_conns h i = Some c \<and> cn_room c = rc \<and> \<not> cn_closed c"
  "hub_ok h \<Longrightarrow> distinct (in_room_of rc h)"
  by (simp_all add: hub_ok_def)

lemma in_room_of_conns [simp]: "in_room_of rc (h\<lparr>hb_conns := x\<rparr>) = in_room_of rc h"
  by (simp add: in_room_of_def)

lemma connects_fields:
  assumes "hb_conns h i = None" "hub_ok h"
  shows "in_room_of rc' (hub_step h (Connects i rc p)) = (if rc' = rc then in_room_of rc h @ [i] else in_room_of rc' h)"
    "hb_conns (hub_step h (Connects i rc p)) =
       (hb_conns h)(i := Some \<lparr>cn_room = rc, cn_player = p, cn_send = [], cn_closed = False\<rparr>)"
proof -
  have "i \<notin> set (in_room_of rc h)" using hub_okD(1) [OF assms(2), of i rc] assms(1) by auto
  then show "in_room_of rc' (hub_step h (Connects i rc p)) = (if rc' = rc then in_room_of rc h @ [i] else in_room_of rc' h)"
    using assms(1) by (simp add: hub_step_def do_register_def NewClient_def) (simp add: in_room_of_def)
  show "hb_conns (hub_step h (Connects i rc p)) =
       (hb_conns h)(i := Some \<lparr>cn_room = rc, cn_player = p, cn_send = [], cn_closed = False\<rparr>)"
    using assms(1) by (simp add: hub_step_def do_register_def NewClient_def)
qed

lemma hub_ok_connects:
  assumes "hb_conns h i = None" "hub_ok h"
  shows "hub_ok (hub_step h (Connects i rc p))"
proof -
  have n: "i \<notin> set (in_room_of rc' h)" for rc' using hub_okD(1) [OF assms(2), of i rc'] assms(1) by auto
  show ?thesis
    unfolding hub_ok_def connects_fields [OF assms] using hub_okD [OF assms(2)] n by auto
qed

text \<open>The hub between the removal of a connection and the news of it.\<close>

definition removed_from :: "int \<Rightarrow> nat \<Rightarrow> Conn \<Rightarrow> Hub \<Rightarrow> Hub" where
  "removed_from now i c h =
     (let rest = remove1 i (in_room_of (cn_room c) h) in
      h\<lparr>hb_conns := (hb_conns h)(i := Some (c\<lparr>cn_closed := True\<rparr>)),
        hb_rooms := (hb_rooms h)(cn_room c := if rest = [] then None else Some rest),
        hb_disconnected := map_set (cn_player c) now (hb_disconnected h)\<rparr>)"

lemma unregister_eq:
  assumes "hb_conns h i = Some c" "i \<in> set (in_room_of (cn_room c) h)"
  shows "do_unregister now i h =
    (if cn_player c = '''' then removed_from now i c h
     else fold (send_to (message_text (S_PlayerDisconnected (cn_player c)))) (remove1 i (in_room_of (cn_room c) h)) (removed_from now i c h))"
  using assms by (simp add: do_unregister_def removed_from_def Let_def)

lemma removed_fields:
  "in_room_of rc (removed_from now i c h) = (if rc = cn_room c then remove1 i (in_room_of rc h) else in_room_of rc h)"
  "hb_conns (removed_from now i c h) = (hb_conns h)(i := Some (c\<lparr>cn_closed := True\<rparr>))"
  by (auto simp: removed_from_def Let_def in_room_of_def)

lemma hub_ok_removed:
  assumes "hub_ok h" "hb_conns h i = Some c"
  shows "hub_ok (removed_from now i c h)"
proof -
  have "j \<noteq> i" if "j \<in> set (in_room_of rc h)" "rc \<noteq> cn_room c" for j rc
    using hub_okD(1) [OF assms(1) that(1)] that(2) assms(2) by auto
  then show ?thesis
    unfolding hub_ok_def removed_fields using hub_okD [OF assms(1)] by auto
qed

lemma hub_ok_unregister: "hub_ok h \<Longrightarrow> hub_ok (do_unregister now i h)"
proof (cases "hb_conns h i")
  case (Some c)
  assume "hub_ok h"
  then show ?thesis
    using unregister_eq [OF Some, of now] hub_ok_sends [OF hub_ok_removed [OF _ Some]] hub_ok_removed [OF _ Some]
    by (cases "i \<in> set (in_room_of (cn_room c) h)") (simp_all add: do_unregister_def Some)
qed (simp add: do_unregister_def)

lemma client_same: "SendToClient copy p data h = Some h' \<Longrightarrow> hb_rooms h' = hb_rooms h \<and> same_conn (hb_conns h' i) (hb_conns h i)"
  by (auto simp: SendToClient_def try_send_def same_conn_def split: option.splits if_splits)

lemma hub_ok_step: "hub_ok h \<Longrightarrow> hub_ok (hub_step h e)"
proof (cases e)
  case (ToClient copy p data)
  assume "hub_ok h"
  then show ?thesis
    using client_same [of copy p data h] hub_ok_same [of h] by (simp add: hub_step_def ToClient split: option.split)
next
  case (Writes i)
  assume ok: "hub_ok h"
  have "same_conn (hb_conns h' j) (hb_conns h j) \<and> hb_rooms h' = hb_rooms h" if "write_pump i h = Some (f, h')" for f h' j
    using that by (auto simp: write_pump_def same_conn_def split: option.splits list.splits)
  then show ?thesis using hub_ok_same [OF ok] ok by (auto simp: hub_step_def Writes split: option.split)
next
  case (Sweeps now)
  assume "hub_ok h"
  then show ?thesis by (rule hub_ok_same) (simp_all add: hub_step_def Sweeps cleanupDisconnected_def same_conn_def)
next
  case (Connects i rc p)
  assume "hub_ok h"
  then show ?thesis using hub_ok_connects [of h i rc p] by (cases "hb_conns h i = None") (simp_all add: Connects hub_step_def del: not_None_eq)
next
  case (Disconnects now i)
  assume "hub_ok h"
  then show ?thesis by (simp add: hub_step_def Disconnects hub_ok_unregister)
next
  case (ToRoom rc data)
  assume "hub_ok h"
  then show ?thesis by (simp add: hub_step_def ToRoom BroadcastToRoom_def hub_ok_sends)
next
  case (ToPlayers rc ids data)
  assume "hub_ok h"
  then show ?thesis by (simp add: hub_step_def ToPlayers BroadcastToRoomColor_def hub_ok_sends)
qed

interpretation hub: event_machine hub_ok hub_step
  by unfold_locales (rule hub_ok_step)

lemma new_hub_ok: "hub_ok new_hub"
  by (simp add: hub_ok_def new_hub_def in_room_of_def)

section \<open>What a connection is sent\<close>

text \<open>The roles that a service sends go to one player each.\<close>

definition one_role :: "sent \<Rightarrow> bool" where
  "one_role x \<longleftrightarrow>
     (case (sent_to x, sent_message x) of
        (Some ids, S_RoleAssigned _ _ _) \<Rightarrow> length ids = 1
      | _ \<Rightarrow> True)"

text \<open>Player \<open>p\<close> has the connection \<open>i\<close> in the room and no other.\<close>

definition only_conn :: "nat \<Rightarrow> string \<Rightarrow> string \<Rightarrow> Hub \<Rightarrow> bool" where
  "only_conn i rc p h \<longleftrightarrow> i \<in> set (in_room_of rc h) \<and> (\<forall>j \<in> set (in_room_of rc h). player_at h j = p \<longleftrightarrow> j = i)"

definition sent_of :: "nat \<Rightarrow> Hub \<Rightarrow> string list" where
  "sent_of i h = (case hb_conns h i of None \<Rightarrow> [] | Some c \<Rightarrow> cn_send c)"

lemma sent_push:
  assumes "hub_ok h" "i \<in> set (in_room_of rc h)" "i \<in> set js \<longrightarrow> length (sent_of i h) < 256" "distinct js"
  shows "sent_of i (fold (send_to data) js h) = sent_of i h @ (if i \<in> set js then [data] else [])"
proof -
  obtain c where c: "hb_conns h i = Some c" "\<not> cn_closed c" using hub_okD(1) [OF assms(1,2)] by blast
  then show ?thesis using assms(3,4) by (simp add: sent_of_def sends_conns push_open)
qed

lemma player_at_sends: "player_at (fold (send_to data) js h) j = player_at h j"
proof (induction js arbitrary: h)
  case (Cons k js)
  have "player_at (send_to data k h) j = player_at h j" by (cases "hb_conns h j") (auto simp: player_at_def send_to_conns)
  then show ?case using Cons by simp
qed simp

lemma only_conn_sends: "only_conn i rc p (fold (send_to data) js h) \<longleftrightarrow> only_conn i rc p h"
  by (simp add: only_conn_def player_at_sends)

lemma one_room: "hub_ok h \<Longrightarrow> i \<in> set (in_room_of rc h) \<Longrightarrow> i \<in> set (in_room_of rc' h) \<longleftrightarrow> rc' = rc"
  using hub_okD(1) [of h i rc] hub_okD(1) [of h i rc'] by auto

text \<open>A message in one of the ways of the hub, as the connection \<open>i\<close> of player \<open>p\<close> gets it.\<close>

definition gets :: "nat \<Rightarrow> string \<Rightarrow> string \<Rightarrow> string list \<Rightarrow> Hub \<Rightarrow> Hub \<Rightarrow> bool" where
  "gets i rc p ds h h' \<longleftrightarrow> hub_ok h' \<and> only_conn i rc p h' \<and> sent_of i h' = sent_of i h @ ds"

lemma gets_sends:
  assumes "hub_ok h" "only_conn i rc p h" "distinct js" "i \<in> set js \<longleftrightarrow> b" "b \<longrightarrow> length (sent_of i h) < 256"
  shows "gets i rc p (if b then [data] else []) h (fold (send_to data) js h)"
  using assms sent_push [OF assms(1) _ _ assms(3), of i rc data]
  by (auto simp: gets_def hub_ok_sends only_conn_sends only_conn_def [of i rc p h])

lemma find_only:
  assumes "only_conn i rc p h" "set js = set (in_room_of rc h)"
  shows "find (\<lambda>j. player_at h j = p) js = Some i"
proof -
  have "i \<in> set js" "\<forall>j \<in> set js. player_at h j = p \<longleftrightarrow> j = i" using assms by (auto simp: only_conn_def)
  then show ?thesis by (induction js) auto
qed

lemma role_sent:
  assumes ok: "hub_ok h" and only: "only_conn i rc p h" and js: "set js = set (in_room_of rc' h)"
    and room: "rc' = rc \<and> q = p \<longrightarrow> length (sent_of i h) < 256"
  shows "\<exists>h'. SendToClient js q data h = Some h' \<and> gets i rc p (if rc' = rc \<and> q = p then [data] else []) h h'"
proof (cases "find (\<lambda>j. player_at h j = q) js")
  case None
  then have "\<not> (rc' = rc \<and> q = p)" using find_only [OF only, of js] js by auto
  then show ?thesis using None ok only by (simp add: SendToClient_def gets_def)
next
  case (Some j)
  then have j: "j \<in> set (in_room_of rc' h)" "player_at h j = q" using js by (auto simp: find_Some_iff)
  obtain c where c: "hb_conns h j = Some c" "\<not> cn_closed c" using hub_okD(1) [OF ok j(1)] by blast
  have "SendToClient js q data h = Some (send_to data j h)"
    using Some c by (simp add: SendToClient_def send_to_def try_send_def)
  moreover have "j = i \<longleftrightarrow> rc' = rc \<and> q = p"
    using only j one_room [OF ok, of i rc rc'] by (auto simp: only_conn_def)
  then have "gets i rc p (if rc' = rc \<and> q = p then [data] else []) h (fold (send_to data) [j] h)"
    using room by (intro gets_sends [OF ok only]) auto
  ultimately show ?thesis by simp
qed

text \<open>The copies of a room's connections, in whatever order Go ranges over them.\<close>

definition any_order :: "(string \<Rightarrow> Hub \<Rightarrow> nat list) \<Rightarrow> bool" where
  "any_order order \<longleftrightarrow> (\<forall>rc h. set (order rc h) = set (in_room_of rc h))"

lemma dispatched:
  assumes "hub_ok h" "only_conn i rc p h" "one_role x" "any_order order" "length (sent_of i h) + length (inbox rc p [x]) \<le> 256"
  shows "\<exists>h'. dispatch order x h = Some h' \<and> gets i rc p (map message_text (inbox rc p [x])) h h'"
proof -
  let ?rc = "sent_room x" and ?d = "message_text (sent_message x)"
  have i: "i \<in> set (in_room_of rc h)" using assms(2) by (simp add: only_conn_def)
  have d: "distinct (in_room_of ?rc h)" using assms(1) by (rule hub_okD)
  have at: "j \<in> set (in_room_of ?rc h) \<Longrightarrow> j = i \<Longrightarrow> ?rc = rc \<and> player_at h j = p" for j
    using assms(2) one_room [OF assms(1) i, of ?rc] by (auto simp: only_conn_def)
  have room: "i \<in> set (in_room_of ?rc h) \<longleftrightarrow> ?rc = rc" using one_room [OF assms(1) i] .
  show ?thesis
  proof (cases "sent_to x")
    case None
    have "gets i rc p (if ?rc = rc then [?d] else []) h (fold (send_to ?d) (in_room_of ?rc h) h)"
      using assms(5) None by (intro gets_sends [OF assms(1,2) d room]) (simp split: if_splits)
    then show ?thesis using None by (simp add: dispatch_def BroadcastToRoom_def) (auto split: if_splits)
  next
    case (Some ids)
    have color: "gets i rc p (if ?rc = rc \<and> p \<in> set ids then [?d] else []) h (BroadcastToRoomColor ?rc ids ?d h)"
      unfolding BroadcastToRoomColor_def
      using assms(5) Some room at by (intro gets_sends [OF assms(1,2)]) (auto simp: d split: if_splits)
    show ?thesis
    proof (cases "\<exists>ro t c. sent_message x = S_RoleAssigned ro t c")
      case True
      then obtain q where q: "ids = [q]" using assms(3) Some by (cases ids; cases "tl ids") (auto simp: one_role_def)
      have "\<exists>h'. SendToClient (order ?rc h) q ?d h = Some h' \<and> gets i rc p (if ?rc = rc \<and> q = p then [?d] else []) h h'"
        using assms(4,5) Some q by (intro role_sent [OF assms(1,2)]) (auto simp: any_order_def split: if_splits)
      then show ?thesis using True Some q by (auto simp: dispatch_def)
    next
      case False
      then have "dispatch order x h = Some (BroadcastToRoomColor ?rc ids ?d h)"
        using Some by (cases "sent_message x") (simp_all add: dispatch_def)
      then show ?thesis using color Some by (auto split: if_splits)
    qed
  qed
qed

lemma inbox_Cons_append: "inbox rc p (x # xs) = inbox rc p [x] @ inbox rc p xs"
  by simp

lemma all_dispatched:
  assumes "hub_ok h" "only_conn i rc p h" "list_all one_role out" "any_order order"
    "length (sent_of i h) + length (inbox rc p out) \<le> 256"
  shows "\<exists>h'. dispatch_all order out h = Some h' \<and> gets i rc p (map message_text (inbox rc p out)) h h'"
  using assms
proof (induction out arbitrary: h)
  case Nil
  then show ?case by (simp add: gets_def)
next
  case (Cons x xs)
  note box = inbox_Cons_append [of rc p x xs]
  have l: "length (sent_of i h) + length (inbox rc p [x]) \<le> 256"
    using Cons.prems(5) unfolding box length_append by linarith
  have o: "one_role x" "list_all one_role xs" using Cons.prems(3) by simp_all
  obtain h1 where h1: "dispatch order x h = Some h1" "gets i rc p (map message_text (inbox rc p [x])) h h1"
    using dispatched [OF Cons.prems(1,2) o(1) Cons.prems(4) l] by blast
  note g = h1(2) [unfolded gets_def]
  have "length (sent_of i h1) + length (inbox rc p xs) \<le> 256"
    using Cons.prems(5) g unfolding box by (simp del: inbox_simps)
  then obtain h2 where h2: "dispatch_all order xs h1 = Some h2" "gets i rc p (map message_text (inbox rc p xs)) h1 h2"
    using Cons.IH [OF _ _ o(2) Cons.prems(4), of h1] g by blast
  show ?case
    unfolding box using h1(1) h2 g by (simp add: gets_def del: inbox_simps)
qed

section \<open>Properties\<close>

text \<open>C24: In every run of the hub, in whatever order connections come and go, messages are sent and channels
  are written, the connections registered for a room are open connections of that room, each once.\<close>

theorem registered_connections_are_open:
  "let h = run hub_step new_hub es in
     distinct (in_room_of rc h) \<and>
     list_all (\<lambda>i. case hb_conns h i of None \<Rightarrow> False | Some c \<Rightarrow> cn_room c = rc \<and> \<not> cn_closed c) (in_room_of rc h)"
proof -
  have ok: "hub_ok (run hub_step new_hub es)" by (rule hub.inv_run [OF new_hub_ok])
  show ?thesis using hub_okD [OF ok] by (fastforce simp: Let_def list_all_iff)
qed

text \<open>C9: The hub delivers what the services send: a player with one connection to a room is sent exactly the
  messages for the room, those for players among whom the player is, and the own role, in the order
  in which they were sent, as long as no more than 256 messages wait.\<close>

theorem hub_delivers_the_inbox:
  assumes "hub_ok h" "only_conn i rc p h" "list_all one_role out" "any_order order"
    "length (sent_of i h) + length (inbox rc p out) \<le> 256"
  shows "case dispatch_all order out h of
      None \<Rightarrow> False
    | Some h' \<Rightarrow> sent_of i h' = sent_of i h @ map message_text (inbox rc p out)"
  using all_dispatched [OF assms] by (auto simp: gets_def)

text \<open>Two players, who are connected, and a nickname and a role that are announced.\<close>

definition two_conns :: Hub where
  "two_conns = run hub_step new_hub [Connects 1 ''ABCDEF'' ''a'', Connects 2 ''ABCDEF'' ''b'']"

lemma two_conns: "in_room_of rc two_conns = (if rc = ''ABCDEF'' then [1, 2] else [])"
  "hb_conns two_conns = [1 \<mapsto> \<lparr>cn_room = ''ABCDEF'', cn_player = ''a'', cn_send = [], cn_closed = False\<rparr>,
     2 \<mapsto> \<lparr>cn_room = ''ABCDEF'', cn_player = ''b'', cn_send = [], cn_closed = False\<rparr>]"
  by (auto simp: two_conns_def hub_step_def do_register_def NewClient_def new_hub_def in_room_of_def)

lemma two_conns_ok: "hub_ok two_conns"
  unfolding two_conns_def by (rule hub.inv_run [OF new_hub_ok])

theorem hub_delivers_the_inbox_witness:
  "case dispatch_all in_room_of [Sent ''ABCDEF'' None (S_NicknameChanged ''a'' ''Ann''), Sent ''ABCDEF'' (Some [''b'']) (S_RoleAssigned RoleBomber RED RED_ROOM)] two_conns of
      None \<Rightarrow> False
    | Some h' \<Rightarrow> sent_of 2 h' = sent_of 2 two_conns @ map message_text (inbox ''ABCDEF'' ''b''
        [Sent ''ABCDEF'' None (S_NicknameChanged ''a'' ''Ann''), Sent ''ABCDEF'' (Some [''b'']) (S_RoleAssigned RoleBomber RED RED_ROOM)])"
  by (rule hub_delivers_the_inbox [OF two_conns_ok])
    (simp_all add: only_conn_def two_conns player_at_def one_role_def any_order_def sent_of_def)

lemma page_loses_player:
  assumes "room s = Some u" "lastProcessedMessageRef s \<noteq> Some (PLAYER_DISCONNECTED p)"
  shows "room (page_step s (Message (PLAYER_DISCONNECTED p))) = Some (u\<lparr>players := filter (\<lambda>q. player_id q \<noteq> p) (players u)\<rparr>)"
  using assms by (simp add: page_step_def handle_event_def on_lastMessage_def handle_message_def page_frame)
    (simp add: on_player_gone_def)

lemma reconnected:
  fixes now :: int
  assumes "hub_ok h" "hb_conns h i = Some c" "i \<in> set (in_room_of (cn_room c) h)" "cn_player c \<noteq> ''''" "hb_conns h j = None"
  defines "h' \<equiv> run hub_step h [Connects j (cn_room c) (cn_player c), Disconnects now i]"
  shows "set (in_room_of (cn_room c) h') = insert j (set (in_room_of (cn_room c) h) - {i})"
    "IsPlayerDisconnected (cn_player c) h'"
    "k = j \<or> k \<in> set (in_room_of (cn_room c) h) \<and> k \<noteq> i \<Longrightarrow> length (sent_of k h) < 256 \<Longrightarrow>
       sent_of k h' = sent_of k h @ [message_text (S_PlayerDisconnected (cn_player c))]"
proof -
  let ?rc = "cn_room c" and ?p = "cn_player c" and ?m = "message_text (S_PlayerDisconnected (cn_player c))"
  define h1 where "h1 = hub_step h (Connects j ?rc ?p)"
  note f = connects_fields(1) [OF assms(5,1), of _ ?rc ?p, folded h1_def] connects_fields(2) [OF assms(5,1), of ?rc ?p, folded h1_def]
  have ij: "i \<noteq> j" using assms(2,5) by auto
  have c: "hb_conns h1 i = Some c" "i \<in> set (in_room_of ?rc h1)" using f ij assms(2,3) by simp_all
  have d1: "distinct (in_room_of ?rc h1)"
    using hub_okD(2) [OF hub_ok_connects [OF assms(5,1), of ?rc ?p], of ?rc] by (simp add: h1_def)
  then have d: "distinct (remove1 i (in_room_of ?rc h1))" by simp
  have "h' = do_unregister now i h1" by (simp add: h'_def h1_def hub_step_def)
  then have h': "h' = fold (send_to ?m) (remove1 i (in_room_of ?rc h1)) (removed_from now i c h1)"
    using unregister_eq [OF c] assms(4) by simp
  show "set (in_room_of ?rc h') = insert j (set (in_room_of ?rc h) - {i})"
    using d1 ij f(1) by (auto simp: h' removed_fields)
  show "IsPlayerDisconnected ?p h'"
    using map_of_map_set [of ?p now "hb_disconnected h1"] by (simp add: h' IsPlayerDisconnected_def removed_from_def Let_def map_get_def)
  assume k: "k = j \<or> k \<in> set (in_room_of ?rc h) \<and> k \<noteq> i" and l: "length (sent_of k h) < 256"
  have "k \<in> set (remove1 i (in_room_of ?rc h1))" "k \<noteq> i" using k ij f(1) d1 by auto
  moreover obtain ck where "hb_conns h1 k = Some ck" "\<not> cn_closed ck" "cn_send ck = sent_of k h"
    using k f(2) assms(5) hub_okD(1) [OF assms(1), of k ?rc] by (cases "k = j") (auto simp: sent_of_def)
  ultimately show "sent_of k h' = sent_of k h @ [?m]"
    using l by (simp add: h' sent_of_def sends_conns [OF d] removed_fields push_open)
qed

text \<open>A connection on which messages wait is written as one frame, of which the page sees the last.\<close>

lemma waiting_frame:
  assumes "sent_of k h = map message_text (ms @ [m])" "list_all deliverable (ms @ [m])"
  shows "\<exists>h''. write_pump k h = Some (together (ms @ [m]), h'') \<and>
    snd (page_gets st (together (ms @ [m]))) = page_step (snd st) (Message (page_message m))"
proof -
  obtain q qs where q: "ms @ [m] = q # qs" "last (q # qs) = m" by (metis append_is_Nil_conv last_snoc list.exhaust not_Cons_self2)
  obtain c where c: "hb_conns h k = Some c" "cn_send c = map message_text (q # qs)"
    using assms(1) unfolding q by (auto simp: sent_of_def split: option.splits)
  have "list_all deliverable (q # qs)" using assms(2) unfolding q .
  from frame_seen [OF this, of st] q(2) c show ?thesis unfolding q(1) by (simp add: write_pump_def together_def)
qed

text \<open>C25: A player who comes back before the hub has noticed the end of the old connection is announced as
  gone: the hub notes the player as disconnected, although the new connection is registered, and tells
  every connection of the room so, the new one included, as long as no more than 255 messages wait on
  it; and whatever waits there, the page that gets what is written next to any of these connections
  takes the player out of its list, unless it has just been told so.\<close>

theorem returning_player_is_announced_as_gone:
  assumes "hub_ok h" "hb_conns h i = Some c" "i \<in> set (in_room_of (cn_room c) h)" "cn_player c \<noteq> ''''" "hb_conns h j = None"
    "k = j \<or> k \<in> set (in_room_of (cn_room c) h) \<and> k \<noteq> i"
    "sent_of k h = map message_text ms" "list_all deliverable ms" "length ms < 256"
    "room s = Some u" "lastProcessedMessageRef s \<noteq> Some (PLAYER_DISCONNECTED (cn_player c))"
  shows "let h' = run hub_step h [Connects j (cn_room c) (cn_player c), Disconnects now i] in
    set (in_room_of (cn_room c) h') = insert j (set (in_room_of (cn_room c) h) - {i}) \<and> IsPlayerDisconnected (cn_player c) h' \<and>
    (case write_pump k h' of
       None \<Rightarrow> False
     | Some (frame, _) \<Rightarrow>
         map_option (\<lambda>r. player_ids (players r)) (room (snd (page_gets (hk, s) frame))) =
           Some (filter (\<lambda>q. q \<noteq> cn_player c) (player_ids (players u))))"
proof -
  define h' where "h' = run hub_step h [Connects j (cn_room c) (cn_player c), Disconnects now i]"
  note r = reconnected [where now = now, OF assms(1-5), folded h'_def]
  have "sent_of k h' = map message_text (ms @ [S_PlayerDisconnected (cn_player c)])"
    using r(3) [OF assms(6)] assms(7,9) by simp
  moreover have "list_all deliverable (ms @ [S_PlayerDisconnected (cn_player c)])"
    using assms(8) by (simp add: deliverable_def)
  ultimately obtain h'' where w: "write_pump k h' = Some (together (ms @ [S_PlayerDisconnected (cn_player c)]), h'')"
      "snd (page_gets (hk, s) (together (ms @ [S_PlayerDisconnected (cn_player c)]))) =
         page_step s (Message (PLAYER_DISCONNECTED (cn_player c)))"
    using waiting_frame [of k h' ms _ "(hk, s)"] by (auto simp: page_message_def)
  have "map player_id (filter (\<lambda>q. player_id q \<noteq> p) ps) = filter (\<lambda>q. q \<noteq> p) (player_ids ps)" for p ps
    by (induction ps) simp_all
  then show ?thesis
    unfolding h'_def [symmetric] using r(1,2) w page_loses_player [OF assms(10,11)] by (simp add: Let_def)
qed

text \<open>Player \<open>b\<close> comes back, and the page of \<open>a\<close>, to which a new name is still to be written, loses the player.\<close>

definition renamed_conns :: Hub where
  "renamed_conns = hub_step two_conns (ToRoom ''ABCDEF'' (message_text (S_NicknameChanged ''a'' ''Ann'')))"

lemma renamed_conns: "hub_ok renamed_conns" "in_room_of ''ABCDEF'' renamed_conns = [1, 2]" "hb_conns renamed_conns 3 = None"
  "hb_conns renamed_conns 2 =
     Some \<lparr>cn_room = ''ABCDEF'', cn_player = ''b'', cn_send = [message_text (S_NicknameChanged ''a'' ''Ann'')], cn_closed = False\<rparr>"
  "sent_of 1 renamed_conns = map message_text [S_NicknameChanged ''a'' ''Ann'']"
proof -
  show "hub_ok renamed_conns" unfolding renamed_conns_def by (rule hub_ok_step [OF two_conns_ok])
  have e: "renamed_conns = fold (send_to (message_text (S_NicknameChanged ''a'' ''Ann''))) [1, 2] two_conns"
    by (simp add: renamed_conns_def hub_step_def BroadcastToRoom_def two_conns)
  show "in_room_of ''ABCDEF'' renamed_conns = [1, 2]" unfolding e by (simp add: two_conns del: fold_simps)
  show "hb_conns renamed_conns 3 = None"
    "hb_conns renamed_conns 2 =
       Some \<lparr>cn_room = ''ABCDEF'', cn_player = ''b'', cn_send = [message_text (S_NicknameChanged ''a'' ''Ann'')], cn_closed = False\<rparr>"
    "sent_of 1 renamed_conns = map message_text [S_NicknameChanged ''a'' ''Ann'']"
    unfolding e sent_of_def by (simp_all add: send_to_conns two_conns push_def try_send_def)
qed

theorem returning_player_is_announced_as_gone_witness:
  "let h' = run hub_step renamed_conns [Connects 3 ''ABCDEF'' ''b'', Disconnects 9 2] in
    set (in_room_of ''ABCDEF'' h') = insert 3 (set (in_room_of ''ABCDEF'' renamed_conns) - {2}) \<and> IsPlayerDisconnected ''b'' h' \<and>
    (case write_pump 1 h' of
       None \<Rightarrow> False
     | Some (frame, _) \<Rightarrow>
         map_option (\<lambda>r. player_ids (players r)) (room (snd (page_gets (fst joined_page, (snd joined_page)\<lparr>room := Some (page_room (lobby_of six_players))\<rparr>) frame))) =
           Some (filter (\<lambda>q. q \<noteq> ''b'') (player_ids (players (page_room (lobby_of six_players))))))"
proof (rule returning_player_is_announced_as_gone [OF renamed_conns(1,4), unfolded Conn.select_convs])
  show "sent_of 1 renamed_conns = map message_text [S_NicknameChanged ''a'' ''Ann'']" by (rule renamed_conns(5))
qed (simp_all add: renamed_conns joined_page_def mount_room_page_def deliverable_def)

text \<open>A role is sent to one connection only: of a player with two connections to a room, such as one that
  is open and one whose end has not been noticed, the first in the order of Go's map gets the role
  and the other nothing; and if that first one is closed after the hub has copied the list of
  connections, sending the role panics.\<close>

theorem role_reaches_one_connection:
  assumes "hub_ok h" "i \<in> set (in_room_of rc h)" "j \<in> set (in_room_of rc h)" "i \<noteq> j" "player_at h i = p" "player_at h j = p"
    "length (sent_of i h) < 256" "copy = i # rest"
  shows "(case SendToClient copy p data h of
       None \<Rightarrow> False
     | Some h' \<Rightarrow> sent_of i h' = sent_of i h @ [data] \<and> sent_of j h' = sent_of j h) \<and>
    SendToClient copy p data (do_unregister now i h) = None"
proof -
  obtain c where c: "hb_conns h i = Some c" "cn_room c = rc" "\<not> cn_closed c" using hub_okD(1) [OF assms(1,2)] by blast
  have p: "cn_player c = p" using assms(5) c by (simp add: player_at_def)
  have "hb_conns (do_unregister now i h) i = Some (c\<lparr>cn_closed := True\<rparr>)"
    using unregister_eq [OF c(1), of now] assms(2) c hub_okD(2) [OF assms(1), of rc]
    by (simp add: sends_conns removed_fields)
  then have "SendToClient copy p data (do_unregister now i h) = None"
    using p by (simp add: SendToClient_def assms(8) player_at_def try_send_def)
  moreover have "SendToClient copy p data h = Some (h\<lparr>hb_conns := (hb_conns h)(i := Some (c\<lparr>cn_send := cn_send c @ [data]\<rparr>))\<rparr>)"
    using c p assms(7) by (simp add: SendToClient_def assms(8) player_at_def try_send_def sent_of_def)
  ultimately show ?thesis using c assms(4) by (simp add: sent_of_def)
qed

text \<open>Player \<open>b\<close> with a second connection.\<close>

definition doubled :: Hub where
  "doubled = hub_step two_conns (Connects 3 ''ABCDEF'' ''b'')"

lemma doubled: "hub_ok doubled" "in_room_of ''ABCDEF'' doubled = [1, 2, 3]" "player_at doubled 2 = ''b''" "player_at doubled 3 = ''b''"
  "sent_of 2 doubled = []"
proof -
  have n: "hb_conns two_conns 3 = None" by (simp add: two_conns)
  note f = connects_fields(1) [OF n two_conns_ok, of _ "''ABCDEF''" "''b''", folded doubled_def]
    connects_fields(2) [OF n two_conns_ok, of "''ABCDEF''" "''b''", folded doubled_def]
  show "hub_ok doubled" unfolding doubled_def by (rule hub_ok_step [OF two_conns_ok])
  show "in_room_of ''ABCDEF'' doubled = [1, 2, 3]" "player_at doubled 2 = ''b''" "player_at doubled 3 = ''b''" "sent_of 2 doubled = []"
    using f by (simp_all add: two_conns player_at_def sent_of_def)
qed

theorem role_reaches_one_connection_witness:
  "(case SendToClient [2, 3, 1] ''b'' ''role'' doubled of
       None \<Rightarrow> False
     | Some h' \<Rightarrow> sent_of 2 h' = sent_of 2 doubled @ [''role''] \<and> sent_of 3 h' = sent_of 3 doubled) \<and>
    SendToClient [2, 3, 1] ''b'' ''role'' (do_unregister 0 2 doubled) = None"
  by (rule role_reaches_one_connection [OF doubled(1), of 2 "''ABCDEF''" 3 _ _ "[3, 1]"]) (simp_all add: doubled)

section \<open>Opening a connection\<close>

text \<open>
  \<open>HandleWebSocket\<close>: the room must exist, the player is whoever the address names, or nobody. The
  connection is greeted, and a little later the room is told who has connected, as far as the player
  is in the room. Messages that a client sends on its connection are read and dropped.
\<close>

definition broadcastPlayerJoined :: "string \<Rightarrow> string \<Rightarrow> Server \<Rightarrow> sent" where
  "broadcastPlayerJoined rc playerID sv = Sent rc None (S_PlayerSeen rc
     (if playerID = '''' then None
      else map_option (\<lambda>p. (gp_id p, gp_nickname p)) (Option.bind (sv_rooms sv rc) (\<lambda>r. find_go playerID (gr_players r)))))"

definition HandleWebSocket :: "nat \<Rightarrow> string \<Rightarrow> string \<Rightarrow> Server \<Rightarrow> Hub \<Rightarrow> Http_Outcome + Hub" where
  "HandleWebSocket i rc playerID sv h =
     (case sv_rooms sv rc of
        None \<Rightarrow> Inl (json_answer 404 ''Not Found'' (JObj [(''code'', JStr ''ROOM_NOT_FOUND''), (''message'', JStr ''Room not found'')]))
      | Some _ \<Rightarrow> Inr (send_to (message_text (S_Connected rc)) i (do_register i (NewClient i rc playerID h))))"

text \<open>A new connection to a room is registered for whatever player it names, and greeted first.\<close>

lemma opened_connection:
  assumes "HandleWebSocket i rc p sv h = Inr h'" "hb_conns h i = None"
  shows "sv_rooms sv rc \<noteq> None \<and> i \<in> set (in_room_of rc h') \<and> player_at h' i = p \<and> sent_of i h' = [message_text (S_Connected rc)]"
  using assms
  by (auto simp: HandleWebSocket_def send_to_def try_send_def do_register_def NewClient_def in_room_of_def player_at_def sent_of_def
      split: option.splits)

end
