(* ===== verification/Server_Configs.thy ===== *)
theory Server_Configs
  imports Reopening
begin

text \<open>
  The role configurations of the server (\<open>backend/internal/config\<close>): what is read of a file, how it is
  checked, how the loader keeps the configurations and the handler hands them out
  (\<open>handlers/role_config_handler.go\<close>), and the one file that is shipped
  (\<open>backend/config/roles/all-roles.json\<close>). The directory and its files are given from outside, each file
  as its JSON value or none if it cannot be read as JSON. Go also accepts keys in other cases; the
  model reads keys as they are written.
\<close>

section \<open>Data\<close>

text \<open>A role and a configuration as they are read; teams and types are any texts.\<close>

record Raw_Role =
  raw_id :: string
  raw_name :: string
  raw_nameKo :: string
  raw_team :: string
  raw_type :: string
  raw_description :: string
  raw_descriptionKo :: string
  raw_count :: Go_Count
  raw_minPlayers :: int
  raw_priority :: int
  raw_color :: string
  raw_icon :: string

record Raw_Config =
  rc_id :: string
  rc_name :: string
  rc_nameKo :: string
  rc_description :: string
  rc_descriptionKo :: string
  rc_version :: string
  rc_roles :: "Raw_Role list"

section \<open>Reading\<close>

text \<open>A field that is absent or \<open>null\<close> keeps the zero of its type; one of another type is an error.\<close>

definition go_field :: "(Json \<Rightarrow> 'a option) \<Rightarrow> 'a \<Rightarrow> string \<Rightarrow> Json \<Rightarrow> 'a option" where
  "go_field f zero k j =
     (case js_prop k j of
        None \<Rightarrow> Some zero
      | Some v \<Rightarrow> if v = JNull then Some zero else f v)"

definition go_int :: "Json \<Rightarrow> int option" where
  "go_int j = (case j of JNum n \<Rightarrow> if - (2 ^ 63) \<le> n \<and> n < 2 ^ 63 then Some n else None | _ \<Rightarrow> None)"

text \<open>
  \<open>RoleCount.UnmarshalJSON\<close>: a number, or an object of numbers; it is called for \<open>null\<close> as well, which
  reads as the number zero.
\<close>

definition read_count :: "Json \<Rightarrow> Go_Count option" where
  "read_count j =
     (case (if j = JNull then Some 0 else go_int j) of
        Some n \<Rightarrow> Some (Fixed n)
      | None \<Rightarrow>
          (case j of
             JObj fs \<Rightarrow> map_option Ranges (those (map (\<lambda>(k, v). map_option (Pair k) (if v = JNull then Some 0 else go_int v)) fs))
           | _ \<Rightarrow> None))"

definition count_field :: "Json \<Rightarrow> Go_Count option" where
  "count_field j = (case js_prop ''count'' j of None \<Rightarrow> Some NoCount | Some v \<Rightarrow> read_count v)"

definition object_or_null :: "Json \<Rightarrow> bool" where
  "object_or_null j = (case j of JNull \<Rightarrow> True | JObj _ \<Rightarrow> True | _ \<Rightarrow> False)"

definition read_raw_role :: "Json \<Rightarrow> Raw_Role option" where
  "read_raw_role j =
     (if \<not> object_or_null j then None
      else do {
     i \<leftarrow> go_field read_str '''' ''id'' j;
     n \<leftarrow> go_field read_str '''' ''name'' j;
     nk \<leftarrow> go_field read_str '''' ''nameKo'' j;
     t \<leftarrow> go_field read_str '''' ''team'' j;
     ty \<leftarrow> go_field read_str '''' ''type'' j;
     d \<leftarrow> go_field read_str '''' ''description'' j;
     dk \<leftarrow> go_field read_str '''' ''descriptionKo'' j;
     c \<leftarrow> count_field j;
     m \<leftarrow> go_field go_int 0 ''minPlayers'' j;
     p \<leftarrow> go_field go_int 0 ''priority'' j;
     co \<leftarrow> go_field read_str '''' ''color'' j;
     ic \<leftarrow> go_field read_str '''' ''icon'' j;
     Some \<lparr>raw_id = i, raw_name = n, raw_nameKo = nk, raw_team = t, raw_type = ty, raw_description = d,
       raw_descriptionKo = dk, raw_count = c, raw_minPlayers = m, raw_priority = p, raw_color = co, raw_icon = ic\<rparr> })"

definition read_raw_config :: "Json \<Rightarrow> Raw_Config option" where
  "read_raw_config j =
     (if \<not> object_or_null j then None
      else do {
     i \<leftarrow> go_field read_str '''' ''id'' j;
     n \<leftarrow> go_field read_str '''' ''name'' j;
     nk \<leftarrow> go_field read_str '''' ''nameKo'' j;
     d \<leftarrow> go_field read_str '''' ''description'' j;
     dk \<leftarrow> go_field read_str '''' ''descriptionKo'' j;
     v \<leftarrow> go_field read_str '''' ''version'' j;
     rs \<leftarrow> go_field (read_list read_raw_role) [] ''roles'' j;
     Some \<lparr>rc_id = i, rc_name = n, rc_nameKo = nk, rc_description = d, rc_descriptionKo = dk, rc_version = v,
       rc_roles = rs\<rparr> })"

section \<open>Checking\<close>

text \<open>The variables of the loop of \<open>validateRoleConfig\<close>.\<close>

record Checks =
  ck_errs :: "string list"
  ck_seen :: "string set"
  ck_red :: bool
  ck_blue :: bool
  ck_priorities :: "(string \<times> int) set"

definition complain :: "bool \<Rightarrow> string \<Rightarrow> Checks \<Rightarrow> Checks" where
  "complain b e st = (if b then st\<lparr>ck_errs := ck_errs st @ [e]\<rparr> else st)"

definition quoted :: "string \<Rightarrow> string" where
  "quoted s = CHR 0x27 # s @ [CHR 0x27]"

definition valid_types :: "string list" where
  "valid_types = [''leader'', ''spy'', ''operative'', ''grey'', ''special'']"

definition negative_count :: "Go_Count \<Rightarrow> bool" where
  "negative_count c = (case c of Fixed n \<Rightarrow> n < 0 | _ \<Rightarrow> False)"

definition check_role :: "nat \<times> Raw_Role \<Rightarrow> Checks \<Rightarrow> Checks" where
  "check_role ir st =
     (let (i, r) = ir;
          st = complain (raw_id r \<in> ck_seen st) (''duplicate role ID '' @ quoted (raw_id r) @ '' at index '' @ nat_str i) st;
          st = st\<lparr>ck_seen := insert (raw_id r) (ck_seen st)\<rparr>;
          st = complain (raw_name r = '''') (''role at index '' @ nat_str i @ '' missing name'') st;
          st = complain (raw_team r \<notin> {''RED'', ''BLUE'', ''GREY''})
                 (''invalid team '' @ quoted (raw_team r) @ '' for role '' @ quoted (raw_id r)) st;
          st = (if raw_team r = ''RED'' then st\<lparr>ck_red := True\<rparr> else st);
          st = (if raw_team r = ''BLUE'' then st\<lparr>ck_blue := True\<rparr> else st);
          st = complain (raw_minPlayers r < 6) (''minPlayers must be >= 6 for role '' @ quoted (raw_id r)) st;
          st = complain (negative_count (raw_count r)) (''count must be >= 0 for role '' @ quoted (raw_id r)) st;
          st = complain (raw_type r \<notin> set valid_types)
                 (''invalid type '' @ quoted (raw_type r) @ '' for role '' @ quoted (raw_id r)) st
      in if raw_team r \<in> {''RED'', ''BLUE''} then
           (complain ((raw_team r, raw_priority r) \<in> ck_priorities st)
              (''duplicate priority '' @ int_str (raw_priority r) @ '' for '' @ raw_team r @ '' team'') st)
             \<lparr>ck_priorities := insert (raw_team r, raw_priority r) (ck_priorities st)\<rparr>
         else st)"

definition leads_team :: "string \<Rightarrow> Raw_Role \<Rightarrow> bool" where
  "leads_team t r \<longleftrightarrow> raw_team r = t \<and> raw_type r = ''leader''"

fun spaced :: "string list \<Rightarrow> string" where
  "spaced [] = ''''"
| "spaced [e] = e"
| "spaced (e # es) = e @ '' '' @ spaced es"

definition config_errors :: "Raw_Config \<Rightarrow> string list" where
  "config_errors c =
     (let st = \<lparr>ck_errs = [], ck_seen = {}, ck_red = False, ck_blue = False, ck_priorities = {}\<rparr>;
          st = complain (rc_id c = '''') ''configuration ID is required'' st;
          st = complain (rc_name c = '''') ''configuration name is required'' st;
          st = complain (rc_version c = '''') ''version is required'' st;
          st = complain (rc_roles c = []) ''at least one role must be defined'' st;
          st = fold check_role (enumerate 0 (rc_roles c)) st;
          st = complain (\<not> ck_red st) ''configuration must define roles for RED team'' st;
          st = complain (\<not> ck_blue st) ''configuration must define roles for BLUE team'' st;
          st = complain (\<not> list_ex (leads_team ''RED'') (rc_roles c)) ''configuration must define a RED team leader'' st;
          st = complain (\<not> list_ex (leads_team ''BLUE'') (rc_roles c)) ''configuration must define a BLUE team leader'' st
      in ck_errs st)"

definition validateRoleConfig :: "Raw_Config \<Rightarrow> string option" where
  "validateRoleConfig c =
     (if config_errors c = [] then None else Some (''validation errors: ['' @ spaced (config_errors c) @ '']''))"

section \<open>Loading\<close>

text \<open>
  The files of the directory in the order of their names, or none if there is no directory; the result
  maps identifiers to configurations, a later file replacing an earlier one. What exactly is wrong with a
  file that cannot be read is left out of the text of the error.
\<close>

definition loadFile :: "Json option \<Rightarrow> string + Raw_Config" where
  "loadFile file =
     (case Option.bind file read_raw_config of
        None \<Rightarrow> Inl ''invalid JSON''
      | Some c \<Rightarrow> (case validateRoleConfig c of Some e \<Rightarrow> Inl (''validation failed: '' @ e) | None \<Rightarrow> Inr c))"

fun load_files :: "(string \<times> Json option) list \<Rightarrow> (string, Raw_Config) js_map \<Rightarrow> string + (string, Raw_Config) js_map" where
  "load_files [] m = Inr m"
| "load_files ((path, file) # fs) m =
     (case loadFile file of
        Inl e \<Rightarrow> Inl (''failed to load '' @ path @ '': '' @ e)
      | Inr c \<Rightarrow> load_files fs (map_set (rc_id c) c m))"

definition LoadAll :: "string \<Rightarrow> (string \<times> Json option) list option \<Rightarrow> string + (string, Raw_Config) js_map" where
  "LoadAll dir files =
     (case files of
        None \<Rightarrow> Inl (''config directory not found: '' @ dir)
      | Some fs \<Rightarrow> if fs = [] then Inl (''no role configuration files found in '' @ dir) else load_files fs [])"

definition GetConfig :: "(string, Raw_Config) js_map \<Rightarrow> string \<Rightarrow> string + Raw_Config" where
  "GetConfig m i = (case map_get m i of None \<Rightarrow> Inl (''configuration not found: '' @ i) | Some c \<Rightarrow> Inr c)"

section \<open>What a configuration is used for\<close>

text \<open>The roles as the deal takes them; of a checked configuration all are kept.\<close>

definition type_lits :: "(string \<times> Go_RoleType) list" where
  "type_lits = [(''leader'', TypeLeader), (''spy'', TypeSpy), (''operative'', TypeOperative), (''grey'', TypeGrey), (''special'', TypeSpecial)]"

definition role_def :: "Raw_Role \<Rightarrow> Go_RoleDef option" where
  "role_def r = do {
     t \<leftarrow> map_of team_lits (raw_team r);
     ty \<leftarrow> map_of type_lits (raw_type r);
     Some \<lparr>grd_id = raw_id r, grd_name = raw_name r, grd_nameKo = raw_nameKo r, grd_team = t, grd_type = ty,
       grd_description = raw_description r, grd_descriptionKo = raw_descriptionKo r, grd_count = raw_count r,
       grd_minPlayers = raw_minPlayers r, grd_priority = raw_priority r, grd_icon = raw_icon r\<rparr> }"

definition role_defs :: "Raw_Config \<Rightarrow> Go_RoleDef list" where
  "role_defs c = List.map_filter role_def (rc_roles c)"

definition config_loader :: "(string, Raw_Config) js_map \<Rightarrow> string \<Rightarrow> Go_RoleDef list option" where
  "config_loader m i = (case GetConfig m i of Inl _ \<Rightarrow> None | Inr c \<Rightarrow> Some (role_defs c))"

text \<open>The answers of the handler; Go ranges over the map in any order.\<close>

definition json_meta :: "Raw_Config \<Rightarrow> Json" where
  "json_meta c = JObj
     [(''id'', JStr (rc_id c)), (''name'', JStr (rc_name c)), (''nameKo'', JStr (rc_nameKo c)),
      (''description'', JStr (rc_description c)), (''descriptionKo'', JStr (rc_descriptionKo c)),
      (''version'', JStr (rc_version c))]"

definition json_count :: "Go_Count \<Rightarrow> Json" where
  "json_count c =
     (case c of
        Fixed n \<Rightarrow> JNum n
      | Ranges rs \<Rightarrow> JObj (map (\<lambda>(k, n). (k, JNum n)) rs)
      | NoCount \<Rightarrow> JNum 0)"

definition json_raw_role :: "Raw_Role \<Rightarrow> Json" where
  "json_raw_role r = go_object
     [(''id'', Some (JStr (raw_id r))), (''name'', Some (JStr (raw_name r))), (''nameKo'', Some (JStr (raw_nameKo r))),
      (''team'', Some (JStr (raw_team r))), (''type'', Some (JStr (raw_type r))),
      (''description'', Some (JStr (raw_description r))), (''descriptionKo'', Some (JStr (raw_descriptionKo r))),
      (''count'', Some (json_count (raw_count r))), (''minPlayers'', Some (JNum (raw_minPlayers r))),
      (''priority'', Some (JNum (raw_priority r))), (''color'', omit_empty (raw_color r)), (''icon'', omit_empty (raw_icon r))]"

definition json_config :: "Raw_Config \<Rightarrow> Json" where
  "json_config c = JObj
     [(''id'', JStr (rc_id c)), (''name'', JStr (rc_name c)), (''nameKo'', JStr (rc_nameKo c)),
      (''description'', JStr (rc_description c)), (''descriptionKo'', JStr (rc_descriptionKo c)),
      (''version'', JStr (rc_version c)), (''roles'', go_slice json_raw_role (rc_roles c))]"

definition ListRoleConfigs :: "string list \<Rightarrow> (string, Raw_Config) js_map \<Rightarrow> Http_Outcome" where
  "ListRoleConfigs order m =
     json_answer 200 ''OK'' (JObj [(''configs'', JArr (map json_meta (List.map_filter (map_get m) order)))])"

definition GetRoleConfig :: "string \<Rightarrow> (string, Raw_Config) js_map \<Rightarrow> Http_Outcome" where
  "GetRoleConfig i m =
     (case GetConfig m i of
        Inl _ \<Rightarrow> json_answer 404 ''Not Found''
          (JObj [(''code'', JStr ''ROLE_CONFIG_NOT_FOUND''), (''message'', JStr ''Role configuration not found'')])
      | Inr c \<Rightarrow> json_answer 200 ''OK'' (json_config c))"

section \<open>The shipped file\<close>

text \<open>
  A role of the file; the Korean texts are translated, the icons named, and the key \<open>required\<close>, which the
  server does not read, is left out.
\<close>

definition file_role :: "string \<Rightarrow> string \<Rightarrow> string \<Rightarrow> string \<Rightarrow> string \<Rightarrow> Json \<Rightarrow> int \<Rightarrow> int \<Rightarrow> string \<Rightarrow> string \<Rightarrow> Json" where
  "file_role i n t ty d c m p co ic = JObj
     [(''id'', JStr i), (''name'', JStr n), (''nameKo'', JStr n), (''team'', JStr t), (''type'', JStr ty),
      (''description'', JStr d), (''descriptionKo'', JStr d), (''count'', c), (''minPlayers'', JNum m),
      (''priority'', JNum p), (''color'', JStr co), (''icon'', JStr ic)]"

definition spy_counts :: Json where
  "spy_counts = JObj [(''6-9'', JNum 1), (''10-14'', JNum 2), (''15+'', JNum 3)]"

definition all_roles_file :: Json where
  "all_roles_file = JObj
     [(''id'', JStr ''all-roles''), (''name'', JStr ''All Available Roles''), (''nameKo'', JStr ''All available roles''),
      (''description'', JStr ''Complete list of all available roles in Two Rooms and a Boom''),
      (''descriptionKo'', JStr ''All available roles of Two Rooms and a Boom''), (''version'', JStr ''2.0.0''),
      (''roles'', JArr
        [file_role ''PRESIDENT'' ''President'' ''BLUE'' ''leader''
           ''Primary Blue Team character. Blue Team wins if President does not gain 'dead' condition''
           (JNum 1) 6 1 ''#0066CC'' ''tie'',
         file_role ''BOMBER'' ''Bomber'' ''RED'' ''leader''
           ''Primary Red Team character. Everyone in same room at end gains 'dead' condition. Red Team wins if President gains 'dead' condition''
           (JNum 1) 6 1 ''#CC0000'' ''bomb'',
         file_role ''BLUE_SPY'' ''Blue Spy'' ''BLUE'' ''spy''
           ''Blue Team member whose card appears as Red Team during color sharing''
           spy_counts 6 2 ''#6699FF'' ''spy'',
         file_role ''RED_SPY'' ''Red Spy'' ''RED'' ''spy''
           ''Red Team member whose card appears as Blue Team during color sharing''
           spy_counts 6 2 ''#FF6666'' ''spy'',
         file_role ''BLUE_TEAM'' ''Blue Team'' ''BLUE'' ''operative''
           ''Standard Blue Team member''
           (JNum 99) 6 99 ''#3399FF'' ''star'',
         file_role ''DOCTOR'' ''Doctor'' ''BLUE'' ''special''
           ''Special Blue Team win condition: President must card share with Doctor before end of game or Blue Team loses''
           (JNum 1) 10 3 ''#00CC99'' ''medicine'',
         file_role ''RED_TEAM'' ''Red Team'' ''RED'' ''operative''
           ''Standard Red Team member''
           (JNum 99) 6 99 ''#FF3333'' ''bomb'',
         file_role ''ENGINEER'' ''Engineer'' ''RED'' ''special''
           ''Special Red Team win condition: Bomber must card share with Engineer before end of game or Red Team loses''
           (JNum 1) 10 3 ''#CC6600'' ''wrench'',
         file_role ''GAMBLER'' ''Gambler'' ''GREY'' ''grey''
           ''Wins by correctly predicting which team (Red or Blue) will win before the reveal''
           (JNum 1) 10 3 ''#808080'' ''die'',
         file_role ''BOMB_BOT'' ''Bomb-Bot'' ''GREY'' ''grey''
           ''Wins if in room with Bomber (regardless of President)''
           (JNum 1) 10 3 ''#808080'' ''robot'',
         file_role ''QUEEN'' ''Queen'' ''GREY'' ''grey''
           ''Wins if in room with President but without Bomber''
           (JNum 1) 10 3 ''#808080'' ''crown'',
         file_role ''SURVIVOR'' ''Survivor'' ''GREY'' ''grey''
           ''Wins if in different room from Bomber''
           (JNum 1) 10 3 ''#808080'' ''shield'',
         file_role ''VICTIM'' ''Victim'' ''GREY'' ''grey''
           ''Wins if gains 'dead' condition (in room with Bomber)''
           (JNum 1) 10 3 ''#808080'' ''dizzy'',
         file_role ''MI6'' ''MI6'' ''GREY'' ''grey''
           ''Wins if card is shared with both Bomber and President during the game''
           (JNum 1) 12 3 ''#808080'' ''mask''])]"

definition shipped_files :: "(string \<times> Json option) list" where
  "shipped_files = [(''all-roles.json'', Some all_roles_file)]"

section \<open>What the check ensures\<close>

text \<open>A role that is in order by itself; the priorities that must be unique.\<close>

definition role_ok :: "Raw_Role \<Rightarrow> bool" where
  "role_ok r \<longleftrightarrow> raw_name r \<noteq> '''' \<and> raw_team r \<in> {''RED'', ''BLUE'', ''GREY''} \<and> 6 \<le> raw_minPlayers r \<and>
     \<not> negative_count (raw_count r) \<and> raw_type r \<in> set valid_types"

definition team_priorities :: "Raw_Role list \<Rightarrow> (string \<times> int) list" where
  "team_priorities rs = map (\<lambda>r. (raw_team r, raw_priority r)) (filter (\<lambda>r. raw_team r \<in> {''RED'', ''BLUE''}) rs)"

lemma complain_fields [simp]:
  "ck_seen (complain b e st) = ck_seen st" "ck_red (complain b e st) = ck_red st" "ck_blue (complain b e st) = ck_blue st"
  "ck_priorities (complain b e st) = ck_priorities st" "ck_errs (complain b e st) = [] \<longleftrightarrow> ck_errs st = [] \<and> \<not> b"
  by (simp_all add: complain_def)

lemma check_role_fields:
  "ck_seen (check_role (i, r) st) = insert (raw_id r) (ck_seen st)"
  "ck_red (check_role (i, r) st) \<longleftrightarrow> ck_red st \<or> raw_team r = ''RED''"
  "ck_blue (check_role (i, r) st) \<longleftrightarrow> ck_blue st \<or> raw_team r = ''BLUE''"
  "ck_priorities (check_role (i, r) st) = set (team_priorities [r]) \<union> ck_priorities st"
  "ck_errs (check_role (i, r) st) = [] \<longleftrightarrow> ck_errs st = [] \<and> role_ok r \<and> raw_id r \<notin> ck_seen st \<and>
     set (team_priorities [r]) \<inter> ck_priorities st = {}"
  by (auto simp: check_role_def Let_def role_ok_def team_priorities_def)

lemma checks_fields:
  "ck_errs (fold check_role (enumerate n rs) st) = [] \<longleftrightarrow>
     ck_errs st = [] \<and> list_all role_ok rs \<and> distinct (map raw_id rs) \<and> set (map raw_id rs) \<inter> ck_seen st = {} \<and>
     distinct (team_priorities rs) \<and> set (team_priorities rs) \<inter> ck_priorities st = {}"
  "ck_red (fold check_role (enumerate n rs) st) \<longleftrightarrow> ck_red st \<or> ''RED'' \<in> raw_team ` set rs"
  "ck_blue (fold check_role (enumerate n rs) st) \<longleftrightarrow> ck_blue st \<or> ''BLUE'' \<in> raw_team ` set rs"
proof (induction rs arbitrary: n st)
  case (Cons r rs)
  have p: "team_priorities (r # rs) = team_priorities [r] @ team_priorities rs" by (simp add: team_priorities_def)
  have d: "distinct (team_priorities [r])" by (simp add: team_priorities_def)
  {
    case 1
    show ?case using Cons.IH(1) d unfolding p by (auto simp: check_role_fields)
  next
    case 2
    show ?case using Cons.IH(2) by (auto simp: check_role_fields)
  next
    case 3
    show ?case using Cons.IH(3) by (auto simp: check_role_fields)
  }
qed (simp_all add: team_priorities_def)

text \<open>A configuration that is in order, stated without the loop and its sets.\<close>

definition config_ok :: "Raw_Config \<Rightarrow> bool" where
  "config_ok c \<longleftrightarrow>
     rc_id c \<noteq> '''' \<and> rc_name c \<noteq> '''' \<and> rc_version c \<noteq> '''' \<and>
     list_all role_ok (rc_roles c) \<and> distinct (map raw_id (rc_roles c)) \<and>
     distinct (map raw_priority (filter (\<lambda>r. raw_team r = ''RED'') (rc_roles c))) \<and>
     distinct (map raw_priority (filter (\<lambda>r. raw_team r = ''BLUE'') (rc_roles c))) \<and>
     list_ex (leads_team ''RED'') (rc_roles c) \<and> list_ex (leads_team ''BLUE'') (rc_roles c)"

lemma team_priorities_distinct:
  "distinct (team_priorities rs) \<longleftrightarrow>
     distinct (map raw_priority (filter (\<lambda>r. raw_team r = ''RED'') rs)) \<and>
     distinct (map raw_priority (filter (\<lambda>r. raw_team r = ''BLUE'') rs))"
  by (induction rs) (auto simp: team_priorities_def image_iff, metis+)

lemma errors_config_ok: "config_errors c = [] \<longleftrightarrow> config_ok c"
proof -
  have "list_ex (leads_team t) rs \<Longrightarrow> t \<in> raw_team ` set rs" for t rs
    by (auto simp: list_ex_iff leads_team_def)
  moreover have "list_ex (leads_team t) rs \<Longrightarrow> rs \<noteq> []" for t rs by auto
  ultimately show ?thesis
    by (auto simp: config_errors_def Let_def checks_fields config_ok_def team_priorities_distinct)
qed

lemma role_def_ok: "role_ok r \<Longrightarrow> \<exists>d. role_def r = Some d \<and> grd_id d = raw_id r \<and> grd_count d = raw_count r \<and>
    go_team (grd_team d) = raw_team r \<and> grd_priority d = raw_priority r \<and> grd_minPlayers d = raw_minPlayers r \<and>
    (grd_type d = TypeLeader) = (raw_type r = ''leader'')"
  by (auto simp: role_ok_def role_def_def valid_types_def team_lits_def type_lits_def go_team_def)

lemma role_defs_ok:
  assumes "list_all role_ok rs"
  shows "list_all2 (\<lambda>r d. grd_id d = raw_id r \<and> grd_count d = raw_count r \<and> go_team (grd_team d) = raw_team r \<and>
      grd_priority d = raw_priority r \<and> grd_minPlayers d = raw_minPlayers r \<and> (grd_type d = TypeLeader) = (raw_type r = ''leader''))
    rs (List.map_filter role_def rs)"
  using assms
proof (induction rs)
  case (Cons r rs)
  then obtain d where "role_def r = Some d" "grd_id d = raw_id r \<and> grd_count d = raw_count r \<and> go_team (grd_team d) = raw_team r \<and>
      grd_priority d = raw_priority r \<and> grd_minPlayers d = raw_minPlayers r \<and> (grd_type d = TypeLeader) = (raw_type r = ''leader'')"
    using role_def_ok [of r] by auto
  then show ?case using Cons by (simp add: List.map_filter_simps)
qed (simp add: List.map_filter_simps)

lemma go_team_eq: "go_team t = go_team u \<longleftrightarrow> t = u"
  by (cases t; cases u) (simp_all add: go_team_def)

text \<open>What the deal may rely on, of the roles that it is given.\<close>

definition defs_ok :: "Go_RoleDef list \<Rightarrow> bool" where
  "defs_ok defs \<longleftrightarrow>
     distinct (map grd_id defs) \<and> list_all (\<lambda>d. 6 \<le> grd_minPlayers d \<and> \<not> negative_count (grd_count d)) defs \<and>
     (\<forall>t \<in> {RED, BLUE}. distinct (map grd_priority (filter (\<lambda>d. grd_team d = t) defs)) \<and>
        list_ex (\<lambda>d. grd_team d = t \<and> grd_type d = TypeLeader) defs)"

lemma list_all2_filter:
  "list_all2 P xs ys \<Longrightarrow> (\<And>x y. P x y \<Longrightarrow> A x = B y \<and> f x = g y) \<Longrightarrow> map f (filter A xs) = map g (filter B ys)"
  by (induction rule: list_all2_induct) auto

lemma defs_of_config:
  assumes "config_ok c"
  shows "defs_ok (role_defs c)" "map grd_id (role_defs c) = map raw_id (rc_roles c)"
proof -
  let ?P = "\<lambda>r d. grd_id d = raw_id r \<and> grd_count d = raw_count r \<and> go_team (grd_team d) = raw_team r \<and>
      grd_priority d = raw_priority r \<and> grd_minPlayers d = raw_minPlayers r \<and> (grd_type d = TypeLeader) = (raw_type r = ''leader'')"
  have r: "list_all2 ?P (rc_roles c) (role_defs c)"
    using role_defs_ok [of "rc_roles c"] assms by (simp add: config_ok_def role_defs_def)
  show i: "map grd_id (role_defs c) = map raw_id (rc_roles c)"
    using r by (induction rule: list_all2_induct) simp_all
  have p: "map raw_priority (filter (\<lambda>r. raw_team r = go_team t) (rc_roles c)) = map grd_priority (filter (\<lambda>d. grd_team d = t) (role_defs c))" for t
    using r by (rule list_all2_filter) (metis go_team_eq)
  have l: "list_ex (leads_team (go_team t)) (rc_roles c) = list_ex (\<lambda>d. grd_team d = t \<and> grd_type d = TypeLeader) (role_defs c)" for t
    using r by (induction rule: list_all2_induct) (auto simp: leads_team_def go_team_eq dest: sym)
  have m: "list_all (\<lambda>d. 6 \<le> grd_minPlayers d \<and> \<not> negative_count (grd_count d)) (role_defs c)"
    using r assms unfolding config_ok_def by (auto simp: list_all2_conv_all_nth list_all_length role_ok_def)
  show "defs_ok (role_defs c)"
    using assms p [of RED] p [of BLUE] l [of RED] l [of BLUE] m
    by (simp add: defs_ok_def config_ok_def i go_team_def)
qed

lemma loaded_ok: "loadFile f = Inr c \<Longrightarrow> config_ok c"
proof (cases "Option.bind f read_raw_config")
  case (Some d)
  then show "loadFile f = Inr c \<Longrightarrow> config_ok c"
    using errors_config_ok [of d] by (cases "config_errors d = []") (simp_all add: loadFile_def validateRoleConfig_def)
qed (simp add: loadFile_def)

lemma load_files_ok:
  assumes "load_files fs m = Inr m'" "map_wf m" "\<And>i c. map_get m i = Some c \<Longrightarrow> rc_id c = i \<and> config_ok c"
  shows "map_wf m' \<and> (\<forall>i c. map_get m' i = Some c \<longrightarrow> rc_id c = i \<and> config_ok c)"
  using assms
proof (induction fs m rule: load_files.induct)
  case (2 path f fs m)
  obtain c where c: "loadFile f = Inr c" "load_files fs (map_set (rc_id c) c m) = Inr m'"
    using 2(2) by (cases "loadFile f") simp_all
  have o: "config_ok c" using loaded_ok [OF c(1)] .
  have "rc_id x = i \<and> config_ok x" if "map_get (map_set (rc_id c) c m) i = Some x" for i x
    using that o 2(4) [of i x] by (cases "i = rc_id c") (simp_all add: jsm.lookup_put [OF 2(3)])
  from 2(1) [OF c jsm.wf_put [OF 2(3)] this] show ?case by blast
qed auto

section \<open>Properties\<close>

text \<open>C20: The check of a configuration accepts exactly the configurations in order: they have an identifier, a
  name and a version; every role has a name, one of the three teams and of the five types, is meant
  for six players or more and has no negative number; no two roles share an identifier, no two of
  the red or of the blue team a priority; and both these teams have a leader.\<close>

theorem checked_configurations:
  "validateRoleConfig c = None \<longleftrightarrow> config_ok c"
  by (simp add: validateRoleConfig_def errors_config_ok)

text \<open>C21: What the loader hands to the game is in order, whatever files there are: if they load at all, every
  configuration is found under its own identifier, its roles have distinct identifiers, and red and
  blue have a leader and priorities of which no two are equal.\<close>

theorem loaded_configurations_are_sound:
  assumes "LoadAll dir files = Inr m" "config_loader m i = Some defs"
  shows "defs_ok defs \<and> (case GetConfig m i of Inl _ \<Rightarrow> False | Inr c \<Rightarrow> rc_id c = i \<and> map grd_id defs = map raw_id (rc_roles c))"
proof -
  have fs: "load_files (the files) [] = Inr m"
    using assms(1) by (cases files) (simp_all add: LoadAll_def split: if_splits)
  have ok: "map_wf m \<and> (\<forall>i c. map_get m i = Some c \<longrightarrow> rc_id c = i \<and> config_ok c)"
    by (rule load_files_ok [OF fs]) (simp_all add: map_get_def)
  obtain c where "map_get m i = Some c" "defs = role_defs c"
    using assms(2) by (cases "map_get m i") (simp_all add: config_loader_def GetConfig_def)
  moreover from this have "rc_id c = i" "config_ok c" using ok by blast+
  ultimately show ?thesis using defs_of_config [of c] by (simp add: GetConfig_def)
qed

text \<open>The shipped configuration, as it is read.\<close>

definition all_roles :: Raw_Config where
  "all_roles = the (read_raw_config all_roles_file)"

lemma all_roles_read: "read_raw_config all_roles_file = Some all_roles"
proof -
  have "read_raw_config all_roles_file \<noteq> None" by code_simp
  then show ?thesis by (simp add: all_roles_def)
qed

lemma all_roles_ok: "config_ok all_roles" "rc_id all_roles = ''all-roles''"
  by code_simp+

lemma all_roles_counts:
  "map (\<lambda>d. (grd_count d, grd_minPlayers d)) (role_defs all_roles) =
     (let spies = Ranges [(''6-9'', 1), (''10-14'', 2), (''15+'', 3)] in
      [(Fixed 1, 6), (Fixed 1, 6), (spies, 6), (spies, 6), (Fixed 99, 6), (Fixed 1, 10), (Fixed 99, 6), (Fixed 1, 10),
       (Fixed 1, 10), (Fixed 1, 10), (Fixed 1, 10), (Fixed 1, 10), (Fixed 1, 10), (Fixed 1, 12)])"
  by code_simp

lemma shipped_loaded: "LoadAll dir (Some shipped_files) = Inr [(''all-roles'', all_roles)]"
  using all_roles_ok
  by (simp add: LoadAll_def shipped_files_def loadFile_def all_roles_read validateRoleConfig_def errors_config_ok)

lemma counts_total:
  "map (\<lambda>d. (grd_count d, grd_minPlayers d)) defs = cs \<Longrightarrow>
    totalSelected n [] defs = sum_list (map (\<lambda>(c, m). GetCount n c) (filter (\<lambda>(c, m). m \<le> n) cs))"
proof -
  have "(\<Sum>d\<leftarrow>filter (\<lambda>d. grd_minPlayers d \<le> n) defs. GetCount n (grd_count d)) =
      sum_list (map (\<lambda>(c, m). GetCount n c) (filter (\<lambda>(c, m). m \<le> n) (map (\<lambda>d. (grd_count d, grd_minPlayers d)) defs)))"
    by (induction defs) simp_all
  then show "map (\<lambda>d. (grd_count d, grd_minPlayers d)) defs = cs \<Longrightarrow>
    totalSelected n [] defs = sum_list (map (\<lambda>(c, m). GetCount n c) (filter (\<lambda>(c, m). m \<le> n) cs))"
    by (simp add: totalSelected_def)
qed

lemma all_roles_total:
  assumes "6 \<le> n"
  shows "200 \<le> totalSelected n [] (role_defs all_roles)"
proof -
  have spy: "0 \<le> GetCount n (Ranges [(''6-9'', 1), (''10-14'', 2), (''15+'', 3)])"
    by (simp add: GetCount_def)
  have one: "GetCount n (Fixed k) = k" for k by (simp add: GetCount_def)
  show ?thesis
    unfolding counts_total [OF all_roles_counts] Let_def using assms spy by (simp add: one)
qed

text \<open>C32: With the configuration that is shipped, the server opens a room only if the request names it; the
  one that stands in for a missing name does not exist, so that every request without a
  configuration is refused. Without a choice of roles the configuration has too many for every game,
  and its players are dealt the built-in roles for their number. Ten of its fourteen roles are of
  types that the client's declarations do not have.\<close>

theorem shipped_configuration:
  assumes "6 \<le> length ps" "length ps \<le> 30"
  shows "case LoadAll dir (Some shipped_files) of
      Inl _ \<Rightarrow> False
    | Inr m \<Rightarrow>
        (accepted (config_loader m) w (Create rc n public config selected) sv \<longleftrightarrow>
           6 \<le> n \<and> n \<le> 30 \<and> config = ''all-roles'' \<and> sv_rooms sv rc = None) \<and>
        AssignRolesWithConfig dr (config_loader m ''all-roles'') [] ps = Inl ''too many roles selected'' \<and>
        dealt (deal dr (config_loader m ''all-roles'') [] ps) = image_mset (Some \<circ> gro_id) (hard_census (length ps)) \<and>
        (case GetConfig m ''all-roles'' of
           Inl _ \<Rightarrow> False
         | Inr c \<Rightarrow>
             length (rc_roles c) = 14 \<and>
             length (filter (\<lambda>r. raw_type r \<notin> {''leader'', ''spy'', ''support'', ''standard''}) (rc_roles c)) = 10)"
proof -
  let ?m = "[(''all-roles'', all_roles)]"
  have l: "config_loader ?m i = (if i = ''all-roles'' then Some (role_defs all_roles) else None)" for i
    by (simp add: config_loader_def GetConfig_def map_get_def)
  have "handler_checks (config_loader ?m) (Create rc n public config selected) \<longleftrightarrow> 6 \<le> n \<and> n \<le> 30 \<and> config = ''all-roles''"
    unfolding handler_checks_def request.case l by auto
  then have c: "accepted (config_loader ?m) w (Create rc n public config selected) sv \<longleftrightarrow>
      6 \<le> n \<and> n \<le> 30 \<and> config = ''all-roles'' \<and> sv_rooms sv rc = None"
    by (auto simp: accepted_def CreateRoom_def)
  have many: "AssignRolesWithConfig dr (Some (role_defs all_roles)) [] qs = Inl ''too many roles selected''"
    if "length qs = length ps" for qs
    using all_roles_total [of "int (length ps)"] assms that by (simp add: AssignRolesWithConfig_def Let_def)
  have "dealt (deal dr (Some (role_defs all_roles)) [] ps) = image_mset (Some \<circ> gro_id) (hard_census (length ps))"
    unfolding dealt_deal
    by (simp add: many dealt_roles hard_census_dealt [OF assms(1)] image_mset.compositionality comp_def del: mset_map)
  moreover have "length (rc_roles all_roles) = 14"
      "length (filter (\<lambda>r. raw_type r \<notin> {''leader'', ''spy'', ''support'', ''standard''}) (rc_roles all_roles)) = 10"
    by code_simp+
  ultimately show ?thesis using c many [OF refl] by (simp add: shipped_loaded l GetConfig_def map_get_def)
qed

theorem shipped_configuration_witness:
  "case LoadAll ''roles'' (Some shipped_files) of
      Inl _ \<Rightarrow> False
    | Inr m \<Rightarrow>
        (accepted (config_loader m) (plain_world '''') (Create ''ABCDEF'' 6 True '''' []) empty_server \<longleftrightarrow>
           (6::int) \<le> 6 \<and> (6::int) \<le> 30 \<and> '''' = ''all-roles'' \<and> sv_rooms empty_server ''ABCDEF'' = None) \<and>
        AssignRolesWithConfig (wd_draws (plain_world '''')) (config_loader m ''all-roles'') [] six_players = Inl ''too many roles selected'' \<and>
        dealt (deal (wd_draws (plain_world '''')) (config_loader m ''all-roles'') [] six_players) =
          image_mset (Some \<circ> gro_id) (hard_census (length six_players)) \<and>
        (case GetConfig m ''all-roles'' of
           Inl _ \<Rightarrow> False
         | Inr c \<Rightarrow>
             length (rc_roles c) = 14 \<and>
             length (filter (\<lambda>r. raw_type r \<notin> {''leader'', ''spy'', ''support'', ''standard''}) (rc_roles c)) = 10)"
  by (rule shipped_configuration) (simp_all add: six_players_def)

theorem loaded_configurations_are_sound_witness:
  "defs_ok (role_defs all_roles) \<and>
    (case GetConfig [(''all-roles'', all_roles)] ''all-roles'' of
       Inl _ \<Rightarrow> False | Inr c \<Rightarrow> rc_id c = ''all-roles'' \<and> map grd_id (role_defs all_roles) = map raw_id (rc_roles c))"
  by (rule loaded_configurations_are_sound [OF shipped_loaded [of "''roles''"]])
    (simp add: config_loader_def GetConfig_def map_get_def)

declare present.simps [simp del]

definition fits_int :: "int \<Rightarrow> bool" where
  "fits_int n \<longleftrightarrow> - (2 ^ 63) \<le> n \<and> n < 2 ^ 63"

definition count_fits :: "Go_Count \<Rightarrow> bool" where
  "count_fits c =
     (case c of
        Fixed n \<Rightarrow> fits_int n
      | Ranges rs \<Rightarrow> distinct (map fst rs) \<and> list_all (\<lambda>(k, n). fits_int n) rs
      | NoCount \<Rightarrow> False)"

definition role_fits :: "Raw_Role \<Rightarrow> bool" where
  "role_fits r \<longleftrightarrow> count_fits (raw_count r) \<and> fits_int (raw_minPlayers r) \<and> fits_int (raw_priority r)"

lemma count_read: "count_fits c \<Longrightarrow> read_count (json_count c) = Some c"
proof (cases c)
  case (Ranges rs)
  assume "count_fits c"
  then have "list_all (\<lambda>(k, n). fits_int n) rs" by (simp add: count_fits_def Ranges)
  then have "those (map (\<lambda>(k, v). map_option (Pair k) (if v = JNull then Some 0 else go_int v)) (map (\<lambda>(k, n). (k, JNum n)) rs)) = Some rs"
    by (induction rs) (auto simp: go_int_def fits_int_def)
  then show ?thesis by (simp add: Ranges read_count_def json_count_def go_int_def)
qed (simp_all add: count_fits_def read_count_def json_count_def go_int_def fits_int_def)

lemma go_value_option:
  "(case omit_empty s of None \<Rightarrow> Some '''' | Some v \<Rightarrow> if v = JNull then Some '''' else read_str v) = Some s"
  by (simp add: omit_empty_def read_str_def)

lemma object_or_null_object [simp]: "object_or_null (go_object fs)" "object_or_null (JObj gs)"
  by (simp_all add: object_or_null_def go_object_def)

lemma raw_role_read: "role_fits r \<Longrightarrow> read_raw_role (json_raw_role r) = Some r"
  using count_read [of "raw_count r"]
  by (simp add: read_raw_role_def json_raw_role_def go_field_def count_field_def arrives_simps go_value_option
      go_int_def role_fits_def fits_int_def)

lemma raw_config_read:
  assumes "list_all role_fits (rc_roles c)"
  shows "read_raw_config (json_config c) = Some c"
proof -
  have "those (map read_raw_role (map json_raw_role rs)) = Some rs" if "list_all role_fits rs" for rs
    using that by (induction rs) (simp_all add: raw_role_read)
  then have "go_field (read_list read_raw_role) [] ''roles'' (json_config c) = Some (rc_roles c)"
    using assms by (simp add: go_field_def json_config_def js_prop_JObj go_slice_def read_list_def)
  then show ?thesis
    by (simp add: read_raw_config_def) (simp add: json_config_def go_field_def js_prop_JObj read_str_def)
qed

lemma unique_config:
  assumes "list_all role_fits (rc_roles c)"
  shows "unique_keys (json_config c)"
proof -
  have n: "unique_keys (json_count d)" if "count_fits d" for d
    using that by (cases d) (simp_all add: json_count_def count_fits_def list_all_iff comp_def case_prod_beta)
  have "unique_keys (json_raw_role r)" if "role_fits r" for r
    using that n unfolding json_raw_role_def by (intro unique_go_object) (simp_all add: role_fits_def)
  then show ?thesis using assms by (simp add: json_config_def list_all_iff)
qed

lemma answer_read: "unique_keys j \<Longrightarrow> json_answer st msg j = Response st msg (Some j)"
  by (simp add: json_answer_def text_read)

text \<open>C33: What the server hands out of a configuration is what it has loaded: whoever reads the answer as the
  loader reads a file gets the configuration again, with all roles and the two forms of their
  numbers; and a configuration that is not there is answered as not found.\<close>

theorem served_configurations_are_the_loaded_ones:
  assumes "\<And>c. map_get m i = Some c \<Longrightarrow> list_all role_fits (rc_roles c)"
  shows "case GetRoleConfig i m of
      Response st _ (Some j) \<Rightarrow>
        (case map_get m i of
           Some c \<Rightarrow> st = 200 \<and> read_raw_config j = Some c
         | None \<Rightarrow> st = 404 \<and> json_field ''code'' j = Some ''ROLE_CONFIG_NOT_FOUND'')
    | _ \<Rightarrow> False"
proof (cases "map_get m i")
  case (Some c)
  then show ?thesis using assms [OF Some]
    by (simp add: GetRoleConfig_def GetConfig_def answer_read unique_config raw_config_read)
qed (simp add: GetRoleConfig_def GetConfig_def answer_read json_field_def)

lemma all_roles_fit: "list_all role_fits (rc_roles all_roles)"
  by code_simp

theorem served_configurations_are_the_loaded_ones_witness:
  "case GetRoleConfig ''all-roles'' [(''all-roles'', all_roles)] of
      Response st _ (Some j) \<Rightarrow>
        (case map_get [(''all-roles'', all_roles)] ''all-roles'' of
           Some c \<Rightarrow> st = 200 \<and> read_raw_config j = Some c
         | None \<Rightarrow> st = 404 \<and> json_field ''code'' j = Some ''ROLE_CONFIG_NOT_FOUND'')
    | _ \<Rightarrow> False"
  by (rule served_configurations_are_the_loaded_ones) (simp add: map_get_def all_roles_fit)

end
