(* ===== verification/Server_Requests.thy ===== *)
theory Server_Requests
  imports Room_Listing Server_Configs Role_Config
begin

text \<open>
  The way of a request of the client (\<open>services/api.ts\<close>) through the routes of the server
  (\<open>cmd/server/main.go\<close>) and its handlers (\<open>handlers/*.go\<close>) to the services, and of the answer back to
  the client. The body of a request is taken as its JSON value. The texts in which the library for
  bindings reports an error come from outside.
\<close>

section \<open>Routes\<close>

datatype endpoint =
    R_ListConfigs | R_GetConfig | R_ListRooms | R_CreateRoom | R_GetRoom | R_Visibility | R_Join | R_Nickname | R_Leave
  | R_StartGame | R_ResetGame | R_StartRound | R_CurrentRound | R_Transfer | R_StartVote | R_CurrentVote | R_CastVote
  | R_SelectHostages | R_Ready

text \<open>The table of the group \<open>/api/v1\<close>. The limits of rates stand before it (\<open>Server_Gate\<close>).\<close>

definition routes :: "(string \<times> string \<times> endpoint) list" where
  "routes =
    [(''GET'', ''/role-configs'', R_ListConfigs), (''GET'', ''/role-configs/:id'', R_GetConfig),
     (''GET'', ''/rooms'', R_ListRooms), (''POST'', ''/rooms'', R_CreateRoom), (''GET'', ''/rooms/:roomCode'', R_GetRoom),
     (''PATCH'', ''/rooms/:roomCode/visibility'', R_Visibility), (''POST'', ''/rooms/:roomCode/players'', R_Join),
     (''PATCH'', ''/rooms/:roomCode/players/:playerId/nickname'', R_Nickname),
     (''DELETE'', ''/rooms/:roomCode/players/:playerId'', R_Leave), (''POST'', ''/rooms/:roomCode/game/start'', R_StartGame),
     (''POST'', ''/rooms/:roomCode/game/reset'', R_ResetGame), (''POST'', ''/rooms/:roomCode/rounds/start'', R_StartRound),
     (''GET'', ''/rooms/:roomCode/rounds/current'', R_CurrentRound),
     (''POST'', ''/rooms/:roomCode/leaders/transfer'', R_Transfer), (''POST'', ''/rooms/:roomCode/votes/start'', R_StartVote),
     (''GET'', ''/rooms/:roomCode/votes/current'', R_CurrentVote),
     (''POST'', ''/rooms/:roomCode/votes/:voteId/cast'', R_CastVote),
     (''POST'', ''/rooms/:roomCode/hostages/select'', R_SelectHostages), (''POST'', ''/rooms/:roomCode/rounds/ready'', R_Ready)]"

text \<open>A segment that begins with a colon is a parameter: any text that is not empty.\<close>

fun match_path :: "string list \<Rightarrow> string list \<Rightarrow> string list option" where
  "match_path [] [] = Some []"
| "match_path (p # ps) (s # ss) =
     (if take 1 p = '':'' then (if s = [] then None else map_option ((#) s) (match_path ps ss))
      else if p = s then match_path ps ss else None)"
| "match_path _ _ = None"

definition api_segments :: "string \<Rightarrow> string list" where
  "api_segments p = split_at_char CHR ''/'' (''/api/v1'' @ p)"

definition match_route :: "string \<Rightarrow> string list \<Rightarrow> string \<times> string \<times> endpoint \<Rightarrow> (endpoint \<times> string list) option" where
  "match_route method segments = (\<lambda>(m, p, r).
     if m = method then map_option (Pair r) (match_path (api_segments p) segments) else None)"

definition find_route :: "string \<Rightarrow> string \<Rightarrow> (endpoint \<times> string list) option" where
  "find_route method path =
     (case List.map_filter (match_route method (split_at_char CHR ''/'' path)) routes of [] \<Rightarrow> None | x # _ \<Rightarrow> Some x)"

text \<open>The path of an address, of which the base is the server's own, up to its query.\<close>

definition path_of :: "string \<Rightarrow> Http_Request \<Rightarrow> string" where
  "path_of base q = takeWhile (\<lambda>c. c \<noteq> CHR ''?'') (drop (length base) (req_url q))"

definition get_header :: "string \<Rightarrow> Http_Request \<Rightarrow> string" where
  "get_header k q = (case map_of (req_headers q) k of None \<Rightarrow> '''' | Some v \<Rightarrow> v)"

section \<open>Bindings\<close>

text \<open>
  What \<open>ShouldBindJSON\<close> takes of a body: there must be one, it must fit the types of the fields, and the
  required fields must not have the zero of their type.
\<close>

definition bind_json :: "(Json \<Rightarrow> 'a option) \<Rightarrow> Http_Request \<Rightarrow> 'a option" where
  "bind_json f q = (case req_body q of None \<Rightarrow> None | Some j \<Rightarrow> if object_or_null j then f j else None)"

definition required :: "('a \<Rightarrow> bool) \<Rightarrow> 'a option \<Rightarrow> 'a option" where
  "required P x = (case x of None \<Rightarrow> None | Some y \<Rightarrow> if P y then Some y else None)"

definition required_str :: "string \<Rightarrow> Json \<Rightarrow> string option" where
  "required_str k j = required (\<lambda>s. s \<noteq> []) (go_field read_str [] k j)"

definition go_bool :: "Json \<Rightarrow> bool option" where
  "go_bool j = (case j of JBool b \<Rightarrow> Some b | _ \<Rightarrow> None)"

definition go_counts :: "Json \<Rightarrow> (string \<times> int) list option" where
  "go_counts j =
     (case j of
        JObj fs \<Rightarrow> those (map (\<lambda>(k, v). map_option (Pair k) (if v = JNull then Some 0 else go_int v)) fs)
      | _ \<Rightarrow> None)"

definition read_create :: "Json \<Rightarrow> (int \<times> bool option \<times> string \<times> (string \<times> int) list) option" where
  "read_create j = do {
     n \<leftarrow> required (\<lambda>n. n \<noteq> 0 \<and> 6 \<le> n \<and> n \<le> 30) (go_field go_int 0 ''maxPlayers'' j);
     p \<leftarrow> go_field (\<lambda>v. map_option Some (go_bool v)) None ''isPublic'' j;
     c \<leftarrow> go_field read_str [] ''roleConfigId'' j;
     m \<leftarrow> go_field go_counts [] ''selectedRoles'' j;
     Some (n, p, c, m) }"

definition read_visibility :: "Json \<Rightarrow> bool option" where
  "read_visibility j = required (\<lambda>b. b) (go_field go_bool False ''isPublic'' j)"

definition read_round_number :: "Json \<Rightarrow> int option" where
  "read_round_number j = required (\<lambda>n. n \<noteq> 0 \<and> 1 \<le> n \<and> n \<le> 3) (go_field go_int 0 ''roundNumber'' j)"

definition read_vote_request :: "Json \<Rightarrow> (string \<times> string) option" where
  "read_vote_request j = do {
     c \<leftarrow> required_str ''roomColor'' j;
     l \<leftarrow> required_str ''targetLeaderId'' j;
     Some (c, l) }"

definition read_hostages :: "Json \<Rightarrow> string list option" where
  "read_hostages j = Option.bind
     (go_field (\<lambda>v. map_option Some (read_list (\<lambda>x. if x = JNull then Some [] else read_str x) v)) None ''hostageIds'' j) (\<lambda>x. x)"

section \<open>Handlers\<close>

text \<open>An answer, the new state and the messages that are sent.\<close>

type_synonym served = "Http_Outcome \<times> Server \<times> sent list"

definition refusal :: "nat \<Rightarrow> string \<Rightarrow> string \<Rightarrow> string \<Rightarrow> Http_Outcome" where
  "refusal st t c msg = json_answer st t (JObj [(''code'', JStr c), (''message'', JStr msg)])"

definition only_error :: "nat \<Rightarrow> string \<Rightarrow> string \<Rightarrow> Http_Outcome" where
  "only_error st t e = json_answer st t (JObj [(''error'', JStr e)])"

definition unchanged :: "Server \<Rightarrow> Http_Outcome \<Rightarrow> served" where
  "unchanged sv a = (a, sv, [])"

definition answered_with :: "(string \<Rightarrow> Http_Outcome) \<Rightarrow> ('a \<Rightarrow> Server \<Rightarrow> Http_Outcome) \<Rightarrow> 'a outcome \<Rightarrow> served" where
  "answered_with bad good x = (case x of (Inl e, sv, out) \<Rightarrow> (bad e, sv, out) | (Inr y, sv, out) \<Rightarrow> (good y sv, sv, out))"

definition room_answer :: "nat \<Rightarrow> string \<Rightarrow> string \<Rightarrow> string \<Rightarrow> Server \<Rightarrow> Http_Outcome" where
  "room_answer st t msg rc sv =
     (case sv_rooms sv rc of
        None \<Rightarrow> refusal 500 ''Internal Server Error'' ''GET_ROOM_FAILED'' msg
      | Some r \<Rightarrow> json_answer st t (json_room r))"

definition CreateRoom_handler ::
  "(string \<Rightarrow> Go_RoleDef list option) \<Rightarrow> string \<Rightarrow> string \<Rightarrow> World \<Rightarrow> Http_Request \<Rightarrow> Server \<Rightarrow> served" where
  "CreateRoom_handler loader why new_code w q sv =
     (case bind_json read_create q of
        None \<Rightarrow> unchanged sv (refusal 400 ''Bad Request'' ''INVALID_REQUEST'' why)
      | Some (n, p, c, m) \<Rightarrow>
          (let public = (case p of None \<Rightarrow> True | Some b \<Rightarrow> b); config = (if c = '''' then ''standard'' else c)
           in if loader config = None
              then unchanged sv (refusal 400 ''Bad Request'' ''INVALID_ROLE_CONFIG'' (''Role configuration '' @ quoted config @ '' not found''))
              else answered_with (refusal 400 ''Bad Request'' ''CREATE_ROOM_FAILED'') (room_answer 201 ''Created'' '''')
                (CreateRoom new_code w n public config m sv)))"

definition JoinRoom_handler :: "World \<Rightarrow> string \<Rightarrow> Server \<Rightarrow> served" where
  "JoinRoom_handler w rc sv = answered_with
     (\<lambda>e. if e = ''room not found'' then refusal 404 ''Not Found'' ''ROOM_NOT_FOUND'' ''Room not found''
          else if e = ''room is full'' then refusal 409 ''Conflict'' ''ROOM_FULL'' ''Room is full''
          else if e = ''game already started'' then refusal 409 ''Conflict'' ''GAME_ALREADY_STARTED'' ''Game already started''
          else refusal 500 ''Internal Server Error'' ''JOIN_ROOM_FAILED'' e)
     (\<lambda>p _. json_answer 201 ''Created'' (json_player p)) (JoinRoom w rc sv)"

definition UpdateNickname_handler :: "string \<Rightarrow> World \<Rightarrow> string \<Rightarrow> string \<Rightarrow> Http_Request \<Rightarrow> Server \<Rightarrow> served" where
  "UpdateNickname_handler why w rc playerID q sv =
     (case bind_json (required_str ''nickname'') q of
        None \<Rightarrow> unchanged sv (refusal 400 ''Bad Request'' ''INVALID_REQUEST'' why)
      | Some n \<Rightarrow> answered_with
          (\<lambda>e. if e = ''room not found'' then refusal 404 ''Not Found'' ''ROOM_NOT_FOUND'' ''Room not found''
               else if e = ''player not found'' then refusal 404 ''Not Found'' ''PLAYER_NOT_FOUND'' ''Player not found''
               else if e = ''invalid nickname''
                 then refusal 400 ''Bad Request'' ''INVALID_NICKNAME'' ''Nickname must be between 2 and 20 characters''
               else refusal 500 ''Internal Server Error'' ''UPDATE_NICKNAME_FAILED'' e)
          (\<lambda>p _. json_answer 200 ''OK'' (json_player p)) (UpdateNickname w rc playerID n sv))"

definition LeaveRoom_handler :: "World \<Rightarrow> string \<Rightarrow> string \<Rightarrow> Server \<Rightarrow> served" where
  "LeaveRoom_handler w rc playerID sv = answered_with
     (\<lambda>e. if e = ''room not found'' then refusal 404 ''Not Found'' ''ROOM_NOT_FOUND'' ''Room not found''
          else if e = ''player not found'' then refusal 404 ''Not Found'' ''PLAYER_NOT_FOUND'' ''Player not found''
          else refusal 500 ''Internal Server Error'' ''LEAVE_ROOM_FAILED'' e)
     (\<lambda>_ _. json_answer 200 ''OK'' (JObj [(''message'', JStr ''Player left successfully'')])) (LeaveRoom w rc playerID sv)"

definition UpdateRoomVisibility_handler :: "string \<Rightarrow> World \<Rightarrow> string \<Rightarrow> Http_Request \<Rightarrow> Server \<Rightarrow> served" where
  "UpdateRoomVisibility_handler why w rc q sv =
     (if length rc \<noteq> 6 then unchanged sv (refusal 400 ''Bad Request'' ''INVALID_ROOM_CODE'' ''Room code must be 6 characters'')
      else case bind_json read_visibility q of
        None \<Rightarrow> unchanged sv (refusal 400 ''Bad Request'' ''INVALID_REQUEST'' why)
      | Some b \<Rightarrow>
          (let given = query_value ''playerId'' (query_of (req_url q));
               playerID = (if given = '''' then get_header ''X-Player-ID'' q else given)
           in if playerID = '''' then unchanged sv (refusal 401 ''Unauthorized'' ''UNAUTHORIZED'' ''Player ID required'')
              else answered_with
                (\<lambda>e. if e = ''only the room owner can change visibility'' then refusal 403 ''Forbidden'' ''FORBIDDEN'' e
                     else refusal 404 ''Not Found'' ''ROOM_NOT_FOUND'' ''Room not found'')
                (\<lambda>_ sv'. json_answer 200 ''OK'' (JObj [(''code'', JStr rc), (''isPublic'', JBool b),
                   (''message'', JStr ''Room visibility updated successfully'')]))
                (UpdateRoomVisibility w rc playerID b sv)))"

definition StartGame_handler :: "(string \<Rightarrow> Go_RoleDef list option) \<Rightarrow> World \<Rightarrow> string \<Rightarrow> Server \<Rightarrow> served" where
  "StartGame_handler loader w rc sv =
     (if length rc \<noteq> 6 then unchanged sv (refusal 400 ''Bad Request'' ''INVALID_ROOM_CODE'' ''Room code must be 6 characters'')
      else answered_with
        (\<lambda>e. if e = ''room not found'' then refusal 404 ''Not Found'' ''ROOM_NOT_FOUND'' ''Room not found''
             else if e = ''game already started'' then refusal 409 ''Conflict'' ''GAME_ALREADY_STARTED'' ''Game has already started''
             else if e = ''insufficient players: minimum 6 required''
               then refusal 400 ''Bad Request'' ''INSUFFICIENT_PLAYERS'' ''At least 6 players required to start game''
             else refusal 500 ''Internal Server Error'' ''START_GAME_FAILED'' e)
        (\<lambda>_. room_answer 200 ''OK'' ''Game started but failed to retrieve room state'' rc) (GoStartGame loader w rc sv))"

definition ResetGame_handler :: "World \<Rightarrow> string \<Rightarrow> Server \<Rightarrow> served" where
  "ResetGame_handler w rc sv =
     (if length rc \<noteq> 6 then unchanged sv (refusal 400 ''Bad Request'' ''INVALID_ROOM_CODE'' ''Room code must be 6 characters'')
      else answered_with
        (\<lambda>e. if e = ''room not found'' then refusal 404 ''Not Found'' ''ROOM_NOT_FOUND'' ''Room not found''
             else if e = ''game not started'' then refusal 400 ''Bad Request'' ''GAME_NOT_STARTED'' ''Game has not been started yet''
             else refusal 500 ''Internal Server Error'' ''RESET_GAME_FAILED'' e)
        (\<lambda>_. room_answer 200 ''OK'' ''Game reset but failed to retrieve room state'' rc) (GoResetGame w rc sv))"

text \<open>The handlers of rounds and votes report an error as it is, without a code.\<close>

definition StartRound_handler :: "string \<Rightarrow> World \<Rightarrow> string \<Rightarrow> Http_Request \<Rightarrow> Server \<Rightarrow> served" where
  "StartRound_handler why w rc q sv =
     (case bind_json read_round_number q of
        None \<Rightarrow> unchanged sv (only_error 400 ''Bad Request'' (''invalid request: '' @ why))
      | Some n \<Rightarrow>
          (case StartRound w rc n sv of
             (Inl e, sv', out) \<Rightarrow> (only_error 400 ''Bad Request'' e, sv', out)
           | (Inr _, sv', out) \<Rightarrow>
               (case AssignLeaders w rc sv' of
                  (Inl e, sv'', out') \<Rightarrow> (only_error 500 ''Internal Server Error'' ''failed to assign leaders'', sv'', out @ out')
                | (Inr _, sv'', out') \<Rightarrow>
                    (case GetRoundState rc sv'' of
                       Inl e \<Rightarrow> (only_error 500 ''Internal Server Error'' ''failed to get round state'', sv'', out @ out')
                     | Inr rs \<Rightarrow> (json_answer 200 ''OK'' (JObj
                         [(''blueLeader'', JStr (blueLeaderId rs)), (''duration'', JNum (rs_duration rs)),
                          (''hostageCount'', JNum (hostageCount rs)), (''redLeader'', JStr (redLeaderId rs)),
                          (''roundNumber'', JNum (rs_roundNumber rs))]), sv'', out @ out')))))"

definition needs_player :: "Http_Request \<Rightarrow> Server \<Rightarrow> (string \<Rightarrow> served) \<Rightarrow> served" where
  "needs_player q sv f =
     (if get_header ''X-Player-ID'' q = '''' then unchanged sv (only_error 401 ''Unauthorized'' ''player ID required'')
      else f (get_header ''X-Player-ID'' q))"

definition done_message :: "string \<Rightarrow> Http_Outcome" where
  "done_message msg = json_answer 200 ''OK'' (JObj [(''message'', JStr msg)])"

definition TransferLeadership_handler :: "string \<Rightarrow> World \<Rightarrow> string \<Rightarrow> Http_Request \<Rightarrow> Server \<Rightarrow> served" where
  "TransferLeadership_handler why w rc q sv = needs_player q sv (\<lambda>i.
     case bind_json (required_str ''newLeaderId'') q of
       None \<Rightarrow> unchanged sv (only_error 400 ''Bad Request'' (''invalid request: '' @ why))
     | Some n \<Rightarrow> answered_with (only_error 400 ''Bad Request'') (\<lambda>_ _. done_message ''leadership transferred'')
         (GoTransferLeadership w rc i n sv))"

definition StartVote_handler :: "string \<Rightarrow> World \<Rightarrow> string \<Rightarrow> Http_Request \<Rightarrow> Server \<Rightarrow> served" where
  "StartVote_handler why w rc q sv = needs_player q sv (\<lambda>i.
     case bind_json read_vote_request q of
       None \<Rightarrow> unchanged sv (only_error 400 ''Bad Request'' (''invalid request: '' @ why))
     | Some (color, l) \<Rightarrow>
         (case (if color = ''RED_ROOM'' then Some RED_ROOM else if color = ''BLUE_ROOM'' then Some BLUE_ROOM else None) of
            None \<Rightarrow> unchanged sv (only_error 400 ''Bad Request'' ''invalid room color'')
          | Some c \<Rightarrow> answered_with (only_error 400 ''Bad Request'') (\<lambda>v _. json_answer 200 ''OK'' (JObj [(''voteId'', JStr v)]))
              (GoStartVote w rc i l c sv)))"

definition CastVote_handler :: "string \<Rightarrow> int \<Rightarrow> string \<Rightarrow> string \<Rightarrow> Http_Request \<Rightarrow> Server \<Rightarrow> served" where
  "CastVote_handler why left rc vid q sv = needs_player q sv (\<lambda>i.
     case bind_json (required_str ''vote'') q of
       None \<Rightarrow> unchanged sv (only_error 400 ''Bad Request'' (''invalid request: '' @ why))
     | Some x \<Rightarrow> answered_with (only_error 400 ''Bad Request'') (\<lambda>_ _. done_message ''vote cast'') (GoCastVote left rc vid i x sv))"

definition SelectHostages_handler :: "string \<Rightarrow> string \<Rightarrow> Http_Request \<Rightarrow> Server \<Rightarrow> served" where
  "SelectHostages_handler why rc q sv = needs_player q sv (\<lambda>i.
     case bind_json read_hostages q of
       None \<Rightarrow> unchanged sv (only_error 400 ''Bad Request'' (''invalid request: '' @ why))
     | Some ids \<Rightarrow> answered_with (only_error 400 ''Bad Request'') (\<lambda>_ _. done_message ''hostages selected'') (GoSelectHostages rc i ids sv))"

definition LeaderReady_handler :: "string \<Rightarrow> Http_Request \<Rightarrow> Server \<Rightarrow> served" where
  "LeaderReady_handler rc q sv = needs_player q sv (\<lambda>i.
     answered_with (only_error 400 ''Bad Request'') (\<lambda>_ _. done_message ''leader marked as ready'') (GoLeaderReady rc i sv))"

section \<open>The server as the client sees it\<close>

text \<open>
  What comes from outside: the text of an error of a binding, a new code, the clock and random numbers,
  the time left for a vote, the orders of maps, and the configurations that are loaded.
\<close>

record Outside =
  os_why :: string
  os_code :: string
  os_world :: World
  os_left :: int
  os_rooms :: "string list"
  os_instant :: "string \<Rightarrow> int"
  os_configs :: "(string, Raw_Config) js_map"
  os_list :: "string list"

abbreviation os_loader :: "Outside \<Rightarrow> string \<Rightarrow> Go_RoleDef list option" where
  "os_loader x \<equiv> config_loader (os_configs x)"

text \<open>A panic of a handler is caught, and answered without a body.\<close>

definition serve_route :: "Outside \<Rightarrow> endpoint \<Rightarrow> string list \<Rightarrow> Http_Request \<Rightarrow> Server \<Rightarrow> served" where
  "serve_route x r ps q sv =
     (let rc = ps ! 0; i = ps ! 1; w = os_world x; why = os_why x in
      case r of
        R_ListConfigs \<Rightarrow> unchanged sv (ListRoleConfigs (os_list x) (os_configs x))
      | R_GetConfig \<Rightarrow> unchanged sv (GetRoleConfig rc (os_configs x))
      | R_ListRooms \<Rightarrow> unchanged sv
          (case ListRooms (os_rooms x) (os_instant x) (query_of (req_url q)) sv of
             None \<Rightarrow> Response 500 ''Internal Server Error'' None | Some a \<Rightarrow> a)
      | R_CreateRoom \<Rightarrow> CreateRoom_handler (os_loader x) why (os_code x) w q sv
      | R_GetRoom \<Rightarrow> unchanged sv (GoGetRoom rc sv)
      | R_Visibility \<Rightarrow> UpdateRoomVisibility_handler why w rc q sv
      | R_Join \<Rightarrow> JoinRoom_handler w rc sv
      | R_Nickname \<Rightarrow> UpdateNickname_handler why w rc i q sv
      | R_Leave \<Rightarrow> LeaveRoom_handler w rc i sv
      | R_StartGame \<Rightarrow> StartGame_handler (os_loader x) w rc sv
      | R_ResetGame \<Rightarrow> ResetGame_handler w rc sv
      | R_StartRound \<Rightarrow> StartRound_handler why w rc q sv
      | R_CurrentRound \<Rightarrow> unchanged sv (GoGetCurrentRound rc sv)
      | R_Transfer \<Rightarrow> TransferLeadership_handler why w rc q sv
      | R_StartVote \<Rightarrow> StartVote_handler why w rc q sv
      | R_CurrentVote \<Rightarrow> unchanged sv (GoGetCurrentVote (os_left x) rc (query_value ''roomColor'' (query_of (req_url q))) sv)
      | R_CastVote \<Rightarrow> CastVote_handler why (os_left x) rc i q sv
      | R_SelectHostages \<Rightarrow> SelectHostages_handler why rc q sv
      | R_Ready \<Rightarrow> LeaderReady_handler rc q sv)"

definition answer_request :: "Outside \<Rightarrow> string \<Rightarrow> Http_Request \<Rightarrow> Server \<Rightarrow> served option" where
  "answer_request x base q sv =
     (case find_route (req_method q) (path_of base q) of
        None \<Rightarrow> None
      | Some (r, ps) \<Rightarrow> Some (serve_route x r ps q sv))"

section \<open>Which route an address takes\<close>

text \<open>Texts that mean themselves in an address, such as codes and identifiers.\<close>

definition tidy :: "string \<Rightarrow> bool" where
  "tidy s \<longleftrightarrow> set s \<subseteq> set ''ABCDEFGHIJKLMNOPQRSTUVWXYZabcdefghijklmnopqrstuvwxyz0123456789-''"

lemma tidy_chars: "tidy s \<Longrightarrow> CHR ''/'' \<notin> set s \<and> CHR ''?'' \<notin> set s"
proof -
  have "CHR ''/'' \<notin> set ''ABCDEFGHIJKLMNOPQRSTUVWXYZabcdefghijklmnopqrstuvwxyz0123456789-''"
    "CHR ''?'' \<notin> set ''ABCDEFGHIJKLMNOPQRSTUVWXYZabcdefghijklmnopqrstuvwxyz0123456789-''" by simp_all
  then show "tidy s \<Longrightarrow> CHR ''/'' \<notin> set s \<and> CHR ''?'' \<notin> set s" unfolding tidy_def by blast
qed

fun first_match :: "string \<Rightarrow> string list \<Rightarrow> (string \<times> string list \<times> endpoint) list \<Rightarrow> (endpoint \<times> string list) option" where
  "first_match method s [] = None"
| "first_match method s ((m, p, r) # rs) =
     (case (if m = method then match_path p s else None) of None \<Rightarrow> first_match method s rs | Some ps \<Rightarrow> Some (r, ps))"

lemma first_match:
  "(case List.map_filter (match_route method s) rs of [] \<Rightarrow> None | x # _ \<Rightarrow> Some x) =
    first_match method s (map (\<lambda>(m, p, r). (m, api_segments p, r)) rs)"
  by (induction rs) (auto simp: map_filter_simps match_route_def split: option.splits if_splits)

lemma patterns_split:
  "map (\<lambda>(m, p, r). (m, api_segments p, r)) routes =
      [(''GET'', [[], ''api'', ''v1'', ''role-configs''], R_ListConfigs), (''GET'', [[], ''api'', ''v1'', ''role-configs'', '':id''], R_GetConfig),
       (''GET'', [[], ''api'', ''v1'', ''rooms''], R_ListRooms), (''POST'', [[], ''api'', ''v1'', ''rooms''], R_CreateRoom),
       (''GET'', [[], ''api'', ''v1'', ''rooms'', '':roomCode''], R_GetRoom),
       (''PATCH'', [[], ''api'', ''v1'', ''rooms'', '':roomCode'', ''visibility''], R_Visibility),
       (''POST'', [[], ''api'', ''v1'', ''rooms'', '':roomCode'', ''players''], R_Join),
       (''PATCH'', [[], ''api'', ''v1'', ''rooms'', '':roomCode'', ''players'', '':playerId'', ''nickname''], R_Nickname),
       (''DELETE'', [[], ''api'', ''v1'', ''rooms'', '':roomCode'', ''players'', '':playerId''], R_Leave),
       (''POST'', [[], ''api'', ''v1'', ''rooms'', '':roomCode'', ''game'', ''start''], R_StartGame),
       (''POST'', [[], ''api'', ''v1'', ''rooms'', '':roomCode'', ''game'', ''reset''], R_ResetGame),
       (''POST'', [[], ''api'', ''v1'', ''rooms'', '':roomCode'', ''rounds'', ''start''], R_StartRound),
       (''GET'', [[], ''api'', ''v1'', ''rooms'', '':roomCode'', ''rounds'', ''current''], R_CurrentRound),
       (''POST'', [[], ''api'', ''v1'', ''rooms'', '':roomCode'', ''leaders'', ''transfer''], R_Transfer),
       (''POST'', [[], ''api'', ''v1'', ''rooms'', '':roomCode'', ''votes'', ''start''], R_StartVote),
       (''GET'', [[], ''api'', ''v1'', ''rooms'', '':roomCode'', ''votes'', ''current''], R_CurrentVote),
       (''POST'', [[], ''api'', ''v1'', ''rooms'', '':roomCode'', ''votes'', '':voteId'', ''cast''], R_CastVote),
       (''POST'', [[], ''api'', ''v1'', ''rooms'', '':roomCode'', ''hostages'', ''select''], R_SelectHostages),
       (''POST'', [[], ''api'', ''v1'', ''rooms'', '':roomCode'', ''rounds'', ''ready''], R_Ready)]"
  by code_simp

lemmas find_route_segments = find_route_def [unfolded first_match patterns_split]

lemma path_of_tidy: "CHR ''?'' \<notin> set p \<Longrightarrow> req_url q = base @ p \<Longrightarrow> path_of base q = p"
  by (auto simp: path_of_def takeWhile_eq_all_conv)

lemma segments_split:
  "list_all (\<lambda>s. CHR ''/'' \<notin> set s) ss \<Longrightarrow> split_at_char CHR ''/'' (concat (map ((#) CHR ''/'') ss)) = [] # (if ss = [] then [] else ss)"
proof (induction ss)
  case (Cons s ss)
  have s: "CHR ''/'' \<notin> set s" and ss: "list_all (\<lambda>s. CHR ''/'' \<notin> set s) ss" using Cons.prems by simp_all
  show ?case
  proof (cases ss)
    case Nil
    then show ?thesis using s by (simp add: split_single)
  next
    case (Cons t ts)
    have "split_at_char CHR ''/'' (s @ CHR ''/'' # t @ concat (map ((#) CHR ''/'') ts)) =
        s # split_at_char CHR ''/'' (t @ concat (map ((#) CHR ''/'') ts))"
      by (rule split_append [OF s])
    then show ?thesis using Cons.IH [OF ss] Cons by (auto split: list.splits)
  qed
qed simp

lemma routed:
  assumes "req_url q = base @ concat (map ((#) CHR ''/'') ss)" "ss \<noteq> []" "list_all (\<lambda>s. CHR ''/'' \<notin> set s \<and> CHR ''?'' \<notin> set s) ss"
  shows "find_route m (path_of base q) = find_route m (concat (map ((#) CHR ''/'') ss))"
    "split_at_char CHR ''/'' (concat (map ((#) CHR ''/'') ss)) = [] # ss"
proof -
  have "CHR ''?'' \<notin> set (concat (map ((#) CHR ''/'') ss))" using assms(3) by (auto simp: list_all_iff)
  then show "find_route m (path_of base q) = find_route m (concat (map ((#) CHR ''/'') ss))"
    using path_of_tidy assms(1) by metis
  show "split_at_char CHR ''/'' (concat (map ((#) CHR ''/'') ss)) = [] # ss"
    using segments_split [of ss] assms(2,3) by (simp add: list_all_iff)
qed

lemma routed_segments:
  assumes "req_url q = base @ concat (map ((#) CHR ''/'') ss)" "ss \<noteq> []" "list_all (\<lambda>s. CHR ''/'' \<notin> set s \<and> CHR ''?'' \<notin> set s) ss"
  shows "find_route m (path_of base q) = first_match m ([] # ss) (map (\<lambda>(m, p, r). (m, api_segments p, r)) routes)"
  unfolding routed(1) [OF assms] by (simp only: find_route_def routed(2) [OF assms] first_match)

lemma room_routed:
  assumes "req_url q = base @ ''/api/v1/rooms/'' @ rc @ concat (map ((#) CHR ''/'') ss)" "tidy rc" "rc \<noteq> []"
    "list_all (\<lambda>s. CHR ''/'' \<notin> set s \<and> CHR ''?'' \<notin> set s) ss"
    "first_match (req_method q) ([[], ''api'', ''v1'', ''rooms'', rc] @ ss) (map (\<lambda>(m, p, r). (m, api_segments p, r)) routes) = Some (r, ps)"
  shows "answer_request x base q sv = Some (serve_route x r ps q sv)"
proof -
  let ?ss = "[''api'', ''v1'', ''rooms'', rc] @ ss"
  have u: "req_url q = base @ concat (map ((#) CHR ''/'') ?ss)" using assms(1) by simp
  have l: "list_all (\<lambda>s. CHR ''/'' \<notin> set s \<and> CHR ''?'' \<notin> set s) ?ss" using assms(4) tidy_chars [OF assms(2)] by simp
  have "find_route (req_method q) (path_of base q) = Some (r, ps)"
    using routed_segments [OF u _ l] assms(5) by simp
  then show ?thesis by (simp add: answer_request_def)
qed

lemmas asked = joinRoom_def updateNickname_def leaveRoom_def startGame_def resetGame_def hostages_request_def ready_request_def
  transferLeadership_def startVote_def castVote_def api_post_def api_patch_def api_delete_def fetchJSON_def player_post_def

lemma join_routed: "tidy rc \<Longrightarrow> rc \<noteq> [] \<Longrightarrow> answer_request x base (joinRoom base rc) sv = Some (JoinRoom_handler (os_world x) rc sv)"
  by (subst room_routed [where rc = rc and ss = "[''players'']" and r = R_Join and ps = "[rc]"])
    (simp_all add: asked patterns_split serve_route_def)

lemma rename_routed:
  "tidy rc \<Longrightarrow> rc \<noteq> [] \<Longrightarrow> tidy i \<Longrightarrow> i \<noteq> [] \<Longrightarrow> answer_request x base (updateNickname base rc i n) sv =
    Some (UpdateNickname_handler (os_why x) (os_world x) rc i (updateNickname base rc i n) sv)"
  by (subst room_routed [where rc = rc and ss = "[''players'', i, ''nickname'']" and r = R_Nickname and ps = "[rc, i]"])
    (simp_all add: asked patterns_split serve_route_def tidy_chars)

lemma leave_routed:
  "tidy rc \<Longrightarrow> rc \<noteq> [] \<Longrightarrow> tidy i \<Longrightarrow> i \<noteq> [] \<Longrightarrow> answer_request x base (leaveRoom base rc i) sv = Some (LeaveRoom_handler (os_world x) rc i sv)"
  by (subst room_routed [where rc = rc and ss = "[''players'', i]" and r = R_Leave and ps = "[rc, i]"])
    (simp_all add: asked patterns_split serve_route_def tidy_chars)

lemma start_routed:
  "tidy rc \<Longrightarrow> rc \<noteq> [] \<Longrightarrow> answer_request x base (startGame base rc) sv = Some (StartGame_handler (os_loader x) (os_world x) rc sv)"
  by (subst room_routed [where rc = rc and ss = "[''game'', ''start'']" and r = R_StartGame and ps = "[rc]"])
    (simp_all add: asked patterns_split serve_route_def)

lemma reset_routed:
  "tidy rc \<Longrightarrow> rc \<noteq> [] \<Longrightarrow> answer_request x base (resetGame base rc) sv = Some (ResetGame_handler (os_world x) rc sv)"
  by (subst room_routed [where rc = rc and ss = "[''game'', ''reset'']" and r = R_ResetGame and ps = "[rc]"])
    (simp_all add: asked patterns_split serve_route_def)

lemma hostages_routed:
  "tidy rc \<Longrightarrow> rc \<noteq> [] \<Longrightarrow> answer_request x base (hostages_request base rc i ids) sv =
    Some (SelectHostages_handler (os_why x) rc (hostages_request base rc i ids) sv)"
  by (subst room_routed [where rc = rc and ss = "[''hostages'', ''select'']" and r = R_SelectHostages and ps = "[rc]"])
    (simp_all add: asked patterns_split serve_route_def)

lemma ready_routed:
  "tidy rc \<Longrightarrow> rc \<noteq> [] \<Longrightarrow> answer_request x base (ready_request base rc i) sv = Some (LeaderReady_handler rc (ready_request base rc i) sv)"
  by (subst room_routed [where rc = rc and ss = "[''rounds'', ''ready'']" and r = R_Ready and ps = "[rc]"])
    (simp_all add: asked patterns_split serve_route_def)

lemma transfer_routed:
  "tidy rc \<Longrightarrow> rc \<noteq> [] \<Longrightarrow> answer_request x base (transferLeadership base rc i n) sv =
    Some (TransferLeadership_handler (os_why x) (os_world x) rc (transferLeadership base rc i n) sv)"
  by (subst room_routed [where rc = rc and ss = "[''leaders'', ''transfer'']" and r = R_Transfer and ps = "[rc]"])
    (simp_all add: asked patterns_split serve_route_def)

lemma vote_routed:
  "tidy rc \<Longrightarrow> rc \<noteq> [] \<Longrightarrow> answer_request x base (startVote base rc i c l) sv =
    Some (StartVote_handler (os_why x) (os_world x) rc (startVote base rc i c l) sv)"
  by (subst room_routed [where rc = rc and ss = "[''votes'', ''start'']" and r = R_StartVote and ps = "[rc]"])
    (simp_all add: asked patterns_split serve_route_def)

lemma cast_routed:
  "tidy rc \<Longrightarrow> rc \<noteq> [] \<Longrightarrow> tidy v \<Longrightarrow> v \<noteq> [] \<Longrightarrow> answer_request x base (castVote base rc v i w) sv =
    Some (CastVote_handler (os_why x) (os_left x) rc v (castVote base rc v i w) sv)"
  by (subst room_routed [where rc = rc and ss = "[''votes'', v, ''cast'']" and r = R_CastVote and ps = "[rc, v]"])
    (simp_all add: asked patterns_split serve_route_def tidy_chars)

lemmas routings = join_routed rename_routed leave_routed start_routed reset_routed hostages_routed ready_routed transfer_routed
  vote_routed cast_routed

section \<open>Answers\<close>

lemma answer_result: "unique_keys j \<Longrightarrow> json_result (json_answer st t j) =
    (if response_ok st then Inr j else if j = JNull then Inl (OtherFailure ''Cannot read properties of null'')
     else Inl (ApiFailure (new_APIError (json_field ''code'' j) (json_field ''message'' j))))"
  by (simp add: json_answer_def json_result_def text_read)

lemma refusal_result: "\<not> response_ok st \<Longrightarrow> json_result (refusal st t c msg) = Inl (ApiFailure (new_APIError (Some c) (Some msg)))"
  by (simp add: refusal_def answer_result json_field_def map_get_def)

lemma only_error_result: "\<not> response_ok st \<Longrightarrow> json_result (only_error st t e) = Inl (ApiFailure (new_APIError None None))"
  by (simp add: only_error_def answer_result json_field_def map_get_def)

text \<open>An answer of a handler to a request, against what the service does and whether it succeeds.\<close>

definition agrees :: "served \<Rightarrow> Server \<times> sent list \<Rightarrow> bool \<Rightarrow> bool" where
  "agrees a s ok \<longleftrightarrow> snd a = s \<and> (case json_result (fst a) of Inl _ \<Rightarrow> \<not> ok | Inr _ \<Rightarrow> ok)"

lemma agrees_unchanged: "agrees (unchanged sv a) s ok \<longleftrightarrow> s = (sv, []) \<and> (case json_result a of Inl _ \<Rightarrow> \<not> ok | Inr _ \<Rightarrow> ok)"
  by (auto simp: agrees_def unchanged_def)

text \<open>Refusals and successes.\<close>

definition refuses :: "Http_Outcome \<Rightarrow> bool" where
  "refuses a \<longleftrightarrow> (\<exists>f. json_result a = Inl f)"

definition grants :: "Http_Outcome \<Rightarrow> bool" where
  "grants a \<longleftrightarrow> (\<exists>j. json_result a = Inr j)"

lemma refuses_refusal [simp]: "\<not> response_ok st \<Longrightarrow> refuses (refusal st t c msg)"
  by (simp add: refuses_def refusal_result)

lemma refuses_only_error [simp]: "\<not> response_ok st \<Longrightarrow> refuses (only_error st t e)"
  by (simp add: refuses_def only_error_result)

lemma refuses_if [simp]: "refuses (if b then x else y) \<longleftrightarrow> (if b then refuses x else refuses y)"
  by simp

lemma grants_answer [simp]: "response_ok st \<Longrightarrow> unique_keys j \<Longrightarrow> grants (json_answer st t j)"
  by (simp add: grants_def answer_result)

lemma status_ok [simp]: "response_ok 200" "response_ok 201" "\<not> response_ok 400" "\<not> response_ok 401" "\<not> response_ok 403"
  "\<not> response_ok 404" "\<not> response_ok 409" "\<not> response_ok 500"
  by (simp_all add: response_ok_def)

lemma agrees_refused: "refuses a \<Longrightarrow> agrees (unchanged sv a) (sv, []) False"
  by (auto simp: agrees_def unchanged_def refuses_def)

lemma agrees_answered:
  assumes "\<And>e. refuses (bad e)" "\<And>y. fst x = Inr y \<Longrightarrow> grants (good y (fst (snd x)))"
  shows "agrees (answered_with bad good x) (outcome_state x) (succeeds x)"
proof (cases "fst x")
  case (Inl e)
  then show ?thesis using assms(1) [of e]
    by (cases x) (auto simp: agrees_def answered_with_def outcome_state_def succeeds_def refuses_def)
next
  case (Inr y)
  then show ?thesis using assms(2) [OF Inr]
    by (cases x) (auto simp: agrees_def answered_with_def outcome_state_def succeeds_def grants_def)
qed

lemma join_agrees: "agrees (JoinRoom_handler w rc sv) (outcome_state (JoinRoom w rc sv)) (succeeds (JoinRoom w rc sv))"
  unfolding JoinRoom_handler_def by (rule agrees_answered) simp_all

lemma leave_agrees: "agrees (LeaveRoom_handler w rc i sv) (outcome_state (LeaveRoom w rc i sv)) (succeeds (LeaveRoom w rc i sv))"
  unfolding LeaveRoom_handler_def by (rule agrees_answered) simp_all

lemma required_text: "required_str k (JObj [(k, JStr n)]) = (if n = [] then None else Some n)"
  by (simp add: required_str_def required_def go_field_def js_prop_JObj read_str_def)

lemma rename_agrees:
  "agrees (UpdateNickname_handler why w rc i (updateNickname base rc' i' n) sv)
    (if n = [] then (sv, []) else outcome_state (UpdateNickname w rc i n sv)) (n \<noteq> [] \<and> succeeds (UpdateNickname w rc i n sv))"
proof (cases "n = []")
  case True
  then show ?thesis
    by (simp add: UpdateNickname_handler_def asked bind_json_def object_or_null_def required_text agrees_refused)
next
  case False
  have "agrees (answered_with bad (\<lambda>p _. json_answer 200 ''OK'' (json_player p)) (UpdateNickname w rc i n sv))
      (outcome_state (UpdateNickname w rc i n sv)) (succeeds (UpdateNickname w rc i n sv))" if "\<And>e. refuses (bad e)" for bad
    using that by (rule agrees_answered) simp
  then show ?thesis
    using False by (simp add: UpdateNickname_handler_def asked bind_json_def object_or_null_def required_text)
qed

text \<open>A room is kept under its code, and its chosen roles are a map.\<close>

definition room_kept :: "string \<Rightarrow> Server \<Rightarrow> bool" where
  "room_kept rc sv \<longleftrightarrow>
     (case sv_rooms sv rc of None \<Rightarrow> True | Some r \<Rightarrow> gr_code r = rc \<and> distinct (map fst (gr_selectedRoles r)))"

lemma room_kept_put: "gr_code r = rc \<Longrightarrow> distinct (map fst (gr_selectedRoles r)) \<Longrightarrow> room_kept rc (put_room r sv)"
  by (simp add: room_kept_def put_room_def)

lemma room_kept_frame [simp]: "gr_code (set_round rs r) = gr_code r" "gr_selectedRoles (set_round rs r) = gr_selectedRoles r"
  "sv_rooms (startTimer rc i sv) = sv_rooms sv"
  by (simp_all add: set_round_def startTimer_def)

definition found :: "string \<Rightarrow> Server \<Rightarrow> bool" where
  "found rc sv \<longleftrightarrow> sv_rooms sv rc \<noteq> None \<and> room_kept rc sv"

lemma found_room: "found rc sv \<longleftrightarrow> (\<exists>r. sv_rooms sv rc = Some r \<and> gr_code r = rc \<and> distinct (map fst (gr_selectedRoles r)))"
  by (auto simp: found_def room_kept_def)

lemma found_put [simp]: "found rc (put_room r sv) \<longleftrightarrow> (if gr_code r = rc then distinct (map fst (gr_selectedRoles r)) else found rc sv)"
  by (auto simp: found_room put_room_def)

lemma found_timer [simp]: "found rc (startTimer rc' i sv) = found rc sv"
  by (simp add: found_room)

lemma found_start_round: "found rc sv \<Longrightarrow> found rc (fst (snd (StartRound w rc n sv)))"
  by (auto simp: found_room [of rc sv] StartRound_def fail_def done_with_def Let_def split: option.split)

lemma found_assign: "found rc sv \<Longrightarrow> found rc (fst (snd (AssignLeaders w rc sv)))"
  by (auto simp: found_room [of rc sv] AssignLeaders_def fail_def done_with_def Let_def split: option.split)

lemma found_start:
  assumes "room_kept rc sv" "fst (GoStartGame loader w rc sv) = Inr y"
  shows "found rc (fst (snd (GoStartGame loader w rc sv)))"
proof -
  obtain r where r: "sv_rooms sv rc = Some r" using assms(2) by (cases "sv_rooms sv rc") (simp_all add: GoStartGame_def fail_def)
  let ?g = "\<lambda>ps. \<lparr>gs_id = wd_uuid w, gs_roomCode = rc, gs_startedAt = wd_now w, gs_currentRound = 0, gs_roundState = None\<rparr>"
  have "found rc (fst (snd (StartRound w rc 1 (put_room (r\<lparr>gr_players := ps, gr_status := st, gr_session := g, gr_updatedAt := u\<rparr>) sv))))" for ps st g u
    using assms(1) r by (intro found_start_round) (simp add: room_kept_def)
  then show ?thesis
    using assms(2) r found_assign
    by (auto simp: GoStartGame_def Let_def fail_def done_with_def split: if_splits prod.splits sum.splits)
      (metis fst_conv snd_conv)+
qed

lemma found_reset: "room_kept rc sv \<Longrightarrow> fst (GoResetGame w rc sv) = Inr y \<Longrightarrow> found rc (fst (snd (GoResetGame w rc sv)))"
  by (auto simp: GoResetGame_def Let_def fail_def done_with_def room_kept_def split: option.splits if_splits)

lemma grants_room: "found rc sv \<Longrightarrow> response_ok st \<Longrightarrow> grants (room_answer st t msg rc sv)"
  by (auto simp: room_answer_def found_room unique_room)

lemma start_agrees:
  assumes "room_kept rc sv"
  shows "agrees (StartGame_handler loader w rc sv) (if length rc = 6 then outcome_state (GoStartGame loader w rc sv) else (sv, []))
    (length rc = 6 \<and> succeeds (GoStartGame loader w rc sv))"
proof (cases "length rc = 6")
  case True
  have "agrees (answered_with bad (\<lambda>_. room_answer 200 t msg rc) (GoStartGame loader w rc sv))
      (outcome_state (GoStartGame loader w rc sv)) (succeeds (GoStartGame loader w rc sv))" if "\<And>e. refuses (bad e)" for bad t msg
    using that by (rule agrees_answered) (rule grants_room, rule found_start [OF assms], simp_all)
  then show ?thesis using True by (simp add: StartGame_handler_def)
next
  case False
  then show ?thesis by (simp add: StartGame_handler_def agrees_refused)
qed

lemma reset_agrees:
  assumes "room_kept rc sv"
  shows "agrees (ResetGame_handler w rc sv) (if length rc = 6 then outcome_state (GoResetGame w rc sv) else (sv, []))
    (length rc = 6 \<and> succeeds (GoResetGame w rc sv))"
proof (cases "length rc = 6")
  case True
  have "agrees (answered_with bad (\<lambda>_. room_answer 200 t msg rc) (GoResetGame w rc sv))
      (outcome_state (GoResetGame w rc sv)) (succeeds (GoResetGame w rc sv))" if "\<And>e. refuses (bad e)" for bad t msg
    using that by (rule agrees_answered) (rule grants_room, rule found_reset [OF assms], simp_all)
  then show ?thesis using True by (simp add: ResetGame_handler_def)
next
  case False
  then show ?thesis by (simp add: ResetGame_handler_def agrees_refused)
qed

lemma header_read: "get_header ''X-Player-ID'' (player_post base url i b) = i"
  by (simp add: get_header_def player_post_def)

lemma needs_player_agrees:
  assumes "get_header ''X-Player-ID'' q = i" "i \<noteq> [] \<Longrightarrow> agrees (f i) s ok"
  shows "agrees (needs_player q sv f) (if i = [] then (sv, []) else s) (i \<noteq> [] \<and> ok)"
  using assms by (auto simp: needs_player_def agrees_refused)

lemma transfer_agrees:
  "agrees (TransferLeadership_handler why w rc (transferLeadership base rc' i n) sv)
    (if i = [] \<or> n = [] then (sv, []) else outcome_state (GoTransferLeadership w rc i n sv))
    (i \<noteq> [] \<and> n \<noteq> [] \<and> succeeds (GoTransferLeadership w rc i n sv))"
proof -
  have g: "agrees (answered_with (only_error 400 t) (\<lambda>_ _. done_message msg) (GoTransferLeadership w rc i n sv))
      (outcome_state (GoTransferLeadership w rc i n sv)) (succeeds (GoTransferLeadership w rc i n sv))" for t msg
    by (rule agrees_answered) (simp_all add: done_message_def)
  have b: "bind_json (required_str ''newLeaderId'') (transferLeadership base rc' i n) = (if n = [] then None else Some n)" for i n
    by (simp add: transferLeadership_def player_post_def bind_json_def object_or_null_def required_text)
  have h: "get_header ''X-Player-ID'' (transferLeadership base rc' i n) = i" for i n by (simp add: transferLeadership_def header_read)
  show ?thesis
    using g by (cases "i = []"; cases "n = []")
      (simp_all add: TransferLeadership_handler_def needs_player_def h b agrees_refused)
qed

lemma color_of: "(if color_str c = ''RED_ROOM'' then Some RED_ROOM else if color_str c = ''BLUE_ROOM'' then Some BLUE_ROOM else None) = Some c"
  by (cases c) (simp_all add: color_str_def)

lemma vote_agrees:
  "agrees (StartVote_handler why w rc (startVote base rc' i (color_str c) l) sv)
    (if i = [] \<or> l = [] then (sv, []) else outcome_state (GoStartVote w rc i l c sv))
    (i \<noteq> [] \<and> l \<noteq> [] \<and> succeeds (GoStartVote w rc i l c sv))"
proof -
  have g: "agrees (answered_with (only_error 400 t) (\<lambda>v _. json_answer 200 t' (JObj [(''voteId'', JStr v)])) (GoStartVote w rc i l c sv))
      (outcome_state (GoStartVote w rc i l c sv)) (succeeds (GoStartVote w rc i l c sv))" for t t'
    by (rule agrees_answered) simp_all
  have "color_str c \<noteq> []" by (cases c) (simp_all add: color_str_def)
  then have b: "bind_json read_vote_request (startVote base rc' i (color_str c) l) = (if l = [] then None else Some (color_str c, l))" for i l
    by (simp add: startVote_def player_post_def bind_json_def object_or_null_def read_vote_request_def required_str_def required_def
        go_field_def js_prop_JObj read_str_def)
  have h: "get_header ''X-Player-ID'' (startVote base rc' i (color_str c) l) = i" for i l by (simp add: startVote_def header_read)
  show ?thesis
    using g by (cases "i = []"; cases "l = []")
      (simp_all add: StartVote_handler_def needs_player_def h b color_of agrees_refused)
qed

lemma cast_agrees:
  "agrees (CastVote_handler why left rc v (castVote base rc' v' i x) sv)
    (if i = [] \<or> x = [] then (sv, []) else outcome_state (GoCastVote left rc v i x sv))
    (i \<noteq> [] \<and> x \<noteq> [] \<and> succeeds (GoCastVote left rc v i x sv))"
proof -
  have g: "agrees (answered_with (only_error 400 t) (\<lambda>_ _. done_message msg) (GoCastVote left rc v i x sv))
      (outcome_state (GoCastVote left rc v i x sv)) (succeeds (GoCastVote left rc v i x sv))" for t msg
    by (rule agrees_answered) (simp_all add: done_message_def)
  have b: "bind_json (required_str ''vote'') (castVote base rc' v' i x) = (if x = [] then None else Some x)" for i x
    by (simp add: castVote_def player_post_def bind_json_def object_or_null_def required_text)
  have h: "get_header ''X-Player-ID'' (castVote base rc' v' i x) = i" for i x by (simp add: castVote_def header_read)
  show ?thesis
    using g by (cases "i = []"; cases "x = []") (simp_all add: CastVote_handler_def needs_player_def h b agrees_refused)
qed

lemma texts_read: "read_list (\<lambda>x. if x = JNull then Some [] else read_str x) (JArr (map JStr ids)) = Some ids"
  by (induction ids) (simp_all add: read_list_def read_str_def)

lemma hostages_agrees:
  "agrees (SelectHostages_handler why rc (hostages_request base rc' i ids) sv)
    (if i = [] then (sv, []) else outcome_state (GoSelectHostages rc i ids sv)) (i \<noteq> [] \<and> succeeds (GoSelectHostages rc i ids sv))"
proof -
  have g: "agrees (answered_with (only_error 400 t) (\<lambda>_ _. done_message msg) (GoSelectHostages rc i ids sv))
      (outcome_state (GoSelectHostages rc i ids sv)) (succeeds (GoSelectHostages rc i ids sv))" for t msg
    by (rule agrees_answered) (simp_all add: done_message_def)
  have b: "bind_json read_hostages (hostages_request base rc' i ids) = Some ids" for i ids
    by (simp add: hostages_request_def player_post_def bind_json_def object_or_null_def read_hostages_def go_field_def js_prop_JObj texts_read)
  have h: "get_header ''X-Player-ID'' (hostages_request base rc' i ids) = i" for i ids by (simp add: hostages_request_def header_read)
  show ?thesis using g by (cases "i = []") (simp_all add: SelectHostages_handler_def needs_player_def h b agrees_refused)
qed

lemma ready_agrees:
  "agrees (LeaderReady_handler rc (ready_request base rc' i) sv)
    (if i = [] then (sv, []) else outcome_state (GoLeaderReady rc i sv)) (i \<noteq> [] \<and> succeeds (GoLeaderReady rc i sv))"
proof -
  have g: "agrees (answered_with (only_error 400 t) (\<lambda>_ _. done_message msg) (GoLeaderReady rc i sv))
      (outcome_state (GoLeaderReady rc i sv)) (succeeds (GoLeaderReady rc i sv))" for t msg
    by (rule agrees_answered) (simp_all add: done_message_def)
  have h: "get_header ''X-Player-ID'' (ready_request base rc' i) = i" for i by (simp add: ready_request_def header_read)
  show ?thesis using g by (cases "i = []") (simp_all add: LeaderReady_handler_def needs_player_def h agrees_refused)
qed

text \<open>A call of the page whose parameters mean themselves in an address.\<close>

definition addressed :: "string \<Rightarrow> task \<Rightarrow> bool" where
  "addressed rc t \<longleftrightarrow>
     (let ok = (\<lambda>s. tidy s \<and> s \<noteq> '''') in
      case t of
        T_Nickname i n \<Rightarrow> ok rc \<and> ok i
      | T_Leave i \<Rightarrow> ok rc \<and> ok i
      | T_Hostages c i ids \<Rightarrow> ok c
      | T_Ready c i \<Rightarrow> ok c
      | T_CastVote v i w \<Rightarrow> ok rc \<and> ok v
      | _ \<Rightarrow> ok rc)"

lemmas case_simps = task_request_def request_for_def addressed_def Let_def routings serve_def accepted_def handler_checks_def

lemma request_agrees:
  assumes "task_request base rc t = Some q" "request_for rc (os_left x) t = Some r" "addressed rc t" "room_kept rc sv"
  shows "answer_request x base q sv \<noteq> None \<and>
    agrees (the (answer_request x base q sv)) (serve (os_loader x) (os_world x) r sv) (accepted (os_loader x) (os_world x) r sv)"
proof (cases t)
  case T_InitJoin
  then show ?thesis using assms(1-3) join_agrees [of "os_world x" rc sv]
    by (auto simp: case_simps simp del: not_None_eq)
next
  case (T_Nickname i n)
  then show ?thesis using assms(1-3) rename_agrees [of "os_why x" "os_world x" rc i base rc i n sv]
    by (auto simp: case_simps simp del: not_None_eq)
next
  case (T_Leave i)
  then show ?thesis using assms(1-3) leave_agrees [of "os_world x" rc i sv]
    by (auto simp: case_simps simp del: not_None_eq)
next
  case T_Start
  then show ?thesis using assms(1-3) start_agrees [OF assms(4), of "os_loader x" "os_world x"]
    by (auto simp: case_simps simp del: not_None_eq)
next
  case T_Reset
  then show ?thesis using assms(1-3) reset_agrees [OF assms(4), of "os_world x"]
    by (auto simp: case_simps simp del: not_None_eq)
next
  case (T_Hostages c i ids)
  then show ?thesis using assms(1-3) hostages_agrees [of "os_why x" c base c i ids sv]
    by (auto simp: case_simps simp del: not_None_eq)
next
  case (T_Ready c i)
  then show ?thesis using assms(1-3) ready_agrees [of c base c i sv]
    by (auto simp: case_simps simp del: not_None_eq)
next
  case (T_Transfer i n)
  then show ?thesis using assms(1-3) transfer_agrees [of "os_why x" "os_world x" rc base rc i n sv]
    by (auto simp: case_simps simp del: not_None_eq)
next
  case (T_StartVote i c l)
  then show ?thesis using assms(1-3) vote_agrees [of "os_why x" "os_world x" rc base rc i c l sv]
    by (auto simp: case_simps simp del: not_None_eq)
next
  case (T_CastVote v i w)
  then show ?thesis using assms(1-3) cast_agrees [of "os_why x" "os_left x" rc v base rc v i w sv]
    by (auto simp: case_simps simp del: not_None_eq)
qed (use assms(2) in \<open>simp_all add: request_for_def\<close>)

section \<open>Properties\<close>

text \<open>C3: Every request that the room page sends to change something reaches the service it is meant for: by
  the method, the address, the header and the body that the client writes, the routes and bindings of
  the server lead to the very operation, with the same arguments, and nothing else is changed or sent;
  and the client takes the answer for a success exactly if the server has accepted the request.\<close>

theorem requests_reach_their_service:
  assumes "task_request base rc t = Some q" "request_for rc (os_left x) t = Some r" "addressed rc t" "room_kept rc sv"
  shows "case answer_request x base q sv of
      None \<Rightarrow> False
    | Some (a, sv', out) \<Rightarrow>
        (sv', out) = serve (os_loader x) (os_world x) r sv \<and>
        (case json_result a of Inl _ \<Rightarrow> \<not> accepted (os_loader x) (os_world x) r sv | Inr _ \<Rightarrow> accepted (os_loader x) (os_world x) r sv)"
  using request_agrees [OF assms] by (auto simp: agrees_def simp del: not_None_eq split: option.split)

text \<open>The reason for which the server refuses, as the code of an error that the client has words for.\<close>

definition refusal_code :: "string \<Rightarrow> Server \<Rightarrow> task \<Rightarrow> string" where
  "refusal_code rc sv t =
     (case t of
        T_InitJoin \<Rightarrow>
          (case sv_rooms sv rc of
             None \<Rightarrow> ''ROOM_NOT_FOUND''
           | Some r \<Rightarrow> if int (length (gr_players r)) \<ge> gr_maxPlayers r then ''ROOM_FULL'' else ''GAME_ALREADY_STARTED'')
      | T_Start \<Rightarrow>
          (case sv_rooms sv rc of
             None \<Rightarrow> ''ROOM_NOT_FOUND''
           | Some r \<Rightarrow> if gr_status r = IN_PROGRESS then ''GAME_ALREADY_STARTED'' else ''INSUFFICIENT_PLAYERS'')
      | _ \<Rightarrow> ''UNKNOWN_ERROR'')"

lemma answered_bad: "\<not> succeeds x \<Longrightarrow> \<exists>e. fst x = Inl e \<and> fst (answered_with bad good x) = bad e"
  by (cases x) (auto simp: succeeds_def answered_with_def split: sum.splits)

lemma report_code: "map_get ERROR_MESSAGES c = Some text \<Longrightarrow> report_error fb (ApiFailure (new_APIError (Some c) m)) = text"
  by (auto simp: report_error_def new_APIError_def or_else_def dest: ERROR_MESSAGES_nonempty)

lemma known_codes:
  "map_get ERROR_MESSAGES ''ROOM_NOT_FOUND'' = Some ''The room was not found. Please check the room code.''"
  "map_get ERROR_MESSAGES ''ROOM_FULL'' = Some ''The room is full. Please join another room.''"
  "map_get ERROR_MESSAGES ''GAME_ALREADY_STARTED'' = Some ''The game has already started.''"
  "map_get ERROR_MESSAGES ''INSUFFICIENT_PLAYERS'' = Some ''At least 6 players are needed to start the game.''"
  by (simp_all add: ERROR_MESSAGES_def map_get_def)

lemma join_refused:
  assumes "\<not> succeeds (JoinRoom w rc sv)"
  shows "\<exists>st t msg. \<not> response_ok st \<and> fst (JoinRoom_handler w rc sv) = refusal st t (refusal_code rc sv T_InitJoin) msg"
  using assms
  by (auto simp: JoinRoom_handler_def JoinRoom_def answered_with_def refusal_code_def fail_def done_with_def succeeds_def Let_def
      split: option.splits if_splits) (metis status_ok)+

lemma start_refused:
  assumes "\<not> succeeds (GoStartGame loader w rc sv)" "length rc = 6"
  shows "\<exists>st t msg. \<not> response_ok st \<and> fst (StartGame_handler loader w rc sv) = refusal st t (refusal_code rc sv T_Start) msg"
proof -
  have "sv_rooms sv rc = None \<or> (\<exists>r. sv_rooms sv rc = Some r \<and> (gr_status r = IN_PROGRESS \<or> length (gr_players r) < 6))"
    using assms(1)
    by (cases "sv_rooms sv rc") (auto simp: GoStartGame_def Let_def succeeds_def fail_def done_with_def split: if_splits prod.splits sum.splits)
  then show ?thesis using assms(2)
    by (auto simp: StartGame_handler_def GoStartGame_def answered_with_def refusal_code_def fail_def) (metis status_ok)+
qed

text \<open>A refusal with neither a code nor a message.\<close>

definition bare :: "Http_Outcome \<Rightarrow> bool" where
  "bare a \<longleftrightarrow> (\<exists>st t e. \<not> response_ok st \<and> a = only_error st t e)"

lemma bare_only_error [simp]: "\<not> response_ok st \<Longrightarrow> bare (only_error st t e)"
  by (auto simp: bare_def)

lemma bare_answered [simp]: "\<not> succeeds x \<Longrightarrow> \<not> response_ok st \<Longrightarrow> bare (fst (answered_with (only_error st t) good x))"
  using answered_bad [of x "only_error st t" good] by auto

lemma vote_refused:
  assumes "\<not> (i \<noteq> [] \<and> l \<noteq> [] \<and> succeeds (GoStartVote w rc i l c sv))"
  shows "bare (fst (StartVote_handler why w rc (startVote base rc' i (color_str c) l) sv))"
proof -
  have "color_str c \<noteq> []" by (cases c) (simp_all add: color_str_def)
  then have b: "bind_json read_vote_request (startVote base rc' i (color_str c) l) = (if l = [] then None else Some (color_str c, l))" for i l
    by (simp add: startVote_def player_post_def bind_json_def object_or_null_def read_vote_request_def required_str_def required_def
        go_field_def js_prop_JObj read_str_def)
  have h: "get_header ''X-Player-ID'' (startVote base rc' i (color_str c) l) = i" for i l by (simp add: startVote_def header_read)
  show ?thesis
    using assms by (cases "i = []"; cases "l = []") (simp_all add: StartVote_handler_def needs_player_def h b color_of unchanged_def)
qed

lemma cast_refused:
  assumes "\<not> (i \<noteq> [] \<and> y \<noteq> [] \<and> succeeds (GoCastVote left rc v i y sv))"
  shows "bare (fst (CastVote_handler why left rc v (castVote base rc' v' i y) sv))"
proof -
  have b: "bind_json (required_str ''vote'') (castVote base rc' v' i y) = (if y = [] then None else Some y)" for i y
    by (simp add: castVote_def player_post_def bind_json_def object_or_null_def required_text)
  have h: "get_header ''X-Player-ID'' (castVote base rc' v' i y) = i" for i y by (simp add: castVote_def header_read)
  show ?thesis
    using assms by (cases "i = []"; cases "y = []") (simp_all add: CastVote_handler_def needs_player_def h b unchanged_def)
qed

text \<open>How the page reports the answer to a request that the server refuses.\<close>

definition reported :: "task \<Rightarrow> answer \<Rightarrow> Room_Page \<Rightarrow> string option" where
  "reported t ans s =
     (case t of
        T_InitJoin \<Rightarrow> Some (error (fst (resume t ans s)))
      | _ \<Rightarrow> (case snd (resume t ans s) of [PageAlert text] \<Rightarrow> Some text | _ \<Rightarrow> None))"

lemma refused_code:
  assumes "fst a = refusal st t' (refusal_code rc sv t) msg" "\<not> response_ok st" "t = T_InitJoin \<or> t = T_Start"
  shows "case answer_of t (fst a) of None \<Rightarrow> False | Some ans \<Rightarrow> reported t ans s = map_get ERROR_MESSAGES (refusal_code rc sv t)"
proof -
  have "map_get ERROR_MESSAGES (refusal_code rc sv t) \<noteq> None"
    using assms(3) by (elim disjE) (simp_all add: refusal_code_def known_codes split: option.split)
  then obtain m where m: "map_get ERROR_MESSAGES (refusal_code rc sv t) = Some m" by blast
  show ?thesis
    using assms(3) report_code [OF m]
    by (auto simp: assms(1) answer_of_def refusal_result [OF assms(2)] reported_def resume_def resume_init_def init_failed_def m)
qed

lemma refused_unknown:
  assumes "bare (fst a)" "t = T_StartVote i c l \<or> t = T_CastVote v i y"
  shows "case answer_of t (fst a) of None \<Rightarrow> False | Some ans \<Rightarrow> reported t ans s = map_get ERROR_MESSAGES (refusal_code rc sv t)"
proof -
  obtain st t' e where a: "\<not> response_ok st" "fst a = only_error st t' e" using assms(1) by (auto simp: bare_def)
  show ?thesis
    using assms(2)
    by (auto simp: a(2) answer_of_def only_error_result [OF a(1)] reported_def resume_def refusal_code_def report_error_def
        new_APIError_def or_else_def unknown_error)
qed

text \<open>C11: What a player is told of a refusal: a player who cannot enter a room, or start the game, is told the
  reason in the client's own words; a player whose vote, or whose request for a vote, is refused is
  told that an unknown error has occurred, whatever the reason is, because the server's answer has
  neither a code nor a message.\<close>

theorem refusals_as_they_are_told:
  assumes "task_request base rc t = Some q" "request_for rc (os_left x) t = Some r" "addressed rc t" "length rc = 6"
    "t \<in> {T_InitJoin, T_Start} \<or> (\<exists>i c l. t = T_StartVote i c l) \<or> (\<exists>v i y. t = T_CastVote v i y)"
    "\<not> accepted (os_loader x) (os_world x) r sv"
  shows "case answer_request x base q sv of
      None \<Rightarrow> False
    | Some a \<Rightarrow>
        (case answer_of t (fst a) of None \<Rightarrow> False | Some ans \<Rightarrow> reported t ans s = map_get ERROR_MESSAGES (refusal_code rc sv t))"
proof -
  consider "t = T_InitJoin" | "t = T_Start" | i c l where "t = T_StartVote i c l" | v i y where "t = T_CastVote v i y"
    using assms(5) by blast
  then show ?thesis
  proof cases
    case 1
    then show ?thesis using assms(1-3,6) join_refused [of "os_world x" rc sv] refused_code [of "JoinRoom_handler (os_world x) rc sv"]
      by (auto simp: case_simps)
  next
    case 2
    then show ?thesis using assms(1-4,6) start_refused [of "os_loader x" "os_world x" rc sv]
        refused_code [of "StartGame_handler (os_loader x) (os_world x) rc sv"]
      by (auto simp: case_simps)
  next
    case 3
    have "bare (fst (StartVote_handler (os_why x) (os_world x) rc (startVote base rc i (color_str c) l) sv))"
      by (rule vote_refused) (use assms(2,6) 3 in \<open>auto simp: request_for_def accepted_def handler_checks_def\<close>)
    then show ?thesis using refused_unknown 3 assms(1,3) by (auto simp: case_simps)
  next
    case 4
    have "bare (fst (CastVote_handler (os_why x) (os_left x) rc v (castVote base rc v i y) sv))"
      by (rule cast_refused) (use assms(2,6) 4 in \<open>auto simp: request_for_def accepted_def handler_checks_def\<close>)
    then show ?thesis using refused_unknown 4 assms(1,3) by (auto simp: case_simps)
  qed
qed

text \<open>C10: Joining a room: if the server accepts the request with which a page joins, the player that it adds to
  the room and announces to all is the very player that the page then shows as its own and remembers
  for the next visit; the player owns the room exactly if nobody was in it.\<close>

theorem page_joins_as_the_added_player:
  assumes "tidy rc" "rc \<noteq> ''''" "sv_rooms sv rc = Some r" "gr_code r = rc" "accepted (os_loader x) (os_world x) (Join rc) sv"
  shows "case answer_request x base (joinRoom base rc) sv of
      None \<Rightarrow> False
    | Some (a, sv', out) \<Rightarrow>
        (case (answer_of T_InitJoin a, out) of
           (Some ans, [Sent rc' None (S_PlayerJoined p)]) \<Rightarrow>
             (let s' = fst (resume T_InitJoin ans s) in
                rc' = rc \<and> map_option gr_players (sv_rooms sv' rc) = Some (gr_players r @ [p]) \<and>
                currentPlayer s' = Some (page_player p) \<and> ls_playerId (storage s') = Some (gp_id p) \<and>
                ls_isOwner (storage s') = Some (gr_players r = []))
         | _ \<Rightarrow> False)"
proof -
  have "succeeds (JoinRoom (os_world x) rc sv)" using assms(5) by (simp add: accepted_def)
  then have j: "\<not> gr_maxPlayers r \<le> int (length (gr_players r))" "gr_status r \<noteq> IN_PROGRESS"
    using assms(3) by (auto simp: JoinRoom_def Let_def split: if_splits)
  have r: "answer_of T_InitJoin (json_answer 201 t (json_player p)) = Some (GotPlayer (page_player p))" for t p
    by (simp add: answer_of_def answer_result read_answer_def players.dec_enc)
  show ?thesis
    using j assms(3,4)
    by (simp add: join_routed assms(1,2) JoinRoom_handler_def JoinRoom_def answered_with_def done_with_def Let_def r resume_def
        resume_init_def init_join_def init_joined_def add_task_def put_room_def page_player_def)
qed

section \<open>Creating a room\<close>

lemma create_routed:
  "answer_request x base (createRoom base n p c m) sv =
    Some (CreateRoom_handler (os_loader x) (os_why x) (os_code x) (os_world x) (createRoom base n p c m) sv)"
proof -
  let ?q = "createRoom base n p c m"
  have u: "req_url ?q = base @ concat (map ((#) CHR ''/'') [''api'', ''v1'', ''rooms''])" by (simp add: createRoom_def api_post_def fetchJSON_def)
  have "find_route ''POST'' (path_of base ?q) = Some (R_CreateRoom, [])"
    by (subst routed_segments [OF u]) (simp_all add: patterns_split)
  then show ?thesis by (simp add: answer_request_def serve_route_def createRoom_def api_post_def fetchJSON_def)
qed

lemma counts_bound: "list_all (\<lambda>(i, k). - (2 ^ 63) \<le> k \<and> k < 2 ^ 63) m \<Longrightarrow> go_counts (JObj (map (\<lambda>(k, n). (k, JNum n)) m)) = Some m"
  by (induction m) (auto simp: go_counts_def go_int_def)

text \<open>The answer to the request of the page for choosing roles: the code and the players of the room.\<close>

definition read_created :: "Http_Outcome \<Rightarrow> (js_error + string \<times> Player list) option" where
  "read_created outcome =
     (case json_result outcome of
        Inl e \<Rightarrow> Some (Inl e)
      | Inr j \<Rightarrow> map_option (\<lambda>r. Inr (code r, players r)) (read_room j))"

text \<open>C18: The page for choosing roles lets the host ask for a room of any size from six players on, but the
  server has rooms for thirty at most: up to that size the room is created as it was chosen, empty,
  and the page leads to it without remembering an owner; beyond it the request is refused, and the
  host is only told that it has failed.\<close>

theorem rooms_are_created_up_to_thirty:
  assumes "legal_room (CallCreate n public config roles)" "os_loader x ''all-roles'' \<noteq> None" "sv_rooms sv (os_code x) = None"
  shows "case answer_request x base (createRoom base n (Some public) (Some config) (Some roles)) sv of
      None \<Rightarrow> False
    | Some (a, sv', out) \<Rightarrow>
        (case read_created a of
           None \<Rightarrow> False
         | Some b \<Rightarrow>
             (if n \<le> 30
              then map_option (\<lambda>r. (gr_maxPlayers r, gr_selectedRoles r, gr_roleConfigId r, gr_players r)) (sv_rooms sv' (os_code x)) =
                     Some (n, roles, ''all-roles'', []) \<and>
                   on_created b s = (s, [RoleNavigate (''/room/'' @ os_code x @ ''?view=lobby'')])
              else sv' = sv \<and> on_created b s = (s\<lparr>rc_error := ''Failed to create the room'', creating := False\<rparr>, [])))"
proof -
  have l: "legal_selection roles" "6 \<le> n" "public" "config = ''all-roles''" using assms(1) by (simp_all add: legal_room_def)
  have d: "distinct (map fst roles)" using l(1) by (simp add: legal_selection_def)
  have g: "go_counts (JObj (map (\<lambda>(k, n). (k, JNum n)) roles)) = Some roles"
    by (rule counts_bound) (use l(1) in \<open>auto simp: legal_selection_def list_all_iff\<close>)
  let ?body = "JObj [(''maxPlayers'', JNum n), (''isPublic'', JBool public), (''roleConfigId'', JStr config),
      (''selectedRoles'', JObj (map (\<lambda>(k, n). (k, JNum n)) roles))]"
  have b: "bind_json read_create (createRoom base n (Some public) (Some config) (Some roles)) =
      (if n \<le> 30 then Some (n, Some True, ''all-roles'', roles) else None)"
    using l(2-4) g
    by (simp add: createRoom_def api_post_def fetchJSON_def opt_field_def bind_json_def object_or_null_def read_create_def required_def
        go_field_def js_prop_JObj go_bool_def read_str_def go_int_def)
  show ?thesis
  proof (cases "n \<le> 30")
    case True
    define r where "r = \<lparr>gr_code = os_code x, gr_status = WAITING, gr_players = [], gr_maxPlayers = n, gr_session = None, gr_isPublic = True,
      gr_roleConfigId = ''all-roles'', gr_selectedRoles = roles, gr_createdAt = wd_now (os_world x), gr_updatedAt = wd_now (os_world x)\<rparr>"
    have c: "CreateRoom (os_code x) (os_world x) n True ''all-roles'' roles sv = (Inr (os_code x), put_room r sv, [])"
      using True l(2) assms(3) by (simp add: CreateRoom_def done_with_def r_def)
    have p: "gr_code r = os_code x" "sv_rooms (put_room r sv) (os_code x) = Some r" by (simp_all add: put_room_def r_def)
    have "read_created (json_answer 201 t (json_room r)) = Some (Inr (os_code x, []))" for t
      using d by (simp add: read_created_def answer_result unique_room game_rooms.dec_enc page_room_def r_def)
    moreover have "CreateRoom_handler (os_loader x) (os_why x) (os_code x) (os_world x) (createRoom base n (Some public) (Some config) (Some roles)) sv =
        (json_answer 201 ''Created'' (json_room r), put_room r sv, [])"
      using True assms(2) by (simp add: CreateRoom_handler_def b Let_def c answered_with_def room_answer_def p del: not_None_eq)
    ultimately show ?thesis using True by (simp add: create_routed on_created_def p) (simp add: r_def)
  next
    case False
    then show ?thesis
      by (simp add: create_routed CreateRoom_handler_def b unchanged_def read_created_def refusal_result on_created_def)
  qed
qed

section \<open>Examples\<close>

definition outside :: Outside where
  "outside = \<lparr>os_why = ''bad request'', os_code = ''QWERTY'', os_world = plain_world ''p'', os_left = 30, os_rooms = [],
     os_instant = \<lambda>_. 0, os_configs = [(''all-roles'', all_roles)], os_list = []\<rparr>"

definition lobby_server :: Server where
  "lobby_server = put_room (lobby_of six_players) empty_server"

lemma lobby_server: "sv_rooms lobby_server ''ABCDEF'' = Some (lobby_of six_players)" "gr_code (lobby_of six_players) = ''ABCDEF''"
  "room_kept ''ABCDEF'' lobby_server"
  by (simp_all add: lobby_server_def lobby_of_def put_room_def room_kept_def)

lemma tidy_code: "tidy ''ABCDEF''" "tidy ''v''"
  by (simp_all add: tidy_def)

theorem requests_reach_their_service_witness:
  "case answer_request outside ''http://h'' (startGame ''http://h'' ''ABCDEF'') lobby_server of
      None \<Rightarrow> False
    | Some (a, sv', out) \<Rightarrow>
        (sv', out) = serve (os_loader outside) (os_world outside) (Start ''ABCDEF'') lobby_server \<and>
        (case json_result a of Inl _ \<Rightarrow> \<not> accepted (os_loader outside) (os_world outside) (Start ''ABCDEF'') lobby_server
         | Inr _ \<Rightarrow> accepted (os_loader outside) (os_world outside) (Start ''ABCDEF'') lobby_server)"
  by (rule requests_reach_their_service [where t = T_Start and rc = "''ABCDEF''", OF _ _ _ lobby_server(3)])
    (simp_all add: task_request_def request_for_def addressed_def tidy_code)

theorem refusals_as_they_are_told_witness:
  "case answer_request outside ''http://h'' (castVote ''http://h'' ''ABCDEF'' ''v'' ''i'' ''YES'') lobby_server of
      None \<Rightarrow> False
    | Some a \<Rightarrow>
        (case answer_of (T_CastVote ''v'' ''i'' ''YES'') (fst a) of
           None \<Rightarrow> False
         | Some ans \<Rightarrow> reported (T_CastVote ''v'' ''i'' ''YES'') ans leader_page =
             map_get ERROR_MESSAGES (refusal_code ''ABCDEF'' lobby_server (T_CastVote ''v'' ''i'' ''YES'')))"
  by (rule refusals_as_they_are_told [where r = "Cast ''ABCDEF'' ''v'' ''i'' ''YES'' 30" and rc = "''ABCDEF''"])
    (simp_all add: task_request_def request_for_def addressed_def tidy_code accepted_def GoCastVote_def lobby_server_def put_room_def
      empty_server_def outside_def)

definition five_players :: "Go_Player list" where
  "five_players = take 5 six_players"

theorem page_joins_as_the_added_player_witness:
  "case answer_request outside ''http://h'' (joinRoom ''http://h'' ''ABCDEF'') (put_room (lobby_of five_players) empty_server) of
      None \<Rightarrow> False
    | Some (a, sv', out) \<Rightarrow>
        (case (answer_of T_InitJoin a, out) of
           (Some ans, [Sent rc' None (S_PlayerJoined p)]) \<Rightarrow>
             (let s' = fst (resume T_InitJoin ans leader_page) in
                rc' = ''ABCDEF'' \<and> map_option gr_players (sv_rooms sv' ''ABCDEF'') = Some (gr_players (lobby_of five_players) @ [p]) \<and>
                currentPlayer s' = Some (page_player p) \<and> ls_playerId (storage s') = Some (gp_id p) \<and>
                ls_isOwner (storage s') = Some (gr_players (lobby_of five_players) = []))
         | _ \<Rightarrow> False)"
  by (rule page_joins_as_the_added_player [OF tidy_code(1)])
    (simp_all add: accepted_def JoinRoom_def handler_checks_def Let_def put_room_def lobby_of_def five_players_def six_players_def)

definition chosen_six :: "(string, int) js_map" where
  "chosen_six = [(''PRESIDENT'', 1), (''BOMBER'', 1), (''BLUE_TEAM'', 2), (''RED_TEAM'', 2)]"

lemma outside_loads: "os_loader outside ''all-roles'' \<noteq> None"
  by (simp add: outside_def config_loader_def GetConfig_def map_get_def)

theorem rooms_are_created_up_to_thirty_witness:
  "case answer_request outside ''http://h'' (createRoom ''http://h'' 6 (Some True) (Some ''all-roles'') (Some chosen_six)) empty_server of
      None \<Rightarrow> False
    | Some (a, sv', out) \<Rightarrow>
        (case read_created a of
           None \<Rightarrow> False
         | Some b \<Rightarrow>
             (if (6::int) \<le> 30
              then map_option (\<lambda>r. (gr_maxPlayers r, gr_selectedRoles r, gr_roleConfigId r, gr_players r)) (sv_rooms sv' (os_code outside)) =
                     Some (6, chosen_six, ''all-roles'', []) \<and>
                   on_created b mount_role_page = (mount_role_page, [RoleNavigate (''/room/'' @ os_code outside @ ''?view=lobby'')])
              else sv' = empty_server \<and> on_created b mount_role_page = (mount_role_page\<lparr>rc_error := ''Failed to create the room'', creating := False\<rparr>, [])))"
  by (rule rooms_are_created_up_to_thirty [OF _ outside_loads])
    (simp_all add: legal_room_def legal_selection_def chosen_six_def map_get_def empty_server_def)

section \<open>The visibility of a room\<close>

text \<open>C36: A room stays as visible as it was created: whatever the client asks for with its function for the
  visibility of a room, the server refuses it and changes nothing, since the request names no player,
  and a request to hide a room fails the check of its body before that.\<close>

theorem visibility_never_changes:
  assumes "tidy rc" "rc \<noteq> ''''" "CHR ''?'' \<notin> set base"
  shows "case answer_request x base (updateRoomVisibility base rc b) sv of
      None \<Rightarrow> False
    | Some (a, sv', out) \<Rightarrow>
        sv' = sv \<and> out = [] \<and>
        json_result a = Inl (ApiFailure (if length rc \<noteq> 6 then new_APIError (Some ''INVALID_ROOM_CODE'') (Some ''Room code must be 6 characters'')
          else if b then new_APIError (Some ''UNAUTHORIZED'') (Some ''Player ID required'')
          else new_APIError (Some ''INVALID_REQUEST'') (Some (os_why x))))"
proof -
  let ?q = "updateRoomVisibility base rc b"
  have u: "req_url ?q = base @ ''/api/v1/rooms/'' @ rc @ ''/visibility''" "req_method ?q = ''PATCH''"
    "req_body ?q = Some (JObj [(''isPublic'', JBool b)])" "req_headers ?q = [(''Content-Type'', ''application/json'')]"
    by (simp_all add: updateRoomVisibility_def api_patch_def fetchJSON_def)
  have r: "answer_request x base ?q sv = Some (UpdateRoomVisibility_handler (os_why x) (os_world x) rc ?q sv)"
    using assms(1,2)
    by (subst room_routed [where rc = rc and ss = "[''visibility'']" and r = R_Visibility and ps = "[rc]"])
      (simp_all add: u patterns_split serve_route_def)
  have "CHR ''?'' \<notin> set (req_url ?q)" using assms(3) tidy_chars [OF assms(1)] by (simp add: u)
  then have "dropWhile (\<lambda>c. c \<noteq> CHR ''?'') (req_url ?q) = []" by (auto simp: dropWhile_eq_Nil_conv)
  then have "query_of (req_url ?q) = ''''" by (simp only: query_of_def drop_Nil)
  then have q: "query_value ''playerId'' (query_of (req_url ?q)) = ''''" by (simp add: query_value_def parse_query_def query_pair_def map_filter_simps)
  have b: "bind_json read_visibility ?q = (if b then Some True else None)"
    by (simp add: bind_json_def object_or_null_def read_visibility_def required_def go_field_def js_prop_JObj go_bool_def u)
  have h: "get_header ''X-Player-ID'' ?q = ''''" by (simp add: get_header_def u)
  show ?thesis
    unfolding r UpdateRoomVisibility_handler_def b q h by (simp add: unchanged_def refusal_result Let_def)
qed

theorem visibility_never_changes_witness:
  "case answer_request outside ''http://h'' (updateRoomVisibility ''http://h'' ''ABCDEF'' False) lobby_server of
      None \<Rightarrow> False
    | Some (a, sv', out) \<Rightarrow>
        sv' = lobby_server \<and> out = [] \<and>
        json_result a = Inl (ApiFailure (if length ''ABCDEF'' \<noteq> 6 then new_APIError (Some ''INVALID_ROOM_CODE'') (Some ''Room code must be 6 characters'')
          else if False then new_APIError (Some ''UNAUTHORIZED'') (Some ''Player ID required'')
          else new_APIError (Some ''INVALID_REQUEST'') (Some (os_why outside))))"
  by (rule visibility_never_changes [OF tidy_code(1)]) simp_all

end
