(* ===== verification/Server_Rates.thy ===== *)
theory Server_Rates
  imports Prelude
begin

text \<open>
  The limits on requests (\<open>middleware/rate_limiter.go\<close>): a bucket of tokens for each address, filled up
  when a window has passed since it was last filled. Times are nanoseconds; the lists of rooms, the
  creation of rooms and the joins have a limiter each.
\<close>

section \<open>The limiter\<close>

record Bucket =
  bk_tokens :: int
  bk_lastRefill :: int

type_synonym buckets = "string \<Rightarrow> Bucket option"

record Limiter =
  lim_rate :: int
  lim_window :: int

definition minute :: int where
  "minute = 60 * 10 ^ 9"

definition RoomListLimiter :: Limiter where
  "RoomListLimiter = \<lparr>lim_rate = 100, lim_window = minute\<rparr>"

definition RoomCreationLimiter :: Limiter where
  "RoomCreationLimiter = \<lparr>lim_rate = 10, lim_window = minute\<rparr>"

definition RoomJoinLimiter :: Limiter where
  "RoomJoinLimiter = \<lparr>lim_rate = 10, lim_window = minute\<rparr>"

definition refilled :: "Limiter \<Rightarrow> int \<Rightarrow> Bucket option \<Rightarrow> Bucket" where
  "refilled L now b =
     (case b of
        None \<Rightarrow> \<lparr>bk_tokens = lim_rate L, bk_lastRefill = now\<rparr>
      | Some b \<Rightarrow> if now - bk_lastRefill b \<ge> lim_window L then \<lparr>bk_tokens = lim_rate L, bk_lastRefill = now\<rparr> else b)"

definition allow :: "Limiter \<Rightarrow> int \<Rightarrow> string \<Rightarrow> buckets \<Rightarrow> bool \<times> buckets" where
  "allow L now ip bs =
     (let b = refilled L now (bs ip) in
      if bk_tokens b > 0 then (True, bs(ip := Some (b\<lparr>bk_tokens := bk_tokens b - 1\<rparr>)))
      else (False, bs(ip := Some b)))"

text \<open>Every ten minutes the buckets that have not been filled for an hour are removed.\<close>

definition sweep :: "int \<Rightarrow> buckets \<Rightarrow> buckets" where
  "sweep now bs = (\<lambda>ip. case bs ip of None \<Rightarrow> None | Some b \<Rightarrow> if now - bk_lastRefill b > 60 * minute then None else Some b)"

section \<open>Runs\<close>

text \<open>Requests of addresses and sweeps at their times; the requests that are let through.\<close>

datatype rate_event = Request int string | Sweep int

fun event_time :: "rate_event \<Rightarrow> int" where
  "event_time (Request t _) = t"
| "event_time (Sweep t) = t"

fun rate_step :: "Limiter \<Rightarrow> rate_event \<Rightarrow> buckets \<Rightarrow> buckets" where
  "rate_step L (Request t ip) bs = snd (allow L t ip bs)"
| "rate_step L (Sweep t) bs = sweep t bs"

fun granted :: "Limiter \<Rightarrow> rate_event list \<Rightarrow> buckets \<Rightarrow> (int \<times> string) list" where
  "granted L [] bs = []"
| "granted L (e # es) bs =
     (case e of Request t ip \<Rightarrow> if fst (allow L t ip bs) then [(t, ip)] else [] | Sweep _ \<Rightarrow> []) @ granted L es (rate_step L e bs)"

text \<open>The requests of an address in the window that begins at a time.\<close>

definition in_window :: "Limiter \<Rightarrow> int \<Rightarrow> string \<Rightarrow> (int \<times> string) list \<Rightarrow> nat" where
  "in_window L t ip xs = length (filter (\<lambda>x. snd x = ip \<and> t \<le> fst x \<and> fst x < t + lim_window L) xs)"

definition requests :: "rate_event list \<Rightarrow> (int \<times> string) list" where
  "requests es = List.map_filter (\<lambda>e. case e of Request t ip \<Rightarrow> Some (t, ip) | Sweep _ \<Rightarrow> None) es"

definition limiter_ok :: "Limiter \<Rightarrow> bool" where
  "limiter_ok L \<longleftrightarrow> 0 \<le> lim_rate L \<and> 0 < lim_window L \<and> lim_window L \<le> 60 * minute"

section \<open>Bounds\<close>

text \<open>What a bucket lets through from a time on, until a window has passed.\<close>

definition allowance :: "Limiter \<Rightarrow> int \<Rightarrow> Bucket option \<Rightarrow> int" where
  "allowance L t b =
     (case b of None \<Rightarrow> lim_rate L | Some b \<Rightarrow> bk_tokens b + (if bk_lastRefill b < t then lim_rate L else 0))"

definition bucket_ok :: "Limiter \<Rightarrow> Bucket option \<Rightarrow> bool" where
  "bucket_ok L b \<longleftrightarrow> (case b of None \<Rightarrow> True | Some b \<Rightarrow> 0 \<le> bk_tokens b \<and> bk_tokens b \<le> lim_rate L)"

lemma bucket_ok_allow: "limiter_ok L \<Longrightarrow> bucket_ok L (bs ip) \<Longrightarrow> bucket_ok L (snd (allow L now ip' bs) ip)"
  by (auto simp: bucket_ok_def allow_def refilled_def limiter_ok_def Let_def split: option.splits)

lemma bucket_ok_step: "limiter_ok L \<Longrightarrow> bucket_ok L (bs ip) \<Longrightarrow> bucket_ok L (rate_step L e bs ip)"
  by (cases e) (auto simp: bucket_ok_allow sweep_def, auto simp: bucket_ok_def split: option.splits)

lemma allow_other: "ip' \<noteq> ip \<Longrightarrow> snd (allow L now ip' bs) ip = bs ip"
  by (simp add: allow_def Let_def)

lemma allowance_request:
  assumes "limiter_ok L" "bucket_ok L (bs ip)" "t \<le> now" "now < t + lim_window L"
  shows "(if fst (allow L now ip bs) then 1 else 0) + allowance L t (snd (allow L now ip bs) ip) \<le> allowance L t (bs ip)"
  using assms by (auto simp: allow_def refilled_def allowance_def bucket_ok_def limiter_ok_def Let_def split: option.splits)

lemma allowance_sweep:
  assumes "limiter_ok L" "bucket_ok L (bs ip)" "now < t + lim_window L"
  shows "allowance L t (sweep now bs ip) \<le> allowance L t (bs ip)"
  using assms by (auto simp: sweep_def allowance_def bucket_ok_def limiter_ok_def split: option.splits)

lemma granted_within:
  assumes "limiter_ok L" "bucket_ok L (bs ip)" "list_all (\<lambda>e. t \<le> event_time e \<and> event_time e < t + lim_window L) es"
  shows "int (in_window L t ip (granted L es bs)) \<le> allowance L t (bs ip)"
  using assms(2,3)
proof (induction es arbitrary: bs)
  case Nil
  then show ?case using assms(1) by (auto simp: in_window_def allowance_def bucket_ok_def limiter_ok_def split: option.splits)
next
  case (Cons e es)
  have ih: "int (in_window L t ip (granted L es (rate_step L e bs))) \<le> allowance L t (rate_step L e bs ip)"
    using Cons.prems bucket_ok_step [OF assms(1)] by (intro Cons.IH) simp_all
  show ?case
  proof (cases e)
    case (Request now ip')
    show ?thesis
      using ih allowance_request [where L = L and bs = bs and ip = ip and t = t and now = now] assms(1) Cons.prems
        allow_other [of ip' ip L now bs]
      by (cases "ip' = ip") (auto simp: Request in_window_def split: if_splits)
  next
    case (Sweep now)
    show ?thesis
      using ih allowance_sweep [where L = L and bs = bs and ip = ip and t = t and now = now] assms(1) Cons.prems
      by (simp add: Sweep)
  qed
qed

lemma in_window_append: "in_window L t ip (xs @ ys) = in_window L t ip xs + in_window L t ip ys"
  by (simp add: in_window_def)

lemma allowance_bound: "limiter_ok L \<Longrightarrow> bucket_ok L b \<Longrightarrow> allowance L t b \<le> 2 * lim_rate L"
  by (auto simp: allowance_def bucket_ok_def limiter_ok_def split: option.splits)

lemma granted_append: "granted L (es @ fs) bs = granted L es bs @ granted L fs (fold (rate_step L) es bs)"
  by (induction es arbitrary: bs) simp_all

lemma bucket_ok_run: "limiter_ok L \<Longrightarrow> bucket_ok L (bs ip) \<Longrightarrow> bucket_ok L (fold (rate_step L) es bs ip)"
  by (induction es arbitrary: bs) (simp_all add: bucket_ok_step)

lemma granted_times: "x \<in> set (granted L es bs) \<Longrightarrow> \<exists>e \<in> set es. event_time e = fst x"
  by (induction es arbitrary: bs) (auto split: rate_event.splits if_splits)

lemma in_window_outside:
  "list_all (\<lambda>e. \<not> (t \<le> event_time e \<and> event_time e < t + lim_window L)) es \<Longrightarrow> in_window L t ip (granted L es bs) = 0"
  by (force simp: in_window_def filter_empty_conv list_all_iff dest: granted_times)

lemma sorted_rest:
  fixes f :: "'a \<Rightarrow> int"
  shows "sorted (map f es) \<Longrightarrow> sorted (map f (dropWhile (\<lambda>e. f e < t) es)) \<and> list_all (\<lambda>e. t \<le> f e) (dropWhile (\<lambda>e. f e < t) es)"
  by (induction es) (force simp: list_all_iff)+

lemma sorted_split:
  assumes "sorted (map event_time es)"
  shows "\<exists>xs ys zs. es = xs @ ys @ zs \<and> list_all (\<lambda>e. event_time e < t) xs \<and>
    list_all (\<lambda>e. t \<le> event_time e \<and> event_time e < u) ys \<and> list_all (\<lambda>e. \<not> (t \<le> event_time e \<and> event_time e < u)) zs"
proof -
  define xs where "xs = takeWhile (\<lambda>e. event_time e < t) es"
  define rest where "rest = dropWhile (\<lambda>e. event_time e < t) es"
  define ys where "ys = takeWhile (\<lambda>e. event_time e < u) rest"
  define zs where "zs = dropWhile (\<lambda>e. event_time e < u) rest"
  have s: "sorted (map event_time rest)" "list_all (\<lambda>e. t \<le> event_time e) rest"
    using sorted_rest [OF assms, of t] by (simp_all add: rest_def)
  have zs: "list_all (\<lambda>e. u \<le> event_time e) zs" using sorted_rest [OF s(1), of u] by (simp add: zs_def)
  have "es = xs @ ys @ zs" by (simp add: xs_def ys_def zs_def rest_def)
  moreover have "list_all (\<lambda>e. event_time e < t) xs" by (auto simp: xs_def list_all_iff dest: set_takeWhileD)
  moreover have "list_all (\<lambda>e. t \<le> event_time e \<and> event_time e < u) ys"
    using s(2) by (auto simp: ys_def list_all_iff dest: set_takeWhileD)
  moreover have "list_all (\<lambda>e. \<not> (t \<le> event_time e \<and> event_time e < u)) zs" using zs by (auto simp: list_all_iff)
  ultimately show ?thesis by blast
qed

text \<open>No matter what an address sends and when the buckets are swept, within any window of time a
  limiter lets at most twice its rate of requests of the address through.\<close>

theorem window_bound:
  assumes "limiter_ok L" "sorted (map event_time es)"
  shows "in_window L t ip (granted L es (\<lambda>_. None)) \<le> 2 * nat (lim_rate L)"
proof -
  obtain xs ys zs where es: "es = xs @ ys @ zs" and xs: "list_all (\<lambda>e. event_time e < t) xs"
    and ys: "list_all (\<lambda>e. t \<le> event_time e \<and> event_time e < t + lim_window L) ys"
    and zs: "list_all (\<lambda>e. \<not> (t \<le> event_time e \<and> event_time e < t + lim_window L)) zs"
    using sorted_split [OF assms(2), of t "t + lim_window L"] by blast
  let ?bs = "fold (rate_step L) xs (\<lambda>_. None)"
  have ok: "bucket_ok L (?bs ip)" by (rule bucket_ok_run [OF assms(1)]) (simp add: bucket_ok_def)
  have "in_window L t ip (granted L es (\<lambda>_. None)) = in_window L t ip (granted L ys ?bs)"
    using in_window_outside [OF zs, of ip "fold (rate_step L) ys ?bs"] xs
      in_window_outside [OF list.pred_mono_strong [OF xs], of t L ip "\<lambda>_. None"]
    by (simp add: es granted_append in_window_append)
  moreover have "int (in_window L t ip (granted L ys ?bs)) \<le> 2 * lim_rate L"
    using granted_within [where bs = ?bs, OF assms(1) ok ys] allowance_bound [OF assms(1) ok, of t] by linarith
  ultimately show ?thesis using assms(1) by (simp add: limiter_ok_def)
qed

lemma limiters_ok: "limiter_ok RoomListLimiter" "limiter_ok RoomCreationLimiter" "limiter_ok RoomJoinLimiter"
  by (simp_all add: limiter_ok_def RoomListLimiter_def RoomCreationLimiter_def RoomJoinLimiter_def minute_def)

text \<open>Ten creations just before a minute has passed, and ten right after it.\<close>

definition double_burst :: "rate_event list" where
  "double_burst = Request 0 ''a'' # replicate 9 (Request (minute - 1) ''a'') @ replicate 10 (Request minute ''a'')"

theorem window_bound_witness:
  "in_window RoomCreationLimiter 1 ''a'' (granted RoomCreationLimiter double_burst (\<lambda>_. None)) \<le> 2 * nat (lim_rate RoomCreationLimiter) \<and>
   in_window RoomCreationLimiter 1 ''a'' (granted RoomCreationLimiter double_burst (\<lambda>_. None)) = 19"
proof
  show "in_window RoomCreationLimiter 1 ''a'' (granted RoomCreationLimiter double_burst (\<lambda>_. None)) \<le> 2 * nat (lim_rate RoomCreationLimiter)"
    by (rule window_bound [OF limiters_ok(2)]) (simp add: double_burst_def minute_def sorted_append)
  show "in_window RoomCreationLimiter 1 ''a'' (granted RoomCreationLimiter double_burst (\<lambda>_. None)) = 19" by code_simp
qed

text \<open>Behind one address: requests within a window of an address that is new.\<close>

definition of_address :: "string \<Rightarrow> (int \<times> string) list \<Rightarrow> (int \<times> string) list" where
  "of_address ip = filter (\<lambda>x. snd x = ip)"

definition fresh_tokens :: "Limiter \<Rightarrow> int \<Rightarrow> Bucket option \<Rightarrow> int option" where
  "fresh_tokens L t b = (case b of None \<Rightarrow> Some (lim_rate L) | Some b \<Rightarrow> if t \<le> bk_lastRefill b then Some (bk_tokens b) else None)"

lemma fresh_run:
  assumes "limiter_ok L"
  shows "list_all (\<lambda>e. t \<le> event_time e \<and> event_time e < t + lim_window L) es \<Longrightarrow> fresh_tokens L t (bs ip) = Some k \<Longrightarrow>
    of_address ip (granted L es bs) = take (nat k) (of_address ip (requests es))"
proof (induction es arbitrary: bs k)
  case Nil
  then show ?case by (simp add: of_address_def requests_def List.map_filter_def)
next
  case (Cons e es)
  show ?case
  proof (cases e)
    case (Request now ip')
    have t: "t \<le> now" "now < t + lim_window L" using Cons.prems(1) by (simp_all add: Request)
    have fresh: "fresh_tokens L t (snd (allow L now ip' bs) ip) = Some (if ip' = ip \<and> 0 < k then k - 1 else k)"
      using Cons.prems(2) t
      by (auto simp: fresh_tokens_def allow_def refilled_def Let_def split: option.splits if_splits)
    have let_through: "ip' = ip \<Longrightarrow> fst (allow L now ip' bs) \<longleftrightarrow> 0 < k"
      using Cons.prems(2) t
      by (auto simp: fresh_tokens_def allow_def refilled_def Let_def split: option.splits if_splits)
    have ih: "of_address ip (granted L es (snd (allow L now ip' bs))) = take (nat (if ip' = ip \<and> 0 < k then k - 1 else k)) (of_address ip (requests es))"
      using Cons.prems(1) by (intro Cons.IH fresh) simp
    have head: "of_address ip (requests (e # es)) = (if ip' = ip then [(now, ip)] else []) @ of_address ip (requests es)"
      by (simp add: Request of_address_def requests_def map_filter_simps)
    show ?thesis
    proof (cases "ip' = ip \<and> 0 < k")
      case True
      then have "nat k = Suc (nat (k - 1))" by linarith
      then show ?thesis using True ih let_through head by (simp add: Request of_address_def)
    next
      case False
      then show ?thesis using ih let_through head by (cases "ip' = ip") (simp_all add: Request of_address_def)
    qed
  next
    case (Sweep now)
    have t: "t \<le> now" "now < t + lim_window L" using Cons.prems(1) by (simp_all add: Sweep)
    have "fresh_tokens L t (sweep now bs ip) = Some k"
      using Cons.prems(2) t assms by (auto simp: fresh_tokens_def sweep_def limiter_ok_def split: option.splits if_splits)
    then show ?thesis using Cons.IH [of "sweep now bs"] Cons.prems(1)
      by (simp add: Sweep of_address_def requests_def map_filter_simps)
  qed
qed

text \<open>C34: Of the requests that arrive from a new address within a window, exactly the first are let
  through, as many as the rate, whoever sends them and whatever the others do: of a party that joins a
  room from one network within a minute, the eleventh player is refused.\<close>

theorem party_behind_one_address:
  assumes "limiter_ok L" "list_all (\<lambda>e. t \<le> event_time e \<and> event_time e < t + lim_window L) es" "bs ip = None"
  shows "of_address ip (granted L es bs) = take (nat (lim_rate L)) (of_address ip (requests es))"
  by (rule fresh_run [OF assms(1,2)]) (simp add: fresh_tokens_def assms(3))

theorem party_behind_one_address_witness:
  "of_address ''a'' (granted RoomJoinLimiter (map (\<lambda>k. Request (int k) ''a'') [0..<12]) (\<lambda>_. None)) = map (\<lambda>k. (int k, ''a'')) [0..<10]"
  using party_behind_one_address [OF limiters_ok(3), of 0 "map (\<lambda>k. Request (int k) ''a'') [0..<12]" "\<lambda>_. None" "''a''"]
  by (simp add: RoomJoinLimiter_def minute_def of_address_def requests_def map_filter_simps upt_rec [of _ 12] upt_rec [of _ 10])

end
