(* ===== verification/Server_Gate.thy ===== *)
theory Server_Gate
  imports Server_Requests Server_Rates
begin

text \<open>
  The limits of rates in front of the handlers (\<open>middleware/rate_limiter.go\<close>, \<open>Middleware\<close>, and the routes of
  \<open>cmd/server/main.go\<close> that have one): an address that has used up its tokens is answered before the
  handler runs.
\<close>

section \<open>Limited routes\<close>

record Gates =
  gt_list :: buckets
  gt_create :: buckets
  gt_join :: buckets

definition no_gates :: Gates where
  "no_gates = \<lparr>gt_list = (\<lambda>_. None), gt_create = (\<lambda>_. None), gt_join = (\<lambda>_. None)\<rparr>"

text \<open>The answer of a closed gate, and the buckets after a request of an address at a time.\<close>

definition too_many :: Http_Outcome where
  "too_many = refusal 429 ''Too Many Requests'' ''RATE_LIMIT_EXCEEDED'' ''Too many requests, please try again later''"

definition pass_gate :: "endpoint \<Rightarrow> int \<Rightarrow> string \<Rightarrow> Gates \<Rightarrow> bool \<times> Gates" where
  "pass_gate r now ip g =
     (case r of
        R_ListRooms \<Rightarrow> apsnd (\<lambda>bs. g\<lparr>gt_list := bs\<rparr>) (allow RoomListLimiter now ip (gt_list g))
      | R_CreateRoom \<Rightarrow> apsnd (\<lambda>bs. g\<lparr>gt_create := bs\<rparr>) (allow RoomCreationLimiter now ip (gt_create g))
      | R_Join \<Rightarrow> apsnd (\<lambda>bs. g\<lparr>gt_join := bs\<rparr>) (allow RoomJoinLimiter now ip (gt_join g))
      | _ \<Rightarrow> (True, g))"

definition answer_from :: "Outside \<Rightarrow> string \<Rightarrow> int \<Rightarrow> string \<Rightarrow> Http_Request \<Rightarrow> Gates \<Rightarrow> Server \<Rightarrow> (served \<times> Gates) option" where
  "answer_from x base now ip q g sv =
     (case find_route (req_method q) (path_of base q) of
        None \<Rightarrow> None
      | Some (r, ps) \<Rightarrow>
          (case pass_gate r now ip g of (open, g') \<Rightarrow>
             Some (if open then serve_route x r ps q sv else unchanged sv too_many, g')))"

section \<open>What the gates change\<close>

text \<open>Apart from the limits, a request is answered as \<open>Server_Requests\<close> says.\<close>

lemma answered_or_refused:
  "map_option fst (answer_from x base now ip q g sv) = answer_request x base q sv \<or>
   map_option fst (answer_from x base now ip q g sv) = Some (unchanged sv too_many)"
proof (cases "find_route (req_method q) (path_of base q)")
  case (Some rp)
  obtain r ps where "rp = (r, ps)" by (cases rp)
  then show ?thesis
    using Some by (cases "fst (pass_gate r now ip g)") (simp_all add: answer_from_def answer_request_def case_prod_unfold)
qed (simp add: answer_from_def answer_request_def)

lemma not_limited: "r \<notin> {R_ListRooms, R_CreateRoom, R_Join} \<Longrightarrow> pass_gate r now ip g = (True, g)"
  by (cases r) (simp_all add: pass_gate_def)

lemma answered_without_limit:
  assumes "find_route (req_method q) (path_of base q) = Some (r, ps)" "r \<notin> {R_ListRooms, R_CreateRoom, R_Join}"
  shows "answer_from x base now ip q g sv = map_option (\<lambda>a. (a, g)) (answer_request x base q sv)"
  by (simp add: answer_from_def answer_request_def assms(1) not_limited [OF assms(2)])

text \<open>A closed gate leaves the server as it is, and the client shows the text of the answer, since its own table
  of texts has none for the code.\<close>

lemma closed_gate_is_told:
  "json_result too_many = Inl (ApiFailure (new_APIError (Some ''RATE_LIMIT_EXCEEDED'') (Some ''Too many requests, please try again later'')))"
  "report_error fb (ApiFailure (new_APIError (Some ''RATE_LIMIT_EXCEEDED'') (Some ''Too many requests, please try again later''))) =
    ''Too many requests, please try again later''"
proof -
  show "json_result too_many = Inl (ApiFailure (new_APIError (Some ''RATE_LIMIT_EXCEEDED'') (Some ''Too many requests, please try again later'')))"
    by (simp add: too_many_def refusal_result response_ok_def)
  have "map_get ERROR_MESSAGES ''RATE_LIMIT_EXCEEDED'' = None" by (simp add: ERROR_MESSAGES_def map_get_def)
  then show "report_error fb (ApiFailure (new_APIError (Some ''RATE_LIMIT_EXCEEDED'') (Some ''Too many requests, please try again later''))) =
      ''Too many requests, please try again later''"
    by (simp add: report_error_def new_APIError_def or_else_def)
qed

text \<open>Joins of one address at a time: the tenth is still let in, and the next one is turned away at the gate,
  wherever it wants to go.\<close>

fun joins_from :: "nat \<Rightarrow> int \<Rightarrow> string \<Rightarrow> Gates \<Rightarrow> bool list" where
  "joins_from 0 now ip g = []"
| "joins_from (Suc k) now ip g = (case pass_gate R_Join now ip g of (open, g') \<Rightarrow> open # joins_from k now ip g')"

lemma ten_joins: "joins_from 11 0 ''a'' no_gates = replicate 10 True @ [False]"
  by code_simp

end
