(* ===== verification/Final_Reveal.thy ===== *)
theory Final_Reveal
  imports Server_Configs
begin

text \<open>
  The roles that the server deals (\<open>game_service.go\<close>), as the page at the end of the game
  (\<open>components/game/RevealPage.tsx\<close>) shows them: which identifiers a deal can give, and what the page
  makes of them.
\<close>

section \<open>Identifiers that are dealt\<close>

text \<open>The built-in roles, those of the configuration, and the ones that fill up a team.\<close>

definition built_in :: "Go_Role list" where
  "built_in = [RoleBomber, RolePresident, RoleRedSpy, RoleBlueSpy, RoleRedOperative, RoleBlueOperative]"

definition may_be_dealt :: "Go_RoleDef list option \<Rightarrow> string \<Rightarrow> bool" where
  "may_be_dealt cfg i \<longleftrightarrow>
     i \<in> gro_id ` set built_in \<or> (\<exists>t. i = grd_id (basicRole t)) \<or> (case cfg of None \<Rightarrow> False | Some defs \<Rightarrow> i \<in> grd_id ` set defs)"

definition role_within :: "Go_RoleDef list option \<Rightarrow> Go_Role option \<Rightarrow> bool" where
  "role_within cfg x \<longleftrightarrow> (case x of None \<Rightarrow> False | Some r \<Rightarrow> may_be_dealt cfg (gro_id r))"

lemma three_within:
  assumes "mset (a @ b @ c) = mset [0..<length ps]" "\<And>k p. g (f1 k p) = F1 k" "\<And>k p. g (f2 k p) = F2 k" "\<And>k p. g (f3 k p) = F3 k"
    "\<And>k. P (F1 k)" "\<And>k. P (F2 k)" "\<And>k. P (F3 k)"
  shows "\<forall>x \<in> set (map g (write_each c f3 (write_each b f2 (write_each a f1 ps)))). P x"
proof -
  let ?xs = "map g (write_each c f3 (write_each b f2 (write_each a f1 ps)))"
  have "set ?xs = set_mset (mset ?xs)" by (rule set_mset_mset [symmetric])
  also have "\<dots> = set (map F1 [0..<length a] @ map F2 [0..<length b] @ map F3 [0..<length c])"
    using census_three [OF assms(1-4)] by (simp only: set_mset_mset)
  finally show ?thesis using assms(5-7) by auto
qed

lemma selected_ids: "d \<in> set (selectedDefs selected defs) \<Longrightarrow> grd_id d \<in> grd_id ` set defs"
  by (auto simp: selectedDefs_def List.map_filter_def image_iff split: if_splits option.splits) fastforce

lemma team_role_within:
  assumes "\<And>d. d \<in> set chosen \<Longrightarrow> grd_id d \<in> grd_id ` set defs"
  shows "may_be_dealt (Some defs) (gro_id (if k < length (team_roles n t chosen) then team_roles n t chosen ! k
    else createRoleFromConfig (defaultRole t chosen)))"
proof (cases "k < length (team_roles n t chosen)")
  case True
  then have "team_roles n t chosen ! k \<in> set (team_roles n t chosen)" by (rule nth_mem)
  then obtain d where "d \<in> set chosen" "team_roles n t chosen ! k = createRoleFromConfig d"
    by (auto simp: team_roles_def split: if_splits)
  then show ?thesis using True assms by (simp add: may_be_dealt_def createRoleFromConfig_def)
next
  case False
  have "defaultRole t chosen \<in> set chosen \<or> defaultRole t chosen = basicRole t"
    by (auto simp: defaultRole_def dest: find_in_set split: option.split)
  then show ?thesis using False assms by (auto simp: may_be_dealt_def createRoleFromConfig_def)
qed

lemma config_within:
  assumes "AssignRolesWithConfig dr cfg selected ps = Inr qs"
  shows "\<forall>x \<in> set (map gp_role qs). role_within cfg x"
proof -
  obtain defs where cfg: "cfg = Some defs" using assms by (cases cfg) (simp_all add: AssignRolesWithConfig_def)
  let ?ch = "selectedDefs selected defs" and ?n = "int (length ps)"
  obtain side order xs where q: "order = shuffle (dr_players dr) [0..<length ps]"
      "xs = write_each order (\<lambda>k p. p\<lparr>gp_team := Some (side k)\<rparr>) ps"
      "qs = assignTeamRoles (dr_grey dr) (on_side side order GREY) GREY ?n ?ch
        (assignTeamRoles (dr_blue dr) (on_side side order BLUE) BLUE ?n ?ch
          (assignTeamRoles (dr_red dr) (on_side side order RED) RED ?n ?ch xs))"
    using assms by (auto simp: cfg AssignRolesWithConfig_def Let_def split: if_splits)
  have m: "mset (shuffle (dr_red dr) (on_side side order RED) @ shuffle (dr_blue dr) (on_side side order BLUE) @
      shuffle (dr_grey dr) (on_side side order GREY)) = mset [0..<length xs]"
    using sides_are_all [of side order] by (simp add: q(1,2))
  have w: "role_within cfg (Some (if k < length (team_roles ?n t ?ch) then team_roles ?n t ?ch ! k
      else createRoleFromConfig (defaultRole t ?ch)))" for k t
    unfolding role_within_def option.case cfg by (rule team_role_within) (rule selected_ids)
  show ?thesis
    unfolding q(3) assignTeamRoles_def Let_def
    by (rule three_within [OF m], simp, simp, simp, rule w, rule w, rule w)
qed

lemma built_in_within:
  assumes "6 \<le> length ps"
  shows "\<forall>x \<in> set (map gp_role (AssignRoles rs bs (AssignTeams ts ps))). role_within cfg x"
proof -
  let ?xs = "map gp_role (AssignRoles rs bs (AssignTeams ts ps))"
  have "set ?xs = set_mset (mset ?xs)" by (rule set_mset_mset [symmetric])
  also have "\<dots> \<subseteq> Some ` set built_in"
    unfolding hard_census_dealt [OF assms] by (auto simp: hard_census_def Let_def built_in_def split: if_splits)
  finally show ?thesis by (auto simp: role_within_def may_be_dealt_def)
qed

lemma deal_within:
  assumes "6 \<le> length ps"
  shows "\<forall>x \<in> set (map gp_role (deal dr cfg selected ps)). role_within cfg x"
proof (cases "AssignRolesWithConfig dr cfg selected (AssignTeams (dr_teams dr) ps)")
  case (Inl e)
  then show ?thesis using built_in_within [OF assms] by (simp add: deal_def Let_def assign_keeps del: set_map)
next
  case (Inr qs)
  then show ?thesis using config_within [OF Inr] by (simp add: deal_def Let_def assign_keeps del: set_map)
qed

section \<open>The end page\<close>

text \<open>The end of a game without a winner and with all players alike, written out.\<close>

definition ordinary_card :: "Player \<Rightarrow> 'a node" where
  "ordinary_card p =
     El ''div'' [Style ''border'' (''3px solid '' @ player_hex p), Style ''boxShadow'' ''0 2px 4px rgba(0, 0, 0, 0.1)'']
      [El ''div'' []
        [El ''h3'' [] [Txt (nickname p)],
         El ''span'' [Style ''backgroundColor'' (player_hex p)]
          (case player_team p of None \<Rightarrow> [] | Some t \<Rightarrow> [Txt (team_text t)])],
       El ''div'' [Style ''backgroundColor'' (player_hex p @ ''15'')]
        (case player_role p of
           None \<Rightarrow> [El ''div'' [Style ''color'' (player_hex p)] [Txt ''No role'']]
         | Some r \<Rightarrow>
             El ''div'' [Style ''color'' (player_hex p)] [Txt (or_else (role_nameKo r) (or_else (Some (role_name r)) ''No role''))] #
             (if or_else (role_descriptionKo r) '''' = '''' then [] else [El ''div'' [] [Txt (or_else (role_descriptionKo r) '''')]]))]"

definition ordinary_room :: "Player list \<Rightarrow> RoomColor \<Rightarrow> 'a node list" where
  "ordinary_room ps c =
     (if ps = [] then []
      else [El ''div'' []
        [El ''h2'' [Style ''color'' (room_hex c)] [Txt (room_text c), Num (int (length ps))],
         El ''div'' [] (map ordinary_card ps)]])"

definition ordinary_end :: "Player list \<Rightarrow> string \<Rightarrow> 'a node" where
  "ordinary_end ps rc =
     El ''div'' []
      ([El ''div'' [] [El ''h1'' [] [Txt ''Roles revealed''], El ''p'' [] [Txt ''Room code: '', Txt rc]]] @
       ordinary_room (players_in RED_ROOM ps) RED_ROOM @ ordinary_room (players_in BLUE_ROOM ps) BLUE_ROOM)"

lemma ordinary_card: "\<not> plays ''president'' p \<Longrightarrow> \<not> plays ''bomber'' p \<Longrightarrow> render_revealed_player p = ordinary_card p"
  by (simp add: render_revealed_player_def ordinary_card_def shown_def Let_def split: option.split)

lemma ordinary_room:
  assumes "list_all (\<lambda>p. \<not> plays ''president'' p \<and> \<not> plays ''bomber'' p) ps"
  shows "renderRoom (players_in c ps) c = ordinary_room (players_in c ps) c"
proof -
  have e: "map render_revealed_player (players_in c ps) = map ordinary_card (players_in c ps)"
    using assms by (auto simp: list_all_iff players_in_def ordinary_card)
  show ?thesis unfolding renderRoom_def ordinary_room_def e by (simp only: length_0_conv)
qed

lemma ordinary_end:
  assumes "list_all (\<lambda>p. \<not> plays ''president'' p \<and> \<not> plays ''bomber'' p) ps"
  shows "getWinner ps = no_winner" "RevealPage ps rc = ordinary_end ps rc"
proof -
  show w: "getWinner ps = no_winner" by (rule no_winner_without) (use assms in \<open>simp add: list_all_iff\<close>)
  then have n: "fst (getWinner ps) = None" by (simp add: no_winner_def)
  show "RevealPage ps rc = ordinary_end ps rc"
    by (simp add: RevealPage_def ordinary_end_def ordinary_room [OF assms] getWinner_None [OF n])
qed

lemma shipped_ids: "list_all (\<lambda>d. grd_id d \<noteq> ''president'' \<and> grd_id d \<noteq> ''bomber'') (role_defs all_roles)"
  by code_simp

lemma within_shipped:
  assumes "role_within (config_loader [(''all-roles'', all_roles)] i) (gp_role p)"
  shows "\<not> plays ''president'' (page_player p) \<and> \<not> plays ''bomber'' (page_player p)"
proof -
  obtain r where r: "gp_role p = Some r" "may_be_dealt (config_loader [(''all-roles'', all_roles)] i) (gro_id r)"
    using assms by (auto simp: role_within_def split: option.splits)
  have b: "grd_id (basicRole t) \<noteq> ''president'' \<and> grd_id (basicRole t) \<noteq> ''bomber''" for t
    by (cases t) (simp_all add: basicRole_def go_team_def)
  have h: "\<forall>x \<in> set built_in. gro_id x \<noteq> ''president'' \<and> gro_id x \<noteq> ''bomber''" by code_simp
  have "gro_id r \<in> gro_id ` set built_in \<or> (\<exists>t. gro_id r = grd_id (basicRole t)) \<or> gro_id r \<in> grd_id ` set (role_defs all_roles)"
    using r(2) by (simp add: may_be_dealt_def config_loader_def GetConfig_def map_get_def split: if_splits) blast
  then have "gro_id r \<noteq> ''president'' \<and> gro_id r \<noteq> ''bomber''"
  proof (elim disjE exE imageE)
    fix t assume "gro_id r = grd_id (basicRole t)"
    then show ?thesis using b [of t] by simp
  qed (use h shipped_ids in \<open>simp_all add: list_all_iff\<close>)
  then show ?thesis by (simp add: plays_def page_player_def page_role_def r(1))
qed

text \<open>C37: At the end of a game on the server with the shipped configuration, whichever roles were chosen and
  however they were dealt, and in whatever rooms the players have ended up, the page names no winner
  and shows every player alike: the whole tree is the one without the box of the winner, and with the
  plain frame and no mark on any card, the president's and the bomber's included.\<close>

theorem no_winner_is_ever_shown:
  assumes "LoadAll dir (Some shipped_files) = Inr m" "6 \<le> length qs"
    "gp_role ` set ps \<subseteq> gp_role ` set (deal dr (config_loader m i) selected qs)"
  shows "getWinner (map page_player ps) = no_winner \<and>
    RevealPage (map page_player ps) rc = ordinary_end (map page_player ps) rc"
proof -
  have m: "m = [(''all-roles'', all_roles)]" using assms(1) by (simp add: shipped_loaded)
  have "role_within (config_loader m i) (gp_role p)" if "p \<in> set ps" for p
    using deal_within [OF assms(2), of dr "config_loader m i" selected] assms(3) that by auto
  then have "list_all (\<lambda>p. \<not> plays ''president'' p \<and> \<not> plays ''bomber'' p) (map page_player ps)"
    using within_shipped unfolding m by (auto simp: list_all_iff)
  from ordinary_end [OF this] show ?thesis by blast
qed

theorem no_winner_is_ever_shown_witness:
  "let ps = deal (wd_draws (plain_world '''')) (config_loader [(''all-roles'', all_roles)] ''all-roles'') [] six_players in
    getWinner (map page_player ps) = no_winner \<and>
    RevealPage (map page_player ps) ''ABCDEF'' = ordinary_end (map page_player ps) ''ABCDEF''"
  unfolding Let_def
  by (rule no_winner_is_ever_shown [OF shipped_loaded [of "''roles''"] _ subset_refl]) (simp add: six_players_def)

end
