(* ===== verification/Server_Upkeep.thy ===== *)
theory Server_Upkeep
  imports Vote_Registry
begin

text \<open>
  The rest of the services: the stopping of timers when the server is shut down
  (\<open>round_manager.go\<close>, \<open>cmd/server/main.go\<close>), the removal of old votes (\<open>voting_service.go\<close>), and the
  operations that no part of the server calls.
\<close>

section \<open>Timers and their lock\<close>

text \<open>
  The manager of rounds guards its timers with a lock that a goroutine cannot take twice: a goroutine
  that asks for the lock while it holds it waits for ever (\<open>None\<close>). An entry stays in the map when its
  goroutine has ended.
\<close>

record Manager =
  mg_held :: bool
  mg_timers :: "string list"

definition new_manager :: Manager where
  "new_manager = \<lparr>mg_held = False, mg_timers = []\<rparr>"

definition mg_lock :: "Manager \<Rightarrow> Manager option" where
  "mg_lock m = (if mg_held m then None else Some (m\<lparr>mg_held := True\<rparr>))"

definition mg_unlock :: "Manager \<Rightarrow> Manager" where
  "mg_unlock m = m\<lparr>mg_held := False\<rparr>"

definition stopTimer :: "string \<Rightarrow> Manager \<Rightarrow> Manager option" where
  "stopTimer sessionID m =
     map_option (\<lambda>m. mg_unlock (m\<lparr>mg_timers := removeAll sessionID (mg_timers m)\<rparr>)) (mg_lock m)"

definition enterTimer :: "string \<Rightarrow> Manager \<Rightarrow> Manager option" where
  "enterTimer sessionID m =
     Option.bind (stopTimer sessionID m)
       (\<lambda>m. map_option (\<lambda>m. mg_unlock (m\<lparr>mg_timers := mg_timers m @ [sessionID]\<rparr>)) (mg_lock m))"

text \<open>\<open>Cleanup\<close> goes through the map while it holds the lock.\<close>

fun stop_all :: "string list \<Rightarrow> Manager \<Rightarrow> Manager option" where
  "stop_all [] m = Some m"
| "stop_all (s # ss) m = Option.bind (stopTimer s m) (stop_all ss)"

definition Cleanup :: "Manager \<Rightarrow> Manager option" where
  "Cleanup m = Option.bind (mg_lock m) (\<lambda>m. map_option mg_unlock (stop_all (mg_timers m) m))"

text \<open>The timers of the rounds that are started, one after the other.\<close>

fun enter_all :: "string list \<Rightarrow> Manager \<Rightarrow> Manager option" where
  "enter_all [] m = Some m"
| "enter_all (s # ss) m = Option.bind (enterTimer s m) (enter_all ss)"

lemma enter_free: "\<not> mg_held m \<Longrightarrow> \<exists>m'. enterTimer s m = Some m' \<and> \<not> mg_held m' \<and> set (mg_timers m') = insert s (set (mg_timers m))"
  by (auto simp: enterTimer_def stopTimer_def mg_lock_def mg_unlock_def)

lemma enter_all_free:
  "\<not> mg_held m \<Longrightarrow> \<exists>m'. enter_all ss m = Some m' \<and> \<not> mg_held m' \<and> set (mg_timers m') = set ss \<union> set (mg_timers m)"
proof (induction ss arbitrary: m)
  case (Cons s ss)
  obtain m1 where m1: "enterTimer s m = Some m1" "\<not> mg_held m1" "set (mg_timers m1) = insert s (set (mg_timers m))"
    using enter_free [OF Cons.prems] by blast
  then show ?case using Cons.IH [OF m1(2)] by auto
qed simp

lemma cleanup_free: "\<not> mg_held m \<Longrightarrow> Cleanup m = (if mg_timers m = [] then Some m else None)"
  by (cases "mg_timers m") (simp_all add: Cleanup_def mg_lock_def mg_unlock_def stopTimer_def)

text \<open>C35: The server cannot be shut down in order once a game has been played: starting the timers of rounds
  never waits, but stopping them all at the end ends only if no round was ever started; otherwise
  \<open>Cleanup\<close> asks for the lock that it holds, and the server is never told to finish its requests.\<close>

theorem shutdown_waits_for_itself:
  "case enter_all ss new_manager of None \<Rightarrow> False | Some m \<Rightarrow> set (mg_timers m) = set ss \<and> (Cleanup m = None \<longleftrightarrow> ss \<noteq> [])"
proof -
  obtain m where m: "enter_all ss new_manager = Some m" "\<not> mg_held m" "set (mg_timers m) = set ss"
    using enter_all_free [of new_manager ss] by (auto simp: new_manager_def)
  then have "mg_timers m = [] \<longleftrightarrow> ss = []" by (metis set_empty)
  then show ?thesis using m cleanup_free [OF m(2)] by simp
qed

section \<open>Old votes\<close>

text \<open>Every ten seconds the sessions that began more than five minutes ago are removed; times in nanoseconds.\<close>

definition cleanupExpiredSessions :: "(string \<Rightarrow> int) \<Rightarrow> int \<Rightarrow> Server \<Rightarrow> Server" where
  "cleanupExpiredSessions instant now sv =
     sv\<lparr>sv_votes := (\<lambda>i. case sv_votes sv i of
          None \<Rightarrow> None
        | Some v \<Rightarrow> if now - instant (gv_startedAt v) > 5 * 60 * 10 ^ 9 then None else Some v)\<rparr>"

lemma young_votes_stay:
  "GetActiveVoteForRoom rc c sv = Some v \<Longrightarrow> now - instant (gv_startedAt v) \<le> 5 * 60 * 10 ^ 9 \<Longrightarrow>
    GetActiveVoteForRoom rc c (cleanupExpiredSessions instant now sv) = Some v"
  by (cases "sv_roomVotes sv (rc, c)") (auto simp: GetActiveVoteForRoom_def cleanupExpiredSessions_def split: option.splits if_splits)

section \<open>Operations that nothing calls\<close>

definition GetVoteSession :: "string \<Rightarrow> Server \<Rightarrow> string + Go_Vote" where
  "GetVoteSession vid sv = (case sv_votes sv vid of None \<Rightarrow> Inl ''vote session not found'' | Some v \<Rightarrow> Inr v)"

definition CanStartVote :: "string \<Rightarrow> RoomColor \<Rightarrow> Server \<Rightarrow> bool" where
  "CanStartVote rc c sv \<longleftrightarrow>
     (case Option.bind (sv_rooms sv rc) round_of of
        None \<Rightarrow> False
      | Some rs \<Rightarrow> rs_status rs \<noteq> SELECTING \<and> \<not> HasActiveVote rc c sv)"

lemma started_votes_could_start: "succeeds (GoStartVote w rc i l c sv) \<Longrightarrow> CanStartVote rc c sv"
  by (auto simp: GoStartVote_def CanStartVote_def succeeds_def fail_def split: option.splits if_splits)

definition CanTransferLeadership :: "string \<Rightarrow> Server \<Rightarrow> bool" where
  "CanTransferLeadership rc sv \<longleftrightarrow>
     (case Option.bind (sv_rooms sv rc) round_of of None \<Rightarrow> False | Some rs \<Rightarrow> rs_status rs \<noteq> SELECTING)"

definition GetLeader :: "string \<Rightarrow> RoomColor \<Rightarrow> Server \<Rightarrow> string + Go_Player" where
  "GetLeader rc c sv =
     (case sv_rooms sv rc of
        None \<Rightarrow> Inl ''room not found''
      | Some r \<Rightarrow>
          (case round_of r of
             None \<Rightarrow> Inl ''no active round''
           | Some rs \<Rightarrow>
               (case find_go (if c = RED_ROOM then redLeaderId rs else blueLeaderId rs) (gr_players r) of
                  None \<Rightarrow> Inl ''leader not found'' | Some p \<Rightarrow> Inr p)))"

text \<open>The message of \<open>EndRound\<close> is of a type that the server never sends otherwise: it is the result here.\<close>

definition EndRound :: "World \<Rightarrow> string \<Rightarrow> Server \<Rightarrow> RoundEndedPayload outcome" where
  "EndRound w rc sv =
     (case sv_rooms sv rc of
        None \<Rightarrow> fail ''room not found'' sv
      | Some r \<Rightarrow>
          (case (gr_session r, round_of r) of
             (Some g, Some rs) \<Rightarrow>
               (let final = (rs_roundNumber rs = 3);
                    r' = set_round (rs\<lparr>rs_endedAt := Some (wd_now w), rs_status := COMPLETE\<rparr>) r
                in done_with \<lparr>re_roundNumber = rs_roundNumber rs, finalRound = final,
                     nextPhase = (if final then ''REVEALING'' else ''ROUND_SETUP'')\<rparr>
                     ((put_room r' sv)\<lparr>sv_timers := map_delete (gs_id g) (sv_timers sv)\<rparr>) [])
           | _ \<Rightarrow> fail ''no active round'' sv))"

definition TransitionToExchanging :: "string \<Rightarrow> Server \<Rightarrow> unit outcome" where
  "TransitionToExchanging rc sv =
     (case sv_rooms sv rc of
        None \<Rightarrow> fail ''room not found'' sv
      | Some r \<Rightarrow>
          (case round_of r of
             None \<Rightarrow> fail ''no active round'' sv
           | Some rs \<Rightarrow> done_with () (put_room (set_round (rs\<lparr>rs_status := EXCHANGING\<rparr>) r) sv) []))"

definition TransferOwnership :: "World \<Rightarrow> string \<Rightarrow> string \<Rightarrow> Server \<Rightarrow> Go_Player outcome" where
  "TransferOwnership w rc oldOwnerID sv =
     (case sv_rooms sv rc of
        None \<Rightarrow> fail ''room not found'' sv
      | Some r \<Rightarrow>
          (case find (\<lambda>p. gp_id p \<noteq> oldOwnerID) (gr_players r) of
             None \<Rightarrow> fail ''no other players available to transfer ownership'' sv
           | Some new \<Rightarrow> done_with (new\<lparr>gp_isOwner := True\<rparr>)
               (put_room (r\<lparr>gr_players := map (\<lambda>p. p\<lparr>gp_isOwner := (gp_id p = gp_id new)\<rparr>) (gr_players r), gr_updatedAt := wd_now w\<rparr>) sv) []))"

text \<open>The pick among the other players of the room is any number, taken modulo how many they are.\<close>

definition AssignNewLeader :: "nat \<Rightarrow> string \<Rightarrow> RoomColor \<Rightarrow> string \<Rightarrow> Server \<Rightarrow> Go_Player outcome" where
  "AssignNewLeader pick rc c excludePlayerID sv =
     (case sv_rooms sv rc of
        None \<Rightarrow> fail ''room not found'' sv
      | Some r \<Rightarrow>
          (case round_of r of
             None \<Rightarrow> fail ''no active round'' sv
           | Some rs \<Rightarrow>
               (let ps = filter (\<lambda>p. gp_id p \<noteq> excludePlayerID) (in_color c (gr_players r)) in
                if ps = [] then fail ''no eligible players to become leader'' sv
                else (let p = ps ! (pick mod length ps)
                      in done_with p (put_room (set_round (set_leader c (gp_id p) rs) r) sv) []))))"

definition HandleLeaderDisconnect :: "World \<Rightarrow> nat \<Rightarrow> string \<Rightarrow> string \<Rightarrow> Server \<Rightarrow> unit outcome" where
  "HandleLeaderDisconnect w pick rc leaderID sv =
     (case sv_rooms sv rc of
        None \<Rightarrow> fail ''room not found'' sv
      | Some r \<Rightarrow>
          (case round_of r of
             None \<Rightarrow> fail ''no active round'' sv
           | Some rs \<Rightarrow>
               if redLeaderId rs \<noteq> leaderID \<and> blueLeaderId rs \<noteq> leaderID then done_with () sv []
               else
                 (let c = (if redLeaderId rs = leaderID then RED_ROOM else BLUE_ROOM);
                      old = map_option leader_info (find_go leaderID (gr_players r));
                      ps = filter (\<lambda>p. gp_id p \<noteq> leaderID) (in_color c (gr_players r))
                  in if ps = [] then fail ''no eligible players to become leader'' sv
                     else (let p = ps ! (pick mod length ps); r' = set_round (set_leader c (gp_id p) rs) r
                           in done_with () (put_room r' sv) [broadcastLeadershipChanged w r' c old (Some (leader_info p)) DISCONNECTION]))))"

definition ValidateSelections :: "string \<Rightarrow> Server \<Rightarrow> string + unit" where
  "ValidateSelections rc sv =
     (case sv_rooms sv rc of
        None \<Rightarrow> Inl ''room not found''
      | Some r \<Rightarrow>
          (case round_of r of
             None \<Rightarrow> Inl ''no active round''
           | Some rs \<Rightarrow>
               (let red = length (redHostages rs); blue = length (blueHostages rs) in
                if red = 0 then Inl ''red leader has not selected hostages''
                else if blue = 0 then Inl ''blue leader has not selected hostages''
                else if red \<noteq> blue then Inl (''unequal hostage counts: red='' @ nat_str red @ '' blue='' @ nat_str blue)
                else if int red \<noteq> hostageCount rs
                  then Inl (''incorrect hostage count: expected='' @ int_str (hostageCount rs) @ '' actual='' @ nat_str red)
                else Inr ())))"

definition GetSelectionStatus :: "string \<Rightarrow> Server \<Rightarrow> string + bool \<times> bool" where
  "GetSelectionStatus rc sv =
     (case sv_rooms sv rc of
        None \<Rightarrow> Inl ''room not found''
      | Some r \<Rightarrow>
          (case round_of r of None \<Rightarrow> Inl ''no active round'' | Some rs \<Rightarrow> Inr (redHostages rs \<noteq> [], blueHostages rs \<noteq> [])))"

lemma validated_selections_are_exchanged: "ValidateSelections rc sv = Inr () \<Longrightarrow> succeeds (executeExchange w rc sv)"
  by (auto simp: ValidateSelections_def executeExchange_def succeeds_def done_with_def Let_def split: option.splits if_splits)

text \<open>A leader who is replaced leaves the office to a player of the same room, and the other leader stays.\<close>

lemma pick_in: "ps \<noteq> [] \<Longrightarrow> ps ! (pick mod length ps) \<in> set ps"
  by simp

lemma new_leader_of_the_room:
  assumes "AssignNewLeader pick rc c i sv = (Inr p, sv', out)"
  shows "gp_room p = Some c \<and> gp_id p \<noteq> i \<and> out = [] \<and>
    (\<exists>r rs. sv_rooms sv rc = Some r \<and> round_of r = Some rs \<and> p \<in> set (gr_players r) \<and>
       sv' = put_room (set_round (set_leader c (gp_id p) rs) r) sv)"
proof -
  obtain r rs where r: "sv_rooms sv rc = Some r" "round_of r = Some rs"
    using assms by (auto simp: AssignNewLeader_def fail_def split: option.splits)
  let ?ps = "filter (\<lambda>p. gp_id p \<noteq> i) (in_color c (gr_players r))"
  have ps: "?ps \<noteq> []" "p = ?ps ! (pick mod length ?ps)" "out = []" "sv' = put_room (set_round (set_leader c (gp_id p) rs) r) sv"
    using assms by (auto simp: AssignNewLeader_def r fail_def done_with_def Let_def split: if_splits)
  have "p \<in> set ?ps" unfolding ps(2) by (rule pick_in [OF ps(1)])
  then show ?thesis using r ps(3,4) by (auto simp: in_color_def)
qed

lemma one_owner_after_transfer:
  assumes "TransferOwnership w rc old sv = (Inr p, sv', out)" "sv_rooms sv rc = Some r" "gr_code r = rc" "distinct (map gp_id (gr_players r))"
  shows "gp_id p \<noteq> old \<and> map_option (\<lambda>r. map gp_id (filter gp_isOwner (gr_players r))) (sv_rooms sv' rc) = Some [gp_id p]"
proof -
  obtain new where new: "find (\<lambda>p. gp_id p \<noteq> old) (gr_players r) = Some new"
    using assms(1,2) by (auto simp: TransferOwnership_def fail_def split: option.splits)
  have p: "gp_id p = gp_id new" "sv_rooms sv' rc = Some (r\<lparr>gr_players := map (\<lambda>p. p\<lparr>gp_isOwner := (gp_id p = gp_id new)\<rparr>) (gr_players r), gr_updatedAt := wd_now w\<rparr>)"
    using assms(1-3) new by (auto simp: TransferOwnership_def done_with_def put_room_def)
  have n: "gp_id new \<noteq> old" "new \<in> set (gr_players r)" using find_Some_iff_set [OF new] by simp_all
  have "map gp_id (filter (\<lambda>p. gp_id p = gp_id new) ps) = [gp_id new]" if "distinct (map gp_id ps)" "new \<in> set ps" for ps
    using that by (induction ps) (auto simp: filter_empty_conv image_iff)
  then show ?thesis using n assms(4) p by (simp add: filter_map comp_def)
qed

end
