(* ===== verification/Timer_Arc.thy ===== *)
theory Timer_Arc
  imports Complex_Main Lobby_Views
begin

text \<open>
  The arc that \<open>game/RoundTimer.tsx\<close> draws around the clock: a circle of which the part that has passed is
  left out. Lengths are real numbers, where the source computes with floating point.
\<close>

definition timer_size :: real where
  "timer_size = 120"

definition strokeWidth :: real where
  "strokeWidth = 10"

definition radius :: real where
  "radius = (timer_size - strokeWidth) / 2"

definition circumference :: real where
  "circumference = 2 * pi * radius"

definition progress :: "int \<Rightarrow> int \<Rightarrow> real" where
  "progress timeRemaining totalTime = of_int timeRemaining / of_int totalTime * 100"

definition arc_offset :: "int \<Rightarrow> int \<Rightarrow> real" where
  "arc_offset timeRemaining totalTime = circumference - progress timeRemaining totalTime / 100 * circumference"

lemma circumference_positive: "0 < circumference"
  by (simp add: circumference_def radius_def timer_size_def strokeWidth_def)

text \<open>The arc is the whole circle at the beginning and nothing at the end, and shrinks by the same length each second.\<close>

lemma arc_ends: "0 < T \<Longrightarrow> arc_offset T T = 0" "arc_offset 0 T = circumference"
  by (simp_all add: arc_offset_def progress_def)

lemma arc_second: "0 < T \<Longrightarrow> arc_offset (t - 1) T - arc_offset t T = circumference / of_int T"
  by (simp add: arc_offset_def progress_def field_simps)

lemma arc_bounds:
  assumes "0 < T" "0 \<le> t" "t \<le> T"
  shows "0 \<le> arc_offset t T \<and> arc_offset t T \<le> circumference"
proof -
  define q :: real where "q = of_int t / of_int T"
  have q: "0 \<le> q" "q \<le> 1" using assms by (simp_all add: q_def)
  have "arc_offset t T = (1 - q) * circumference"
    by (simp add: arc_offset_def progress_def q_def algebra_simps)
  moreover have "0 \<le> q * circumference" "0 \<le> (1 - q) * circumference"
    using q circumference_positive by simp_all
  ultimately show ?thesis by (simp add: algebra_simps)
qed

end
