(* ===== verification/Spec2Isabelle.thy ===== *)
theory Spec2Isabelle
  imports Reopening Delivery Leader_Panel Transfer_Modal Vote_Page Exchange_Animation Room_Roster Room_Log
    Role_Config Role_Lists Lobby_Views Home Room_Listing Vote_Registry Server_Hub
    Server_Gate Final_Reveal Server_Upkeep Timer_Arc
begin

text \<open>
  Two Rooms and a Boom is a party game played in two rooms. The repository holds the web client
  (\<open>frontend/src\<close>, TypeScript and React) that deals roles, runs the rounds, the exchange of hostages
  and the votes on leaders, and the server (\<open>backend\<close>, Go) that keeps the rooms. This development is
  about both, and about whether they agree. The browser and the user are
  the environment of the client: their answers, clicks and timers are inputs, in any order; so are
  the messages of the server, except where the two are put together.

  The parts and how they interact. \<open>hooks/useWebSocket.ts\<close> keeps one socket per room and hands the
  last message received to \<open>pages/RoomPage.tsx\<close>, which holds the state of the room, of the game and
  of the current vote, sends requests with \<open>services/api.ts\<close>, stores some entries in
  \<open>localStorage\<close>, and renders one of its screens. On the screens are components with a state of
  their own, which get properties from the page and call it back: the leader's panel, the dialog for
  handing over leadership, the vote, the overlay of an exchange, the history, the nickname editor and
  the sidebar of roles. The other pages are \<open>HomePage.tsx\<close> with the list of rooms and
  \<open>RoleConfigPage.tsx\<close>, which creates a room. On the other side the handlers of the server call its
  services, which change the rooms in its store, start jobs and timers, and send messages to the
  sockets of a room or of some of its players.

  How the model corresponds to the code. A component is a record of its \<open>useState\<close> and \<open>useRef\<close>
  values, a datatype of what can happen to it, one definition per handler or effect under the name
  that the source gives it, and a function from the state to the rendered tree (\<open>node\<close> in
  \<open>Prelude\<close>). An asynchronous handler is split at each \<open>await\<close>: the part before it records a call
  under way, the part after it takes the call and its answer. Only handlers of elements that the
  tree contains and does not disable can be triggered (\<open>offers\<close>, \<open>interact\<close>, \<open>session\<close>).

  Theories. \<open>Prelude\<close>: insertion-ordered sets and maps with their laws as locales, grouping, decimal
  numbers, white space, machines with invariants, interactive components, rendered trees.
  \<open>Game_Types\<close>: \<open>types/*.ts\<close>. \<open>Web_Socket\<close>: the hook. \<open>Api\<close>: the requests and errors.
  \<open>Hostage_Selection\<close>: the selection of hostages and the contract of a panel, as a locale, which
  \<open>Round_Timer_Panel\<close> and \<open>Leader_Panel\<close> keep. \<open>Transfer_Modal\<close>, \<open>Vote_Page\<close>, \<open>Exchange_Animation\<close>,
  \<open>Round_History\<close>, \<open>Role_Config\<close>, \<open>Role_Lists\<close> (sidebar and menu of modes), \<open>Reveal\<close> (role card, end
  page, separate reveal screen), \<open>Lobby_Views\<close> (frame, lists, clock, nickname editor), \<open>Timer_Arc\<close>
  (the arc around the clock) and \<open>Home\<close> (home page, list of rooms, code input, routes): the component of that name. \<open>Room_State\<close>,
  \<open>Room_Messages\<close>, \<open>Room_Handlers\<close>: the state, the message switch and the handlers of the room page,
  with its step \<open>page_step\<close>. \<open>Room_Frames\<close>: which fields each part leaves alone. \<open>Room_View\<close>: its
  screens. \<open>Room_App\<close>: the page with its components, as renders mount and drop them.
  \<open>Json_Reading\<close>: what the client reads from JSON. The server: \<open>Server_Messages\<close> (its data, messages and
  frames), \<open>Json_Text\<close> (\<open>JSON.parse\<close>, which reads them), \<open>Server_Roles\<close> (the deal), \<open>Server_Rooms\<close> (players, rounds, leaders, the game), \<open>Server_Games\<close>
  (votes, hostages, and the server as a machine of requests, jobs and seconds), \<open>Server_Tables\<close> (its
  abstract specification: the moves that each of its events makes), \<open>Server_Facts\<close> and \<open>Server_Votes\<close> (what its operations
  promise). \<open>Wire\<close>: the messages of the server as the client reads them. \<open>Delivery\<close>: their way through the frames of the
  socket to the page. \<open>Contract\<close>: the room page and the server put together. \<open>Reopening\<close>: the server's answers
  to requests that change nothing, and the page that is opened during a game. \<open>Room_Listing\<close>: the list of
  public rooms, from the store to the home page. \<open>Vote_Registry\<close>: the sessions of votes over whole runs.
  \<open>Server_Configs\<close>: the role configurations, how they are read, checked, loaded and handed out, with the
  file that is shipped. \<open>Server_Hub\<close>: the connections and the ways of a message to them. \<open>Server_Rates\<close>:
  the limits on requests. \<open>Server_Requests\<close>: the routes and handlers, from the client's requests to the
  services and back, and \<open>Server_Gate\<close>: the limits in front of them. \<open>Final_Reveal\<close>: what the end page
  makes of the roles that the server deals. \<open>Server_Upkeep\<close>: the end of the server, and the operations that nothing calls.

  What the lemmas show. \<open>Room_Facts\<close>: invariants of the page in all its runs, with the rule in the
  locale \<open>page_invariant\<close> (it joins once, shows at most two exchanges, never leaves its resetting
  state, never opens the dialog). \<open>Room_Roster\<close>: the list of players refines an abstract roster, by
  two interpretations of one locale. \<open>Room_Log\<close>: the history has every event once and survives a
  reload. \<open>Room_App\<close>: the requests that reach the server are legal on the screen that the player
  sees, the mounted components are those that the fields of the page call for and the tree offers
  exactly their actions, and what navigation loses. The panels: what they announce, whatever happens to
  the room meanwhile. \<open>Web_Socket\<close>: sockets, retries and their end. \<open>Delivery\<close>: what frames with several
  messages do to the page, and whether the roles of a new game reach their players. This theory: what
  becomes of the roles that the host chooses, and what a restored vote looks like. \<open>Wire\<close>: one codec per type of data, as
  interpretations of a locale, and the round trip of all messages and their texts. \<open>Server_Tables\<close>: every event of
  the server makes its own moves at a table and none at the others, and what all moves keep. \<open>Server_Votes\<close>: what is
  announced of an exchange, and what votes decide. \<open>Contract\<close>: the server's answer to every request
  that the page lets a player send, by one lemma per kind of request, and the exact conditions that the
  page does not check. \<open>Reopening\<close>: when a page that is
  opened again shows what the server holds, which is what \<open>Contract\<close> starts from. Some of these lemmas
  start from conditions that others establish: that the registered vote fits its room holds in all runs
  (\<open>Vote_Registry\<close>), that the roles of a configuration are distinct is what its check is for
  (\<open>Server_Configs\<close>), and the messages that \<open>Delivery\<close> takes for those of a player are the ones that the
  hub sends to the player's connection (\<open>Server_Hub\<close>). \<open>Room_Listing\<close> follows the list of rooms to the
  joins that the home page offers, and to what it gives away; \<open>Server_Rates\<close> bounds what gets through.
  \<open>Server_Requests\<close> shows that the requests of \<open>Contract\<close> are those that the client really sends, that
  their answers are read as what they say, and what a player is told of a refusal.

  Conventions and bounds. Strings are lists of one-byte characters, and case and white space are those
  of such characters; texts of the interface, Korean in the source, are given in English, and so is
  the name that the server gives to a player who joins. Identifiers
  and times are strings, numbers are unbounded integers, since none of them comes near the limits of
  the source's numbers. \<open>null\<close> entries that the source filters out of lists of players are not
  represented. Two messages are the same if their fields are, where the source compares their JSON
  texts. A change of the view in the address takes effect at once; the browser's own back button and
  edits of the address are not modelled. Fuel is used in \<open>Json_Text\<close> only, where twice the length of the
  text is proved to be enough (\<open>reading_ends\<close>): every function is total, and loops over time are
  lists of events. Numbers in JSON are integers. Calls under way may be answered in any order or never.

  Not modelled: constant styling and hover effects, \<open>main.tsx\<close> and
  the build files, the tests, the style sheets and the deployment files. Of the server: the keeping
  alive of a socket, the headers for browsers and the files of the client that it hands out; its clock,
  identifiers and random numbers, the order of its maps and the texts of its libraries' errors come from
  outside, and an operation runs without interruption, except that its locks are modelled where it
  waits for itself (\<open>Server_Upkeep\<close>). A component's
  call that the page has under way may settle in the component at any time after it began. The
  sidebar's reload when the configuration of a room changes while it is mounted is left out. The store
  also stamps the time of every change on a room (\<open>updatedAt\<close>), which the model sets only where an
  operation does so itself; nothing reads it. The limits of rates are composed with the routes in
  \<open>Server_Gate\<close>, the other theories are about requests that pass them; and the removal of old votes
  (\<open>Server_Upkeep\<close>) is not a step of the server's runs.
\<close>

section \<open>A vote that is restored\<close>

text \<open>When a page is opened during an election and the server's answer lists no candidates, the player
  is asked to remove the leader: whatever the type of the vote is, exactly a yes and a no can be
  cast; and the time shown is the full time of the vote, however long it has been open.\<close>

theorem restored_vote_is_a_removal:
  "let s' = open_vote (restored_vote (av\<lparr>av_candidates := None\<rparr>)) s;
       q = vote_page_props (restored_vote (av\<lparr>av_candidates := None\<rparr>)) p c s'
   in {v. VClick v \<in> set (offers (VotePage q (mount_vote_page q)))} =
        (if av_timeoutSeconds av = 0 then {} else {''YES'', ''NO''}) \<and>
      vt_timeRemaining (mount_vote_page q) = av_timeoutSeconds av"
  by (auto simp: Let_def set_offers_vote_page ballot_def isElection_def vote_page_props_def restored_vote_def
      open_vote_def set_view_def mount_vote_page_def)

section \<open>The roles that the host chooses\<close>

text \<open>
  A room as the page for choosing roles asks for it, which the players have joined, and the
  configuration that the server has loaded for it.
\<close>

definition chosen_room :: "Go_RoleDef list \<Rightarrow> Go_Room \<Rightarrow> bool" where
  "chosen_room defs r \<longleftrightarrow>
     legal_room (CallCreate (gr_maxPlayers r) (gr_isPublic r) (gr_roleConfigId r) (gr_selectedRoles r)) \<and>
     distinct (map grd_id defs) \<and> set (map fst (gr_selectedRoles r)) \<subseteq> set (map grd_id defs) \<and>
     gr_status r \<noteq> IN_PROGRESS \<and> 6 \<le> length (gr_players r) \<and> int (length (gr_players r)) \<le> gr_maxPlayers r"

lemma chosen_good:
  assumes "chosen_room defs r"
  shows "good_choice defs (gr_selectedRoles r)" "gr_maxPlayers r = sum_list (map snd (gr_selectedRoles r))"
    "gr_roleConfigId r = ''all-roles''" "gr_status r \<noteq> IN_PROGRESS" "6 \<le> length (gr_players r)"
  using assms
  by (auto simp: chosen_room_def legal_room_def legal_selection_def good_choice_def list_all_iff)

text \<open>C15: The roles that the host chooses are dealt exactly as chosen if the room is full when the game
  starts. The game may start with fewer players, but then the choice is dropped without a word, and
  the players are dealt the built-in roles for their number.\<close>

theorem chosen_roles_need_a_full_room:
  assumes "sv_rooms sv rc = Some r" "gr_code r = rc" "chosen_room defs r" "loader ''all-roles'' = Some defs"
  shows "case GoStartGame loader w rc sv of (x, sv', out) \<Rightarrow>
      map_option (\<lambda>r'. dealt (gr_players r')) (sv_rooms sv' rc) =
        Some (if int (length (gr_players r)) = gr_maxPlayers r
              then mset (concat (map (\<lambda>(i, k). replicate (nat k) (Some i)) (gr_selectedRoles r)))
              else image_mset (Some \<circ> gro_id) (hard_census (length (gr_players r))))"
proof -
  note c = chosen_good [OF assms(3)]
  obtain r' where r': "sv_rooms (fst (snd (GoStartGame loader w rc sv))) rc = Some r'"
      "gr_players r' = deal (wd_draws w) (Some defs) (gr_selectedRoles r) (gr_players r)"
    using start_game_messages [OF assms(1,2) c(4,5), of loader w] c(3) assms(4) by auto
  have "int (length (gr_players r)) \<le> gr_maxPlayers r" using assms(3) by (simp add: chosen_room_def)
  then have "dealt (gr_players r') = (if int (length (gr_players r)) = gr_maxPlayers r
      then mset (concat (map (\<lambda>(i, k). replicate (nat k) (Some i)) (gr_selectedRoles r)))
      else image_mset (Some \<circ> gro_id) (hard_census (length (gr_players r))))"
    using dealt_full [OF c(1)] dealt_short [OF c(1) _ c(5)] by (simp add: r'(2) c(2))
  then show ?thesis using r'(1) by (auto split: prod.split)
qed

definition six_roles :: "Go_RoleDef list" where
  "six_roles = map (\<lambda>(i, t). (basicRole t)\<lparr>grd_id := i\<rparr>)
     [(''PRESIDENT'', BLUE), (''BOMBER'', RED), (''RED_OPERATIVE'', RED), (''BLUE_OPERATIVE'', BLUE)]"

definition room_of_choice :: "Go_Room" where
  "room_of_choice = (lobby_of six_players)\<lparr>gr_maxPlayers := 8, gr_roleConfigId := ''all-roles'',
     gr_selectedRoles := [(''PRESIDENT'', 1), (''BOMBER'', 1), (''RED_OPERATIVE'', 3), (''BLUE_OPERATIVE'', 3)]\<rparr>"

lemma room_of_choice: "chosen_room six_roles room_of_choice" "gr_code room_of_choice = ''ABCDEF''"
  by (simp_all add: chosen_room_def room_of_choice_def legal_room_def legal_selection_def six_roles_def lobby_of_def six_players_def map_get_def)

theorem chosen_roles_need_a_full_room_witness:
  "case GoStartGame (\<lambda>_. Some six_roles) (plain_world ''g'') ''ABCDEF'' (put_room room_of_choice empty_server) of (x, sv', out) \<Rightarrow>
      map_option (\<lambda>r'. dealt (gr_players r')) (sv_rooms sv' ''ABCDEF'') =
        Some (if int (length (gr_players room_of_choice)) = gr_maxPlayers room_of_choice
              then mset (concat (map (\<lambda>(i, k). replicate (nat k) (Some i)) (gr_selectedRoles room_of_choice)))
              else image_mset (Some \<circ> gro_id) (hard_census (length (gr_players room_of_choice))))"
  by (rule chosen_roles_need_a_full_room [OF _ room_of_choice(2,1)]) (simp_all add: put_room_def room_of_choice(2))

end
